(* ===== verification/Prelude.thy ===== *)
theory Prelude
  imports Complex_Main "HOL-Library.AList" "HOL-Library.Sublist" "HOL-Library.Multiset"
begin

text \<open>
  Shared vocabulary of the development: the types that stand for Go's built-in types, the
  string functions of the Go standard library that the sources call (decimal formatting,
  case folding, substring search, blankness), Go maps in one iteration order as association
  lists, and the generic lemmas the component theories rely on.

  \<^item> \<open>float64\<close> is \<^typ>\<open>rat\<close>: every finite binary64 value is a rational and all comparisons
    are exact; rounding of sums and products and the non-finite values are not modelled.
  \<^item> \<open>int\<close> and \<open>int64\<close> are \<^typ>\<open>int\<close>; the modelled counters are bounded by list lengths
    and configured limits, far below the machine range.
  \<^item> a \<open>string\<close> is its list of bytes, so indices and lengths are byte indices as in Go.
  \<^item> a Go map is an association list with distinct keys: the list order stands for the
    iteration order of one execution, which Go leaves unspecified.
\<close>

section \<open>Types\<close>

type_synonym float64 = rat
type_synonym int64 = int
type_synonym timestamp = int
type_synonym ('k, 'v) gomap = "('k \<times> 'v) list"

named_theorems wf_simps \<open>unfolding of the well-formedness predicates\<close>
named_theorems keep \<open>frame facts: what an operation leaves unchanged\<close>

section \<open>Results of fallible operations\<close>

definition is_ok :: "'e + 'a \<Rightarrow> bool" where
  "is_ok r = (case r of Inl _ \<Rightarrow> False | Inr _ \<Rightarrow> True)"

lemma is_ok_simps [simp]: "is_ok (Inr a)" "\<not> is_ok (Inl e)"
  by (simp_all add: is_ok_def)

lemma is_okE [elim]:
  assumes "is_ok r"
  obtains a where "r = Inr a"
  using assms by (cases r) auto

text \<open>The first error of a loop that checks every element and returns early.\<close>

fun check_all :: "('a \<Rightarrow> 'e option) \<Rightarrow> 'a list \<Rightarrow> 'e option" where
  "check_all f [] = None"
| "check_all f (x # xs) = (case f x of Some e \<Rightarrow> Some e | None \<Rightarrow> check_all f xs)"

lemma check_all_None_iff: "check_all f xs = None \<longleftrightarrow> (\<forall>x \<in> set xs. f x = None)"
  by (induction xs) (auto split: option.splits)

lemma check_all_SomeD: "check_all f xs = Some e \<Longrightarrow> \<exists>x \<in> set xs. f x = Some e"
  by (induction xs) (auto split: option.splits)

section \<open>Decimal formatting: \<open>%d\<close> and \<open>%03d\<close>\<close>

definition digit_char :: "nat \<Rightarrow> char" where
  "digit_char d = char_of (48 + d)"

fun nat_str :: "nat \<Rightarrow> string" where
  "nat_str n = (if n < 10 then [digit_char n] else nat_str (n div 10) @ [digit_char (n mod 10)])"

declare nat_str.simps [simp del]

definition itoa :: "int \<Rightarrow> string" where
  "itoa i = (if i < 0 then CHR ''-'' # nat_str (nat (- i)) else nat_str (nat i))"

definition zero_pad :: "nat \<Rightarrow> string \<Rightarrow> string" where
  "zero_pad w s = replicate (w - length s) (CHR ''0'') @ s"

definition fmt_03d :: "int \<Rightarrow> string" where
  "fmt_03d i = (if i < 0 then CHR ''-'' # zero_pad 2 (nat_str (nat (- i)))
                else zero_pad 3 (nat_str (nat i)))"

definition char_digit :: "char \<Rightarrow> nat" where
  "char_digit c = of_char c - 48"

definition str_nat :: "string \<Rightarrow> nat" where
  "str_nat s = foldl (\<lambda>n c. 10 * n + char_digit c) 0 s"

lemma char_digit_digit [simp]: "d < 10 \<Longrightarrow> char_digit (digit_char d) = d"
  by (simp add: char_digit_def digit_char_def)

lemma str_nat_snoc: "str_nat (s @ [c]) = 10 * str_nat s + char_digit c"
  by (simp add: str_nat_def)

lemma str_nat_nat_str [simp]: "str_nat (nat_str n) = n"
proof (induction n rule: nat_str.induct)
  case (1 n)
  show ?case
  proof (cases "n < 10")
    case True
    then show ?thesis by (subst nat_str.simps) (simp add: str_nat_def)
  next
    case False
    then have "str_nat (nat_str n) = 10 * (n div 10) + n mod 10"
      using 1 by (subst nat_str.simps) (simp add: str_nat_snoc)
    then show ?thesis by simp
  qed
qed

lemma str_nat_zeros: "str_nat (replicate k (CHR ''0'') @ s) = str_nat s"
  by (induction k) (simp_all add: str_nat_def char_digit_def)

lemma nat_str_inject [simp]: "nat_str m = nat_str n \<longleftrightarrow> m = n"
  by (metis str_nat_nat_str)

lemma str_nat_zero_pad [simp]: "str_nat (zero_pad w s) = str_nat s"
  by (simp add: zero_pad_def str_nat_zeros)

lemma nat_str_nonempty [simp]: "nat_str n \<noteq> []"
  by (subst nat_str.simps) simp

lemma set_nat_str: "set (nat_str n) \<subseteq> digit_char ` {..<10}"
proof (induction n rule: nat_str.induct)
  case (1 n)
  then show ?case by (subst nat_str.simps) auto
qed

lemma digit_char_inj: "a < 10 \<Longrightarrow> b < 10 \<Longrightarrow> digit_char a = digit_char b \<Longrightarrow> a = b"
  by (metis char_digit_digit)

lemma fmt_03d_inject: "0 \<le> i \<Longrightarrow> 0 \<le> j \<Longrightarrow> fmt_03d i = fmt_03d j \<longleftrightarrow> i = j"
proof
  assume "0 \<le> i" "0 \<le> j" "fmt_03d i = fmt_03d j"
  then have "zero_pad 3 (nat_str (nat i)) = zero_pad 3 (nat_str (nat j))"
    by (simp add: fmt_03d_def)
  then have "nat i = nat j"
    by (metis str_nat_nat_str str_nat_zero_pad)
  with \<open>0 \<le> i\<close> \<open>0 \<le> j\<close> show "i = j" by simp
qed simp

section \<open>Go string functions\<close>

fun str_contains :: "string \<Rightarrow> string \<Rightarrow> bool" where
  "str_contains [] sub = (sub = [])"
| "str_contains (c # s) sub = (prefix sub (c # s) \<or> str_contains s sub)"

lemma str_contains_iff: "str_contains s sub \<longleftrightarrow> sublist sub s"
proof (induction s)
  case Nil
  show ?case by simp
next
  case (Cons c s)
  then show ?case by (simp add: sublist_Cons_right)
qed

text \<open>ASCII part of \<^verbatim>\<open>strings.ToLower\<close>; bytes of multi-byte code points are left alone.\<close>

definition char_lower :: "char \<Rightarrow> char" where
  "char_lower c = (let n = of_char c :: nat in if 65 \<le> n \<and> n \<le> 90 then char_of (n + 32) else c)"

definition str_lower :: "string \<Rightarrow> string" where
  "str_lower s = map char_lower s"

text \<open>
  \<^verbatim>\<open>strings.TrimSpace(s) == ""\<close>: the string consists of the UTF-8 encodings of the code
  points that \<^verbatim>\<open>unicode.IsSpace\<close> accepts.
\<close>

definition space_seqs :: "nat list list" where
  "space_seqs = [[9], [10], [11], [12], [13], [32], [194, 133], [194, 160], [225, 154, 128],
     [226, 128, 128], [226, 128, 129], [226, 128, 130], [226, 128, 131], [226, 128, 132],
     [226, 128, 133], [226, 128, 134], [226, 128, 135], [226, 128, 136], [226, 128, 137],
     [226, 128, 138], [226, 128, 168], [226, 128, 169], [226, 128, 175], [226, 129, 159],
     [227, 128, 128]]"

function is_blank :: "string \<Rightarrow> bool" where
  "is_blank s = (if s = [] then True
     else case find (\<lambda>q. prefix (map char_of q) s) space_seqs of
        None \<Rightarrow> False
      | Some q \<Rightarrow> is_blank (drop (length q) s))"
  by pat_completeness auto
termination
proof (relation "measure length")
  fix s :: string and q
  assume s: "s \<noteq> []" and f: "find (\<lambda>q. prefix (map char_of q) s) space_seqs = Some q"
  from f have "q \<in> set space_seqs" by (auto simp: find_Some_iff)
  then have "0 < length q" by (auto simp: space_seqs_def)
  with s show "(drop (length q) s, s) \<in> measure length" by simp
qed simp

declare is_blank.simps [simp del]

section \<open>Lists\<close>

text \<open>\<^verbatim>\<open>xs[i]\<close> guarded by \<^verbatim>\<open>i < len(xs)\<close>.\<close>

definition nth_opt :: "'a list \<Rightarrow> nat \<Rightarrow> 'a option" where
  "nth_opt xs i = (if i < length xs then Some (xs ! i) else None)"

lemma nth_opt_Some_iff: "nth_opt xs i = Some x \<longleftrightarrow> i < length xs \<and> xs ! i = x"
  by (auto simp: nth_opt_def)

lemma nth_opt_simps [simp]:
  "nth_opt [] i = None"
  "nth_opt (x # xs) 0 = Some x"
  "nth_opt (x # xs) (Suc i) = nth_opt xs i"
  by (simp_all add: nth_opt_def)

text \<open>The slots of a slice of pointers that are not nil.\<close>

definition somes :: "'a option list \<Rightarrow> 'a list" where
  "somes xs = List.map_filter id xs"

lemma somes_simps [simp]:
  "somes [] = []" "somes (None # xs) = somes xs" "somes (Some x # xs) = x # somes xs"
  by (simp_all add: somes_def List.map_filter_def)

lemma set_somes: "set (somes xs) = {x. Some x \<in> set xs}"
  by (induction xs) (auto split: option.splits simp: somes_def List.map_filter_def)

lemma somes_append [simp]: "somes (xs @ ys) = somes xs @ somes ys"
  by (simp add: somes_def List.map_filter_def)

lemma length_somes: "length (somes xs) = length (filter (\<lambda>x. x \<noteq> None) xs)"
  by (induction xs) (auto split: option.splits simp: somes_def List.map_filter_def)

end
