(* ===== verification/Entity.thy ===== *)
theory Entity
  imports Prelude
begin

text \<open>
  The data model of \<^verbatim>\<open>backend/domain/entity\<close>: the aggregate root (\<open>DecisionCase\<close>), agent
  configuration, evidence, claims, votes, reflections, resolutions and events, with the
  operations the package defines on them.

  A Go string enumeration \<^verbatim>\<open>type T string\<close> with declared constants is a datatype with one
  constructor per constant and a constructor \<open>Other\<close> for every other string, the zero value
  \<^verbatim>\<open>""\<close> included. A struct is a record whose field names carry a prefix per struct; a pointer
  is an \<open>option\<close>; a slice is a list. The dissent slice of a resolution is an optional list,
  because the code distinguishes nil from empty there. Times are nanosecond counts.
\<close>

section \<open>Case\<close>

datatype CaseStatus =
    CaseStatusDraft | CaseStatusNormalizing | CaseStatusContextBuilding
  | CaseStatusRetrievingMemory | CaseStatusInvestigating | CaseStatusEvidenceGating
  | CaseStatusCollectingVotes | CaseStatusConsensusCheck | CaseStatusResolving
  | CaseStatusGeneratingReport | CaseStatusSavingMemory | CaseStatusEvaluating
  | CaseStatusDebating | CaseStatusReflecting | CaseStatusRevoting | CaseStatusResolved
  | CaseStatusMemoryIndexed | CaseStatusFailed | CaseStatusCancelled | CaseStatusTimedOut
  | CaseStatusInsufficientEv | CaseStatusDeadlocked | CaseStatusPaused
  | CaseStatusOther string

abbreviation CaseStatusZero :: CaseStatus where
  "CaseStatusZero \<equiv> CaseStatusOther []"

fun status_str :: "CaseStatus \<Rightarrow> string" where
  "status_str CaseStatusDraft = ''DRAFT''"
| "status_str CaseStatusNormalizing = ''NORMALIZING''"
| "status_str CaseStatusContextBuilding = ''CONTEXT_BUILDING''"
| "status_str CaseStatusRetrievingMemory = ''RETRIEVING_MEMORY''"
| "status_str CaseStatusInvestigating = ''INVESTIGATING''"
| "status_str CaseStatusEvidenceGating = ''EVIDENCE_GATING''"
| "status_str CaseStatusCollectingVotes = ''COLLECTING_VOTES''"
| "status_str CaseStatusConsensusCheck = ''CONSENSUS_CHECK''"
| "status_str CaseStatusResolving = ''RESOLVING''"
| "status_str CaseStatusGeneratingReport = ''GENERATING_REPORT''"
| "status_str CaseStatusSavingMemory = ''SAVING_MEMORY''"
| "status_str CaseStatusEvaluating = ''EVALUATING''"
| "status_str CaseStatusDebating = ''DEBATING''"
| "status_str CaseStatusReflecting = ''REFLECTING''"
| "status_str CaseStatusRevoting = ''REVOTING''"
| "status_str CaseStatusResolved = ''RESOLVED''"
| "status_str CaseStatusMemoryIndexed = ''MEMORY_INDEXED''"
| "status_str CaseStatusFailed = ''FAILED''"
| "status_str CaseStatusCancelled = ''CANCELLED''"
| "status_str CaseStatusTimedOut = ''TIMED_OUT''"
| "status_str CaseStatusInsufficientEv = ''INSUFFICIENT_EVIDENCE''"
| "status_str CaseStatusDeadlocked = ''DEADLOCKED''"
| "status_str CaseStatusPaused = ''PAUSED''"
| "status_str (CaseStatusOther s) = s"

record Constraint =
  con_Key :: string
  con_Value :: string
  con_Hard :: bool

record DecisionCase =
  c_ID :: string
  c_UserID :: int64
  c_Question :: string
  c_Context :: string
  c_Constraints :: "Constraint list"
  c_ParentCaseID :: string
  c_Status :: CaseStatus
  c_CurrentPhase :: string
  c_Pinned :: bool
  c_Archived :: bool
  c_ExecutionAttempt :: int
  c_ExecutionGeneration :: int64
  c_PausedFromStatus :: CaseStatus
  c_MaxDebateRounds :: int
  c_Deadline :: "timestamp option"
  c_CreatedAt :: timestamp
  c_UpdatedAt :: timestamp

datatype generation_error = NegativeGeneration int64

definition ValidateExecutionGeneration :: "DecisionCase \<Rightarrow> generation_error option" where
  "ValidateExecutionGeneration c =
     (if c_ExecutionGeneration c < 0 then Some (NegativeGeneration (c_ExecutionGeneration c))
      else None)"

section \<open>Agent codes\<close>

type_synonym MagiCode = string

definition MagiCodeMelchior :: MagiCode where "MagiCodeMelchior = ''melchior''"
definition MagiCodeBalthasar :: MagiCode where "MagiCodeBalthasar = ''balthasar''"
definition MagiCodeCasper :: MagiCode where "MagiCodeCasper = ''casper''"
definition MagiCodeCommander :: MagiCode where "MagiCodeCommander = ''commander''"

lemmas MagiCode_defs =
  MagiCodeMelchior_def MagiCodeBalthasar_def MagiCodeCasper_def MagiCodeCommander_def

section \<open>Role contract\<close>

record RolePolicy =
  rp_Role :: string
  rp_EnforceAssessment :: bool
  rp_RequiredAssessment :: string
  rp_MaxResidualRisk :: float64
  rp_MinTechnicalScore :: float64
  rp_MinOpportunityScore :: float64
  rp_MinWeightedUtilityScore :: float64
  rp_DebateDirective :: string

definition RoleAssessmentTechnical :: string where "RoleAssessmentTechnical = ''technical''"
definition RoleAssessmentRisk :: string where "RoleAssessmentRisk = ''risk''"
definition RoleAssessmentOpportunity :: string where "RoleAssessmentOpportunity = ''opportunity''"

lemmas RoleAssessment_defs =
  RoleAssessmentTechnical_def RoleAssessmentRisk_def RoleAssessmentOpportunity_def

definition DefaultRolePolicy :: "string \<Rightarrow> RolePolicy" where
  "DefaultRolePolicy code =
     (if code = MagiCodeMelchior then
        \<lparr> rp_Role = code, rp_EnforceAssessment = True,
          rp_RequiredAssessment = RoleAssessmentTechnical,
          rp_MaxResidualRisk = 0, rp_MinTechnicalScore = 60, rp_MinOpportunityScore = 0,
          rp_MinWeightedUtilityScore = 60,
          rp_DebateDirective = ''Audit the disputed claims with quantitative and technical evidence; expose assumptions, benchmarks, and feasibility blockers.'' \<rparr>
      else if code = MagiCodeBalthasar then
        \<lparr> rp_Role = code, rp_EnforceAssessment = True,
          rp_RequiredAssessment = RoleAssessmentRisk,
          rp_MaxResidualRisk = 35 / 100, rp_MinTechnicalScore = 0, rp_MinOpportunityScore = 0,
          rp_MinWeightedUtilityScore = 60,
          rp_DebateDirective = ''Stress-test the proposal's worst case, reversibility, rollback path, operational failure modes, and residual risk.'' \<rparr>
      else if code = MagiCodeCasper then
        \<lparr> rp_Role = code, rp_EnforceAssessment = True,
          rp_RequiredAssessment = RoleAssessmentOpportunity,
          rp_MaxResidualRisk = 0, rp_MinTechnicalScore = 0, rp_MinOpportunityScore = 60,
          rp_MinWeightedUtilityScore = 60,
          rp_DebateDirective = ''Look for the strongest opportunity, timing advantage, user signal, and opportunity cost of waiting or choosing the alternative.'' \<rparr>
      else
        \<lparr> rp_Role = code, rp_EnforceAssessment = False, rp_RequiredAssessment = [],
          rp_MaxResidualRisk = 0, rp_MinTechnicalScore = 0, rp_MinOpportunityScore = 0,
          rp_MinWeightedUtilityScore = 0, rp_DebateDirective = [] \<rparr>)"

record DimensionAssessment =
  da_DimensionCode :: string
  da_Score :: "float64 option"
  da_EvidenceIDs :: "string list"
  da_Reasoning :: string

record TechnicalAssessment =
  ta_FeasibilityScore :: "float64 option"
  ta_QuantitativeEvidenceIDs :: "string list"
  ta_Assumptions :: "string list"
  ta_Blockers :: "string list"

record RiskAssessment =
  ra_WorstCase :: string
  ra_ResidualRisk :: "float64 option"
  ra_ReversibilityScore :: "float64 option"
  ra_RollbackPlan :: string
  ra_RiskEvidenceIDs :: "string list"

record OpportunityAssessment =
  oa_OpportunityScore :: "float64 option"
  oa_TimeWindow :: string
  oa_OpportunityCost :: string
  oa_UserSignalEvidenceIDs :: "string list"

record RoleAssessment =
  DimensionAssessments :: "DimensionAssessment list"
  Technical :: "TechnicalAssessment option"
  Risk :: "RiskAssessment option"
  Opportunity :: "OpportunityAssessment option"

section \<open>Evidence summary and vote\<close>

record EvidenceSummaryClaim =
  sc_Statement :: string
  sc_Supports :: "string list"
  sc_Contradicts :: "string list"

record EvidenceSummary =
  s_EvidenceByType :: "(string, string list) gomap"
  s_Claims :: "EvidenceSummaryClaim list"
  s_RoleAssessment :: "RoleAssessment option"
  s_Ready :: bool

datatype VoteDecision =
    VoteDecisionApprove | VoteDecisionReject | VoteDecisionAbstain
  | VoteDecisionConditionalApprove | VoteDecisionOther string

abbreviation VoteDecisionZero :: VoteDecision where
  "VoteDecisionZero \<equiv> VoteDecisionOther []"

fun decision_str :: "VoteDecision \<Rightarrow> string" where
  "decision_str VoteDecisionApprove = ''approve''"
| "decision_str VoteDecisionReject = ''reject''"
| "decision_str VoteDecisionAbstain = ''abstain''"
| "decision_str VoteDecisionConditionalApprove = ''conditional_approve''"
| "decision_str (VoteDecisionOther s) = s"

record UtilityDimensionScore =
  us_DimensionCode :: string
  us_Score :: float64
  us_EvidenceIDs :: "string list"
  us_ClaimIDs :: "string list"
  us_Reasoning :: string

record DecisionCondition =
  dc_Statement :: string
  dc_MustHold :: bool

record Vote =
  v_ID :: string
  v_CaseID :: string
  v_ExecutionGeneration :: int64
  v_AgentRunID :: string
  v_Round :: int
  v_Decision :: VoteDecision
  v_Confidence :: float64
  v_UtilityScores :: "UtilityDimensionScore list"
  v_KeyClaimIDs :: "string list"
  v_EvidenceIDs :: "string list"
  v_ReasoningSummary :: string
  v_Conditions :: "DecisionCondition list"
  v_CreatedAt :: timestamp

definition NormalizeConfidence :: "float64 \<Rightarrow> float64" where
  "NormalizeConfidence v0 =
     (let v = (if v0 > 0 \<and> v0 \<le> 1 then v0 * 100 else v0)
      in if v < 0 then 0 else if v > 100 then 100 else v)"

fun IsValidVoteDecision :: "VoteDecision \<Rightarrow> bool" where
  "IsValidVoteDecision VoteDecisionApprove = True"
| "IsValidVoteDecision VoteDecisionReject = True"
| "IsValidVoteDecision VoteDecisionAbstain = True"
| "IsValidVoteDecision VoteDecisionConditionalApprove = True"
| "IsValidVoteDecision (VoteDecisionOther _) = False"

datatype AbsenceKind =
  AbsenceAgentFailed | AbsenceTimeout | AbsenceCancelled | AbsenceMissing | AbsenceInvalid

fun absence_kind_str :: "AbsenceKind \<Rightarrow> string" where
  "absence_kind_str AbsenceAgentFailed = ''agent_failed''"
| "absence_kind_str AbsenceTimeout = ''timeout''"
| "absence_kind_str AbsenceCancelled = ''cancelled''"
| "absence_kind_str AbsenceMissing = ''missing''"
| "absence_kind_str AbsenceInvalid = ''invalid''"

record AgentAbsence =
  aa_AgentCode :: MagiCode
  aa_Kind :: AbsenceKind
  aa_Reason :: string

definition AgentAbsence_String :: "AgentAbsence \<Rightarrow> string" where
  "AgentAbsence_String a =
     aa_AgentCode a @ '' ('' @ absence_kind_str (aa_Kind a) @ ''): '' @ aa_Reason a"

section \<open>Agent configuration\<close>

record UtilityDimension =
  ud_Code :: string
  ud_Description :: string
  ud_Weight :: float64

record ObjectiveFunction =
  Dimensions :: "UtilityDimension list"

record EvidenceTypeRequirement =
  et_Type :: string
  et_MinCount :: int

record EvidenceRule =
  er_Code :: string
  er_Expr :: string

record EvidenceStandard =
  es_MinEvidenceCount :: int
  es_MinQuantitativeCount :: int
  es_MinReliability :: float64
  es_RequireOwnCollected :: bool
  es_RequiredEvidenceTypes :: "string list"
  es_RequiredTypes :: "EvidenceTypeRequirement list"
  es_RequiredClaimCount :: int
  es_CustomRules :: "EvidenceRule list"

datatype RiskTendency =
    RiskTendencyNeutral | RiskTendencyConservative | RiskTendencyAggressive
  | RiskTendencyEvidenceCalibrated | RiskTendencyOther string

record RiskPolicy =
  rk_Tendency :: RiskTendency
  rk_MaxAcceptableRisk :: float64

record PersonaDefinition =
  pd_SystemPrompt :: string
  pd_Voice :: string

datatype ToolSource =
    ToolSourcePlugin | ToolSourceLocal | ToolSourceKnowledge | ToolSourceWorkflow
  | ToolSourceCodeRunner | ToolSourceMCP | ToolSourceOther string

fun tool_source_str :: "ToolSource \<Rightarrow> string" where
  "tool_source_str ToolSourcePlugin = ''plugin''"
| "tool_source_str ToolSourceLocal = ''local''"
| "tool_source_str ToolSourceKnowledge = ''knowledge''"
| "tool_source_str ToolSourceWorkflow = ''workflow''"
| "tool_source_str ToolSourceCodeRunner = ''coderunner''"
| "tool_source_str ToolSourceMCP = ''mcp''"
| "tool_source_str (ToolSourceOther s) = s"

record ToolBinding =
  tb_Source :: ToolSource
  tb_PluginID :: int64
  tb_ToolID :: int64
  tb_IsDraft :: bool
  tb_ToolName :: string
  tb_WorkflowID :: int64
  tb_Server :: string
  tb_Reliability :: "float64 option"

datatype ResponseFormat =
  ResponseFormatText | ResponseFormatMarkdown | ResponseFormatJSON | ResponseFormatOther string

record LLMParams =
  lp_Temperature :: "float64 option"
  lp_MaxTokens :: int
  lp_TopP :: "float64 option"
  lp_TopK :: "int option"
  lp_FrequencyPenalty :: float64
  lp_PresencePenalty :: float64
  lp_ResponseFormat :: ResponseFormat
  lp_EnableThinking :: "bool option"

datatype ModelRef = ModelRef
  (mr_APIKey: string) (mr_BaseURL: string) (mr_ModelName: string)
  (mr_PricePerMInputUSD: float64) (mr_PricePerMOutputUSD: float64) (mr_ModelID: int64)
  (mr_Fallbacks: "ModelRef list") (mr_Params: "LLMParams option")

record LoopPolicy =
  MaxSteps :: int
  Timeout :: int
  CallTimeout :: int
  MaxGateFailures :: int
  MaxConsecutiveToolFailures :: int
  MaxConsecutiveValidationFailures :: int
  TokenBudget :: int
  MaxToolCalls :: int
  ApprovalTimeout :: int
  TokenCompactionThreshold :: float64

record ReflectionPolicy =
  rfp_MaxRounds :: int
  rfp_RequireNewEvidence :: bool
  rfp_RequireJustification :: bool

record MagiConfig =
  mc_ID :: string
  mc_Code :: string
  mc_Name :: string
  mc_Persona :: string
  mc_PersonaDef :: "PersonaDefinition option"
  mc_Objective :: ObjectiveFunction
  mc_RiskTendency :: RiskTendency
  mc_RiskPolicy :: RiskPolicy
  mc_RolePolicy :: RolePolicy
  mc_EvidenceStandard :: EvidenceStandard
  mc_Model :: ModelRef
  mc_Tools :: "ToolBinding list"
  mc_LoopPolicy :: LoopPolicy
  mc_ReflectionPolicy :: ReflectionPolicy
  mc_Version :: int64

section \<open>Evidence and claims\<close>

datatype EvidenceSourceType =
    EvidenceSourcePlugin | EvidenceSourceLocal | EvidenceSourceKnowledge
  | EvidenceSourceWorkflow | EvidenceSourceCodeRun | EvidenceSourceOther string

record ReliabilityScore =
  rs_Base :: float64
  rs_Directness :: float64
  rs_Recency :: float64
  rs_Corroboration :: float64
  rs_Extraction :: float64
  rs_Final :: float64

record EvidenceRecord =
  e_ID :: string
  e_CaseID :: string
  e_ExecutionGeneration :: int64
  e_AgentRunID :: string
  e_ToolCallID :: string
  e_ToolName :: string
  e_SourceType :: EvidenceSourceType
  e_SourceURI :: "string option"
  e_RawContent :: string
  e_Observation :: string
  e_Reliability :: ReliabilityScore
  e_CollectedBy :: MagiCode
  e_CreatedAt :: timestamp

datatype ClaimStatus =
  ClaimStatusOpen | ClaimStatusSupported | ClaimStatusRefuted | ClaimStatusSuperseded
  | ClaimStatusOther string

record Claim =
  cl_ID :: string
  cl_CaseID :: string
  cl_ExecutionGeneration :: int64
  cl_AgentRunID :: string
  cl_Statement :: string
  cl_Supports :: "string list"
  cl_Contradicts :: "string list"
  cl_Status :: ClaimStatus
  cl_CreatedBy :: MagiCode
  cl_CreatedAt :: timestamp

section \<open>Debate and reflection\<close>

record ClaimConflict =
  ClaimA :: string
  ClaimB :: string
  cf_Reason :: string

record DebateQuestion =
  dq_From :: MagiCode
  dq_To :: MagiCode
  dq_Text :: string

record DebatePacket =
  dp_Round :: int
  dp_MajorityVotes :: "Vote list"
  dp_MinorityVotes :: "Vote list"
  dp_ConflictingClaims :: "ClaimConflict list"
  dp_SharedEvidence :: "EvidenceRecord list"
  dp_Questions :: "DebateQuestion list"

record DebateRound =
  dr_ID :: string
  dr_CaseID :: string
  dr_ExecutionGeneration :: int64
  dr_Round :: int
  dr_Packet :: DebatePacket
  dr_StartedAt :: timestamp
  dr_CompletedAt :: "timestamp option"

datatype PositionChange =
    PositionChangeMaintain | PositionChangeStrengthen | PositionChangeWeaken
  | PositionChangeChange | PositionChangeAbstain | PositionChangeOther string

record DimensionScoreChange =
  sch_DimensionCode :: string
  sch_PreviousScore :: float64
  sch_NewScore :: float64
  sch_Reason :: string

record UtilityDimensionReevaluation =
  DimensionsReEvaluated :: "string list"
  ScoreChanges :: "DimensionScoreChange list"

record Reflection =
  rf_ID :: string
  rf_CaseID :: string
  rf_ExecutionGeneration :: int64
  rf_AgentRunID :: string
  rf_Round :: int
  rf_PreviousVoteID :: string
  rf_PositionChange :: PositionChange
  rf_AcceptedClaims :: "string list"
  rf_RejectedClaims :: "string list"
  rf_NewEvidenceIDs :: "string list"
  rf_UtilityDimensionReevaluation :: "UtilityDimensionReevaluation option"
  rf_Reasoning :: string
  rf_ReadyToRevote :: bool
  rf_CreatedAt :: timestamp

section \<open>Resolution\<close>

datatype ConsensusOutcome =
    ConsensusStrongApproval | ConsensusStrongRejection | ConsensusMajorityApprovalDissent
  | ConsensusMajorityRejectionDissent | ConsensusDeadlock | ConsensusInsufficientQuorum
  | ConsensusConditional | ConsensusIncomplete | ConsensusOther string

text \<open>
  The free-text \<^verbatim>\<open>Detail\<close> of a consensus result: one constructor per format string of
  \<^verbatim>\<open>consensus/engine.go\<close>, with the values it prints.
\<close>

datatype ConsensusDetail =
    DetailNone
  | DetailInvalidDecision VoteDecision
  | DetailAbsences "AgentAbsence list"
  | DetailNoVotes
  | DetailBelowQuorum int int
  | DetailConditional nat
  | DetailUnanimousApproval
  | DetailUnanimousRejection
  | DetailMajorityApproval
  | DetailMajorityRejection
  | DetailFirstRoundSplit
  | DetailReconsiderMajority
  | DetailTally nat nat nat

record ConsensusResult =
  cr_Outcome :: ConsensusOutcome
  cr_Votes :: "Vote list"
  cr_Round :: int
  cr_Detail :: ConsensusDetail
  cr_Conditions :: "DecisionCondition list"

record Dissent =
  d_AgentCode :: MagiCode
  d_Decision :: VoteDecision
  d_Reasoning :: string
  d_EvidenceIDs :: "string list"
  d_ClaimIDs :: "string list"
  d_Conditions :: "DecisionCondition list"

datatype DissentState = DissentUnknown | DissentNone | DissentPresent

definition DissentStateOf :: "Dissent list option \<Rightarrow> DissentState" where
  "DissentStateOf d =
     (case d of None \<Rightarrow> DissentUnknown
      | Some ds \<Rightarrow> if length ds = 0 then DissentNone else DissentPresent)"

datatype dissent_error =
  DissentNotVotingPersona MagiCode | DissentInvalidDecision VoteDecision
  | DissentIsAbstention VoteDecision

definition ValidateDissent :: "Dissent \<Rightarrow> dissent_error option" where
  "ValidateDissent d =
     (if d_AgentCode d \<notin> {MagiCodeMelchior, MagiCodeBalthasar, MagiCodeCasper}
        then Some (DissentNotVotingPersona (d_AgentCode d))
      else if \<not> IsValidVoteDecision (d_Decision d)
        then Some (DissentInvalidDecision (d_Decision d))
      else if d_Decision d = VoteDecisionAbstain
        then Some (DissentIsAbstention (d_Decision d))
      else None)"

record Evaluation =
  ev_ToolSuccessRate :: float64
  ev_AvgToolCalls :: float64
  ev_ToolParamFailures :: int
  ev_EvidenceCount :: int
  ev_AvgReliability :: float64
  ev_UniqueSourceTypes :: int
  ev_GateFailures :: int
  ev_MaxStepsExceeded :: int
  ev_ValidationFailures :: int
  ev_FirstRoundConsensus :: bool
  ev_ConsensusRound :: int
  ev_ConsensusOutcome :: ConsensusOutcome
  ev_TotalTokens :: int64
  ev_AvgTokensPerAgent :: float64
  ev_TotalSteps :: int
  ev_TotalToolCalls :: int
  ev_CounterfactualStability :: float64

record Resolution =
  r_ID :: string
  r_CaseID :: string
  r_ExecutionGeneration :: int64
  r_Consensus :: ConsensusResult
  r_FinalDecision :: VoteDecision
  r_FinalReport :: string
  r_KeyEvidenceIDs :: "string list"
  r_KeyClaimIDs :: "string list"
  r_Dissent :: "Dissent list option"
  r_VoteIDs :: "string list"
  r_Evaluation :: "Evaluation option"
  r_CreatedAt :: timestamp

definition Resolution_DissentState :: "Resolution option \<Rightarrow> DissentState" where
  "Resolution_DissentState r =
     (case r of None \<Rightarrow> DissentUnknown | Some res \<Rightarrow> DissentStateOf (r_Dissent res))"

section \<open>Execution identity, runs and tool calls\<close>

record ExecutionContext =
  x_CaseID :: string
  x_JobID :: string
  x_RunID :: string
  x_WorkerID :: string
  x_JobAttempt :: int
  x_ExecutionGeneration :: int64

definition IsDurable :: "ExecutionContext option \<Rightarrow> bool" where
  "IsDurable e = (case e of None \<Rightarrow> False
     | Some x \<Rightarrow> x_CaseID x \<noteq> [] \<and> x_JobID x \<noteq> [] \<and> x_WorkerID x \<noteq> []
               \<and> x_ExecutionGeneration x > 0)"

record Usage =
  u_PromptTokens :: int64
  u_CompletionTokens :: int64
  u_TotalTokens :: int64
  u_CostUSD :: float64

definition Usage_Cost :: "Usage option \<Rightarrow> float64 \<Rightarrow> float64 \<Rightarrow> float64" where
  "Usage_Cost uo inPerMillion outPerMillion =
     (case uo of None \<Rightarrow> 0
      | Some u \<Rightarrow> of_int (u_PromptTokens u) / 1000000 * inPerMillion
               + of_int (u_CompletionTokens u) / 1000000 * outPerMillion)"

datatype AgentRunStatus =
    AgentRunStatusRunning | AgentRunStatusCompleted | AgentRunStatusFailed
  | AgentRunStatusCancelled | AgentRunStatusMaxSteps | AgentRunStatusTimedOut

record RunEnvironment =
  re_ModelName :: string
  re_ModelBaseURL :: string
  re_Tools :: "string list"
  re_KnowledgeIndex :: bool
  re_ConfigVersion :: int64

record AgentRun =
  ar_ID :: string
  ar_CaseID :: string
  ar_ExecutionGeneration :: int64
  ar_MagiConfigID :: string
  ar_MagiCode :: MagiCode
  ar_Round :: int
  ar_Status :: AgentRunStatus
  ar_StartedAt :: timestamp
  ar_CompletedAt :: "timestamp option"
  ar_Usage :: "Usage option"
  ar_Err :: string
  ar_Environment :: "RunEnvironment option"

record ToolCall =
  tc_ID :: string
  tc_CaseID :: string
  tc_ExecutionGeneration :: int64
  tc_AgentRunID :: string
  tc_ToolCallID :: string
  tc_ToolName :: string
  tc_Arguments :: string
  tc_Valid :: bool
  tc_Result :: string
  tc_Err :: string
  tc_ApprovedBy :: string
  tc_EvidenceID :: string
  tc_DurationMs :: int64
  tc_CreatedAt :: timestamp

section \<open>Task\<close>

datatype DecisionType =
    DecisionTypeAdopt | DecisionTypeMigrate | DecisionTypeLaunch | DecisionTypeStrategic
  | DecisionTypeGeneric | DecisionTypeOther string

record DecisionDimension =
  dd_Code :: string
  dd_Description :: string

record InformationNeed =
  in_Topic :: string
  in_Rationale :: string

record Criterion =
  cn_Code :: string
  cn_Description :: string

record DecisionTask =
  t_CanonicalQuestion :: string
  t_DecisionType :: DecisionType
  t_Background :: string
  t_Constraints :: "Constraint list"
  t_Dimensions :: "DecisionDimension list"
  t_InformationNeeds :: "InformationNeed list"
  t_SuccessCriteria :: "Criterion list"
  t_Unknowns :: "string list"

section \<open>Properties of the value types\<close>

lemma NormalizeConfidence_range: "0 \<le> NormalizeConfidence v \<and> NormalizeConfidence v \<le> 100"
  by (simp add: NormalizeConfidence_def Let_def)

lemma NormalizeConfidence_percent: "1 < v \<Longrightarrow> v \<le> 100 \<Longrightarrow> NormalizeConfidence v = v"
  by (simp add: NormalizeConfidence_def Let_def)

lemma IsValidVoteDecision_iff:
  "IsValidVoteDecision d \<longleftrightarrow> (\<forall>s. d \<noteq> VoteDecisionOther s)"
  by (cases d) auto

lemma ValidateDissent_None_iff:
  "ValidateDissent d = None \<longleftrightarrow>
     d_AgentCode d \<in> {MagiCodeMelchior, MagiCodeBalthasar, MagiCodeCasper} \<and>
     IsValidVoteDecision (d_Decision d) \<and> d_Decision d \<noteq> VoteDecisionAbstain"
  by (auto simp: ValidateDissent_def)

lemma IsDurable_Some:
  "IsDurable (Some x) \<longleftrightarrow> x_CaseID x \<noteq> [] \<and> x_JobID x \<noteq> [] \<and> x_WorkerID x \<noteq> [] \<and>
     0 < x_ExecutionGeneration x"
  by (simp add: IsDurable_def)

lemma IsDurable_None [simp]: "\<not> IsDurable None"
  by (simp add: IsDurable_def)

end
