(* ===== verification/ClaimGraph.thy ===== *)
theory ClaimGraph
  imports Entity "HOL-Library.Char_ord" "HOL-Library.List_Lexorder"
begin

text \<open>
  \<^verbatim>\<open>backend/domain/claim\<close>: the claim graph with its contradiction adjacency (\<^verbatim>\<open>graph.go\<close>),
  the graph conflict finder (\<^verbatim>\<open>conflict.go\<close>) and the claim store (\<^verbatim>\<open>service.go\<close>).

  The breadth-first search of \<open>ConflictComponent\<close> is the recursion \<open>bfs\<close>, total by a measure
  that counts unvisited neighbours; the lemmas show that it computes exactly the connected
  component of the asserted contradictions, and that \<open>Conflicts\<close> reports each undirected edge
  once. What the debate engine needs of a conflict finder is the locale \<open>conflict_finder\<close>.
\<close>

section \<open>The graph\<close>

type_synonym adjacency = "(string, (string, bool) gomap) gomap"

record Graph =
  g_claims :: "(string, Claim) gomap"
  g_evidenceToClaims :: "(string, string list) gomap"
  g_contradictions :: adjacency

text \<open>Reading a missing key of a map of maps gives the nil map, which ranges over nothing.\<close>

definition adj :: "adjacency \<Rightarrow> string \<Rightarrow> (string, bool) gomap" where
  "adj m a = (case map_of m a of None \<Rightarrow> [] | Some t \<Rightarrow> t)"

definition targets :: "adjacency \<Rightarrow> string \<Rightarrow> string list" where
  "targets m a = map fst (adj m a)"

definition ensure_key :: "string \<Rightarrow> adjacency \<Rightarrow> adjacency" where
  "ensure_key a m = (if map_of m a = None then AList.update a [] m else m)"

definition set_edge :: "string \<Rightarrow> string \<Rightarrow> adjacency \<Rightarrow> adjacency" where
  "set_edge a b m = AList.update a (AList.update b True (adj m a)) m"

definition addContradiction :: "string \<Rightarrow> string \<Rightarrow> adjacency \<Rightarrow> adjacency" where
  "addContradiction a b m = set_edge b a (set_edge a b (ensure_key b (ensure_key a m)))"

definition index_support :: "string \<Rightarrow> string \<Rightarrow> (string, string list) gomap \<Rightarrow> (string, string list) gomap" where
  "index_support cid evID m =
     AList.update evID ((case map_of m evID of None \<Rightarrow> [] | Some l \<Rightarrow> l) @ [cid]) m"

definition add_claim :: "Claim option \<Rightarrow> Graph \<Rightarrow> Graph" where
  "add_claim co g =
     (case co of
        None \<Rightarrow> g
      | Some c \<Rightarrow> g\<lparr> g_claims := AList.update (cl_ID c) c (g_claims g),
          g_evidenceToClaims := fold (index_support (cl_ID c)) (cl_Supports c) (g_evidenceToClaims g),
          g_contradictions := fold (addContradiction (cl_ID c)) (cl_Contradicts c) (g_contradictions g) \<rparr>)"

definition NewGraph :: "Claim option list \<Rightarrow> Graph" where
  "NewGraph claims =
     fold add_claim claims \<lparr> g_claims = [], g_evidenceToClaims = [], g_contradictions = [] \<rparr>"

definition Graph_Supports :: "Graph \<Rightarrow> string \<Rightarrow> string list" where
  "Graph_Supports g claimID =
     (case map_of (g_claims g) claimID of Some c \<Rightarrow> cl_Supports c | None \<Rightarrow> [])"

definition Graph_Contradicts :: "Graph \<Rightarrow> string \<Rightarrow> string list" where
  "Graph_Contradicts g claimID =
     (case map_of (g_contradictions g) claimID of None \<Rightarrow> [] | Some t \<Rightarrow> map fst t)"

definition ClaimsForEvidence :: "Graph \<Rightarrow> string \<Rightarrow> string list" where
  "ClaimsForEvidence g evID =
     (case map_of (g_evidenceToClaims g) evID of None \<Rightarrow> [] | Some l \<Rightarrow> l)"

text \<open>The inner loop of the search: unvisited neighbours are marked and queued.\<close>

fun visit :: "string list \<Rightarrow> string list \<Rightarrow> string list \<Rightarrow> string list \<times> string list" where
  "visit [] visited queue = (visited, queue)"
| "visit (n # ns) visited queue =
     (if n \<in> set visited then visit ns visited queue
      else visit ns (visited @ [n]) (queue @ [n]))"

lemma visit_result:
  "visit ns visited queue = (v, q) \<Longrightarrow>
     \<exists>new. v = visited @ new \<and> q = queue @ new \<and> set new = set ns - set visited \<and> distinct new"
proof (induction ns arbitrary: visited queue)
  case (Cons n ns)
  show ?case
  proof (cases "n \<in> set visited")
    case True
    with Cons show ?thesis by fastforce
  next
    case False
    with Cons.prems have "visit ns (visited @ [n]) (queue @ [n]) = (v, q)" by simp
    from Cons.IH [OF this] obtain new where
      "v = visited @ n # new" "q = queue @ n # new" "set new = set ns - set (visited @ [n])" "distinct new"
      by auto
    with False show ?thesis by (intro exI [of _ "n # new"]) auto
  qed
qed simp

definition all_targets :: "adjacency \<Rightarrow> string set" where
  "all_targets m = (\<Union>(a, t) \<in> set m. fst ` set t)"

lemma finite_all_targets [simp]: "finite (all_targets m)"
  by (auto simp: all_targets_def)

lemma targets_subset: "set (targets m a) \<subseteq> all_targets m"
proof (cases "map_of m a")
  case (Some t)
  then have "(a, t) \<in> set m" by (rule map_of_SomeD)
  with Some show ?thesis by (auto simp: targets_def adj_def all_targets_def)
qed (simp add: targets_def adj_def)

function bfs :: "adjacency \<Rightarrow> string list \<Rightarrow> string list \<Rightarrow> string list" where
  "bfs m visited [] = visited"
| "bfs m visited (cur # queue) =
     (let r = visit (targets m cur) visited queue in bfs m (fst r) (snd r))"
  by pat_completeness auto
termination
proof (relation "measure (\<lambda>(m, visited, queue). 2 * card (all_targets m - set visited) + length queue)")
  fix m visited cur queue r
  assume r: "r = visit (targets m cur) visited queue"
  then obtain new where v: "fst r = visited @ new" and q: "snd r = queue @ new"
    and new: "set new = set (targets m cur) - set visited" and d: "distinct new"
    using visit_result [of "targets m cur" visited queue "fst r" "snd r"] by auto
  let ?U = "all_targets m - set visited"
  have sub: "set new \<subseteq> ?U" using new targets_subset [of m cur] by auto
  have "all_targets m - set (fst r) = ?U - set new" using v by auto
  then have "card (all_targets m - set (fst r)) = card ?U - length new"
    using sub d by (simp add: card_Diff_subset distinct_card)
  moreover have "length new \<le> card ?U"
    using sub d by (metis card_mono distinct_card finite_Diff finite_all_targets)
  ultimately show "((m, fst r, snd r), m, visited, cur # queue)
      \<in> measure (\<lambda>(m, visited, queue). 2 * card (all_targets m - set visited) + length queue)"
    using q by simp
qed simp

definition ConflictComponent :: "Graph \<Rightarrow> string \<Rightarrow> string list" where
  "ConflictComponent g claimID = bfs (g_contradictions g) [claimID] [claimID]"

definition conflictKey :: "string \<Rightarrow> string \<Rightarrow> string" where
  "conflictKey a b = (if a < b then a @ ''|'' @ b else b @ ''|'' @ a)"

text \<open>The nested loops of \<open>Conflicts\<close> range over the pairs of \<open>edge_list\<close> in order.\<close>

definition edge_list :: "adjacency \<Rightarrow> (string \<times> string) list" where
  "edge_list m = concat (map (\<lambda>(a, t). map (\<lambda>(b, _). (a, b)) t) m)"

fun conflicts_loop :: "string list \<Rightarrow> (string \<times> string) list \<Rightarrow> ClaimConflict list" where
  "conflicts_loop seen [] = []"
| "conflicts_loop seen ((a, b) # es) =
     (let key = conflictKey a b
      in if key \<in> set seen then conflicts_loop seen es
         else \<lparr> ClaimA = a, ClaimB = b, cf_Reason = ''agent-asserted'' \<rparr> # conflicts_loop (key # seen) es)"

definition Conflicts :: "Graph \<Rightarrow> ClaimConflict list" where
  "Conflicts g = conflicts_loop [] (edge_list (g_contradictions g))"

definition GraphConflictFinder_Find :: "Claim option list \<Rightarrow> ClaimConflict list" where
  "GraphConflictFinder_Find claims = Conflicts (NewGraph claims)"

section \<open>The claim store\<close>

record ClaimService =
  sv_claims :: "(string, Claim) gomap"
  sv_order :: "string list"

definition NewService :: ClaimService where
  "NewService = \<lparr> sv_claims = [], sv_order = [] \<rparr>"

definition Service_Create :: "Claim \<Rightarrow> ClaimService \<Rightarrow> ClaimService" where
  "Service_Create c s =
     s\<lparr> sv_claims := AList.update (cl_ID c) c (sv_claims s), sv_order := sv_order s @ [cl_ID c] \<rparr>"

definition Service_Get :: "ClaimService \<Rightarrow> string \<Rightarrow> Claim option" where
  "Service_Get s i = map_of (sv_claims s) i"

text \<open>A missing key would put a nil pointer into the result, hence the optional elements.\<close>

definition Service_List :: "ClaimService \<Rightarrow> Claim option list" where
  "Service_List s = map (\<lambda>i. map_of (sv_claims s) i) (sv_order s)"

definition UpdateStatus :: "string \<Rightarrow> ClaimStatus \<Rightarrow> ClaimService \<Rightarrow> ClaimService" where
  "UpdateStatus i st s =
     (case map_of (sv_claims s) i of
        None \<Rightarrow> s
      | Some c \<Rightarrow> s\<lparr> sv_claims := AList.update i (c\<lparr> cl_Status := st \<rparr>) (sv_claims s) \<rparr>)"

section \<open>Edges\<close>

definition edges :: "adjacency \<Rightarrow> (string \<times> string) set" where
  "edges m = {(a, b). b \<in> set (targets m a)}"

text \<open>The contradictions the claims assert, in both directions.\<close>

definition asserted :: "Claim option list \<Rightarrow> (string \<times> string) set" where
  "asserted claims =
     {(a, b). \<exists>c. Some c \<in> set claims \<and>
        (cl_ID c = a \<and> b \<in> set (cl_Contradicts c) \<or> cl_ID c = b \<and> a \<in> set (cl_Contradicts c))}"

lemma asserted_simps:
  "asserted [] = {}"
  "asserted (None # cs) = asserted cs"
  "asserted (Some c # cs) = {cl_ID c} \<times> set (cl_Contradicts c) \<union> set (cl_Contradicts c) \<times> {cl_ID c} \<union> asserted cs"
  by (auto simp: asserted_def)

lemma targets_set_edge:
  "set (targets (set_edge a b m) c) = (if c = a then insert b (set (targets m a)) else set (targets m c))"
  by (auto simp: targets_def set_edge_def adj_def update_conv dom_update [symmetric]
      simp flip: dom_map_of_conv_image_fst split: option.splits if_splits)

lemma targets_ensure_key [simp]: "targets (ensure_key a m) c = targets m c"
  by (auto simp: targets_def ensure_key_def adj_def update_conv split: option.splits)

lemma edges_addContradiction: "edges (addContradiction a b m) = insert (a, b) (insert (b, a) (edges m))"
  by (auto simp: edges_def addContradiction_def targets_set_edge split: if_splits)

lemma edges_fold_addContradiction:
  "edges (fold (addContradiction a) bs m) = edges m \<union> {(a, b) | b. b \<in> set bs} \<union> {(b, a) | b. b \<in> set bs}"
  by (induction bs arbitrary: m) (auto simp: edges_addContradiction)

lemma edges_fold_add_claim:
  "edges (g_contradictions (fold add_claim claims g)) = edges (g_contradictions g) \<union> asserted claims"
proof (induction claims arbitrary: g)
  case Nil
  show ?case by (simp add: asserted_def)
next
  case (Cons co claims)
  have "edges (g_contradictions (add_claim co g)) \<union> asserted claims
      = edges (g_contradictions g) \<union> asserted (co # claims)"
    by (auto simp: add_claim_def asserted_def edges_fold_addContradiction split: option.splits)
  with Cons show ?case by simp
qed

lemma edges_NewGraph: "edges (g_contradictions (NewGraph claims)) = asserted claims"
  using edges_fold_add_claim [of claims]
  by (simp add: NewGraph_def edges_def targets_def adj_def)

lemma sym_asserted: "sym (asserted claims)"
  by (auto simp: sym_def asserted_def)

section \<open>The search computes the component\<close>

lemma bfs_sound_complete:
  assumes "set queue \<subseteq> set visited" "distinct visited"
    and "\<forall>a \<in> set visited - set queue. set (targets m a) \<subseteq> set visited"
  shows "distinct (bfs m visited queue) \<and> set visited \<subseteq> set (bfs m visited queue) \<and>
    set (bfs m visited queue) \<subseteq> (edges m)\<^sup>* `` set visited \<and>
    (\<forall>a \<in> set (bfs m visited queue). set (targets m a) \<subseteq> set (bfs m visited queue))"
  using assms
proof (induction m visited queue rule: bfs.induct)
  case (1 m visited)
  then show ?case by auto
next
  case (2 m visited cur queue)
  define r where "r = visit (targets m cur) visited queue"
  obtain new where v: "fst r = visited @ new" and q: "snd r = queue @ new"
    and new: "set new = set (targets m cur) - set visited" and d: "distinct new"
    using visit_result [of "targets m cur" visited queue "fst r" "snd r"] by (auto simp: r_def)
  have pre: "set (snd r) \<subseteq> set (fst r)" "distinct (fst r)"
    "\<forall>a \<in> set (fst r) - set (snd r). set (targets m a) \<subseteq> set (fst r)"
    using 2(2-4) v q new d by auto
  note IH = 2(1) [OF r_def pre]
  have "set new \<subseteq> (edges m)\<^sup>* `` set visited"
    using new 2(2) by (auto simp: edges_def)
  then have "(edges m)\<^sup>* `` set (fst r) \<subseteq> (edges m)\<^sup>* `` set visited"
    using v by (auto intro: rtrancl_trans)
  with IH v show ?case by (auto simp: Let_def r_def [symmetric])
qed

lemma closed_component:
  assumes "c \<in> S" "\<forall>a \<in> S. set (targets m a) \<subseteq> S"
  shows "(edges m)\<^sup>* `` {c} \<subseteq> S"
proof
  fix d assume "d \<in> (edges m)\<^sup>* `` {c}"
  then have "(c, d) \<in> (edges m)\<^sup>*" by simp
  then show "d \<in> S" by (induction rule: rtrancl_induct) (use assms in \<open>auto simp: edges_def\<close>)
qed

lemma ConflictComponent_set:
  "set (ConflictComponent g c) = (edges (g_contradictions g))\<^sup>* `` {c}"
  using bfs_sound_complete [of "[c]" "[c]" "g_contradictions g"]
    closed_component [of c "set (ConflictComponent g c)" "g_contradictions g"]
  unfolding ConflictComponent_def by auto

lemma ConflictComponent_distinct: "distinct (ConflictComponent g c)"
  using bfs_sound_complete [of "[c]" "[c]" "g_contradictions g"] by (simp add: ConflictComponent_def)

section \<open>Each conflict is reported once\<close>

lemma distinct_keys_addContradiction:
  "distinct (map fst m) \<Longrightarrow> distinct (map fst (addContradiction a b m))"
  by (simp add: addContradiction_def set_edge_def ensure_key_def distinct_update)

lemma distinct_keys_fold:
  "distinct (map fst m) \<Longrightarrow> distinct (map fst (fold (addContradiction a) bs m))"
  by (induction bs arbitrary: m) (simp_all add: distinct_keys_addContradiction)

lemma distinct_keys_fold_add_claim:
  "distinct (map fst (g_contradictions g)) \<Longrightarrow>
     distinct (map fst (g_contradictions (fold add_claim claims g)))"
  by (induction claims arbitrary: g) (simp_all add: add_claim_def distinct_keys_fold split: option.splits)

lemma distinct_keys_NewGraph: "distinct (map fst (g_contradictions (NewGraph claims)))"
  unfolding NewGraph_def by (rule distinct_keys_fold_add_claim) simp

lemma edge_list_edges:
  assumes "distinct (map fst m)"
  shows "set (edge_list m) = edges m"
proof -
  have "map_of m a = Some t \<longleftrightarrow> (a, t) \<in> set m" for a t
    using assms by simp
  then show ?thesis
    by (force simp: edge_list_def edges_def targets_def adj_def split: option.splits)
qed

definition conflict_pair :: "ClaimConflict \<Rightarrow> string set" where
  "conflict_pair c = {ClaimA c, ClaimB c}"

definition plain_id :: "string \<Rightarrow> bool" where
  "plain_id s \<longleftrightarrow> CHR ''|'' \<notin> set s"

lemma join_inject:
  assumes "plain_id a" "plain_id c" "a @ ''|'' @ b = c @ ''|'' @ d"
  shows "a = c \<and> b = d"
proof -
  have "takeWhile (\<lambda>x. x \<noteq> CHR ''|'') (a @ ''|'' @ b) = a"
    "takeWhile (\<lambda>x. x \<noteq> CHR ''|'') (c @ ''|'' @ d) = c"
    using assms(1,2) by (auto simp: plain_id_def takeWhile_append)
  with assms(3) have "a = c" by simp
  with assms(3) show ?thesis by simp
qed

lemma conflictKey_min_max: "conflictKey a b = min a b @ ''|'' @ max a b"
  by (cases a b rule: linorder_cases) (auto simp: conflictKey_def min_def max_def)

lemma min_max_pair: "min a b = min c d \<and> max a b = max c d \<longleftrightarrow> {a, b} = {c, d}"
  for a b c d :: "'a :: linorder"
  by (cases a b rule: linorder_cases; cases c d rule: linorder_cases)
    (auto simp: doubleton_eq_iff min_def max_def)

lemma conflictKey_eq_iff:
  assumes "plain_id a" "plain_id b" "plain_id c" "plain_id d"
  shows "conflictKey a b = conflictKey c d \<longleftrightarrow> {a, b} = {c, d}"
proof -
  have "plain_id (min a b)" "plain_id (min c d)" using assms by (simp_all add: min_def)
  from join_inject [OF this, of "max a b" "max c d"] show ?thesis
    unfolding conflictKey_min_max min_max_pair [symmetric] by auto
qed

abbreviation key_of :: "ClaimConflict \<Rightarrow> string" where
  "key_of c \<equiv> conflictKey (ClaimA c) (ClaimB c)"

lemma conflicts_loop_keys:
  "set (map key_of (conflicts_loop seen es)) = (\<lambda>(a, b). conflictKey a b) ` set es - set seen"
proof (induction seen es rule: conflicts_loop.induct)
  case (2 seen a b es)
  show ?case
  proof (cases "conflictKey a b \<in> set seen")
    case True
    with 2(1) show ?thesis by auto
  next
    case False
    with 2(2) [OF refl False] show ?thesis by auto
  qed
qed simp

lemma conflicts_loop_distinct: "distinct (map key_of (conflicts_loop seen es))"
proof (induction seen es rule: conflicts_loop.induct)
  case (2 seen a b es)
  have "conflictKey a b \<notin> set (map key_of (conflicts_loop (conflictKey a b # seen) es))"
    unfolding conflicts_loop_keys by simp
  with 2 show ?case by (auto simp: Let_def)
qed simp

lemma conflicts_loop_member:
  "c \<in> set (conflicts_loop seen es) \<Longrightarrow> (ClaimA c, ClaimB c) \<in> set es \<and> cf_Reason c = ''agent-asserted''"
  by (induction seen es rule: conflicts_loop.induct) (auto simp: Let_def split: if_splits)

lemma Find_asserted:
  assumes "c \<in> set (GraphConflictFinder_Find claims)"
  shows "(ClaimA c, ClaimB c) \<in> asserted claims"
  using conflicts_loop_member assms
  by (fastforce simp: GraphConflictFinder_Find_def Conflicts_def edge_list_edges distinct_keys_NewGraph
      edges_NewGraph)

lemma Find_Nil_iff: "GraphConflictFinder_Find claims = [] \<longleftrightarrow> asserted claims = {}"
proof -
  have "set (GraphConflictFinder_Find claims) = {} \<longleftrightarrow>
      set (edge_list (g_contradictions (NewGraph claims))) = {}"
    using conflicts_loop_keys [of "[]" "edge_list (g_contradictions (NewGraph claims))"]
    by (auto simp: GraphConflictFinder_Find_def Conflicts_def)
  then show ?thesis by (simp add: edge_list_edges distinct_keys_NewGraph edges_NewGraph)
qed

section \<open>The interface of a conflict finder\<close>

text \<open>
  \<^verbatim>\<open>claim.ConflictFinder\<close> as the debate engine uses it: it reports only contradictions that
  some claim asserts, and it is silent only when there are none.
\<close>

locale conflict_finder =
  fixes find_conflicts :: "Claim option list \<Rightarrow> ClaimConflict list"
  assumes found_asserted: "c \<in> set (find_conflicts claims) \<Longrightarrow> (ClaimA c, ClaimB c) \<in> asserted claims"
    and silent_iff: "find_conflicts claims = [] \<longleftrightarrow> asserted claims = {}"

interpretation graph_finder: conflict_finder GraphConflictFinder_Find
  by unfold_locales (simp_all add: Find_asserted Find_Nil_iff)

section \<open>The claim store keeps its claims\<close>

definition service_wf :: "ClaimService \<Rightarrow> bool" where
  "service_wf s \<longleftrightarrow> set (sv_order s) = fst ` set (sv_claims s) \<and>
     (\<forall>i c. map_of (sv_claims s) i = Some c \<longrightarrow> cl_ID c = i)"

lemma service_wf_New: "service_wf NewService"
  by (simp add: service_wf_def NewService_def)

lemma service_wf_Create: "service_wf s \<Longrightarrow> service_wf (Service_Create c s)"
  by (auto simp: service_wf_def Service_Create_def update_conv dom_update split: if_splits)

lemma service_wf_UpdateStatus: "service_wf s \<Longrightarrow> service_wf (UpdateStatus i st s)"
  by (auto simp: service_wf_def UpdateStatus_def update_conv dom_update map_of_SomeD image_iff
      split: option.splits if_splits) (metis fst_conv map_of_SomeD)

section \<open>Properties\<close>

text \<open>C39. Conflict components are exact: from any claim the search ends with a duplicate-free list of
  exactly the claims connected to it by asserted contradictions, in either direction.\<close>

theorem conflict_component_exact:
  "set (ConflictComponent (NewGraph claims) c) = (asserted claims)\<^sup>* `` {c} \<and>
   distinct (ConflictComponent (NewGraph claims) c)"
  by (simp add: ConflictComponent_set edges_NewGraph ConflictComponent_distinct)

text \<open>Each contradiction is reported once: when identifiers do not contain the separator of the
  deduplication key, the reported pairs are pairwise different as unordered pairs and are exactly
  the asserted contradictions.\<close>

lemma conflicts_reported_once:
  assumes "\<forall>(a, b) \<in> asserted claims. plain_id a \<and> plain_id b"
  shows "distinct (map conflict_pair (GraphConflictFinder_Find claims)) \<and>
    conflict_pair ` set (GraphConflictFinder_Find claims) = (\<lambda>(a, b). {a, b}) ` asserted claims"
proof -
  let ?cs = "GraphConflictFinder_Find claims" and ?key = key_of
  let ?es = "edge_list (g_contradictions (NewGraph claims))"
  have es: "set ?es = asserted claims"
    by (simp add: edge_list_edges distinct_keys_NewGraph edges_NewGraph)
  have plain: "plain_id (ClaimA c)" "plain_id (ClaimB c)" if "c \<in> set ?cs" for c
    using Find_asserted [OF that] assms by auto
  have key: "?key c = ?key c' \<longleftrightarrow> conflict_pair c = conflict_pair c'" if "c \<in> set ?cs" "c' \<in> set ?cs" for c c'
    unfolding conflict_pair_def using plain that by (intro conflictKey_eq_iff) auto
  have "distinct (map ?key ?cs)"
    unfolding GraphConflictFinder_Find_def Conflicts_def by (rule conflicts_loop_distinct)
  then have "distinct (map conflict_pair ?cs)"
    using key by (auto simp: distinct_map inj_on_def)
  moreover have "conflict_pair ` set ?cs = (\<lambda>(a, b). {a, b}) ` asserted claims"
  proof
    show "conflict_pair ` set ?cs \<subseteq> (\<lambda>(a, b). {a, b}) ` asserted claims"
      using Find_asserted by (force simp: conflict_pair_def)
    show "(\<lambda>(a, b). {a, b}) ` asserted claims \<subseteq> conflict_pair ` set ?cs"
    proof clarify
      fix a b assume ab: "(a, b) \<in> asserted claims"
      then have "conflictKey a b \<in> ?key ` set ?cs"
        using conflicts_loop_keys [of "[]" ?es] es
        by (force simp: GraphConflictFinder_Find_def Conflicts_def)
      then obtain c where c: "c \<in> set ?cs" "conflictKey a b = ?key c" by auto
      moreover have "plain_id a" "plain_id b" using assms ab by auto
      ultimately have "{a, b} = conflict_pair c"
        unfolding conflict_pair_def using conflictKey_eq_iff plain [OF c(1)] by blast
      then show "{a, b} \<in> conflict_pair ` set ?cs" using c(1) by blast
    qed
  qed
  ultimately show ?thesis by blast
qed

definition sample_claim :: "string \<Rightarrow> string list \<Rightarrow> Claim" where
  "sample_claim i cs = \<lparr> cl_ID = i, cl_CaseID = ''case-1'', cl_ExecutionGeneration = 1, cl_AgentRunID = ''run'',
     cl_Statement = ''s'', cl_Supports = [], cl_Contradicts = cs, cl_Status = ClaimStatusOpen,
     cl_CreatedBy = MagiCodeMelchior, cl_CreatedAt = 0 \<rparr>"

end
