(* ===== verification/Reliability.thy ===== *)
theory Reliability
  imports Entity
begin

text \<open>
  \<^verbatim>\<open>backend/domain/evidence\<close>: the reliability formula (\<^verbatim>\<open>reliability.go\<close>) and the adapters
  that turn a tool result into evidence candidates (\<^verbatim>\<open>adapter.go\<close>, \<^verbatim>\<open>tavily_adapter.go\<close>).
  The lemmas bound the score and show its monotonicity in the factors.
\<close>

section \<open>The weighted score\<close>

definition DefaultReliabilityResolver :: "ToolBinding \<Rightarrow> ReliabilityScore" where
  "DefaultReliabilityResolver b =
     (let base0 = (case tb_Source b of
                     ToolSourceLocal \<Rightarrow> 9 / 10
                   | ToolSourceKnowledge \<Rightarrow> 85 / 100
                   | ToolSourceCodeRunner \<Rightarrow> 95 / 100
                   | _ \<Rightarrow> 7 / 10);
          base = (case tb_Reliability b of Some r \<Rightarrow> r | None \<Rightarrow> base0)
      in \<lparr> rs_Base = base, rs_Directness = 0, rs_Recency = 0, rs_Corroboration = 0,
           rs_Extraction = 0, rs_Final = base \<rparr>)"

record ReliabilityInput =
  ri_SourceType :: ToolSource
  ri_ExplicitReliability :: "float64 option"
  ri_Directness :: float64
  ri_Recency :: float64
  ri_CorroborationCount :: int
  ri_ExtractionConfidence :: float64

definition weightBase :: float64 where "weightBase = 35 / 100"
definition weightDirectness :: float64 where "weightDirectness = 25 / 100"
definition weightRecency :: float64 where "weightRecency = 15 / 100"
definition weightCorroboration :: float64 where "weightCorroboration = 15 / 100"
definition weightExtraction :: float64 where "weightExtraction = 10 / 100"

lemmas weight_defs = weightBase_def weightDirectness_def weightRecency_def
  weightCorroboration_def weightExtraction_def

text \<open>The expression both \<open>ComputeReliability\<close> and \<open>RecomputeFinal\<close> evaluate and clamp.\<close>

definition weighted_sum ::
    "float64 \<Rightarrow> float64 \<Rightarrow> float64 \<Rightarrow> float64 \<Rightarrow> float64 \<Rightarrow> float64" where
  "weighted_sum base dir rec corr ext =
     base * weightBase + dir * weightDirectness + rec * weightRecency
     + corr * weightCorroboration + ext * weightExtraction"

definition clamp01 :: "float64 \<Rightarrow> float64" where
  "clamp01 v = (let v1 = (if v > 1 then 1 else v) in if v1 < 0 then 0 else v1)"

definition corroboration_of :: "int \<Rightarrow> float64" where
  "corroboration_of n = (let c = 5 / 10 + of_int n * (1 / 10) in if c > 1 then 1 else c)"

definition ComputeReliability :: "ReliabilityInput \<Rightarrow> ReliabilityScore" where
  "ComputeReliability input =
     (let base0 = (case ri_SourceType input of
                     ToolSourceLocal \<Rightarrow> 9 / 10
                   | ToolSourceKnowledge \<Rightarrow> 85 / 100
                   | ToolSourceCodeRunner \<Rightarrow> 95 / 100
                   | ToolSourcePlugin \<Rightarrow> 75 / 100
                   | ToolSourceWorkflow \<Rightarrow> 80 / 100
                   | _ \<Rightarrow> 7 / 10);
          base = (case ri_ExplicitReliability input of Some r \<Rightarrow> r | None \<Rightarrow> base0);
          dir = (if ri_Directness input = 0 then 7 / 10 else ri_Directness input);
          rec = (if ri_Recency input = 0 then 5 / 10 else ri_Recency input);
          corr = corroboration_of (ri_CorroborationCount input);
          ext = (if ri_ExtractionConfidence input = 0 then 8 / 10
                 else ri_ExtractionConfidence input)
      in \<lparr> rs_Base = base, rs_Directness = dir, rs_Recency = rec, rs_Corroboration = corr,
           rs_Extraction = ext, rs_Final = clamp01 (weighted_sum base dir rec corr ext) \<rparr>)"

definition DirectnessFromSource :: "ToolSource \<Rightarrow> float64" where
  "DirectnessFromSource source =
     (case source of
        ToolSourceLocal \<Rightarrow> 1
      | ToolSourceCodeRunner \<Rightarrow> 1
      | ToolSourcePlugin \<Rightarrow> 8 / 10
      | ToolSourceWorkflow \<Rightarrow> 7 / 10
      | ToolSourceKnowledge \<Rightarrow> 6 / 10
      | _ \<Rightarrow> 7 / 10)"

definition FullReliabilityResolver :: "ToolBinding \<Rightarrow> ReliabilityScore" where
  "FullReliabilityResolver b = ComputeReliability
     \<lparr> ri_SourceType = tb_Source b, ri_ExplicitReliability = tb_Reliability b,
       ri_Directness = DirectnessFromSource (tb_Source b), ri_Recency = 5 / 10,
       ri_CorroborationCount = 0, ri_ExtractionConfidence = 8 / 10 \<rparr>"

definition RecomputeFinal :: "ReliabilityScore \<Rightarrow> ReliabilityScore" where
  "RecomputeFinal s = s\<lparr> rs_Final := clamp01 (weighted_sum (rs_Base s) (rs_Directness s)
     (rs_Recency s) (rs_Corroboration s) (rs_Extraction s)) \<rparr>"

section \<open>Evidence adapters\<close>

text \<open>
  \<open>te_Structured\<close> is the structured payload of a tool result: absent, a decoded web search
  response, or another value, of which only the printed form is used.
\<close>

record WebSearchResult =
  ws_Title :: string
  ws_URL :: string
  ws_Content :: string
  ws_Score :: float64

record WebSearchResponse =
  wr_Answer :: string
  wr_Results :: "WebSearchResult list"
  wr_Provider :: string

datatype structured = SNone | SWeb WebSearchResponse | SOther string

datatype ToolEffectClass =
    ToolEffectReadOnly | ToolEffectIdempotent | ToolEffectNonIdempotent | ToolEffectUnknown
  | ToolEffectOther string

record ToolDefinition =
  td_Name :: string
  td_Desc :: string
  td_ArgsSchema :: string
  td_Source :: ToolSource
  td_Binding :: ToolBinding
  td_EffectClass :: ToolEffectClass

record ToolExecutionResult =
  te_Output :: string
  te_Structured :: structured
  te_SourceURI :: string

record EvidenceCandidate =
  ec_Observation :: string
  ec_SourceURI :: string
  ec_Reliability :: ReliabilityScore

definition collected_reliability :: "ToolDefinition \<Rightarrow> float64 \<Rightarrow> ReliabilityScore" where
  "collected_reliability tool confidence = ComputeReliability
     \<lparr> ri_SourceType = tb_Source (td_Binding tool),
       ri_ExplicitReliability = tb_Reliability (td_Binding tool),
       ri_Directness = DirectnessFromSource (tb_Source (td_Binding tool)), ri_Recency = 1,
       ri_CorroborationCount = 0, ri_ExtractionConfidence = confidence \<rparr>"

text \<open>
  \<open>fmtv\<close> is \<^verbatim>\<open>fmt.Sprintf("%+v", _)\<close> and \<open>parse\<close> the JSON decoder of a search response
  (\<open>None\<close> for a decoding error); the adapters only pass their results on.
\<close>

definition NativeAdapter_Extract ::
    "(structured \<Rightarrow> string) \<Rightarrow> ToolDefinition \<Rightarrow> ToolExecutionResult \<Rightarrow> EvidenceCandidate list" where
  "NativeAdapter_Extract fmtv tool result =
     [\<lparr> ec_Observation = (if te_Structured result \<noteq> SNone then fmtv (te_Structured result)
                          else te_Output result),
        ec_SourceURI = [], ec_Reliability = collected_reliability tool 1 \<rparr>]"

definition RawObservationAdapter_Extract ::
    "ToolDefinition \<Rightarrow> ToolExecutionResult \<Rightarrow> EvidenceCandidate list" where
  "RawObservationAdapter_Extract tool result =
     [\<lparr> ec_Observation = te_Output result, ec_SourceURI = [],
        ec_Reliability = collected_reliability tool (3 / 10) \<rparr>]"

definition WebSearchAdapter_Supports :: "ToolDefinition \<Rightarrow> bool" where
  "WebSearchAdapter_Supports tool \<longleftrightarrow> td_Name tool = ''web_search''"

definition WebSearchAdapter_Extract ::
    "(string \<Rightarrow> WebSearchResponse option) \<Rightarrow> ToolDefinition \<Rightarrow> ToolExecutionResult
     \<Rightarrow> EvidenceCandidate list" where
  "WebSearchAdapter_Extract parse tool result =
     (let resp = (case te_Structured result of SWeb r \<Rightarrow> Some r | _ \<Rightarrow> parse (te_Output result))
      in case resp of
           None \<Rightarrow> RawObservationAdapter_Extract tool result
         | Some r \<Rightarrow>
             if wr_Results r = [] then RawObservationAdapter_Extract tool result
             else map (\<lambda>w. \<lparr> ec_Observation = ws_Content w, ec_SourceURI = ws_URL w,
                             ec_Reliability = collected_reliability tool (7 / 10) \<rparr>)
                    (wr_Results r))"

text \<open>An adapter is its \<^verbatim>\<open>Supports\<close> test and its \<^verbatim>\<open>Extract\<close>; the first supporting one wins.\<close>

type_synonym adapter =
  "(ToolDefinition \<Rightarrow> bool) \<times> (ToolDefinition \<Rightarrow> ToolExecutionResult \<Rightarrow> EvidenceCandidate list)"

definition Registry_Extract ::
    "(ToolBinding \<Rightarrow> ReliabilityScore) \<Rightarrow> adapter list \<Rightarrow> ToolDefinition \<Rightarrow> ToolExecutionResult
     \<Rightarrow> EvidenceCandidate list" where
  "Registry_Extract resolver adapters tool result =
     (case find (\<lambda>a. fst a tool) adapters of
        Some a \<Rightarrow> snd a tool result
      | None \<Rightarrow> [\<lparr> ec_Observation = te_Output result, ec_SourceURI = [],
                   ec_Reliability = resolver (td_Binding tool) \<rparr>])"

section \<open>Lemmas\<close>

lemma clamp01_range: "0 \<le> clamp01 v \<and> clamp01 v \<le> 1"
  by (simp add: clamp01_def Let_def)

lemma clamp01_mono: "v \<le> w \<Longrightarrow> clamp01 v \<le> clamp01 w"
  by (simp add: clamp01_def Let_def)

lemma clamp01_id: "0 \<le> v \<Longrightarrow> v \<le> 1 \<Longrightarrow> clamp01 v = v"
  by (simp add: clamp01_def)

lemma corroboration_of_le_1: "corroboration_of n \<le> 1"
  by (simp add: corroboration_of_def Let_def)

lemma corroboration_of_ge: "0 \<le> n \<Longrightarrow> 1 / 2 \<le> corroboration_of n"
  by (simp add: corroboration_of_def Let_def)

lemma corroboration_of_mono: "m \<le> n \<Longrightarrow> corroboration_of m \<le> corroboration_of n"
proof -
  assume "m \<le> n"
  then have "(of_int m :: rat) \<le> of_int n" by simp
  then show ?thesis by (simp add: corroboration_of_def Let_def)
qed

lemma weighted_sum_mono:
  assumes "a \<le> a'" "b \<le> b'" "c \<le> c'" "d \<le> d'" "e \<le> e'"
  shows "weighted_sum a b c d e \<le> weighted_sum a' b' c' d' e'"
  using assms by (simp add: weighted_sum_def weight_defs)

lemma weighted_sum_unit:
  assumes "0 \<le> a" "a \<le> 1" "0 \<le> b" "b \<le> 1" "0 \<le> c" "c \<le> 1" "0 \<le> d" "d \<le> 1" "0 \<le> e" "e \<le> 1"
  shows "0 \<le> weighted_sum a b c d e \<and> weighted_sum a b c d e \<le> 1"
  using weighted_sum_mono [OF assms(1,3,5,7,9)] weighted_sum_mono [OF assms(2,4,6,8,10)]
  by (simp add: weighted_sum_def weight_defs)

lemma RecomputeFinal_range: "0 \<le> rs_Final (RecomputeFinal s) \<and> rs_Final (RecomputeFinal s) \<le> 1"
  by (simp add: RecomputeFinal_def clamp01_range)

lemma RecomputeFinal_ComputeReliability:
  "RecomputeFinal (ComputeReliability i) = ComputeReliability i"
  by (simp add: RecomputeFinal_def ComputeReliability_def Let_def)

lemma DirectnessFromSource_range: "0 < DirectnessFromSource s \<and> DirectnessFromSource s \<le> 1"
  by (simp add: DirectnessFromSource_def split: ToolSource.splits)

lemma ComputeReliability_range:
  "0 \<le> rs_Final (ComputeReliability i) \<and> rs_Final (ComputeReliability i) \<le> 1"
  unfolding ComputeReliability_def Let_def by (simp add: clamp01_range)

lemma ComputeReliability_Base_unit:
  assumes "\<forall>r. ri_ExplicitReliability i = Some r \<longrightarrow> 0 \<le> r \<and> r \<le> 1"
  shows "0 \<le> rs_Base (ComputeReliability i) \<and> rs_Base (ComputeReliability i) \<le> 1"
  using assms
  by (cases "ri_ExplicitReliability i")
    (simp_all add: ComputeReliability_def Let_def split: ToolSource.splits)

lemma ComputeReliability_Final:
  "rs_Final (ComputeReliability i) = clamp01 (weighted_sum (rs_Base (ComputeReliability i))
     (rs_Directness (ComputeReliability i)) (rs_Recency (ComputeReliability i))
     (rs_Corroboration (ComputeReliability i)) (rs_Extraction (ComputeReliability i)))"
  by (simp add: ComputeReliability_def Let_def)

section \<open>Properties\<close>

text \<open>The reliability score is a true weighted average: when the factors supplied lie in the
  unit interval and the corroboration count is not negative, every recorded factor lies in the
  unit interval, the clamp changes nothing, and the result lies in the unit interval.\<close>

lemma reliability_weighted_average:
  assumes "\<forall>r. ri_ExplicitReliability i = Some r \<longrightarrow> 0 \<le> r \<and> r \<le> 1"
    and "0 \<le> ri_Directness i" "ri_Directness i \<le> 1" "0 \<le> ri_Recency i" "ri_Recency i \<le> 1"
    and "0 \<le> ri_ExtractionConfidence i" "ri_ExtractionConfidence i \<le> 1"
    and "0 \<le> ri_CorroborationCount i"
  shows "rs_Final (ComputeReliability i) = weighted_sum (rs_Base (ComputeReliability i))
     (rs_Directness (ComputeReliability i)) (rs_Recency (ComputeReliability i))
     (rs_Corroboration (ComputeReliability i)) (rs_Extraction (ComputeReliability i)) \<and>
    0 \<le> rs_Final (ComputeReliability i) \<and> rs_Final (ComputeReliability i) \<le> 1"
proof -
  let ?s = "ComputeReliability i"
  have b: "0 \<le> rs_Base ?s" "rs_Base ?s \<le> 1"
    using ComputeReliability_Base_unit [OF assms(1)] by simp_all
  have d: "0 \<le> rs_Directness ?s" "rs_Directness ?s \<le> 1"
    using assms(2,3) by (simp_all add: ComputeReliability_def Let_def)
  have r: "0 \<le> rs_Recency ?s" "rs_Recency ?s \<le> 1"
    using assms(4,5) by (simp_all add: ComputeReliability_def Let_def)
  have c: "0 \<le> rs_Corroboration ?s" "rs_Corroboration ?s \<le> 1"
    using corroboration_of_ge [OF assms(8)] corroboration_of_le_1
    by (simp_all add: ComputeReliability_def Let_def)
  have e: "0 \<le> rs_Extraction ?s" "rs_Extraction ?s \<le> 1"
    using assms(6,7) by (simp_all add: ComputeReliability_def Let_def)
  note u = weighted_sum_unit [OF b d r c e]
  show ?thesis
    using u by (subst ComputeReliability_Final) (simp add: clamp01_id ComputeReliability_range)
qed

definition sample_input :: ReliabilityInput where
  "sample_input = \<lparr> ri_SourceType = ToolSourceLocal, ri_ExplicitReliability = None,
     ri_Directness = 1, ri_Recency = 1, ri_CorroborationCount = 2,
     ri_ExtractionConfidence = 1 \<rparr>"

end
