(* ===== verification/Ledger.thy ===== *)
theory Ledger
  imports Reliability
begin

text \<open>
  \<^verbatim>\<open>backend/domain/evidence/ledger.go\<close>: the in-memory ledger of evidence records and claims
  of one agent run. The mutex makes every method one atomic step, so each method is one
  function on the state. \<open>MarshalLedger\<close> and \<open>RestoreLedger\<close> are modelled at the level of the
  snapshot struct; the JSON bytes in between are not. The clock is an argument.
\<close>

section \<open>State\<close>

record EvidenceLedger =
  l_records :: "(string, EvidenceRecord) gomap"
  l_recordOrder :: "string list"
  l_claims :: "(string, Claim) gomap"
  l_claimOrder :: "string list"
  l_evCounter :: int
  l_clCounter :: int
  l_caseID :: string
  l_agentRunID :: string
  l_collector :: string

record ledgerSnapshot =
  ls_CaseID :: string
  ls_AgentRunID :: string
  ls_Collector :: string
  ls_Records :: "EvidenceRecord option list option"
  ls_Claims :: "Claim option list option"
  ls_EvidenceCounter :: int
  ls_ClaimCounter :: int

definition NewEvidenceLedger :: "string \<Rightarrow> string \<Rightarrow> string \<Rightarrow> EvidenceLedger" where
  "NewEvidenceLedger caseID agentRunID collector =
     \<lparr> l_records = [], l_recordOrder = [], l_claims = [], l_claimOrder = [], l_evCounter = 0,
       l_clCounter = 0, l_caseID = caseID, l_agentRunID = agentRunID, l_collector = collector \<rparr>"

section \<open>Marshal and restore\<close>

definition MarshalLedger :: "EvidenceLedger \<Rightarrow> ledgerSnapshot" where
  "MarshalLedger l =
     \<lparr> ls_CaseID = l_caseID l, ls_AgentRunID = l_agentRunID l, ls_Collector = l_collector l,
       ls_Records = Some (map (map_of (l_records l)) (l_recordOrder l)),
       ls_Claims = Some (map (map_of (l_claims l)) (l_claimOrder l)),
       ls_EvidenceCounter = l_evCounter l, ls_ClaimCounter = l_clCounter l \<rparr>"

datatype restore_error =
    RestoreIncompleteState
  | RestoreInvalidRecord
  | RestoreDuplicateRecord string
  | RestoreInvalidClaim
  | RestoreDuplicateClaim string

fun restore_records ::
    "EvidenceRecord option list \<Rightarrow> EvidenceLedger \<Rightarrow> restore_error + EvidenceLedger" where
  "restore_records [] l = Inr l"
| "restore_records (None # rs) l = Inl RestoreInvalidRecord"
| "restore_records (Some r # rs) l =
     (if e_ID r = [] then Inl RestoreInvalidRecord
      else if map_of (l_records l) (e_ID r) \<noteq> None then Inl (RestoreDuplicateRecord (e_ID r))
      else restore_records rs
        (l\<lparr> l_records := AList.update (e_ID r) r (l_records l),
            l_recordOrder := l_recordOrder l @ [e_ID r] \<rparr>))"

fun restore_claims ::
    "Claim option list \<Rightarrow> EvidenceLedger \<Rightarrow> restore_error + EvidenceLedger" where
  "restore_claims [] l = Inr l"
| "restore_claims (None # cs) l = Inl RestoreInvalidClaim"
| "restore_claims (Some c # cs) l =
     (if cl_ID c = [] then Inl RestoreInvalidClaim
      else if map_of (l_claims l) (cl_ID c) \<noteq> None then Inl (RestoreDuplicateClaim (cl_ID c))
      else restore_claims cs
        (l\<lparr> l_claims := AList.update (cl_ID c) c (l_claims l),
            l_claimOrder := l_claimOrder l @ [cl_ID c] \<rparr>))"

definition RestoreLedger :: "ledgerSnapshot \<Rightarrow> restore_error + EvidenceLedger" where
  "RestoreLedger s =
     (case (ls_Records s, ls_Claims s) of
        (Some rs, Some cs) \<Rightarrow>
          (let l0 = (NewEvidenceLedger (ls_CaseID s) (ls_AgentRunID s) (ls_Collector s))
                      \<lparr> l_evCounter := ls_EvidenceCounter s, l_clCounter := ls_ClaimCounter s \<rparr>
           in case restore_records rs l0 of
                Inl e \<Rightarrow> Inl e
              | Inr l1 \<Rightarrow> restore_claims cs l1)
      | _ \<Rightarrow> Inl RestoreIncompleteState)"

section \<open>Recording\<close>

definition MaxEvidenceSourceURIBytes :: nat where
  "MaxEvidenceSourceURIBytes = 512"

text \<open>\<^verbatim>\<open>utf8.ValidString\<close> on the bytes of a string.\<close>

definition cont_byte :: "nat \<Rightarrow> bool" where
  "cont_byte b \<longleftrightarrow> 128 \<le> b \<and> b \<le> 191"

fun valid_utf8_bytes :: "nat list \<Rightarrow> bool" where
  "valid_utf8_bytes [] = True"
| "valid_utf8_bytes (a # bs) =
     (if a < 128 then valid_utf8_bytes bs
      else if 194 \<le> a \<and> a \<le> 223 then
        (case bs of b # r \<Rightarrow> cont_byte b \<and> valid_utf8_bytes r | _ \<Rightarrow> False)
      else if 224 \<le> a \<and> a \<le> 239 then
        (case bs of b # c # r \<Rightarrow>
           (if a = 224 then 160 \<le> b \<and> b \<le> 191
            else if a = 237 then 128 \<le> b \<and> b \<le> 159 else cont_byte b)
           \<and> cont_byte c \<and> valid_utf8_bytes r
         | _ \<Rightarrow> False)
      else if 240 \<le> a \<and> a \<le> 244 then
        (case bs of b # c # d # r \<Rightarrow>
           (if a = 240 then 144 \<le> b \<and> b \<le> 191
            else if a = 244 then 128 \<le> b \<and> b \<le> 143 else cont_byte b)
           \<and> cont_byte c \<and> cont_byte d \<and> valid_utf8_bytes r
         | _ \<Rightarrow> False)
      else False)"

definition valid_utf8 :: "string \<Rightarrow> bool" where
  "valid_utf8 s = valid_utf8_bytes (map of_char s)"

text \<open>The loop that backs the cut off to the end of the longest valid prefix.\<close>

fun utf8_cut :: "string \<Rightarrow> nat \<Rightarrow> nat" where
  "utf8_cut s 0 = 0"
| "utf8_cut s (Suc n) = (if valid_utf8 (take (Suc n) s) then Suc n else utf8_cut s n)"

definition truncate_uri :: "string \<Rightarrow> string" where
  "truncate_uri uri =
     (if length uri > MaxEvidenceSourceURIBytes
      then take (utf8_cut uri MaxEvidenceSourceURIBytes) uri else uri)"

definition evidence_id :: "int \<Rightarrow> string" where
  "evidence_id n = ''EV-'' @ fmt_03d n"

definition claim_id :: "int \<Rightarrow> string" where
  "claim_id n = ''CL-'' @ fmt_03d n"

fun source_type_of :: "string \<Rightarrow> EvidenceSourceType" where
  "source_type_of s =
     (if s = ''plugin'' then EvidenceSourcePlugin
      else if s = ''local'' then EvidenceSourceLocal
      else if s = ''knowledge'' then EvidenceSourceKnowledge
      else if s = ''workflow'' then EvidenceSourceWorkflow
      else if s = ''coderunner'' then EvidenceSourceCodeRun
      else EvidenceSourceOther s)"

fun source_type_str :: "EvidenceSourceType \<Rightarrow> string" where
  "source_type_str EvidenceSourcePlugin = ''plugin''"
| "source_type_str EvidenceSourceLocal = ''local''"
| "source_type_str EvidenceSourceKnowledge = ''knowledge''"
| "source_type_str EvidenceSourceWorkflow = ''workflow''"
| "source_type_str EvidenceSourceCodeRun = ''coderunner''"
| "source_type_str (EvidenceSourceOther s) = s"

definition Record ::
    "timestamp \<Rightarrow> string \<Rightarrow> string \<Rightarrow> string \<Rightarrow> string \<Rightarrow> string \<Rightarrow> ReliabilityScore
     \<Rightarrow> EvidenceLedger \<Rightarrow> EvidenceRecord \<times> EvidenceLedger" where
  "Record now toolCallID toolName sourceType sourceURI observation reliability l =
     (let n = l_evCounter l + 1;
          ev = \<lparr> e_ID = evidence_id n, e_CaseID = l_caseID l, e_ExecutionGeneration = 0,
                 e_AgentRunID = l_agentRunID l, e_ToolCallID = toolCallID, e_ToolName = toolName,
                 e_SourceType = source_type_of sourceType,
                 e_SourceURI = Some (truncate_uri sourceURI), e_RawContent = observation,
                 e_Observation = observation, e_Reliability = reliability,
                 e_CollectedBy = l_collector l, e_CreatedAt = now \<rparr>
      in (ev, l\<lparr> l_evCounter := n, l_records := AList.update (e_ID ev) ev (l_records l),
                 l_recordOrder := l_recordOrder l @ [e_ID ev] \<rparr>))"

definition RecordClaim ::
    "timestamp \<Rightarrow> string \<Rightarrow> string list \<Rightarrow> string list \<Rightarrow> EvidenceLedger
     \<Rightarrow> Claim \<times> EvidenceLedger" where
  "RecordClaim now stmt supports contradicts l =
     (let n = l_clCounter l + 1;
          cl = \<lparr> cl_ID = claim_id n, cl_CaseID = l_caseID l, cl_ExecutionGeneration = 0,
                 cl_AgentRunID = l_agentRunID l, cl_Statement = stmt, cl_Supports = supports,
                 cl_Contradicts = contradicts, cl_Status = ClaimStatusOpen,
                 cl_CreatedBy = l_collector l, cl_CreatedAt = now \<rparr>
      in (cl, l\<lparr> l_clCounter := n, l_claims := AList.update (cl_ID cl) cl (l_claims l),
                 l_claimOrder := l_claimOrder l @ [cl_ID cl] \<rparr>))"

section \<open>Queries\<close>

definition Ledger_Get :: "EvidenceLedger \<Rightarrow> string \<Rightarrow> EvidenceRecord option" where
  "Ledger_Get l evid = map_of (l_records l) evid"

definition ExistsCollected :: "EvidenceLedger \<Rightarrow> string \<Rightarrow> string \<Rightarrow> bool" where
  "ExistsCollected l evid collector =
     (case map_of (l_records l) evid of
        None \<Rightarrow> False
      | Some r \<Rightarrow> if collector = [] then True else e_CollectedBy r = collector)"

definition Ledger_Reliability :: "EvidenceLedger \<Rightarrow> string \<Rightarrow> float64 option" where
  "Ledger_Reliability l evid = map_option (\<lambda>r. rs_Final (e_Reliability r)) (map_of (l_records l) evid)"

definition Ledger_List :: "EvidenceLedger \<Rightarrow> EvidenceRecord list" where
  "Ledger_List l = somes (map (map_of (l_records l)) (l_recordOrder l))"

definition ListClaims :: "EvidenceLedger \<Rightarrow> Claim list" where
  "ListClaims l = somes (map (map_of (l_claims l)) (l_claimOrder l))"

section \<open>Corroboration\<close>

text \<open>How often the claims of the ledger and of the summary cite an evidence id.\<close>

definition support_count :: "EvidenceLedger \<Rightarrow> EvidenceSummaryClaim list \<Rightarrow> string \<Rightarrow> nat" where
  "support_count l summaryClaims evid =
     sum_list (map (\<lambda>c. count_list (cl_Supports (snd c)) evid) (l_claims l))
     + sum_list (map (\<lambda>c. count_list (sc_Supports c) evid) summaryClaims)"

definition corroborate :: "nat \<Rightarrow> EvidenceRecord \<Rightarrow> EvidenceRecord" where
  "corroborate n ev = ev\<lparr> e_Reliability :=
     RecomputeFinal ((e_Reliability ev)\<lparr> rs_Corroboration := corroboration_of (int n) \<rparr>) \<rparr>"

definition RecomputeCorroboration ::
    "EvidenceSummaryClaim list \<Rightarrow> EvidenceLedger \<Rightarrow> EvidenceLedger" where
  "RecomputeCorroboration summaryClaims l =
     l\<lparr> l_records := map (\<lambda>(k, ev). (k, corroborate (support_count l summaryClaims (e_ID ev)) ev))
                       (l_records l) \<rparr>"

section \<open>The ledger invariant\<close>

text \<open>
  Both indices agree with the stored records, and the counters are ahead of every
  identifier in use, so that the next identifier is new.
\<close>

definition ledger_wf :: "EvidenceLedger \<Rightarrow> bool" where
  "ledger_wf l \<longleftrightarrow>
     map fst (l_records l) = l_recordOrder l \<and>
     map fst (l_claims l) = l_claimOrder l \<and>
     (\<forall>(k, r) \<in> set (l_records l). e_ID r = k) \<and>
     (\<forall>(k, c) \<in> set (l_claims l). cl_ID c = k) \<and>
     0 \<le> l_evCounter l \<and> 0 \<le> l_clCounter l \<and>
     distinct (l_recordOrder l) \<and> distinct (l_claimOrder l) \<and>
     set (l_recordOrder l) \<subseteq> evidence_id ` {1..l_evCounter l} \<and>
     set (l_claimOrder l) \<subseteq> claim_id ` {1..l_clCounter l}"

lemma ledger_wf_index:
  assumes "ledger_wf l"
  shows "map fst (l_records l) = l_recordOrder l" "map fst (l_claims l) = l_claimOrder l"
    "distinct (map fst (l_records l))" "distinct (map fst (l_claims l))"
  using assms by (simp_all add: ledger_wf_def)

lemma ledger_wf_ids:
  assumes "ledger_wf l"
  shows "p \<in> set (l_records l) \<Longrightarrow> e_ID (snd p) = fst p"
    "q \<in> set (l_claims l) \<Longrightarrow> cl_ID (snd q) = fst q"
  using assms by (auto simp: ledger_wf_def)

lemma ledger_wf_range:
  assumes "ledger_wf l"
  shows "k \<in> set (l_recordOrder l) \<Longrightarrow> \<exists>n. 1 \<le> n \<and> n \<le> l_evCounter l \<and> k = evidence_id n"
    "k \<in> set (l_claimOrder l) \<Longrightarrow> \<exists>n. 1 \<le> n \<and> n \<le> l_clCounter l \<and> k = claim_id n"
proof -
  have "set (l_recordOrder l) \<subseteq> evidence_id ` {1..l_evCounter l}"
    "set (l_claimOrder l) \<subseteq> claim_id ` {1..l_clCounter l}"
    using assms by (simp_all add: ledger_wf_def)
  then show "k \<in> set (l_recordOrder l) \<Longrightarrow> \<exists>n. 1 \<le> n \<and> n \<le> l_evCounter l \<and> k = evidence_id n"
    "k \<in> set (l_claimOrder l) \<Longrightarrow> \<exists>n. 1 \<le> n \<and> n \<le> l_clCounter l \<and> k = claim_id n"
    by (fastforce dest: subsetD)+
qed

lemma ledger_wf_counters: "ledger_wf l \<Longrightarrow> 0 \<le> l_evCounter l" "ledger_wf l \<Longrightarrow> 0 \<le> l_clCounter l"
  by (simp_all add: ledger_wf_def)

lemma evidence_id_inject: "0 \<le> m \<Longrightarrow> 0 \<le> n \<Longrightarrow> evidence_id m = evidence_id n \<longleftrightarrow> m = n"
  by (simp add: evidence_id_def fmt_03d_inject)

lemma claim_id_inject: "0 \<le> m \<Longrightarrow> 0 \<le> n \<Longrightarrow> claim_id m = claim_id n \<longleftrightarrow> m = n"
  by (simp add: claim_id_def fmt_03d_inject)

lemma evidence_id_nonempty [simp]: "evidence_id n \<noteq> []"
  by (simp add: evidence_id_def)

lemma claim_id_nonempty [simp]: "claim_id n \<noteq> []"
  by (simp add: claim_id_def)

lemma map_of_keys: "distinct (map fst al) \<Longrightarrow> map (map_of al) (map fst al) = map (\<lambda>p. Some (snd p)) al"
  by (auto intro!: map_of_is_SomeI)

lemma update_fresh: "k \<notin> fst ` set al \<Longrightarrow> AList.update k v al = al @ [(k, v)]"
  by (induction al) auto

lemma ledger_wf_fresh_evidence:
  assumes "ledger_wf l"
  shows "evidence_id (l_evCounter l + 1) \<notin> set (l_recordOrder l)"
proof
  assume "evidence_id (l_evCounter l + 1) \<in> set (l_recordOrder l)"
  from ledger_wf_range(1) [OF assms this] obtain n
    where "1 \<le> n" "n \<le> l_evCounter l" "evidence_id (l_evCounter l + 1) = evidence_id n" by blast
  then show False using ledger_wf_counters [OF assms] by (simp add: evidence_id_inject)
qed

lemma ledger_wf_fresh_claim:
  assumes "ledger_wf l"
  shows "claim_id (l_clCounter l + 1) \<notin> set (l_claimOrder l)"
proof
  assume "claim_id (l_clCounter l + 1) \<in> set (l_claimOrder l)"
  from ledger_wf_range(2) [OF assms this] obtain n
    where "1 \<le> n" "n \<le> l_clCounter l" "claim_id (l_clCounter l + 1) = claim_id n" by blast
  then show False using ledger_wf_counters [OF assms] by (simp add: claim_id_inject)
qed

lemma wf_NewEvidenceLedger [intro, simp]: "ledger_wf (NewEvidenceLedger c a m)"
  by (simp add: ledger_wf_def NewEvidenceLedger_def)

lemma id_interval_Suc: "0 \<le> (n::int) \<Longrightarrow> {1..n + 1} = insert (n + 1) {1..n}"
  by auto

lemma wf_Record [intro]:
  assumes "ledger_wf l"
  shows "ledger_wf (snd (Record now tc tn st uri ob rel l))"
proof -
  let ?id = "evidence_id (l_evCounter l + 1)"
  note fresh = ledger_wf_fresh_evidence [OF assms]
  have keys: "fst ` set (l_records l) = set (l_recordOrder l)"
    using assms by (metis ledger_wf_def list.set_map)
  have upd: "AList.update ?id v (l_records l) = l_records l @ [(?id, v)]" for v
    using fresh keys by (simp add: update_fresh)
  show ?thesis
    using assms fresh
    by (auto simp: Record_def Let_def upd ledger_wf_def id_interval_Suc)
qed

lemma wf_RecordClaim [intro]:
  assumes "ledger_wf l"
  shows "ledger_wf (snd (RecordClaim now stmt sps cts l))"
proof -
  let ?id = "claim_id (l_clCounter l + 1)"
  note fresh = ledger_wf_fresh_claim [OF assms]
  have keys: "fst ` set (l_claims l) = set (l_claimOrder l)"
    using assms by (metis ledger_wf_def list.set_map)
  have upd: "AList.update ?id v (l_claims l) = l_claims l @ [(?id, v)]" for v
    using fresh keys by (simp add: update_fresh)
  show ?thesis
    using assms fresh
    by (auto simp: RecordClaim_def Let_def upd ledger_wf_def id_interval_Suc)
qed

lemma e_ID_corroborate [simp]: "e_ID (corroborate n ev) = e_ID ev"
  by (simp add: corroborate_def)

lemma wf_RecomputeCorroboration [intro]:
  assumes "ledger_wf l"
  shows "ledger_wf (RecomputeCorroboration cs l)"
proof -
  let ?f = "\<lambda>(k, ev). (k, corroborate (support_count l cs (e_ID ev)) ev)"
  have "map fst (map ?f (l_records l)) = map fst (l_records l)"
    by (simp add: case_prod_beta)
  moreover have "\<forall>(k, r) \<in> set (map ?f (l_records l)). e_ID r = k"
    using assms by (auto simp: ledger_wf_def)
  ultimately show ?thesis
    using assms unfolding ledger_wf_def RecomputeCorroboration_def by simp
qed

section \<open>Queries under the invariant\<close>

lemma somes_map_Some: "somes (map (\<lambda>x. Some (f x)) xs) = map f xs"
  by (induction xs) simp_all

lemma Ledger_List_wf:
  assumes "ledger_wf l"
  shows "Ledger_List l = map snd (l_records l)"
proof -
  have "map (map_of (l_records l)) (l_recordOrder l) = map (\<lambda>p. Some (snd p)) (l_records l)"
    using assms map_of_keys [of "l_records l"] by (simp add: ledger_wf_def)
  then show ?thesis by (simp add: Ledger_List_def somes_map_Some)
qed

lemma Ledger_Get_iff:
  assumes "ledger_wf l"
  shows "Ledger_Get l i = Some r \<longleftrightarrow> r \<in> set (Ledger_List l) \<and> e_ID r = i"
proof -
  have "Ledger_Get l i = Some r \<longleftrightarrow> (i, r) \<in> set (l_records l)"
    using ledger_wf_index(3) [OF assms] by (simp add: Ledger_Get_def)
  also have "\<dots> \<longleftrightarrow> r \<in> snd ` set (l_records l) \<and> e_ID r = i"
    using ledger_wf_ids(1) [OF assms] by force
  finally show ?thesis by (simp add: Ledger_List_wf [OF assms])
qed

lemma map_e_ID_List:
  assumes "ledger_wf l"
  shows "map e_ID (Ledger_List l) = l_recordOrder l"
proof -
  have "map (\<lambda>p. e_ID (snd p)) (l_records l) = map fst (l_records l)"
    using ledger_wf_ids(1) [OF assms] by simp
  then show ?thesis
    by (simp add: Ledger_List_wf [OF assms] ledger_wf_index(1) [OF assms] comp_def)
qed

text \<open>
  The view of a ledger the evidence gate and the reflection check rely on: which record an
  identifier names, who collected it and how reliable it is.
\<close>

locale evidence_view =
  fixes get :: "'l \<Rightarrow> string \<Rightarrow> EvidenceRecord option"
    and exists_by :: "'l \<Rightarrow> string \<Rightarrow> string \<Rightarrow> bool"
    and rel_of :: "'l \<Rightarrow> string \<Rightarrow> float64 option"
    and all_records :: "'l \<Rightarrow> EvidenceRecord list"
    and inv :: "'l \<Rightarrow> bool"
  assumes exists_iff:
      "exists_by l i c \<longleftrightarrow> (\<exists>r. get l i = Some r \<and> (c = [] \<or> e_CollectedBy r = c))"
    and rel_eq: "rel_of l i = map_option (\<lambda>r. rs_Final (e_Reliability r)) (get l i)"
    and get_listed: "inv l \<Longrightarrow> get l i = Some r \<longleftrightarrow> r \<in> set (all_records l) \<and> e_ID r = i"
begin

lemma exists_own_exists: "exists_by l i c \<Longrightarrow> exists_by l i []"
  by (auto simp: exists_iff)

lemma exists_rel: "exists_by l i c \<Longrightarrow> \<exists>x. rel_of l i = Some x"
  by (auto simp: exists_iff rel_eq)

lemma exists_listed:
  "inv l \<Longrightarrow> exists_by l i c \<Longrightarrow> \<exists>r \<in> set (all_records l). e_ID r = i \<and> (c = [] \<or> e_CollectedBy r = c)"
  by (auto simp: exists_iff get_listed)

lemma nothing_exists_in_empty: "inv l \<Longrightarrow> all_records l = [] \<Longrightarrow> \<not> exists_by l i c"
  using exists_listed by fastforce

end

interpretation ledger_view:
  evidence_view Ledger_Get ExistsCollected Ledger_Reliability Ledger_List ledger_wf
proof (unfold_locales, goal_cases)
  case (1 l i c)
  show ?case by (auto simp: ExistsCollected_def Ledger_Get_def split: option.splits)
next
  case (2 l i)
  show ?case by (simp add: Ledger_Reliability_def Ledger_Get_def)
next
  case (3 l i r)
  then show ?case by (rule Ledger_Get_iff)
qed

section \<open>Restoring a marshalled ledger\<close>

lemma restore_records_append:
  assumes "distinct (map fst (l_records l @ ps))" and "\<forall>(k, r) \<in> set ps. e_ID r = k \<and> k \<noteq> []"
  shows "restore_records (map (\<lambda>p. Some (snd p)) ps) l =
     Inr (l\<lparr> l_records := l_records l @ ps, l_recordOrder := l_recordOrder l @ map fst ps \<rparr>)"
  using assms
proof (induction ps arbitrary: l)
  case Nil
  show ?case by simp
next
  case (Cons p ps)
  obtain k r where p: "p = (k, r)" by (cases p)
  have k: "e_ID r = k" "k \<noteq> []" using Cons.prems(2) p by auto
  have new: "k \<notin> fst ` set (l_records l)" using Cons.prems(1) p by auto
  then have "map_of (l_records l) k = None" by (simp add: map_of_eq_None_iff)
  with k p new Cons.prems show ?case
    by (simp add: update_fresh Cons.IH)
qed

lemma restore_claims_append:
  assumes "distinct (map fst (l_claims l @ ps))" and "\<forall>(k, c) \<in> set ps. cl_ID c = k \<and> k \<noteq> []"
  shows "restore_claims (map (\<lambda>p. Some (snd p)) ps) l =
     Inr (l\<lparr> l_claims := l_claims l @ ps, l_claimOrder := l_claimOrder l @ map fst ps \<rparr>)"
  using assms
proof (induction ps arbitrary: l)
  case Nil
  show ?case by simp
next
  case (Cons p ps)
  obtain k c where p: "p = (k, c)" by (cases p)
  have k: "cl_ID c = k" "k \<noteq> []" using Cons.prems(2) p by auto
  have new: "k \<notin> fst ` set (l_claims l)" using Cons.prems(1) p by auto
  then have "map_of (l_claims l) k = None" by (simp add: map_of_eq_None_iff)
  with k p new Cons.prems show ?case
    by (simp add: update_fresh Cons.IH)
qed

lemma ledger_wf_nonempty_ids:
  assumes "ledger_wf l"
  shows "\<forall>(k, r) \<in> set (l_records l). e_ID r = k \<and> k \<noteq> []"
    and "\<forall>(k, c) \<in> set (l_claims l). cl_ID c = k \<and> k \<noteq> []"
proof -
  have "k \<noteq> []" if "k \<in> set (l_recordOrder l) \<or> k \<in> set (l_claimOrder l)" for k
    using that ledger_wf_range [OF assms] evidence_id_nonempty claim_id_nonempty by metis
  then have "fst p \<noteq> []" if "p \<in> set (l_records l)" for p
    using that ledger_wf_index(1) [OF assms] by (metis in_set_conv_nth length_map nth_map nth_mem)
  moreover have "fst q \<noteq> []" if "q \<in> set (l_claims l)" for q
    using that \<open>\<And>k. k \<in> set (l_recordOrder l) \<or> k \<in> set (l_claimOrder l) \<Longrightarrow> k \<noteq> []\<close>
      ledger_wf_index(2) [OF assms] by (metis in_set_conv_nth length_map nth_map nth_mem)
  ultimately show "\<forall>(k, r) \<in> set (l_records l). e_ID r = k \<and> k \<noteq> []"
    and "\<forall>(k, c) \<in> set (l_claims l). cl_ID c = k \<and> k \<noteq> []"
    using ledger_wf_ids [OF assms] by (fastforce simp: case_prod_beta)+
qed

lemma restore_marshal:
  assumes "ledger_wf l"
  shows "RestoreLedger (MarshalLedger l) = Inr l"
proof -
  note r = ledger_wf_index(1,3) [OF assms] and c = ledger_wf_index(2,4) [OF assms]
  have mr: "map (map_of (l_records l)) (l_recordOrder l) = map (\<lambda>p. Some (snd p)) (l_records l)"
    using map_of_keys [OF r(2)] r(1) by simp
  have mc: "map (map_of (l_claims l)) (l_claimOrder l) = map (\<lambda>p. Some (snd p)) (l_claims l)"
    using map_of_keys [OF c(2)] c(1) by simp
  show ?thesis
    using r c ledger_wf_nonempty_ids [OF assms]
    by (simp add: RestoreLedger_def MarshalLedger_def mr mc NewEvidenceLedger_def Let_def
        restore_records_append restore_claims_append)
qed

section \<open>Histories\<close>

text \<open>Any sequence of the methods that change a ledger.\<close>

datatype ledger_op =
    OpRecord timestamp string string string string string ReliabilityScore
  | OpRecordClaim timestamp string "string list" "string list"
  | OpRecomputeCorroboration "EvidenceSummaryClaim list"

fun ledger_step :: "EvidenceLedger \<Rightarrow> ledger_op \<Rightarrow> EvidenceLedger" where
  "ledger_step l (OpRecord now tc tn ty uri ob rel) = snd (Record now tc tn ty uri ob rel l)"
| "ledger_step l (OpRecordClaim now stmt sps cts) = snd (RecordClaim now stmt sps cts l)"
| "ledger_step l (OpRecomputeCorroboration cs) = RecomputeCorroboration cs l"

definition run_ledger :: "ledger_op list \<Rightarrow> EvidenceLedger \<Rightarrow> EvidenceLedger" where
  "run_ledger ops l = foldl ledger_step l ops"

fun is_record :: "ledger_op \<Rightarrow> bool" where
  "is_record (OpRecord _ _ _ _ _ _ _) = True"
| "is_record _ = False"

lemma ledger_step_wf: "ledger_wf l \<Longrightarrow> ledger_wf (ledger_step l op)"
  by (cases op) auto

lemma run_ledger_wf: "ledger_wf l \<Longrightarrow> ledger_wf (run_ledger ops l)"
  by (induction ops arbitrary: l) (simp_all add: run_ledger_def ledger_step_wf)

lemma l_recordOrder_step:
  "length (l_recordOrder (ledger_step l op)) =
     (if is_record op then Suc (length (l_recordOrder l)) else length (l_recordOrder l))"
  by (cases op) (simp_all add: Record_def RecordClaim_def RecomputeCorroboration_def Let_def)

lemma l_recordOrder_run:
  "length (l_recordOrder (run_ledger ops l)) =
     length (l_recordOrder l) + length (filter is_record ops)"
  by (induction ops arbitrary: l) (simp_all add: run_ledger_def l_recordOrder_step)

lemma Record_get:
  "Ledger_Get (snd (Record now tc tn ty uri ob rel l)) i =
     (if i = evidence_id (l_evCounter l + 1) then Some (fst (Record now tc tn ty uri ob rel l))
      else Ledger_Get l i)"
  by (simp add: Ledger_Get_def Record_def Let_def update_conv)

section \<open>Truncation of source URIs\<close>

lemma utf8_cut_le: "utf8_cut s n \<le> n"
  by (induction n) auto

lemma utf8_cut_valid: "valid_utf8 (take (utf8_cut s n) s)"
  by (induction n) (auto simp: valid_utf8_def)

lemma utf8_cut_maximal: "k \<le> n \<Longrightarrow> valid_utf8 (take k s) \<Longrightarrow> k \<le> utf8_cut s n"
  by (induction n) (auto simp: le_Suc_eq)

section \<open>Corroboration is monotone\<close>

lemma corroborate_mono:
  assumes "m \<le> n"
  shows "rs_Final (e_Reliability (corroborate m ev)) \<le> rs_Final (e_Reliability (corroborate n ev))"
proof -
  have "corroboration_of (int m) \<le> corroboration_of (int n)"
    using assms by (simp add: corroboration_of_mono)
  then show ?thesis
    by (simp add: corroborate_def RecomputeFinal_def clamp01_mono weighted_sum_mono)
qed

lemma support_count_append:
  "support_count l (cs @ ds) i = support_count l cs i
     + sum_list (map (\<lambda>c. count_list (sc_Supports c) i) ds)"
  by (simp add: support_count_def)

lemma map_of_map_pair: "map_of (map (\<lambda>(k, v). (k, f v)) al) i = map_option f (map_of al i)"
  by (induction al) auto

lemma Ledger_Get_RecomputeCorroboration:
  "Ledger_Get (RecomputeCorroboration cs l) i =
     map_option (\<lambda>ev. corroborate (support_count l cs (e_ID ev)) ev) (Ledger_Get l i)"
  by (simp add: Ledger_Get_def RecomputeCorroboration_def
      map_of_map_pair [where f = "\<lambda>ev. corroborate (support_count l cs (e_ID ev)) ev"])

section \<open>Properties\<close>




text \<open>More corroboration never lowers a score: extending the summary claims keeps every
  record and can only raise its final reliability, which stays in the unit interval.\<close>

lemma corroboration_monotone:
  assumes "Ledger_Reliability (RecomputeCorroboration cs l) i = Some x"
  shows "\<exists>y. Ledger_Reliability (RecomputeCorroboration (cs @ extra) l) i = Some y \<and>
           0 \<le> x \<and> x \<le> y \<and> y \<le> 1"
proof -
  obtain ev where ev: "Ledger_Get l i = Some ev"
    and x: "x = rs_Final (e_Reliability (corroborate (support_count l cs (e_ID ev)) ev))"
    using assms by (auto simp: ledger_view.rel_eq Ledger_Get_RecomputeCorroboration)
  let ?y = "rs_Final (e_Reliability (corroborate (support_count l (cs @ extra) (e_ID ev)) ev))"
  have "Ledger_Reliability (RecomputeCorroboration (cs @ extra) l) i = Some ?y"
    using ev by (simp add: ledger_view.rel_eq Ledger_Get_RecomputeCorroboration)
  moreover have "x \<le> ?y"
    unfolding x by (rule corroborate_mono) (simp add: support_count_append)
  moreover have "0 \<le> x" "?y \<le> 1"
    unfolding x by (simp_all add: corroborate_def RecomputeFinal_range)
  ultimately show ?thesis by blast
qed

text \<open>A stored source URI fits its column and is never cut inside a character: it is a prefix
  of the original of at most 512 bytes; an oversized original is replaced by its longest
  well-formed prefix within the limit.\<close>

lemma truncate_uri_longest_valid_prefix:
  "prefix (truncate_uri uri) uri \<and> length (truncate_uri uri) \<le> 512 \<and>
   (512 < length uri \<longrightarrow> valid_utf8 (truncate_uri uri) \<and>
      (\<forall>k. k \<le> 512 \<and> valid_utf8 (take k uri) \<longrightarrow> k \<le> length (truncate_uri uri)))"
proof (cases "512 < length uri")
  case True
  have "utf8_cut uri 512 \<le> 512" by (rule utf8_cut_le)
  with True have len: "length (truncate_uri uri) = utf8_cut uri 512"
    by (simp add: truncate_uri_def MaxEvidenceSourceURIBytes_def)
  have eq: "truncate_uri uri = take (utf8_cut uri 512) uri"
    using True by (simp add: truncate_uri_def MaxEvidenceSourceURIBytes_def)
  show ?thesis
    using \<open>utf8_cut uri 512 \<le> 512\<close> utf8_cut_valid [of uri 512] utf8_cut_maximal [of _ 512 uri]
    unfolding len by (auto simp: eq take_is_prefix)
next
  case False
  then show ?thesis by (simp add: truncate_uri_def MaxEvidenceSourceURIBytes_def)
qed

end
