(* ===== verification/Debate.thy ===== *)
theory Debate
  imports ClaimGraph Ledger
begin

text \<open>
  \<^verbatim>\<open>backend/domain/debate\<close>: the deterministic builder of the debate packet (\<^verbatim>\<open>engine.go\<close>) and the
  rule that a changed vote needs a justification (\<^verbatim>\<open>reflection.go\<close>).

  The packet builder takes the conflict finder as an argument, as the Go engine holds one; its
  lemmas are proved in the context of the locale \<open>conflict_finder\<close> and used at the graph finder.
\<close>

section \<open>Synthesised conflicts\<close>

definition opposing :: "string \<Rightarrow> string \<Rightarrow> ClaimConflict" where
  "opposing a b = \<lparr> ClaimA = a, ClaimB = b, cf_Reason = ''opposing-vote'' \<rparr>"

text \<open>The three nested loops; the flag says that the code has returned.\<close>

fun synth_inner :: "string list \<Rightarrow> string list \<Rightarrow> ClaimConflict list \<Rightarrow> ClaimConflict list \<times> bool" where
  "synth_inner (a # as) (b # bs) out =
     (let out' = out @ [opposing a b]
      in if length out' \<ge> 3 then (out', True) else synth_inner as bs out')"
| "synth_inner _ _ out = (out, False)"

fun synth_minority :: "string list \<Rightarrow> Vote list \<Rightarrow> ClaimConflict list \<Rightarrow> ClaimConflict list \<times> bool" where
  "synth_minority as [] out = (out, False)"
| "synth_minority as (m # ms) out =
     (case synth_inner as (v_KeyClaimIDs m) out of
        (out', True) \<Rightarrow> (out', True)
      | (out', False) \<Rightarrow> if length out' \<ge> 3 then (out', True) else synth_minority as ms out')"

fun synth_majority :: "Vote list \<Rightarrow> Vote list \<Rightarrow> ClaimConflict list \<Rightarrow> ClaimConflict list" where
  "synth_majority [] minority out = out"
| "synth_majority (m # ms) minority out =
     (case synth_minority (v_KeyClaimIDs m) minority out of
        (out', True) \<Rightarrow> out'
      | (out', False) \<Rightarrow> synth_majority ms minority out')"

definition synthesizeConflicts :: "Vote list \<Rightarrow> Vote list \<Rightarrow> ClaimConflict list" where
  "synthesizeConflicts majority minority = synth_majority majority minority []"

section \<open>The packet\<close>

definition defaultRoleQuestions :: "DebateQuestion list" where
  "defaultRoleQuestions =
     [\<lparr> dq_From = MagiCodeCommander, dq_To = MagiCodeMelchior, dq_Text =
         ''Which quantitative assumption or technical blocker would most change your vote?'' \<rparr>,
      \<lparr> dq_From = MagiCodeCommander, dq_To = MagiCodeBalthasar, dq_Text =
         ''What is the worst credible failure, how reversible is it, and what residual risk remains after rollback?'' \<rparr>,
      \<lparr> dq_From = MagiCodeCommander, dq_To = MagiCodeCasper, dq_Text =
         ''What opportunity is time-sensitive, what is the cost of waiting, and what user or market signal supports it?'' \<rparr>]"

fun approve_side :: "VoteDecision \<Rightarrow> bool" where
  "approve_side VoteDecisionApprove = True"
| "approve_side VoteDecisionConditionalApprove = True"
| "approve_side _ = False"

definition split_votes :: "Vote list \<Rightarrow> Vote list \<times> Vote list" where
  "split_votes votes =
     (let approves = filter (\<lambda>v. approve_side (v_Decision v)) votes;
          rejects = filter (\<lambda>v. v_Decision v = VoteDecisionReject) votes;
          others = filter (\<lambda>v. \<not> approve_side (v_Decision v) \<and> v_Decision v \<noteq> VoteDecisionReject) votes
      in if length approves > length rejects \<and> length approves > 0 then (approves, rejects @ others)
         else if length rejects > length approves \<and> length rejects > 0 then (rejects, approves @ others)
         else ([], approves @ rejects @ others))"

text \<open>A nil evidence pointer leaves the zero record in its slot.\<close>

definition zero_evidence :: EvidenceRecord where
  "zero_evidence = \<lparr> e_ID = [], e_CaseID = [], e_ExecutionGeneration = 0, e_AgentRunID = [],
     e_ToolCallID = [], e_ToolName = [], e_SourceType = EvidenceSourceOther [], e_SourceURI = None,
     e_RawContent = [], e_Observation = [],
     e_Reliability = \<lparr> rs_Base = 0, rs_Directness = 0, rs_Recency = 0, rs_Corroboration = 0,
                       rs_Extraction = 0, rs_Final = 0 \<rparr>,
     e_CollectedBy = [], e_CreatedAt = 0 \<rparr>"

definition packet_conflicts ::
    "(Claim option list \<Rightarrow> ClaimConflict list) \<Rightarrow> Claim option list \<Rightarrow> Vote list \<Rightarrow> Vote list \<Rightarrow> ClaimConflict list" where
  "packet_conflicts finder claims majority minority =
     (let conflicts = finder claims
      in if length conflicts = 0 \<and> length majority > 0 \<and> length minority > 0
         then synthesizeConflicts majority minority else conflicts)"

definition BuildPacket ::
    "(Claim option list \<Rightarrow> ClaimConflict list) \<Rightarrow> Vote list \<Rightarrow> Claim option list \<Rightarrow> int
     \<Rightarrow> EvidenceRecord option list \<Rightarrow> DebatePacket" where
  "BuildPacket finder votes claims rnd sharedEvidence =
     (case split_votes votes of (majority, minority) \<Rightarrow>
        \<lparr> dp_Round = rnd, dp_MajorityVotes = majority, dp_MinorityVotes = minority,
          dp_ConflictingClaims = packet_conflicts finder claims majority minority,
          dp_SharedEvidence =
            map (\<lambda>e. case e of None \<Rightarrow> zero_evidence | Some r \<Rightarrow> r) sharedEvidence,
          dp_Questions = defaultRoleQuestions \<rparr>)"

section \<open>Reflections\<close>

datatype reflection_error =
    NilReflection | NilPreviousVote | NewEvidenceRequired | UnjustifiedChange
  | NewEvidenceNotFound string | AcceptedClaimNotFound string | RejectedClaimNotFound string
  | UnknownPositionChange PositionChange

definition justified :: "Reflection \<Rightarrow> bool" where
  "justified r = (rf_NewEvidenceIDs r \<noteq> [] \<or> rf_AcceptedClaims r \<noteq> [] \<or> rf_RejectedClaims r \<noteq> [] \<or>
     (case rf_UtilityDimensionReevaluation r of None \<Rightarrow> False | Some u \<Rightarrow> DimensionsReEvaluated u \<noteq> []))"

definition check_references ::
    "Reflection \<Rightarrow> EvidenceLedger \<Rightarrow> string list \<Rightarrow> reflection_error option" where
  "check_references r ledger claimIDs =
     (case check_all (\<lambda>i. if ExistsCollected ledger i [] then None else Some (NewEvidenceNotFound i))
             (rf_NewEvidenceIDs r) of
        Some e \<Rightarrow> Some e
      | None \<Rightarrow>
         (case check_all (\<lambda>i. if i \<in> set claimIDs then None else Some (AcceptedClaimNotFound i))
                 (rf_AcceptedClaims r) of
            Some e \<Rightarrow> Some e
          | None \<Rightarrow> check_all (\<lambda>i. if i \<in> set claimIDs then None else Some (RejectedClaimNotFound i))
                     (rf_RejectedClaims r)))"

definition ValidateReflection ::
    "Reflection option \<Rightarrow> Vote option \<Rightarrow> EvidenceLedger \<Rightarrow> string list \<Rightarrow> bool \<Rightarrow> reflection_error option" where
  "ValidateReflection ro prevVote ledger claimIDs requireNewEvidence =
     (case ro of None \<Rightarrow> Some NilReflection
      | Some r \<Rightarrow>
         (case prevVote of None \<Rightarrow> Some NilPreviousVote
          | Some _ \<Rightarrow>
             (if rf_PositionChange r \<in> {PositionChangeMaintain, PositionChangeStrengthen, PositionChangeAbstain}
              then (if requireNewEvidence \<and> rf_NewEvidenceIDs r = [] then Some NewEvidenceRequired else None)
              else if rf_PositionChange r \<in> {PositionChangeChange, PositionChangeWeaken}
              then (if \<not> justified r then Some UnjustifiedChange else check_references r ledger claimIDs)
              else Some (UnknownPositionChange (rf_PositionChange r)))))"

definition InferReflection :: "Vote option \<Rightarrow> Vote option \<Rightarrow> int \<Rightarrow> Reflection option" where
  "InferReflection prevVote newVote rnd =
     (case (prevVote, newVote) of
        (Some pv, Some nv) \<Rightarrow> Some
          \<lparr> rf_ID = [], rf_CaseID = [], rf_ExecutionGeneration = 0, rf_AgentRunID = v_AgentRunID nv,
            rf_Round = rnd, rf_PreviousVoteID = v_ID pv,
            rf_PositionChange = (if v_Decision pv \<noteq> v_Decision nv then PositionChangeChange
                                 else PositionChangeMaintain),
            rf_AcceptedClaims = [], rf_RejectedClaims = [],
            rf_NewEvidenceIDs = filter (\<lambda>i. i \<notin> set (v_EvidenceIDs pv)) (v_EvidenceIDs nv),
            rf_UtilityDimensionReevaluation = None, rf_Reasoning = ''inferred from vote diff'',
            rf_ReadyToRevote = True, rf_CreatedAt = 0 \<rparr>
      | _ \<Rightarrow> None)"

section \<open>Lemmas on the synthesised conflicts\<close>

definition paired :: "Vote list \<Rightarrow> Vote list \<Rightarrow> ClaimConflict list" where
  "paired majority minority =
     concat (map (\<lambda>a. concat (map (\<lambda>b. map2 opposing (v_KeyClaimIDs a) (v_KeyClaimIDs b)) minority)) majority)"

lemma synth_inner_take:
  "length out < 3 \<Longrightarrow>
     synth_inner as bs out = (take 3 (out @ map2 opposing as bs), 3 \<le> length (out @ map2 opposing as bs))"
  by (induction as bs out rule: synth_inner.induct) (auto simp: Let_def take_Cons')

lemma synth_minority_take:
  "length out < 3 \<Longrightarrow>
     synth_minority as ms out =
       (let all = out @ concat (map (\<lambda>b. map2 opposing as (v_KeyClaimIDs b)) ms)
        in (take 3 all, 3 \<le> length all))"
proof (induction ms arbitrary: out)
  case (Cons m ms)
  let ?o = "out @ map2 opposing as (v_KeyClaimIDs m)"
  show ?case
  proof (cases "3 \<le> length ?o")
    case True
    then show ?thesis using Cons.prems by (auto simp: synth_inner_take Let_def)
  next
    case False
    then have "take 3 ?o = ?o" by simp
    with False Cons show ?thesis by (simp add: synth_inner_take Let_def add.assoc)
  qed
qed (simp add: Let_def)

lemma synth_majority_take:
  "length out < 3 \<Longrightarrow> synth_majority ms minority out = take 3 (out @ paired ms minority)"
proof (induction ms arbitrary: out)
  case (Cons m ms)
  let ?o = "out @ concat (map (\<lambda>b. map2 opposing (v_KeyClaimIDs m) (v_KeyClaimIDs b)) minority)"
  show ?case
  proof (cases "3 \<le> length ?o")
    case True
    then show ?thesis using Cons.prems by (auto simp: synth_minority_take Let_def paired_def)
  next
    case False
    then have "take 3 ?o = ?o" by simp
    with False Cons show ?thesis by (simp add: synth_minority_take Let_def paired_def)
  qed
qed (simp add: paired_def)

lemma synthesizeConflicts_take: "synthesizeConflicts majority minority = take 3 (paired majority minority)"
  by (simp add: synthesizeConflicts_def synth_majority_take)

section \<open>Lemmas on the packet\<close>

lemma split_votes_mset:
  assumes "split_votes votes = (majority, minority)"
  shows "mset majority + mset minority = mset votes"
proof -
  define A where "A = filter (\<lambda>v. approve_side (v_Decision v)) votes"
  define R where "R = filter (\<lambda>v. v_Decision v = VoteDecisionReject) votes"
  define Q where "Q = filter (\<lambda>v. \<not> approve_side (v_Decision v) \<and> v_Decision v \<noteq> VoteDecisionReject) votes"
  have "mset A + (mset R + mset Q) = mset votes"
    unfolding A_def R_def Q_def
  proof (induction votes)
    case (Cons v votes)
    then show ?case by (cases "v_Decision v") auto
  qed simp
  moreover have "(majority, minority) \<in> {(A, R @ Q), (R, A @ Q), ([], A @ R @ Q)}"
    using assms unfolding split_votes_def Let_def A_def [symmetric] R_def [symmetric] Q_def [symmetric]
    by (auto split: if_splits)
  ultimately show ?thesis by (auto simp: ac_simps)
qed

lemma split_votes_majority:
  assumes "split_votes votes = (majority, minority)" "majority \<noteq> []"
  shows "(\<forall>v \<in> set majority. approve_side (v_Decision v)) \<and> (\<forall>v \<in> set minority. \<not> approve_side (v_Decision v)) \<or>
    (\<forall>v \<in> set majority. v_Decision v = VoteDecisionReject) \<and> (\<forall>v \<in> set minority. v_Decision v \<noteq> VoteDecisionReject)"
  using assms by (auto simp: split_votes_def Let_def split: if_splits)

context conflict_finder
begin

lemma packet_conflicts_asserted:
  assumes "asserted claims \<noteq> {}"
  shows "dp_ConflictingClaims (BuildPacket find_conflicts votes claims rnd ev) = find_conflicts claims \<and>
    find_conflicts claims \<noteq> [] \<and>
    (\<forall>c \<in> set (find_conflicts claims). (ClaimA c, ClaimB c) \<in> asserted claims)"
  using assms silent_iff [of claims] found_asserted
  by (auto simp: BuildPacket_def packet_conflicts_def Let_def split: prod.splits)

lemma packet_conflicts_synthesised:
  assumes "asserted claims = {}"
  shows "dp_ConflictingClaims (BuildPacket find_conflicts votes claims rnd ev) =
    take 3 (paired (dp_MajorityVotes (BuildPacket find_conflicts votes claims rnd ev))
                   (dp_MinorityVotes (BuildPacket find_conflicts votes claims rnd ev)))"
  using assms silent_iff [of claims]
  by (auto simp: BuildPacket_def packet_conflicts_def Let_def synthesizeConflicts_take paired_def
      split: prod.splits)

end

section \<open>Lemmas on reflections\<close>

definition references_ok :: "Reflection \<Rightarrow> EvidenceLedger \<Rightarrow> string list \<Rightarrow> bool" where
  "references_ok r ledger claimIDs \<longleftrightarrow>
     (\<forall>i \<in> set (rf_NewEvidenceIDs r). map_of (l_records ledger) i \<noteq> None) \<and>
     set (rf_AcceptedClaims r) \<subseteq> set claimIDs \<and> set (rf_RejectedClaims r) \<subseteq> set claimIDs"

lemma ExistsCollected_any: "ExistsCollected l i [] \<longleftrightarrow> map_of (l_records l) i \<noteq> None"
  by (auto simp: ExistsCollected_def split: option.splits)

lemma check_references_None_iff:
  "check_references r ledger claimIDs = None \<longleftrightarrow> references_ok r ledger claimIDs"
  by (auto simp: check_references_def references_ok_def check_all_None_iff ExistsCollected_any
      split: option.splits if_splits dest!: check_all_SomeD)

lemma ValidateReflection_change:
  assumes "rf_PositionChange r \<in> {PositionChangeChange, PositionChangeWeaken}"
  shows "ValidateReflection (Some r) (Some pv) ledger claimIDs req = None \<longleftrightarrow>
    justified r \<and> references_ok r ledger claimIDs"
  using assms by (auto simp: ValidateReflection_def check_references_None_iff)

lemma InferReflection_change:
  assumes "v_Decision pv \<noteq> v_Decision nv" "InferReflection (Some pv) (Some nv) rnd = Some r"
  shows "ValidateReflection (Some r) (Some pv) ledger claimIDs req = None \<longleftrightarrow>
    (\<exists>i \<in> set (v_EvidenceIDs nv). i \<notin> set (v_EvidenceIDs pv)) \<and>
    (\<forall>i \<in> set (v_EvidenceIDs nv) - set (v_EvidenceIDs pv). map_of (l_records ledger) i \<noteq> None)"
proof -
  have pos: "rf_PositionChange r = PositionChangeChange"
    and new: "rf_NewEvidenceIDs r = filter (\<lambda>i. i \<notin> set (v_EvidenceIDs pv)) (v_EvidenceIDs nv)"
    and rest: "rf_AcceptedClaims r = []" "rf_RejectedClaims r = []" "rf_UtilityDimensionReevaluation r = None"
    using assms by (auto simp: InferReflection_def)
  show ?thesis
    using pos by (subst ValidateReflection_change)
      (auto simp: justified_def references_ok_def new rest filter_empty_conv)
qed

section \<open>Properties\<close>

text \<open>The debate packet keeps every ballot exactly once: majority and minority together are the
  cast votes, and a non-empty majority consists of one side of the question, none of which is
  left in the minority, and which outnumbers the opposing side.\<close>

lemma debate_packet_partition:
  "let p = BuildPacket finder votes claims rnd ev
   in mset (dp_MajorityVotes p) + mset (dp_MinorityVotes p) = mset votes \<and>
    (dp_MajorityVotes p = [] \<or>
     list_all (\<lambda>v. approve_side (v_Decision v)) (dp_MajorityVotes p) \<and>
     list_all (\<lambda>v. \<not> approve_side (v_Decision v)) (dp_MinorityVotes p) \<and>
     length (filter (\<lambda>v. v_Decision v = VoteDecisionReject) votes) < length (dp_MajorityVotes p) \<or>
     list_all (\<lambda>v. v_Decision v = VoteDecisionReject) (dp_MajorityVotes p) \<and>
     list_all (\<lambda>v. v_Decision v \<noteq> VoteDecisionReject) (dp_MinorityVotes p) \<and>
     length (filter (\<lambda>v. approve_side (v_Decision v)) votes) < length (dp_MajorityVotes p))"
proof -
  obtain ma mi where s: "split_votes votes = (ma, mi)" by fastforce
  have "ma = [] \<or>
     list_all (\<lambda>v. approve_side (v_Decision v)) ma \<and> list_all (\<lambda>v. \<not> approve_side (v_Decision v)) mi \<and>
     length (filter (\<lambda>v. v_Decision v = VoteDecisionReject) votes) < length ma \<or>
     list_all (\<lambda>v. v_Decision v = VoteDecisionReject) ma \<and> list_all (\<lambda>v. v_Decision v \<noteq> VoteDecisionReject) mi \<and>
     length (filter (\<lambda>v. approve_side (v_Decision v)) votes) < length ma"
    using s by (auto simp: split_votes_def Let_def list_all_iff split: if_splits)
  then show ?thesis using split_votes_mset [OF s] s by (simp add: BuildPacket_def Let_def)
qed

text \<open>What the agents debate: if any claim asserts a contradiction, the packet lists exactly the
  asserted contradictions; otherwise it lists the first three index-wise pairs of key claims of
  opposing votes, so never more than three.\<close>

lemma debate_packet_conflicts:
  "let p = BuildPacket GraphConflictFinder_Find votes claims rnd ev
   in if asserted claims = {}
      then dp_ConflictingClaims p = take 3 (paired (dp_MajorityVotes p) (dp_MinorityVotes p))
      else dp_ConflictingClaims p = GraphConflictFinder_Find claims \<and> dp_ConflictingClaims p \<noteq> [] \<and>
        (\<lambda>c. (ClaimA c, ClaimB c)) ` set (dp_ConflictingClaims p) \<subseteq> asserted claims"
  using graph_finder.packet_conflicts_asserted [of claims votes rnd ev]
    graph_finder.packet_conflicts_synthesised [of claims votes rnd ev]
  by (auto simp: Let_def)

text \<open>A changed or weakened position passes the reflection check if and only if it carries one of
  the four justifications and all evidence and claims it refers to exist.\<close>

lemma reflection_change_exact:
  assumes "rf_PositionChange r \<in> {PositionChangeChange, PositionChangeWeaken}"
  shows "ValidateReflection (Some r) (Some pv) ledger claimIDs req = None \<longleftrightarrow>
    (rf_NewEvidenceIDs r \<noteq> [] \<or> rf_AcceptedClaims r \<noteq> [] \<or> rf_RejectedClaims r \<noteq> [] \<or>
     (\<exists>u. rf_UtilityDimensionReevaluation r = Some u \<and> DimensionsReEvaluated u \<noteq> [])) \<and>
    references_ok r ledger claimIDs"
  using assms by (auto simp: ValidateReflection_change justified_def split: option.splits)

definition sample_reflection :: "PositionChange \<Rightarrow> string list \<Rightarrow> Reflection" where
  "sample_reflection c ids = \<lparr> rf_ID = [], rf_CaseID = [], rf_ExecutionGeneration = 0, rf_AgentRunID = [],
     rf_Round = 1, rf_PreviousVoteID = [], rf_PositionChange = c, rf_AcceptedClaims = ids,
     rf_RejectedClaims = [], rf_NewEvidenceIDs = [], rf_UtilityDimensionReevaluation = None,
     rf_Reasoning = [], rf_ReadyToRevote = True, rf_CreatedAt = 0 \<rparr>"

definition sample_prev_vote :: Vote where
  "sample_prev_vote = \<lparr> v_ID = ''v'', v_CaseID = ''case'', v_ExecutionGeneration = 0, v_AgentRunID = [],
     v_Round = 1, v_Decision = VoteDecisionApprove, v_Confidence = 80, v_UtilityScores = [],
     v_KeyClaimIDs = [], v_EvidenceIDs = [], v_ReasoningSummary = [], v_Conditions = [], v_CreatedAt = 0 \<rparr>"

end
