(* ===== verification/AgentRuntime.thy ===== *)
theory AgentRuntime
  imports Debate
begin

text \<open>
  \<^verbatim>\<open>backend/domain/runtime\<close>: what an agent run returns (\<^verbatim>\<open>runtime.go\<close>, \<^verbatim>\<open>state.go\<close>), the
  deterministic termination counters of the agent loop (\<^verbatim>\<open>termination.go\<close>), and the errors of the
  Go code as values: \<open>err_is\<close> is \<^verbatim>\<open>errors.Is\<close>, which looks through wrapping. \<open>Wraps\<close> is an error with
  a text of its own and any number of wrapped errors: \<^verbatim>\<open>fmt.Errorf\<close> with several \<^verbatim>\<open>%w\<close>,
  \<^verbatim>\<open>errors.Join\<close> and the error types of the sources that have an \<^verbatim>\<open>Unwrap\<close> method. \<open>Panicked\<close> stands
  for a run-time panic (a nil dereference) of the modelled code itself.
\<close>

section \<open>Errors\<close>

datatype goerr =
    ErrLeaseLost | ErrCommitOutcomeUnknown | ErrExecutionOwnerRequired
  | ErrDeadlineExceeded | ErrCanceled | ErrCaseEnded | ErrAgentFailed
  | ErrAmbiguousInvocation | ErrExternalOutcomeUnknown | ErrInvocationNotOwned
  | ErrInvocationMismatch | ErrInvocationRepository | ErrInvocationRecorder
  | ErrInvalidExecutionRequest | ErrManifestMismatch
  | ErrToolDenied | ErrToolApprovalRequired | ErrToolApprovalRejected
  | ErrToolQuotaExceeded | ErrToolArgumentsInvalid
  | ErrApprovalConflict | ErrInvalidRequest | ErrMaxSteps
  | Errorf string
  | Wrapf string goerr
  | Wraps string "goerr list"
  | Panicked string

fun err_is :: "goerr \<Rightarrow> goerr \<Rightarrow> bool" where
  "err_is (Wrapf s e) t = (Wrapf s e = t \<or> err_is e t)"
| "err_is (Wraps s es) t = (Wraps s es = t \<or> list_ex (\<lambda>e. err_is e t) es)"
| "err_is e t = (e = t)"

text \<open>The text of an error; a wrapped error is printed after the wrapping text.\<close>

fun err_str :: "goerr \<Rightarrow> string" where
  "err_str ErrLeaseLost = ''decision job lease lost''"
| "err_str ErrCommitOutcomeUnknown = ''decision commit outcome unknown''"
| "err_str ErrExecutionOwnerRequired = ''durable decision execution requires an owner''"
| "err_str ErrDeadlineExceeded = ''context deadline exceeded''"
| "err_str ErrCanceled = ''context canceled''"
| "err_str ErrCaseEnded = ''case ended''"
| "err_str ErrAgentFailed = ''agent failed: case aborted by failure policy''"
| "err_str ErrAmbiguousInvocation = ''invocation external outcome is ambiguous''"
| "err_str ErrExternalOutcomeUnknown = ''external outcome unknown''"
| "err_str ErrInvocationNotOwned = ''invocation attempt ownership not acquired''"
| "err_str ErrInvocationMismatch = ''invocation identity conflicts with persisted request''"
| "err_str ErrInvocationRepository = ''invocation repository failure''"
| "err_str ErrInvocationRecorder = ''invocation recorder failure''"
| "err_str ErrInvalidExecutionRequest = ''invalid execution request''"
| "err_str ErrManifestMismatch = ''execution manifest mismatch''"
| "err_str ErrToolDenied = ''tool runtime: tool denied''"
| "err_str ErrToolApprovalRequired = ''tool runtime: approval required''"
| "err_str ErrToolApprovalRejected = ''tool runtime: approval rejected''"
| "err_str ErrToolQuotaExceeded = ''tool runtime: quota exceeded''"
| "err_str ErrToolArgumentsInvalid = ''tool runtime: arguments invalid''"
| "err_str ErrApprovalConflict = ''approval request already exists for this invocation''"
| "err_str ErrInvalidRequest = ''model runtime: invalid request''"
| "err_str ErrMaxSteps = ''magi agent loop: max steps exceeded''"
| "err_str (Errorf s) = s"
| "err_str (Wrapf s e) = s @ '': '' @ err_str e"
| "err_str (Wraps s es) = s"
| "err_str (Panicked s) = ''panic: '' @ s"

section \<open>Results of a run\<close>

datatype LoopStatus =
    LoopStatusCompleted | LoopStatusMaxSteps | LoopStatusCancelled | LoopStatusError
  | LoopStatusGateFailed | LoopStatusTokenBudget | LoopStatusToolFailures
  | LoopStatusValidationFailed | LoopStatusOther string

record Violation =
  vl_Code :: string
  vl_Message :: string
  vl_Field :: string
  vl_Expected :: string
  vl_Actual :: string

record ToolCallRecord =
  tcr_ToolCallID :: string
  tcr_InvocationID :: string
  tcr_AttemptID :: string
  tcr_IdempotencyKey :: string
  tcr_ToolName :: string
  tcr_Arguments :: string
  tcr_EvidenceID :: string
  tcr_Valid :: bool
  tcr_Violations :: "Violation list"
  tcr_Result :: string
  tcr_Err :: string
  tcr_ApprovedBy :: string
  tcr_Duration :: int

text \<open>Of a model message only its content is kept.\<close>

record Step =
  sp_ID :: string
  sp_Index :: int
  sp_ModelOutput :: "string option"
  sp_ToolCalls :: "ToolCallRecord list"
  sp_IsFinal :: bool
  sp_StartedAt :: timestamp
  sp_Duration :: int
  sp_ModelUsage :: "Usage option"

record LoopTrace =
  lt_StartedAt :: timestamp
  lt_CompletedAt :: timestamp
  lt_Status :: LoopStatus
  lt_Steps :: "Step list"

record LoopResult =
  lr_FinalAnswer :: string
  lr_Vote :: "Vote option"
  lr_Summary :: "EvidenceSummary option"
  lr_Reflection :: "Reflection option"
  lr_Trace :: "LoopTrace option"
  lr_Ledger :: "EvidenceLedger option"
  lr_Usage :: "Usage option"
  lr_Status :: LoopStatus
  lr_Err :: "goerr option"

text \<open>The result the dispatcher puts in place of a nil result.\<close>

definition error_result :: LoopResult where
  "error_result = \<lparr> lr_FinalAnswer = [], lr_Vote = None, lr_Summary = None, lr_Reflection = None,
     lr_Trace = None, lr_Ledger = None, lr_Usage = None, lr_Status = LoopStatusError, lr_Err = None \<rparr>"

definition addUsage :: "Usage option \<Rightarrow> Usage option \<Rightarrow> Usage option" where
  "addUsage ao bo =
     (case ao of None \<Rightarrow> bo
      | Some a \<Rightarrow> (case bo of None \<Rightarrow> ao
          | Some b \<Rightarrow> Some \<lparr> u_PromptTokens = u_PromptTokens a + u_PromptTokens b,
              u_CompletionTokens = u_CompletionTokens a + u_CompletionTokens b,
              u_TotalTokens = u_TotalTokens a + u_TotalTokens b,
              u_CostUSD = u_CostUSD a + u_CostUSD b \<rparr>))"

definition finalizeTrace :: "timestamp \<Rightarrow> LoopStatus \<Rightarrow> LoopTrace \<Rightarrow> LoopTrace" where
  "finalizeTrace now status trace = trace\<lparr> lt_CompletedAt := now, lt_Status := status \<rparr>"

section \<open>Contexts\<close>

record KnowledgeChunk =
  kc_Content :: string
  kc_Score :: float64
  kc_SourceURI :: string

record DebateContext =
  dc_Packet :: DebatePacket
  dc_PreviousVote :: "Vote option"

record PreviousAgentState =
  ps_Summary :: "EvidenceSummary option"
  ps_Vote :: "Vote option"

record AgentContext =
  ac_CaseID :: string
  ac_UserID :: string
  ac_RunID :: string
  ac_Task :: DecisionTask
  ac_Constraints :: "Constraint list"
  ac_ToolBindings :: "ToolBinding list"
  ac_KnowledgeCtx :: "KnowledgeChunk list"
  ac_DebateContext :: "DebateContext option"
  ac_PreviousRun :: "PreviousAgentState option"
  ac_Execution :: "ExecutionContext option"

section \<open>Termination of the agent loop\<close>

record TerminationState =
  GateFail :: int
  ConsecToolFail :: int
  TokenUsed :: int64
  ValidationFail :: int
  ToolCalls :: int

text \<open>\<^verbatim>\<open>CheckTermination\<close> sets the status and the error through pointers; here it returns them.\<close>

definition CheckTermination :: "TerminationState \<Rightarrow> LoopPolicy \<Rightarrow> (LoopStatus \<times> goerr) option" where
  "CheckTermination ts policy =
     (if MaxGateFailures policy > 0 \<and> GateFail ts \<ge> MaxGateFailures policy
        then Some (LoopStatusGateFailed, Errorf (''evidence gate failed after '' @ itoa (GateFail ts) @ '' attempts''))
      else if MaxConsecutiveToolFailures policy > 0 \<and> ConsecToolFail ts \<ge> MaxConsecutiveToolFailures policy
        then Some (LoopStatusToolFailures, Errorf (itoa (ConsecToolFail ts) @ '' consecutive tool failures''))
      else if TokenBudget policy > 0 \<and> TokenUsed ts \<ge> TokenBudget policy
        then Some (LoopStatusTokenBudget, Errorf (''token budget exceeded ('' @ itoa (TokenUsed ts) @ '' tokens)''))
      else if MaxConsecutiveValidationFailures policy > 0 \<and> ValidationFail ts \<ge> MaxConsecutiveValidationFailures policy
        then Some (LoopStatusValidationFailed, Errorf (itoa (ValidationFail ts) @ '' consecutive invalid responses''))
      else None)"

fun loop_status_reason :: "LoopStatus \<Rightarrow> string" where
  "loop_status_reason LoopStatusGateFailed = ''evidence gate failed''"
| "loop_status_reason LoopStatusToolFailures = ''tool failures''"
| "loop_status_reason LoopStatusValidationFailed = ''invalid responses''"
| "loop_status_reason LoopStatusTokenBudget = ''token budget exceeded''"
| "loop_status_reason LoopStatusMaxSteps = ''max steps exceeded''"
| "loop_status_reason LoopStatusError = ''agent error''"
| "loop_status_reason LoopStatusCancelled = ''cancelled''"
| "loop_status_reason _ = ''agent completed''"

definition LoopFailureReason :: "LoopResult option \<Rightarrow> string" where
  "LoopFailureReason ro =
     (case ro of None \<Rightarrow> ''no result''
      | Some r \<Rightarrow> (case lr_Err r of Some e \<Rightarrow> err_str e | None \<Rightarrow> loop_status_reason (lr_Status r)))"

section \<open>Lemmas\<close>

lemma err_is_refl [simp]: "err_is e e"
  by (cases e) simp_all

lemma err_is_trans_wrap: "err_is e t \<Longrightarrow> err_is (Wrapf s e) t"
  by simp

lemma CheckTermination_None_iff:
  "CheckTermination ts policy = None \<longleftrightarrow>
     (MaxGateFailures policy > 0 \<longrightarrow> GateFail ts < MaxGateFailures policy) \<and>
     (MaxConsecutiveToolFailures policy > 0 \<longrightarrow> ConsecToolFail ts < MaxConsecutiveToolFailures policy) \<and>
     (TokenBudget policy > 0 \<longrightarrow> TokenUsed ts < TokenBudget policy) \<and>
     (MaxConsecutiveValidationFailures policy > 0 \<longrightarrow> ValidationFail ts < MaxConsecutiveValidationFailures policy)"
  by (auto simp: CheckTermination_def)

lemma CheckTermination_not_completed:
  "CheckTermination ts policy = Some (status, e) \<Longrightarrow> status \<noteq> LoopStatusCompleted"
  by (auto simp: CheckTermination_def split: if_splits)

end
