(* ===== verification/Remap.thy ===== *)
theory Remap
  imports Entity
begin

text \<open>
  \<^verbatim>\<open>backend/domain/entity/idmap.go\<close>: the table that maps the identifiers an agent's ledger hands
  out (EV-001, CL-001) to the namespaced identifiers that are persisted, the rewriting of lists
  and of free text through it, and the recovery of the agent code from a run identifier.

  The text rewriting is the byte loop \<open>remap_loop\<close> with its two candidate buckets; the lemmas
  show that it rewrites whole identifier tokens and nothing else (\<open>rewrite_tokens\<close>), from which
  idempotence follows. A nil remap is \<^term>\<open>None\<close>.
\<close>

section \<open>The table\<close>

record ArtifactRemap =
  rm_evidence :: "(string, string) gomap"
  rm_claims :: "(string, string) gomap"

definition NewArtifactRemap :: ArtifactRemap where
  "NewArtifactRemap = \<lparr> rm_evidence = [], rm_claims = [] \<rparr>"

definition AddEvidence :: "string \<Rightarrow> string \<Rightarrow> ArtifactRemap \<Rightarrow> ArtifactRemap" where
  "AddEvidence old new m =
     (if old \<noteq> [] \<and> new \<noteq> [] then m\<lparr> rm_evidence := AList.update old new (rm_evidence m) \<rparr> else m)"

definition AddClaim :: "string \<Rightarrow> string \<Rightarrow> ArtifactRemap \<Rightarrow> ArtifactRemap" where
  "AddClaim old new m =
     (if old \<noteq> [] \<and> new \<noteq> [] then m\<lparr> rm_claims := AList.update old new (rm_claims m) \<rparr> else m)"

definition remap_lookup :: "ArtifactRemap \<Rightarrow> string \<Rightarrow> string" where
  "remap_lookup m i =
     (case map_of (rm_evidence m) i of
        Some v \<Rightarrow> v
      | None \<Rightarrow> (case map_of (rm_claims m) i of Some v \<Rightarrow> v | None \<Rightarrow> i))"

definition RemapList :: "ArtifactRemap option \<Rightarrow> string list \<Rightarrow> string list" where
  "RemapList mo ids = (case mo of None \<Rightarrow> ids | Some m \<Rightarrow> map (remap_lookup m) ids)"

definition merge_map :: "(string, string) gomap \<Rightarrow> (string, string) gomap \<Rightarrow> (string, string) gomap" where
  "merge_map other m = fold (\<lambda>(k, v). AList.update k v) other m"

definition Merge :: "ArtifactRemap option \<Rightarrow> ArtifactRemap \<Rightarrow> ArtifactRemap" where
  "Merge other m =
     (case other of
        None \<Rightarrow> m
      | Some r \<Rightarrow> m\<lparr> rm_evidence := merge_map (rm_evidence r) (rm_evidence m),
                     rm_claims := merge_map (rm_claims r) (rm_claims m) \<rparr>)"

section \<open>Text\<close>

definition isIDByte :: "char \<Rightarrow> bool" where
  "isIDByte b =
     (let n = of_char b :: nat
      in 48 \<le> n \<and> n \<le> 57 \<or> 97 \<le> n \<and> n \<le> 122 \<or> 65 \<le> n \<and> n \<le> 90 \<or> b = CHR ''-'' \<or> b = CHR ''_'')"

definition idTokenBoundary :: "string \<Rightarrow> nat \<Rightarrow> nat \<Rightarrow> bool" where
  "idTokenBoundary s i n =
     (if 0 < i \<and> isIDByte (s ! (i - 1)) then False
      else if i + n < length s \<and> isIDByte (s ! (i + n)) then False
      else True)"

definition matchNamespaced :: "string \<Rightarrow> nat \<Rightarrow> string list \<Rightarrow> string option" where
  "matchNamespaced s i candidates =
     List.find (\<lambda>cand. prefix cand (drop i s) \<and> idTokenBoundary s i (length cand)) candidates"

definition matchBare :: "string \<Rightarrow> nat \<Rightarrow> (string \<times> string) list \<Rightarrow> (string \<times> string) option" where
  "matchBare s i candidates =
     List.find (\<lambda>(old, new). prefix old (drop i s) \<and> idTokenBoundary s i (length old)) candidates"

text \<open>
  The pairs that \<^verbatim>\<open>add\<close> keeps, and the buckets by first byte, longest first. Among candidates of
  equal length at most one can match at a position, so the order Go leaves open there is
  immaterial unless one identifier is mapped twice.
\<close>

definition remap_pairs :: "ArtifactRemap \<Rightarrow> (string \<times> string) list" where
  "remap_pairs m = filter (\<lambda>(old, new). old \<noteq> [] \<and> new \<noteq> [] \<and> old \<noteq> new) (rm_evidence m @ rm_claims m)"

definition namespaced_bucket :: "(string \<times> string) list \<Rightarrow> char \<Rightarrow> string list" where
  "namespaced_bucket ps b =
     sort_key (\<lambda>n. - int (length n)) (filter (\<lambda>n. n \<noteq> [] \<and> hd n = b) (map snd ps))"

definition bare_bucket :: "(string \<times> string) list \<Rightarrow> char \<Rightarrow> (string \<times> string) list" where
  "bare_bucket ps b =
     sort_key (\<lambda>p. - int (length (fst p))) (filter (\<lambda>p. fst p \<noteq> [] \<and> hd (fst p) = b) ps)"

lemma find_SomeD: "List.find P xs = Some x \<Longrightarrow> x \<in> set xs \<and> P x"
  by (auto simp: find_Some_iff)

lemma matchNamespaced_Some:
  "matchNamespaced s i (namespaced_bucket ps b) = Some n \<Longrightarrow> n \<noteq> []"
  by (auto simp: matchNamespaced_def namespaced_bucket_def dest: find_SomeD)

lemma matchBare_Some:
  "matchBare s i (bare_bucket ps b) = Some (old, new) \<Longrightarrow> old \<noteq> []"
  by (auto simp: matchBare_def bare_bucket_def dest: find_SomeD)

function remap_loop :: "(string \<times> string) list \<Rightarrow> string \<Rightarrow> nat \<Rightarrow> string" where
  "remap_loop ps s i =
     (if length s \<le> i then []
      else case matchNamespaced s i (namespaced_bucket ps (s ! i)) of
             Some n \<Rightarrow> n @ remap_loop ps s (i + length n)
           | None \<Rightarrow>
              (case matchBare s i (bare_bucket ps (s ! i)) of
                 Some (old, new) \<Rightarrow> new @ remap_loop ps s (i + length old)
               | None \<Rightarrow> s ! i # remap_loop ps s (i + 1)))"
  by pat_completeness auto
termination
  by (relation "measure (\<lambda>(ps, s, i). length s - i)")
    (auto simp: not_le diff_less_mono2 dest!: matchNamespaced_Some matchBare_Some)

declare remap_loop.simps [simp del]

definition RemapText :: "ArtifactRemap option \<Rightarrow> string \<Rightarrow> string" where
  "RemapText mo s =
     (case mo of None \<Rightarrow> s
      | Some m \<Rightarrow> if s = [] then s else remap_loop (remap_pairs m) s 0)"

section \<open>Run identifiers\<close>

text \<open>\<^verbatim>\<open>strings.Split\<close> with a one-byte separator.\<close>

fun split_on :: "char \<Rightarrow> string \<Rightarrow> string list" where
  "split_on c [] = [[]]"
| "split_on c (x # xs) =
     (if x = c then [] # split_on c xs
      else (case split_on c xs of [] \<Rightarrow> [[x]] | p # ps \<Rightarrow> (x # p) # ps))"

definition isDigits :: "string \<Rightarrow> bool" where
  "isDigits s = (s \<noteq> [] \<and> list_all (\<lambda>c. 48 \<le> (of_char c :: nat) \<and> (of_char c :: nat) \<le> 57) s)"

definition isExecutionMarker :: "string \<Rightarrow> bool" where
  "isExecutionMarker s =
     (if length s < 2 \<or> (s ! 0 \<noteq> CHR ''a'' \<and> s ! 0 \<noteq> CHR ''g'') then False else isDigits (drop 1 s))"

definition is_round_part :: "string \<Rightarrow> bool" where
  "is_round_part p = (prefix ''r'' p \<and> 1 < length p \<and> isDigits (drop 1 p))"

fun code_scan :: "string list \<Rightarrow> nat \<Rightarrow> string" where
  "code_scan parts 0 = []"
| "code_scan parts (Suc i) =
     (if is_round_part (parts ! i) then
        (let codeIdx = int i - 1;
             codeIdx' = (if codeIdx - 1 \<ge> 0 \<and> isExecutionMarker (parts ! nat codeIdx)
                         then codeIdx - 1 else codeIdx)
         in if codeIdx' \<ge> 0 then parts ! nat codeIdx' else code_scan parts i)
      else code_scan parts i)"

definition CodeOfRun :: "string \<Rightarrow> MagiCode" where
  "CodeOfRun runID =
     (if runID = [] then []
      else let parts = split_on (CHR ''-'') runID in code_scan parts (length parts))"

text \<open>The identifiers \<^verbatim>\<open>orchestration/dispatcher.go\<close> gives to runs.\<close>

definition checkpointRunID :: "string \<Rightarrow> MagiCode \<Rightarrow> int \<Rightarrow> string \<Rightarrow> string" where
  "checkpointRunID caseID code rnd phase =
     caseID @ ''-'' @ code @ ''-r'' @ itoa rnd @ ''-'' @ phase"

definition executionRunID :: "string \<Rightarrow> MagiCode \<Rightarrow> int64 \<Rightarrow> int \<Rightarrow> string \<Rightarrow> string" where
  "executionRunID caseID code generation rnd phase =
     caseID @ ''-'' @ code @ ''-g'' @ itoa generation @ ''-r'' @ itoa rnd @ ''-'' @ phase"

section \<open>Whole-token rewriting\<close>

text \<open>What the rewriting means for one maximal run of identifier bytes, and for a text.\<close>

definition token_image :: "(string \<times> string) list \<Rightarrow> string \<Rightarrow> string" where
  "token_image ps t =
     (if t \<in> snd ` set ps then t else case map_of ps t of Some n \<Rightarrow> n | None \<Rightarrow> t)"

function rewrite_tokens :: "(string \<Rightarrow> string) \<Rightarrow> string \<Rightarrow> string" where
  "rewrite_tokens f [] = []"
| "rewrite_tokens f (c # s) =
     (if isIDByte c then f (takeWhile isIDByte (c # s)) @ rewrite_tokens f (dropWhile isIDByte (c # s))
      else c # rewrite_tokens f s)"
  by pat_completeness auto
termination
  by (relation "measure (length \<circ> snd)") (auto simp: le_imp_less_Suc length_dropWhile_le)

definition id_string :: "string \<Rightarrow> bool" where
  "id_string s \<longleftrightarrow> s \<noteq> [] \<and> list_all isIDByte s"

definition id_pairs :: "(string \<times> string) list \<Rightarrow> bool" where
  "id_pairs ps \<longleftrightarrow> list_all (\<lambda>(old, new). id_string old \<and> id_string new) ps"

lemma token_match_iff:
  assumes "id_string c" "i < length s" "\<not> (0 < i \<and> isIDByte (s ! (i - 1)))"
  shows "prefix c (drop i s) \<and> idTokenBoundary s i (length c) \<longleftrightarrow> c = takeWhile isIDByte (drop i s)"
proof
  assume "prefix c (drop i s) \<and> idTokenBoundary s i (length c)"
  then obtain t where t: "drop i s = c @ t" and b: "i + length c < length s \<longrightarrow> \<not> isIDByte (s ! (i + length c))"
    using assms(3) by (auto simp: prefix_def idTokenBoundary_def split: if_splits)
  have "t = [] \<or> \<not> isIDByte (hd t)"
  proof (cases t)
    case (Cons x xs)
    from t have "length (drop i s) = length c + length t" by simp
    with Cons have "i + length c < length s" by simp
    moreover have "s ! (i + length c) = drop i s ! length c" using assms(2) by simp
    ultimately show ?thesis using b t Cons by simp
  qed simp
  then have "takeWhile isIDByte t = []" by (cases t) auto
  moreover have "takeWhile isIDByte (c @ t) = c @ takeWhile isIDByte t"
    using assms(1) by (simp add: id_string_def list_all_iff)
  ultimately show "c = takeWhile isIDByte (drop i s)" using t by simp
next
  assume c: "c = takeWhile isIDByte (drop i s)"
  have "\<not> isIDByte (s ! (i + length c))" if "i + length c < length s"
  proof -
    have "length c < length (drop i s)" using that by simp
    then have "\<not> isIDByte (drop i s ! length c)" unfolding c by (rule nth_length_takeWhile)
    with assms(2) show ?thesis by simp
  qed
  with c assms(3) show "prefix c (drop i s) \<and> idTokenBoundary s i (length c)"
    by (auto simp: idTokenBoundary_def takeWhile_is_prefix)
qed

lemma boundary_inside: "0 < i \<Longrightarrow> isIDByte (s ! (i - 1)) \<Longrightarrow> \<not> idTokenBoundary s i n"
  by (simp add: idTokenBoundary_def)

lemma find_eq_member: "List.find (\<lambda>x. x = t) xs = (if t \<in> set xs then Some t else None)"
  by (induction xs) auto

lemma find_fst_eq: "List.find (\<lambda>p. fst p = t) ps = map_option (Pair t) (map_of ps t)"
  by (induction ps) auto

lemma find_filter: "List.find P xs = (case filter P xs of [] \<Rightarrow> None | x # _ \<Rightarrow> Some x)"
  by (induction xs) auto

lemma find_fst_sort_key:
  "List.find (\<lambda>p. fst p = t) (sort_key (\<lambda>p. g (fst p)) ps) = List.find (\<lambda>p. fst p = t) ps"
proof -
  have split: "filter (\<lambda>p. fst p = t) xs = filter (\<lambda>p. fst p = t) (filter (\<lambda>p. g (fst p) = g t) xs)"
    for xs :: "(_ \<times> _) list"
    unfolding filter_filter by (rule filter_cong) auto
  have "filter (\<lambda>p. fst p = t) (sort_key (\<lambda>p. g (fst p)) ps) = filter (\<lambda>p. fst p = t) ps"
    by (subst (1 2) split) (simp only: sort_key_stable)
  then show ?thesis by (simp add: find_filter)
qed

lemma match_at_token:
  assumes "id_pairs ps" "i < length s" "\<not> (0 < i \<and> isIDByte (s ! (i - 1)))" "isIDByte (s ! i)"
  defines "tok \<equiv> takeWhile isIDByte (drop i s)"
  shows "matchNamespaced s i (namespaced_bucket ps (s ! i)) = (if tok \<in> snd ` set ps then Some tok else None)"
    and "matchBare s i (bare_bucket ps (s ! i)) = map_option (Pair tok) (map_of ps tok)"
proof -
  have hd: "tok \<noteq> []" "hd tok = s ! i"
    using assms(2,4) by (auto simp: tok_def Cons_nth_drop_Suc [symmetric])
  have "id_string n" if "n \<in> set (namespaced_bucket ps (s ! i))" for n
    using that assms(1) by (auto simp: namespaced_bucket_def id_pairs_def list_all_iff)
  then have "matchNamespaced s i (namespaced_bucket ps (s ! i))
      = List.find (\<lambda>n. n = tok) (namespaced_bucket ps (s ! i))"
    unfolding matchNamespaced_def tok_def using token_match_iff [OF _ assms(2,3)]
    by (intro find_cong refl) blast
  then show "matchNamespaced s i (namespaced_bucket ps (s ! i)) = (if tok \<in> snd ` set ps then Some tok else None)"
    using hd by (auto simp: find_eq_member namespaced_bucket_def)
  have "id_string (fst p)" if "p \<in> set (bare_bucket ps (s ! i))" for p
    using that assms(1) by (auto simp: bare_bucket_def id_pairs_def list_all_iff)
  then have "matchBare s i (bare_bucket ps (s ! i))
      = List.find (\<lambda>p. fst p = tok) (bare_bucket ps (s ! i))"
    unfolding matchBare_def tok_def case_prod_beta using token_match_iff [OF _ assms(2,3)]
    by (intro find_cong refl) blast
  also have "\<dots> = List.find (\<lambda>p. fst p = tok) (filter (\<lambda>p. fst p \<noteq> [] \<and> hd (fst p) = s ! i) ps)"
    unfolding bare_bucket_def by (rule find_fst_sort_key)
  also have "\<dots> = List.find (\<lambda>p. fst p = tok) ps"
  proof -
    have "filter (\<lambda>p. fst p = tok) (filter (\<lambda>p. fst p \<noteq> [] \<and> hd (fst p) = s ! i) ps)
        = filter (\<lambda>p. fst p = tok) ps"
      unfolding filter_filter using hd by (intro filter_cong refl) auto
    then show ?thesis by (simp add: find_filter)
  qed
  finally show "matchBare s i (bare_bucket ps (s ! i)) = map_option (Pair tok) (map_of ps tok)"
    by (simp add: find_fst_eq)
qed

lemma no_match_inside:
  assumes "0 < i" "isIDByte (s ! (i - 1))"
  shows "matchNamespaced s i cs = None" "matchBare s i ps = None"
  using boundary_inside [OF assms] by (auto simp: matchNamespaced_def matchBare_def find_None_iff)

lemma no_match_separator:
  assumes "id_pairs ps" "i < length s" "\<not> isIDByte (s ! i)"
  shows "matchNamespaced s i (namespaced_bucket ps b) = None" "matchBare s i (bare_bucket ps b) = None"
proof -
  have "\<not> prefix c (drop i s)" if "id_string c" for c
    using that assms(2,3) by (cases c) (auto simp: id_string_def Cons_nth_drop_Suc [symmetric])
  with assms(1) show "matchNamespaced s i (namespaced_bucket ps b) = None" "matchBare s i (bare_bucket ps b) = None"
    by (force simp: matchNamespaced_def matchBare_def find_None_iff namespaced_bucket_def bare_bucket_def
        id_pairs_def list_all_iff)+
qed

lemma drop_token:
  "drop (i + length (takeWhile P (drop i s))) s = dropWhile P (drop i s)"
  by (metis add.commute drop_drop dropWhile_eq_drop)

lemma last_token_byte:
  assumes "i < length s" "isIDByte (s ! i)"
  defines "n \<equiv> length (takeWhile isIDByte (drop i s))"
  shows "0 < i + n \<and> isIDByte (s ! (i + n - 1)) \<and> i + n \<le> length s"
proof -
  have n: "0 < n" using assms by (simp add: n_def Cons_nth_drop_Suc [symmetric])
  have le: "n \<le> length (drop i s)" unfolding n_def by (rule length_takeWhile_le)
  have "isIDByte (takeWhile isIDByte (drop i s) ! (n - 1))"
    using n set_takeWhileD [OF nth_mem, of "n - 1" isIDByte "drop i s"] by (simp add: n_def)
  moreover have "takeWhile isIDByte (drop i s) ! (n - 1) = drop i s ! (n - 1)"
    using n by (intro takeWhile_nth) (simp add: n_def)
  moreover have "drop i s ! (n - 1) = s ! (i + n - 1)"
    using n assms(1) by (simp add: add_diff_assoc)
  ultimately show ?thesis using n le by simp
qed

lemma remap_loop_tokens:
  assumes "id_pairs ps" "i \<le> length s"
  shows "remap_loop ps s i =
    (if 0 < i \<and> isIDByte (s ! (i - 1))
     then takeWhile isIDByte (drop i s) @ rewrite_tokens (token_image ps) (dropWhile isIDByte (drop i s))
     else rewrite_tokens (token_image ps) (drop i s))"
  using assms
proof (induction "length s - i" arbitrary: i rule: less_induct)
  case less
  let ?f = "token_image ps" and ?d = "drop i s"
  show ?case
  proof (cases "i < length s")
    case False
    with less.prems show ?thesis by (subst remap_loop.simps) simp
  next
    case True
    then have d: "?d = s ! i # drop (Suc i) s" by (simp add: Cons_nth_drop_Suc)
    have step: "remap_loop ps s (i + 1) =
      (if isIDByte (s ! i)
       then takeWhile isIDByte (drop (Suc i) s) @ rewrite_tokens ?f (dropWhile isIDByte (drop (Suc i) s))
       else rewrite_tokens ?f (drop (Suc i) s))"
      using less.hyps [of "i + 1"] less.prems True by simp
    have copy: "s ! i # remap_loop ps s (i + 1) = takeWhile isIDByte ?d @ rewrite_tokens ?f (dropWhile isIDByte ?d)"
      unfolding step by (simp add: d)
    show ?thesis
    proof (cases "0 < i \<and> isIDByte (s ! (i - 1))")
      case inside: True
      then show ?thesis using True copy by (subst remap_loop.simps) (simp add: no_match_inside)
    next
      case start: False
      show ?thesis
      proof (cases "isIDByte (s ! i)")
        case sep: False
        have "rewrite_tokens ?f ?d = takeWhile isIDByte ?d @ rewrite_tokens ?f (dropWhile isIDByte ?d)"
          using sep by (simp add: d)
        then show ?thesis using True start sep copy less.prems(1)
          by (subst remap_loop.simps) (simp add: no_match_separator)
      next
        case tok: True
        let ?t = "takeWhile isIDByte ?d"
        have rw: "rewrite_tokens ?f ?d = ?f ?t @ rewrite_tokens ?f (dropWhile isIDByte ?d)"
          using tok by (simp add: d)
        have nonempty: "0 < length ?t" using tok by (simp add: d)
        have idem: "takeWhile isIDByte (dropWhile isIDByte ?d) = []"
          using hd_dropWhile [of isIDByte ?d] by (auto simp: takeWhile_eq_Nil_iff)
        have after: "remap_loop ps s (i + length ?t) = rewrite_tokens ?f (dropWhile isIDByte ?d)"
          using less.hyps [OF _ less.prems(1), of "i + length ?t"] last_token_byte [OF True tok]
            diff_less_mono2 [of i "i + length ?t" "length s"] True nonempty
          by (simp add: drop_token idem dropWhile_idem)
        note m = match_at_token [OF less.prems(1) True start tok]
        show ?thesis
        proof (cases "?t \<in> snd ` set ps \<or> map_of ps ?t \<noteq> None")
          case True
          then show ?thesis using \<open>i < length s\<close> start rw after m
            by (subst remap_loop.simps) (auto simp: token_image_def)
        next
          case False
          then show ?thesis using \<open>i < length s\<close> start rw copy m
            by (subst remap_loop.simps) (simp add: token_image_def)
        qed
      qed
    qed
  qed
qed

lemma token_image_idem: "token_image ps (token_image ps t) = token_image ps t"
  by (auto simp: token_image_def dest: map_of_SomeD split: option.splits)
    (metis imageI map_of_SomeD snd_conv)

lemma token_image_id_string:
  "id_pairs ps \<Longrightarrow> id_string t \<Longrightarrow> id_string (token_image ps t)"
  by (auto simp: token_image_def id_pairs_def list_all_iff dest: map_of_SomeD split: option.splits)

lemma rewrite_tokens_append_token:
  assumes "id_string t" "u = [] \<or> \<not> isIDByte (hd u)"
  shows "rewrite_tokens f (t @ u) = f t @ rewrite_tokens f u"
proof -
  obtain c t' where t: "t = c # t'" "isIDByte c" "list_all isIDByte t'"
    using assms(1) by (cases t) (auto simp: id_string_def)
  have "takeWhile isIDByte u = []" using assms(2) by (auto simp: takeWhile_eq_Nil_iff)
  moreover have "dropWhile isIDByte u = u" using assms(2) by (cases u) auto
  ultimately have "takeWhile isIDByte (t' @ u) = t'" "dropWhile isIDByte (t' @ u) = u"
    using t(3) by (auto simp: list_all_iff takeWhile_append dropWhile_append)
  with t show ?thesis by simp
qed

lemma rewrite_tokens_head:
  "u = [] \<or> \<not> isIDByte (hd u) \<Longrightarrow> rewrite_tokens f u = [] \<or> \<not> isIDByte (hd (rewrite_tokens f u))"
  by (cases u) auto

lemma rewrite_tokens_idem:
  assumes "\<And>t. id_string t \<Longrightarrow> id_string (f t) \<and> f (f t) = f t"
  shows "rewrite_tokens f (rewrite_tokens f s) = rewrite_tokens f s"
proof (induction s rule: length_induct)
  case (1 s)
  show ?case
  proof (cases s)
    case (Cons c s')
    show ?thesis
    proof (cases "isIDByte c")
      case False
      with Cons 1 show ?thesis by simp
    next
      case True
      let ?t = "takeWhile isIDByte s" and ?u = "dropWhile isIDByte s"
      have t: "id_string ?t" using True Cons by (auto simp: id_string_def list_all_iff dest: set_takeWhileD)
      have rw: "rewrite_tokens f s = f ?t @ rewrite_tokens f ?u" using True Cons by simp
      have "length ?u < length s" using True Cons by (simp add: le_imp_less_Suc length_dropWhile_le)
      with 1 have IH: "rewrite_tokens f (rewrite_tokens f ?u) = rewrite_tokens f ?u" by blast
      have "rewrite_tokens f ?u = [] \<or> \<not> isIDByte (hd (rewrite_tokens f ?u))"
        using hd_dropWhile [of isIDByte s] by (intro rewrite_tokens_head) blast
      then have "rewrite_tokens f (f ?t @ rewrite_tokens f ?u) = f (f ?t) @ rewrite_tokens f (rewrite_tokens f ?u)"
        using assms [OF t] by (intro rewrite_tokens_append_token) auto
      with IH assms [OF t] show ?thesis by (simp add: rw)
    qed
  qed simp
qed

section \<open>Splitting run identifiers\<close>

lemma split_on_nonempty [simp]: "split_on c s \<noteq> []"
  by (induction s) (auto split: list.splits)

lemma split_on_append: "split_on c (s @ c # t) = split_on c s @ split_on c t"
  by (induction s) (auto split: list.splits)

lemma split_on_single: "c \<notin> set s \<Longrightarrow> split_on c s = [s]"
  by (induction s) auto

lemma digits_nat_str:
  "isDigits (nat_str n)" "CHR ''-'' \<notin> set (nat_str n)"
proof -
  have digit: "48 \<le> (of_char c :: nat) \<and> (of_char c :: nat) \<le> 57" if "c \<in> set (nat_str n)" for c
    using set_nat_str [of n] that by (auto simp: digit_char_def)
  then show "isDigits (nat_str n)" by (simp add: isDigits_def list_all_iff)
  show "CHR ''-'' \<notin> set (nat_str n)"
    using digit [of "CHR ''-''"] by auto
qed

lemma itoa_nonneg: "0 \<le> n \<Longrightarrow> itoa n = nat_str (nat n)"
  by (simp add: itoa_def)

lemma marker_parts:
  "is_round_part (CHR ''r'' # nat_str n)" "isExecutionMarker (CHR ''g'' # nat_str n)"
  using digits_nat_str(1) [of n] nat_str_nonempty [of n]
  by (auto simp: is_round_part_def isExecutionMarker_def isDigits_def Suc_lessI neq_Nil_conv)

section \<open>Properties\<close>

text \<open>C40. The text rewriting is exact: when all identifiers consist of identifier bytes, the loop
  replaces every maximal identifier token that is a known bare identifier by its persisted form,
  leaves tokens that already are persisted forms and all other tokens alone, and copies every
  other byte.\<close>

theorem remap_text_tokens:
  assumes "id_pairs (remap_pairs m)"
  shows "RemapText (Some m) s = rewrite_tokens (token_image (remap_pairs m)) s"
  using remap_loop_tokens [OF assms, of 0 s] by (simp add: RemapText_def)

text \<open>Rewriting a text twice is the same as rewriting it once: no namespace prefix is ever
  doubled.\<close>

lemma remap_text_idempotent:
  assumes "id_pairs (remap_pairs m)"
  shows "RemapText (Some m) (RemapText (Some m) s) = RemapText (Some m) s"
proof -
  have "RemapText (Some m) u = rewrite_tokens (token_image (remap_pairs m)) u" for u
    using remap_loop_tokens [OF assms, of 0 u] by (simp add: RemapText_def)
  then show ?thesis
    using rewrite_tokens_idem [of "token_image (remap_pairs m)" s]
    by (simp add: token_image_idem token_image_id_string [OF assms])
qed

text \<open>Run identifiers carry their agent: for the voting personas and the commander the code
  recovered from a durable run identifier is the code it was built from, whatever the case
  identifier contains, and likewise for checkpoint identifiers.\<close>

lemma code_of_run_roundtrip:
  assumes "code \<in> {MagiCodeMelchior, MagiCodeBalthasar, MagiCodeCasper, MagiCodeCommander}"
    and "phase \<in> {''investigate'', ''reconsider''}" and "0 \<le> generation" and "0 \<le> rnd"
  shows "CodeOfRun (executionRunID caseID code generation rnd phase) = code \<and>
    CodeOfRun (checkpointRunID caseID code rnd phase) = code"
proof -
  have no: "CHR ''-'' \<notin> set code" "CHR ''-'' \<notin> set phase" "\<not> is_round_part phase" "\<not> isExecutionMarker code"
    using assms(1,2) by (auto simp: MagiCode_defs is_round_part_def isExecutionMarker_def isDigits_def)
  let ?g = "CHR ''g'' # nat_str (nat generation)" and ?r = "CHR ''r'' # nat_str (nat rnd)"
  let ?P = "split_on (CHR ''-'') caseID"
  have e: "split_on (CHR ''-'') (executionRunID caseID code generation rnd phase) = ?P @ [code, ?g, ?r, phase]"
    and c: "split_on (CHR ''-'') (checkpointRunID caseID code rnd phase) = ?P @ [code, ?r, phase]"
    using no assms(3,4) digits_nat_str
    by (simp_all add: executionRunID_def checkpointRunID_def itoa_nonneg split_on_append split_on_single)
  have ne: "executionRunID caseID code generation rnd phase \<noteq> []" "checkpointRunID caseID code rnd phase \<noteq> []"
    by (simp_all add: executionRunID_def checkpointRunID_def)
  obtain k where "length ?P = Suc k" by (cases ?P) (simp_all add: split_on_nonempty [THEN notE])
  moreover have "nat (2 + int k) = Suc (Suc k)" "nat (1 + int k) = Suc k" by simp_all
  ultimately show ?thesis
    using no(3,4) marker_parts by (simp add: CodeOfRun_def Let_def e c ne nth_append)
qed

definition sample_remap :: ArtifactRemap where
  "sample_remap = AddEvidence ''EV-001'' ''c1-casper-g1-r1-investigate-EV-001'' NewArtifactRemap"

lemma sample_remap_pairs:
  "remap_pairs sample_remap = [(''EV-001'', ''c1-casper-g1-r1-investigate-EV-001'')]"
  by (simp add: sample_remap_def remap_pairs_def AddEvidence_def NewArtifactRemap_def)

lemma sample_remap_ids: "id_pairs (remap_pairs sample_remap)"
  by (simp add: sample_remap_pairs id_pairs_def id_string_def isIDByte_def Let_def)

theorem remap_text_tokens_witness:
  "RemapText (Some sample_remap) ''see EV-001, EV-0012'' = ''see c1-casper-g1-r1-investigate-EV-001, EV-0012''"
  using remap_text_tokens [OF sample_remap_ids, of "''see EV-001, EV-0012''"]
  by (simp add: sample_remap_pairs token_image_def isIDByte_def Let_def)

end
