(* ===== verification/Services.thy ===== *)
theory Services
  imports AgentRuntime Remap
begin

text \<open>
  \<^verbatim>\<open>backend/domain/service\<close> and \<^verbatim>\<open>backend/domain/memory\<close>: dissent extraction (\<^verbatim>\<open>dissent.go\<close>), run
  evaluation and counterfactual stability (\<^verbatim>\<open>evaluation.go\<close>), report rendering (\<^verbatim>\<open>report.go\<close>), the
  commander's two validated model calls with their retry loops (\<^verbatim>\<open>commander.go\<close>) and the memory
  projection of a decided case (\<^verbatim>\<open>projection.go\<close>).

  The chat model and the schema validator are third-party code: the model is the parameter
  \<open>generate\<close>, which answers attempt k, and the validator with its JSON decoder the parameter
  \<open>decode\<close>, which yields the data of a valid response.
\<close>

section \<open>Formatting\<close>

text \<open>\<^verbatim>\<open>%.nf\<close>: the nearest decimal with n digits, ties to even.\<close>

definition round_even :: "rat \<Rightarrow> int" where
  "round_even q =
     (let f = \<lfloor>q\<rfloor>; d = q - of_int f
      in if d < 1 / 2 then f else if 1 / 2 < d then f + 1 else if even f then f else f + 1)"

definition fmt_fixed :: "nat \<Rightarrow> rat \<Rightarrow> string" where
  "fmt_fixed n q =
     (let r = round_even (\<bar>q\<bar> * 10 ^ n); p = 10 ^ n
      in (if q < 0 then ''-'' else []) @ nat_str (nat (r div p)) @
         (if n = 0 then [] else ''.'' @ zero_pad n (nat_str (nat (r mod p)))))"

text \<open>\<^verbatim>\<open>%q\<close>, without the escapes of control and non-ASCII characters.\<close>

definition go_quote :: "string \<Rightarrow> string" where
  "go_quote s = [CHR 0x22] @
     concat (map (\<lambda>c. if c = CHR 0x22 \<or> c = CHR 0x5C then [CHR 0x5C, c] else [c]) s) @ [CHR 0x22]"

text \<open>\<^verbatim>\<open>%v\<close> of a string slice.\<close>

fun join_with :: "string \<Rightarrow> string list \<Rightarrow> string" where
  "join_with sep [] = []"
| "join_with sep [x] = x"
| "join_with sep (x # xs) = x @ sep @ join_with sep xs"

definition fmt_slice :: "string list \<Rightarrow> string" where
  "fmt_slice xs = ''['' @ join_with '' '' xs @ '']''"

fun outcome_str :: "ConsensusOutcome \<Rightarrow> string" where
  "outcome_str ConsensusStrongApproval = ''strong_approval''"
| "outcome_str ConsensusStrongRejection = ''strong_rejection''"
| "outcome_str ConsensusMajorityApprovalDissent = ''majority_approval_with_dissent''"
| "outcome_str ConsensusMajorityRejectionDissent = ''majority_rejection_with_dissent''"
| "outcome_str ConsensusDeadlock = ''deadlock''"
| "outcome_str ConsensusInsufficientQuorum = ''insufficient_quorum''"
| "outcome_str ConsensusConditional = ''conditional''"
| "outcome_str ConsensusIncomplete = ''incomplete''"
| "outcome_str (ConsensusOther s) = s"

definition nl :: string where
  "nl = [CHR 0x0A]"

section \<open>Dissent\<close>

definition dissent_of :: "MagiCode list \<Rightarrow> nat \<Rightarrow> Vote \<Rightarrow> Dissent" where
  "dissent_of codes i v =
     \<lparr> d_AgentCode = (case nth_opt codes i of None \<Rightarrow> [] | Some c \<Rightarrow> c),
       d_Decision = v_Decision v, d_Reasoning = v_ReasoningSummary v, d_EvidenceIDs = v_EvidenceIDs v,
       d_ClaimIDs = v_KeyClaimIDs v, d_Conditions = v_Conditions v \<rparr>"

fun extract_loop :: "VoteDecision \<Rightarrow> MagiCode list \<Rightarrow> nat \<Rightarrow> Vote option list \<Rightarrow> Dissent list" where
  "extract_loop final codes i [] = []"
| "extract_loop final codes i (vo # vs) =
     (case vo of
        None \<Rightarrow> extract_loop final codes (Suc i) vs
      | Some v \<Rightarrow>
          if v_Decision v = final \<or> v_Decision v = VoteDecisionAbstain
          then extract_loop final codes (Suc i) vs
          else dissent_of codes i v # extract_loop final codes (Suc i) vs)"

definition ExtractDissent ::
    "VoteDecision \<Rightarrow> Vote option list \<Rightarrow> MagiCode list \<Rightarrow> Dissent list option" where
  "ExtractDissent final votes codes =
     (if final = VoteDecisionZero \<or> length votes = 0 then None
      else Some (extract_loop final codes 0 votes))"

section \<open>Evaluation of a run\<close>

record eval_acc =
  ea_gate :: int
  ea_maxsteps :: int
  ea_valfail :: int
  ea_tokens :: int64
  ea_steps :: int
  ea_calls :: int
  ea_success :: int
  ea_paramfail :: int
  ea_evidence :: int
  ea_rel :: float64
  ea_sources :: "string list"

definition zero_acc :: eval_acc where
  "zero_acc = \<lparr> ea_gate = 0, ea_maxsteps = 0, ea_valfail = 0, ea_tokens = 0, ea_steps = 0, ea_calls = 0,
     ea_success = 0, ea_paramfail = 0, ea_evidence = 0, ea_rel = 0, ea_sources = [] \<rparr>"

definition eval_call :: "ToolCallRecord \<Rightarrow> eval_acc \<Rightarrow> eval_acc" where
  "eval_call tc a =
     (let a1 = a\<lparr> ea_calls := ea_calls a + 1 \<rparr>
      in if tcr_Valid tc \<and> tcr_Err tc = [] then a1\<lparr> ea_success := ea_success a1 + 1 \<rparr>
         else if \<not> tcr_Valid tc then a1\<lparr> ea_paramfail := ea_paramfail a1 + 1 \<rparr> else a1)"

definition eval_step :: "Step \<Rightarrow> eval_acc \<Rightarrow> eval_acc" where
  "eval_step s a = fold eval_call (sp_ToolCalls s) (a\<lparr> ea_steps := ea_steps a + 1 \<rparr>)"

definition eval_evidence :: "EvidenceRecord \<Rightarrow> eval_acc \<Rightarrow> eval_acc" where
  "eval_evidence e a = a\<lparr> ea_rel := ea_rel a + rs_Final (e_Reliability e),
     ea_sources := List.insert (source_type_str (e_SourceType e)) (ea_sources a) \<rparr>"

definition eval_ledger :: "EvidenceLedger \<Rightarrow> eval_acc \<Rightarrow> eval_acc" where
  "eval_ledger l a =
     (let evs = Ledger_List l
      in fold eval_evidence evs (a\<lparr> ea_evidence := ea_evidence a + int (length evs) \<rparr>))"

definition eval_result :: "LoopResult option \<Rightarrow> eval_acc \<Rightarrow> eval_acc" where
  "eval_result ro a =
     (case ro of None \<Rightarrow> a
      | Some r \<Rightarrow>
         (let a1 = a\<lparr> ea_gate := ea_gate a + (if lr_Status r = LoopStatusGateFailed then 1 else 0),
                     ea_maxsteps := ea_maxsteps a + (if lr_Status r = LoopStatusMaxSteps then 1 else 0),
                     ea_valfail := ea_valfail a + (if lr_Status r = LoopStatusValidationFailed then 1 else 0),
                     ea_tokens := ea_tokens a + (case lr_Usage r of None \<Rightarrow> 0 | Some u \<Rightarrow> u_TotalTokens u) \<rparr>
          in case lr_Trace r of
               None \<Rightarrow> a1
             | Some t \<Rightarrow>
                (let a2 = fold eval_step (lt_Steps t) a1
                 in case lr_Ledger r of None \<Rightarrow> a2 | Some l \<Rightarrow> eval_ledger l a2)))"

definition Evaluate :: "LoopResult option list \<Rightarrow> int \<Rightarrow> ConsensusOutcome \<Rightarrow> Evaluation" where
  "Evaluate results consensusRound consensusOutcome =
     (let a = fold eval_result results zero_acc; n = length results
      in \<lparr> ev_ToolSuccessRate = (if ea_calls a > 0 then of_int (ea_success a) / of_int (ea_calls a) else 0),
           ev_AvgToolCalls = (if ea_calls a > 0 then of_int (ea_calls a) / of_nat n else 0),
           ev_ToolParamFailures = (if ea_calls a > 0 then ea_paramfail a else 0),
           ev_EvidenceCount = ea_evidence a,
           ev_AvgReliability = (if ea_evidence a > 0 then ea_rel a / of_int (ea_evidence a) else 0),
           ev_UniqueSourceTypes = int (length (ea_sources a)),
           ev_GateFailures = ea_gate a, ev_MaxStepsExceeded = ea_maxsteps a,
           ev_ValidationFailures = ea_valfail a,
           ev_FirstRoundConsensus = (consensusRound = 1 \<and>
             (consensusOutcome = ConsensusStrongApproval \<or> consensusOutcome = ConsensusStrongRejection)),
           ev_ConsensusRound = consensusRound, ev_ConsensusOutcome = consensusOutcome,
           ev_TotalTokens = ea_tokens a,
           ev_AvgTokensPerAgent = (if n > 0 \<and> ea_tokens a > 0 then of_int (ea_tokens a) / of_nat n else 0),
           ev_TotalSteps = ea_steps a, ev_TotalToolCalls = ea_calls a,
           ev_CounterfactualStability = 0 \<rparr>)"

text \<open>
  \<open>rerun i\<close> is the decision of the i-th re-run; an error or a missing resolution counts as an
  abstention. A nil orchestrator is \<^term>\<open>None\<close>.
\<close>

definition rerun_decision :: "goerr + Resolution option \<Rightarrow> VoteDecision" where
  "rerun_decision r =
     (case r of Inr (Some res) \<Rightarrow> r_FinalDecision res | _ \<Rightarrow> VoteDecisionAbstain)"

definition bump :: "VoteDecision \<Rightarrow> (VoteDecision, int) gomap \<Rightarrow> (VoteDecision, int) gomap" where
  "bump d m = AList.update d ((case map_of m d of None \<Rightarrow> 0 | Some n \<Rightarrow> n) + 1) m"

definition CounterfactualStability :: "(nat \<Rightarrow> goerr + Resolution option) option \<Rightarrow> int \<Rightarrow> float64" where
  "CounterfactualStability orch N =
     (case orch of None \<Rightarrow> 0
      | Some rerun \<Rightarrow>
         if N \<le> 0 then 0
         else let counts = fold (\<lambda>i. bump (rerun_decision (rerun i))) [0..<nat N] [];
                  maxCount = fold (\<lambda>(_, c) m. if c > m then c else m) counts 0
              in of_int maxCount / of_int N)"

section \<open>Report rendering\<close>

record FinalReportData =
  fr_Summary :: string
  fr_KeyReasons :: "string list"
  fr_Risks :: "string list"
  fr_NextSteps :: "string list"
  fr_KeyEvidenceIDs :: "string list"
  fr_KeyClaimIDs :: "string list"

definition render_dissent_line :: "Dissent \<Rightarrow> string" where
  "render_dissent_line d =
     ''- '' @ d_AgentCode d @ '' dissented with '' @ decision_str (d_Decision d) @
     (if d_Reasoning d \<noteq> [] then '': '' @ d_Reasoning d else []) @
     (if length (d_EvidenceIDs d) > 0 then '' (evidence: '' @ fmt_slice (d_EvidenceIDs d) @ '')'' else []) @
     (if length (d_Conditions d) > 0
      then '' (conditions: '' @ fmt_slice (map dc_Statement (d_Conditions d)) @ '')'' else []) @ nl"

definition RenderDissent :: "Dissent list option \<Rightarrow> string" where
  "RenderDissent dissent =
     (case dissent of None \<Rightarrow> [] | Some ds \<Rightarrow> concat (map render_dissent_line ds))"

definition render_section :: "string \<Rightarrow> string list \<Rightarrow> string" where
  "render_section title items =
     (if length items > 0
      then nl @ ''## '' @ title @ nl @ concat (map (\<lambda>r. ''- '' @ r @ nl) items) else [])"

definition RenderReport :: "VoteDecision \<Rightarrow> FinalReportData option \<Rightarrow> string" where
  "RenderReport decision dopt =
     (case dopt of None \<Rightarrow> []
      | Some d \<Rightarrow>
         ''# Decision Report'' @ nl @ nl @
         ''## Decision'' @ nl @ decision_str decision @ nl @ nl @
         ''## Summary'' @ nl @ fr_Summary d @ nl @
         render_section ''Key Reasons'' (fr_KeyReasons d) @
         render_section ''Risks'' (fr_Risks d) @
         render_section ''Next Steps'' (fr_NextSteps d) @
         render_section ''Key Evidence'' (fr_KeyEvidenceIDs d) @
         render_section ''Key Claims'' (fr_KeyClaimIDs d))"

definition BuildReport ::
    "Resolution option \<Rightarrow> Vote list \<Rightarrow> EvidenceRecord list \<Rightarrow> Claim list \<Rightarrow> string" where
  "BuildReport resolution votes evidence claims =
     (case resolution of None \<Rightarrow> []
      | Some r \<Rightarrow> r_FinalReport r @ nl @ nl @ ''--- Consensus ---'' @ nl @
          outcome_str (cr_Outcome (r_Consensus r)) @ '' (round '' @ itoa (cr_Round (r_Consensus r)) @ '')'' @
          nl @ nl @ ''--- Votes ---'' @ nl) @
     concat (map (\<lambda>v. ''- '' @ decision_str (v_Decision v) @ '' (confidence '' @
       fmt_fixed 0 (NormalizeConfidence (v_Confidence v)) @ '')'' @ nl) votes) @
     (if length evidence > 0
      then nl @ ''--- Key Evidence ---'' @ nl @
        concat (map (\<lambda>e. ''- '' @ e_ID e @ '': '' @ e_Observation e @ '' (reliability '' @
          fmt_fixed 2 (rs_Final (e_Reliability e)) @ '')'' @ nl) (take 5 evidence)) else []) @
     (if length claims > 0
      then nl @ ''--- Key Claims ---'' @ nl @
        concat (map (\<lambda>c. ''- '' @ cl_ID c @ '': '' @ cl_Statement c @ nl) (take 5 claims)) else [])"

section \<open>The commander\<close>

datatype citation_error =
    NilReportData | EmptyCitation string | UnauthorizedCitation string string
  | DuplicateCitation string string | CitedTwice string | CitesNothing nat

fun checkCitationList :: "string \<Rightarrow> string list \<Rightarrow> string list \<Rightarrow> string list \<Rightarrow> citation_error option" where
  "checkCitationList kind permitted seen [] = None"
| "checkCitationList kind permitted seen (i # ids) =
     (if i = [] then Some (EmptyCitation kind)
      else if i \<notin> set permitted then Some (UnauthorizedCitation i kind)
      else if i \<in> set seen then Some (DuplicateCitation kind i)
      else checkCitationList kind permitted (i # seen) ids)"

fun check_disjoint :: "string list \<Rightarrow> string list \<Rightarrow> citation_error option" where
  "check_disjoint seen [] = None"
| "check_disjoint seen (i # ids) =
     (if i \<in> set seen then Some (CitedTwice i) else check_disjoint (i # seen) ids)"

definition validateReportCitations ::
    "FinalReportData option \<Rightarrow> string list \<Rightarrow> string list \<Rightarrow> citation_error option" where
  "validateReportCitations dopt evidenceIDs claimIDs =
     (case dopt of None \<Rightarrow> Some NilReportData
      | Some d \<Rightarrow>
         (case checkCitationList ''evidence'' evidenceIDs [] (fr_KeyEvidenceIDs d) of
            Some e \<Rightarrow> Some e
          | None \<Rightarrow>
             (case checkCitationList ''claim'' claimIDs [] (fr_KeyClaimIDs d) of
                Some e \<Rightarrow> Some e
              | None \<Rightarrow>
                 (case check_disjoint [] (fr_KeyEvidenceIDs d @ fr_KeyClaimIDs d) of
                    Some e \<Rightarrow> Some e
                  | None \<Rightarrow>
                     (let available = card (set evidenceIDs) + card (set claimIDs)
                      in if available > 0 \<and> fr_KeyEvidenceIDs d @ fr_KeyClaimIDs d = []
                         then Some (CitesNothing available) else None)))))"

text \<open>One attempt of the report loop: the rendered report, or nothing.\<close>

definition report_attempt ::
    "(string \<Rightarrow> FinalReportData option) \<Rightarrow> VoteDecision \<Rightarrow> string list \<Rightarrow> string list
     \<Rightarrow> goerr + string \<Rightarrow> string option" where
  "report_attempt decode decision evidenceIDs claimIDs resp =
     (case resp of Inl _ \<Rightarrow> None
      | Inr content \<Rightarrow>
         (case decode content of None \<Rightarrow> None
          | Some d \<Rightarrow>
             if validateReportCitations (Some d) evidenceIDs claimIDs = None
             then Some (RenderReport decision (Some d)) else None))"

fun first_success :: "(nat \<Rightarrow> 'a option) \<Rightarrow> nat \<Rightarrow> nat \<Rightarrow> 'a option" where
  "first_success f i 0 = None"
| "first_success f i (Suc n) = (case f i of Some x \<Rightarrow> Some x | None \<Rightarrow> first_success f (Suc i) n)"

definition GenerateReport ::
    "goerr option \<Rightarrow> (nat \<Rightarrow> goerr + string) \<Rightarrow> (string \<Rightarrow> FinalReportData option) \<Rightarrow> VoteDecision
     \<Rightarrow> string list \<Rightarrow> string list \<Rightarrow> goerr + string" where
  "GenerateReport build generate decode decision evidenceIDs claimIDs =
     (case build of Some e \<Rightarrow> Inl (Wrapf ''commander: build model'' e)
      | None \<Rightarrow>
         (case first_success (\<lambda>i. report_attempt decode decision evidenceIDs claimIDs (generate i)) 0 3 of
            Some r \<Rightarrow> Inr r
          | None \<Rightarrow> Inl (Errorf ''commander: report generation failed after retries'')))"

definition Normalize ::
    "goerr option \<Rightarrow> (nat \<Rightarrow> goerr + string) \<Rightarrow> (string \<Rightarrow> DecisionTask option) \<Rightarrow> goerr + DecisionTask" where
  "Normalize build generate decode =
     (case build of Some e \<Rightarrow> Inl (Wrapf ''commander: build model'' e)
      | None \<Rightarrow>
         (case first_success (\<lambda>i. case generate i of Inl _ \<Rightarrow> None | Inr c \<Rightarrow> decode c) 0 3 of
            Some t \<Rightarrow> Inr t
          | None \<Rightarrow> Inl (Errorf ''commander: normalize failed after retries'')))"

section \<open>The memory projection\<close>

record MemoryEvidence =
  me_EvidenceID :: string
  me_Observation :: string
  me_Reliability :: float64

record MemoryClaim =
  mcl_ClaimID :: string
  mcl_Statement :: string

record MemoryVote =
  mv_MagiCode :: MagiCode
  mv_Decision :: VoteDecision
  mv_Confidence :: float64

record CaseOutcome =
  co_Status :: string
  co_Learned :: string

record CaseMemoryProjection =
  mp_CaseID :: string
  mp_QuestionSummary :: string
  mp_ContextSummary :: string
  mp_KeyEvidence :: "MemoryEvidence list"
  mp_KeyClaims :: "MemoryClaim list"
  mp_Votes :: "MemoryVote list"
  mp_Resolution :: string
  mp_Outcome :: "CaseOutcome option"
  mp_Annotation :: string
  mp_Tags :: "string list"
  mp_ProjectionVersion :: int
  mp_IndexDoc :: string

text \<open>
  \<^verbatim>\<open>[]rune(s)\<close>: the encoding of each code point; a byte that starts no valid sequence becomes the
  replacement character.
\<close>

definition rune_width :: "nat list \<Rightarrow> nat" where
  "rune_width bs =
     (case List.find (\<lambda>k. k \<le> length bs \<and> valid_utf8_bytes (take k bs)) [1, 2, 3, 4] of
        None \<Rightarrow> 0 | Some k \<Rightarrow> k)"

function runes :: "string \<Rightarrow> string list" where
  "runes s =
     (if s = [] then []
      else let w = rune_width (map of_char s)
           in if w = 0 then [char_of (239 :: nat), char_of (191 :: nat), char_of (189 :: nat)] # runes (drop 1 s)
              else take w s # runes (drop w s))"
  by pat_completeness auto
termination by (relation "measure length") auto

declare runes.simps [simp del]

definition truncateRunes :: "string \<Rightarrow> nat \<Rightarrow> string" where
  "truncateRunes s n = (let r = runes s in if length r > n then concat (take n r) else s)"

definition remapID :: "ArtifactRemap option \<Rightarrow> string \<Rightarrow> string" where
  "remapID remap i =
     (case remap of None \<Rightarrow> i
      | Some m \<Rightarrow> (let out = RemapList remap [i] in if length out = 1 then out ! 0 else i))"

definition project_evidence :: "ArtifactRemap option \<Rightarrow> EvidenceRecord list \<Rightarrow> MemoryEvidence list" where
  "project_evidence remap evs =
     concat (map (\<lambda>ev. let persisted = remapID remap (e_ID ev)
       in if remap \<noteq> None \<and> persisted = e_ID ev then []
          else [\<lparr> me_EvidenceID = persisted, me_Observation = e_Observation ev,
                  me_Reliability = rs_Final (e_Reliability ev) \<rparr>]) (take 5 evs))"

definition project_claims :: "ArtifactRemap option \<Rightarrow> Claim list \<Rightarrow> MemoryClaim list" where
  "project_claims remap cls =
     concat (map (\<lambda>cl. let persisted = remapID remap (cl_ID cl)
       in if remap \<noteq> None \<and> persisted = cl_ID cl then []
          else [\<lparr> mcl_ClaimID = persisted, mcl_Statement = cl_Statement cl \<rparr>]) (take 5 cls))"

definition project_votes :: "Vote option list \<Rightarrow> MemoryVote list" where
  "project_votes votes =
     map (\<lambda>v. \<lparr> mv_MagiCode = CodeOfRun (v_AgentRunID v), mv_Decision = v_Decision v,
               mv_Confidence = v_Confidence v \<rparr>) (somes votes)"

definition renderIndexDoc ::
    "CaseMemoryProjection \<Rightarrow> DecisionCase option \<Rightarrow> Resolution option \<Rightarrow> string" where
  "renderIndexDoc proj caseOpt resolution =
     ''Question: '' @ mp_QuestionSummary proj @ nl @
     ''Context: '' @ (case caseOpt of None \<Rightarrow> [] | Some c \<Rightarrow> c_Context c) @ nl @
     (if length (mp_KeyEvidence proj) > 0
      then ''Evidence:'' @ nl @ concat (map (\<lambda>ev. ''- ['' @ me_EvidenceID ev @ ''] (reliability '' @
             fmt_fixed 2 (me_Reliability ev) @ '') '' @ me_Observation ev @ nl) (mp_KeyEvidence proj)) else []) @
     (if length (mp_KeyClaims proj) > 0
      then ''Claims:'' @ nl @ concat (map (\<lambda>cl. ''- ['' @ mcl_ClaimID cl @ ''] '' @ mcl_Statement cl @ nl)
             (mp_KeyClaims proj)) else []) @
     (if length (mp_Votes proj) > 0
      then ''Votes:'' @ nl @ concat (map (\<lambda>v. ''- '' @ mv_MagiCode v @ '': '' @ decision_str (mv_Decision v) @
             '' (confidence '' @ fmt_fixed 2 (mv_Confidence v) @ '')'' @ nl) (mp_Votes proj)) else []) @
     (if length (mp_Tags proj) > 0
      then ''Tags:'' @ nl @ concat (map (\<lambda>t. ''- '' @ t @ nl) (mp_Tags proj)) else []) @
     (if mp_Annotation proj \<noteq> [] then ''Annotation: '' @ mp_Annotation proj @ nl else []) @
     (case resolution of None \<Rightarrow> []
      | Some r \<Rightarrow> if r_FinalReport r \<noteq> [] then ''Resolution: '' @ r_FinalReport r @ nl else []) @
     (case mp_Outcome proj of None \<Rightarrow> []
      | Some oc \<Rightarrow> ''Outcome: status='' @ co_Status oc @ '' learned='' @ co_Learned oc @ nl)"

definition BuildProjection ::
    "DecisionCase option \<Rightarrow> Resolution option \<Rightarrow> EvidenceLedger option \<Rightarrow> Vote option list
     \<Rightarrow> ArtifactRemap option \<Rightarrow> CaseMemoryProjection" where
  "BuildProjection caseOpt resolution ledger votes remap =
     (let hasReport = (case resolution of None \<Rightarrow> False | Some r \<Rightarrow> r_FinalReport r \<noteq> []);
          report = (case resolution of None \<Rightarrow> [] | Some r \<Rightarrow> r_FinalReport r);
          proj =
           \<lparr> mp_CaseID = (case caseOpt of None \<Rightarrow> [] | Some c \<Rightarrow> c_ID c),
             mp_QuestionSummary = (case caseOpt of None \<Rightarrow> [] | Some c \<Rightarrow> c_Question c),
             mp_ContextSummary =
               (if hasReport then truncateRunes report 200
                else case caseOpt of None \<Rightarrow> [] | Some c \<Rightarrow> truncateRunes (c_Context c) 200),
             mp_KeyEvidence = (case ledger of None \<Rightarrow> [] | Some l \<Rightarrow> project_evidence remap (Ledger_List l)),
             mp_KeyClaims = (case ledger of None \<Rightarrow> [] | Some l \<Rightarrow> project_claims remap (ListClaims l)),
             mp_Votes = project_votes votes,
             mp_Resolution = (if hasReport then truncateRunes report 500 else []),
             mp_Outcome = map_option (\<lambda>r. \<lparr> co_Status = outcome_str (cr_Outcome (r_Consensus r)),
                                            co_Learned = [] \<rparr>) resolution,
             mp_Annotation = [], mp_Tags = [], mp_ProjectionVersion = 1, mp_IndexDoc = [] \<rparr>
      in proj\<lparr> mp_IndexDoc := renderIndexDoc proj caseOpt resolution \<rparr>)"

section \<open>Lemmas\<close>

lemma ex_nat_split: "(\<exists>k. P k) \<longleftrightarrow> P 0 \<or> (\<exists>k. P (Suc k))" for P :: "nat \<Rightarrow> bool"
  by (metis not0_implies_Suc)

lemma extract_loop_nth:
  "set (extract_loop final codes i votes) =
     {dissent_of codes (i + k) v | k v. k < length votes \<and> votes ! k = Some v \<and>
        v_Decision v \<noteq> final \<and> v_Decision v \<noteq> VoteDecisionAbstain}"
proof (induction votes arbitrary: i)
  case (Cons vo votes)
  let ?P = "\<lambda>v. v_Decision v \<noteq> final \<and> v_Decision v \<noteq> VoteDecisionAbstain"
  have shift: "(\<exists>k v. d = dissent_of codes (i + k) v \<and> k < length (vo # votes) \<and> (vo # votes) ! k = Some v \<and> ?P v) \<longleftrightarrow>
      (\<exists>v. d = dissent_of codes i v \<and> vo = Some v \<and> ?P v) \<or>
      (\<exists>k v. d = dissent_of codes (Suc i + k) v \<and> k < length votes \<and> votes ! k = Some v \<and> ?P v)" for d
    by (subst ex_nat_split) auto
  show ?case
    unfolding set_eq_iff mem_Collect_eq shift
    by (cases vo) (auto simp: Cons.IH)
qed simp

lemma checkCitationList_None_iff:
  "checkCitationList kind permitted seen ids = None \<longleftrightarrow>
     [] \<notin> set ids \<and> set ids \<subseteq> set permitted \<and> distinct ids \<and> set ids \<inter> set seen = {}"
  by (induction ids arbitrary: seen) auto

lemma check_disjoint_None_iff:
  "check_disjoint seen ids = None \<longleftrightarrow> distinct ids \<and> set ids \<inter> set seen = {}"
  by (induction ids arbitrary: seen) auto

lemma validateReportCitations_None_iff:
  "validateReportCitations (Some d) evidenceIDs claimIDs = None \<longleftrightarrow>
     [] \<notin> set (fr_KeyEvidenceIDs d @ fr_KeyClaimIDs d) \<and>
     set (fr_KeyEvidenceIDs d) \<subseteq> set evidenceIDs \<and> set (fr_KeyClaimIDs d) \<subseteq> set claimIDs \<and>
     distinct (fr_KeyEvidenceIDs d @ fr_KeyClaimIDs d) \<and>
     (evidenceIDs @ claimIDs \<noteq> [] \<longrightarrow> fr_KeyEvidenceIDs d @ fr_KeyClaimIDs d \<noteq> [])"
proof -
  have "validateReportCitations (Some d) evidenceIDs claimIDs = None \<longleftrightarrow>
      checkCitationList ''evidence'' evidenceIDs [] (fr_KeyEvidenceIDs d) = None \<and>
      checkCitationList ''claim'' claimIDs [] (fr_KeyClaimIDs d) = None \<and>
      check_disjoint [] (fr_KeyEvidenceIDs d @ fr_KeyClaimIDs d) = None \<and>
      \<not> (card (set evidenceIDs) + card (set claimIDs) > 0 \<and> fr_KeyEvidenceIDs d @ fr_KeyClaimIDs d = [])"
    by (auto simp: validateReportCitations_def Let_def split: option.splits)
  moreover have "card (set evidenceIDs) + card (set claimIDs) > 0 \<longleftrightarrow> evidenceIDs @ claimIDs \<noteq> []"
    by (auto simp: card_gt_0_iff)
  ultimately show ?thesis
    unfolding checkCitationList_None_iff check_disjoint_None_iff by auto
qed

lemma first_success_Some:
  "first_success f i n = Some x \<Longrightarrow> \<exists>k. i \<le> k \<and> k < i + n \<and> f k = Some x \<and> (\<forall>j. i \<le> j \<and> j < k \<longrightarrow> f j = None)"
proof (induction n arbitrary: i)
  case (Suc n)
  show ?case
  proof (cases "f i")
    case None
    with Suc.prems have "first_success f (Suc i) n = Some x" by simp
    from Suc.IH [OF this] obtain k where
      k: "Suc i \<le> k" "k < Suc i + n" "f k = Some x" "\<forall>j. Suc i \<le> j \<and> j < k \<longrightarrow> f j = None"
      by blast
    have "f j = None" if "i \<le> j" "j < k" for j
      using that k(4) None by (cases "j = i") auto
    with k show ?thesis by (intro exI [of _ k]) auto
  next
    case (Some y)
    with Suc show ?thesis by (intro exI [of _ i]) auto
  qed
qed simp

lemma first_success_None_iff: "first_success f i n = None \<longleftrightarrow> (\<forall>k. i \<le> k \<and> k < i + n \<longrightarrow> f k = None)"
proof (induction n arbitrary: i)
  case (Suc n)
  have b: "i \<le> k \<and> k < i + Suc n \<longleftrightarrow> k = i \<or> Suc i \<le> k \<and> k < Suc i + n" for k by auto
  show ?case unfolding b using Suc by (auto split: option.splits)
qed auto

definition acc_ok :: "eval_acc \<Rightarrow> bool" where
  "acc_ok a \<longleftrightarrow> 0 \<le> ea_success a \<and> 0 \<le> ea_paramfail a \<and> ea_success a + ea_paramfail a \<le> ea_calls a \<and>
     0 \<le> ea_rel a \<and> ea_rel a \<le> of_int (ea_evidence a) \<and> 0 \<le> ea_evidence a \<and> distinct (ea_sources a)"

lemma acc_ok_zero: "acc_ok zero_acc"
  by (simp add: acc_ok_def zero_acc_def)

lemma acc_ok_call: "acc_ok a \<Longrightarrow> acc_ok (eval_call tc a)"
  by (auto simp: acc_ok_def eval_call_def Let_def)

lemma acc_ok_calls: "acc_ok a \<Longrightarrow> acc_ok (fold eval_call tcs a)"
  by (induction tcs arbitrary: a) (simp_all add: acc_ok_call)

lemma acc_ok_step: "acc_ok a \<Longrightarrow> acc_ok (eval_step s a)"
  unfolding eval_step_def by (rule acc_ok_calls) (simp add: acc_ok_def)

lemma acc_ok_steps: "acc_ok a \<Longrightarrow> acc_ok (fold eval_step ss a)"
  by (induction ss arbitrary: a) (simp_all add: acc_ok_step)

lemma fold_eval_evidence:
  "ea_rel (fold eval_evidence evs a) = ea_rel a + sum_list (map (\<lambda>e. rs_Final (e_Reliability e)) evs)"
  "ea_evidence (fold eval_evidence evs a) = ea_evidence a"
  "ea_success (fold eval_evidence evs a) = ea_success a"
  "ea_paramfail (fold eval_evidence evs a) = ea_paramfail a"
  "ea_calls (fold eval_evidence evs a) = ea_calls a"
  "distinct (ea_sources a) \<Longrightarrow> distinct (ea_sources (fold eval_evidence evs a))"
  by (induction evs arbitrary: a) (simp_all add: eval_evidence_def)

lemma sum_unit_interval:
  fixes f :: "'a \<Rightarrow> rat"
  shows "\<forall>x \<in> set xs. 0 \<le> f x \<and> f x \<le> 1 \<Longrightarrow> 0 \<le> sum_list (map f xs) \<and> sum_list (map f xs) \<le> of_nat (length xs)"
proof (induction xs)
  case (Cons x xs)
  then have "0 \<le> sum_list (map f xs)" "sum_list (map f xs) \<le> of_nat (length xs)" "0 \<le> f x" "f x \<le> 1" by auto
  then show ?case by simp
qed simp

definition results_reliable :: "LoopResult option list \<Rightarrow> bool" where
  "results_reliable results \<longleftrightarrow>
     (\<forall>r l. Some r \<in> set results \<longrightarrow> lr_Ledger r = Some l \<longrightarrow>
        (\<forall>e \<in> set (Ledger_List l). 0 \<le> rs_Final (e_Reliability e) \<and> rs_Final (e_Reliability e) \<le> 1))"

lemma acc_ok_ledger:
  assumes "acc_ok a" "\<forall>e \<in> set (Ledger_List l). 0 \<le> rs_Final (e_Reliability e) \<and> rs_Final (e_Reliability e) \<le> 1"
  shows "acc_ok (eval_ledger l a)"
  using assms(1) sum_unit_interval [OF assms(2)]
  by (simp add: acc_ok_def eval_ledger_def Let_def fold_eval_evidence)

lemma acc_ok_result:
  assumes "acc_ok a" "\<And>r l. ro = Some r \<Longrightarrow> lr_Ledger r = Some l \<Longrightarrow>
      \<forall>e \<in> set (Ledger_List l). 0 \<le> rs_Final (e_Reliability e) \<and> rs_Final (e_Reliability e) \<le> 1"
  shows "acc_ok (eval_result ro a)"
proof (cases ro)
  case (Some r)
  define a1 where "a1 = a\<lparr> ea_gate := ea_gate a + (if lr_Status r = LoopStatusGateFailed then 1 else 0),
      ea_maxsteps := ea_maxsteps a + (if lr_Status r = LoopStatusMaxSteps then 1 else 0),
      ea_valfail := ea_valfail a + (if lr_Status r = LoopStatusValidationFailed then 1 else 0),
      ea_tokens := ea_tokens a + (case lr_Usage r of None \<Rightarrow> 0 | Some u \<Rightarrow> u_TotalTokens u) \<rparr>"
  have "acc_ok a1" using assms(1) by (simp add: acc_ok_def a1_def)
  then show ?thesis
    using assms(2) [OF Some] Some
    by (auto simp: eval_result_def a1_def [symmetric] Let_def acc_ok_steps acc_ok_ledger split: option.splits)
qed (use assms in \<open>simp add: eval_result_def\<close>)

lemma acc_ok_results: "acc_ok a \<Longrightarrow> results_reliable results \<Longrightarrow> acc_ok (fold eval_result results a)"
proof (induction results arbitrary: a)
  case (Cons ro results)
  have "results_reliable results" using Cons.prems(2) by (auto simp: results_reliable_def)
  moreover have "acc_ok (eval_result ro a)"
    using Cons.prems by (intro acc_ok_result) (auto simp: results_reliable_def)
  ultimately show ?case using Cons.IH by simp
qed simp

section \<open>Properties\<close>

text \<open>Dissent is recorded exactly: for a decided round with ballot slots, the record exists, every
  entry is the ballot of one agent that disagreed with the decision without abstaining, and every
  such ballot has its entry, attributed to the agent of its slot.\<close>

lemma dissent_exact:
  assumes "final \<noteq> VoteDecisionZero" and "votes \<noteq> []"
  shows "\<exists>ds. ExtractDissent final votes codes = Some ds \<and>
    set ds = {dissent_of codes i v | i v. i < length votes \<and> votes ! i = Some v \<and>
      v_Decision v \<noteq> final \<and> v_Decision v \<noteq> VoteDecisionAbstain}"
  using assms extract_loop_nth [of final codes 0 votes] by (simp add: ExtractDissent_def)

text \<open>A generated report is grounded: whatever the model answers, a report that is returned states
  the authoritative decision and cites only authorised evidence and claims, without duplicates or
  empty identifiers, and at least one when any is available.\<close>

lemma report_grounded:
  assumes "GenerateReport build generate decode decision evidenceIDs claimIDs = Inr report"
  shows "\<exists>d. report = RenderReport decision (Some d) \<and>
    set (fr_KeyEvidenceIDs d) \<subseteq> set evidenceIDs \<and> set (fr_KeyClaimIDs d) \<subseteq> set claimIDs \<and>
    distinct (fr_KeyEvidenceIDs d @ fr_KeyClaimIDs d) \<and> [] \<notin> set (fr_KeyEvidenceIDs d @ fr_KeyClaimIDs d) \<and>
    (evidenceIDs @ claimIDs \<noteq> [] \<longrightarrow> fr_KeyEvidenceIDs d @ fr_KeyClaimIDs d \<noteq> [])"
proof -
  obtain k where "report_attempt decode decision evidenceIDs claimIDs (generate k) = Some report"
    using assms first_success_Some by (fastforce simp: GenerateReport_def split: option.splits)
  then obtain d where "validateReportCitations (Some d) evidenceIDs claimIDs = None"
    and "report = RenderReport decision (Some d)"
    by (auto simp: report_attempt_def split: sum.splits option.splits if_splits)
  then show ?thesis unfolding validateReportCitations_None_iff by blast
qed

definition sample_report :: FinalReportData where
  "sample_report = \<lparr> fr_Summary = ''s'', fr_KeyReasons = [], fr_Risks = [], fr_NextSteps = [],
     fr_KeyEvidenceIDs = [''e1''], fr_KeyClaimIDs = [] \<rparr>"

text \<open>The evaluation of a run is in range: with reliabilities in [0, 1] the tool success rate and
  the average reliability are in [0, 1], and parameter failures never exceed the tool calls.\<close>

lemma evaluation_bounds:
  assumes "results_reliable results"
  shows "0 \<le> ev_ToolSuccessRate (Evaluate results rnd outcome) \<and>
    ev_ToolSuccessRate (Evaluate results rnd outcome) \<le> 1 \<and>
    0 \<le> ev_AvgReliability (Evaluate results rnd outcome) \<and>
    ev_AvgReliability (Evaluate results rnd outcome) \<le> 1 \<and>
    ev_ToolParamFailures (Evaluate results rnd outcome) \<le> ev_TotalToolCalls (Evaluate results rnd outcome)"
proof -
  define a where "a = fold eval_result results zero_acc"
  have "acc_ok a" unfolding a_def using acc_ok_results [OF acc_ok_zero assms] .
  then show ?thesis
    by (auto simp: Evaluate_def Let_def a_def [symmetric] acc_ok_def divide_le_eq)
qed

end
