(* ===== verification/Consensus.thy ===== *)
theory Consensus
  imports Entity
begin

text \<open>
  \<^verbatim>\<open>backend/domain/consensus\<close>: the deterministic vote counter (\<^verbatim>\<open>engine.go\<close>,
  \<^verbatim>\<open>policy.go\<close>). \<open>EvaluateBallots\<close> follows the code's order of checks and early returns;
  the counting loop is \<open>count_votes\<close>. The lemmas characterise every outcome, show that only
  the multiset of cast decisions matters, and bundle what the orchestrator relies on as the
  locale \<open>ballot_evaluator\<close>, interpreted on the engine itself.
\<close>

section \<open>Policy and ballots\<close>

record ConsensusPolicy =
  Quorum :: int
  FirstSplitGoesToDebate :: bool
  ResolveOnReconsiderMajority :: bool
  ConditionalAsApprove :: bool

definition DefaultConsensusPolicy :: ConsensusPolicy where
  "DefaultConsensusPolicy = \<lparr> Quorum = 2, FirstSplitGoesToDebate = True,
     ResolveOnReconsiderMajority = True, ConditionalAsApprove = True \<rparr>"

record BallotSet =
  b_Votes :: "Vote list"
  b_Absences :: "AgentAbsence list"

section \<open>Counting\<close>

record tally =
  n_approve :: nat
  n_reject :: nat
  n_abstain :: nat
  n_cond :: nat
  conds :: "DecisionCondition list"

definition zero_tally :: tally where
  "zero_tally = \<lparr> n_approve = 0, n_reject = 0, n_abstain = 0, n_cond = 0, conds = [] \<rparr>"

definition count_vote :: "ConsensusPolicy \<Rightarrow> Vote \<Rightarrow> tally \<Rightarrow> VoteDecision + tally" where
  "count_vote policy v t =
     (let isCond = (v_Decision v = VoteDecisionConditionalApprove);
          t1 = (if isCond then t\<lparr> n_cond := n_cond t + 1, conds := conds t @ v_Conditions v \<rparr> else t);
          d = (if isCond then (if ConditionalAsApprove policy then VoteDecisionApprove
                               else VoteDecisionAbstain)
               else v_Decision v)
      in case d of
           VoteDecisionApprove \<Rightarrow> Inr (t1\<lparr> n_approve := n_approve t1 + 1 \<rparr>)
         | VoteDecisionReject \<Rightarrow> Inr (t1\<lparr> n_reject := n_reject t1 + 1 \<rparr>)
         | VoteDecisionAbstain \<Rightarrow> Inr (t1\<lparr> n_abstain := n_abstain t1 + 1 \<rparr>)
         | _ \<Rightarrow> Inl d)"

fun count_votes :: "ConsensusPolicy \<Rightarrow> Vote list \<Rightarrow> tally \<Rightarrow> VoteDecision + tally" where
  "count_votes policy [] t = Inr t"
| "count_votes policy (v # vs) t =
     (case count_vote policy v t of Inl d \<Rightarrow> Inl d | Inr t' \<Rightarrow> count_votes policy vs t')"

definition consensus_result ::
    "ConsensusOutcome \<Rightarrow> Vote list \<Rightarrow> int \<Rightarrow> ConsensusDetail \<Rightarrow> ConsensusResult" where
  "consensus_result outcome votes rnd detail =
     \<lparr> cr_Outcome = outcome, cr_Votes = votes, cr_Round = rnd, cr_Detail = detail,
       cr_Conditions = [] \<rparr>"

definition majority_detail :: "ConsensusPolicy \<Rightarrow> int \<Rightarrow> ConsensusDetail \<Rightarrow> ConsensusDetail" where
  "majority_detail policy rnd plain =
     (if rnd = 1 \<and> FirstSplitGoesToDebate policy then DetailFirstRoundSplit
      else if rnd \<ge> 2 \<and> ResolveOnReconsiderMajority policy then DetailReconsiderMajority
      else plain)"

text \<open>The classification of a counted rnd, in the order of the code's tests.\<close>

definition classify_tally ::
    "ConsensusPolicy \<Rightarrow> Vote list \<Rightarrow> int \<Rightarrow> tally \<Rightarrow> ConsensusResult" where
  "classify_tally policy votes rnd t =
     (let effective = int (length votes) - int (n_abstain t) in
      if effective < Quorum policy then
        consensus_result ConsensusInsufficientQuorum votes rnd
          (DetailBelowQuorum effective (Quorum policy))
      else if ConditionalAsApprove policy \<and> n_cond t > 0 \<and> n_approve t \<ge> 2
              \<and> n_approve t > n_reject t then
        (consensus_result ConsensusConditional votes rnd
          (DetailConditional (length (conds t))))\<lparr> cr_Conditions := conds t \<rparr>
      else if n_approve t = length votes then
        consensus_result ConsensusStrongApproval votes rnd DetailUnanimousApproval
      else if n_reject t = length votes then
        consensus_result ConsensusStrongRejection votes rnd DetailUnanimousRejection
      else if n_approve t \<ge> 2 \<and> n_approve t > n_reject t then
        consensus_result ConsensusMajorityApprovalDissent votes rnd
          (majority_detail policy rnd DetailMajorityApproval)
      else if n_reject t \<ge> 2 \<and> n_reject t > n_approve t then
        consensus_result ConsensusMajorityRejectionDissent votes rnd
          (majority_detail policy rnd DetailMajorityRejection)
      else consensus_result ConsensusDeadlock votes rnd
          (DetailTally (n_approve t) (n_reject t) (n_abstain t)))"

definition EvaluateBallots :: "BallotSet \<Rightarrow> int \<Rightarrow> ConsensusPolicy \<Rightarrow> ConsensusResult" where
  "EvaluateBallots ballots rnd policy =
     (case find (\<lambda>v. \<not> IsValidVoteDecision (v_Decision v)) (b_Votes ballots) of
        Some v \<Rightarrow> consensus_result ConsensusIncomplete (b_Votes ballots) rnd
                   (DetailInvalidDecision (v_Decision v))
      | None \<Rightarrow>
        if b_Absences ballots \<noteq> [] then
          consensus_result ConsensusIncomplete (b_Votes ballots) rnd
            (DetailAbsences (b_Absences ballots))
        else if b_Votes ballots = [] then
          consensus_result ConsensusInsufficientQuorum [] rnd DetailNoVotes
        else
          (case count_votes policy (b_Votes ballots) zero_tally of
             Inl d \<Rightarrow> consensus_result ConsensusIncomplete (b_Votes ballots) rnd
                        (DetailInvalidDecision d)
           | Inr t \<Rightarrow> classify_tally policy (b_Votes ballots) rnd t))"

definition Evaluate_votes :: "Vote list \<Rightarrow> int \<Rightarrow> ConsensusPolicy \<Rightarrow> ConsensusResult" where
  "Evaluate_votes votes rnd policy =
     EvaluateBallots \<lparr> b_Votes = votes, b_Absences = [] \<rparr> rnd policy"

section \<open>Reference counts\<close>

text \<open>What the loop counts, stated over the list of cast decisions alone.\<close>

definition counts_approve :: "ConsensusPolicy \<Rightarrow> VoteDecision \<Rightarrow> bool" where
  "counts_approve policy d \<longleftrightarrow> d = VoteDecisionApprove \<or>
     d = VoteDecisionConditionalApprove \<and> ConditionalAsApprove policy"

definition counts_abstain :: "ConsensusPolicy \<Rightarrow> VoteDecision \<Rightarrow> bool" where
  "counts_abstain policy d \<longleftrightarrow> d = VoteDecisionAbstain \<or>
     d = VoteDecisionConditionalApprove \<and> \<not> ConditionalAsApprove policy"

definition approvals :: "ConsensusPolicy \<Rightarrow> VoteDecision list \<Rightarrow> nat" where
  "approvals policy ds = length (filter (counts_approve policy) ds)"

definition rejections :: "VoteDecision list \<Rightarrow> nat" where
  "rejections ds = length (filter (\<lambda>d. d = VoteDecisionReject) ds)"

definition abstentions :: "ConsensusPolicy \<Rightarrow> VoteDecision list \<Rightarrow> nat" where
  "abstentions policy ds = length (filter (counts_abstain policy) ds)"

definition conditionals :: "VoteDecision list \<Rightarrow> nat" where
  "conditionals ds = length (filter (\<lambda>d. d = VoteDecisionConditionalApprove) ds)"

lemmas count_defs = approvals_def rejections_def abstentions_def conditionals_def

abbreviation decisions :: "Vote list \<Rightarrow> VoteDecision list" where
  "decisions vs \<equiv> map v_Decision vs"

abbreviation conditions_of :: "Vote list \<Rightarrow> DecisionCondition list" where
  "conditions_of vs \<equiv>
     concat (map v_Conditions (filter (\<lambda>v. v_Decision v = VoteDecisionConditionalApprove) vs))"

abbreviation all_valid :: "VoteDecision list \<Rightarrow> bool" where
  "all_valid ds \<equiv> (\<forall>d \<in> set ds. IsValidVoteDecision d)"

lemma count_votes_valid:
  assumes "all_valid (decisions vs)"
  shows "count_votes policy vs t = Inr
     \<lparr> n_approve = n_approve t + approvals policy (decisions vs),
       n_reject = n_reject t + rejections (decisions vs),
       n_abstain = n_abstain t + abstentions policy (decisions vs),
       n_cond = n_cond t + conditionals (decisions vs),
       conds = conds t @ conditions_of vs \<rparr>"
  using assms
proof (induction vs arbitrary: t)
  case Nil
  show ?case by (simp add: count_defs)
next
  case (Cons v vs)
  then show ?case
    by (cases "v_Decision v")
      (simp_all add: count_vote_def Let_def count_defs counts_approve_def counts_abstain_def)
qed

lemma tally_partition:
  "all_valid ds \<Longrightarrow> approvals policy ds + rejections ds + abstentions policy ds = length ds"
proof (induction ds)
  case Nil
  show ?case by (simp add: count_defs)
next
  case (Cons d ds)
  then show ?case
    by (cases d) (simp_all add: count_defs counts_approve_def counts_abstain_def)
qed

lemma find_invalid_None_iff:
  "find (\<lambda>v. \<not> IsValidVoteDecision (v_Decision v)) vs = None \<longleftrightarrow> all_valid (decisions vs)"
  by (auto simp: find_None_iff)

section \<open>The outcome as a function of the decisions\<close>

text \<open>
  The specification: the outcome computed from the decisions and the number of absences,
  with no reference to votes, order or the loop.
\<close>

definition outcome_spec ::
    "ConsensusPolicy \<Rightarrow> VoteDecision list \<Rightarrow> bool \<Rightarrow> ConsensusOutcome" where
  "outcome_spec policy ds absent =
     (let a = approvals policy ds; r = rejections ds; n = length ds in
      if \<not> all_valid ds \<or> absent then ConsensusIncomplete
      else if n = 0 \<or> int a + int r < Quorum policy then ConsensusInsufficientQuorum
      else if ConditionalAsApprove policy \<and> conditionals ds > 0 \<and> a \<ge> 2 \<and> a > r
        then ConsensusConditional
      else if a = n then ConsensusStrongApproval
      else if r = n then ConsensusStrongRejection
      else if a \<ge> 2 \<and> a > r then ConsensusMajorityApprovalDissent
      else if r \<ge> 2 \<and> r > a then ConsensusMajorityRejectionDissent
      else ConsensusDeadlock)"

lemma EvaluateBallots_not_valid:
  "\<not> all_valid (decisions (b_Votes b)) \<Longrightarrow> cr_Outcome (EvaluateBallots b rnd policy) = ConsensusIncomplete"
  using find_invalid_None_iff [of "b_Votes b"]
  by (auto simp: EvaluateBallots_def consensus_result_def split: option.splits)

lemma EvaluateBallots_absent:
  "b_Absences b \<noteq> [] \<Longrightarrow> cr_Outcome (EvaluateBallots b rnd policy) = ConsensusIncomplete"
  by (auto simp: EvaluateBallots_def consensus_result_def split: option.splits)

lemma EvaluateBallots_counted:
  assumes "all_valid (decisions (b_Votes b))" and "b_Absences b = []" and "b_Votes b \<noteq> []"
  shows "EvaluateBallots b rnd policy =
    classify_tally policy (b_Votes b) rnd
     \<lparr> n_approve = approvals policy (decisions (b_Votes b)),
       n_reject = rejections (decisions (b_Votes b)),
       n_abstain = abstentions policy (decisions (b_Votes b)),
       n_cond = conditionals (decisions (b_Votes b)),
       conds = conditions_of (b_Votes b) \<rparr>"
proof -
  from assms(1) have "find (\<lambda>v. \<not> IsValidVoteDecision (v_Decision v)) (b_Votes b) = None"
    by (simp add: find_invalid_None_iff)
  moreover note count_votes_valid [OF assms(1), of policy zero_tally]
  ultimately show ?thesis
    using assms(2,3) by (simp add: EvaluateBallots_def zero_tally_def)
qed

lemma classify_tally_outcome:
  assumes "all_valid (decisions vs)" and "vs \<noteq> []"
  shows "cr_Outcome (classify_tally policy vs rnd
     \<lparr> n_approve = approvals policy (decisions vs), n_reject = rejections (decisions vs),
       n_abstain = abstentions policy (decisions vs), n_cond = conditionals (decisions vs),
       conds = cs \<rparr>) = outcome_spec policy (decisions vs) False"
proof -
  have "int (length vs) - int (abstentions policy (decisions vs)) =
      int (approvals policy (decisions vs)) + int (rejections (decisions vs))"
    using tally_partition [OF assms(1), of policy] by simp
  then show ?thesis
    using assms by (simp add: classify_tally_def outcome_spec_def consensus_result_def Let_def)
qed

lemma EvaluateBallots_outcome:
  "cr_Outcome (EvaluateBallots b rnd policy) =
     outcome_spec policy (decisions (b_Votes b)) (b_Absences b \<noteq> [])"
proof (cases "all_valid (decisions (b_Votes b)) \<and> b_Absences b = [] \<and> b_Votes b \<noteq> []")
  case True
  then show ?thesis
    using EvaluateBallots_counted [of b rnd policy] classify_tally_outcome by simp
next
  case False
  then consider "\<not> all_valid (decisions (b_Votes b))" | "b_Absences b \<noteq> []"
    | "b_Votes b = []" "b_Absences b = []" by blast
  then show ?thesis
  proof cases
    case 1
    then show ?thesis by (simp add: EvaluateBallots_not_valid outcome_spec_def Let_def)
  next
    case 2
    then show ?thesis by (simp add: EvaluateBallots_absent outcome_spec_def Let_def)
  next
    case 3
    then show ?thesis
      by (simp add: EvaluateBallots_def consensus_result_def outcome_spec_def)
  qed
qed

lemma outcome_spec_not_Incomplete:
  "outcome_spec policy ds absent = ConsensusIncomplete \<longleftrightarrow> \<not> all_valid ds \<or> absent"
  by (simp add: outcome_spec_def Let_def)

lemma count_mset:
  assumes "mset ds = mset ds'"
  shows "approvals policy ds = approvals policy ds'" "rejections ds = rejections ds'"
    "conditionals ds = conditionals ds'" "length ds = length ds'" "all_valid ds = all_valid ds'"
proof -
  have f: "length (filter P ds) = length (filter P ds')" for P
    by (metis assms mset_filter size_mset)
  show "approvals policy ds = approvals policy ds'" "rejections ds = rejections ds'"
    "conditionals ds = conditionals ds'"
    by (simp_all add: count_defs f)
  show "length ds = length ds'" by (metis assms size_mset)
  show "all_valid ds = all_valid ds'" by (metis assms set_mset_mset)
qed

lemma outcome_spec_mset:
  assumes "mset ds = mset ds'"
  shows "outcome_spec policy ds absent = outcome_spec policy ds' absent"
  unfolding outcome_spec_def Let_def count_mset [OF assms] by (rule refl)

section \<open>The interface the orchestrator relies on\<close>

definition approving :: "ConsensusOutcome \<Rightarrow> bool" where
  "approving oc \<longleftrightarrow> oc \<in> {ConsensusStrongApproval, ConsensusMajorityApprovalDissent,
     ConsensusConditional}"

definition rejecting :: "ConsensusOutcome \<Rightarrow> bool" where
  "rejecting oc \<longleftrightarrow> oc \<in> {ConsensusStrongRejection, ConsensusMajorityRejectionDissent}"

text \<open>
  What the orchestrator relies on when it consults an evaluator: an incomplete rnd is
  reported as such, and an approving or rejecting verdict rests on ballots that were cast.
\<close>

locale ballot_evaluator =
  fixes evaluate :: "BallotSet \<Rightarrow> int \<Rightarrow> ConsensusPolicy \<Rightarrow> ConsensusResult"
  assumes absent_incomplete:
    "b_Absences b \<noteq> [] \<Longrightarrow> cr_Outcome (evaluate b rnd policy) = ConsensusIncomplete"
    and invalid_incomplete:
    "\<not> all_valid (decisions (b_Votes b)) \<Longrightarrow>
       cr_Outcome (evaluate b rnd policy) = ConsensusIncomplete"
    and approving_sound:
    "approving (cr_Outcome (evaluate b rnd policy)) \<Longrightarrow>
       rejections (decisions (b_Votes b)) < approvals policy (decisions (b_Votes b))"
    and rejecting_sound:
    "rejecting (cr_Outcome (evaluate b rnd policy)) \<Longrightarrow>
       approvals policy (decisions (b_Votes b)) < rejections (decisions (b_Votes b))"
begin

lemma verdict_complete:
  assumes "approving (cr_Outcome (evaluate b rnd policy)) \<or>
    rejecting (cr_Outcome (evaluate b rnd policy))"
  shows "b_Absences b = [] \<and> all_valid (decisions (b_Votes b))"
proof -
  from assms have "cr_Outcome (evaluate b rnd policy) \<noteq> ConsensusIncomplete"
    by (auto simp: approving_def rejecting_def)
  then show ?thesis
    using absent_incomplete invalid_incomplete by metis
qed

lemma verdict_exclusive:
  "\<not> (approving (cr_Outcome (evaluate b r1 policy)) \<and>
      rejecting (cr_Outcome (evaluate b r2 policy)))"
  using approving_sound [of b r1 policy] rejecting_sound [of b r2 policy] by fastforce

end

lemma approvals_full:
  assumes "all_valid ds" and "approvals policy ds = length ds" and "ds \<noteq> []"
  shows "rejections ds < approvals policy ds"
  using tally_partition [OF assms(1), of policy] assms(2,3) by simp

lemma rejections_full:
  assumes "all_valid ds" and "rejections ds = length ds" and "ds \<noteq> []"
  shows "approvals policy ds < rejections ds"
  using tally_partition [OF assms(1), of policy] assms(2,3) by simp

interpretation engine: ballot_evaluator EvaluateBallots
proof (unfold_locales, goal_cases)
  case 1
  then show ?case by (rule EvaluateBallots_absent)
next
  case 2
  then show ?case by (rule EvaluateBallots_not_valid)
next
  case (3 b rnd policy)
  then show ?case
    unfolding EvaluateBallots_outcome approving_def
    using approvals_full [of "decisions (b_Votes b)" policy]
    by (auto simp: outcome_spec_def Let_def split: if_splits)
next
  case (4 b rnd policy)
  then show ?case
    unfolding EvaluateBallots_outcome rejecting_def
    using rejections_full [of "decisions (b_Votes b)" policy]
    by (auto simp: outcome_spec_def Let_def split: if_splits)
qed

section \<open>Properties\<close>

text \<open>C1. The vote counter implements its specification: for every ballot set, round and policy
  the outcome of \<open>EvaluateBallots\<close> is the one \<open>outcome_spec\<close> computes from the cast decisions
  and from whether any expected participant is absent.\<close>

theorem consensus_refines_spec:
  "cr_Outcome (EvaluateBallots b rnd policy) =
     outcome_spec policy (map v_Decision (b_Votes b)) (b_Absences b \<noteq> [])"
  by (rule EvaluateBallots_outcome)

text \<open>C32. A round is decided (anything but INCOMPLETE) exactly when no expected participant is
  absent and every ballot carries a defined decision; no number of approvals makes up for either.\<close>

theorem consensus_incomplete_iff:
  "cr_Outcome (EvaluateBallots b rnd policy) \<noteq> ConsensusIncomplete \<longleftrightarrow>
     b_Absences b = [] \<and> list_all (\<lambda>v. IsValidVoteDecision (v_Decision v)) (b_Votes b)"
  unfolding EvaluateBallots_outcome outcome_spec_not_Incomplete by (auto simp: list_all_iff)

text \<open>Only the multiset of decisions matters: permuting the ballots, or exchanging them for
  ballots with the same decisions, leaves the outcome unchanged.\<close>

lemma consensus_order_irrelevant:
  assumes "mset (map v_Decision (b_Votes b)) = mset (map v_Decision (b_Votes b'))"
    and "b_Absences b = b_Absences b'"
  shows "cr_Outcome (EvaluateBallots b rnd policy) = cr_Outcome (EvaluateBallots b' rnd policy)"
  unfolding EvaluateBallots_outcome assms(2) outcome_spec_mset [OF assms(1)] by (rule refl)

definition sample_vote :: "VoteDecision \<Rightarrow> Vote" where
  "sample_vote d = \<lparr> v_ID = ''v'', v_CaseID = ''case'', v_ExecutionGeneration = 0,
     v_AgentRunID = [], v_Round = 1, v_Decision = d, v_Confidence = 80, v_UtilityScores = [],
     v_KeyClaimIDs = [], v_EvidenceIDs = [], v_ReasoningSummary = [], v_Conditions = [],
     v_CreatedAt = 0 \<rparr>"

abbreviation sample_ballots :: "VoteDecision list \<Rightarrow> BallotSet" where
  "sample_ballots ds \<equiv> \<lparr> b_Votes = map sample_vote ds, b_Absences = [] \<rparr>"

text \<open>An approving outcome is backed by the ballots: nobody is absent, every ballot is valid,
  the counted approvals outnumber the rejections, and the ballots that are not abstentions
  reach the quorum.\<close>

lemma consensus_approval_sound:
  assumes "approving (cr_Outcome (EvaluateBallots b rnd policy))"
  shows "b_Absences b = [] \<and> (\<forall>v \<in> set (b_Votes b). IsValidVoteDecision (v_Decision v)) \<and>
    rejections (map v_Decision (b_Votes b)) < approvals policy (map v_Decision (b_Votes b)) \<and>
    Quorum policy \<le> int (length (b_Votes b)) - int (abstentions policy (map v_Decision (b_Votes b)))"
proof -
  have complete: "b_Absences b = [] \<and> all_valid (decisions (b_Votes b))"
    using engine.verdict_complete assms by blast
  moreover have "rejections (decisions (b_Votes b)) < approvals policy (decisions (b_Votes b))"
    using assms by (rule engine.approving_sound)
  moreover have "Quorum policy \<le>
      int (approvals policy (decisions (b_Votes b))) + int (rejections (decisions (b_Votes b)))"
    using assms unfolding EvaluateBallots_outcome approving_def
    by (auto simp: outcome_spec_def Let_def split: if_splits)
  moreover have "int (approvals policy (decisions (b_Votes b))) + int (rejections (decisions (b_Votes b)))
      = int (length (b_Votes b)) - int (abstentions policy (decisions (b_Votes b)))"
    using complete tally_partition [of "decisions (b_Votes b)" policy] by simp
  ultimately show ?thesis by simp
qed

text \<open>A conditional outcome surfaces exactly the conditions attached to the conditional
  approvals, in ballot order, and every other outcome surfaces none.\<close>

lemma consensus_conditions:
  "cr_Conditions (EvaluateBallots b rnd policy) =
     (if cr_Outcome (EvaluateBallots b rnd policy) = ConsensusConditional
      then concat (map v_Conditions
             (filter (\<lambda>v. v_Decision v = VoteDecisionConditionalApprove) (b_Votes b)))
      else [])"
proof (cases "all_valid (decisions (b_Votes b)) \<and> b_Absences b = [] \<and> b_Votes b \<noteq> []")
  case True
  then show ?thesis
    by (simp add: EvaluateBallots_counted classify_tally_def consensus_result_def Let_def)
next
  case False
  then have "cr_Conditions (EvaluateBallots b rnd policy) = []"
    by (auto simp: EvaluateBallots_def consensus_result_def find_None_iff split: option.splits)
  moreover have "cr_Outcome (EvaluateBallots b rnd policy) \<noteq> ConsensusConditional"
    using False unfolding EvaluateBallots_outcome by (auto simp: outcome_spec_def Let_def)
  ultimately show ?thesis by simp
qed

text \<open>Under the default policy a complete round of three ballots deadlocks exactly when it is
  split one approval, one rejection, one abstention.\<close>

lemma consensus_three_ballot_deadlock:
  assumes "length (b_Votes b) = 3" and "b_Absences b = []"
    and "\<forall>v \<in> set (b_Votes b). IsValidVoteDecision (v_Decision v)"
  shows "cr_Outcome (EvaluateBallots b rnd DefaultConsensusPolicy) = ConsensusDeadlock \<longleftrightarrow>
    approvals DefaultConsensusPolicy (map v_Decision (b_Votes b)) = 1 \<and>
    rejections (map v_Decision (b_Votes b)) = 1 \<and>
    abstentions DefaultConsensusPolicy (map v_Decision (b_Votes b)) = 1"
proof -
  have "approvals DefaultConsensusPolicy (decisions (b_Votes b)) +
      rejections (decisions (b_Votes b)) +
      abstentions DefaultConsensusPolicy (decisions (b_Votes b)) = 3"
    using tally_partition [of "decisions (b_Votes b)" DefaultConsensusPolicy] assms by simp
  then show ?thesis
    using assms unfolding EvaluateBallots_outcome
    by (auto simp: outcome_spec_def Let_def DefaultConsensusPolicy_def)
qed

end
