(* ===== verification/Blueprint.thy ===== *)
theory Blueprint
  imports Entity
begin

text \<open>
  \<^verbatim>\<open>backend/domain/entity/fsm_blueprint.go\<close>: the editable table of legal case-status
  transitions, the action bound to each status, and the path validator. Statuses are strings
  here, as in the blueprint. A violation or unknown action is the offending pair or triple
  instead of its printed form.
\<close>

section \<open>Definitions\<close>

record StateTransition =
  st_From :: string
  st_To :: string
  st_Action :: string

type_synonym FSMBlueprint = "StateTransition list"

definition ActionForStatus :: "string \<Rightarrow> string" where
  "ActionForStatus status =
     (case map_of
        [(status_str CaseStatusDraft, ''start''),
         (status_str CaseStatusNormalizing, ''normalize''),
         (status_str CaseStatusContextBuilding, ''build_context''),
         (status_str CaseStatusRetrievingMemory, ''retrieve_memory''),
         (status_str CaseStatusInvestigating, ''investigate''),
         (status_str CaseStatusEvidenceGating, ''gate_evidence''),
         (status_str CaseStatusCollectingVotes, ''collect_votes''),
         (status_str CaseStatusConsensusCheck, ''check_consensus''),
         (status_str CaseStatusDebating, ''debate''),
         (status_str CaseStatusReflecting, ''reflect''),
         (status_str CaseStatusRevoting, ''revote''),
         (status_str CaseStatusResolving, ''resolve''),
         (status_str CaseStatusGeneratingReport, ''generate_report''),
         (status_str CaseStatusSavingMemory, ''save_memory''),
         (status_str CaseStatusEvaluating, ''evaluate''),
         (status_str CaseStatusResolved, ''complete''),
         (status_str CaseStatusDeadlocked, ''deadlock'')] status
      of Some action \<Rightarrow> action | None \<Rightarrow> [])"

definition transition :: "CaseStatus \<times> CaseStatus \<Rightarrow> StateTransition" where
  "transition p = \<lparr> st_From = status_str (fst p), st_To = status_str (snd p), st_Action = [] \<rparr>"

definition default_edges :: "(CaseStatus \<times> CaseStatus) list" where
  "default_edges =
     [(CaseStatusDraft, CaseStatusNormalizing),
      (CaseStatusNormalizing, CaseStatusContextBuilding),
      (CaseStatusContextBuilding, CaseStatusRetrievingMemory),
      (CaseStatusRetrievingMemory, CaseStatusInvestigating),
      (CaseStatusInvestigating, CaseStatusEvidenceGating),
      (CaseStatusEvidenceGating, CaseStatusCollectingVotes),
      (CaseStatusCollectingVotes, CaseStatusConsensusCheck),
      (CaseStatusConsensusCheck, CaseStatusResolving),
      (CaseStatusConsensusCheck, CaseStatusDebating),
      (CaseStatusConsensusCheck, CaseStatusDeadlocked),
      (CaseStatusDebating, CaseStatusReflecting),
      (CaseStatusReflecting, CaseStatusRevoting),
      (CaseStatusRevoting, CaseStatusConsensusCheck),
      (CaseStatusResolving, CaseStatusGeneratingReport),
      (CaseStatusGeneratingReport, CaseStatusSavingMemory),
      (CaseStatusSavingMemory, CaseStatusEvaluating),
      (CaseStatusEvaluating, CaseStatusResolved),
      (CaseStatusFailed, CaseStatusDraft),
      (CaseStatusTimedOut, CaseStatusDraft),
      (CaseStatusCancelled, CaseStatusDraft),
      (CaseStatusDeadlocked, CaseStatusDraft)]"

definition DefaultFSMBlueprint :: FSMBlueprint where
  "DefaultFSMBlueprint =
     map (\<lambda>t. if st_Action t = [] then t\<lparr> st_Action := ActionForStatus (st_To t) \<rparr> else t)
       (map transition default_edges)"

definition KnownFSMActions :: "string list" where
  "KnownFSMActions =
     [''start'', ''normalize'', ''build_context'', ''retrieve_memory'', ''investigate'',
      ''gate_evidence'', ''collect_votes'', ''check_consensus'', ''debate'', ''reflect'',
      ''revote'', ''resolve'', ''generate_report'', ''save_memory'', ''evaluate'',
      ''complete'', ''deadlock'']"

fun allowed :: "FSMBlueprint \<Rightarrow> string \<Rightarrow> string \<Rightarrow> bool" where
  "allowed [] from to = False"
| "allowed (t # ts) from to = (if st_From t = from \<and> st_To t = to then True else allowed ts from to)"

fun ActionFor :: "FSMBlueprint \<Rightarrow> string \<Rightarrow> string \<Rightarrow> string" where
  "ActionFor [] from to = []"
| "ActionFor (t # ts) from to =
     (if st_From t = from \<and> st_To t = to then st_Action t else ActionFor ts from to)"

definition UnknownActions :: "FSMBlueprint \<Rightarrow> (string \<times> string \<times> string) list" where
  "UnknownActions b =
     map (\<lambda>t. (st_From t, st_To t, st_Action t))
       (filter (\<lambda>t. st_Action t \<noteq> [] \<and> st_Action t \<notin> set KnownFSMActions) b)"

fun ValidatePath :: "FSMBlueprint \<Rightarrow> string list \<Rightarrow> (string \<times> string) list" where
  "ValidatePath b (from # to # path) =
     (if from = to then ValidatePath b (to # path)
      else if \<not> allowed b from to then (from, to) # ValidatePath b (to # path)
      else ValidatePath b (to # path))"
| "ValidatePath b _ = []"

section \<open>Lemmas\<close>

lemma allowed_iff: "allowed b from to \<longleftrightarrow> (\<exists>t \<in> set b. st_From t = from \<and> st_To t = to)"
  by (induction b) auto

lemma ActionFor_in: "ActionFor b from to \<noteq> [] \<Longrightarrow> allowed b from to"
  by (induction b) (auto split: if_splits)

lemma allowed_default:
  "allowed DefaultFSMBlueprint from to \<longleftrightarrow>
     (\<exists>e \<in> set default_edges. status_str (fst e) = from \<and> status_str (snd e) = to)"
  by (auto simp: DefaultFSMBlueprint_def allowed_iff transition_def)

lemma ActionFor_default_map:
  "ActionFor (map (\<lambda>t. if st_Action t = [] then t\<lparr> st_Action := ActionForStatus (st_To t) \<rparr> else t)
      (map transition es)) from to =
   (if \<exists>e \<in> set es. status_str (fst e) = from \<and> status_str (snd e) = to
    then ActionForStatus to else [])"
  by (induction es) (auto simp: transition_def)

lemma ActionFor_default:
  "ActionFor DefaultFSMBlueprint from to =
     (if allowed DefaultFSMBlueprint from to then ActionForStatus to else [])"
  unfolding allowed_default unfolding DefaultFSMBlueprint_def by (rule ActionFor_default_map)

lemma ValidatePath_Nil_iff:
  "ValidatePath b path = [] \<longleftrightarrow> successively (\<lambda>x y. x = y \<or> allowed b x y) path"
  by (induction b path rule: ValidatePath.induct) auto

lemma UnknownActions_Nil_iff:
  "UnknownActions b = [] \<longleftrightarrow> (\<forall>t \<in> set b. st_Action t = [] \<or> st_Action t \<in> set KnownFSMActions)"
  by (auto simp: UnknownActions_def filter_empty_conv)

lemma ActionForStatus_cases:
  "ActionForStatus status = [] \<or> ActionForStatus status \<in> set KnownFSMActions"
  by (simp add: ActionForStatus_def KnownFSMActions_def)

text \<open>The statuses a run can pass through before it first reaches the consensus check.\<close>

definition before_consensus :: "string set" where
  "before_consensus = status_str ` {CaseStatusDraft, CaseStatusNormalizing,
     CaseStatusContextBuilding, CaseStatusRetrievingMemory, CaseStatusInvestigating,
     CaseStatusEvidenceGating, CaseStatusCollectingVotes}"

lemma before_consensus_step:
  assumes "s \<in> before_consensus" and "allowed DefaultFSMBlueprint s s'"
  shows "s' \<in> before_consensus \<or> s' = status_str CaseStatusConsensusCheck"
proof -
  have "\<forall>e \<in> set default_edges. status_str (fst e) \<in> before_consensus \<longrightarrow>
      status_str (snd e) \<in> before_consensus \<or> status_str (snd e) = status_str CaseStatusConsensusCheck"
    by (simp add: default_edges_def before_consensus_def)
  with assms show ?thesis by (auto simp: allowed_default)
qed

lemma before_consensus_path:
  assumes "successively (\<lambda>x y. x = y \<or> allowed DefaultFSMBlueprint x y) path"
    and "path \<noteq> []" and "hd path \<in> before_consensus"
    and "status_str CaseStatusConsensusCheck \<notin> set path"
  shows "set path \<subseteq> before_consensus"
  using assms
proof (induction path rule: induct_list012)
  case (3 x y path)
  then have "x \<in> before_consensus" and "y \<noteq> status_str CaseStatusConsensusCheck"
    and "x = y \<or> allowed DefaultFSMBlueprint x y" by auto
  then have "y \<in> before_consensus" using before_consensus_step by blast
  with 3 show ?case by auto
qed auto

section \<open>Properties\<close>

text \<open>The path validator is exact: it reports no violation if and only if every step of the
  path repeats the status or is a transition of the blueprint.\<close>

lemma ValidatePath_exact:
  "ValidatePath b path = [] \<longleftrightarrow>
     successively (\<lambda>x y. x = y \<or> (\<exists>t \<in> set b. st_From t = x \<and> st_To t = y)) path"
  unfolding ValidatePath_Nil_iff allowed_iff by (rule refl)

text \<open>C33. No shortcut past the vote: a path from DRAFT to RESOLVED that the default blueprint
  accepts goes through CONSENSUS\_CHECK.\<close>

theorem default_blueprint_consensus_unavoidable:
  assumes "ValidatePath DefaultFSMBlueprint path = []"
    and "path \<noteq> []" and "hd path = status_str CaseStatusDraft"
    and "last path = status_str CaseStatusResolved"
  shows "status_str CaseStatusConsensusCheck \<in> set path"
proof (rule ccontr)
  assume "status_str CaseStatusConsensusCheck \<notin> set path"
  moreover have "hd path \<in> before_consensus"
    using assms(3) by (simp add: before_consensus_def)
  ultimately have "set path \<subseteq> before_consensus"
    using before_consensus_path assms(1,2) ValidatePath_Nil_iff by blast
  with assms(2) have "last path \<in> before_consensus" by auto
  with assms(4) show False by (simp add: before_consensus_def)
qed

theorem default_blueprint_consensus_unavoidable_witness:
  "status_str CaseStatusConsensusCheck \<in> set (map status_str
     [CaseStatusDraft, CaseStatusNormalizing, CaseStatusContextBuilding,
      CaseStatusRetrievingMemory, CaseStatusInvestigating, CaseStatusEvidenceGating,
      CaseStatusCollectingVotes, CaseStatusConsensusCheck, CaseStatusResolving,
      CaseStatusGeneratingReport, CaseStatusSavingMemory, CaseStatusEvaluating,
      CaseStatusResolved])"
  by (rule default_blueprint_consensus_unavoidable)
    (simp_all add: ValidatePath_Nil_iff allowed_default default_edges_def)

text \<open>The default blueprint declares only actions the orchestrator supports, and for each of
  its transitions the action is the one bound to the target status.\<close>

lemma default_blueprint_actions:
  "UnknownActions DefaultFSMBlueprint = [] \<and>
   ActionFor DefaultFSMBlueprint from to =
     (if allowed DefaultFSMBlueprint from to then ActionForStatus to else [])"
proof
  show "UnknownActions DefaultFSMBlueprint = []"
    unfolding UnknownActions_Nil_iff DefaultFSMBlueprint_def
    using ActionForStatus_cases by (auto simp: transition_def)
qed (rule ActionFor_default)

end
