(* ===== verification/Effects.thy ===== *)
theory Effects
  imports Services Consensus Blueprint
begin

text \<open>
  The ports of the orchestrator (\<^verbatim>\<open>backend/domain/port\<close>) as explicit effects. A call to a port
  appends one \<open>effect\<close> to the log of the run; what the port answers is a parameter: a function of
  the log so far and of the call, a field of \<open>Env\<close>. So every theorem about the orchestrator holds
  for every behaviour of databases, event brokers, agents and models, failures at any point
  included.

  The optional capabilities of a repository (the Go type assertions) are flags of \<open>RepoCaps\<close> and
  \<open>CaseRepoCaps\<close>; a nil repository is \<^term>\<open>None\<close> and has no capability. An action is a function
  from a state to a result and a state, composed by \<open>bindE\<close>, which stops at the first error.
\<close>

section \<open>Events and artifacts\<close>

datatype EventType =
    EventCaseStatusChanged | EventTaskNormalized | EventMemoryRetrieved | EventMemoryRetrievalFailed
  | EventAgentStarted | EventEvidenceGatePassed | EventVoteSubmitted | EventConsensusEvaluated
  | EventDebateStarted | EventReflectionSubmitted | EventRevoteSubmitted | EventResolutionCreated
  | EventCaseCompleted | EventCaseFailed | EventTypeOther string

text \<open>The payload maps of the published events, one constructor per shape.\<close>

datatype payload =
    PNil
  | PQuestion string
  | PRound int
  | PVotes int nat "string option"
  | POutcome ConsensusOutcome int
  | PFinalDecision VoteDecision
  | PStatus CaseStatus
  | PStatusRound CaseStatus int
  | PDeadlock CaseStatus int
  | PError string

text \<open>The identifier (clock and process counter), sequence and time of an event are not modelled.\<close>

record MagiEvent =
  me_CaseID :: string
  me_ExecutionGeneration :: int64
  me_Type :: EventType
  me_Payload :: payload

definition NewEvent :: "string \<Rightarrow> EventType \<Rightarrow> payload \<Rightarrow> MagiEvent" where
  "NewEvent caseID et p =
     \<lparr> me_CaseID = caseID, me_ExecutionGeneration = 0, me_Type = et, me_Payload = p \<rparr>"

datatype artifact =
    AAgentRun AgentRun | AEvidence EvidenceRecord | AClaim Claim | AVote Vote
  | ADebateRound DebateRound | AReflection Reflection | AToolCall ToolCall

fun artifact_generation :: "artifact \<Rightarrow> int64" where
  "artifact_generation (AAgentRun v) = ar_ExecutionGeneration v"
| "artifact_generation (AEvidence v) = e_ExecutionGeneration v"
| "artifact_generation (AClaim v) = cl_ExecutionGeneration v"
| "artifact_generation (AVote v) = v_ExecutionGeneration v"
| "artifact_generation (ADebateRound v) = dr_ExecutionGeneration v"
| "artifact_generation (AReflection v) = rf_ExecutionGeneration v"
| "artifact_generation (AToolCall v) = tc_ExecutionGeneration v"

fun artifact_case :: "artifact \<Rightarrow> string" where
  "artifact_case (AAgentRun v) = ar_CaseID v"
| "artifact_case (AEvidence v) = e_CaseID v"
| "artifact_case (AClaim v) = cl_CaseID v"
| "artifact_case (AVote v) = v_CaseID v"
| "artifact_case (ADebateRound v) = dr_CaseID v"
| "artifact_case (AReflection v) = rf_CaseID v"
| "artifact_case (AToolCall v) = tc_CaseID v"

section \<open>Effects\<close>

datatype effect =
    FxCreateOwned ExecutionContext artifact
  | FxCreate artifact
  | FxCreateResolution Resolution
  | FxCommitStatusOwned ExecutionContext "CaseStatus list" CaseStatus MagiEvent
  | FxCommitStatus string "CaseStatus list" CaseStatus MagiEvent
  | FxUpdateStatusIfCurrent string "CaseStatus list" CaseStatus
  | FxUpdateStatus string CaseStatus
  | FxCommitTerminalOwned ExecutionContext CaseStatus CaseStatus "Resolution option" MagiEvent
  | FxCommitTerminal string CaseStatus CaseStatus "Resolution option" MagiEvent
  | FxPublish MagiEvent
  | FxPublishLive MagiEvent
  | FxUpdateTask string DecisionTask
  | FxGetResolution string
  | FxExecutionSettled ExecutionContext
  | FxListVotes string
  | FxListEvidence string
  | FxListClaims string
  | FxRunAgent string AgentContext
  | FxNormalize string
  | FxReport string
  | FxBindings int64
  | FxRetrieve "string list"
  | FxStoreMemory CaseMemoryProjection
  | FxSaveMemory CaseMemoryProjection

type_synonym log = "effect list"

section \<open>The environment\<close>

record RepoCaps =
  rc_OwnedArtifacts :: bool
  rc_OwnedCommitter :: bool
  rc_TerminalCommitter :: bool
  rc_StatusCommitter :: bool
  rc_SettlementReader :: bool
  rc_NonAtomic :: bool
  rc_RequiresOwner :: bool

record CaseRepoCaps =
  cc_Conditional :: bool
  cc_NonAtomic :: bool
  cc_RequiresOwner :: bool

record Env =
  n_repo :: "RepoCaps option"
  n_caseRepo :: "CaseRepoCaps option"
  n_eventPub :: bool
  n_live :: bool
  n_knowledge :: bool
  n_memRepo :: bool
  n_contextBuilder :: bool
  n_builderKnowledge :: bool
  n_builderEvents :: bool
  n_bindingsProvider :: bool
  n_now :: timestamp
  a_write :: "log \<Rightarrow> effect \<Rightarrow> goerr option"
  a_commit :: "log \<Rightarrow> effect \<Rightarrow> goerr + bool"
  a_resolution :: "log \<Rightarrow> string \<Rightarrow> goerr + Resolution option"
  a_votes :: "log \<Rightarrow> string \<Rightarrow> goerr + Vote list"
  a_evidence :: "log \<Rightarrow> string \<Rightarrow> goerr + EvidenceRecord list"
  a_claims :: "log \<Rightarrow> string \<Rightarrow> goerr + Claim list"
  a_run :: "log \<Rightarrow> MagiConfig \<Rightarrow> AgentContext \<Rightarrow> LoopResult option"
  a_modelBuild :: "log \<Rightarrow> goerr option"
  a_generate :: "log \<Rightarrow> nat \<Rightarrow> goerr + string"
  a_decodeTask :: "string \<Rightarrow> DecisionTask option"
  a_decodeReport :: "string \<Rightarrow> FinalReportData option"
  a_bindings :: "log \<Rightarrow> int64 \<Rightarrow> goerr + ToolBinding list"
  a_retrieve :: "log \<Rightarrow> string list \<Rightarrow> goerr + (string \<times> string) list"

definition repo_cap :: "Env \<Rightarrow> (RepoCaps \<Rightarrow> bool) \<Rightarrow> bool" where
  "repo_cap env f = (case n_repo env of None \<Rightarrow> False | Some r \<Rightarrow> f r)"

definition case_cap :: "Env \<Rightarrow> (CaseRepoCaps \<Rightarrow> bool) \<Rightarrow> bool" where
  "case_cap env f = (case n_caseRepo env of None \<Rightarrow> False | Some r \<Rightarrow> f r)"

section \<open>The working state of a run\<close>

text \<open>\<^verbatim>\<open>orchestration.State\<close>, with the case and the log beside it.\<close>

record State =
  ss_MaxDebate :: int
  ss_Execution :: "ExecutionContext option"
  ss_Task :: "DecisionTask option"
  ss_Results :: "LoopResult list"
  ss_Votes :: "Vote option list"
  ss_Absences :: "AgentAbsence list"
  ss_ConsResult :: ConsensusResult
  ss_Resolution :: "Resolution option"
  ss_AllRemaps :: "ArtifactRemap list"
  ss_Round :: int

record World =
  w_log :: log
  w_case :: DecisionCase
  w_st :: State

section \<open>Actions\<close>

type_synonym 'a act = "World \<Rightarrow> (goerr + 'a) \<times> World"

definition returnE :: "'a \<Rightarrow> 'a act" where
  "returnE x w = (Inr x, w)"

definition throwE :: "goerr \<Rightarrow> 'a act" where
  "throwE e w = (Inl e, w)"

definition bindE :: "'a act \<Rightarrow> ('a \<Rightarrow> 'b act) \<Rightarrow> 'b act" where
  "bindE m k w = (case m w of (Inl e, w') \<Rightarrow> (Inl e, w') | (Inr x, w') \<Rightarrow> k x w')"

text \<open>An error that the code does not look at.\<close>

definition ignoreE :: "unit act \<Rightarrow> unit act" where
  "ignoreE m w = (Inr (), snd (m w))"

text \<open>\<^verbatim>\<open>fmt.Errorf("...: %w", err)\<close>.\<close>

definition wrapE :: "string \<Rightarrow> 'a act \<Rightarrow> 'a act" where
  "wrapE s m w = (case m w of (Inl e, w') \<Rightarrow> (Inl (Wrapf s e), w') | (Inr x, w') \<Rightarrow> (Inr x, w'))"

fun eachE :: "('a \<Rightarrow> unit act) \<Rightarrow> 'a list \<Rightarrow> unit act" where
  "eachE f [] = returnE ()"
| "eachE f (x # xs) = bindE (f x) (\<lambda>_. eachE f xs)"

definition getCase :: "DecisionCase act" where
  "getCase w = (Inr (w_case w), w)"

definition getSt :: "State act" where
  "getSt w = (Inr (w_st w), w)"

definition modifySt :: "(State \<Rightarrow> State) \<Rightarrow> unit act" where
  "modifySt f w = (Inr (), w\<lparr> w_st := f (w_st w) \<rparr>)"

definition setStatus :: "CaseStatus \<Rightarrow> unit act" where
  "setStatus s w = (Inr (), w\<lparr> w_case := (w_case w)\<lparr> c_Status := s \<rparr> \<rparr>)"

definition tick :: "effect \<Rightarrow> World \<Rightarrow> World" where
  "tick fx w = w\<lparr> w_log := w_log w @ [fx] \<rparr>"

definition callWrite :: "Env \<Rightarrow> effect \<Rightarrow> unit act" where
  "callWrite env fx w =
     ((case a_write env (w_log w) fx of None \<Rightarrow> Inr () | Some e \<Rightarrow> Inl e), tick fx w)"

definition callCommit :: "Env \<Rightarrow> effect \<Rightarrow> bool act" where
  "callCommit env fx w = (a_commit env (w_log w) fx, tick fx w)"

text \<open>A read: the answer is computed from the log before the call.\<close>

definition callRead :: "effect \<Rightarrow> (log \<Rightarrow> goerr + 'a) \<Rightarrow> 'a act" where
  "callRead fx f w = (f (w_log w), tick fx w)"

section \<open>Triples\<close>

text \<open>
  \<open>triple P m Q\<close>: from a state satisfying P the action ends with a result and a state satisfying Q.
  The rules of the collection \<open>triple_rules\<close> follow the structure of an action.
\<close>

definition triple :: "(World \<Rightarrow> bool) \<Rightarrow> 'a act \<Rightarrow> (goerr + 'a \<Rightarrow> World \<Rightarrow> bool) \<Rightarrow> bool" where
  "triple P m Q \<longleftrightarrow> (\<forall>w. P w \<longrightarrow> (case m w of (r, w') \<Rightarrow> Q r w'))"

named_theorems triple_rules \<open>rules that decompose a triple along the action\<close>

lemma tripleD: "triple P m Q \<Longrightarrow> P w \<Longrightarrow> m w = (r, w') \<Longrightarrow> Q r w'"
  by (auto simp: triple_def)

lemma triple_conseq:
  "triple P' m Q' \<Longrightarrow> (\<And>w. P w \<Longrightarrow> P' w) \<Longrightarrow> (\<And>r w. Q' r w \<Longrightarrow> Q r w) \<Longrightarrow> triple P m Q"
  by (fastforce simp: triple_def split: prod.splits)

lemma triple_bind:
  "triple P m (\<lambda>r w. case r of Inl e \<Rightarrow> Q (Inl e) w | Inr x \<Rightarrow> R x w) \<Longrightarrow> (\<And>x. triple (R x) (k x) Q) \<Longrightarrow>
     triple P (bindE m k) Q"
  by (fastforce simp: triple_def bindE_def split: prod.splits sum.splits)

text \<open>An invariant of the state that the action keeps, whatever it returns.\<close>

definition keeps :: "(World \<Rightarrow> bool) \<Rightarrow> 'a act \<Rightarrow> bool" where
  "keeps I m \<longleftrightarrow> (\<forall>w. I w \<longrightarrow> I (snd (m w)))"

named_theorems keeps_rules \<open>rules that decompose an invariant along the action\<close>

lemma keepsD: "keeps I m \<Longrightarrow> I w \<Longrightarrow> m w = (r, w') \<Longrightarrow> I w'"
  by (metis keeps_def snd_conv)

lemma keeps_return [keeps_rules]: "keeps I (returnE x)"
  by (simp add: keeps_def returnE_def)

lemma keeps_throw [keeps_rules]: "keeps I (throwE e)"
  by (simp add: keeps_def throwE_def)

lemma keeps_bind [keeps_rules]: "keeps I m \<Longrightarrow> (\<And>x. keeps I (k x)) \<Longrightarrow> keeps I (bindE m k)"
  by (fastforce simp: keeps_def bindE_def split: prod.splits sum.splits)

lemma keeps_ignore [keeps_rules]: "keeps I m \<Longrightarrow> keeps I (ignoreE m)"
  by (simp add: keeps_def ignoreE_def)

lemma keeps_wrap [keeps_rules]: "keeps I m \<Longrightarrow> keeps I (wrapE s m)"
  by (fastforce simp: keeps_def wrapE_def split: prod.splits sum.splits)

lemma keeps_each [keeps_rules]: "(\<And>x. x \<in> set xs \<Longrightarrow> keeps I (f x)) \<Longrightarrow> keeps I (eachE f xs)"
  by (induction xs) (auto intro: keeps_rules)

lemma keeps_get [keeps_rules]: "keeps I getCase" "keeps I getSt"
  by (simp_all add: keeps_def getCase_def getSt_def)

lemma keeps_if [keeps_rules]: "(b \<Longrightarrow> keeps I m) \<Longrightarrow> (\<not> b \<Longrightarrow> keeps I n) \<Longrightarrow> keeps I (if b then m else n)"
  by simp

lemma keeps_option [keeps_rules]:
  "(x = None \<Longrightarrow> keeps I m) \<Longrightarrow> (\<And>y. x = Some y \<Longrightarrow> keeps I (n y)) \<Longrightarrow> keeps I (case x of None \<Rightarrow> m | Some y \<Rightarrow> n y)"
  by (cases x) simp_all

lemma keeps_prod [keeps_rules]: "(\<And>a b. p = (a, b) \<Longrightarrow> keeps I (f a b)) \<Longrightarrow> keeps I (case p of (a, b) \<Rightarrow> f a b)"
  by (cases p) simp

lemma keeps_Let [keeps_rules]: "(\<And>x. x = e \<Longrightarrow> keeps I (f x)) \<Longrightarrow> keeps I (Let e f)"
  by simp

end
