(* ===== verification/Persist.thy ===== *)
theory Persist
  imports Effects
begin

text \<open>
  The persistence half of \<^verbatim>\<open>backend/domain/orchestration/orchestrator.go\<close>: fenced status transitions
  (\<open>advanceStatus\<close>), the terminal commit with its fallbacks (\<open>commitTerminal\<close>,
  \<open>verifyResolutionArtifacts\<close>), the authoritative artifact writes (\<open>persistArtifactValue\<close>,
  \<open>persistArtifact\<close>, \<open>persistArtifacts\<close>) and the failure path (\<open>fail\<close>). Metrics and log lines of
  these functions have no effect on the run and are left out.
\<close>

section \<open>Publishing\<close>

definition publish :: "Env \<Rightarrow> EventType \<Rightarrow> payload \<Rightarrow> unit act" where
  "publish env et p =
     (if n_eventPub env
      then bindE getCase (\<lambda>c. callWrite env (FxPublish (NewEvent (c_ID c) et p)))
      else returnE ())"

definition publishLive :: "Env \<Rightarrow> MagiEvent \<Rightarrow> unit act" where
  "publishLive env ev =
     (if n_eventPub env \<and> n_live env then ignoreE (callWrite env (FxPublishLive ev)) else returnE ())"

section \<open>Ownership\<close>

definition owner_matches :: "ExecutionContext option \<Rightarrow> DecisionCase \<Rightarrow> bool" where
  "owner_matches owner c =
     (IsDurable owner \<and>
      (case owner of None \<Rightarrow> False
       | Some x \<Rightarrow> x_CaseID x = c_ID c \<and> x_ExecutionGeneration x = c_ExecutionGeneration c))"

definition fenced :: "ExecutionContext option \<Rightarrow> DecisionCase \<Rightarrow> bool" where
  "fenced owner c =
     (c_ExecutionGeneration c > 0 \<or>
      (case owner of None \<Rightarrow> False | Some x \<Rightarrow> x_ExecutionGeneration x > 0))"

section \<open>Resolution references\<close>

fun require_loop :: "string \<Rightarrow> string list \<Rightarrow> string list \<Rightarrow> string list \<Rightarrow> string list \<Rightarrow> goerr + string list" where
  "require_loop kind present seen missing [] = Inr missing"
| "require_loop kind present seen missing (i # cited) =
     (if i = [] then Inl (Errorf (''resolution cites an empty '' @ kind @ '' id''))
      else if i \<in> set seen then require_loop kind present seen missing cited
      else require_loop kind present (i # seen)
             (if i \<in> set present then missing else missing @ [i]) cited)"

definition requireAllPresent :: "string \<Rightarrow> string list \<Rightarrow> string list \<Rightarrow> goerr option" where
  "requireAllPresent kind cited present =
     (case require_loop kind present [] [] cited of
        Inl e \<Rightarrow> Some e
      | Inr missing \<Rightarrow>
          if length missing > 0
          then Some (Errorf (''resolution cites '' @ itoa (int (length missing)) @ '' unpersisted '' @ kind @
                 '' id(s): '' @ join_with '', '' missing))
          else None)"

definition liftErr :: "goerr option \<Rightarrow> unit act" where
  "liftErr e = (case e of None \<Rightarrow> returnE () | Some x \<Rightarrow> throwE x)"

definition verify_kind ::
    "string \<Rightarrow> string list \<Rightarrow> 'a list act \<Rightarrow> ('a \<Rightarrow> int64) \<Rightarrow> ('a \<Rightarrow> string) \<Rightarrow> int64 \<Rightarrow> unit act" where
  "verify_kind kind cited rows gen rowID generation =
     (if length cited > 0
      then bindE rows (\<lambda>vs. liftErr (requireAllPresent kind cited
             (map rowID (filter (\<lambda>v. gen v = generation) vs))))
      else returnE ())"

definition verifyResolutionArtifacts :: "Env \<Rightarrow> Resolution option \<Rightarrow> unit act" where
  "verifyResolutionArtifacts env ro =
     (case ro of None \<Rightarrow> returnE ()
      | Some res \<Rightarrow>
         bindE (verify_kind ''vote'' (r_VoteIDs res)
                  (wrapE ''verify resolution votes''
                     (callRead (FxListVotes (r_CaseID res)) (\<lambda>l. a_votes env l (r_CaseID res))))
                  v_ExecutionGeneration v_ID (r_ExecutionGeneration res)) (\<lambda>_.
         bindE (verify_kind ''evidence'' (r_KeyEvidenceIDs res)
                  (wrapE ''verify resolution evidence''
                     (callRead (FxListEvidence (r_CaseID res)) (\<lambda>l. a_evidence env l (r_CaseID res))))
                  e_ExecutionGeneration e_ID (r_ExecutionGeneration res)) (\<lambda>_.
         verify_kind ''claim'' (r_KeyClaimIDs res)
                  (wrapE ''verify resolution claims''
                     (callRead (FxListClaims (r_CaseID res)) (\<lambda>l. a_claims env l (r_CaseID res))))
                  cl_ExecutionGeneration cl_ID (r_ExecutionGeneration res))))"

section \<open>Status transitions\<close>

definition confirmCurrentStatus :: "Env \<Rightarrow> CaseStatus \<Rightarrow> CaseStatus \<Rightarrow> unit act" where
  "confirmCurrentStatus env expected target =
     (if n_caseRepo env = None then returnE ()
      else bindE getCase (\<lambda>c.
        if case_cap env cc_Conditional
        then bindE (callCommit env (FxUpdateStatusIfCurrent (c_ID c) [expected] target))
               (\<lambda>updated. if \<not> updated then throwE ErrLeaseLost else returnE ())
        else callWrite env (FxUpdateStatus (c_ID c) target)))"

definition allowed_sources :: "CaseStatus list \<Rightarrow> CaseStatus list" where
  "allowed_sources src =
     concat (map (\<lambda>s. if s \<in> {CaseStatusCancelled, CaseStatusFailed, CaseStatusTimedOut} then []
                      else if s = CaseStatusDraft then [s, CaseStatusZero] else [s]) src)"

definition advanceStatus ::
    "Env \<Rightarrow> CaseStatus list \<Rightarrow> CaseStatus \<Rightarrow> int \<Rightarrow> ExecutionContext option \<Rightarrow> unit act" where
  "advanceStatus env src dst rnd owner =
     (let permitted = allowed_sources src
      in if length permitted = 0 then throwE ErrLeaseLost
         else bindE getCase (\<lambda>c.
           let event = NewEvent (c_ID c) EventCaseStatusChanged (PStatusRound dst rnd)
           in if fenced owner c then
                (case owner of
                   None \<Rightarrow> throwE ErrLeaseLost
                 | Some x \<Rightarrow>
                    if \<not> repo_cap env rc_OwnedCommitter \<or> \<not> owner_matches owner c then throwE ErrLeaseLost
                    else let ev = event\<lparr> me_ExecutionGeneration := x_ExecutionGeneration x \<rparr>
                         in bindE (callCommit env (FxCommitStatusOwned x permitted dst ev)) (\<lambda>committed.
                              if \<not> committed then throwE ErrLeaseLost
                              else bindE (setStatus dst) (\<lambda>_. publishLive env ev)))
              else if repo_cap env rc_StatusCommitter then
                bindE (callCommit env (FxCommitStatus (c_ID c) permitted dst event)) (\<lambda>committed.
                  if \<not> committed then throwE ErrLeaseLost
                  else bindE (setStatus dst) (\<lambda>_. publishLive env event))
              else
                bindE (if n_caseRepo env = None then returnE ()
                       else if case_cap env cc_Conditional
                       then bindE (callCommit env (FxUpdateStatusIfCurrent (c_ID c) permitted dst))
                              (\<lambda>updated. if \<not> updated then throwE ErrLeaseLost else returnE ())
                       else callWrite env (FxUpdateStatus (c_ID c) dst))
                  (\<lambda>_. bindE (setStatus dst)
                  (\<lambda>_. publish env EventCaseStatusChanged (PStatusRound dst rnd)))))"

section \<open>Terminal commit\<close>

definition isNormalTerminal :: "CaseStatus \<Rightarrow> bool" where
  "isNormalTerminal s = (s = CaseStatusResolved \<or> s = CaseStatusDeadlocked)"

definition terminalCompletionEvent :: "DecisionCase \<Rightarrow> CaseStatus \<Rightarrow> State \<Rightarrow> MagiEvent" where
  "terminalCompletionEvent c target st =
     NewEvent (c_ID c) EventCaseCompleted
       (if target = CaseStatusDeadlocked then PDeadlock target (ss_Round st) else PStatus target)"

text \<open>The path without a transaction: references first, then status, resolution and event.\<close>

definition commit_non_atomic ::
    "Env \<Rightarrow> CaseStatus \<Rightarrow> CaseStatus \<Rightarrow> Resolution option \<Rightarrow> MagiEvent \<Rightarrow> unit act" where
  "commit_non_atomic env expected target resolution event =
     bindE (verifyResolutionArtifacts env resolution) (\<lambda>_.
     bindE (confirmCurrentStatus env expected target) (\<lambda>_.
     bindE (case resolution of None \<Rightarrow> returnE ()
            | Some res \<Rightarrow> wrapE ''persist resolution'' (callWrite env (FxCreateResolution res))) (\<lambda>_.
     publish env (me_Type event) (me_Payload event))))"

definition commitTerminal ::
    "Env \<Rightarrow> CaseStatus \<Rightarrow> CaseStatus \<Rightarrow> Resolution option \<Rightarrow> MagiEvent \<Rightarrow> ExecutionContext option \<Rightarrow> unit act" where
  "commitTerminal env expected target resolution event owner =
     bindE getCase (\<lambda>c.
       if fenced owner c then
         (case owner of
            None \<Rightarrow> throwE ErrLeaseLost
          | Some x \<Rightarrow>
             if \<not> repo_cap env rc_OwnedCommitter \<or> \<not> owner_matches owner c then throwE ErrLeaseLost
             else let ev = event\<lparr> me_ExecutionGeneration := x_ExecutionGeneration x \<rparr>
                  in bindE (callCommit env (FxCommitTerminalOwned x expected target resolution ev)) (\<lambda>committed.
                       if \<not> committed then throwE ErrLeaseLost else publishLive env ev))
       else if repo_cap env rc_TerminalCommitter then
         bindE (callCommit env (FxCommitTerminal (c_ID c) expected target resolution event)) (\<lambda>committed.
           if \<not> committed then throwE ErrLeaseLost
           else if n_eventPub env \<and> n_live env then publishLive env event
           else ignoreE (publish env (me_Type event) (me_Payload event)))
       else (case n_repo env of
           None \<Rightarrow>
            (case n_caseRepo env of
               None \<Rightarrow> returnE ()
             | Some cr \<Rightarrow>
                if \<not> cc_NonAtomic cr
                then throwE (Errorf (''terminal commit for case '' @ c_ID c @
                  '' has a case repository but no aggregate repository; refusing to advance the status without an atomic commit''))
                else confirmCurrentStatus env expected target)
         | Some r \<Rightarrow>
            if \<not> rc_NonAtomic r
            then throwE (Errorf (''terminal commit for case '' @ c_ID c @
              '' requires an atomic TerminalCommitter; refusing to commit the outcome non-atomically''))
            else commit_non_atomic env expected target resolution event))"

section \<open>Failure\<close>

definition isPublicTerminalCaseStatus :: "CaseStatus \<Rightarrow> bool" where
  "isPublicTerminalCaseStatus s =
     (s \<in> {CaseStatusResolved, CaseStatusMemoryIndexed, CaseStatusFailed, CaseStatusCancelled,
           CaseStatusTimedOut, CaseStatusInsufficientEv, CaseStatusDeadlocked})"

definition fail :: "Env \<Rightarrow> goerr \<Rightarrow> 'a act" where
  "fail env cause =
     bindE getCase (\<lambda>c.
       if isPublicTerminalCaseStatus (c_Status c) then
         (if c_ExecutionAttempt c > 0 \<or> c_ExecutionGeneration c > 0 then throwE cause else throwE ErrLeaseLost)
       else if c_ExecutionAttempt c > 0 \<or> c_ExecutionGeneration c > 0 then throwE cause
       else bindE (commitTerminal env (c_Status c) CaseStatusFailed None
                    (NewEvent (c_ID c) EventCaseFailed (PStatus CaseStatusFailed)) None) (\<lambda>_.
            bindE (setStatus CaseStatusFailed) (\<lambda>_. throwE cause)))"

section \<open>Artifact writes\<close>

definition persistArtifactValue :: "Env \<Rightarrow> ExecutionContext option \<Rightarrow> artifact \<Rightarrow> unit act" where
  "persistArtifactValue env execution value =
     (if n_repo env = None then returnE ()
      else case (if IsDurable execution then execution else None) of
             Some x \<Rightarrow> if \<not> repo_cap env rc_OwnedArtifacts then throwE ErrLeaseLost
                       else callWrite env (FxCreateOwned x value)
           | None \<Rightarrow> if artifact_generation value > 0 then throwE ErrLeaseLost
                     else callWrite env (FxCreate value))"

definition persistArtifact :: "ExecutionContext option \<Rightarrow> unit act \<Rightarrow> unit act" where
  "persistArtifact owner write w =
     (case write w of
        (Inr _, w') \<Rightarrow> (Inr (), w')
      | (Inl e, w') \<Rightarrow>
          if err_is e ErrLeaseLost then (Inl ErrLeaseLost, w')
          else if IsDurable owner then (Inl e, w') else (Inr (), w'))"

abbreviation persist :: "Env \<Rightarrow> ExecutionContext option \<Rightarrow> artifact \<Rightarrow> unit act" where
  "persist env execution value \<equiv> persistArtifact execution (persistArtifactValue env execution value)"

definition configAt :: "MagiConfig list \<Rightarrow> nat \<Rightarrow> MagiConfig option" where
  "configAt configs i = nth_opt configs i"

definition codeOf :: "MagiConfig option \<Rightarrow> MagiCode" where
  "codeOf c = (case c of None \<Rightarrow> [] | Some cfg \<Rightarrow> mc_Code cfg)"

fun agentRunStatus :: "LoopStatus \<Rightarrow> AgentRunStatus" where
  "agentRunStatus LoopStatusCompleted = AgentRunStatusCompleted"
| "agentRunStatus LoopStatusMaxSteps = AgentRunStatusMaxSteps"
| "agentRunStatus LoopStatusCancelled = AgentRunStatusCancelled"
| "agentRunStatus _ = AgentRunStatusFailed"

definition errStr :: "goerr option \<Rightarrow> string" where
  "errStr e = (case e of None \<Rightarrow> [] | Some x \<Rightarrow> err_str x)"

definition remapRefs :: "string list \<Rightarrow> (string, string) gomap \<Rightarrow> string list" where
  "remapRefs refs m = map (\<lambda>r. case map_of m r of Some n \<Rightarrow> n | None \<Rightarrow> r) refs"

definition milliseconds :: "int \<Rightarrow> int" where
  "milliseconds d = (if d < 0 then - ((- d) div 1000000) else d div 1000000)"

definition run_record ::
    "Env \<Rightarrow> DecisionCase \<Rightarrow> MagiConfig \<Rightarrow> LoopResult \<Rightarrow> int \<Rightarrow> string \<Rightarrow> AgentRun" where
  "run_record env c cfg r rnd phase =
     \<lparr> ar_ID = executionRunID (c_ID c) (mc_Code cfg) (c_ExecutionGeneration c) rnd phase,
       ar_CaseID = c_ID c, ar_ExecutionGeneration = c_ExecutionGeneration c, ar_MagiConfigID = [],
       ar_MagiCode = mc_Code cfg, ar_Round = rnd, ar_Status = agentRunStatus (lr_Status r),
       ar_StartedAt = n_now env, ar_CompletedAt = Some (n_now env), ar_Usage = lr_Usage r,
       ar_Err = errStr (lr_Err r),
       ar_Environment = Some \<lparr> re_ModelName = mr_ModelName (mc_Model cfg), re_ModelBaseURL = mr_BaseURL (mc_Model cfg),
         re_Tools = map (\<lambda>tb. tool_source_str (tb_Source tb) @ '':'' @ tb_ToolName tb) (mc_Tools cfg),
         re_KnowledgeIndex = n_knowledge env, re_ConfigVersion = mc_Version cfg \<rparr> \<rparr>"

definition evidence_copy :: "DecisionCase \<Rightarrow> string \<Rightarrow> EvidenceRecord \<Rightarrow> EvidenceRecord" where
  "evidence_copy c runID ev =
     ev\<lparr> e_ID := runID @ ''-'' @ e_ID ev, e_CaseID := c_ID c,
         e_ExecutionGeneration := c_ExecutionGeneration c, e_AgentRunID := runID \<rparr>"

definition claim_copy :: "DecisionCase \<Rightarrow> string \<Rightarrow> ArtifactRemap \<Rightarrow> Claim \<Rightarrow> Claim" where
  "claim_copy c runID m cl =
     cl\<lparr> cl_ID := (case map_of (rm_claims m) (cl_ID cl) of None \<Rightarrow> [] | Some n \<Rightarrow> n), cl_CaseID := c_ID c,
         cl_ExecutionGeneration := c_ExecutionGeneration c, cl_AgentRunID := runID,
         cl_Supports := remapRefs (cl_Supports cl) (rm_evidence m),
         cl_Contradicts := remapRefs (cl_Contradicts cl) (rm_claims m) \<rparr>"

definition toolcall_row ::
    "Env \<Rightarrow> DecisionCase \<Rightarrow> string \<Rightarrow> ArtifactRemap \<Rightarrow> nat \<Rightarrow> ToolCallRecord \<Rightarrow> ToolCall" where
  "toolcall_row env c runID m idx tc =
     \<lparr> tc_ID = runID @ ''-tc'' @ itoa (int idx), tc_CaseID = c_ID c,
       tc_ExecutionGeneration = c_ExecutionGeneration c, tc_AgentRunID = runID,
       tc_ToolCallID = tcr_ToolCallID tc, tc_ToolName = tcr_ToolName tc, tc_Arguments = tcr_Arguments tc,
       tc_Valid = tcr_Valid tc, tc_Result = tcr_Result tc, tc_Err = tcr_Err tc, tc_ApprovedBy = tcr_ApprovedBy tc,
       tc_EvidenceID = (case map_of (rm_evidence m) (tcr_EvidenceID tc) of Some n \<Rightarrow> n | None \<Rightarrow> tcr_EvidenceID tc),
       tc_DurationMs = milliseconds (tcr_Duration tc), tc_CreatedAt = n_now env \<rparr>"

text \<open>The artifacts of one agent in the order they are written, and the remap after them.\<close>

definition remap_ledger :: "string \<Rightarrow> EvidenceLedger option \<Rightarrow> ArtifactRemap \<Rightarrow> ArtifactRemap" where
  "remap_ledger runID lo m =
     (case lo of None \<Rightarrow> m
      | Some l \<Rightarrow> fold (\<lambda>cl. AddClaim (cl_ID cl) (runID @ ''-'' @ cl_ID cl)) (ListClaims l)
                   (fold (\<lambda>ev. AddEvidence (e_ID ev) (runID @ ''-'' @ e_ID ev)) (Ledger_List l) m))"

definition agent_artifacts ::
    "Env \<Rightarrow> DecisionCase \<Rightarrow> MagiConfig \<Rightarrow> LoopResult \<Rightarrow> int \<Rightarrow> string \<Rightarrow> ArtifactRemap \<Rightarrow> artifact list" where
  "agent_artifacts env c cfg r rnd phase m' =
     (let runID = executionRunID (c_ID c) (mc_Code cfg) (c_ExecutionGeneration c) rnd phase
      in AAgentRun (run_record env c cfg r rnd phase) #
         (case lr_Ledger r of None \<Rightarrow> []
          | Some l \<Rightarrow> map (\<lambda>ev. AEvidence (evidence_copy c runID ev)) (Ledger_List l) @
                      map (\<lambda>cl. AClaim (claim_copy c runID m' cl)) (ListClaims l)) @
         (case lr_Trace r of None \<Rightarrow> []
          | Some t \<Rightarrow> map (\<lambda>(idx, tc). AToolCall (toolcall_row env c runID m' idx tc))
                       (enumerate 1 (concat (map sp_ToolCalls (lt_Steps t))))))"

definition remap_vote :: "ArtifactRemap \<Rightarrow> string \<Rightarrow> Vote \<Rightarrow> Vote" where
  "remap_vote m runID v =
     v\<lparr> v_EvidenceIDs := RemapList (Some m) (v_EvidenceIDs v),
        v_KeyClaimIDs := RemapList (Some m) (v_KeyClaimIDs v), v_AgentRunID := runID \<rparr>"

definition update_slot :: "nat \<Rightarrow> (Vote \<Rightarrow> Vote) \<Rightarrow> Vote option list \<Rightarrow> Vote option list" where
  "update_slot i f votes = (if i < length votes then votes[i := map_option f (votes ! i)] else votes)"

fun persist_agents ::
    "Env \<Rightarrow> MagiConfig list \<Rightarrow> ExecutionContext option \<Rightarrow> int \<Rightarrow> string \<Rightarrow> nat \<Rightarrow> LoopResult list
     \<Rightarrow> ArtifactRemap \<Rightarrow> Vote option list \<Rightarrow> (ArtifactRemap \<times> Vote option list) act" where
  "persist_agents env configs execution rnd phase i [] m votes = returnE (m, votes)"
| "persist_agents env configs execution rnd phase i (r # rs) m votes =
     (case configAt configs i of
        None \<Rightarrow> throwE (Panicked ''nil config'')
      | Some cfg \<Rightarrow> bindE getCase (\<lambda>c.
          let runID = executionRunID (c_ID c) (mc_Code cfg) (c_ExecutionGeneration c) rnd phase;
              m' = remap_ledger runID (lr_Ledger r) m
          in bindE (eachE (persist env execution) (agent_artifacts env c cfg r rnd phase m')) (\<lambda>_.
             persist_agents env configs execution rnd phase (Suc i) rs m'
               (update_slot i (remap_vote m' runID) votes))))"

definition vote_row ::
    "DecisionCase \<Rightarrow> MagiConfig list \<Rightarrow> int \<Rightarrow> string \<Rightarrow> nat \<Rightarrow> Vote \<Rightarrow> Vote" where
  "vote_row c configs rnd phase i v =
     v\<lparr> v_ID := ''vote-'' @ executionRunID (c_ID c) (codeOf (configAt configs i)) (c_ExecutionGeneration c) rnd phase,
        v_CaseID := c_ID c, v_ExecutionGeneration := c_ExecutionGeneration c, v_Round := rnd \<rparr>"

definition vote_rows ::
    "DecisionCase \<Rightarrow> MagiConfig list \<Rightarrow> int \<Rightarrow> string \<Rightarrow> Vote option list \<Rightarrow> Vote option list" where
  "vote_rows c configs rnd phase votes =
     map (\<lambda>(i, v). map_option (vote_row c configs rnd phase i) v) (enumerate 0 votes)"

definition persistArtifacts ::
    "Env \<Rightarrow> MagiConfig list \<Rightarrow> LoopResult list \<Rightarrow> Vote option list \<Rightarrow> int \<Rightarrow> string \<Rightarrow> ExecutionContext option
     \<Rightarrow> (ArtifactRemap \<times> Vote option list) act" where
  "persistArtifacts env configs results votes rnd phase execution =
     bindE getCase (\<lambda>c.
       if n_repo env = None then
         (if c_ExecutionGeneration c > 0 then throwE ErrLeaseLost else returnE (NewArtifactRemap, votes))
       else if c_ExecutionGeneration c > 0 \<and> \<not> owner_matches execution c then throwE ErrLeaseLost
       else bindE (persist_agents env configs execution rnd phase 0 results NewArtifactRemap votes)
         (\<lambda>(m, votes'). let rows = vote_rows c configs rnd phase votes'
           in bindE (eachE (\<lambda>v. persist env execution (AVote v)) (somes rows))
                (\<lambda>_. returnE (m, rows))))"

end
