(* ===== verification/Orchestrator.thy ===== *)
theory Orchestrator
  imports Persist
begin

text \<open>
  \<^verbatim>\<open>backend/domain/orchestration\<close>: the failure policy (\<^verbatim>\<open>failure_policy.go\<close>), the dispatcher that runs
  the agents (\<^verbatim>\<open>dispatcher.go\<close>, with the context builder of \<^verbatim>\<open>domain/memory\<close>), one action per case
  status (\<^verbatim>\<open>steps.go\<close>) and the loop that drives a case to its end (\<^verbatim>\<open>orchestrator.go\<close>).

  The agents of a dispatch run concurrently and do not see each other, so each of them is
  answered from the log at the start of the dispatch and the results are kept by index. The
  loop carries fuel; \<^term>\<open>None\<close> means that the fuel ran out.
\<close>

section \<open>Failure policy\<close>

record FailurePolicy =
  fp_Mode :: string
  fp_RetryLimit :: int

definition DefaultFailurePolicy :: FailurePolicy where
  "DefaultFailurePolicy = \<lparr> fp_Mode = ''abstain_on_fail'', fp_RetryLimit = 1 \<rparr>"

definition absenceKind :: "LoopResult \<Rightarrow> AbsenceKind" where
  "absenceKind r =
     (case lr_Err r of
        Some e \<Rightarrow> if err_is e ErrDeadlineExceeded then AbsenceTimeout
                  else if err_is e ErrCanceled \<or> lr_Status r = LoopStatusCancelled then AbsenceCancelled
                  else AbsenceAgentFailed
      | None \<Rightarrow> if lr_Status r = LoopStatusCancelled then AbsenceCancelled else AbsenceAgentFailed)"

definition absent :: "AbsenceKind \<Rightarrow> string \<Rightarrow> AgentAbsence" where
  "absent k reason = \<lparr> aa_AgentCode = [], aa_Kind = k, aa_Reason = reason \<rparr>"

definition Classify :: "LoopResult option \<Rightarrow> Vote option \<times> AgentAbsence option" where
  "Classify ro =
     (case ro of
        None \<Rightarrow> (None, Some (absent AbsenceMissing ''agent produced no result''))
      | Some r \<Rightarrow>
         if lr_Err r \<noteq> None \<or> lr_Status r \<noteq> LoopStatusCompleted
         then (None, Some (absent (absenceKind r) (LoopFailureReason ro)))
         else (case lr_Vote r of
             None \<Rightarrow> (None, Some (absent AbsenceMissing ''agent returned no final ballot''))
           | Some v \<Rightarrow>
              if \<not> IsValidVoteDecision (v_Decision v)
              then (None, Some (absent AbsenceInvalid
                     (''invalid vote decision '' @ go_quote (decision_str (v_Decision v)))))
              else (Some v, None)))"

fun collect_loop :: "MagiConfig list \<Rightarrow> nat \<Rightarrow> LoopResult list \<Rightarrow> Vote option list \<times> AgentAbsence list" where
  "collect_loop configs i [] = ([], [])"
| "collect_loop configs i (r # rs) =
     (let rest = collect_loop configs (Suc i) rs
      in case Classify (Some r) of
           (_, Some a) \<Rightarrow> (None # fst rest, a\<lparr> aa_AgentCode := codeOf (configAt configs i) \<rparr> # snd rest)
         | (v, None) \<Rightarrow> (v # fst rest, snd rest))"

definition collectBallots :: "MagiConfig list \<Rightarrow> LoopResult list \<Rightarrow> Vote option list \<times> AgentAbsence list" where
  "collectBallots configs results = collect_loop configs 0 results"

definition absencesMsg :: "AgentAbsence list \<Rightarrow> string" where
  "absencesMsg absences = join_with ''; '' (map AgentAbsence_String absences)"

section \<open>The orchestrator\<close>

record Orchestrator =
  o_consensus :: "BallotSet \<Rightarrow> int \<Rightarrow> ConsensusPolicy \<Rightarrow> ConsensusResult"
  o_finder :: "Claim option list \<Rightarrow> ClaimConflict list"
  o_policy :: ConsensusPolicy
  o_failPolicy :: FailurePolicy
  o_configs :: "MagiConfig list"
  o_blueprint :: "FSMBlueprint option"

definition NewOrchestrator :: "Orchestrator \<Rightarrow> Orchestrator" where
  "NewOrchestrator d =
     (if fp_Mode (o_failPolicy d) = [] then d\<lparr> o_failPolicy := DefaultFailurePolicy \<rparr> else d)"

section \<open>Dispatcher\<close>

definition zero_task :: DecisionTask where
  "zero_task = \<lparr> t_CanonicalQuestion = [], t_DecisionType = DecisionTypeOther [], t_Background = [],
     t_Constraints = [], t_Dimensions = [], t_InformationNeeds = [], t_SuccessCriteria = [], t_Unknowns = [] \<rparr>"

definition derefTask :: "DecisionTask option \<Rightarrow> DecisionTask" where
  "derefTask t = (case t of None \<Rightarrow> zero_task | Some x \<Rightarrow> x)"

definition maxQueryRunes :: nat where
  "maxQueryRunes = 2000"

definition base_context :: "DecisionCase \<Rightarrow> DecisionTask option \<Rightarrow> KnowledgeChunk list \<Rightarrow> AgentContext" where
  "base_context c task chunks =
     \<lparr> ac_CaseID = c_ID c, ac_UserID = [], ac_RunID = [], ac_Task = derefTask task,
       ac_Constraints = c_Constraints c, ac_ToolBindings = [], ac_KnowledgeCtx = chunks,
       ac_DebateContext = None, ac_PreviousRun = None, ac_Execution = None \<rparr>"

text \<open>\<^verbatim>\<open>memory.ContextBuilder.Build\<close> without debate context and previous run; it never fails.\<close>

definition recordRetrievalFailure :: "Env \<Rightarrow> DecisionCase \<Rightarrow> goerr \<Rightarrow> unit act" where
  "recordRetrievalFailure env c e =
     (if n_builderEvents env
      then ignoreE (callWrite env (FxPublish (NewEvent (c_ID c) EventMemoryRetrievalFailed (PError (err_str e)))))
      else returnE ())"

definition retrieve_chunks :: "Env \<Rightarrow> DecisionCase \<Rightarrow> string list \<Rightarrow> KnowledgeChunk list act" where
  "retrieve_chunks env c queries w =
     (case callRead (FxRetrieve queries) (\<lambda>l. a_retrieve env l queries) w of
        (Inr blocks, w') \<Rightarrow>
          (Inr (map (\<lambda>(content, ref). \<lparr> kc_Content = content, kc_Score = 0, kc_SourceURI = ref \<rparr>) blocks), w')
      | (Inl e, w') \<Rightarrow> bindE (recordRetrievalFailure env c e) (\<lambda>_. returnE []) w')"

definition ContextBuilder_Build :: "Env \<Rightarrow> DecisionTask option \<Rightarrow> AgentContext act" where
  "ContextBuilder_Build env task =
     bindE getCase (\<lambda>c.
       let q0 = (case task of None \<Rightarrow> [] | Some t \<Rightarrow> t_CanonicalQuestion t);
           query = (if q0 = [] then c_Question c else q0);
           queries = query # (if c_Context c \<noteq> [] then [truncateRunes (c_Context c) maxQueryRunes] else [])
       in bindE (if n_builderKnowledge env \<and> query \<noteq> [] then retrieve_chunks env c queries else returnE [])
            (\<lambda>chunks. returnE (base_context c task chunks)))"

definition applyBindings :: "Env \<Rightarrow> AgentContext \<Rightarrow> AgentContext act" where
  "applyBindings env actx =
     bindE getCase (\<lambda>c.
       if \<not> n_bindingsProvider env \<or> c_UserID c = 0 then returnE actx
       else (\<lambda>w. case callRead (FxBindings (c_UserID c)) (\<lambda>l. a_bindings env l (c_UserID c)) w of
               (Inr bs, w') \<Rightarrow> (Inr (actx\<lparr> ac_ToolBindings := bs \<rparr>), w')
             | (Inl _, w') \<Rightarrow> (Inr actx, w')))"

definition buildBase :: "Env \<Rightarrow> DecisionTask option \<Rightarrow> AgentContext act" where
  "buildBase env task =
     bindE (if n_contextBuilder env then ContextBuilder_Build env task
            else bindE getCase (\<lambda>c. returnE (base_context c task []))) (\<lambda>actx.
     bindE getCase (\<lambda>c.
       applyBindings env (if c_UserID c \<noteq> 0 then actx\<lparr> ac_UserID := itoa (c_UserID c) \<rparr> else actx)))"

definition callAgents :: "Env \<Rightarrow> (MagiConfig \<times> AgentContext) list \<Rightarrow> LoopResult list act" where
  "callAgents env jobs w =
     (Inr (map (\<lambda>(cfg, actx). case a_run env (w_log w) cfg actx of None \<Rightarrow> error_result | Some r \<Rightarrow> r) jobs),
      w\<lparr> w_log := w_log w @ map (\<lambda>(cfg, actx). FxRunAgent (mc_Code cfg) actx) jobs \<rparr>)"

definition DispatchForExecution ::
    "Env \<Rightarrow> MagiConfig list \<Rightarrow> DecisionTask option \<Rightarrow> int \<Rightarrow> ExecutionContext option \<Rightarrow> LoopResult list act" where
  "DispatchForExecution env configs task rnd execution =
     bindE (buildBase env task) (\<lambda>base. bindE getCase (\<lambda>c.
       callAgents env (map (\<lambda>cfg. (cfg, base\<lparr> ac_Execution := execution,
         ac_RunID := checkpointRunID (c_ID c) (mc_Code cfg) rnd ''investigate'' \<rparr>)) configs)))"

definition DispatchReconsiderForExecution ::
    "Env \<Rightarrow> MagiConfig list \<Rightarrow> DecisionTask option \<Rightarrow> DebatePacket \<Rightarrow> LoopResult list \<Rightarrow> int
     \<Rightarrow> ExecutionContext option \<Rightarrow> LoopResult list act" where
  "DispatchReconsiderForExecution env configs task packet prevResults rnd execution =
     bindE (buildBase env task) (\<lambda>base. bindE getCase (\<lambda>c.
       callAgents env (map (\<lambda>(i, cfg). (cfg, base\<lparr> ac_Execution := execution,
         ac_RunID := checkpointRunID (c_ID c) (mc_Code cfg) rnd ''reconsider'',
         ac_DebateContext := Some \<lparr> dc_Packet = packet,
           dc_PreviousVote = Option.bind (nth_opt prevResults i) lr_Vote \<rparr> \<rparr>)) (enumerate 0 configs))))"

definition RetryAgentForExecution ::
    "Env \<Rightarrow> DecisionTask option \<Rightarrow> MagiConfig \<Rightarrow> int \<Rightarrow> int \<Rightarrow> string \<Rightarrow> ExecutionContext option \<Rightarrow> LoopResult act" where
  "RetryAgentForExecution env task cfg rnd attempt phase execution =
     bindE (buildBase env task) (\<lambda>base. bindE getCase (\<lambda>c.
       bindE (callAgents env [(cfg, base\<lparr> ac_Execution := execution,
         ac_RunID := checkpointRunID (c_ID c) (mc_Code cfg) rnd phase @ ''-retry'' @ itoa attempt \<rparr>)])
         (\<lambda>rs. returnE (hd rs))))"

definition isCompleted :: "LoopResult \<Rightarrow> bool" where
  "isCompleted r = (lr_Status r = LoopStatusCompleted \<and> lr_Err r = None \<and> lr_Vote r \<noteq> None)"

text \<open>\<open>n\<close> attempts are left, \<open>attempt\<close> is the next one.\<close>

fun retry_agent ::
    "Env \<Rightarrow> DecisionTask option \<Rightarrow> MagiConfig \<Rightarrow> int \<Rightarrow> string \<Rightarrow> ExecutionContext option \<Rightarrow> int \<Rightarrow> nat
     \<Rightarrow> LoopResult \<Rightarrow> LoopResult act" where
  "retry_agent env task cfg rnd phase execution attempt 0 r = returnE r"
| "retry_agent env task cfg rnd phase execution attempt (Suc n) r =
     bindE (RetryAgentForExecution env task cfg rnd attempt phase execution) (\<lambda>rr.
       if isCompleted rr then returnE rr
       else retry_agent env task cfg rnd phase execution (attempt + 1) n rr)"

fun retry_loop ::
    "Env \<Rightarrow> MagiConfig list \<Rightarrow> DecisionTask option \<Rightarrow> int \<Rightarrow> string \<Rightarrow> ExecutionContext option \<Rightarrow> nat \<Rightarrow> nat
     \<Rightarrow> LoopResult list \<Rightarrow> LoopResult list act" where
  "retry_loop env configs task rnd phase execution limit i [] = returnE []"
| "retry_loop env configs task rnd phase execution limit i (r # rs) =
     bindE (if isCompleted r then returnE r
            else case configAt configs i of
                   None \<Rightarrow> returnE r
                 | Some cfg \<Rightarrow> retry_agent env task cfg rnd phase execution 1 limit r) (\<lambda>r'.
     bindE (retry_loop env configs task rnd phase execution limit (Suc i) rs) (\<lambda>rs'. returnE (r' # rs')))"

definition retryFailedAgents ::
    "Orchestrator \<Rightarrow> Env \<Rightarrow> DecisionTask option \<Rightarrow> LoopResult list \<Rightarrow> int \<Rightarrow> string \<Rightarrow> ExecutionContext option
     \<Rightarrow> LoopResult list act" where
  "retryFailedAgents orc env task results rnd phase execution =
     (let limit = fp_RetryLimit (o_failPolicy orc)
      in if limit \<le> 0 \<or> length results = 0 then returnE results
         else retry_loop env (o_configs orc) task rnd phase execution (nat limit) 0 results)"

section \<open>Helpers of the steps\<close>

definition collectClaims :: "LoopResult list \<Rightarrow> Claim list" where
  "collectClaims results =
     concat (map (\<lambda>r. case lr_Ledger r of None \<Rightarrow> [] | Some l \<Rightarrow> ListClaims l) results)"

definition collectEvidence :: "LoopResult list \<Rightarrow> EvidenceRecord list" where
  "collectEvidence results =
     concat (map (\<lambda>r. case lr_Ledger r of None \<Rightarrow> [] | Some l \<Rightarrow> Ledger_List l) results)"

definition collectEvidenceIDs :: "LoopResult list \<Rightarrow> string list" where
  "collectEvidenceIDs results = map e_ID (collectEvidence results)"

definition collectClaimIDs :: "LoopResult list \<Rightarrow> string list" where
  "collectClaimIDs results = map cl_ID (collectClaims results)"

definition merge_ledger :: "timestamp \<Rightarrow> EvidenceLedger \<Rightarrow> EvidenceLedger \<Rightarrow> EvidenceLedger" where
  "merge_ledger now l merged =
     fold (\<lambda>cl m. snd (RecordClaim now (cl_Statement cl) (cl_Supports cl) (cl_Contradicts cl) m)) (ListClaims l)
       (fold (\<lambda>ev m. snd (Record now (e_ToolCallID ev) (e_ToolName ev) (source_type_str (e_SourceType ev)) []
               (e_Observation ev) (e_Reliability ev) m)) (Ledger_List l) merged)"

definition mergeLedgers :: "timestamp \<Rightarrow> LoopResult list \<Rightarrow> EvidenceLedger" where
  "mergeLedgers now results =
     fold (\<lambda>r m. case lr_Ledger r of None \<Rightarrow> m | Some l \<Rightarrow> merge_ledger now l m) results
       (NewEvidenceLedger [] [] ''merged'')"

definition mergeRemaps :: "ArtifactRemap list \<Rightarrow> ArtifactRemap" where
  "mergeRemaps remaps = fold (\<lambda>r out. Merge (Some r) out) remaps NewArtifactRemap"

definition shouldDebate :: "ConsensusPolicy \<Rightarrow> int \<Rightarrow> int \<Rightarrow> bool" where
  "shouldDebate policy rnd maxDebate =
     (if rnd = 1 \<and> FirstSplitGoesToDebate policy then True else rnd < maxDebate)"

fun finalDecision_of :: "ConsensusOutcome \<Rightarrow> VoteDecision" where
  "finalDecision_of ConsensusStrongApproval = VoteDecisionApprove"
| "finalDecision_of ConsensusMajorityApprovalDissent = VoteDecisionApprove"
| "finalDecision_of ConsensusStrongRejection = VoteDecisionReject"
| "finalDecision_of ConsensusMajorityRejectionDissent = VoteDecisionReject"
| "finalDecision_of ConsensusConditional = VoteDecisionConditionalApprove"
| "finalDecision_of _ = VoteDecisionAbstain"

definition finalDecision :: "ConsensusResult \<Rightarrow> VoteDecision" where
  "finalDecision c = finalDecision_of (cr_Outcome c)"

definition voteIDs :: "Vote option list \<Rightarrow> string list" where
  "voteIDs votes = map v_ID (somes votes)"

definition ballotCount :: "Vote option list \<Rightarrow> nat" where
  "ballotCount votes = length (somes votes)"

definition derefVotes :: "Vote option list \<Rightarrow> Vote list" where
  "derefVotes vs = somes vs"

definition remapReflection :: "ArtifactRemap \<Rightarrow> Reflection \<Rightarrow> Reflection" where
  "remapReflection m r =
     r\<lparr> rf_NewEvidenceIDs := RemapList (Some m) (rf_NewEvidenceIDs r),
        rf_AcceptedClaims := RemapList (Some m) (rf_AcceptedClaims r),
        rf_RejectedClaims := RemapList (Some m) (rf_RejectedClaims r) \<rparr>"

section \<open>The reflection rule\<close>

text \<open>The reflection of slot i, if the rule applies to it.\<close>

definition reflection_for ::
    "timestamp \<Rightarrow> Vote option \<Rightarrow> Vote option \<Rightarrow> LoopResult option \<Rightarrow> MagiConfig option \<Rightarrow> int \<Rightarrow> Reflection option" where
  "reflection_for now pvo nvo ro cfgo rnd =
     (case (pvo, nvo, cfgo) of
        (Some pv, Some nv, Some cfg) \<Rightarrow>
          if v_Decision pv = v_Decision nv \<or> \<not> rfp_RequireJustification (mc_ReflectionPolicy cfg) then None
          else (case (case Option.bind ro lr_Reflection of Some r \<Rightarrow> Some r | None \<Rightarrow> InferReflection pvo nvo rnd) of
                  None \<Rightarrow> None
                | Some r \<Rightarrow> Some (r\<lparr> rf_Round := (if rf_Round r = 0 then rnd else rf_Round r),
                    rf_CreatedAt := (if rf_CreatedAt r = 0 then now else rf_CreatedAt r) \<rparr>))
      | _ \<Rightarrow> None)"

definition reflection_ok :: "Reflection \<Rightarrow> Vote option \<Rightarrow> LoopResult option \<Rightarrow> bool \<Rightarrow> bool" where
  "reflection_ok r pvo ro requireNew =
     (let ledger = (case Option.bind ro lr_Ledger of Some l \<Rightarrow> l | None \<Rightarrow> NewEvidenceLedger [] [] []);
          claimIDs = (case Option.bind ro lr_Ledger of Some l \<Rightarrow> map cl_ID (ListClaims l) | None \<Rightarrow> [])
      in ValidateReflection (Some r) pvo ledger claimIDs requireNew = None)"

fun enforce_loop ::
    "timestamp \<Rightarrow> LoopResult list \<Rightarrow> MagiConfig list \<Rightarrow> int \<Rightarrow> nat \<Rightarrow> Vote option list \<Rightarrow> Vote option list
     \<Rightarrow> Reflection list \<times> Vote option list" where
  "enforce_loop now results configs rnd i (pv # pvs) (nv # nvs) =
     (let rest = enforce_loop now results configs rnd (Suc i) pvs nvs;
          ro = nth_opt results i; cfgo = nth_opt configs i
      in case reflection_for now pv nv ro cfgo rnd of
           None \<Rightarrow> (fst rest, nv # snd rest)
         | Some r \<Rightarrow>
             (r # fst rest,
              (if reflection_ok r pv ro (case cfgo of None \<Rightarrow> False | Some cfg \<Rightarrow> rfp_RequireNewEvidence (mc_ReflectionPolicy cfg))
               then nv else pv) # snd rest))"
| "enforce_loop now results configs rnd i _ nvs = ([], nvs)"

definition EnforceReflectionRule ::
    "timestamp \<Rightarrow> Vote option list \<Rightarrow> Vote option list \<Rightarrow> LoopResult list \<Rightarrow> MagiConfig list \<Rightarrow> int
     \<Rightarrow> Reflection list \<times> Vote option list" where
  "EnforceReflectionRule now prevVotes newVotes results configs rnd =
     enforce_loop now results configs rnd 0 prevVotes newVotes"

end
