(* ===== verification/OrchestratorLoop.thy ===== *)
theory OrchestratorLoop
  imports Orchestrator
begin

text \<open>
  The steps of \<^verbatim>\<open>orchestration/steps.go\<close>, one per action, the table-driven dispatch, the loop of
  \<^verbatim>\<open>orchestrate\<close> and its two entry points. A nil dereference of the working state, which the Go
  code would turn into a panic, is the error \<open>Panicked\<close>; it leaves the loop at once.
\<close>

section \<open>Steps\<close>

type_synonym step_result = "CaseStatus \<times> bool"

definition stepStart :: "step_result act" where
  "stepStart = returnE (CaseStatusNormalizing, False)"

definition stepNormalize :: "Orchestrator \<Rightarrow> Env \<Rightarrow> step_result act" where
  "stepNormalize orc env =
     bindE getCase (\<lambda>c.
     bindE (wrapE ''normalize'' (callRead (FxNormalize (c_ID c))
              (\<lambda>l. Normalize (a_modelBuild env l) (a_generate env l) (a_decodeTask env)))) (\<lambda>t.
     bindE (modifySt (\<lambda>st. st\<lparr> ss_Task := Some t \<rparr>)) (\<lambda>_.
     bindE (if n_caseRepo env = None then returnE ()
            else ignoreE (persistArtifact None (callWrite env (FxUpdateTask (c_ID c) t)))) (\<lambda>_.
     returnE (CaseStatusContextBuilding, False)))))"

definition stepBuildContext :: "Env \<Rightarrow> step_result act" where
  "stepBuildContext env =
     bindE getSt (\<lambda>st. case ss_Task st of
         None \<Rightarrow> throwE (Panicked ''nil task'')
       | Some t \<Rightarrow> bindE (ignoreE (publish env EventTaskNormalized (PQuestion (t_CanonicalQuestion t))))
                    (\<lambda>_. returnE (CaseStatusRetrievingMemory, False)))"

definition stepRetrieveMemory :: "Env \<Rightarrow> step_result act" where
  "stepRetrieveMemory env =
     bindE (ignoreE (publish env EventMemoryRetrieved PNil)) (\<lambda>_. returnE (CaseStatusInvestigating, False))"

definition stepInvestigate :: "Orchestrator \<Rightarrow> Env \<Rightarrow> step_result act" where
  "stepInvestigate orc env =
     bindE getSt (\<lambda>st.
     bindE (ignoreE (publish env EventAgentStarted (PRound (ss_Round st)))) (\<lambda>_.
     bindE (DispatchForExecution env (o_configs orc) (ss_Task st) (ss_Round st) (ss_Execution st)) (\<lambda>rs.
     bindE (retryFailedAgents orc env (ss_Task st) rs (ss_Round st) ''investigate'' (ss_Execution st)) (\<lambda>rs'.
     bindE (modifySt (\<lambda>st. st\<lparr> ss_Results := rs' \<rparr>)) (\<lambda>_.
     returnE (CaseStatusEvidenceGating, False))))))"

definition stepGateEvidence :: "Env \<Rightarrow> step_result act" where
  "stepGateEvidence env =
     bindE (ignoreE (publish env EventEvidenceGatePassed PNil)) (\<lambda>_. returnE (CaseStatusCollectingVotes, False))"

text \<open>
  The ballots are the vote pointers of the results, so what persisting rewrites in a ballot is
  seen in the result too: \<open>write_back\<close>.
\<close>

definition write_back :: "LoopResult list \<Rightarrow> Vote option list \<Rightarrow> LoopResult list" where
  "write_back results votes =
     map (\<lambda>(r, v). case v of None \<Rightarrow> r | Some x \<Rightarrow> r\<lparr> lr_Vote := Some x \<rparr>) (zip results votes)"

definition stepCollectVotes :: "Orchestrator \<Rightarrow> Env \<Rightarrow> step_result act" where
  "stepCollectVotes orc env =
     bindE getSt (\<lambda>st.
       let ballots = collectBallots (o_configs orc) (ss_Results st); absences = snd ballots
       in if fp_Mode (o_failPolicy orc) = ''fail_case'' \<and> length absences > 0
          then throwE (Wrapf (absencesMsg absences) ErrAgentFailed)
          else bindE (persistArtifacts env (o_configs orc) (ss_Results st) (fst ballots) (ss_Round st)
                       ''investigate'' (ss_Execution st)) (\<lambda>(remap, votes).
               bindE (modifySt (\<lambda>st. st\<lparr> ss_Votes := votes, ss_Absences := absences,
                        ss_Results := write_back (ss_Results st) votes,
                        ss_AllRemaps := ss_AllRemaps st @ [remap] \<rparr>)) (\<lambda>_.
               bindE (ignoreE (publish env EventVoteSubmitted (PVotes (ss_Round st) (ballotCount votes)
                        (if length absences > 0 then Some (absencesMsg absences) else None)))) (\<lambda>_.
               returnE (CaseStatusConsensusCheck, False)))))"

definition consensus_route :: "Orchestrator \<Rightarrow> State \<Rightarrow> ConsensusResult \<Rightarrow> step_result act" where
  "consensus_route orc st res =
     (case cr_Outcome res of
        ConsensusStrongApproval \<Rightarrow> returnE (CaseStatusResolving, False)
      | ConsensusStrongRejection \<Rightarrow> returnE (CaseStatusResolving, False)
      | ConsensusConditional \<Rightarrow> returnE (CaseStatusResolving, False)
      | ConsensusMajorityApprovalDissent \<Rightarrow>
          returnE (if shouldDebate (o_policy orc) (ss_Round st) (ss_MaxDebate st)
                   then CaseStatusDebating else CaseStatusResolving, False)
      | ConsensusMajorityRejectionDissent \<Rightarrow>
          returnE (if shouldDebate (o_policy orc) (ss_Round st) (ss_MaxDebate st)
                   then CaseStatusDebating else CaseStatusResolving, False)
      | ConsensusIncomplete \<Rightarrow> throwE (Errorf ''incomplete vote'')
      | ConsensusDeadlock \<Rightarrow> returnE (CaseStatusDeadlocked, False)
      | ConsensusInsufficientQuorum \<Rightarrow> returnE (CaseStatusDeadlocked, False)
      | ConsensusOther s \<Rightarrow> throwE (Errorf (''unrecognised consensus outcome '' @ go_quote s)))"

definition stepCheckConsensus :: "Orchestrator \<Rightarrow> Env \<Rightarrow> step_result act" where
  "stepCheckConsensus orc env =
     bindE getSt (\<lambda>st.
       let res = o_consensus orc \<lparr> b_Votes = derefVotes (ss_Votes st), b_Absences = ss_Absences st \<rparr>
                   (ss_Round st) (o_policy orc)
       in bindE (modifySt (\<lambda>st. st\<lparr> ss_ConsResult := res \<rparr>)) (\<lambda>_.
          bindE (ignoreE (publish env EventConsensusEvaluated (POutcome (cr_Outcome res) (ss_Round st)))) (\<lambda>_.
          consensus_route orc st res)))"

definition debate_round :: "Env \<Rightarrow> DecisionCase \<Rightarrow> int \<Rightarrow> DebatePacket \<Rightarrow> DebateRound" where
  "debate_round env c rnd packet =
     \<lparr> dr_ID = ''deb-'' @ c_ID c @ ''-g'' @ itoa (c_ExecutionGeneration c) @ ''-r'' @ itoa rnd,
       dr_CaseID = c_ID c, dr_ExecutionGeneration = c_ExecutionGeneration c, dr_Round = rnd,
       dr_Packet = packet, dr_StartedAt = n_now env, dr_CompletedAt = None \<rparr>"

definition stepDebate :: "Orchestrator \<Rightarrow> Env \<Rightarrow> step_result act" where
  "stepDebate orc env =
     bindE getSt (\<lambda>st. bindE getCase (\<lambda>c.
     bindE (ignoreE (publish env EventDebateStarted (PRound (ss_Round st)))) (\<lambda>_.
       let packet = BuildPacket (o_finder orc) (derefVotes (ss_Votes st)) (map Some (collectClaims (ss_Results st)))
                      (ss_Round st) (map Some (collectEvidence (ss_Results st)))
       in bindE (if n_repo env = None then returnE ()
                 else persist env (ss_Execution st) (ADebateRound (debate_round env c (ss_Round st) packet))) (\<lambda>_.
          bindE (DispatchReconsiderForExecution env (o_configs orc) (ss_Task st) packet (ss_Results st)
                   (ss_Round st) (ss_Execution st)) (\<lambda>rs.
          bindE (retryFailedAgents orc env (ss_Task st) rs (ss_Round st) ''reconsider'' (ss_Execution st)) (\<lambda>rs'.
          bindE (modifySt (\<lambda>st. st\<lparr> ss_Results := rs' \<rparr>)) (\<lambda>_.
          returnE (CaseStatusReflecting, False))))))))"

definition stepReflect :: "Env \<Rightarrow> step_result act" where
  "stepReflect env =
     bindE (ignoreE (publish env EventReflectionSubmitted PNil)) (\<lambda>_. returnE (CaseStatusRevoting, False))"

definition reflection_row ::
    "DecisionCase \<Rightarrow> ArtifactRemap \<Rightarrow> Vote option list \<Rightarrow> nat \<Rightarrow> Reflection \<Rightarrow> Reflection" where
  "reflection_row c remap newVotes idx rf =
     remapReflection remap
       (rf\<lparr> rf_ID := ''refl-'' @ c_ID c @ ''-g'' @ itoa (c_ExecutionGeneration c) @ ''-r'' @ itoa (rf_Round rf) @
              ''-'' @ itoa (int idx),
            rf_CaseID := c_ID c, rf_ExecutionGeneration := c_ExecutionGeneration c,
            rf_AgentRunID :=
              (if rf_AgentRunID rf = []
               then (case Option.bind (nth_opt newVotes idx) id of None \<Rightarrow> [] | Some v \<Rightarrow> v_AgentRunID v)
               else rf_AgentRunID rf) \<rparr>)"

definition stepRevote :: "Orchestrator \<Rightarrow> Env \<Rightarrow> step_result act" where
  "stepRevote orc env =
     bindE getSt (\<lambda>st. bindE getCase (\<lambda>c.
     bindE (ignoreE (publish env EventRevoteSubmitted (PRound (ss_Round st)))) (\<lambda>_.
       let ballots = collectBallots (o_configs orc) (ss_Results st)
       in bindE (persistArtifacts env (o_configs orc) (ss_Results st) (fst ballots) (ss_Round st)
                   ''reconsider'' (ss_Execution st)) (\<lambda>(remap, votes).
            let results = write_back (ss_Results st) votes;
                enforced = EnforceReflectionRule (n_now env) (ss_Votes st) votes results (o_configs orc) (ss_Round st);
                rows = map (\<lambda>(idx, rf). reflection_row c remap (snd enforced) idx rf) (enumerate 0 (fst enforced))
            in bindE (if n_repo env = None then returnE ()
                      else eachE (\<lambda>rf. persist env (ss_Execution st) (AReflection rf)) rows) (\<lambda>_.
               bindE (modifySt (\<lambda>st. st\<lparr> ss_Votes := snd enforced, ss_Absences := snd ballots,
                        ss_Results := results, ss_AllRemaps := ss_AllRemaps st @ [remap],
                        ss_Round := ss_Round st + 1 \<rparr>)) (\<lambda>_.
               returnE (CaseStatusConsensusCheck, False)))))))"

definition dissent_codes :: "MagiConfig list \<Rightarrow> Vote option list \<Rightarrow> MagiCode list" where
  "dissent_codes configs votes =
     map (\<lambda>(i, v). case v of None \<Rightarrow> [] | Some _ \<Rightarrow> codeOf (configAt configs i)) (enumerate 0 votes)"

definition extractDissent ::
    "MagiConfig list \<Rightarrow> VoteDecision \<Rightarrow> Vote option list \<Rightarrow> (nat \<times> dissent_error) + Dissent list option" where
  "extractDissent configs final votes =
     (let dissent = ExtractDissent final votes (dissent_codes configs votes)
      in case check_all (\<lambda>(i, d). map_option (Pair i) (ValidateDissent d))
                (enumerate 0 (case dissent of None \<Rightarrow> [] | Some ds \<Rightarrow> ds)) of
           Some e \<Rightarrow> Inl e
         | None \<Rightarrow> Inr dissent)"

definition resolution_of :: "Env \<Rightarrow> DecisionCase \<Rightarrow> State \<Rightarrow> Resolution" where
  "resolution_of env c st =
     (let cons = (ss_ConsResult st)\<lparr> cr_Round := ss_Round st \<rparr>; remap = mergeRemaps (ss_AllRemaps st)
      in \<lparr> r_ID = ''res-'' @ c_ID c, r_CaseID = c_ID c, r_ExecutionGeneration = c_ExecutionGeneration c,
           r_Consensus = cons, r_FinalDecision = finalDecision cons, r_FinalReport = [],
           r_KeyEvidenceIDs = RemapList (Some remap) (collectEvidenceIDs (ss_Results st)),
           r_KeyClaimIDs = RemapList (Some remap) (collectClaimIDs (ss_Results st)),
           r_Dissent = None, r_VoteIDs = voteIDs (ss_Votes st), r_Evaluation = None,
           r_CreatedAt = n_now env \<rparr>)"

definition stepResolve :: "Orchestrator \<Rightarrow> Env \<Rightarrow> step_result act" where
  "stepResolve orc env =
     bindE getSt (\<lambda>st. bindE getCase (\<lambda>c.
       let res = resolution_of env c st
       in bindE (modifySt (\<lambda>st. st\<lparr> ss_ConsResult := (ss_ConsResult st)\<lparr> cr_Round := ss_Round st \<rparr>,
                  ss_Resolution := Some res \<rparr>)) (\<lambda>_.
          case extractDissent (o_configs orc) (r_FinalDecision res) (ss_Votes st) of
            Inl (i, e) \<Rightarrow> throwE (Wrapf ''resolve dissent'' (Errorf (''dissent '' @ itoa (int i))))
          | Inr dissent \<Rightarrow>
             bindE (modifySt (\<lambda>st. st\<lparr> ss_Resolution := Some (res\<lparr> r_Dissent := dissent \<rparr>) \<rparr>)) (\<lambda>_.
             returnE (CaseStatusGeneratingReport, False)))))"

definition final_report :: "ArtifactRemap \<Rightarrow> Dissent list option \<Rightarrow> string \<Rightarrow> string" where
  "final_report remap dissent report =
     (let r = RemapText (Some remap) report; s = RenderDissent dissent
      in if s \<noteq> [] then r @ nl @ nl @ ''--- Dissent ---'' @ nl @ s else r)"

definition stepGenerateReport :: "Env \<Rightarrow> step_result act" where
  "stepGenerateReport env =
     bindE getSt (\<lambda>st. bindE getCase (\<lambda>c. case ss_Resolution st of
         None \<Rightarrow> throwE (Panicked ''nil resolution'')
       | Some res \<Rightarrow>
          bindE (wrapE ''report generation'' (callRead (FxReport (c_ID c))
                   (\<lambda>l. GenerateReport (a_modelBuild env l) (a_generate env l) (a_decodeReport env)
                          (r_FinalDecision res) (r_KeyEvidenceIDs res) (r_KeyClaimIDs res)))) (\<lambda>report.
          bindE (modifySt (\<lambda>st. st\<lparr> ss_Resolution := Some (res\<lparr> r_FinalReport :=
                   final_report (mergeRemaps (ss_AllRemaps st)) (r_Dissent res) report \<rparr>) \<rparr>)) (\<lambda>_.
          bindE (ignoreE (publish env EventResolutionCreated (PFinalDecision (r_FinalDecision res)))) (\<lambda>_.
          returnE (CaseStatusSavingMemory, False))))))"

definition stepSaveMemory :: "Env \<Rightarrow> step_result act" where
  "stepSaveMemory env =
     bindE getSt (\<lambda>st. bindE getCase (\<lambda>c.
       let proj = BuildProjection (Some c) (ss_Resolution st) (Some (mergeLedgers (n_now env) (ss_Results st)))
                    (ss_Votes st) (Some (mergeRemaps (ss_AllRemaps st)))
       in bindE (if n_knowledge env
                 then ignoreE (persistArtifact None (callWrite env (FxStoreMemory proj))) else returnE ()) (\<lambda>_.
          bindE (if n_memRepo env then ignoreE (callWrite env (FxSaveMemory proj)) else returnE ()) (\<lambda>_.
          returnE (CaseStatusEvaluating, False)))))"

definition stepEvaluate :: "Env \<Rightarrow> step_result act" where
  "stepEvaluate env =
     bindE getSt (\<lambda>st. case ss_Resolution st of
         None \<Rightarrow> throwE (Panicked ''nil resolution'')
       | Some res \<Rightarrow>
          bindE (modifySt (\<lambda>st. st\<lparr> ss_Resolution := Some (res\<lparr> r_Evaluation :=
                   Some (Evaluate (map Some (ss_Results st)) (ss_Round st) (cr_Outcome (ss_ConsResult st))) \<rparr>) \<rparr>)) (\<lambda>_.
          returnE (CaseStatusResolved, False)))"

definition stepComplete :: "step_result act" where
  "stepComplete = returnE (CaseStatusResolved, True)"

definition stepDeadlock :: "step_result act" where
  "stepDeadlock = returnE (CaseStatusDeadlocked, True)"

section \<open>Dispatch\<close>

definition buildActionRegistry :: "Orchestrator \<Rightarrow> Env \<Rightarrow> (string, step_result act) gomap" where
  "buildActionRegistry orc env =
     [(''start'', stepStart), (''normalize'', stepNormalize orc env),
      (''build_context'', stepBuildContext env), (''retrieve_memory'', stepRetrieveMemory env),
      (''investigate'', stepInvestigate orc env), (''gate_evidence'', stepGateEvidence env),
      (''collect_votes'', stepCollectVotes orc env), (''check_consensus'', stepCheckConsensus orc env),
      (''debate'', stepDebate orc env), (''reflect'', stepReflect env), (''revote'', stepRevote orc env),
      (''resolve'', stepResolve orc env), (''generate_report'', stepGenerateReport env),
      (''save_memory'', stepSaveMemory env), (''evaluate'', stepEvaluate env),
      (''complete'', stepComplete), (''deadlock'', stepDeadlock)]"

definition action_for :: "Orchestrator \<Rightarrow> CaseStatus \<Rightarrow> CaseStatus \<Rightarrow> string" where
  "action_for orc prevStatus status =
     (let declared = (case o_blueprint orc of
                        None \<Rightarrow> []
                      | Some b \<Rightarrow> if status_str prevStatus \<noteq> []
                                  then ActionFor b (status_str prevStatus) (status_str status) else [])
      in if declared \<noteq> [] then declared else ActionForStatus (status_str status))"

definition dispatch :: "Orchestrator \<Rightarrow> Env \<Rightarrow> CaseStatus \<Rightarrow> CaseStatus \<Rightarrow> step_result act" where
  "dispatch orc env prevStatus status =
     (if ActionForStatus (status_str status) = []
      then bindE (setStatus status) (\<lambda>_. throwE (Wrapf (status_str status) ErrCaseEnded))
      else case map_of (buildActionRegistry orc env) (action_for orc prevStatus status) of
             None \<Rightarrow> throwE (Errorf (''fsm blueprint action '' @ go_quote (action_for orc prevStatus status) @
                       '' is not a registered handler for status '' @ status_str status))
           | Some handler \<Rightarrow> handler)"

section \<open>The loop\<close>

definition blueprint_error :: "Orchestrator \<Rightarrow> CaseStatus \<Rightarrow> CaseStatus \<Rightarrow> goerr option" where
  "blueprint_error orc prevStatus status =
     (case o_blueprint orc of
        None \<Rightarrow> None
      | Some b \<Rightarrow>
         if status_str prevStatus \<noteq> [] \<and> prevStatus \<noteq> status \<and>
            ValidatePath b [status_str prevStatus, status_str status] \<noteq> []
         then Some (Errorf ''fsm blueprint violation'') else None)"

fun is_panic :: "goerr \<Rightarrow> bool" where
  "is_panic (Panicked _) = True"
| "is_panic _ = False"

definition terminal_step :: "Env \<Rightarrow> CaseStatus \<Rightarrow> CaseStatus \<Rightarrow> Resolution option act" where
  "terminal_step env status next =
     bindE getSt (\<lambda>st. bindE getCase (\<lambda>c.
     bindE (commitTerminal env status next (ss_Resolution st) (terminalCompletionEvent c next st) (ss_Execution st)) (\<lambda>_.
     bindE (setStatus next) (\<lambda>_. returnE (ss_Resolution st)))))"

definition advance_step :: "Env \<Rightarrow> CaseStatus \<Rightarrow> CaseStatus \<Rightarrow> unit act" where
  "advance_step env status next =
     bindE getSt (\<lambda>st. advanceStatus env [status] next (ss_Round st) (ss_Execution st))"

definition done_step :: "Env \<Rightarrow> CaseStatus \<Rightarrow> CaseStatus \<Rightarrow> Resolution option act" where
  "done_step env status next =
     bindE (if next \<noteq> status then advance_step env status next else returnE ()) (\<lambda>_.
     bindE getSt (\<lambda>st. returnE (ss_Resolution st)))"

fun orch_loop ::
    "Orchestrator \<Rightarrow> Env \<Rightarrow> nat \<Rightarrow> CaseStatus \<Rightarrow> CaseStatus \<Rightarrow> World
     \<Rightarrow> ((goerr + Resolution option) \<times> World) option" where
  "orch_loop orc env 0 prevStatus status w = None"
| "orch_loop orc env (Suc n) prevStatus status w =
     (case blueprint_error orc prevStatus status of
        Some e \<Rightarrow> Some (fail env e w)
      | None \<Rightarrow>
         (case dispatch orc env prevStatus status w of
            (Inl e, w1) \<Rightarrow>
              if is_panic e \<or> err_is e ErrLeaseLost \<or> err_is e ErrCommitOutcomeUnknown then Some (Inl e, w1)
              else Some (fail env e w1)
          | (Inr (next, finished), w1) \<Rightarrow>
              if isNormalTerminal next then Some (terminal_step env status next w1)
              else if finished then Some (done_step env status next w1)
              else (case advance_step env status next w1 of
                      (Inl e, w2) \<Rightarrow> Some (Inl e, w2)
                    | (Inr _, w2) \<Rightarrow> orch_loop orc env n status next w2)))"

definition zero_result :: ConsensusResult where
  "zero_result = \<lparr> cr_Outcome = ConsensusOther [], cr_Votes = [], cr_Round = 0, cr_Detail = DetailNone,
     cr_Conditions = [] \<rparr>"

definition start_state :: "DecisionCase \<Rightarrow> ExecutionContext option \<Rightarrow> State" where
  "start_state c execution =
     \<lparr> ss_MaxDebate = (if c_MaxDebateRounds c = 0 then 1 else c_MaxDebateRounds c), ss_Execution = execution,
       ss_Task = None, ss_Results = [], ss_Votes = [], ss_Absences = [], ss_ConsResult = zero_result,
       ss_Resolution = None, ss_AllRemaps = [], ss_Round = 1 \<rparr>"

definition start_status :: "DecisionCase \<Rightarrow> CaseStatus" where
  "start_status c = (if c_Status c = CaseStatusZero then CaseStatusDraft else c_Status c)"

text \<open>Replay of a case that already has its outcome.\<close>

definition replay_durable :: "Env \<Rightarrow> CaseStatus \<Rightarrow> ExecutionContext \<Rightarrow> Resolution option act" where
  "replay_durable env status x =
     (if \<not> repo_cap env rc_SettlementReader then throwE ErrLeaseLost
      else bindE (callCommit env (FxExecutionSettled x)) (\<lambda>settled.
        if \<not> settled then throwE ErrLeaseLost
        else if status = CaseStatusDeadlocked then returnE None
        else bindE getCase (\<lambda>c.
          bindE (callRead (FxGetResolution (c_ID c)) (\<lambda>l. a_resolution env l (c_ID c))) (\<lambda>existing.
            case existing of
              None \<Rightarrow> throwE ErrLeaseLost
            | Some r \<Rightarrow> if r_ExecutionGeneration r \<noteq> x_ExecutionGeneration x then throwE ErrLeaseLost
                        else returnE (Some r)))))"

definition run_case ::
    "Orchestrator \<Rightarrow> Env \<Rightarrow> nat \<Rightarrow> World \<Rightarrow> ((goerr + Resolution option) \<times> World) option" where
  "run_case orc env fuel w =
     (let status = start_status (w_case w)
      in if status = CaseStatusDeadlocked then Some (Inr None, w)
         else if status = CaseStatusFailed \<or> status = CaseStatusCancelled \<or> status = CaseStatusTimedOut
         then Some (Inl ErrLeaseLost, w)
         else orch_loop orc env fuel CaseStatusZero status w)"

definition orchestrate ::
    "Orchestrator \<Rightarrow> Env \<Rightarrow> nat \<Rightarrow> DecisionCase \<Rightarrow> ExecutionContext option \<Rightarrow> log
     \<Rightarrow> ((goerr + Resolution option) \<times> World) option" where
  "orchestrate orc env fuel c execution l =
     (let w = \<lparr> w_log = l, w_case = c, w_st = start_state c execution \<rparr>; status = start_status c
      in case (if IsDurable execution \<and> (status = CaseStatusResolved \<or> status = CaseStatusDeadlocked)
               then execution else None) of
           Some x \<Rightarrow> Some (replay_durable env status x w)
         | None \<Rightarrow>
            if status = CaseStatusResolved \<and> n_repo env \<noteq> None
            then (case callRead (FxGetResolution (c_ID c)) (\<lambda>l. a_resolution env l (c_ID c)) w of
                    (Inr (Some existing), w1) \<Rightarrow> Some (Inr (Some existing), snd (setStatus CaseStatusResolved w1))
                  | (_, w1) \<Rightarrow> run_case orc env fuel w1)
            else run_case orc env fuel w)"

text \<open>The entry points; they return the log because a nil case has no state.\<close>

definition Orchestrate ::
    "Orchestrator \<Rightarrow> Env \<Rightarrow> nat \<Rightarrow> DecisionCase option \<Rightarrow> log \<Rightarrow> ((goerr + Resolution option) \<times> log) option" where
  "Orchestrate orc env fuel co l =
     (if repo_cap env rc_RequiresOwner \<or> case_cap env cc_RequiresOwner
      then Some (Inl ErrExecutionOwnerRequired, l)
      else case co of
             None \<Rightarrow> Some (Inl (Errorf ''nil case''), l)
           | Some c \<Rightarrow> if c_ExecutionGeneration c > 0 then Some (Inl ErrLeaseLost, l)
                       else map_option (apsnd w_log) (orchestrate orc env fuel c None l))"

definition OrchestrateForExecution ::
    "Orchestrator \<Rightarrow> Env \<Rightarrow> nat \<Rightarrow> DecisionCase option \<Rightarrow> ExecutionContext option \<Rightarrow> log
     \<Rightarrow> ((goerr + Resolution option) \<times> log) option" where
  "OrchestrateForExecution orc env fuel co execution l =
     (case co of
        None \<Rightarrow> Some (Inl ErrLeaseLost, l)
      | Some c \<Rightarrow>
         if \<not> owner_matches execution c then Some (Inl ErrLeaseLost, l)
         else if \<not> repo_cap env rc_OwnedArtifacts \<or> \<not> repo_cap env rc_OwnedCommitter
         then Some (Inl ErrLeaseLost, l)
         else map_option (apsnd w_log) (orchestrate orc env fuel c execution l))"

end
