(* ===== verification/RunInvariants.thy ===== *)
theory RunInvariants
  imports OrchestratorLoop
begin

text \<open>
  Invariants of orchestrator runs, as three locales on a predicate on states. An
  \<open>action_invariant\<close> is closed under the effects the code can perform in its situation and under a
  new case status; its lemmas carry it through persistence, failure handling and the dispatcher.
  A \<open>step_invariant\<close> is also closed under changes of the working state that keep the owner, the
  ballots, the resolution and the debate counters; a \<open>vote_invariant\<close> survives new ballots, and a
  \<open>resolution_invariant\<close> a new resolution of the same provenance too, and so every step but the revote. A \<open>run_invariant\<close> survives the next debate round,
  and so the whole loop.
\<close>

section \<open>Results of actions\<close>

definition yields :: "('a \<Rightarrow> bool) \<Rightarrow> 'a act \<Rightarrow> bool" where
  "yields P m \<longleftrightarrow> (\<forall>w x w'. m w = (Inr x, w') \<longrightarrow> P x)"

named_theorems yields_rules \<open>rules that decompose a result predicate along the action\<close>

lemma yieldsD: "yields P m \<Longrightarrow> m w = (Inr x, w') \<Longrightarrow> P x"
  by (auto simp: yields_def)

lemma yields_return [yields_rules]: "P x \<Longrightarrow> yields P (returnE x)"
  by (simp add: yields_def returnE_def)

lemma yields_throw [yields_rules]: "yields P (throwE e)"
  by (simp add: yields_def throwE_def)

lemma yields_bind [yields_rules]: "(\<And>x. yields P (k x)) \<Longrightarrow> yields P (bindE m k)"
  by (auto simp: yields_def bindE_def split: prod.splits sum.splits)

lemma yields_if [yields_rules]: "(b \<Longrightarrow> yields P m) \<Longrightarrow> (\<not> b \<Longrightarrow> yields P n) \<Longrightarrow> yields P (if b then m else n)"
  by simp

lemma yields_option [yields_rules]:
  "(x = None \<Longrightarrow> yields P m) \<Longrightarrow> (\<And>y. x = Some y \<Longrightarrow> yields P (n y)) \<Longrightarrow> yields P (case x of None \<Rightarrow> m | Some y \<Rightarrow> n y)"
  by (cases x) simp_all

lemma yields_sum [yields_rules]:
  "(\<And>a. x = Inl a \<Longrightarrow> yields P (m a)) \<Longrightarrow> (\<And>b. x = Inr b \<Longrightarrow> yields P (n b)) \<Longrightarrow>
     yields P (case x of Inl a \<Rightarrow> m a | Inr b \<Rightarrow> n b)"
  by (cases x) simp_all

lemma yields_prod [yields_rules]: "(\<And>a b. p = (a, b) \<Longrightarrow> yields P (f a b)) \<Longrightarrow> yields P (case p of (a, b) \<Rightarrow> f a b)"
  by (cases p) simp

lemma yields_Let [yields_rules]: "(\<And>x. x = e \<Longrightarrow> yields P (f x)) \<Longrightarrow> yields P (Let e f)"
  by simp

text \<open>What holds after an action that succeeds, from a state that satisfies an invariant.\<close>

definition ensures :: "(World \<Rightarrow> bool) \<Rightarrow> ('a \<Rightarrow> World \<Rightarrow> bool) \<Rightarrow> 'a act \<Rightarrow> bool" where
  "ensures I Q m \<longleftrightarrow> (\<forall>w x w'. I w \<longrightarrow> m w = (Inr x, w') \<longrightarrow> Q x w')"

named_theorems ensures_rules \<open>rules that carry an invariant to the end of an action\<close>

lemma ensuresD: "ensures I Q m \<Longrightarrow> I w \<Longrightarrow> m w = (Inr x, w') \<Longrightarrow> Q x w'"
  by (auto simp: ensures_def)

lemma ensures_weaken: "ensures I Q m \<Longrightarrow> (\<And>x w. Q x w \<Longrightarrow> Q' x w) \<Longrightarrow> ensures I Q' m"
  by (auto simp: ensures_def)

lemma ensures_bind [ensures_rules]:
  "keeps I m \<Longrightarrow> (\<And>x. ensures I Q (k x)) \<Longrightarrow> ensures I Q (bindE m k)"
  by (fastforce simp: ensures_def keeps_def bindE_def split: prod.splits sum.splits)

lemma ensures_return [ensures_rules]: "(\<And>w. I w \<Longrightarrow> Q x w) \<Longrightarrow> ensures I Q (returnE x)"
  by (simp add: ensures_def returnE_def)

lemma ensures_throw [ensures_rules]: "ensures I Q (throwE e)"
  by (simp add: ensures_def throwE_def)

lemma ensures_modifySt:
  "(\<And>w. I w \<Longrightarrow> J (w\<lparr> w_st := f (w_st w) \<rparr>)) \<Longrightarrow> ensures J Q k \<Longrightarrow> ensures I Q (bindE (modifySt f) (\<lambda>_. k))"
  by (fastforce simp: ensures_def bindE_def modifySt_def)

lemma ensures_getSt: "(\<And>st. ensures (\<lambda>w. I w \<and> w_st w = st) Q (k st)) \<Longrightarrow> ensures I Q (bindE getSt k)"
  by (simp add: ensures_def bindE_def getSt_def)

lemma ensures_getCase: "(\<And>c. ensures (\<lambda>w. I w \<and> w_case w = c) Q (k c)) \<Longrightarrow> ensures I Q (bindE getCase k)"
  by (simp add: ensures_def bindE_def getCase_def)

lemma ensures_prod [ensures_rules]:
  "(\<And>a b. p = (a, b) \<Longrightarrow> ensures I Q (f a b)) \<Longrightarrow> ensures I Q (case p of (a, b) \<Rightarrow> f a b)"
  by (cases p) simp

lemma ensures_option [ensures_rules]:
  "(x = None \<Longrightarrow> ensures I Q m) \<Longrightarrow> (\<And>y. x = Some y \<Longrightarrow> ensures I Q (n y)) \<Longrightarrow>
     ensures I Q (case x of None \<Rightarrow> m | Some y \<Rightarrow> n y)"
  by (cases x) simp_all

lemma ensures_sum [ensures_rules]:
  "(\<And>a. x = Inl a \<Longrightarrow> ensures I Q (m a)) \<Longrightarrow> (\<And>b. x = Inr b \<Longrightarrow> ensures I Q (n b)) \<Longrightarrow>
     ensures I Q (case x of Inl a \<Rightarrow> m a | Inr b \<Rightarrow> n b)"
  by (cases x) simp_all

lemma ensures_Let [ensures_rules]: "(\<And>x. x = e \<Longrightarrow> ensures I Q (f x)) \<Longrightarrow> ensures I Q (Let e f)"
  by simp

text \<open>What each action answers: its status and that only the two final actions end the run.\<close>

definition step_table :: "(string \<times> CaseStatus list) list" where
  "step_table =
     [(''start'', [CaseStatusNormalizing]), (''normalize'', [CaseStatusContextBuilding]),
      (''build_context'', [CaseStatusRetrievingMemory]), (''retrieve_memory'', [CaseStatusInvestigating]),
      (''investigate'', [CaseStatusEvidenceGating]), (''gate_evidence'', [CaseStatusCollectingVotes]),
      (''collect_votes'', [CaseStatusConsensusCheck]),
      (''check_consensus'', [CaseStatusResolving, CaseStatusDebating, CaseStatusDeadlocked]),
      (''debate'', [CaseStatusReflecting]), (''reflect'', [CaseStatusRevoting]),
      (''revote'', [CaseStatusConsensusCheck]), (''resolve'', [CaseStatusGeneratingReport]),
      (''generate_report'', [CaseStatusSavingMemory]), (''save_memory'', [CaseStatusEvaluating]),
      (''evaluate'', [CaseStatusResolved]), (''complete'', [CaseStatusResolved]),
      (''deadlock'', [CaseStatusDeadlocked])]"

definition step_target :: "string \<Rightarrow> CaseStatus set" where
  "step_target a = (case map_of step_table a of None \<Rightarrow> {} | Some ss \<Rightarrow> set ss)"

definition step_answer :: "string \<Rightarrow> step_result \<Rightarrow> bool" where
  "step_answer a r \<longleftrightarrow> fst r \<in> step_target a \<and> (snd r \<longrightarrow> isNormalTerminal (fst r))"

lemma yields_consensus_route: "yields (step_answer ''check_consensus'') (consensus_route orc st res)"
  by (cases "cr_Outcome res")
    (auto simp: consensus_route_def step_answer_def step_target_def step_table_def intro!: yields_rules)

lemmas step_defs =
  stepStart_def stepNormalize_def stepBuildContext_def stepRetrieveMemory_def stepInvestigate_def
  stepGateEvidence_def stepCollectVotes_def stepCheckConsensus_def stepDebate_def stepReflect_def
  stepRevote_def stepResolve_def stepGenerateReport_def stepSaveMemory_def stepEvaluate_def
  stepComplete_def stepDeadlock_def

lemma step_yields:
  "yields (step_answer ''start'') stepStart"
  "yields (step_answer ''normalize'') (stepNormalize orc env)"
  "yields (step_answer ''build_context'') (stepBuildContext env)"
  "yields (step_answer ''retrieve_memory'') (stepRetrieveMemory env)"
  "yields (step_answer ''investigate'') (stepInvestigate orc env)"
  "yields (step_answer ''gate_evidence'') (stepGateEvidence env)"
  "yields (step_answer ''collect_votes'') (stepCollectVotes orc env)"
  "yields (step_answer ''check_consensus'') (stepCheckConsensus orc env)"
  "yields (step_answer ''debate'') (stepDebate orc env)"
  "yields (step_answer ''reflect'') (stepReflect env)"
  "yields (step_answer ''revote'') (stepRevote orc env)"
  "yields (step_answer ''resolve'') (stepResolve orc env)"
  "yields (step_answer ''generate_report'') (stepGenerateReport env)"
  "yields (step_answer ''save_memory'') (stepSaveMemory env)"
  "yields (step_answer ''evaluate'') (stepEvaluate env)"
  "yields (step_answer ''complete'') stepComplete"
  "yields (step_answer ''deadlock'') stepDeadlock"
  unfolding step_defs
  by (intro yields_consensus_route yields_rules;
      simp add: step_answer_def step_target_def step_table_def isNormalTerminal_def)+

lemma step_answers:
  "map_of (buildActionRegistry orc env) a = Some h \<Longrightarrow> yields (step_answer a) h"
  unfolding buildActionRegistry_def by (auto simp: step_yields split: if_splits)

lemma dispatch_answers:
  "yields (step_answer (action_for orc prevStatus status)) (dispatch orc env prevStatus status)"
  unfolding dispatch_def by (intro yields_if yields_bind yields_throw yields_option step_answers)

section \<open>What a run may do\<close>

definition resolution_from :: "string \<Rightarrow> int64 \<Rightarrow> Resolution option \<Rightarrow> bool" where
  "resolution_from cid gen r \<longleftrightarrow>
     (\<forall>res. r = Some res \<longrightarrow> r_CaseID res = cid \<and> r_ExecutionGeneration res = gen)"

text \<open>
  The effects open to the run of case \<open>cid\<close> in generation \<open>gen\<close> under the owner \<open>ex\<close>: authoritative
  writes carry the owner and the provenance of the run, and the unfenced forms are left to
  generation zero.
\<close>

fun permitted :: "string \<Rightarrow> int64 \<Rightarrow> ExecutionContext option \<Rightarrow> effect \<Rightarrow> bool" where
  "permitted cid gen ex (FxCreateOwned x a) =
     (ex = Some x \<and> IsDurable ex \<and> artifact_case a = cid \<and> artifact_generation a = gen)"
| "permitted cid gen ex (FxCreate a) =
     (\<not> IsDurable ex \<and> gen \<le> 0 \<and> artifact_case a = cid \<and> artifact_generation a = gen)"
| "permitted cid gen ex (FxCreateResolution res) = (gen \<le> 0 \<and> resolution_from cid gen (Some res))"
| "permitted cid gen ex (FxCommitStatusOwned x src dst ev) =
     (ex = Some x \<and> IsDurable ex \<and> x_CaseID x = cid \<and> x_ExecutionGeneration x = gen \<and>
      me_CaseID ev = cid \<and> me_ExecutionGeneration ev = gen)"
| "permitted cid gen ex (FxCommitStatus i src dst ev) = (gen \<le> 0 \<and> i = cid)"
| "permitted cid gen ex (FxUpdateStatusIfCurrent i src dst) = (gen \<le> 0 \<and> i = cid)"
| "permitted cid gen ex (FxUpdateStatus i dst) = (gen \<le> 0 \<and> i = cid)"
| "permitted cid gen ex (FxCommitTerminalOwned x src dst r ev) =
     (ex = Some x \<and> IsDurable ex \<and> x_CaseID x = cid \<and> x_ExecutionGeneration x = gen \<and>
      me_CaseID ev = cid \<and> me_ExecutionGeneration ev = gen \<and> resolution_from cid gen r \<and> isNormalTerminal dst)"
| "permitted cid gen ex (FxCommitTerminal i src dst r ev) =
     (gen \<le> 0 \<and> i = cid \<and> resolution_from cid gen r)"
| "permitted cid gen ex _ = True"

locale action_invariant =
  fixes I :: "World \<Rightarrow> bool" and cid :: string and gen :: int64 and ex :: "ExecutionContext option"
  assumes ident: "I w \<Longrightarrow> c_ID (w_case w) = cid \<and> c_ExecutionGeneration (w_case w) = gen \<and>
      ss_Execution (w_st w) = ex \<and> resolution_from cid gen (ss_Resolution (w_st w))"
    and effect_kept: "I w \<Longrightarrow> permitted cid gen ex fx \<Longrightarrow> I (tick fx w)"
    and status_kept: "I w \<Longrightarrow> I (w\<lparr> w_case := (w_case w)\<lparr> c_Status := s \<rparr> \<rparr>)"
begin

subsection \<open>Primitive actions\<close>

lemma keeps_getCase: "(\<And>c. c_ID c = cid \<Longrightarrow> c_ExecutionGeneration c = gen \<Longrightarrow> keeps I (k c)) \<Longrightarrow> keeps I (bindE getCase k)"
  using ident by (simp add: keeps_def bindE_def getCase_def)

lemma keeps_getSt:
  "(\<And>st. ss_Execution st = ex \<Longrightarrow> resolution_from cid gen (ss_Resolution st) \<Longrightarrow> keeps I (k st)) \<Longrightarrow>
     keeps I (bindE getSt k)"
  using ident by (simp add: keeps_def bindE_def getSt_def)

lemma keeps_callWrite: "permitted cid gen ex fx \<Longrightarrow> keeps I (callWrite env fx)"
  by (simp add: keeps_def callWrite_def effect_kept)

lemma keeps_callCommit: "permitted cid gen ex fx \<Longrightarrow> keeps I (callCommit env fx)"
  by (simp add: keeps_def callCommit_def effect_kept)

lemma keeps_callRead: "permitted cid gen ex fx \<Longrightarrow> keeps I (callRead fx f)"
  by (simp add: keeps_def callRead_def effect_kept)

lemma keeps_setStatus: "keeps I (setStatus s)"
  by (simp add: keeps_def setStatus_def status_kept)

lemma keeps_persistArtifact: "keeps I m \<Longrightarrow> keeps I (persistArtifact ow m)"
  by (fastforce simp: keeps_def persistArtifact_def split: prod.splits sum.splits)

lemmas keeps_prims =
  keeps_getCase keeps_getSt keeps_callWrite keeps_callCommit keeps_callRead keeps_setStatus
  keeps_persistArtifact

subsection \<open>Persistence\<close>

lemma keeps_publish: "keeps I (publish env et p)"
  unfolding publish_def by (rule keeps_prims keeps_rules | simp)+

lemma keeps_publishLive: "keeps I (publishLive env ev)"
  unfolding publishLive_def by (rule keeps_prims keeps_rules | simp)+

lemma keeps_liftErr: "keeps I (liftErr e)"
  unfolding liftErr_def by (rule keeps_rules | simp)+

lemma keeps_verify_kind: "keeps I rows \<Longrightarrow> keeps I (verify_kind kind cited rows g rowID generation)"
  unfolding verify_kind_def by (rule keeps_rules keeps_liftErr | assumption)+

lemma keeps_verifyResolutionArtifacts: "keeps I (verifyResolutionArtifacts env ro)"
  unfolding verifyResolutionArtifacts_def
  by (rule keeps_rules keeps_verify_kind keeps_callRead | simp)+

lemma keeps_confirmCurrentStatus: "gen \<le> 0 \<Longrightarrow> keeps I (confirmCurrentStatus env expected target)"
  unfolding confirmCurrentStatus_def by (rule keeps_prims keeps_rules | simp)+

lemma keeps_persistArtifactValue:
  assumes "ow = ex" "artifact_case a = cid" "artifact_generation a = gen"
  shows "keeps I (persistArtifactValue env ow a)"
  unfolding persistArtifactValue_def
  by (rule keeps_rules keeps_callWrite | use assms in \<open>simp split: if_splits\<close>)+

lemma keeps_persist:
  "ow = ex \<Longrightarrow> artifact_case a = cid \<Longrightarrow> artifact_generation a = gen \<Longrightarrow> keeps I (persist env ow a)"
  by (intro keeps_persistArtifact keeps_persistArtifactValue)

lemma keeps_advanceStatus: "ow = ex \<Longrightarrow> keeps I (advanceStatus env src dst rnd ow)"
  unfolding advanceStatus_def
  by (rule keeps_prims keeps_rules keeps_publish keeps_publishLive
      | (simp add: NewEvent_def owner_matches_def fenced_def split: option.splits; fail)
      | (simp add: fenced_def))+

lemma keeps_commit_non_atomic:
  assumes "gen \<le> 0" "resolution_from cid gen r"
  shows "keeps I (commit_non_atomic env expected target r ev)"
  unfolding commit_non_atomic_def
  by (rule keeps_rules keeps_verifyResolutionArtifacts keeps_confirmCurrentStatus keeps_callWrite keeps_publish
      | use assms in simp)+

lemma keeps_commitTerminal:
  assumes "ow = ex \<and> isNormalTerminal target \<or> ow = None" "resolution_from cid gen r" "me_CaseID ev = cid"
  shows "keeps I (commitTerminal env expected target r ev ow)"
  unfolding commitTerminal_def
  by (rule keeps_prims keeps_rules keeps_publish keeps_publishLive keeps_commit_non_atomic keeps_confirmCurrentStatus
      | (use assms in \<open>simp add: owner_matches_def fenced_def split: option.splits\<close>; fail)
      | (use assms in \<open>auto simp: owner_matches_def fenced_def split: option.splits\<close>; fail))+

lemma keeps_fail: "keeps I (fail env cause)"
  unfolding fail_def
  by (rule keeps_prims keeps_rules keeps_commitTerminal | simp add: resolution_from_def NewEvent_def)+

subsection \<open>Artifacts\<close>

lemma agent_artifacts_from:
  assumes "c_ID c = cid" "c_ExecutionGeneration c = gen" "a \<in> set (agent_artifacts env c cfg r rnd phase m)"
  shows "artifact_case a = cid \<and> artifact_generation a = gen"
  using assms
  by (auto simp: agent_artifacts_def Let_def run_record_def evidence_copy_def claim_copy_def toolcall_row_def
      split: option.splits)

lemma keeps_persist_agents:
  "ow = ex \<Longrightarrow> keeps I (persist_agents env configs ow rnd phase i rs m votes)"
proof (induction rs arbitrary: i m votes)
  case (Cons r rs)
  show ?case
    unfolding persist_agents.simps
    by (rule keeps_getCase keeps_rules keeps_persist Cons.IH Cons.prems | simp add: agent_artifacts_from)+
qed (simp add: keeps_return)

lemma vote_rows_from:
  assumes "Some v \<in> set (vote_rows c configs rnd phase votes)"
  shows "v_CaseID v = c_ID c \<and> v_ExecutionGeneration v = c_ExecutionGeneration c"
  using assms by (auto simp: vote_rows_def vote_row_def eq_commute [of "Some v"])

lemma keeps_persistArtifacts:
  "ow = ex \<Longrightarrow> keeps I (persistArtifacts env configs results votes rnd phase ow)"
  unfolding persistArtifacts_def
  by (rule keeps_getCase keeps_rules keeps_persist_agents keeps_persist
      | (simp add: set_somes; fail) | (use vote_rows_from in \<open>fastforce simp: set_somes\<close>))+

subsection \<open>Dispatcher\<close>

lemma keeps_recordRetrievalFailure: "keeps I (recordRetrievalFailure env c e)"
  unfolding recordRetrievalFailure_def by (rule keeps_prims keeps_rules | simp)+

lemma keeps_retrieve_chunks: "keeps I (retrieve_chunks env c queries)"
proof -
  have failure: "keeps I (bindE (recordRetrievalFailure env c e) (\<lambda>_. returnE ([] :: KnowledgeChunk list)))" for e
    by (rule keeps_bind keeps_recordRetrievalFailure keeps_return)+
  have "I (snd (retrieve_chunks env c queries w))" if "I w" for w
  proof -
    have ticked: "I (tick (FxRetrieve queries) w)" using that by (simp add: effect_kept)
    show ?thesis
      using ticked failure [unfolded keeps_def, rule_format, OF ticked]
      by (cases "a_retrieve env (w_log w) queries") (simp_all add: retrieve_chunks_def callRead_def)
  qed
  then show ?thesis by (simp add: keeps_def)
qed

lemma keeps_applyBindings: "keeps I (applyBindings env actx)"
proof -
  have "keeps I (\<lambda>w. case callRead (FxBindings u) (\<lambda>l. a_bindings env l u) w of
      (Inr bs, w') \<Rightarrow> (Inr (actx\<lparr> ac_ToolBindings := bs \<rparr>), w') | (Inl e, w') \<Rightarrow> (Inr actx, w'))" for u
    by (simp add: keeps_def callRead_def effect_kept split: sum.splits)
  then show ?thesis unfolding applyBindings_def by (intro keeps_bind keeps_get keeps_if keeps_return)
qed

lemma keeps_buildBase: "keeps I (buildBase env task)"
  unfolding buildBase_def ContextBuilder_Build_def
  by (rule keeps_rules keeps_retrieve_chunks keeps_applyBindings)+

lemma keeps_callAgents: "keeps I (callAgents env jobs)"
proof -
  have "I w \<Longrightarrow> I (w\<lparr> w_log := w_log w @ map (\<lambda>(cfg, actx). FxRunAgent (mc_Code cfg) actx) jobs \<rparr>)" for w
  proof (induction jobs arbitrary: w)
    case (Cons j jobs)
    obtain cfg actx where j: "j = (cfg, actx)" by fastforce
    from Cons.IH [of "tick (FxRunAgent (mc_Code cfg) actx) w"] Cons.prems effect_kept show ?case
      by (simp add: j tick_def)
  qed simp
  then show ?thesis by (simp add: keeps_def callAgents_def)
qed

lemma keeps_RetryAgent: "keeps I (RetryAgentForExecution env task cfg rnd attempt phase execution)"
  unfolding RetryAgentForExecution_def by (rule keeps_rules keeps_buildBase keeps_callAgents)+

lemma keeps_retry_agent: "keeps I (retry_agent env task cfg rnd phase execution attempt n r)"
  by (induction n arbitrary: attempt r) (auto intro!: keeps_rules keeps_RetryAgent)

lemma keeps_retry_loop: "keeps I (retry_loop env configs task rnd phase execution limit i rs)"
  by (induction rs arbitrary: i) (auto intro!: keeps_rules keeps_retry_agent)

lemma keeps_retryFailedAgents: "keeps I (retryFailedAgents orc env task rs rnd phase execution)"
  unfolding retryFailedAgents_def by (rule keeps_rules keeps_retry_loop)+

lemma keeps_Dispatch:
  "keeps I (DispatchForExecution env configs task rnd execution)"
  "keeps I (DispatchReconsiderForExecution env configs task packet prev rnd execution)"
  unfolding DispatchForExecution_def DispatchReconsiderForExecution_def
  by (rule keeps_rules keeps_buildBase keeps_callAgents)+

subsection \<open>Ends of an iteration\<close>

lemma keeps_advance_step: "keeps I (advance_step env status next)"
  unfolding advance_step_def by (rule keeps_getSt) (simp add: keeps_advanceStatus)

lemma keeps_terminal_step: "isNormalTerminal next \<Longrightarrow> keeps I (terminal_step env status next)"
  unfolding terminal_step_def
  by (rule keeps_getCase keeps_getSt keeps_commitTerminal keeps_setStatus keeps_rules
      | simp add: terminalCompletionEvent_def NewEvent_def)+

lemma keeps_done_step: "keeps I (done_step env status next)"
  unfolding done_step_def by (rule keeps_getSt keeps_advance_step keeps_rules)+

end

section \<open>Steps\<close>

locale step_invariant = action_invariant +
  assumes state_kept: "I w \<Longrightarrow> ss_Execution st = ex \<Longrightarrow> ss_Resolution st = ss_Resolution (w_st w) \<Longrightarrow>
      ss_Round st = ss_Round (w_st w) \<Longrightarrow> ss_MaxDebate st = ss_MaxDebate (w_st w) \<Longrightarrow>
      ss_Votes st = ss_Votes (w_st w) \<Longrightarrow> I (w\<lparr> w_st := st \<rparr>)"
begin

lemma keeps_modifySt:
  assumes "\<And>st. ss_Execution (f st) = ss_Execution st" "\<And>st. ss_Round (f st) = ss_Round st"
    and "\<And>st. ss_MaxDebate (f st) = ss_MaxDebate st" "\<And>st. ss_Resolution (f st) = ss_Resolution st"
    and "\<And>st. ss_Votes (f st) = ss_Votes st"
  shows "keeps I (modifySt f)"
  using assms ident by (simp add: keeps_def modifySt_def state_kept)

lemmas keeps_actions =
  keeps_getCase keeps_getSt keeps_persist keeps_callWrite keeps_callCommit keeps_callRead keeps_setStatus
  keeps_persistArtifact keeps_publish keeps_publishLive keeps_persistArtifacts
  keeps_retryFailedAgents keeps_Dispatch keeps_modifySt

lemma keeps_consensus_route: "keeps I (consensus_route orc st res)"
  unfolding consensus_route_def by (cases "cr_Outcome res") (auto intro: keeps_rules)

lemma keeps_steps:
  "keeps I stepStart" "keeps I (stepNormalize orc env)" "keeps I (stepBuildContext env)"
  "keeps I (stepRetrieveMemory env)" "keeps I (stepInvestigate orc env)" "keeps I (stepGateEvidence env)"
  "keeps I (stepCheckConsensus orc env)"
  "keeps I (stepReflect env)" "keeps I (stepSaveMemory env)" "keeps I stepComplete" "keeps I stepDeadlock"
  unfolding step_defs
  by (rule keeps_actions keeps_rules keeps_consensus_route | simp; fail | simp)+

lemma keeps_stepDebate: "keeps I (stepDebate orc env)"
  unfolding stepDebate_def
  by (rule keeps_actions keeps_rules | simp add: debate_round_def)+

lemma keeps_plain_handler:
  "map_of (buildActionRegistry orc env) a = Some h \<Longrightarrow>
     a \<notin> {''collect_votes'', ''revote'', ''resolve'', ''generate_report'', ''evaluate''} \<Longrightarrow> keeps I h"
  unfolding buildActionRegistry_def by (auto simp: keeps_steps keeps_stepDebate split: if_splits)

end

locale vote_invariant = step_invariant +
  assumes votes_kept: "I w \<Longrightarrow> I (w\<lparr> w_st := (w_st w)\<lparr> ss_Votes := vs \<rparr> \<rparr>)"
begin

lemma ballot_kept:
  assumes "I w" "ss_Execution st = ex" "ss_Resolution st = ss_Resolution (w_st w)"
    and "ss_Round st = ss_Round (w_st w)" "ss_MaxDebate st = ss_MaxDebate (w_st w)"
  shows "I (w\<lparr> w_st := st \<rparr>)"
proof -
  have "I (w\<lparr> w_st := st\<lparr> ss_Votes := ss_Votes (w_st w) \<rparr> \<rparr>)"
    using assms by (intro state_kept) simp_all
  from votes_kept [OF this, of "ss_Votes st"] show ?thesis by simp
qed

lemma keeps_ballots:
  assumes "\<And>st. ss_Execution (f st) = ss_Execution st" "\<And>st. ss_Round (f st) = ss_Round st"
    and "\<And>st. ss_MaxDebate (f st) = ss_MaxDebate st" "\<And>st. ss_Resolution (f st) = ss_Resolution st"
  shows "keeps I (modifySt f)"
  using assms ident by (simp add: keeps_def modifySt_def ballot_kept)

lemma keeps_stepCollectVotes: "keeps I (stepCollectVotes orc env)"
  unfolding stepCollectVotes_def
  by (rule keeps_actions(1-13) keeps_ballots keeps_rules | simp; fail | simp)+

lemma keeps_vote_handler:
  "map_of (buildActionRegistry orc env) a = Some h \<Longrightarrow>
     a \<notin> {''revote'', ''resolve'', ''generate_report'', ''evaluate''} \<Longrightarrow> keeps I h"
  using keeps_plain_handler [of orc env a h] unfolding buildActionRegistry_def
  by (auto simp: keeps_stepCollectVotes split: if_splits)

text \<open>The revote performs only permitted effects and then counts one more round.\<close>

lemma reflection_row_from:
  "rf_CaseID (reflection_row c m vs i rf) = c_ID c"
  "rf_ExecutionGeneration (reflection_row c m vs i rf) = c_ExecutionGeneration c"
  by (simp_all add: reflection_row_def remapReflection_def)

lemma ensures_getSt':
  "(\<And>st. ss_Execution st = ex \<Longrightarrow> resolution_from cid gen (ss_Resolution st) \<Longrightarrow> ensures I Q (k st)) \<Longrightarrow>
     ensures I Q (bindE getSt k)"
  using ident by (auto simp: ensures_def bindE_def getSt_def)

lemma ensures_getCase':
  "(\<And>c. c_ID c = cid \<Longrightarrow> c_ExecutionGeneration c = gen \<Longrightarrow> ensures I Q (k c)) \<Longrightarrow> ensures I Q (bindE getCase k)"
  using ident by (auto simp: ensures_def bindE_def getCase_def)

lemma ensures_round:
  assumes "\<And>st. ss_Execution (f st) = ss_Execution st" "\<And>st. ss_Round (f st) = ss_Round st + 1"
    and "\<And>st. ss_MaxDebate (f st) = ss_MaxDebate st" "\<And>st. ss_Resolution (f st) = ss_Resolution st"
  shows "ensures I (\<lambda>_ w'. \<exists>w. I w \<and> w' = w\<lparr> w_st := (w_st w)\<lparr> ss_Round := ss_Round (w_st w) + 1 \<rparr> \<rparr>)
     (bindE (modifySt f) (\<lambda>_. returnE y))"
proof -
  have "\<exists>v. I v \<and> w\<lparr> w_st := f (w_st w) \<rparr> = v\<lparr> w_st := (w_st v)\<lparr> ss_Round := ss_Round (w_st v) + 1 \<rparr> \<rparr>"
    if "I w" for w
  proof (intro exI conjI)
    show "I (w\<lparr> w_st := (f (w_st w))\<lparr> ss_Round := ss_Round (w_st w) \<rparr> \<rparr>)"
      using assms ident [OF that] by (intro ballot_kept [OF that]) simp_all
  qed (simp add: assms(2) [symmetric])
  then show ?thesis by (auto simp: ensures_def bindE_def modifySt_def returnE_def)
qed

lemma revote_next_round:
  "ensures I (\<lambda>_ w'. \<exists>w. I w \<and> w' = w\<lparr> w_st := (w_st w)\<lparr> ss_Round := ss_Round (w_st w) + 1 \<rparr> \<rparr>)
     (stepRevote orc env)"
  unfolding stepRevote_def Let_def
  by (rule ensures_getSt' ensures_getCase' ensures_round ensures_prod ensures_bind keeps_ignore keeps_publish
      keeps_persistArtifacts keeps_if keeps_return keeps_each keeps_persist
      | (simp; fail) | (auto simp: reflection_row_from; fail))+

end

locale resolution_invariant = vote_invariant +
  assumes resolution_kept: "I w \<Longrightarrow> resolution_from cid gen r \<Longrightarrow>
      I (w\<lparr> w_st := (w_st w)\<lparr> ss_Resolution := r \<rparr> \<rparr>)"
begin

lemma keeps_resolution:
  assumes "resolution_from cid gen (Some res)"
    and "\<And>st. r_CaseID (f st) = r_CaseID res \<and> r_ExecutionGeneration (f st) = r_ExecutionGeneration res"
  shows "keeps I (modifySt (\<lambda>st. st\<lparr> ss_Resolution := Some (f st) \<rparr>))"
  using assms ident by (auto simp: keeps_def modifySt_def resolution_from_def intro!: resolution_kept)

lemma keeps_new_resolution:
  assumes "\<And>st. ss_Execution (f st) = ss_Execution st" "\<And>st. ss_Round (f st) = ss_Round st"
    and "\<And>st. ss_MaxDebate (f st) = ss_MaxDebate st" "\<And>st. resolution_from cid gen (ss_Resolution (f st))"
  shows "keeps I (modifySt f)"
proof -
  have "I (w\<lparr> w_st := f (w_st w) \<rparr>)" if "I w" for w
  proof -
    have "I (w\<lparr> w_st := (f (w_st w))\<lparr> ss_Resolution := ss_Resolution (w_st w) \<rparr> \<rparr>)"
      using assms ident [OF that] by (intro ballot_kept [OF that]) simp_all
    from resolution_kept [OF this assms(4) [of "w_st w"]] show ?thesis by simp
  qed
  then show ?thesis by (simp add: keeps_def modifySt_def)
qed

lemma keeps_stepResolve: "keeps I (stepResolve orc env)"
proof -
  have "resolution_from cid gen (Some (resolution_of env c st))"
    if "c_ID c = cid" "c_ExecutionGeneration c = gen" for c st
    using that by (simp add: resolution_from_def resolution_of_def Let_def)
  then show ?thesis
    unfolding stepResolve_def
    by (auto intro!: keeps_getCase keeps_getSt keeps_bind keeps_throw keeps_return keeps_new_resolution
        simp: Let_def resolution_from_def split: sum.splits)
qed

lemma keeps_stepGenerateReport: "keeps I (stepGenerateReport env)"
  unfolding stepGenerateReport_def
  by (rule keeps_getCase keeps_getSt keeps_wrap keeps_callRead keeps_ignore keeps_publish keeps_resolution
      keeps_option keeps_bind keeps_throw keeps_return | simp)+

lemma keeps_stepEvaluate: "keeps I (stepEvaluate env)"
  unfolding stepEvaluate_def
  by (rule keeps_getSt keeps_resolution keeps_option keeps_bind keeps_throw keeps_return | simp)+

lemma keeps_handler:
  "map_of (buildActionRegistry orc env) a = Some h \<Longrightarrow> a \<noteq> ''revote'' \<Longrightarrow> keeps I h"
  using keeps_vote_handler [of orc env a h] unfolding buildActionRegistry_def
  by (auto simp: keeps_stepResolve keeps_stepGenerateReport keeps_stepEvaluate split: if_splits)

lemma keeps_dispatch_same_round:
  "action_for orc prevStatus status \<noteq> ''revote'' \<Longrightarrow> keeps I (dispatch orc env prevStatus status)"
  unfolding dispatch_def
  by (intro keeps_if keeps_option keeps_bind keeps_setStatus keeps_throw) (rule keeps_handler)

end

section \<open>Runs\<close>

locale run_invariant = resolution_invariant +
  assumes round_kept: "I w \<Longrightarrow> I (w\<lparr> w_st := (w_st w)\<lparr> ss_Round := ss_Round (w_st w) + 1 \<rparr> \<rparr>)"
begin

lemma keeps_next_round:
  assumes "\<And>st. ss_Execution (f st) = ss_Execution st" "\<And>st. ss_Round (f st) = ss_Round st + 1"
    and "\<And>st. ss_MaxDebate (f st) = ss_MaxDebate st" "\<And>st. ss_Resolution (f st) = ss_Resolution st"
  shows "keeps I (modifySt f)"
  using ensures_round [OF assms] round_kept
  by (fastforce simp: ensures_def keeps_def bindE_def modifySt_def returnE_def)

lemma keeps_stepRevote: "keeps I (stepRevote orc env)"
  unfolding stepRevote_def Let_def
  by (rule keeps_getSt keeps_getCase keeps_next_round keeps_prod keeps_bind keeps_ignore keeps_publish
      keeps_persistArtifacts keeps_if keeps_return keeps_each keeps_persist
      | (simp; fail) | (auto simp: reflection_row_from; fail))+

lemma keeps_dispatch: "keeps I (dispatch orc env prevStatus status)"
proof -
  have "keeps I h" if "map_of (buildActionRegistry orc env) a = Some h" for a h
  proof (cases "a = ''revote''")
    case True
    with that show ?thesis by (auto simp: buildActionRegistry_def intro: keeps_stepRevote)
  qed (use that keeps_handler in blast)
  then show ?thesis
    unfolding dispatch_def by (intro keeps_if keeps_option keeps_bind keeps_setStatus keeps_throw)
qed

lemma keeps_loop: "I w \<Longrightarrow> orch_loop orc env n prevStatus status w = Some (r, w') \<Longrightarrow> I w'"
proof (induction n arbitrary: prevStatus status w)
  case (Suc n)
  show ?case
  proof (cases "blueprint_error orc prevStatus status")
    case (Some e)
    with Suc.prems show ?thesis by (auto dest: keepsD [OF keeps_fail])
  next
    case None
    obtain r1 w1 where d: "dispatch orc env prevStatus status w = (r1, w1)" by fastforce
    then have I1: "I w1" using Suc.prems(1) keeps_dispatch keepsD by blast
    show ?thesis
    proof (cases r1)
      case (Inl e)
      with Suc.prems(2) None d I1 show ?thesis by (auto split: if_splits dest: keepsD [OF keeps_fail])
    next
      case (Inr a)
      obtain nxt fin where a: "a = (nxt, fin)" by fastforce
      obtain r2 w2 where adv: "advance_step env status nxt w1 = (r2, w2)" by fastforce
      then have "I w2" using I1 keeps_advance_step keepsD by blast
      with Suc.prems(2) None d Inr a adv I1 show ?thesis
        by (auto split: if_splits sum.splits dest: keepsD [OF keeps_terminal_step] keepsD [OF keeps_done_step]
            intro: Suc.IH)
    qed
  qed
qed simp

lemma keeps_orchestrate:
  assumes "I \<lparr> w_log = l, w_case = c, w_st = start_state c execution \<rparr>"
    and "orchestrate orc env n c execution l = Some (r, w')"
  shows "I w'"
proof -
  have replay: "keeps I (replay_durable env status x)" for status x
    unfolding replay_durable_def by (rule keeps_getCase keeps_callCommit keeps_callRead keeps_rules | simp)+
  have run: "I w \<Longrightarrow> run_case orc env n w = Some (r, w') \<Longrightarrow> I w'" for w
    by (auto simp: run_case_def Let_def split: if_splits intro: keeps_loop)
  let ?w = "\<lparr> w_log = l, w_case = c, w_st = start_state c execution \<rparr>"
  let ?read = "callRead (FxGetResolution (c_ID c)) (\<lambda>l. a_resolution env l (c_ID c)) ?w"
  have read: "I (snd ?read)" using assms(1) by (simp add: callRead_def effect_kept)
  then have settled: "I (snd (setStatus CaseStatusResolved (snd ?read)))"
    by (simp add: setStatus_def status_kept)
  from assms(2) consider (durable) status x where "replay_durable env status x ?w = (r, w')"
    | (found) "w' = snd (setStatus CaseStatusResolved (snd ?read))"
    | (again) "run_case orc env n (snd ?read) = Some (r, w')" | (fresh) "run_case orc env n ?w = Some (r, w')"
    by (auto simp: orchestrate_def Let_def split: option.splits if_splits sum.splits prod.splits)
  then show ?thesis
    by cases (use assms(1) replay read settled run keepsD in blast)+
qed

end

section \<open>Rules for the loop\<close>

lemma fail_no_result: "fail env e w \<noteq> (Inr x, w')"
proof -
  have "yields (\<lambda>_. False) (fail env e :: 'a act)"
    unfolding fail_def by (intro yields_rules)
  then show ?thesis by (auto simp: yields_def)
qed

text \<open>The result of a run: an invariant of the iterations and what its terminal step makes of it.\<close>

lemma loop_result:
  assumes "orch_loop orc env n prevStatus status w = Some (Inr r, w')" and "P status w"
    and step: "\<And>prevStatus status w next fin w1 w2. P status w \<Longrightarrow>
      dispatch orc env prevStatus status w = (Inr (next, fin), w1) \<Longrightarrow> \<not> isNormalTerminal next \<Longrightarrow>
      advance_step env status next w1 = (Inr (), w2) \<Longrightarrow> P next w2"
    and final: "\<And>prevStatus status w next fin w1. P status w \<Longrightarrow>
      dispatch orc env prevStatus status w = (Inr (next, fin), w1) \<Longrightarrow> isNormalTerminal next \<Longrightarrow>
      terminal_step env status next w1 = (Inr r, w') \<Longrightarrow> Q"
  shows Q
  using assms(1,2)
proof (induction n arbitrary: prevStatus status w)
  case (Suc n)
  from Suc.prems(1) obtain nxt fin w1 where d: "dispatch orc env prevStatus status w = (Inr (nxt, fin), w1)"
    by (auto simp: fail_no_result split: option.splits sum.splits prod.splits if_splits)
  have "step_answer (action_for orc prevStatus status) (nxt, fin)"
    using dispatch_answers d by (rule yieldsD)
  then have fin: "fin \<Longrightarrow> isNormalTerminal nxt" by (simp add: step_answer_def)
  show ?case
  proof (cases "isNormalTerminal nxt")
    case True
    with Suc.prems(1) d have "terminal_step env status nxt w1 = (Inr r, w')"
      by (auto simp: fail_no_result split: option.splits)
    with final [OF Suc.prems(2) d True] show ?thesis .
  next
    case False
    with Suc.prems(1) d fin obtain w2 where "advance_step env status nxt w1 = (Inr (), w2)"
      and "orch_loop orc env n status nxt w2 = Some (Inr r, w')"
      by (auto simp: fail_no_result split: option.splits sum.splits prod.splits if_splits)
    with Suc.IH step [OF Suc.prems(2) d False] show ?thesis by blast
  qed
qed simp

text \<open>Termination: a measure that every iteration that goes on decreases.\<close>

lemma loop_terminates:
  fixes \<mu> :: "CaseStatus \<Rightarrow> World \<Rightarrow> nat"
  assumes "P status w" and "\<mu> status w < n"
    and step: "\<And>prevStatus status w next fin w1 w2. P status w \<Longrightarrow>
      dispatch orc env prevStatus status w = (Inr (next, fin), w1) \<Longrightarrow> \<not> isNormalTerminal next \<Longrightarrow>
      advance_step env status next w1 = (Inr (), w2) \<Longrightarrow> P next w2 \<and> \<mu> next w2 < \<mu> status w"
  shows "orch_loop orc env n prevStatus status w \<noteq> None"
  using assms(1,2)
proof (induction n arbitrary: prevStatus status w)
  case (Suc n)
  show ?case
  proof
    assume stuck: "orch_loop orc env (Suc n) prevStatus status w = None"
    then obtain nxt fin w1 w2 where "dispatch orc env prevStatus status w = (Inr (nxt, fin), w1)"
      and "\<not> isNormalTerminal nxt" and "advance_step env status nxt w1 = (Inr (), w2)"
      and "orch_loop orc env n status nxt w2 = None"
      by (auto split: option.splits sum.splits prod.splits if_splits)
    with Suc.IH [of nxt w2 status] step [OF Suc.prems(1)] Suc.prems(2) show False by fastforce
  qed
qed simp

end
