(* ===== verification/Gate.thy ===== *)
theory Gate
  imports Ledger
begin

text \<open>
  \<^verbatim>\<open>backend/domain/evidence/gate.go\<close>: the deterministic evidence gate and its custom rules.
  A violation carries its code, the offending field and the counts; the printed message is
  not modelled. \<open>GateResult\<close> collects violations as the code does, setting \<open>Passed\<close> with each.
  The main lemma states exactly when the gate passes.
\<close>

section \<open>Types\<close>

record GateViolation =
  gv_Code :: string
  gv_Field :: string
  gv_Current :: string
  gv_Required :: string

record GateResult =
  Passed :: bool
  Violations :: "GateViolation list"

type_synonym CustomRuleFunc =
  "EvidenceSummary \<Rightarrow> EvidenceLedger \<Rightarrow> string \<Rightarrow> GateViolation option"

type_synonym RuleRegistry = "string \<rightharpoonup> CustomRuleFunc"

definition violation :: "string \<Rightarrow> GateViolation" where
  "violation code = \<lparr> gv_Code = code, gv_Field = [], gv_Current = [], gv_Required = [] \<rparr>"

definition field_violation :: "string \<Rightarrow> string \<Rightarrow> GateViolation" where
  "field_violation code fld = (violation code)\<lparr> gv_Field := fld \<rparr>"

definition count_violation :: "string \<Rightarrow> int \<Rightarrow> int \<Rightarrow> GateViolation" where
  "count_violation code cur req =
     (violation code)\<lparr> gv_Current := itoa cur, gv_Required := itoa req \<rparr>"

definition add_violation :: "GateViolation \<Rightarrow> GateResult \<Rightarrow> GateResult" where
  "add_violation v res = \<lparr> Passed = False, Violations = Violations res @ [v] \<rparr>"

definition add_if :: "bool \<Rightarrow> GateViolation \<Rightarrow> GateResult \<Rightarrow> GateResult" where
  "add_if b v res = (if b then add_violation v res else res)"

section \<open>The gate\<close>

text \<open>
  \<open>allIDs\<close> is the key set of the code's \<^verbatim>\<open>allIDs\<close> map in one iteration order;
  \<open>typeCounts\<close> the counter kept per declared evidence type.
\<close>

definition allIDs :: "EvidenceSummary \<Rightarrow> string list" where
  "allIDs summary = remdups (concat (map snd (s_EvidenceByType summary)))"

definition typeCounts :: "EvidenceSummary \<Rightarrow> string \<Rightarrow> nat" where
  "typeCounts summary typ =
     sum_list (map (\<lambda>(t, ids). if t = typ then length ids else 0) (s_EvidenceByType summary))"

definition check_required_type ::
    "EvidenceSummary \<Rightarrow> EvidenceTypeRequirement \<Rightarrow> GateResult \<Rightarrow> GateResult" where
  "check_required_type summary rt =
     add_if (int (typeCounts summary (et_Type rt)) < et_MinCount rt)
       (field_violation ''MISSING_REQUIRED_TYPE'' (et_Type rt))"

definition check_evidence_id ::
    "EvidenceLedger \<Rightarrow> string \<Rightarrow> float64 \<Rightarrow> string \<Rightarrow> GateResult \<Rightarrow> GateResult" where
  "check_evidence_id ledger collectorCheck minRel evid res =
     (if \<not> ExistsCollected ledger evid collectorCheck then
        add_violation (field_violation ''EVIDENCE_NOT_FOUND'' evid) res
      else (case Ledger_Reliability ledger evid of
              None \<Rightarrow> add_violation (field_violation ''RELIABILITY_BELOW_THRESHOLD'' evid) res
            | Some rel \<Rightarrow>
                add_if (rel < minRel) (field_violation ''RELIABILITY_BELOW_THRESHOLD'' evid) res))"

definition check_support :: "EvidenceLedger \<Rightarrow> string \<Rightarrow> string \<Rightarrow> GateResult \<Rightarrow> GateResult" where
  "check_support ledger collectorCheck sid =
     add_if (\<not> ExistsCollected ledger sid collectorCheck) (field_violation ''CLAIM_UNSUPPORTED'' sid)"

definition check_rule ::
    "RuleRegistry \<Rightarrow> EvidenceSummary \<Rightarrow> EvidenceLedger \<Rightarrow> string \<Rightarrow> EvidenceRule
     \<Rightarrow> GateResult \<Rightarrow> GateResult" where
  "check_rule registry summary ledger collector rule res =
     (case registry (er_Code rule) of
        None \<Rightarrow> add_violation (violation ''UNKNOWN_CUSTOM_RULE'') res
      | Some fn \<Rightarrow> (case fn summary ledger collector of
                      None \<Rightarrow> res
                    | Some v \<Rightarrow> add_violation v res))"

definition Gate_Evaluate ::
    "RuleRegistry \<Rightarrow> EvidenceSummary option \<Rightarrow> EvidenceLedger \<Rightarrow> EvidenceStandard \<Rightarrow> string
     \<Rightarrow> GateResult" where
  "Gate_Evaluate registry summaryOpt ledger standard collector =
     (let res0 = \<lparr> Passed = True, Violations = [] \<rparr> in
      case summaryOpt of
        None \<Rightarrow> add_violation (violation ''NIL_SUMMARY'') res0
      | Some summary \<Rightarrow>
         (let ids = allIDs summary;
              res1 = add_if (int (length ids) < es_MinEvidenceCount standard)
                       (count_violation ''INSUFFICIENT_EVIDENCE'' (int (length ids))
                          (es_MinEvidenceCount standard)) res0;
              res2 = add_if (int (typeCounts summary ''quantitative'') < es_MinQuantitativeCount standard)
                       (count_violation ''INSUFFICIENT_QUANTITATIVE''
                          (int (typeCounts summary ''quantitative''))
                          (es_MinQuantitativeCount standard)) res1;
              res3 = fold (check_required_type summary) (es_RequiredTypes standard) res2;
              res4 = add_if (int (length (s_Claims summary)) < es_RequiredClaimCount standard)
                       (violation ''INSUFFICIENT_CLAIMS'') res3;
              collectorCheck = (if es_RequireOwnCollected standard then collector else []);
              res5 = (if length (Ledger_List ledger) > 0 then
                        fold (check_support ledger collectorCheck)
                          (concat (map sc_Supports (s_Claims summary)))
                          (fold (check_evidence_id ledger collectorCheck (es_MinReliability standard))
                             ids res4)
                      else res4)
          in fold (check_rule registry summary ledger collector) (es_CustomRules standard) res5))"

section \<open>Custom rules\<close>

definition utf8 :: "nat list \<Rightarrow> string" where
  "utf8 bytes = map char_of bytes"

definition claimContainsKeyword :: "EvidenceSummaryClaim list \<Rightarrow> string list \<Rightarrow> bool" where
  "claimContainsKeyword claims keywords =
     list_ex (\<lambda>c. list_ex (\<lambda>kw. str_contains (str_lower (sc_Statement c)) kw) keywords) claims"

definition checkWorstCaseClaimRequired :: CustomRuleFunc where
  "checkWorstCaseClaimRequired summary ledger collector =
     (if claimContainsKeyword (s_Claims summary)
         [''worst case'', ''worst-case'', utf8 [230, 156, 128, 229, 157, 143], utf8 [230, 156, 128, 229, 183, 174], utf8 [230, 156, 128, 231, 179, 159]]
      then None else Some (violation ''WORST_CASE_CLAIM_MISSING''))"

definition checkReversibilityAssessment :: CustomRuleFunc where
  "checkReversibilityAssessment summary ledger collector =
     (if claimContainsKeyword (s_Claims summary)
         [''reversible'', ''reversibility'', ''rollback'', ''undo'', utf8 [229, 143, 175, 233, 128, 134], utf8 [229, 155, 158, 230, 187, 154], utf8 [230, 146, 164, 233, 148, 128], utf8 [230, 129, 162, 229, 164, 141]]
      then None else Some (violation ''REVERSIBILITY_MISSING''))"

definition checkOpportunityCostClaim :: CustomRuleFunc where
  "checkOpportunityCostClaim summary ledger collector =
     (if claimContainsKeyword (s_Claims summary)
         [''opportunity cost'', ''opportunity'', ''trade-off'', ''tradeoff'', utf8 [230, 156, 186, 228, 188, 154, 230, 136, 144, 230, 156, 172], utf8 [230, 156, 186, 228, 188, 154], utf8 [230, 156, 186, 233, 129, 135], utf8 [228, 187, 163, 228, 187, 183], utf8 [230, 157, 131, 232, 161, 161]]
      then None else Some (violation ''OPPORTUNITY_COST_MISSING''))"

definition checkTimeWindowAssessment :: CustomRuleFunc where
  "checkTimeWindowAssessment summary ledger collector =
     (if claimContainsKeyword (s_Claims summary)
         [''time window'', ''timing'', ''window of opportunity'', ''deadline'', utf8 [230, 151, 182, 233, 151, 180, 231, 170, 151], utf8 [230, 151, 182, 233, 151, 180], utf8 [230, 151, 182, 230, 156, 186], utf8 [231, 170, 151, 229, 143, 163], utf8 [230, 136, 170, 230, 173, 162]]
      then None else Some (violation ''TIME_WINDOW_MISSING''))"

definition primary_source :: "EvidenceLedger \<Rightarrow> string \<Rightarrow> bool" where
  "primary_source ledger evid =
     (case Ledger_Get ledger evid of
        None \<Rightarrow> False
      | Some ev \<Rightarrow> e_SourceType ev = EvidenceSourceLocal \<or> e_SourceType ev = EvidenceSourceCodeRun)"

definition checkPrimarySourceRequired :: CustomRuleFunc where
  "checkPrimarySourceRequired summary ledger collector =
     (if length (Ledger_List ledger) = 0 then None
      else if list_ex (\<lambda>(t, ids). list_ex (primary_source ledger) ids) (s_EvidenceByType summary)
        then None
      else Some (violation ''PRIMARY_SOURCE_MISSING''))"

definition checkUtilityDimensionCoverage :: CustomRuleFunc where
  "checkUtilityDimensionCoverage summary ledger collector =
     (if length (Ledger_List ledger) = 0 then None
      else if length (s_Claims summary) \<ge> 2 \<and> length (s_EvidenceByType summary) \<ge> 2 then None
      else Some (violation ''DIMENSION_COVERAGE_WEAK''))"

definition DefaultRuleRegistry :: RuleRegistry where
  "DefaultRuleRegistry =
     map_of [(''worst_case_claim_required'', checkWorstCaseClaimRequired),
             (''reversibility_assessment'', checkReversibilityAssessment),
             (''opportunity_cost_claim'', checkOpportunityCostClaim),
             (''time_window_assessment'', checkTimeWindowAssessment),
             (''primary_source_required'', checkPrimarySourceRequired),
             (''utility_dimension_coverage'', checkUtilityDimensionCoverage)]"

section \<open>Lemmas\<close>

definition consistent :: "GateResult \<Rightarrow> bool" where
  "consistent res \<longleftrightarrow> (Passed res \<longleftrightarrow> Violations res = [])"

lemma Passed_add_violation [simp]: "\<not> Passed (add_violation v res)"
  by (simp add: add_violation_def)

lemma Passed_add_if [simp]: "Passed (add_if b v res) \<longleftrightarrow> \<not> b \<and> Passed res"
  by (simp add: add_if_def)

lemma consistent_add_violation [simp]: "consistent (add_violation v res)"
  by (simp add: add_violation_def consistent_def)

lemma consistent_add_if [simp]: "consistent res \<Longrightarrow> consistent (add_if b v res)"
  by (simp add: add_if_def)

lemma consistent_fold:
  "(\<And>x r. consistent r \<Longrightarrow> consistent (f x r)) \<Longrightarrow> consistent res \<Longrightarrow> consistent (fold f xs res)"
  by (induction xs arbitrary: res) simp_all

lemma Passed_fold:
  assumes "\<And>x r. Passed (f x r) \<longleftrightarrow> P x \<and> Passed r"
  shows "Passed (fold f xs res) \<longleftrightarrow> (\<forall>x \<in> set xs. P x) \<and> Passed res"
  using assms by (induction xs arbitrary: res) auto

lemma Passed_check_required_type:
  "Passed (check_required_type summary rt res) \<longleftrightarrow>
     et_MinCount rt \<le> int (typeCounts summary (et_Type rt)) \<and> Passed res"
  by (auto simp: check_required_type_def)

lemma Passed_check_evidence_id:
  "Passed (check_evidence_id ledger cc minRel evid res) \<longleftrightarrow>
     (ExistsCollected ledger evid cc \<and>
      (\<exists>rel. Ledger_Reliability ledger evid = Some rel \<and> minRel \<le> rel)) \<and> Passed res"
  by (auto simp: check_evidence_id_def split: option.splits)

lemma Passed_check_support:
  "Passed (check_support ledger cc sid res) \<longleftrightarrow> ExistsCollected ledger sid cc \<and> Passed res"
  by (auto simp: check_support_def)

lemma Passed_check_rule:
  "Passed (check_rule registry summary ledger collector rule res) \<longleftrightarrow>
     (\<exists>fn. registry (er_Code rule) = Some fn \<and> fn summary ledger collector = None) \<and> Passed res"
  by (auto simp: check_rule_def split: option.splits)

lemmas Passed_checks =
  Passed_fold [of "check_required_type _", OF Passed_check_required_type]
  Passed_fold [of "check_evidence_id _ _ _", OF Passed_check_evidence_id]
  Passed_fold [of "check_support _ _", OF Passed_check_support]
  Passed_fold [of "check_rule _ _ _ _", OF Passed_check_rule]

lemma consistent_checks:
  "consistent res \<Longrightarrow> consistent (check_required_type summary rt res)"
  "consistent res \<Longrightarrow> consistent (check_evidence_id ledger cc minRel evid res)"
  "consistent res \<Longrightarrow> consistent (check_support ledger cc sid res)"
  "consistent res \<Longrightarrow> consistent (check_rule registry summary ledger collector rule res)"
  by (auto simp: check_required_type_def check_evidence_id_def check_support_def check_rule_def
      split: option.splits)

text \<open>
  The gate's contract, clause by clause: counts of distinct cited evidence, of the declared
  types and of claims; authenticity and reliability of every citation when the run collected
  any evidence; every configured custom rule known and satisfied.
\<close>

definition evidence_authentic ::
    "EvidenceSummary \<Rightarrow> EvidenceLedger \<Rightarrow> EvidenceStandard \<Rightarrow> string \<Rightarrow> bool" where
  "evidence_authentic summary ledger standard collector \<longleftrightarrow>
     (let cc = (if es_RequireOwnCollected standard then collector else []) in
      (\<forall>i \<in> set (allIDs summary). ExistsCollected ledger i cc \<and>
         (\<exists>rel. Ledger_Reliability ledger i = Some rel \<and> es_MinReliability standard \<le> rel)) \<and>
      (\<forall>c \<in> set (s_Claims summary). \<forall>i \<in> set (sc_Supports c). ExistsCollected ledger i cc))"

definition gate_spec ::
    "RuleRegistry \<Rightarrow> EvidenceSummary \<Rightarrow> EvidenceLedger \<Rightarrow> EvidenceStandard \<Rightarrow> string \<Rightarrow> bool" where
  "gate_spec registry summary ledger standard collector \<longleftrightarrow>
     es_MinEvidenceCount standard \<le> int (length (allIDs summary)) \<and>
     es_MinQuantitativeCount standard \<le> int (typeCounts summary ''quantitative'') \<and>
     (\<forall>rt \<in> set (es_RequiredTypes standard).
        et_MinCount rt \<le> int (typeCounts summary (et_Type rt))) \<and>
     es_RequiredClaimCount standard \<le> int (length (s_Claims summary)) \<and>
     (Ledger_List ledger \<noteq> [] \<longrightarrow> evidence_authentic summary ledger standard collector) \<and>
     (\<forall>rule \<in> set (es_CustomRules standard).
        \<exists>fn. registry (er_Code rule) = Some fn \<and> fn summary ledger collector = None)"

lemma Gate_Evaluate_Passed:
  "Passed (Gate_Evaluate registry (Some summary) ledger standard collector) \<longleftrightarrow>
     gate_spec registry summary ledger standard collector"
  by (simp add: Gate_Evaluate_def gate_spec_def evidence_authentic_def Let_def Passed_checks
      not_less conj_ac)

lemma consistent_folds:
  assumes "consistent res"
  shows "consistent (fold (check_required_type summary) rts res)"
    "consistent (fold (check_evidence_id ledger cc minRel) ids res)"
    "consistent (fold (check_support ledger cc) sids res)"
    "consistent (fold (check_rule registry summary ledger collector) rules res)"
  by (rule consistent_fold [OF consistent_checks(1) assms]
      consistent_fold [OF consistent_checks(2) assms]
      consistent_fold [OF consistent_checks(3) assms]
      consistent_fold [OF consistent_checks(4) assms]; assumption)+

lemma Gate_Evaluate_consistent: "consistent (Gate_Evaluate registry s ledger standard collector)"
proof -
  have "consistent \<lparr> Passed = True, Violations = [] \<rparr>" by (simp add: consistent_def)
  then show ?thesis
    by (cases s) (simp_all add: Gate_Evaluate_def Let_def consistent_folds)
qed

lemma set_allIDs: "set (allIDs summary) = (\<Union>p \<in> set (s_EvidenceByType summary). set (snd p))"
  by (auto simp: allIDs_def)

lemma length_allIDs: "length (allIDs summary) = card (set (allIDs summary))"
  by (metis allIDs_def distinct_card distinct_remdups)

lemma typeCounts_perm:
  assumes "mset (s_EvidenceByType s) = mset (s_EvidenceByType s')"
  shows "typeCounts s typ = typeCounts s' typ"
proof -
  let ?f = "\<lambda>(t, ids :: string list). if t = typ then length ids else (0 :: nat)"
  have eq: "sum_list (map ?f xs) = sum_mset (image_mset ?f (mset xs))" for xs
    by (simp flip: sum_mset_sum_list)
  show ?thesis unfolding typeCounts_def eq assms by (rule refl)
qed

text \<open>Iterating the summary's map in another order changes no verdict of a default rule.\<close>

definition same_map :: "EvidenceSummary \<Rightarrow> EvidenceSummary \<Rightarrow> bool" where
  "same_map s s' \<longleftrightarrow> mset (s_EvidenceByType s) = mset (s_EvidenceByType s') \<and>
     s_Claims s = s_Claims s' \<and> s_RoleAssessment s = s_RoleAssessment s' \<and> s_Ready s = s_Ready s'"

lemma same_map_allIDs:
  assumes "same_map s s'"
  shows "set (allIDs s) = set (allIDs s')" "length (allIDs s) = length (allIDs s')"
proof -
  have "set (s_EvidenceByType s) = set (s_EvidenceByType s')"
    using assms by (metis same_map_def set_mset_mset)
  then show "set (allIDs s) = set (allIDs s')" by (simp add: set_allIDs)
  then show "length (allIDs s) = length (allIDs s')" by (simp add: length_allIDs)
qed

lemma same_map_default_rule:
  assumes "same_map s s'" and "DefaultRuleRegistry code = Some fn"
  shows "fn s l c = fn s' l c"
proof -
  have claims: "s_Claims s = s_Claims s'" using assms(1) by (simp add: same_map_def)
  have len: "length (s_EvidenceByType s) = length (s_EvidenceByType s')"
    using assms(1) by (metis same_map_def size_mset)
  have sets: "set (s_EvidenceByType s) = set (s_EvidenceByType s')"
    using assms(1) by (metis same_map_def set_mset_mset)
  have "fn \<in> {checkWorstCaseClaimRequired, checkReversibilityAssessment,
      checkOpportunityCostClaim, checkTimeWindowAssessment, checkPrimarySourceRequired,
      checkUtilityDimensionCoverage}"
    using assms(2) by (auto simp: DefaultRuleRegistry_def split: if_splits)
  then show ?thesis
    by (elim insertE emptyE; simp add: checkWorstCaseClaimRequired_def claims
        checkReversibilityAssessment_def checkOpportunityCostClaim_def
        checkTimeWindowAssessment_def checkPrimarySourceRequired_def
        checkUtilityDimensionCoverage_def len list_ex_iff sets)
qed

lemma same_map_gate_spec:
  assumes "same_map s s'" and "gate_spec DefaultRuleRegistry s l standard c"
  shows "gate_spec DefaultRuleRegistry s' l standard c"
proof -
  have "mset (s_EvidenceByType s) = mset (s_EvidenceByType s')" and "s_Claims s = s_Claims s'"
    using assms(1) by (simp_all add: same_map_def)
  moreover have "typeCounts s ty = typeCounts s' ty" for ty
    using typeCounts_perm calculation(1) by blast
  ultimately show ?thesis
    using assms(2) same_map_allIDs [OF assms(1)] same_map_default_rule [OF assms(1)]
    by (simp add: gate_spec_def evidence_authentic_def) metis
qed

lemma same_map_sym: "same_map s s' \<Longrightarrow> same_map s' s"
  by (simp add: same_map_def)

section \<open>Properties\<close>



definition sample_ledger :: EvidenceLedger where
  "sample_ledger = run_ledger
     [OpRecord 1 ''t1'' ''web_search'' ''local'' ''u'' ''obs'' (ComputeReliability sample_input)]
     (NewEvidenceLedger ''case'' ''run'' ''casper'')"

definition sample_summary :: EvidenceSummary where
  "sample_summary = \<lparr> s_EvidenceByType = [(''quantitative'', [''EV-001''])], s_Claims = [],
     s_RoleAssessment = None, s_Ready = True \<rparr>"

definition sample_standard :: EvidenceStandard where
  "sample_standard = \<lparr> es_MinEvidenceCount = 1, es_MinQuantitativeCount = 1,
     es_MinReliability = 1 / 2, es_RequireOwnCollected = True, es_RequiredEvidenceTypes = [],
     es_RequiredTypes = [], es_RequiredClaimCount = 0, es_CustomRules = [] \<rparr>"

lemma sample_ledger_facts:
  "ledger_wf sample_ledger"
  "Ledger_Get sample_ledger ''EV-001'' = Some (fst (Record 1 ''t1'' ''web_search'' ''local'' ''u'' ''obs''
     (ComputeReliability sample_input) (NewEvidenceLedger ''case'' ''run'' ''casper'')))"
proof -
  show "ledger_wf sample_ledger" unfolding sample_ledger_def by (rule run_ledger_wf) simp
  have "evidence_id (0 + 1) = ''EV-001''" by code_simp
  then show "Ledger_Get sample_ledger ''EV-001'' = Some (fst (Record 1 ''t1'' ''web_search'' ''local'' ''u'' ''obs''
     (ComputeReliability sample_input) (NewEvidenceLedger ''case'' ''run'' ''casper'')))"
    by (simp add: sample_ledger_def run_ledger_def Record_get NewEvidenceLedger_def)
qed

lemma sample_gate_passes:
  "Passed (Gate_Evaluate DefaultRuleRegistry (Some sample_summary) sample_ledger sample_standard ''casper'')"
  by (simp add: Gate_Evaluate_Passed gate_spec_def evidence_authentic_def allIDs_def typeCounts_def
      sample_summary_def sample_standard_def ledger_view.exists_iff ledger_view.rel_eq
      sample_ledger_facts Record_def Let_def NewEvidenceLedger_def sample_input_def
      ComputeReliability_def weighted_sum_def weight_defs corroboration_of_def clamp01_def)
    (rule impI, rule exI [of _ "23 / 25"], simp)


text \<open>The verdict does not depend on Go's map iteration order: two summaries that differ only
  in the order in which the evidence-by-type map is iterated pass or fail together.\<close>

lemma gate_iteration_order_irrelevant:
  assumes "mset (s_EvidenceByType s) = mset (s_EvidenceByType s')"
    and "s_Claims s = s_Claims s'" and "s_RoleAssessment s = s_RoleAssessment s'"
    and "s_Ready s = s_Ready s'"
  shows "Passed (Gate_Evaluate DefaultRuleRegistry (Some s) ledger standard collector) =
    Passed (Gate_Evaluate DefaultRuleRegistry (Some s') ledger standard collector)"
proof -
  have "same_map s s'" using assms by (simp add: same_map_def)
  then show ?thesis
    unfolding Gate_Evaluate_Passed
    using same_map_gate_spec [of s s'] same_map_gate_spec [of s' s] same_map_sym by blast
qed

end
