(* ===== verification/SampleRun.thy ===== *)
theory SampleRun
  imports OrchestratorLoop Prompt
begin

text \<open>
  A concrete durable run, evaluated step by step: three agents approve, the stores accept every
  write, and the case is resolved. The witnesses of the theorems about runs refer to it.
\<close>

definition sample_orc :: Orchestrator where
  "sample_orc = \<lparr> o_consensus = EvaluateBallots, o_finder = GraphConflictFinder_Find,
     o_policy = DefaultConsensusPolicy, o_failPolicy = DefaultFailurePolicy,
     o_configs = map sample_config [''m'', ''b'', ''c''], o_blueprint = Some DefaultFSMBlueprint \<rparr>"

definition sample_case :: DecisionCase where
  "sample_case = \<lparr> c_ID = ''k'', c_UserID = 0, c_Question = ''q'', c_Context = [], c_Constraints = [],
     c_ParentCaseID = [], c_Status = CaseStatusDraft, c_CurrentPhase = [], c_Pinned = False, c_Archived = False,
     c_ExecutionAttempt = 1, c_ExecutionGeneration = 1, c_PausedFromStatus = CaseStatusZero,
     c_MaxDebateRounds = 1, c_Deadline = None, c_CreatedAt = 0, c_UpdatedAt = 0 \<rparr>"

definition sample_owner :: ExecutionContext where
  "sample_owner = \<lparr> x_CaseID = ''k'', x_JobID = ''j'', x_RunID = ''r'', x_WorkerID = ''w'', x_JobAttempt = 1,
     x_ExecutionGeneration = 1 \<rparr>"

definition sample_env :: Env where
  "sample_env = \<lparr>
     n_repo = Some \<lparr> rc_OwnedArtifacts = True, rc_OwnedCommitter = True, rc_TerminalCommitter = True,
       rc_StatusCommitter = True, rc_SettlementReader = True, rc_NonAtomic = False, rc_RequiresOwner = True \<rparr>,
     n_caseRepo = None, n_eventPub = True, n_live = True, n_knowledge = False, n_memRepo = False,
     n_contextBuilder = False, n_builderKnowledge = False, n_builderEvents = False, n_bindingsProvider = False,
     n_now = 1, a_write = (\<lambda>_ _. None), a_commit = (\<lambda>_ _. Inr True), a_resolution = (\<lambda>_ _. Inr None),
     a_votes = (\<lambda>_ _. Inr []), a_evidence = (\<lambda>_ _. Inr []), a_claims = (\<lambda>_ _. Inr []),
     a_run = (\<lambda>_ _ _. Some (error_result\<lparr> lr_Vote := Some (sample_vote VoteDecisionApprove),
       lr_Status := LoopStatusCompleted \<rparr>)),
     a_modelBuild = (\<lambda>_. None), a_generate = (\<lambda>_ _. Inr ''t''), a_decodeTask = (\<lambda>_. Some zero_task),
     a_decodeReport = (\<lambda>_. Some (sample_report\<lparr> fr_KeyEvidenceIDs := [] \<rparr>)),
     a_bindings = (\<lambda>_ _. Inr []), a_retrieve = (\<lambda>_ _. Inr []) \<rparr>"

definition sample_result :: "((goerr + Resolution option) \<times> log) option" where
  "sample_result = OrchestrateForExecution sample_orc sample_env 17 (Some sample_case) (Some sample_owner) []"

lemma sample_resolved:
  "case sample_result of Some (Inr (Some res), l) \<Rightarrow> r_FinalDecision res = VoteDecisionApprove | _ \<Rightarrow> False"
  by code_simp

lemma sample_run:
  obtains res l where "OrchestrateForExecution sample_orc sample_env 17 (Some sample_case) (Some sample_owner) [] =
    Some (Inr (Some res), l)" and "r_FinalDecision res = VoteDecisionApprove"
  using sample_resolved unfolding sample_result_def
  by (auto split: option.splits sum.splits prod.splits)

text \<open>A result with one record in its ledger, and a ballot that cites a record.\<close>

definition one_record :: "string \<Rightarrow> LoopResult" where
  "one_record code = error_result\<lparr> lr_Status := LoopStatusCompleted,
     lr_Ledger := Some (snd (Record 1 ''t'' ''web'' ''local'' [] code
       \<lparr> rs_Base = 1, rs_Directness = 1, rs_Recency = 1, rs_Corroboration = 1, rs_Extraction = 1, rs_Final = 1 \<rparr>
       (NewEvidenceLedger ''k'' ''r'' code))) \<rparr>"

definition changed_ballot :: "string \<Rightarrow> Vote" where
  "changed_ballot evidence = (sample_vote VoteDecisionApprove)\<lparr> v_EvidenceIDs := [evidence] \<rparr>"

end
