(* ===== verification/OrchestratorProps.thy ===== *)
theory OrchestratorProps
  imports RunInvariants SampleRun
begin

text \<open>
  What a run of the orchestrator guarantees, for every behaviour of its ports: a durable execution
  writes only under its own fence, reports success only after the commit of its outcome, and
  ends; the resolution it returns is the verdict of the consensus engine on complete ballots.
\<close>

section \<open>Interpretations\<close>

definition run_ident :: "string \<Rightarrow> int64 \<Rightarrow> ExecutionContext option \<Rightarrow> World \<Rightarrow> bool" where
  "run_ident cid gen ex w \<longleftrightarrow> c_ID (w_case w) = cid \<and> c_ExecutionGeneration (w_case w) = gen \<and>
     ss_Execution (w_st w) = ex \<and> resolution_from cid gen (ss_Resolution (w_st w))"

definition log_permitted :: "string \<Rightarrow> int64 \<Rightarrow> ExecutionContext option \<Rightarrow> log \<Rightarrow> World \<Rightarrow> bool" where
  "log_permitted cid gen ex l w \<longleftrightarrow>
     run_ident cid gen ex w \<and> (\<exists>d. w_log w = l @ d \<and> list_all (permitted cid gen ex) d)"

text \<open>The effects of a run are permitted ones.\<close>

interpretation fence: run_invariant "log_permitted cid gen ex l" cid gen ex for cid gen ex l
  by unfold_locales (auto simp: log_permitted_def run_ident_def tick_def)

text \<open>A run keeps its identity.\<close>

interpretation ident: run_invariant "run_ident cid gen ex" cid gen ex for cid gen ex
  by unfold_locales (auto simp: run_ident_def tick_def)

text \<open>Outside the steps nothing changes the working state.\<close>

interpretation frozen: action_invariant "\<lambda>w. run_ident cid gen ex w \<and> w_st w = st" cid gen ex
  for cid gen ex st
  by unfold_locales (auto simp: run_ident_def tick_def)

text \<open>Only the revote changes the round, and nothing changes the limit.\<close>

interpretation rounds: resolution_invariant
  "\<lambda>w. run_ident cid gen ex w \<and> ss_Round (w_st w) = rnd \<and> ss_MaxDebate (w_st w) = m" cid gen ex
  for cid gen ex rnd m
  by unfold_locales (auto simp: run_ident_def tick_def)

text \<open>Only three steps change the resolution.\<close>

interpretation settled: vote_invariant
  "\<lambda>w. run_ident cid gen ex w \<and> ss_Resolution (w_st w) = ro" cid gen ex
  for cid gen ex ro
  by unfold_locales (auto simp: run_ident_def tick_def)

lemma run_ident_start:
  "run_ident (c_ID c) (c_ExecutionGeneration c) execution
     \<lparr> w_log = l, w_case = c, w_st = start_state c execution \<rparr>"
  by (simp add: run_ident_def start_state_def resolution_from_def)

lemma advance_keeps_state:
  assumes "run_ident cid gen ex w" and "advance_step env status next w = (r, w')"
  shows "run_ident cid gen ex w' \<and> w_st w' = w_st w"
  using keepsD [OF frozen.keeps_advance_step [of cid gen ex "w_st w"]] assms by blast

section \<open>Fencing\<close>

text \<open>What the owner \<open>x\<close> may do to the stores: everything it writes carries itself, its case and its
  generation, a terminal commit is a normal one, and no unfenced write is left.\<close>

fun fenced_by :: "ExecutionContext \<Rightarrow> effect \<Rightarrow> bool" where
  "fenced_by x (FxCreateOwned y a) =
     (y = x \<and> artifact_case a = x_CaseID x \<and> artifact_generation a = x_ExecutionGeneration x)"
| "fenced_by x (FxCommitStatusOwned y src dst ev) =
     (y = x \<and> me_CaseID ev = x_CaseID x \<and> me_ExecutionGeneration ev = x_ExecutionGeneration x)"
| "fenced_by x (FxCommitTerminalOwned y src dst r ev) =
     (y = x \<and> dst \<in> {CaseStatusResolved, CaseStatusDeadlocked} \<and>
      me_CaseID ev = x_CaseID x \<and> me_ExecutionGeneration ev = x_ExecutionGeneration x \<and>
      resolution_from (x_CaseID x) (x_ExecutionGeneration x) r)"
| "fenced_by x (FxCreate a) = False"
| "fenced_by x (FxCreateResolution r) = False"
| "fenced_by x (FxCommitStatus i src dst ev) = False"
| "fenced_by x (FxUpdateStatusIfCurrent i src dst) = False"
| "fenced_by x (FxUpdateStatus i dst) = False"
| "fenced_by x (FxCommitTerminal i src dst r ev) = False"
| "fenced_by x _ = True"

lemma permitted_fenced:
  "permitted cid gen (Some x) fx \<Longrightarrow> x_CaseID x = cid \<Longrightarrow> x_ExecutionGeneration x = gen \<Longrightarrow> 0 < gen \<Longrightarrow>
     fenced_by x fx"
  by (cases fx) (simp_all add: isNormalTerminal_def)

lemma owner_matches_Some:
  "owner_matches execution c \<longleftrightarrow>
     (\<exists>x. execution = Some x \<and> IsDurable (Some x) \<and> x_CaseID x = c_ID c \<and>
        x_ExecutionGeneration x = c_ExecutionGeneration c)"
  by (cases execution) (auto simp: owner_matches_def)

lemma OrchestrateForExecution_runs:
  assumes "OrchestrateForExecution orc env n co execution l = Some (r, l')"
  obtains "r = Inl ErrLeaseLost" "l' = l"
  | c x w where "co = Some c" "execution = Some x" "IsDurable (Some x)" "x_CaseID x = c_ID c"
      "x_ExecutionGeneration x = c_ExecutionGeneration c"
      "orchestrate orc env n c (Some x) l = Some (r, w)" "l' = w_log w"
  using assms unfolding OrchestrateForExecution_def
  by (auto simp: owner_matches_Some split: option.splits if_splits)



section \<open>Success and commit\<close>

definition committed :: "Env \<Rightarrow> ExecutionContext \<Rightarrow> Resolution option \<Rightarrow> log \<Rightarrow> bool" where
  "committed env x r l \<longleftrightarrow>
     (\<exists>pre src dst ev post. l = pre @ FxCommitTerminalOwned x src dst r ev # post \<and>
        a_commit env pre (FxCommitTerminalOwned x src dst r ev) = Inr True \<and>
        (post = [] \<or> post = [FxPublishLive ev]))"

lemma commitTerminal_durable:
  assumes "commitTerminal env expected target r ev (Some x) w = (Inr u, w')"
    and "0 < c_ExecutionGeneration (w_case w)"
  shows "committed env x r (w_log w')"
proof -
  let ?ev = "ev\<lparr> me_ExecutionGeneration := x_ExecutionGeneration x \<rparr>"
  let ?fx = "FxCommitTerminalOwned x expected target r ?ev"
  from assms have "a_commit env (w_log w) ?fx = Inr True"
    and "w_log w' = w_log w @ [?fx] \<or> w_log w' = w_log w @ [?fx, FxPublishLive ?ev]"
    by (auto simp: commitTerminal_def bindE_def getCase_def fenced_def throwE_def callCommit_def
        publishLive_def ignoreE_def callWrite_def returnE_def tick_def Let_def
        split: if_splits sum.splits prod.splits)
  then show ?thesis unfolding committed_def by (metis append_Cons append_Nil)
qed

lemma terminal_step_result:
  assumes "terminal_step env status next w = (Inr r, w')"
  obtains w1 where "r = ss_Resolution (w_st w)"
    and "commitTerminal env status next r (terminalCompletionEvent (w_case w) next (w_st w))
           (ss_Execution (w_st w)) w = (Inr (), w1)"
    and "w_log w' = w_log w1"
  using assms
  by (auto simp: terminal_step_def bindE_def getSt_def getCase_def setStatus_def returnE_def
      split: prod.splits sum.splits)

lemma loop_committed:
  assumes "orch_loop orc env n prevStatus status w = Some (Inr r, w')"
    and "run_ident cid gen (Some x) w" and "0 < gen"
  shows "committed env x r (w_log w')"
  using assms(1,2)
proof (rule loop_result [where P = "\<lambda>_. run_ident cid gen (Some x)"])
  fix prevStatus status w nxt fin w1
  assume "run_ident cid gen (Some x) w" and "dispatch orc env prevStatus status w = (Inr (nxt, fin), w1)"
  then have w1: "run_ident cid gen (Some x) w1" using ident.keeps_dispatch keepsD by blast
  show "committed env x r (w_log w')" if t: "terminal_step env status nxt w1 = (Inr r, w')"
  proof -
    obtain w2 where "commitTerminal env status nxt r (terminalCompletionEvent (w_case w1) nxt (w_st w1))
           (Some x) w1 = (Inr (), w2)" and "w_log w' = w_log w2"
      using terminal_step_result [OF t] w1 by (auto simp: run_ident_def)
    moreover have "0 < c_ExecutionGeneration (w_case w1)" using w1 assms(3) by (simp add: run_ident_def)
    ultimately show ?thesis using commitTerminal_durable by simp
  qed
  show "run_ident cid gen (Some x) w2" if "advance_step env status nxt w1 = (Inr (), w2)" for w2
    using w1 that ident.keeps_advance_step keepsD by blast
qed

text \<open>C2. No success without its commit: when a durable execution that did not find the case already
  decided returns without error, the last authoritative effect is the fenced terminal commit of
  exactly the returned resolution, the store confirmed it, and at most the live notification of
  the same event came after.\<close>

theorem durable_success_committed:
  assumes "OrchestrateForExecution orc env fuel (Some c) (Some x) l = Some (Inr r, l')"
    and "c_Status c \<notin> {CaseStatusResolved, CaseStatusDeadlocked}"
  shows "committed env x r l'"
  using assms(1)
proof (cases rule: OrchestrateForExecution_runs)
  case (2 c' x' w)
  let ?w = "\<lparr> w_log = l, w_case = c, w_st = start_state c (Some x) \<rparr>"
  have "start_status c \<notin> {CaseStatusResolved, CaseStatusDeadlocked}"
    using assms(2) by (simp add: start_status_def)
  then obtain prevStatus status where "orch_loop orc env fuel prevStatus status ?w = Some (Inr r, w)"
    using 2 by (auto simp: orchestrate_def run_case_def Let_def split: if_splits)
  with 2 loop_committed [OF _ run_ident_start] show ?thesis by (simp add: IsDurable_Some)
qed simp

theorem durable_success_committed_witness:
  "\<exists>res l. OrchestrateForExecution sample_orc sample_env 17 (Some sample_case) (Some sample_owner) [] =
     Some (Inr (Some res), l) \<and> committed sample_env sample_owner (Some res) l"
proof -
  obtain res l where run: "OrchestrateForExecution sample_orc sample_env 17 (Some sample_case) (Some sample_owner) [] =
    Some (Inr (Some res), l)" by (rule sample_run)
  from durable_success_committed [OF run] show ?thesis using run by (auto simp: sample_case_def)
qed

section \<open>Termination\<close>

text \<open>The blueprints under which the action of a status does not depend on the status before.\<close>

definition canonical :: "Orchestrator \<Rightarrow> bool" where
  "canonical orc \<longleftrightarrow> o_blueprint orc = None \<or> o_blueprint orc = Some DefaultFSMBlueprint"

definition act_of :: "CaseStatus \<Rightarrow> string" where
  "act_of status = ActionForStatus (status_str status)"

lemma action_for_canonical: "canonical orc \<Longrightarrow> action_for orc prevStatus status = act_of status"
  by (auto simp: canonical_def action_for_def Let_def ActionFor_default act_of_def)

lemma dispatch_canonical:
  assumes "canonical orc" and "dispatch orc env prevStatus status w = (Inr r, w')"
  obtains h where "map_of (buildActionRegistry orc env) (act_of status) = Some h" and "h w = (Inr r, w')"
  using assms
  by (auto simp: dispatch_def action_for_canonical bindE_def setStatus_def throwE_def
      split: if_splits option.splits)

lemma act_of_simps [simp]:
  "act_of CaseStatusNormalizing = ''normalize''" "act_of CaseStatusContextBuilding = ''build_context''"
  "act_of CaseStatusRetrievingMemory = ''retrieve_memory''" "act_of CaseStatusInvestigating = ''investigate''"
  "act_of CaseStatusEvidenceGating = ''gate_evidence''" "act_of CaseStatusCollectingVotes = ''collect_votes''"
  "act_of CaseStatusConsensusCheck = ''check_consensus''" "act_of CaseStatusDebating = ''debate''"
  "act_of CaseStatusReflecting = ''reflect''" "act_of CaseStatusRevoting = ''revote''"
  "act_of CaseStatusResolving = ''resolve''" "act_of CaseStatusGeneratingReport = ''generate_report''"
  "act_of CaseStatusSavingMemory = ''save_memory''" "act_of CaseStatusEvaluating = ''evaluate''"
  "act_of CaseStatusResolved = ''complete''" "act_of CaseStatusDeadlocked = ''deadlock''"
  "act_of CaseStatusDraft = ''start''"
  by (simp_all add: act_of_def ActionForStatus_def)

text \<open>The steps left in the current round, by action.\<close>

definition rank :: "string \<Rightarrow> nat" where
  "rank a = (case map_of
     [(''start'', 12), (''normalize'', 11), (''build_context'', 10), (''retrieve_memory'', 9), (''investigate'', 8),
      (''gate_evidence'', 7), (''collect_votes'', 6), (''check_consensus'', 5), (''debate'', 4), (''reflect'', 3),
      (''revote'', 2), (''resolve'', 4), (''generate_report'', 3), (''save_memory'', 2), (''evaluate'', 1)] a of
     None \<Rightarrow> 0 | Some n \<Rightarrow> n)"

definition rounds_left :: "World \<Rightarrow> nat" where
  "rounds_left w = nat (max 2 (ss_MaxDebate (w_st w)) - ss_Round (w_st w))"

lemma rank_step:
  assumes "step_answer a (next, fin)" and "\<not> isNormalTerminal next" and "a \<noteq> ''revote''"
  shows "rank (act_of next) < rank a"
proof -
  have "list_all (\<lambda>(a, ss). a = ''revote'' \<or> list_all (\<lambda>s. isNormalTerminal s \<or> rank (act_of s) < rank a) ss) step_table"
    by (simp add: step_table_def rank_def isNormalTerminal_def)
  with assms show ?thesis
    unfolding step_answer_def step_target_def
    by (fastforce simp: list_all_iff dest!: map_of_SomeD split: option.splits)
qed

lemma debate_route:
  "consensus_route orc st res w = (Inr (CaseStatusDebating, fin), w') \<Longrightarrow>
     shouldDebate (o_policy orc) (ss_Round st) (ss_MaxDebate st)"
  by (cases "cr_Outcome res") (auto simp: consensus_route_def returnE_def throwE_def split: if_splits)

lemma debate_allowed:
  assumes "stepCheckConsensus orc env w = (Inr (CaseStatusDebating, fin), w')"
  shows "shouldDebate (o_policy orc) (ss_Round (w_st w)) (ss_MaxDebate (w_st w))"
proof -
  have "yields (\<lambda>r. fst r = CaseStatusDebating \<longrightarrow> shouldDebate (o_policy orc) (ss_Round st) (ss_MaxDebate st))
      (consensus_route orc st res)" for st res
    using debate_route by (fastforce simp: yields_def)
  then have "yields (\<lambda>r. fst r = CaseStatusDebating \<longrightarrow> shouldDebate (o_policy orc) (ss_Round st) (ss_MaxDebate st))
      (bindE (m :: unit act) (\<lambda>_. bindE (m' :: unit act) (\<lambda>_. consensus_route orc st res)))" for m m' st res
    by (intro yields_bind)
  note route = yieldsD [OF this]
  have "bindE getSt k w = k (w_st w) w" for k :: "State \<Rightarrow> step_result act"
    by (simp add: bindE_def getSt_def)
  with assms show ?thesis
    unfolding stepCheckConsensus_def Let_def by (auto dest!: route)
qed

lemma loop_progress:
  assumes can: "canonical orc" and w: "run_ident cid gen ex w"
    and inv: "act_of status \<in> {''debate'', ''reflect'', ''revote''} \<longrightarrow> 0 < rounds_left w"
    and d: "dispatch orc env prevStatus status w = (Inr (next, fin), w1)" and "\<not> isNormalTerminal next"
    and adv: "advance_step env status next w1 = (Inr (), w2)"
  shows "run_ident cid gen ex w2 \<and>
    (act_of next \<in> {''debate'', ''reflect'', ''revote''} \<longrightarrow> 0 < rounds_left w2) \<and>
    4 * rounds_left w2 + rank (act_of next) < 4 * rounds_left w + rank (act_of status)"
proof -
  obtain h where h: "map_of (buildActionRegistry orc env) (act_of status) = Some h" "h w = (Inr (next, fin), w1)"
    using dispatch_canonical [OF can d] by blast
  have w1: "run_ident cid gen ex w1" using w d ident.keeps_dispatch keepsD by blast
  with adv have w2: "run_ident cid gen ex w2" "w_st w2 = w_st w1" using advance_keeps_state by blast+
  have ans: "step_answer (act_of status) (next, fin)" using step_answers [OF h(1)] h(2) by (rule yieldsD)
  show ?thesis
  proof (cases "act_of status = ''revote''")
    case True
    then have h': "stepRevote orc env w = (Inr (next, fin), w1)" using h by (simp add: buildActionRegistry_def)
    let ?I = "\<lambda>v. run_ident cid gen ex v \<and> ss_Round (w_st v) = ss_Round (w_st w) \<and>
      ss_MaxDebate (w_st v) = ss_MaxDebate (w_st w)"
    from rounds.revote_next_round [unfolded ensures_def, rule_format, OF _ h', of cid gen ex "ss_Round (w_st w)" "ss_MaxDebate (w_st w)"] w
    have "ss_Round (w_st w1) = ss_Round (w_st w) + 1" "ss_MaxDebate (w_st w1) = ss_MaxDebate (w_st w)" by auto
    then have "Suc (rounds_left w2) = rounds_left w"
      using inv True w2(2) by (auto simp: rounds_left_def)
    moreover have "next = CaseStatusConsensusCheck" using ans True by (simp add: step_answer_def step_target_def step_table_def)
    ultimately show ?thesis using w2(1) True by (simp add: rank_def)
  next
    case False
    have "keeps (\<lambda>v. run_ident cid gen ex v \<and> ss_Round (w_st v) = ss_Round (w_st w) \<and>
      ss_MaxDebate (w_st v) = ss_MaxDebate (w_st w)) h" using h(1) False by (rule rounds.keeps_handler)
    from keepsD [OF this _ h(2)] w w2(2) have left: "rounds_left w2 = rounds_left w"
      by (simp add: rounds_left_def)
    moreover have "0 < rounds_left w" if "act_of next \<in> {''debate'', ''reflect'', ''revote''}"
    proof (cases "next = CaseStatusDebating")
      case True
      then have "act_of status = ''check_consensus''"
        using ans by (auto simp: step_answer_def step_target_def step_table_def split: if_splits)
      then have "stepCheckConsensus orc env w = (Inr (CaseStatusDebating, fin), w1)"
        using h True by (simp add: buildActionRegistry_def)
      from debate_allowed [OF this] show ?thesis by (auto simp: shouldDebate_def rounds_left_def split: if_splits)
    next
      case False
      then have "act_of status \<in> {''debate'', ''reflect''}"
        using ans that \<open>act_of status \<noteq> ''revote''\<close>
        by (auto simp: step_answer_def step_target_def step_table_def split: if_splits)
      then show ?thesis using inv by auto
    qed
    ultimately show ?thesis using rank_step [OF ans assms(5) False] w2(1) by auto
  qed
qed

lemma loop_returns:
  assumes "canonical orc" and "run_ident cid gen ex w" and "ss_Round (w_st w) = 1"
    and "12 + 4 * rounds_left w < n"
  shows "orch_loop orc env n prevStatus status w \<noteq> None"
proof (rule loop_terminates [where P = "\<lambda>status w. run_ident cid gen ex w \<and>
      (act_of status \<in> {''debate'', ''reflect'', ''revote''} \<longrightarrow> 0 < rounds_left w)"
      and \<mu> = "\<lambda>status w. 4 * rounds_left w + rank (act_of status)"])
  show "run_ident cid gen ex w \<and> (act_of status \<in> {''debate'', ''reflect'', ''revote''} \<longrightarrow> 0 < rounds_left w)"
    using assms(2,3) by (simp add: rounds_left_def max_def)
  have "rank a \<le> 12" for a by (simp add: rank_def)
  from this [of "act_of status"] assms(4) show "4 * rounds_left w + rank (act_of status) < n" by simp
qed (use loop_progress [OF assms(1)] in blast)

text \<open>C4. The orchestrator terminates: with the built-in state machine a run ends with a resolution, a
  deadlock or an error after at most 13 iterations and four more for every debate round, whatever
  its ports answer and whatever status the case starts in.\<close>

theorem orchestrate_terminates:
  assumes "o_blueprint orc = None \<or> o_blueprint orc = Some DefaultFSMBlueprint"
    and "13 + 4 * nat (max 2 (c_MaxDebateRounds c) - 1) \<le> fuel"
  shows "\<exists>r w. orchestrate orc env fuel c execution l = Some (r, w)"
proof -
  have "run_case orc env fuel w \<noteq> None"
    if "w_st w = start_state c execution" "run_ident cid gen ex w" for w cid gen ex
  proof -
    have "12 + 4 * rounds_left w < fuel" using assms(2) that(1) by (auto simp: rounds_left_def start_state_def max_def split: if_splits)
    then have "orch_loop orc env fuel p s w \<noteq> None" for p s
      using loop_returns that assms(1) by (auto simp: canonical_def start_state_def)
    then show ?thesis by (simp add: run_case_def Let_def)
  qed
  note run = this
  let ?w = "\<lparr> w_log = l, w_case = c, w_st = start_state c execution \<rparr>"
  have "run_case orc env fuel ?w \<noteq> None" "run_case orc env fuel (tick fx ?w) \<noteq> None" for fx
    using run [OF _ run_ident_start] run [of "tick fx ?w" "c_ID c" "c_ExecutionGeneration c" execution]
      run_ident_start [of c execution l]
    by (simp_all add: tick_def run_ident_def)
  then have "orchestrate orc env fuel c execution l \<noteq> None"
    by (auto simp: orchestrate_def Let_def callRead_def split: option.splits sum.splits)
  then show ?thesis by (metis option.exhaust surj_pair)
qed

theorem orchestrate_terminates_witness:
  "\<exists>r w. orchestrate sample_orc sample_env 17 sample_case None [] = Some (r, w)"
  by (rule orchestrate_terminates) (simp_all add: sample_orc_def sample_case_def)

end
