(* ===== verification/DecisionProps.thy ===== *)
theory DecisionProps
  imports OrchestratorProps
begin

text \<open>
  What a resolution stands for. Through every path of the built-in state machine, debates
  included, the resolution a durable run returns is the verdict of the consensus engine on ballots
  that were all written under the run's fence before.
\<close>

section \<open>Written artifacts\<close>

definition written :: "Env \<Rightarrow> ExecutionContext \<Rightarrow> artifact \<Rightarrow> log \<Rightarrow> bool" where
  "written env x a l \<longleftrightarrow>
     (\<exists>pre post. l = pre @ FxCreateOwned x a # post \<and> a_write env pre (FxCreateOwned x a) = None)"

lemma written_append: "written env x a l \<Longrightarrow> written env x a (l @ d)"
  by (fastforce simp: written_def)

definition all_written :: "Env \<Rightarrow> ExecutionContext \<Rightarrow> artifact list \<Rightarrow> log \<Rightarrow> bool" where
  "all_written env x as l \<longleftrightarrow> list_all (\<lambda>a. written env x a l) as"

abbreviation ballots :: "Vote option list \<Rightarrow> artifact list" where
  "ballots votes \<equiv> map AVote (somes votes)"

text \<open>Artifacts that are written stay written.\<close>

interpretation stored: run_invariant "\<lambda>w. run_ident cid gen ex w \<and> all_written env x as (w_log w)" cid gen ex
  for cid gen ex env x as
  by unfold_locales (auto simp: run_ident_def tick_def all_written_def list_all_iff written_append)

text \<open>The same while the ballots and the resolution do not change.\<close>

interpretation cited: step_invariant
  "\<lambda>w. run_ident cid gen ex w \<and> ss_Votes (w_st w) = vs \<and> all_written env x as (w_log w)" cid gen ex
  for cid gen ex vs env x as
  by unfold_locales (auto simp: run_ident_def tick_def all_written_def list_all_iff written_append)

lemma ensures_then:
  "ensures I R m \<Longrightarrow> (\<And>x. ensures (R x) Q (k x)) \<Longrightarrow> ensures I Q (bindE m k)"
  by (fastforce simp: ensures_def bindE_def split: prod.splits sum.splits)

lemma ensures_if [ensures_rules]:
  "(b \<Longrightarrow> ensures I Q m) \<Longrightarrow> (\<not> b \<Longrightarrow> ensures I Q n) \<Longrightarrow> ensures I Q (if b then m else n)"
  by simp

lemma ensures_keeps: "keeps I m \<Longrightarrow> ensures I (\<lambda>_. I) m"
  by (metis ensures_def keepsD)

lemma persist_durable:
  assumes "persist env (Some x) a w = (Inr u, w')" and "IsDurable (Some x)" and "n_repo env \<noteq> None"
  shows "a_write env (w_log w) (FxCreateOwned x a) = None \<and> w' = tick (FxCreateOwned x a) w"
proof -
  have "persistArtifactValue env (Some x) a w =
      (if repo_cap env rc_OwnedArtifacts then callWrite env (FxCreateOwned x a) w else (Inl ErrLeaseLost, w))"
    using assms(2,3) by (auto simp: persistArtifactValue_def throwE_def)
  with assms(1,2) show ?thesis
    by (simp add: persistArtifact_def callWrite_def split: option.splits if_splits)
qed

lemma persist_written:
  assumes "IsDurable (Some x)" "n_repo env \<noteq> None" and "artifact_case a = cid" "artifact_generation a = gen"
  shows "ensures (\<lambda>w. run_ident cid gen (Some x) w \<and> all_written env x as (w_log w))
    (\<lambda>_ w. run_ident cid gen (Some x) w \<and> all_written env x (a # as) (w_log w)) (persist env (Some x) a)"
proof -
  have "written env x a (w_log w')" if "persist env (Some x) a w = (Inr u, w')" for u w w'
    using persist_durable [OF that assms(1,2)] unfolding written_def tick_def by fastforce
  moreover have "ensures (\<lambda>w. run_ident cid gen (Some x) w \<and> all_written env x as (w_log w))
    (\<lambda>_ w. run_ident cid gen (Some x) w \<and> all_written env x as (w_log w)) (persist env (Some x) a)"
    by (rule ensures_keeps [OF stored.keeps_persist]) (simp_all add: assms)
  ultimately show ?thesis unfolding ensures_def all_written_def list.pred_inject by blast
qed

lemma each_written:
  assumes "IsDurable (Some x)" "n_repo env \<noteq> None"
    and "\<And>v. v \<in> set vs \<Longrightarrow> artifact_case (f v) = cid \<and> artifact_generation (f v) = gen"
  shows "ensures (\<lambda>w. run_ident cid gen (Some x) w \<and> all_written env x as (w_log w))
    (\<lambda>_ w. run_ident cid gen (Some x) w \<and> all_written env x (map f vs @ as) (w_log w))
    (eachE (\<lambda>v. persist env (Some x) (f v)) vs)"
  using assms(3)
proof (induction vs arbitrary: as)
  case (Cons v vs)
  show ?case
    unfolding eachE.simps
  proof (rule ensures_then [OF persist_written [OF assms(1,2)]])
    show "ensures (\<lambda>w. run_ident cid gen (Some x) w \<and> all_written env x (f v # as) (w_log w))
      (\<lambda>_ w. run_ident cid gen (Some x) w \<and> all_written env x (map f (v # vs) @ as) (w_log w))
      (eachE (\<lambda>v. persist env (Some x) (f v)) vs)"
      by (rule ensures_weaken [OF Cons.IH]) (use Cons.prems in \<open>auto simp: all_written_def\<close>)
  qed (simp_all add: Cons.prems)
qed (simp add: ensures_return)

lemma persistArtifacts_written:
  assumes "IsDurable (Some x)" "n_repo env \<noteq> None"
  shows "ensures (\<lambda>w. run_ident cid gen (Some x) w \<and> all_written env x as (w_log w))
    (\<lambda>(m, rows) w. run_ident cid gen (Some x) w \<and> all_written env x (ballots rows @ as) (w_log w))
    (persistArtifacts env configs results votes rnd phase (Some x))"
  (is "ensures ?I ?Q _")
proof -
  have rows: "ensures ?I ?Q (bindE (eachE (\<lambda>v. persist env (Some x) (AVote v)) (somes rows)) (\<lambda>_. returnE (m, rows)))"
    if "c_ID c = cid" "c_ExecutionGeneration c = gen" "rows = vote_rows c configs rnd phase vs" for c m vs rows
    by (rule ensures_then [OF each_written [OF assms]])
      (use that ident.vote_rows_from in \<open>auto simp: set_somes intro!: ensures_return\<close>)
  show ?thesis
    unfolding persistArtifacts_def Let_def
    by (rule stored.ensures_getCase' ensures_rules stored.keeps_persist_agents rows
        | (simp add: assms(2) ensures_throw; fail))+
qed

section \<open>Ballots\<close>

lemma all_written_append: "all_written env x as l \<Longrightarrow> all_written env x as (l @ d)"
  by (auto simp: all_written_def list_all_iff written_append)

lemma all_written_subset: "set bs \<subseteq> set as \<Longrightarrow> all_written env x as l \<Longrightarrow> all_written env x bs l"
  by (auto simp: all_written_def list_all_iff)

lemma ensures_assuming: "ensures I Q m \<Longrightarrow> (\<And>w. J w \<Longrightarrow> I w) \<Longrightarrow> ensures J Q m"
  by (auto simp: ensures_def)

lemma persistArtifacts_then:
  assumes "IsDurable (Some x)" "n_repo env \<noteq> None" and "ow = Some x"
    and "\<And>m rows. ensures (\<lambda>w. run_ident cid gen (Some x) w \<and> all_written env x (ballots rows @ as) (w_log w)) Q (k m rows)"
  shows "ensures (\<lambda>w. run_ident cid gen (Some x) w \<and> all_written env x as (w_log w)) Q
    (bindE (persistArtifacts env configs results votes rnd phase ow) (\<lambda>(m, rows). k m rows))"
  unfolding assms(3)
  by (rule ensures_then [OF persistArtifacts_written [OF assms(1,2)]]) (use assms(4) in \<open>simp split: prod.splits\<close>)

lemma collected_ballots_written:
  assumes "IsDurable (Some x)" "n_repo env \<noteq> None"
  shows "ensures (run_ident cid gen (Some x))
    (\<lambda>_ w. all_written env x (ballots (ss_Votes (w_st w))) (w_log w)) (stepCollectVotes orc env)"
  (is "ensures _ ?Q _")
proof -
  have written: "ensures (\<lambda>w. run_ident cid gen (Some x) w \<and> all_written env x (ballots votes @ []) (w_log w)) ?Q
    (bindE (modifySt f) (\<lambda>_. bindE (ignoreE (publish env et p)) (\<lambda>_. returnE r)))"
    if "\<And>st. ss_Votes (f st) = votes" "\<And>st. ss_Execution (f st) = ss_Execution st"
      "\<And>st. ss_Resolution (f st) = ss_Resolution st" for votes f et p and r :: step_result
    using that
    by (intro ensures_modifySt [where J = "\<lambda>w. run_ident cid gen (Some x) w \<and> ss_Votes (w_st w) = votes \<and>
          all_written env x (ballots votes) (w_log w)"] ensures_bind keeps_ignore cited.keeps_publish ensures_return)
      (auto simp: run_ident_def)
  have "ensures (\<lambda>w. run_ident cid gen (Some x) w \<and> all_written env x [] (w_log w)) ?Q (stepCollectVotes orc env)"
    unfolding stepCollectVotes_def Let_def
    by (rule stored.ensures_getSt' ensures_if ensures_throw persistArtifacts_then [OF assms] written | (simp; fail))+
  then show ?thesis by (rule ensures_assuming) (simp add: all_written_def)
qed

lemma enforce_loop_votes:
  "set (snd (enforce_loop now results configs rnd i pvs nvs)) \<subseteq> set pvs \<union> set nvs"
  by (induction now results configs rnd i pvs nvs rule: enforce_loop.induct)
    (auto simp: Let_def split: option.splits)

lemma revoted_ballots_written:
  assumes "IsDurable (Some x)" "n_repo env \<noteq> None"
  shows "ensures (\<lambda>w. run_ident cid gen (Some x) w \<and> all_written env x (ballots (ss_Votes (w_st w))) (w_log w))
    (\<lambda>_ w. all_written env x (ballots (ss_Votes (w_st w))) (w_log w)) (stepRevote orc env)"
  (is "ensures _ ?Q _")
proof -
  have new: "all_written env x (ballots (snd (EnforceReflectionRule now pvs nvs rs cs rnd))) l"
    if "all_written env x (ballots nvs @ ballots pvs) l" for now pvs nvs rs cs rnd l
    using that enforce_loop_votes unfolding EnforceReflectionRule_def
    by (elim all_written_subset [rotated]) (fastforce simp: set_somes)
  have store: "ensures (\<lambda>w. run_ident cid gen (Some x) w \<and> all_written env x (ballots nvs @ ballots pvs) (w_log w)) ?Q
     (bindE m (\<lambda>_. bindE (modifySt f) (\<lambda>_. returnE r)))"
    if "keeps (\<lambda>w. run_ident cid gen (Some x) w \<and> all_written env x (ballots nvs @ ballots pvs) (w_log w)) m"
      "\<And>st. ss_Votes (f st) = snd (EnforceReflectionRule now pvs nvs rs cs rnd)"
    for m :: "unit act" and now pvs nvs rs cs rnd f and r :: step_result
    using that new by (intro ensures_bind ensures_modifySt [where J = "\<lambda>w. ?Q r w"] ensures_return) auto
  have step: "ensures (\<lambda>w. run_ident cid gen (Some x) w \<and> all_written env x (ballots (ss_Votes st)) (w_log w)) ?Q (k st)"
    if "ss_Execution st = Some x" and
      "k = (\<lambda>st. bindE getCase (\<lambda>c.
         bindE (ignoreE (publish env EventRevoteSubmitted (PRound (ss_Round st)))) (\<lambda>_.
         let ballots = collectBallots (o_configs orc) (ss_Results st)
         in bindE (persistArtifacts env (o_configs orc) (ss_Results st) (fst ballots) (ss_Round st)
                   ''reconsider'' (ss_Execution st)) (\<lambda>(remap, votes).
            let results = write_back (ss_Results st) votes;
                enforced = EnforceReflectionRule (n_now env) (ss_Votes st) votes results (o_configs orc) (ss_Round st);
                rows = map (\<lambda>(idx, rf). reflection_row c remap (snd enforced) idx rf) (enumerate 0 (fst enforced))
            in bindE (if n_repo env = None then returnE ()
                      else eachE (\<lambda>rf. persist env (ss_Execution st) (AReflection rf)) rows) (\<lambda>_.
               bindE (modifySt (\<lambda>st. st\<lparr> ss_Votes := snd enforced, ss_Absences := snd ballots,
                        ss_Results := results, ss_AllRemaps := ss_AllRemaps st @ [remap],
                        ss_Round := ss_Round st + 1 \<rparr>)) (\<lambda>_.
               returnE (CaseStatusConsensusCheck, False)))))))" for st k
    unfolding that Let_def
    by (rule stored.ensures_getCase' persistArtifacts_then [OF assms] store ensures_bind keeps_ignore stored.keeps_publish
        keeps_if keeps_return keeps_each stored.keeps_persist
        | (simp; fail) | (auto simp: stored.reflection_row_from; fail))+
  show ?thesis
    unfolding stepRevote_def
  proof (rule ensures_getSt, goal_cases)
    case (1 st)
    show ?case
    proof (cases "ss_Execution st = Some x")
      case True
      show ?thesis by (rule ensures_assuming [OF step [OF True refl]]) auto
    next
      case False
      then show ?thesis unfolding ensures_def run_ident_def by blast
    qed
  qed
qed

section \<open>From the vote to the resolution\<close>

definition deciding :: "ConsensusOutcome set" where
  "deciding = {ConsensusStrongApproval, ConsensusStrongRejection, ConsensusConditional,
     ConsensusMajorityApprovalDissent, ConsensusMajorityRejectionDissent}"

definition verdict :: "Orchestrator \<Rightarrow> State \<Rightarrow> ConsensusResult" where
  "verdict orc st = o_consensus orc \<lparr> b_Votes = derefVotes (ss_Votes st), b_Absences = ss_Absences st \<rparr>
     (ss_Round st) (o_policy orc)"

definition decided :: "Orchestrator \<Rightarrow> Env \<Rightarrow> ExecutionContext \<Rightarrow> Resolution \<Rightarrow> log \<Rightarrow> bool" where
  "decided orc env x res l \<longleftrightarrow>
     (\<exists>votes absences rnd cons.
        cons = o_consensus orc \<lparr> b_Votes = derefVotes votes, b_Absences = absences \<rparr> rnd (o_policy orc) \<and>
        cr_Outcome cons \<in> deciding \<and> all_written env x (ballots votes) l \<and>
        r_Consensus res = cons\<lparr> cr_Round := rnd \<rparr> \<and> r_FinalDecision res = finalDecision cons \<and>
        r_VoteIDs res = voteIDs votes \<and>
        extractDissent (o_configs orc) (finalDecision cons) votes = Inr (r_Dissent res))"

lemma decided_append: "decided orc env x res l \<Longrightarrow> decided orc env x res (l @ d)"
  unfolding decided_def using all_written_append by blast

lemma decided_update:
  "decided orc env x (res\<lparr> r_FinalReport := t \<rparr>) l = decided orc env x res l"
  "decided orc env x (res\<lparr> r_Evaluation := e \<rparr>) l = decided orc env x res l"
  by (simp_all add: decided_def)

lemma publish_state: "w_st (snd (publish env et p w)) = w_st w"
  by (simp add: publish_def bindE_def getCase_def callWrite_def returnE_def tick_def)

lemma consensus_route_resolving:
  assumes "consensus_route orc st res w = (Inr (CaseStatusResolving, fin), w')"
  shows "cr_Outcome res \<in> deciding \<and> w' = w"
  using assms by (cases "cr_Outcome res")
    (auto simp: consensus_route_def returnE_def throwE_def deciding_def split: if_splits)

lemma check_verdict:
  assumes "stepCheckConsensus orc env w = (Inr (CaseStatusResolving, fin), w')"
  shows "ss_ConsResult (w_st w') = verdict orc (w_st w') \<and> cr_Outcome (verdict orc (w_st w')) \<in> deciding"
proof -
  let ?res = "verdict orc (w_st w)"
  let ?w1 = "w\<lparr> w_st := (w_st w)\<lparr> ss_ConsResult := ?res \<rparr> \<rparr>"
  let ?w2 = "snd (publish env EventConsensusEvaluated (POutcome (cr_Outcome ?res) (ss_Round (w_st w))) ?w1)"
  from assms have "consensus_route orc (w_st w) ?res ?w2 = (Inr (CaseStatusResolving, fin), w')"
    by (simp add: stepCheckConsensus_def bindE_def getSt_def modifySt_def ignoreE_def Let_def verdict_def)
  from consensus_route_resolving [OF this] show ?thesis by (simp add: publish_state verdict_def)
qed

lemma resolve_state:
  assumes "stepResolve orc env w = (Inr r, w')"
  obtains dissent where "w_log w' = w_log w" "ss_Votes (w_st w') = ss_Votes (w_st w)"
    and "ss_Resolution (w_st w') = Some ((resolution_of env (w_case w) (w_st w))\<lparr> r_Dissent := dissent \<rparr>)"
    and "extractDissent (o_configs orc) (r_FinalDecision (resolution_of env (w_case w) (w_st w))) (ss_Votes (w_st w)) = Inr dissent"
  using assms
  by (auto simp: stepResolve_def bindE_def getSt_def getCase_def modifySt_def returnE_def throwE_def Let_def
      split: sum.splits prod.splits)

lemma report_state:
  assumes "stepGenerateReport env w = (Inr r, w')"
  shows "\<exists>res t. ss_Resolution (w_st w) = Some res \<and> ss_Resolution (w_st w') = Some (res\<lparr> r_FinalReport := t \<rparr>) \<and>
    ss_Votes (w_st w') = ss_Votes (w_st w)"
proof (cases "ss_Resolution (w_st w)")
  case None
  with assms show ?thesis by (simp add: stepGenerateReport_def bindE_def getSt_def getCase_def throwE_def)
next
  case (Some res)
  let ?gen = "GenerateReport (a_modelBuild env (w_log w)) (a_generate env (w_log w)) (a_decodeReport env)
    (r_FinalDecision res) (r_KeyEvidenceIDs res) (r_KeyClaimIDs res)"
  show ?thesis
  proof (cases ?gen)
    case (Inl e)
    with Some assms show ?thesis
      by (simp add: stepGenerateReport_def bindE_def getSt_def getCase_def wrapE_def callRead_def)
  next
    case (Inr t)
    with Some assms show ?thesis
      by (auto simp: stepGenerateReport_def bindE_def getSt_def getCase_def wrapE_def callRead_def modifySt_def
          ignoreE_def returnE_def publish_state tick_def)
  qed
qed

lemma evaluate_state:
  assumes "stepEvaluate env w = (Inr r, w')"
  shows "\<exists>res e. ss_Resolution (w_st w) = Some res \<and> ss_Resolution (w_st w') = Some (res\<lparr> r_Evaluation := e \<rparr>) \<and>
    ss_Votes (w_st w') = ss_Votes (w_st w)"
proof (cases "ss_Resolution (w_st w)")
  case None
  with assms show ?thesis by (simp add: stepEvaluate_def bindE_def getSt_def throwE_def)
next
  case (Some res)
  with assms show ?thesis by (auto simp: stepEvaluate_def bindE_def getSt_def modifySt_def returnE_def)
qed

lemma resolve_decided:
  assumes "stepResolve orc env w = (Inr r, w')"
    and "ss_ConsResult (w_st w) = verdict orc (w_st w)" "cr_Outcome (verdict orc (w_st w)) \<in> deciding"
    and "all_written env x (ballots (ss_Votes (w_st w))) (w_log w)"
  shows "\<exists>res. ss_Resolution (w_st w') = Some res \<and> decided orc env x res (w_log w')"
proof -
  let ?st = "w_st w" and ?res = "resolution_of env (w_case w) (w_st w)"
  obtain dissent where w': "w_log w' = w_log w" "ss_Resolution (w_st w') = Some (?res\<lparr> r_Dissent := dissent \<rparr>)"
    and dissent: "extractDissent (o_configs orc) (r_FinalDecision ?res) (ss_Votes ?st) = Inr dissent"
    using resolve_state [OF assms(1)] by metis
  have res: "r_Consensus ?res = (verdict orc ?st)\<lparr> cr_Round := ss_Round ?st \<rparr>" "r_VoteIDs ?res = voteIDs (ss_Votes ?st)"
    "r_FinalDecision ?res = finalDecision (verdict orc ?st)"
    by (simp_all add: resolution_of_def Let_def assms(2) finalDecision_def)
  have "decided orc env x (?res\<lparr> r_Dissent := dissent \<rparr>) (w_log w)"
    unfolding decided_def
    by (rule exI [of _ "ss_Votes ?st"], rule exI [of _ "ss_Absences ?st"], rule exI [of _ "ss_Round ?st"],
        rule exI [of _ "verdict orc ?st"]) (use assms(3,4) dissent in \<open>simp add: res verdict_def\<close>)
  with w' show ?thesis by simp
qed

section \<open>Phases of a run\<close>

definition phase :: "Orchestrator \<Rightarrow> Env \<Rightarrow> ExecutionContext \<Rightarrow> CaseStatus \<Rightarrow> World \<Rightarrow> bool" where
  "phase orc env x status w \<longleftrightarrow>
     all_written env x (ballots (ss_Votes (w_st w))) (w_log w) \<and>
     (if act_of status = ''resolve''
      then ss_Resolution (w_st w) = None \<and> ss_ConsResult (w_st w) = verdict orc (w_st w) \<and>
           cr_Outcome (verdict orc (w_st w)) \<in> deciding
      else if act_of status \<in> {''generate_report'', ''save_memory'', ''evaluate''}
      then \<exists>res. ss_Resolution (w_st w) = Some res \<and> decided orc env x res (w_log w)
      else ss_Resolution (w_st w) = None)"

lemma handler_log:
  assumes "map_of (buildActionRegistry orc env) a = Some h" "h w = (r, w')" "run_ident cid gen ex w"
  shows "\<exists>d. w_log w' = w_log w @ d"
proof -
  have "keeps (log_permitted cid gen ex (w_log w)) h"
  proof (cases "a = ''revote''")
    case True
    with assms(1) show ?thesis by (auto simp: buildActionRegistry_def intro: fence.keeps_stepRevote)
  qed (use assms(1) fence.keeps_handler in blast)
  moreover have "log_permitted cid gen ex (w_log w) w" using assms(3) by (simp add: log_permitted_def)
  ultimately show ?thesis using keepsD assms(2) log_permitted_def by metis
qed

lemma registry_steps:
  assumes "map_of (buildActionRegistry orc env) a = Some h"
  shows "a = ''collect_votes'' \<Longrightarrow> h = stepCollectVotes orc env" "a = ''revote'' \<Longrightarrow> h = stepRevote orc env"
    "a = ''check_consensus'' \<Longrightarrow> h = stepCheckConsensus orc env" "a = ''resolve'' \<Longrightarrow> h = stepResolve orc env"
    "a = ''generate_report'' \<Longrightarrow> h = stepGenerateReport env" "a = ''evaluate'' \<Longrightarrow> h = stepEvaluate env"
  using assms by (simp_all add: buildActionRegistry_def)

lemma handler_ballots:
  assumes h: "map_of (buildActionRegistry orc env) a = Some h" "h w = (Inr r, w')"
    and w: "run_ident cid gen (Some x) w" "all_written env x (ballots (ss_Votes (w_st w))) (w_log w)"
    and dur: "IsDurable (Some x)" "n_repo env \<noteq> None"
  shows "all_written env x (ballots (ss_Votes (w_st w'))) (w_log w')"
proof -
  obtain d where d: "w_log w' = w_log w @ d" using handler_log [OF h w(1)] by blast
  consider "a = ''collect_votes''" | "a = ''revote''" | "a \<in> {''resolve'', ''generate_report'', ''evaluate''}"
    | "a \<notin> {''collect_votes'', ''revote'', ''resolve'', ''generate_report'', ''evaluate''}" by auto
  then show ?thesis
  proof cases
    case 1
    with h w show ?thesis using ensuresD [OF collected_ballots_written [OF dur]] registry_steps(1) [OF h(1)] by simp
  next
    case 2
    with h w show ?thesis using ensuresD [OF revoted_ballots_written [OF dur]] registry_steps(2) [OF h(1)] by simp
  next
    case 3
    then consider "h = stepResolve orc env" | "h = stepGenerateReport env" | "h = stepEvaluate env"
      using registry_steps(4-6) [OF h(1)] by auto
    then have "ss_Votes (w_st w') = ss_Votes (w_st w)"
      by cases (use h(2) in \<open>auto elim: resolve_state dest: report_state evaluate_state\<close>)
    with w(2) d show ?thesis by (simp add: all_written_append)
  next
    case 4
    from keepsD [OF cited.keeps_plain_handler [OF h(1) 4] _ h(2)] w show ?thesis by simp
  qed
qed

text \<open>The resolution after an action: decided from the resolve step on, absent before.\<close>

definition resolving :: "string set" where
  "resolving = {''resolve'', ''generate_report'', ''save_memory'', ''evaluate''}"

lemma handler_decided:
  assumes h: "map_of (buildActionRegistry orc env) (act_of status) = Some h" "h w = (Inr r, w')"
    and w: "run_ident cid gen (Some x) w" "phase orc env x status w" and a: "act_of status \<in> resolving"
  shows "\<exists>res. ss_Resolution (w_st w') = Some res \<and> decided orc env x res (w_log w')"
proof -
  obtain d where d: "w_log w' = w_log w @ d" using handler_log [OF h w(1)] by blast
  consider "act_of status = ''resolve''" | "act_of status = ''generate_report''" | "act_of status = ''evaluate''"
    | "act_of status = ''save_memory''" using a by (auto simp: resolving_def)
  then show ?thesis
  proof cases
    case 1
    with h w show ?thesis
      using resolve_decided registry_steps(4) [OF h(1)] by (simp add: phase_def)
  next
    case 2
    then have "h = stepGenerateReport env" by (rule registry_steps(5) [OF h(1)])
    with report_state [of env w r w'] h(2) obtain res y where "ss_Resolution (w_st w) = Some res"
      and "ss_Resolution (w_st w') = Some (res\<lparr> r_FinalReport := y \<rparr>)" by blast
    with w(2) 2 d show ?thesis by (simp add: phase_def decided_append decided_update(1))
  next
    case 3
    then have "h = stepEvaluate env" by (rule registry_steps(6) [OF h(1)])
    with evaluate_state [of env w r w'] h(2) obtain res y where "ss_Resolution (w_st w) = Some res"
      and "ss_Resolution (w_st w') = Some (res\<lparr> r_Evaluation := y \<rparr>)" by blast
    with w(2) 3 d show ?thesis by (simp add: phase_def decided_append decided_update(2))
  next
    case 4
    with w(2) obtain res where res: "ss_Resolution (w_st w) = Some res" "decided orc env x res (w_log w)"
      by (auto simp: phase_def)
    have "act_of status \<notin> {''revote'', ''resolve'', ''generate_report'', ''evaluate''}" using 4 by simp
    from keepsD [OF settled.keeps_vote_handler [OF h(1) this] _ h(2)] w(1) res(1)
    have "ss_Resolution (w_st w') = Some res" by blast
    with res(2) d show ?thesis by (simp add: decided_append)
  qed
qed

lemma handler_undecided:
  assumes h: "map_of (buildActionRegistry orc env) (act_of status) = Some h" "h w = (Inr r, w')"
    and w: "run_ident cid gen (Some x) w" "phase orc env x status w" and a: "act_of status \<notin> resolving"
  shows "ss_Resolution (w_st w') = None"
proof -
  have none: "ss_Resolution (w_st w) = None" using w(2) a by (simp add: phase_def resolving_def)
  show ?thesis
  proof (cases "act_of status = ''revote''")
    case True
    then have "stepRevote orc env w = (Inr r, w')" using registry_steps(2) [OF h(1)] h(2) by simp
    from ensuresD [OF settled.revote_next_round _ this] w(1) none show ?thesis by fastforce
  next
    case False
    then have "act_of status \<notin> {''revote'', ''resolve'', ''generate_report'', ''evaluate''}"
      using a by (simp add: resolving_def)
    from keepsD [OF settled.keeps_vote_handler [OF h(1) this] _ h(2)] w(1) none show ?thesis by blast
  qed
qed

lemma next_resolving:
  assumes "step_answer a (next, fin)" "\<not> isNormalTerminal next" "a \<noteq> ''check_consensus''"
  shows "act_of next \<noteq> ''resolve'' \<and> (act_of next \<in> resolving \<longleftrightarrow> a \<in> resolving)"
proof -
  have "list_all (\<lambda>(a, ss). a = ''check_consensus'' \<or> list_all (\<lambda>s. isNormalTerminal s \<or>
      act_of s \<noteq> ''resolve'' \<and> (act_of s \<in> resolving \<longleftrightarrow> a \<in> resolving)) ss) step_table"
    by (simp add: step_table_def resolving_def isNormalTerminal_def)
  with assms show ?thesis
    unfolding step_answer_def step_target_def
    by (fastforce simp: list_all_iff dest!: map_of_SomeD split: option.splits)
qed

lemma phase_step:
  assumes can: "canonical orc" and w: "run_ident cid gen (Some x) w" "phase orc env x status w"
    and dur: "IsDurable (Some x)" "n_repo env \<noteq> None"
    and d: "dispatch orc env prevStatus status w = (Inr (next, fin), w1)" and n: "\<not> isNormalTerminal next"
  shows "phase orc env x next w1"
proof -
  obtain h where h: "map_of (buildActionRegistry orc env) (act_of status) = Some h" "h w = (Inr (next, fin), w1)"
    using dispatch_canonical [OF can d] by blast
  have ans: "step_answer (act_of status) (next, fin)" using step_answers [OF h(1)] h(2) by (rule yieldsD)
  have votes: "all_written env x (ballots (ss_Votes (w_st w1))) (w_log w1)"
    using handler_ballots [OF h w(1) _ dur] w(2) by (simp add: phase_def)
  show ?thesis
  proof (cases "act_of status = ''check_consensus''")
    case True
    then have none: "ss_Resolution (w_st w1) = None"
      using handler_undecided [OF h w] by (simp add: resolving_def)
    have "next = CaseStatusResolving \<or> next = CaseStatusDebating"
      using ans n True by (auto simp: step_answer_def step_target_def step_table_def isNormalTerminal_def)
    then show ?thesis
      using votes none check_verdict [of orc env w fin w1] h(2) registry_steps(3) [OF h(1) True]
      by (auto simp: phase_def)
  next
    case False
    from next_resolving [OF ans n False] votes handler_decided [OF h w] handler_undecided [OF h w]
    show ?thesis by (auto simp: phase_def resolving_def)
  qed
qed

lemma loop_decided:
  assumes "orch_loop orc env n prevStatus status w = Some (Inr r, w')"
    and can: "canonical orc" and w: "run_ident cid gen (Some x) w" "phase orc env x status w"
    and dur: "IsDurable (Some x)" "n_repo env \<noteq> None"
  shows "\<forall>res. r = Some res \<longrightarrow> decided orc env x res (w_log w')"
  using assms(1)
proof (rule loop_result [where P = "\<lambda>status w. run_ident cid gen (Some x) w \<and> phase orc env x status w"])
  show "run_ident cid gen (Some x) w \<and> phase orc env x status w" using w by blast
next
  fix prevStatus status w nxt fin w1
  assume P: "run_ident cid gen (Some x) w \<and> phase orc env x status w"
    and d: "dispatch orc env prevStatus status w = (Inr (nxt, fin), w1)"
  have w1: "run_ident cid gen (Some x) w1" using P d ident.keeps_dispatch keepsD by blast
  show "run_ident cid gen (Some x) w2 \<and> phase orc env x nxt w2"
    if n: "\<not> isNormalTerminal nxt" and adv: "advance_step env status nxt w1 = (Inr (), w2)" for w2
  proof -
    have "phase orc env x nxt w1" using phase_step [OF can _ _ dur d n] P by blast
    moreover obtain e where "w_log w2 = w_log w1 @ e"
      using keepsD [OF fence.keeps_advance_step [of cid gen "Some x" "w_log w1"] _ adv] w1
      by (auto simp: log_permitted_def)
    ultimately show ?thesis
      using advance_keeps_state [OF w1 adv] by (auto simp: phase_def all_written_append decided_append)
  qed
  show "\<forall>res. r = Some res \<longrightarrow> decided orc env x res (w_log w')"
    if n: "isNormalTerminal nxt" and t: "terminal_step env status nxt w1 = (Inr r, w')"
  proof -
    obtain h where h: "map_of (buildActionRegistry orc env) (act_of status) = Some h" "h w = (Inr (nxt, fin), w1)"
      using dispatch_canonical [OF can d] by blast
    have "\<forall>res. ss_Resolution (w_st w1) = Some res \<longrightarrow> decided orc env x res (w_log w1)"
      using handler_decided [OF h, of cid gen x] handler_undecided [OF h, of cid gen x] P
      by (cases "act_of status \<in> resolving") auto
    moreover obtain e where "w_log w' = w_log w1 @ e"
      using keepsD [OF fence.keeps_terminal_step [OF n, of cid gen "Some x" "w_log w1"] _ t] w1
      by (auto simp: log_permitted_def)
    moreover have "r = ss_Resolution (w_st w1)" using terminal_step_result [OF t] by blast
    ultimately show ?thesis by (simp add: decided_append)
  qed
qed

lemma engine_decides:
  assumes "cr_Outcome (EvaluateBallots b rnd policy) \<in> deciding"
  shows "b_Absences b = []" and "list_all (\<lambda>v. IsValidVoteDecision (v_Decision v)) (b_Votes b)"
    and "finalDecision (EvaluateBallots b rnd policy) \<in>
      {VoteDecisionApprove, VoteDecisionReject, VoteDecisionConditionalApprove}"
proof -
  have "cr_Outcome (EvaluateBallots b rnd policy) \<noteq> ConsensusIncomplete" using assms by (auto simp: deciding_def)
  then show "b_Absences b = []" "list_all (\<lambda>v. IsValidVoteDecision (v_Decision v)) (b_Votes b)"
    unfolding EvaluateBallots_outcome outcome_spec_not_Incomplete by (auto simp: list_all_iff)
qed (use assms in \<open>auto simp: deciding_def finalDecision_def\<close>)



end
