(* ===== verification/RoundProps.thy ===== *)
theory RoundProps
  imports SampleRun
begin

text \<open>
  Properties of a single round: how results become ballots, how the reflection rule treats changed
  votes, and when the references of a resolution count as present.
\<close>

section \<open>Ballots\<close>

text \<open>What counts as a ballot: a completed run without error that ends in a defined decision.\<close>

definition casts :: "LoopResult \<Rightarrow> Vote \<Rightarrow> bool" where
  "casts r v \<longleftrightarrow> lr_Status r = LoopStatusCompleted \<and> lr_Err r = None \<and> lr_Vote r = Some v \<and>
     IsValidVoteDecision (v_Decision v)"

lemma Classify_exact:
  "fst (Classify (Some r)) = Some v \<longleftrightarrow> casts r v"
  "snd (Classify (Some r)) = None \<longleftrightarrow> (\<exists>v. casts r v)"
  by (auto simp: Classify_def casts_def split: option.splits if_splits)

lemma Classify_cases: "fst (Classify ro) = None \<longleftrightarrow> snd (Classify ro) \<noteq> None"
  by (auto simp: Classify_def split: option.splits)

lemma collect_loop_ballots: "fst (collect_loop configs i rs) = map (\<lambda>r. fst (Classify (Some r))) rs"
proof (induction rs arbitrary: i)
  case (Cons r rs)
  then show ?case using Classify_cases [of "Some r"] by (auto simp: Let_def split: option.splits prod.splits)
qed simp

lemma collect_loop_absences:
  "map aa_AgentCode (snd (collect_loop configs i rs)) =
     map (\<lambda>(j, r). codeOf (configAt configs j)) (filter (\<lambda>(j, r). \<nexists>v. casts r v) (enumerate i rs))"
proof (induction rs arbitrary: i)
  case (Cons r rs)
  then show ?case
    using Classify_exact(2) [of r] by (auto simp: Let_def split: option.splits prod.splits)
qed simp

text \<open>C29. Every participant is accounted for: slot by slot, a result is a ballot exactly if its run
  completed without error with a defined decision, and the absences are exactly the agents of the
  other slots, in order; an agent that failed never appears as an abstention.\<close>

theorem ballots_or_absences:
  "let (votes, absences) = collectBallots configs results
   in list_all2 (\<lambda>r vo. vo = (if \<exists>v. casts r v then lr_Vote r else None)) results votes \<and>
      map aa_AgentCode absences =
        map (\<lambda>(i, r). codeOf (configAt configs i)) (filter (\<lambda>(i, r). \<nexists>v. casts r v) (enumerate 0 results))"
proof -
  have "fst (Classify (Some r)) = (if \<exists>v. casts r v then lr_Vote r else None)" for r
    using Classify_exact [of r] Classify_cases [of "Some r"] by (auto simp: casts_def)
  then have "list_all2 (\<lambda>r vo. vo = (if \<exists>v. casts r v then lr_Vote r else None)) results
      (fst (collectBallots configs results))"
    unfolding collectBallots_def collect_loop_ballots by (simp add: list_all2_conv_all_nth)
  then show ?thesis
    using collect_loop_absences [of configs 0 results] unfolding collectBallots_def
    by (cases "collect_loop configs 0 results") simp
qed

section \<open>The reflection rule\<close>

lemma InferReflection_Some: "InferReflection (Some pv) (Some nv) rnd \<noteq> None"
  by (simp add: InferReflection_def)

lemma enforce_loop_length: "length (snd (enforce_loop now rs cs rnd k pvs nvs)) = length nvs"
  by (induction now rs cs rnd k pvs nvs rule: enforce_loop.induct) (auto simp: Let_def split: option.splits)

lemma enforce_loop_nth:
  "i < length pvs \<Longrightarrow> i < length nvs \<Longrightarrow>
   snd (enforce_loop now rs cs rnd k pvs nvs) ! i =
     (case reflection_for now (pvs ! i) (nvs ! i) (nth_opt rs (k + i)) (nth_opt cs (k + i)) rnd of
        None \<Rightarrow> nvs ! i
      | Some r \<Rightarrow> if reflection_ok r (pvs ! i) (nth_opt rs (k + i))
                      (case nth_opt cs (k + i) of None \<Rightarrow> False
                       | Some cfg \<Rightarrow> rfp_RequireNewEvidence (mc_ReflectionPolicy cfg))
                  then nvs ! i else pvs ! i)"
proof (induction now rs cs rnd k pvs nvs arbitrary: i rule: enforce_loop.induct)
  case (1 now rs cs rnd k pv pvs nv nvs)
  then show ?case by (cases i) (auto simp: Let_def split: option.splits)
qed simp_all

lemma enforce_loop_reflection:
  "i < length pvs \<Longrightarrow> i < length nvs \<Longrightarrow>
   reflection_for now (pvs ! i) (nvs ! i) (nth_opt rs (k + i)) (nth_opt cs (k + i)) rnd = Some r \<Longrightarrow>
   r \<in> set (fst (enforce_loop now rs cs rnd k pvs nvs))"
proof (induction now rs cs rnd k pvs nvs arbitrary: i rule: enforce_loop.induct)
  case (1 now rs cs rnd k pv pvs nv nvs)
  then show ?case by (cases i) (auto simp: Let_def split: option.splits)
qed simp_all

lemma reflection_for_change:
  "rfp_RequireJustification (mc_ReflectionPolicy cfg) \<Longrightarrow> v_Decision pv \<noteq> v_Decision nv \<Longrightarrow>
   reflection_for now (Some pv) (Some nv) ro (Some cfg) rnd \<noteq> None"
  using InferReflection_Some by (auto simp: reflection_for_def split: option.splits)

text \<open>C30. No unjustified change of mind: where an agent's policy asks for a justification, a ballot
  that leaves the reflection rule with another decision than before is the agent's own new ballot
  and one of the returned reflections passes the reflection check against the agent's ledger. No
  ballot is added or lost.\<close>

theorem change_needs_justification:
  assumes "i < length prevVotes" "i < length newVotes" "nth_opt configs i = Some cfg"
    and "rfp_RequireJustification (mc_ReflectionPolicy cfg)" and "prevVotes ! i = Some pv"
    and "EnforceReflectionRule now prevVotes newVotes results configs rnd = (reflections, votes)"
    and "votes ! i = Some v" and "v_Decision v \<noteq> v_Decision pv"
  shows "length votes = length newVotes \<and> newVotes ! i = Some v \<and>
    (\<exists>r \<in> set reflections. reflection_ok r (Some pv) (nth_opt results i) (rfp_RequireNewEvidence (mc_ReflectionPolicy cfg)))"
proof -
  let ?r = "reflection_for now (prevVotes ! i) (newVotes ! i) (nth_opt results i) (nth_opt configs i) rnd"
  have e: "reflections = fst (enforce_loop now results configs rnd 0 prevVotes newVotes)"
    "votes = snd (enforce_loop now results configs rnd 0 prevVotes newVotes)"
    using assms(6) by (simp_all add: EnforceReflectionRule_def)
  note slot = enforce_loop_nth [OF assms(1,2), of now results configs rnd 0, folded e(2)]
  have new: "newVotes ! i = Some v" using slot assms(5,7,8) by (auto split: option.splits if_splits)
  then obtain r where r: "?r = Some r" using reflection_for_change [OF assms(4)] assms(3,5,8) by fastforce
  then have "reflection_ok r (Some pv) (nth_opt results i) (rfp_RequireNewEvidence (mc_ReflectionPolicy cfg))"
    using slot assms(3,5,7,8) new by (auto split: if_splits)
  moreover have "r \<in> set reflections"
    using enforce_loop_reflection [OF assms(1,2), of now results 0 configs rnd r] r by (simp add: e)
  ultimately show ?thesis using new enforce_loop_length by (auto simp: e)
qed

theorem change_needs_justification_witness:
  "\<exists>r \<in> set (fst (EnforceReflectionRule 1 [Some (sample_vote VoteDecisionReject)] [Some (changed_ballot ''EV-001'')]
      [one_record ''m''] [sample_config ''m''] 1)).
     reflection_ok r (Some (sample_vote VoteDecisionReject)) (Some (one_record ''m'')) False"
proof -
  let ?e = "EnforceReflectionRule 1 [Some (sample_vote VoteDecisionReject)] [Some (changed_ballot ''EV-001'')]
      [one_record ''m''] [sample_config ''m''] 1"
  have e: "?e = (fst ?e, snd ?e)" by simp
  have v: "snd ?e ! 0 = Some (changed_ballot ''EV-001'')" by code_simp
  have "v_Decision (changed_ballot ''EV-001'') \<noteq> v_Decision (sample_vote VoteDecisionReject)" by code_simp
  from change_needs_justification [OF _ _ _ _ _ e v this, of "sample_config ''m''"]
  show ?thesis by (simp add: nth_opt_def sample_config_def)
qed

section \<open>References of a resolution\<close>

lemma require_loop_exact:
  "require_loop kind present seen missing cited = Inr missing' \<Longrightarrow>
     [] \<notin> set cited \<and> (missing' = [] \<longleftrightarrow> missing = [] \<and> set cited \<subseteq> set seen \<union> set present)"
  by (induction kind present seen missing cited rule: require_loop.induct) (auto split: if_splits)

lemma require_loop_Inl: "require_loop kind present seen missing cited = Inl e \<Longrightarrow> [] \<in> set cited"
  by (induction kind present seen missing cited rule: require_loop.induct) (auto split: if_splits)

text \<open>The reference check of a resolution is exact: it passes if and only if no cited
  identifier is empty and every one of them is among the persisted rows.\<close>

lemma references_exact:
  "requireAllPresent kind cited present = None \<longleftrightarrow> [] \<notin> set cited \<and> set cited \<subseteq> set present"
proof (cases "require_loop kind present [] [] cited")
  case (Inl e)
  with require_loop_Inl [OF Inl] show ?thesis by (simp add: requireAllPresent_def)
next
  case (Inr missing)
  with require_loop_exact [OF Inr] show ?thesis by (auto simp: requireAllPresent_def)
qed

end
