(* ===== verification/RoleGate.thy ===== *)
theory RoleGate
  imports Gate Consensus
begin

text \<open>
  \<^verbatim>\<open>backend/domain/evidence/role_gate.go\<close> and \<^verbatim>\<open>role_decision.go\<close>: the role-specific part of
  the evidence gate and the rule that blocks an approval outside the role's decision boundary.
  A nil ledger or assessment is \<open>None\<close>; an error of \<open>ValidateRoleDecision\<close> is a constructor of
  \<open>role_error\<close> per error site.
\<close>

section \<open>Role assessment\<close>

definition ledger_nonempty :: "EvidenceLedger option \<Rightarrow> bool" where
  "ledger_nonempty ledger = (case ledger of None \<Rightarrow> False | Some l \<Rightarrow> length (Ledger_List l) > 0)"

definition validateEvidenceIDs ::
    "string list \<Rightarrow> EvidenceLedger option \<Rightarrow> string \<Rightarrow> string \<Rightarrow> GateViolation list" where
  "validateEvidenceIDs ids ledger collector code =
     (case ledger of
        None \<Rightarrow> []
      | Some l \<Rightarrow>
          if length (Ledger_List l) = 0 then []
          else map (field_violation code) (filter (\<lambda>i. \<not> ExistsCollected l i collector) ids))"

definition bad_score :: "float64 \<Rightarrow> float64 option \<Rightarrow> bool" where
  "bad_score hi s = (case s of None \<Rightarrow> True | Some x \<Rightarrow> x < 0 \<or> x > hi)"

definition report_if :: "bool \<Rightarrow> string \<Rightarrow> GateViolation list" where
  "report_if b code = (if b then [violation code] else [])"

text \<open>The first loop: index the assessments by code, reporting repeated codes.\<close>

fun index_assessments ::
    "DimensionAssessment list \<Rightarrow> (string, DimensionAssessment) gomap
     \<Rightarrow> GateViolation list \<times> (string, DimensionAssessment) gomap" where
  "index_assessments [] m = ([], m)"
| "index_assessments (a # as) m =
     (if map_of m (da_DimensionCode a) \<noteq> None then
        (let (vs, m') = index_assessments as m
         in (violation ''DUPLICATE_DIMENSION_ASSESSMENT'' # vs, m'))
      else index_assessments as (AList.update (da_DimensionCode a) a m))"

definition check_dimension ::
    "(string, DimensionAssessment) gomap \<Rightarrow> EvidenceLedger option \<Rightarrow> string \<Rightarrow> bool
     \<Rightarrow> UtilityDimension \<Rightarrow> GateViolation list" where
  "check_dimension byCode ledger collector requireEvidence d =
     (case map_of byCode (ud_Code d) of
        None \<Rightarrow> [violation ''DIMENSION_ASSESSMENT_MISSING'']
      | Some a \<Rightarrow>
          report_if (bad_score 100 (da_Score a)) ''DIMENSION_SCORE_INVALID''
          @ report_if (is_blank (da_Reasoning a)) ''DIMENSION_REASONING_MISSING''
          @ report_if (requireEvidence \<and> length (da_EvidenceIDs a) = 0) ''DIMENSION_EVIDENCE_MISSING''
          @ validateEvidenceIDs (da_EvidenceIDs a) ledger collector ''DIMENSION_EVIDENCE_INVALID'')"

definition validateDimensionAssessments ::
    "DimensionAssessment list \<Rightarrow> ObjectiveFunction \<Rightarrow> EvidenceLedger option \<Rightarrow> string \<Rightarrow> bool
     \<Rightarrow> GateViolation list" where
  "validateDimensionAssessments assessments objective ledger collector requireEvidence =
     (let (dups, byCode) = index_assessments assessments [] in
      dups
      @ concat (map (check_dimension byCode ledger collector requireEvidence) (Dimensions objective))
      @ concat (map (\<lambda>a. report_if (\<not> list_ex (\<lambda>d. ud_Code d = da_DimensionCode a) (Dimensions objective))
                            ''UNKNOWN_DIMENSION_ASSESSMENT'') assessments))"

definition check_technical ::
    "TechnicalAssessment option \<Rightarrow> EvidenceLedger option \<Rightarrow> string \<Rightarrow> bool \<Rightarrow> GateViolation list" where
  "check_technical assessment ledger collector requireEvidence =
     (case assessment of
        None \<Rightarrow> [violation ''TECHNICAL_ASSESSMENT_MISSING'']
      | Some a \<Rightarrow>
          report_if (bad_score 100 (ta_FeasibilityScore a)) ''FEASIBILITY_SCORE_INVALID''
          @ report_if (length (ta_Assumptions a) = 0) ''TECHNICAL_ASSUMPTIONS_MISSING''
          @ report_if (requireEvidence \<and> length (ta_QuantitativeEvidenceIDs a) = 0)
              ''QUANTITATIVE_EVIDENCE_MISSING''
          @ validateEvidenceIDs (ta_QuantitativeEvidenceIDs a) ledger collector
              ''QUANTITATIVE_EVIDENCE_INVALID'')"

definition check_risk ::
    "RiskAssessment option \<Rightarrow> EvidenceLedger option \<Rightarrow> string \<Rightarrow> bool \<Rightarrow> GateViolation list" where
  "check_risk assessment ledger collector requireEvidence =
     (case assessment of
        None \<Rightarrow> [violation ''RISK_ASSESSMENT_MISSING'']
      | Some a \<Rightarrow>
          report_if (is_blank (ra_WorstCase a)) ''WORST_CASE_DETAIL_MISSING''
          @ report_if (is_blank (ra_RollbackPlan a)) ''ROLLBACK_PLAN_MISSING''
          @ report_if (bad_score 1 (ra_ResidualRisk a)) ''RESIDUAL_RISK_INVALID''
          @ report_if (bad_score 100 (ra_ReversibilityScore a)) ''REVERSIBILITY_SCORE_INVALID''
          @ report_if (requireEvidence \<and> length (ra_RiskEvidenceIDs a) = 0) ''RISK_EVIDENCE_MISSING''
          @ validateEvidenceIDs (ra_RiskEvidenceIDs a) ledger collector ''RISK_EVIDENCE_INVALID'')"

definition check_opportunity ::
    "OpportunityAssessment option \<Rightarrow> EvidenceLedger option \<Rightarrow> string \<Rightarrow> bool \<Rightarrow> GateViolation list" where
  "check_opportunity assessment ledger collector requireEvidence =
     (case assessment of
        None \<Rightarrow> [violation ''OPPORTUNITY_ASSESSMENT_MISSING'']
      | Some a \<Rightarrow>
          report_if (bad_score 100 (oa_OpportunityScore a)) ''OPPORTUNITY_SCORE_INVALID''
          @ report_if (is_blank (oa_TimeWindow a)) ''TIME_WINDOW_DETAIL_MISSING''
          @ report_if (is_blank (oa_OpportunityCost a)) ''OPPORTUNITY_COST_DETAIL_MISSING''
          @ report_if (requireEvidence \<and> length (oa_UserSignalEvidenceIDs a) = 0)
              ''USER_SIGNAL_EVIDENCE_MISSING''
          @ validateEvidenceIDs (oa_UserSignalEvidenceIDs a) ledger collector
              ''USER_SIGNAL_EVIDENCE_INVALID'')"

definition ValidateRoleAssessment ::
    "EvidenceSummary option \<Rightarrow> EvidenceLedger option \<Rightarrow> RolePolicy \<Rightarrow> ObjectiveFunction \<Rightarrow> string
     \<Rightarrow> bool \<Rightarrow> GateViolation list" where
  "ValidateRoleAssessment summary ledger policy objective collector hasTools =
     (if \<not> rp_EnforceAssessment policy then []
      else case Option.bind summary s_RoleAssessment of
        None \<Rightarrow> [violation ''ROLE_ASSESSMENT_MISSING'']
      | Some ra \<Rightarrow>
          (let requireEvidence = (hasTools \<and> ledger_nonempty ledger) in
           validateDimensionAssessments (DimensionAssessments ra) objective ledger collector
             requireEvidence
           @ (if rp_RequiredAssessment policy = RoleAssessmentTechnical then
                check_technical (Technical ra) ledger collector requireEvidence
              else if rp_RequiredAssessment policy = RoleAssessmentRisk then
                check_risk (Risk ra) ledger collector requireEvidence
              else if rp_RequiredAssessment policy = RoleAssessmentOpportunity then
                check_opportunity (Opportunity ra) ledger collector requireEvidence
              else [violation ''UNKNOWN_ROLE_ASSESSMENT''])))"

section \<open>Role decision\<close>

datatype role_error =
    NoRoleAssessment string
  | MissingUtilityScore string
  | NoPositiveWeight
  | BelowWeightedUtility float64 string float64
  | NoFeasibilityScore string
  | BelowTechnical float64 float64
  | NoResidualRisk string
  | AboveResidualRisk float64 string float64
  | NoOpportunityScore string
  | BelowOpportunity float64 float64

definition score_map :: "Vote \<Rightarrow> (string, float64) gomap" where
  "score_map vote = fold (\<lambda>s m. AList.update (us_DimensionCode s) (us_Score s) m) (v_UtilityScores vote) []"

fun weigh ::
    "(string, float64) gomap \<Rightarrow> UtilityDimension list \<Rightarrow> float64 \<Rightarrow> float64
     \<Rightarrow> role_error + float64 \<times> float64" where
  "weigh scores [] tot wgt = Inr (tot, wgt)"
| "weigh scores (d # ds) tot wgt =
     (case map_of scores (ud_Code d) of
        None \<Rightarrow> Inl (MissingUtilityScore (ud_Code d))
      | Some s \<Rightarrow> weigh scores ds (tot + s * ud_Weight d) (wgt + ud_Weight d))"

definition weightedUtilityScore :: "Vote \<Rightarrow> ObjectiveFunction \<Rightarrow> role_error + float64" where
  "weightedUtilityScore vote objective =
     (case weigh (score_map vote) (Dimensions objective) 0 0 of
        Inl e \<Rightarrow> Inl e
      | Inr (tot, wgt) \<Rightarrow> if wgt \<le> 0 then Inl NoPositiveWeight else Inr (tot / wgt))"

definition check_weighted :: "Vote \<Rightarrow> RolePolicy \<Rightarrow> ObjectiveFunction \<Rightarrow> role_error option" where
  "check_weighted vote policy objective =
     (if rp_MinWeightedUtilityScore policy > 0 then
        (case weightedUtilityScore vote objective of
           Inl e \<Rightarrow> Some e
         | Inr w \<Rightarrow> if w < rp_MinWeightedUtilityScore policy
                     then Some (BelowWeightedUtility w (rp_Role policy) (rp_MinWeightedUtilityScore policy))
                     else None)
      else None)"

definition check_boundary :: "RoleAssessment \<Rightarrow> RolePolicy \<Rightarrow> role_error option" where
  "check_boundary ra policy =
     (if rp_RequiredAssessment policy = RoleAssessmentTechnical then
        (case Option.bind (Technical ra) ta_FeasibilityScore of
           None \<Rightarrow> Some (NoFeasibilityScore (rp_Role policy))
         | Some x \<Rightarrow> if x < rp_MinTechnicalScore policy
                     then Some (BelowTechnical x (rp_MinTechnicalScore policy)) else None)
      else if rp_RequiredAssessment policy = RoleAssessmentRisk then
        (case Option.bind (Risk ra) ra_ResidualRisk of
           None \<Rightarrow> Some (NoResidualRisk (rp_Role policy))
         | Some x \<Rightarrow> if x > rp_MaxResidualRisk policy
                     then Some (AboveResidualRisk x (rp_Role policy) (rp_MaxResidualRisk policy)) else None)
      else if rp_RequiredAssessment policy = RoleAssessmentOpportunity then
        (case Option.bind (Opportunity ra) oa_OpportunityScore of
           None \<Rightarrow> Some (NoOpportunityScore (rp_Role policy))
         | Some x \<Rightarrow> if x < rp_MinOpportunityScore policy
                     then Some (BelowOpportunity x (rp_MinOpportunityScore policy)) else None)
      else None)"

definition ValidateRoleDecision ::
    "Vote option \<Rightarrow> EvidenceSummary option \<Rightarrow> RolePolicy \<Rightarrow> ObjectiveFunction \<Rightarrow> role_error option" where
  "ValidateRoleDecision voteOpt summary policy objective =
     (case voteOpt of
        None \<Rightarrow> None
      | Some vote \<Rightarrow>
         if \<not> rp_EnforceAssessment policy then None
         else if v_Decision vote \<noteq> VoteDecisionApprove \<and> v_Decision vote \<noteq> VoteDecisionConditionalApprove
           then None
         else (case Option.bind summary s_RoleAssessment of
                 None \<Rightarrow> Some (NoRoleAssessment (rp_Role policy))
               | Some ra \<Rightarrow>
                   (case check_weighted vote policy objective of
                      Some e \<Rightarrow> Some e
                    | None \<Rightarrow> check_boundary ra policy)))"

section \<open>Lemmas on the assessment gate\<close>

lemma report_if_Nil [simp]: "report_if b code = [] \<longleftrightarrow> \<not> b"
  by (simp add: report_if_def)

lemma bad_score_iff: "\<not> bad_score hi s \<longleftrightarrow> (\<exists>x. s = Some x \<and> 0 \<le> x \<and> x \<le> hi)"
  by (auto simp: bad_score_def split: option.splits)

text \<open>Every cited id exists and was collected by the agent, if any evidence was collected.\<close>

definition ids_real :: "EvidenceLedger option \<Rightarrow> string \<Rightarrow> string list \<Rightarrow> bool" where
  "ids_real ledger collector ids \<longleftrightarrow>
     (\<forall>l. ledger = Some l \<longrightarrow> Ledger_List l \<noteq> [] \<longrightarrow> (\<forall>i \<in> set ids. ExistsCollected l i collector))"

lemma validateEvidenceIDs_Nil:
  "validateEvidenceIDs ids ledger collector code = [] \<longleftrightarrow> ids_real ledger collector ids"
  by (auto simp: validateEvidenceIDs_def ids_real_def filter_empty_conv split: option.splits)

lemma index_assessments_dups:
  "fst (index_assessments as m) = [] \<longleftrightarrow> distinct (map da_DimensionCode as) \<and>
      (\<forall>a \<in> set as. map_of m (da_DimensionCode a) = None)"
proof (induction as arbitrary: m)
  case Nil
  show ?case by simp
next
  case (Cons a as)
  show ?case
  proof (cases "map_of m (da_DimensionCode a)")
    case None
    have "(\<forall>x \<in> set as. map_of (AList.update (da_DimensionCode a) a m) (da_DimensionCode x) = None) \<longleftrightarrow>
        da_DimensionCode a \<notin> da_DimensionCode ` set as \<and>
        (\<forall>x \<in> set as. map_of m (da_DimensionCode x) = None)"
      by (auto simp: update_conv image_iff)
    with None show ?thesis by (auto simp: Cons.IH)
  next
    case (Some b)
    then show ?thesis by (auto split: prod.splits)
  qed
qed

lemma index_assessments_lookup:
  "fst (index_assessments as m) = [] \<Longrightarrow>
   map_of (snd (index_assessments as m)) =
     map_of m ++ map_of (map (\<lambda>a. (da_DimensionCode a, a)) as)"
proof (induction as arbitrary: m)
  case Nil
  show ?case by simp
next
  case (Cons a as)
  let ?m = "AList.update (da_DimensionCode a) a m"
  from Cons.prems have n: "map_of m (da_DimensionCode a) = None"
    and nodup: "da_DimensionCode a \<notin> da_DimensionCode ` set as"
    unfolding index_assessments_dups by auto
  with Cons.prems have "fst (index_assessments as ?m) = []" by simp
  note IH = Cons.IH [OF this]
  have "map_of (map (\<lambda>a. (da_DimensionCode a, a)) as) (da_DimensionCode a) = None"
    using nodup by (auto simp: map_of_eq_None_iff image_image)
  with IH n show ?case
    by (auto simp: fun_eq_iff map_add_def update_conv split: option.splits)
qed

text \<open>
  The contract on the dimension assessments: one per declared dimension, none besides, each
  with a score in range, a reason, and real evidence where evidence is required.
\<close>

definition dimension_ok ::
    "EvidenceLedger option \<Rightarrow> string \<Rightarrow> bool \<Rightarrow> DimensionAssessment \<Rightarrow> bool" where
  "dimension_ok ledger collector requireEvidence a \<longleftrightarrow>
     (\<exists>x. da_Score a = Some x \<and> 0 \<le> x \<and> x \<le> 100) \<and> \<not> is_blank (da_Reasoning a) \<and>
     (requireEvidence \<longrightarrow> da_EvidenceIDs a \<noteq> []) \<and> ids_real ledger collector (da_EvidenceIDs a)"

definition dimensions_ok ::
    "DimensionAssessment list \<Rightarrow> ObjectiveFunction \<Rightarrow> EvidenceLedger option \<Rightarrow> string \<Rightarrow> bool \<Rightarrow> bool" where
  "dimensions_ok as objective ledger collector requireEvidence \<longleftrightarrow>
     distinct (map da_DimensionCode as) \<and>
     da_DimensionCode ` set as = ud_Code ` set (Dimensions objective) \<and>
     (\<forall>a \<in> set as. dimension_ok ledger collector requireEvidence a)"

lemma check_dimension_Nil:
  "check_dimension byCode ledger collector req d = [] \<longleftrightarrow>
     (\<exists>a. map_of byCode (ud_Code d) = Some a \<and> dimension_ok ledger collector req a)"
  by (auto simp: check_dimension_def dimension_ok_def validateEvidenceIDs_Nil bad_score_iff
      split: option.splits)

lemma validateDimensionAssessments_Nil:
  "validateDimensionAssessments as objective ledger collector req = [] \<longleftrightarrow>
     dimensions_ok as objective ledger collector req"
proof -
  let ?D = "Dimensions objective" and ?m = "snd (index_assessments as [])"
  have eq: "validateDimensionAssessments as objective ledger collector req = [] \<longleftrightarrow>
      distinct (map da_DimensionCode as) \<and>
      (\<forall>d \<in> set ?D. \<exists>a. map_of ?m (ud_Code d) = Some a \<and> dimension_ok ledger collector req a) \<and>
      (\<forall>a \<in> set as. da_DimensionCode a \<in> ud_Code ` set ?D)"
    using index_assessments_dups [of as "[]"]
    by (auto simp: validateDimensionAssessments_def case_prod_beta check_dimension_Nil list_ex_iff
        image_iff) metis+
  show ?thesis
  proof (cases "distinct (map da_DimensionCode as)")
    case False
    then show ?thesis using eq by (simp add: dimensions_ok_def)
  next
    case True
    then have "fst (index_assessments as []) = []" by (simp add: index_assessments_dups)
    then have look: "map_of ?m c = Some a \<longleftrightarrow> a \<in> set as \<and> da_DimensionCode a = c" for c a
      using True by (auto simp: index_assessments_lookup comp_def)
    have inj: "inj_on da_DimensionCode (set as)" using True by (simp add: distinct_map)
    show ?thesis
      unfolding eq dimensions_ok_def look using True inj
      by (auto simp: image_iff inj_on_def) (metis, metis, metis image_iff)
  qed
qed

section \<open>Lemmas on the decision boundary\<close>

lemma weigh_ok:
  "weigh scores ds tot wgt = Inr (t, w) \<Longrightarrow>
     w = wgt + sum_list (map ud_Weight ds) \<and>
     t = tot + sum_list (map (\<lambda>d. the (map_of scores (ud_Code d)) * ud_Weight d) ds) \<and>
     (\<forall>d \<in> set ds. map_of scores (ud_Code d) \<noteq> None)"
proof (induction ds arbitrary: tot wgt)
  case (Cons d ds)
  then obtain x where x: "map_of scores (ud_Code d) = Some x"
    and rest: "weigh scores ds (tot + x * ud_Weight d) (wgt + ud_Weight d) = Inr (t, w)"
    by (auto split: option.splits)
  from Cons.IH [OF rest] x show ?case by simp
qed simp

lemma weighted_bounds:
  "\<forall>d \<in> set ds. 0 \<le> ud_Weight d \<and> (\<exists>x. map_of scores (ud_Code d) = Some x \<and> 0 \<le> x \<and> x \<le> hi) \<Longrightarrow>
   0 \<le> sum_list (map (\<lambda>d. the (map_of scores (ud_Code d)) * ud_Weight d) ds) \<and>
   sum_list (map (\<lambda>d. the (map_of scores (ud_Code d)) * ud_Weight d) ds)
     \<le> hi * sum_list (map ud_Weight ds)"
proof (induction ds)
  case (Cons d ds)
  from Cons.prems obtain x
    where x: "map_of scores (ud_Code d) = Some x" "0 \<le> x" "x \<le> hi" "0 \<le> ud_Weight d"
    by auto
  then have "x * ud_Weight d \<le> hi * ud_Weight d" "0 \<le> x * ud_Weight d"
    by (simp_all add: mult_right_mono)
  with Cons x show ?case by (simp add: distrib_left)
qed simp

lemma map_of_fold_update:
  "map_of (fold (\<lambda>s m. AList.update (f s) (g s) m) xs m) k = Some x \<Longrightarrow>
     map_of m k = Some x \<or> (\<exists>s \<in> set xs. f s = k \<and> g s = x)"
  by (induction xs arbitrary: m) (fastforce simp: update_conv split: if_splits)+

lemma score_map_range:
  assumes "map_of (score_map vote) k = Some x"
  shows "\<exists>s \<in> set (v_UtilityScores vote). us_DimensionCode s = k \<and> us_Score s = x"
  using map_of_fold_update [of us_DimensionCode us_Score "v_UtilityScores vote" "[]" k x] assms
  by (simp add: score_map_def)

lemma weightedUtilityScore_bounds:
  assumes "weightedUtilityScore vote objective = Inr w"
    and "\<forall>d \<in> set (Dimensions objective). 0 \<le> ud_Weight d"
    and "\<forall>s \<in> set (v_UtilityScores vote). 0 \<le> us_Score s \<and> us_Score s \<le> hi"
  shows "0 \<le> w \<and> w \<le> hi"
proof -
  let ?D = "Dimensions objective" and ?m = "score_map vote"
  obtain t wg where wt: "weigh ?m ?D 0 0 = Inr (t, wg)" and pos: "0 < wg" and w: "w = t / wg"
    using assms(1) by (auto simp: weightedUtilityScore_def split: sum.splits prod.splits if_splits)
  note ok = weigh_ok [OF wt]
  have "\<forall>d \<in> set ?D. 0 \<le> ud_Weight d \<and> (\<exists>x. map_of ?m (ud_Code d) = Some x \<and> 0 \<le> x \<and> x \<le> hi)"
    using ok assms(2,3) score_map_range by fastforce
  from weighted_bounds [OF this] ok have "0 \<le> t" "t \<le> hi * wg" by simp_all
  with pos show ?thesis by (simp add: w divide_le_eq)
qed

section \<open>Properties\<close>

text \<open>The dimension check of the role gate is exact: it is silent if and only if there is
  exactly one assessment per declared dimension and no other, each with a score in [0, 100], a
  non-blank reason, evidence where it is required, and only real, own evidence identifiers.\<close>

lemma role_dimensions_exact:
  "validateDimensionAssessments as objective ledger collector req = [] \<longleftrightarrow>
     distinct (map da_DimensionCode as) \<and>
     da_DimensionCode ` set as = ud_Code ` set (Dimensions objective) \<and>
     list_all (dimension_ok ledger collector req) as"
  by (simp add: validateDimensionAssessments_Nil dimensions_ok_def list_all_iff)

text \<open>C38. No approval outside the role boundary: under the production contract of a role, a vote to
  approve (or to approve conditionally) that passes the check is backed by a weighted utility of
  at least 60 and by the role's own threshold: feasibility at least 60 for Melchior, residual
  risk at most 0.35 for Balthasar, opportunity at least 60 for Casper.\<close>

theorem role_approval_boundary:
  assumes "ValidateRoleDecision (Some vote) summary (DefaultRolePolicy code) objective = None"
    and "v_Decision vote = VoteDecisionApprove \<or> v_Decision vote = VoteDecisionConditionalApprove"
    and "code \<in> {MagiCodeMelchior, MagiCodeBalthasar, MagiCodeCasper}"
  shows "\<exists>ra w. Option.bind summary s_RoleAssessment = Some ra \<and>
    weightedUtilityScore vote objective = Inr w \<and> 60 \<le> w \<and>
    (code = MagiCodeMelchior \<longrightarrow> (\<exists>x. Option.bind (Technical ra) ta_FeasibilityScore = Some x \<and> 60 \<le> x)) \<and>
    (code = MagiCodeBalthasar \<longrightarrow> (\<exists>x. Option.bind (Risk ra) ra_ResidualRisk = Some x \<and> x \<le> 35 / 100)) \<and>
    (code = MagiCodeCasper \<longrightarrow> (\<exists>x. Option.bind (Opportunity ra) oa_OpportunityScore = Some x \<and> 60 \<le> x))"
proof -
  let ?p = "DefaultRolePolicy code"
  have p: "rp_EnforceAssessment ?p" "rp_MinWeightedUtilityScore ?p = 60"
    using assms(3) by (auto simp: DefaultRolePolicy_def MagiCode_defs)
  then obtain ra where ra: "Option.bind summary s_RoleAssessment = Some ra"
    and cw: "check_weighted vote ?p objective = None" and cb: "check_boundary ra ?p = None"
    using assms(1,2) by (auto simp: ValidateRoleDecision_def split: option.splits if_splits)
  from cw p(2) obtain w where "weightedUtilityScore vote objective = Inr w" "60 \<le> w"
    by (auto simp: check_weighted_def split: sum.splits if_splits)
  moreover have "code = MagiCodeMelchior \<longrightarrow> (\<exists>x. Option.bind (Technical ra) ta_FeasibilityScore = Some x \<and> 60 \<le> x)"
    "code = MagiCodeBalthasar \<longrightarrow> (\<exists>x. Option.bind (Risk ra) ra_ResidualRisk = Some x \<and> x \<le> 35 / 100)"
    "code = MagiCodeCasper \<longrightarrow> (\<exists>x. Option.bind (Opportunity ra) oa_OpportunityScore = Some x \<and> 60 \<le> x)"
    using cb by (auto simp: check_boundary_def DefaultRolePolicy_def MagiCode_defs RoleAssessment_defs
        split: option.splits if_splits)
  ultimately show ?thesis using ra by blast
qed

definition sample_objective :: ObjectiveFunction where
  "sample_objective = \<lparr> Dimensions = [\<lparr> ud_Code = ''safety'', ud_Description = [], ud_Weight = 1 \<rparr>] \<rparr>"

definition sample_approval :: Vote where
  "sample_approval = (sample_vote VoteDecisionApprove)\<lparr> v_UtilityScores :=
     [\<lparr> us_DimensionCode = ''safety'', us_Score = 80, us_EvidenceIDs = [], us_ClaimIDs = [],
        us_Reasoning = [] \<rparr>] \<rparr>"

definition sample_risk_summary :: EvidenceSummary where
  "sample_risk_summary = sample_summary\<lparr> s_RoleAssessment := Some
     \<lparr> DimensionAssessments = [], Technical = None,
       Risk = Some \<lparr> ra_WorstCase = ''w'', ra_ResidualRisk = Some (1 / 5), ra_ReversibilityScore = Some 50,
                     ra_RollbackPlan = ''r'', ra_RiskEvidenceIDs = [] \<rparr>,
       Opportunity = None \<rparr> \<rparr>"

theorem role_approval_boundary_witness:
  "\<exists>w. weightedUtilityScore sample_approval sample_objective = Inr w \<and> 60 \<le> w"
proof -
  have "ValidateRoleDecision (Some sample_approval) (Some sample_risk_summary)
      (DefaultRolePolicy MagiCodeBalthasar) sample_objective = None"
    by (simp add: ValidateRoleDecision_def sample_approval_def sample_vote_def sample_risk_summary_def
        DefaultRolePolicy_def MagiCode_defs RoleAssessment_defs check_weighted_def check_boundary_def
        weightedUtilityScore_def score_map_def sample_objective_def)
  from role_approval_boundary [OF this] show ?thesis
    by (auto simp: sample_approval_def sample_vote_def)
qed

text \<open>The weighted utility is a true average: with non-negative weights and scores in
  [0, 100] the result the boundary is compared with lies in [0, 100].\<close>

lemma weighted_utility_bounded:
  assumes "weightedUtilityScore vote objective = Inr w"
    and "\<forall>d \<in> set (Dimensions objective). 0 \<le> ud_Weight d"
    and "\<forall>s \<in> set (v_UtilityScores vote). 0 \<le> us_Score s \<and> us_Score s \<le> 100"
  shows "0 \<le> w \<and> w \<le> 100"
  using assms by (rule weightedUtilityScore_bounds)

end
