(* ===== verification/Observations.thy ===== *)
theory Observations
  imports SampleRun RoleGate
begin

text \<open>
  Concrete behaviours of the code that differ from what its comments and documentation say, each
  evaluated on a small input.
\<close>

section \<open>Blueprint enforcement\<close>

text \<open>A blueprint without the transition to RESOLVED does not stop a run from resolving: the loop
  validates a transition when it enters the target status, and it never enters a terminal one.\<close>

definition blueprint_without_end :: FSMBlueprint where
  "blueprint_without_end = filter (\<lambda>t. st_To t \<noteq> ''RESOLVED'') DefaultFSMBlueprint"

lemma blueprint_terminal_unchecked:
  "case OrchestrateForExecution (sample_orc\<lparr> o_blueprint := Some blueprint_without_end \<rparr>) sample_env 17
      (Some sample_case) (Some sample_owner) [] of
     Some (Inr (Some res), l) \<Rightarrow> r_FinalDecision res = VoteDecisionApprove | _ \<Rightarrow> False"
  by code_simp

text \<open>A declared action is dispatched whatever status it is declared for: this blueprint resolves a
  case although nobody was asked.\<close>

definition blueprint_without_vote :: FSMBlueprint where
  "blueprint_without_vote =
     [\<lparr> st_From = ''DRAFT'', st_To = ''NORMALIZING'', st_Action = ''resolve'' \<rparr>,
      \<lparr> st_From = ''NORMALIZING'', st_To = ''GENERATING_REPORT'', st_Action = ''generate_report'' \<rparr>,
      \<lparr> st_From = ''GENERATING_REPORT'', st_To = ''SAVING_MEMORY'', st_Action = ''evaluate'' \<rparr>]"

lemma blueprint_action_unchecked:
  "UnknownActions blueprint_without_vote = [] \<and>
   (case OrchestrateForExecution (sample_orc\<lparr> o_blueprint := Some blueprint_without_vote \<rparr>) sample_env 17
      (Some sample_case) (Some sample_owner) [] of
     Some (Inr (Some res), l) \<Rightarrow> r_FinalDecision res = VoteDecisionAbstain \<and> r_VoteIDs res = [] | _ \<Rightarrow> False)"
  by code_simp

section \<open>Identifiers of the resolution\<close>

text \<open>Two agents with one record each. Both ledgers call it EV-001; the remap of the round keeps the
  last agent's name, so the resolution cites that record twice and the first one never.\<close>

definition two_agents :: "(goerr + (ArtifactRemap \<times> Vote option list)) \<times> World" where
  "two_agents = persistArtifacts sample_env (o_configs sample_orc) [one_record ''m'', one_record ''b''] [None, None] 1
     ''investigate'' (Some sample_owner)
     \<lparr> w_log = [], w_case = sample_case, w_st = start_state sample_case (Some sample_owner) \<rparr>"

lemma resolution_cites_last_agent:
  "case two_agents of
     (Inr (m, _), w) \<Rightarrow>
       List.map_filter (\<lambda>fx. case fx of FxCreateOwned _ (AEvidence e) \<Rightarrow> Some (e_ID e) | _ \<Rightarrow> None) (w_log w) =
         [''k-m-g1-r1-investigate-EV-001'', ''k-b-g1-r1-investigate-EV-001''] \<and>
       RemapList (Some (mergeRemaps [m])) (collectEvidenceIDs [one_record ''m'', one_record ''b'']) =
         [''k-b-g1-r1-investigate-EV-001'', ''k-b-g1-r1-investigate-EV-001'']
   | _ \<Rightarrow> False"
  by code_simp

section \<open>Inferred reflections\<close>

text \<open>A change of vote with new evidence is justified by the reflection inferred from it when the
  ballot names the record as its ledger does, but the ballots of a revote have been renamed
  before the rule looks at them, and then the same change is reverted.\<close>

lemma renamed_ballot_reverted:
  "snd (EnforceReflectionRule 1 [Some (sample_vote VoteDecisionReject)] [Some (changed_ballot ''EV-001'')]
      [one_record ''m''] [sample_config ''m''] 1) = [Some (changed_ballot ''EV-001'')]"
  "snd (EnforceReflectionRule 1 [Some (sample_vote VoteDecisionReject)]
      [Some (changed_ballot ''k-m-g1-r1-reconsider-EV-001'')] [one_record ''m''] [sample_config ''m''] 1) =
    [Some (sample_vote VoteDecisionReject)]"
  by code_simp+

section \<open>Run of a reflection\<close>

text \<open>Only the second agent changes its vote; its reflection is the first of the list and is stored
  with the run of the first agent.\<close>

lemma reflection_of_wrong_run:
  "rf_AgentRunID (reflection_row sample_case NewArtifactRemap
      [Some ((sample_vote VoteDecisionReject)\<lparr> v_AgentRunID := ''run-m'' \<rparr>),
       Some ((changed_ballot ''EV-001'')\<lparr> v_AgentRunID := ''run-b'' \<rparr>)] 0
      (hd (fst (EnforceReflectionRule 1 [Some (sample_vote VoteDecisionReject), Some (sample_vote VoteDecisionReject)]
        [Some (sample_vote VoteDecisionReject), Some (changed_ballot ''EV-001'')]
        [one_record ''m'', one_record ''b''] [sample_config ''m'', sample_config ''b''] 1)))) = ''run-m''"
  by code_simp

section \<open>Evidence counts\<close>

text \<open>The number of quantitative records counts a record as often as it is listed.\<close>

lemma duplicate_evidence_counted:
  "Passed (Gate_Evaluate registry
     (Some (sample_summary\<lparr> s_EvidenceByType := [(''quantitative'', [''EV-001'', ''EV-001'', ''EV-001''])] \<rparr>))
     sample_ledger (sample_standard\<lparr> es_MinQuantitativeCount := 3 \<rparr>) ''casper'')"
  by code_simp

end
