(* ===== verification/Kernel.thy ===== *)
theory Kernel
  imports AgentRuntime
begin

text \<open>
  \<^verbatim>\<open>backend/domain/execution\<close>: the durable execution kernel (\<^verbatim>\<open>kernel.go\<close>, \<^verbatim>\<open>identity.go\<close>,
  \<^verbatim>\<open>errors.go\<close>) and the records it keeps (\<^verbatim>\<open>entity/execution.go\<close>). The kernel runs one external
  operation (a model or tool call) through a repository that several workers share.

  Concurrency decides whether it is right, so \<open>execute\<close> is not a function to a result but a
  \<open>proc\<close>: the tree of the calls it makes on its ports. A node is one call, atomic for the other
  workers, with the continuation for every answer, errors included. Reading the tree along one
  sequence of answers gives the Go function's run for these answers. The calls of one request
  between two nodes touch no shared state. Contexts (cancellation, deadlines) only appear as errors
  that ports answer. The SHA-256 digest in hexadecimal is the parameter \<open>dig\<close>.
\<close>

section \<open>Records\<close>

record ExecutionIdentity =
  id_RunID :: string
  id_StepID :: string
  id_InvocationID :: string
  id_AttemptID :: string

datatype InvocationStatus =
    InvocationPending | InvocationRunning | InvocationSucceeded | InvocationFailed
  | InvocationUnknown | InvocationStatusOther string

datatype InvocationKind =
    InvocationModel | InvocationTool | InvocationSensor | InvocationKindOther string

datatype RetrySafety =
    RetrySafeReadOnly | RetrySafeIdempotent | RetryUnsafe | RetryUnknown | RetrySafetyOther string

text \<open>The time stamps of the two rows are written by the database adapter and never read by the
  kernel; they are left out. The kind and the retry safety are stored as strings in Go.\<close>

record RuntimeInvocation =
  ri_InvocationID :: string
  ri_RunID :: string
  ri_StepID :: string
  ri_Kind :: InvocationKind
  ri_LogicalOrdinal :: int
  ri_Status :: InvocationStatus
  ri_AttemptCount :: int
  ri_OperationName :: string
  ri_RetrySafety :: RetrySafety
  ri_IdempotencyKey :: "string option"
  ri_InputDigest :: string
  ri_InputJSON :: string
  ri_OutputJSON :: string
  ri_Error :: string

record RuntimeInvocationAttempt =
  ra_AttemptID :: string
  ra_InvocationID :: string
  ra_AttemptNo :: int
  ra_WorkerID :: string
  ra_Status :: InvocationStatus
  ra_Error :: string

section \<open>Identities\<close>

fun kind_str :: "InvocationKind \<Rightarrow> string" where
  "kind_str InvocationModel = ''model''"
| "kind_str InvocationTool = ''tool''"
| "kind_str InvocationSensor = ''sensor''"
| "kind_str (InvocationKindOther s) = s"

definition NewStepID :: "(string \<Rightarrow> string) \<Rightarrow> string \<Rightarrow> int \<Rightarrow> string" where
  "NewStepID dig runID stepIndex = dig (''step:v1|'' @ runID @ ''|'' @ itoa stepIndex)"

definition NewInvocationID :: "(string \<Rightarrow> string) \<Rightarrow> string \<Rightarrow> InvocationKind \<Rightarrow> int \<Rightarrow> string" where
  "NewInvocationID dig stepID kind ordinal =
     dig (''invocation:v1|'' @ stepID @ ''|'' @ kind_str kind @ ''|'' @ itoa ordinal)"

definition NewModelInvocationID :: "(string \<Rightarrow> string) \<Rightarrow> string \<Rightarrow> string \<Rightarrow> int \<Rightarrow> string" where
  "NewModelInvocationID dig stepID modelDigest ordinal =
     dig (''model-invocation:v1|'' @ stepID @ ''|'' @ modelDigest @ ''|'' @ itoa ordinal)"

definition ToolIdempotencyKey :: "(string \<Rightarrow> string) \<Rightarrow> string \<Rightarrow> string \<Rightarrow> string \<Rightarrow> string" where
  "ToolIdempotencyKey dig invocationID toolName canonicalArguments =
     dig (''tool:v1|'' @ invocationID @ ''|'' @ toolName @ ''|'' @ dig canonicalArguments)"

definition ApprovalIntentDigest :: "(string \<Rightarrow> string) \<Rightarrow> string \<Rightarrow> string \<Rightarrow> string" where
  "ApprovalIntentDigest dig toolName canonicalArguments =
     dig (''approval-intent:v1|'' @ toolName @ ''|'' @ dig canonicalArguments)"

section \<open>Requests and results\<close>

record Request =
  rq_Identity :: ExecutionIdentity
  rq_Kind :: InvocationKind
  rq_OperationName :: string
  rq_Input :: string
  rq_RetrySafety :: RetrySafety
  rq_IdempotencyKey :: string
  rq_LogicalOrdinal :: int

record KResult =
  kr_Output :: string
  kr_Cached :: bool

type_synonym InputMatcher = "RuntimeInvocation \<Rightarrow> Request \<Rightarrow> goerr + bool"

record InvocationRecord =
  ir_Identity :: ExecutionIdentity
  ir_Status :: InvocationStatus
  ir_Error :: string

text \<open>Of the kernel only matters whether its ports are configured (not nil).\<close>

record Kernel =
  k_invocations :: bool
  k_recorder :: bool

section \<open>Errors\<close>

definition newline :: string where
  "newline = [CHR 0x0A]"

definition errors_Join :: "goerr \<Rightarrow> goerr \<Rightarrow> goerr" where
  "errors_Join a b = Wraps (err_str a @ newline @ err_str b) [a, b]"

definition ambiguousError :: "string \<Rightarrow> goerr option \<Rightarrow> goerr" where
  "ambiguousError invocationID cause =
     (let head = err_str ErrAmbiguousInvocation @ '': invocation '' @ invocationID in
      case cause of
        None \<Rightarrow> Wraps head [ErrAmbiguousInvocation]
      | Some e \<Rightarrow> Wraps (head @ '': '' @ err_str e) [ErrAmbiguousInvocation, e])"

definition repositoryError :: "string \<Rightarrow> goerr \<Rightarrow> goerr" where
  "repositoryError operation cause =
     Wraps (err_str ErrInvocationRepository @ '': '' @ operation @ '': '' @ err_str cause)
       [ErrInvocationRepository, cause]"

definition recorderError :: "string \<Rightarrow> goerr \<Rightarrow> goerr" where
  "recorderError operation cause =
     Wraps (err_str ErrInvocationRecorder @ '': '' @ operation @ '': '' @ err_str cause)
       [ErrInvocationRecorder, cause]"

definition ownershipError :: "string \<Rightarrow> string \<Rightarrow> goerr" where
  "ownershipError invocationID attemptID =
     Wraps (err_str ErrInvocationNotOwned @ '': invocation='' @ invocationID @ '' attempt='' @ attemptID)
       [ErrInvocationNotOwned]"

definition invalidRequest :: "string \<Rightarrow> goerr" where
  "invalidRequest text = Wraps (err_str ErrInvalidExecutionRequest @ '': '' @ text) [ErrInvalidExecutionRequest]"

section \<open>Matching a request with the stored invocation\<close>

definition mayRetryUnknown :: "RetrySafety \<Rightarrow> bool" where
  "mayRetryUnknown safety \<longleftrightarrow> safety = RetrySafeReadOnly \<or> safety = RetrySafeIdempotent"

definition stringPtr :: "string \<Rightarrow> string option" where
  "stringPtr value = (if value = [] then None else Some value)"

definition matchesRequestExceptInput :: "RuntimeInvocation \<Rightarrow> Request \<Rightarrow> bool" where
  "matchesRequestExceptInput invo req \<longleftrightarrow>
     ri_InvocationID invo = id_InvocationID (rq_Identity req) \<and>
     ri_RunID invo = id_RunID (rq_Identity req) \<and>
     ri_StepID invo = id_StepID (rq_Identity req) \<and>
     ri_Kind invo = rq_Kind req \<and>
     ri_OperationName invo = rq_OperationName req \<and>
     ri_RetrySafety invo = rq_RetrySafety req \<and>
     ri_LogicalOrdinal invo = rq_LogicalOrdinal req \<and>
     ((rq_IdempotencyKey req = [] \<and> (ri_IdempotencyKey invo = None \<or> ri_IdempotencyKey invo = Some []))
      \<or> (rq_IdempotencyKey req \<noteq> [] \<and> ri_IdempotencyKey invo = Some (rq_IdempotencyKey req)))"

definition matchesRequest :: "(string \<Rightarrow> string) \<Rightarrow> RuntimeInvocation \<Rightarrow> Request \<Rightarrow> bool" where
  "matchesRequest dig invo req \<longleftrightarrow>
     matchesRequestExceptInput invo req \<and> ri_InputDigest invo = dig (rq_Input req) \<and>
     ri_InputJSON invo = rq_Input req"

definition cachedResult :: "RuntimeInvocation \<Rightarrow> KResult" where
  "cachedResult invo = \<lparr> kr_Output = ri_OutputJSON invo, kr_Cached = True \<rparr>"

definition resultWithoutFence :: "RuntimeInvocation option \<Rightarrow> Request \<Rightarrow> goerr + KResult" where
  "resultWithoutFence io req =
     (let unowned = Inl (ownershipError (id_InvocationID (rq_Identity req)) (id_AttemptID (rq_Identity req))) in
      case io of None \<Rightarrow> unowned
      | Some invo \<Rightarrow>
          if ri_Status invo = InvocationSucceeded then Inr (cachedResult invo)
          else if ri_Status invo = InvocationUnknown \<and> \<not> mayRetryUnknown (rq_RetrySafety req)
            then Inl (ambiguousError (id_InvocationID (rq_Identity req)) None)
          else unowned)"

definition attemptKey :: "string \<Rightarrow> string \<Rightarrow> string" where
  "attemptKey invocationID attemptID =
     (if invocationID = [] \<or> attemptID = [] then attemptID else attemptID @ '':'' @ invocationID)"

definition validate :: "Kernel \<Rightarrow> Request \<Rightarrow> bool \<Rightarrow> goerr option" where
  "validate k req has_fn =
     (let i = rq_Identity req in
      if \<not> k_invocations k then Some (invalidRequest ''invocation repository is required'')
      else if \<not> has_fn then Some (invalidRequest ''executor is required'')
      else if id_RunID i = [] \<or> id_StepID i = [] \<or> id_InvocationID i = [] \<or> id_AttemptID i = []
        then Some (invalidRequest ''complete execution identity is required'')
      else None)"

text \<open>The check of the stored row against the request, with the optional matcher of old encodings.\<close>

definition check_match :: "(string \<Rightarrow> string) \<Rightarrow> InputMatcher option \<Rightarrow> RuntimeInvocation \<Rightarrow> Request \<Rightarrow> goerr option" where
  "check_match dig matcher invo req =
     (let mismatch = err_str ErrInvocationMismatch @ '': invocation='' @ id_InvocationID (rq_Identity req) in
      if matchesRequest dig invo req then None
      else case matcher of
        Some m \<Rightarrow>
          if matchesRequestExceptInput invo req \<and> ri_InputDigest invo = dig (ri_InputJSON invo) then
            (case m invo req of
               Inl e \<Rightarrow> Some (Wraps (mismatch @ '': input compatibility: '' @ err_str e) [ErrInvocationMismatch])
             | Inr compatible \<Rightarrow> if compatible then None else Some (Wraps mismatch [ErrInvocationMismatch]))
          else Some (Wraps mismatch [ErrInvocationMismatch])
      | None \<Rightarrow> Some (Wraps mismatch [ErrInvocationMismatch]))"

section \<open>The kernel as a tree of port calls\<close>

datatype proc =
    Return "goerr + KResult"
  | CEnsure RuntimeInvocation "goerr + RuntimeInvocation option \<Rightarrow> proc"
  | CBegin string string "goerr + RuntimeInvocation option \<times> bool \<Rightarrow> proc"
  | CRecord InvocationRecord "goerr option \<Rightarrow> proc"
  | CCall "goerr + string \<Rightarrow> proc"
  | CComplete string string string "goerr + bool \<Rightarrow> proc"
  | CFail string string string "goerr + bool \<Rightarrow> proc"
  | CMarkUnknown string string string "goerr + bool \<Rightarrow> proc"

text \<open>\<open>record\<close> without a recorder makes no call and answers nil.\<close>

definition record_invocation ::
  "Kernel \<Rightarrow> ExecutionIdentity \<Rightarrow> InvocationStatus \<Rightarrow> string \<Rightarrow> (goerr option \<Rightarrow> proc) \<Rightarrow> proc" where
  "record_invocation k ident status reason cont =
     (if k_recorder k
      then CRecord \<lparr> ir_Identity = ident, ir_Status = status, ir_Error = reason \<rparr> cont
      else cont None)"

definition markUnknown :: "Kernel \<Rightarrow> Request \<Rightarrow> goerr \<Rightarrow> proc" where
  "markUnknown k req executeErr =
     (let i = id_InvocationID (rq_Identity req); a = id_AttemptID (rq_Identity req);
          ambiguousErr = ambiguousError i (Some executeErr) in
      CMarkUnknown i a (err_str executeErr) (\<lambda>r. case r of
        Inl e \<Rightarrow> Return (Inl (errors_Join ambiguousErr (repositoryError ''mark attempt unknown'' e)))
      | Inr won \<Rightarrow>
          if \<not> won then Return (Inl (errors_Join ambiguousErr (ownershipError i a)))
          else record_invocation k (rq_Identity req) InvocationUnknown (err_str executeErr) (\<lambda>re. case re of
                 Some e \<Rightarrow> Return (Inl (errors_Join ambiguousErr (recorderError ''record unknown attempt'' e)))
               | None \<Rightarrow> Return (Inl ambiguousErr))))"

definition markFailed :: "Kernel \<Rightarrow> Request \<Rightarrow> goerr \<Rightarrow> proc" where
  "markFailed k req executeErr =
     (let i = id_InvocationID (rq_Identity req); a = id_AttemptID (rq_Identity req) in
      CFail i a (err_str executeErr) (\<lambda>r. case r of
        Inl e \<Rightarrow> Return (Inl (errors_Join executeErr (repositoryError ''fail attempt'' e)))
      | Inr won \<Rightarrow>
          if \<not> won then Return (Inl (errors_Join executeErr (ownershipError i a)))
          else record_invocation k (rq_Identity req) InvocationFailed (err_str executeErr) (\<lambda>re. case re of
                 Some e \<Rightarrow> Return (Inl (errors_Join executeErr (recorderError ''record failed attempt'' e)))
               | None \<Rightarrow> Return (Inl executeErr))))"

text \<open>The last part of \<open>execute\<close>: the operation returned an output.\<close>

definition complete_attempt :: "Kernel \<Rightarrow> Request \<Rightarrow> string \<Rightarrow> proc" where
  "complete_attempt k req output =
     (let i = id_InvocationID (rq_Identity req); a = id_AttemptID (rq_Identity req) in
      CComplete i a output (\<lambda>r. case r of
        Inl e \<Rightarrow> Return (Inl (repositoryError ''complete attempt'' e))
      | Inr won \<Rightarrow>
          if \<not> won then Return (Inl (ownershipError i a))
          else record_invocation k (rq_Identity req) InvocationSucceeded [] (\<lambda>re. case re of
                 Some e \<Rightarrow> Return (Inl (recorderError ''record succeeded attempt'' e))
               | None \<Rightarrow> Return (Inr \<lparr> kr_Output = output, kr_Cached = False \<rparr>))))"

text \<open>The middle part: the attempt was won; it is recorded, executed and settled.\<close>

definition owned_attempt :: "Kernel \<Rightarrow> Request \<Rightarrow> proc" where
  "owned_attempt k req =
     (let i = id_InvocationID (rq_Identity req); a = id_AttemptID (rq_Identity req) in
      record_invocation k (rq_Identity req) InvocationRunning [] (\<lambda>re. case re of
        Some e \<Rightarrow>
          let recordErr = recorderError ''record running attempt'' e in
          CFail i a (err_str recordErr) (\<lambda>r. case r of
            Inl settleErr \<Rightarrow> Return (Inl (errors_Join recordErr (repositoryError ''fail unrecorded attempt'' settleErr)))
          | Inr won \<Rightarrow> if \<not> won then Return (Inl (errors_Join recordErr (ownershipError i a)))
                       else Return (Inl recordErr))
      | None \<Rightarrow>
          CCall (\<lambda>r. case r of
            Inl executeErr \<Rightarrow>
              if err_is executeErr ErrExternalOutcomeUnknown then markUnknown k req executeErr
              else markFailed k req executeErr
          | Inr output \<Rightarrow> complete_attempt k req output)))"

definition new_invocation :: "(string \<Rightarrow> string) \<Rightarrow> Request \<Rightarrow> RuntimeInvocation" where
  "new_invocation dig req =
     \<lparr> ri_InvocationID = id_InvocationID (rq_Identity req), ri_RunID = id_RunID (rq_Identity req),
       ri_StepID = id_StepID (rq_Identity req), ri_Kind = rq_Kind req,
       ri_LogicalOrdinal = rq_LogicalOrdinal req, ri_Status = InvocationPending, ri_AttemptCount = 0,
       ri_OperationName = rq_OperationName req, ri_RetrySafety = rq_RetrySafety req,
       ri_IdempotencyKey = stringPtr (rq_IdempotencyKey req), ri_InputDigest = dig (rq_Input req),
       ri_InputJSON = rq_Input req, ri_OutputJSON = [], ri_Error = [] \<rparr>"

definition scoped :: "Request \<Rightarrow> Request" where
  "scoped req = req\<lparr> rq_Identity := (rq_Identity req)\<lparr> id_AttemptID :=
       attemptKey (id_InvocationID (rq_Identity req)) (id_AttemptID (rq_Identity req)) \<rparr> \<rparr>"

text \<open>The first part after the request was scoped: ensure, match, replay, fence.\<close>

definition fenced_execution :: "(string \<Rightarrow> string) \<Rightarrow> Kernel \<Rightarrow> Request \<Rightarrow> InputMatcher option \<Rightarrow> proc" where
  "fenced_execution dig k req matcher =
     (let i = id_InvocationID (rq_Identity req); a = id_AttemptID (rq_Identity req) in
      CEnsure (new_invocation dig req) (\<lambda>r. case r of
        Inl e \<Rightarrow> Return (Inl (repositoryError ''ensure invocation'' e))
      | Inr None \<Rightarrow> Return (Inl (repositoryError ''ensure invocation'' (Errorf ''repository returned nil invocation'')))
      | Inr (Some invo) \<Rightarrow>
          (case check_match dig matcher invo req of
             Some e \<Rightarrow> Return (Inl e)
           | None \<Rightarrow>
               if ri_Status invo = InvocationSucceeded then Return (Inr (cachedResult invo))
               else if ri_Status invo = InvocationUnknown \<and> \<not> mayRetryUnknown (rq_RetrySafety req)
                 then Return (Inl (ambiguousError i None))
               else CBegin i a (\<lambda>r2. case r2 of
                      Inl e \<Rightarrow> Return (Inl (repositoryError ''begin attempt'' e))
                    | Inr (invo2, won) \<Rightarrow>
                        if \<not> won then Return (resultWithoutFence invo2 req) else owned_attempt k req))))"

definition execute :: "(string \<Rightarrow> string) \<Rightarrow> Kernel \<Rightarrow> Request \<Rightarrow> InputMatcher option \<Rightarrow> bool \<Rightarrow> proc" where
  "execute dig k req matcher has_fn =
     (case validate k req has_fn of
        Some e \<Rightarrow> Return (Inl e)
      | None \<Rightarrow> fenced_execution dig k (scoped req) matcher)"

definition Kernel_Execute :: "(string \<Rightarrow> string) \<Rightarrow> Kernel \<Rightarrow> Request \<Rightarrow> bool \<Rightarrow> proc" where
  "Kernel_Execute dig k req has_fn = execute dig k req None has_fn"

definition ExecuteWithInputMatcher :: "(string \<Rightarrow> string) \<Rightarrow> Kernel \<Rightarrow> Request \<Rightarrow> InputMatcher option \<Rightarrow> bool \<Rightarrow> proc" where
  "ExecuteWithInputMatcher dig k req matcher has_fn = execute dig k req matcher has_fn"

section \<open>Workers that share a repository\<close>

text \<open>The repository port as a value: what each operation answers and how it changes the store.\<close>

record 's RepoOps =
  op_Ensure :: "RuntimeInvocation \<Rightarrow> 's \<Rightarrow> (goerr + RuntimeInvocation option) \<times> 's"
  op_Begin :: "string \<Rightarrow> string \<Rightarrow> 's \<Rightarrow> (goerr + RuntimeInvocation option \<times> bool) \<times> 's"
  op_Complete :: "string \<Rightarrow> string \<Rightarrow> string \<Rightarrow> 's \<Rightarrow> (goerr + bool) \<times> 's"
  op_Fail :: "string \<Rightarrow> string \<Rightarrow> string \<Rightarrow> 's \<Rightarrow> (goerr + bool) \<times> 's"
  op_MarkUnknown :: "string \<Rightarrow> string \<Rightarrow> string \<Rightarrow> 's \<Rightarrow> (goerr + bool) \<times> 's"

text \<open>One repository call of a worker.\<close>

fun repo_step :: "'s RepoOps \<Rightarrow> proc \<Rightarrow> 's \<Rightarrow> (proc \<times> 's) option" where
  "repo_step R (CEnsure invo c) s = (case op_Ensure R invo s of (r, s') \<Rightarrow> Some (c r, s'))"
| "repo_step R (CBegin i a c) s = (case op_Begin R i a s of (r, s') \<Rightarrow> Some (c r, s'))"
| "repo_step R (CComplete i a out c) s = (case op_Complete R i a out s of (r, s') \<Rightarrow> Some (c r, s'))"
| "repo_step R (CFail i a reason c) s = (case op_Fail R i a reason s of (r, s') \<Rightarrow> Some (c r, s'))"
| "repo_step R (CMarkUnknown i a reason c) s = (case op_MarkUnknown R i a reason s of (r, s') \<Rightarrow> Some (c r, s'))"
| "repo_step R (Return r) s = None"
| "repo_step R (CRecord ir c) s = None"
| "repo_step R (CCall c) s = None"

text \<open>A system: the workers (any number of them), the shared store, and the log of the external calls
  with their outcome. A worker that is never scheduled again has crashed.\<close>

record 's KSys =
  ks_workers :: "nat \<Rightarrow> proc"
  ks_store :: 's
  ks_log :: "(nat \<times> (goerr + string)) list"

inductive kstep :: "'s RepoOps \<Rightarrow> 's KSys \<Rightarrow> 's KSys \<Rightarrow> bool" for R where
  repo: "repo_step R (ks_workers s w) (ks_store s) = Some (p, st)
    \<Longrightarrow> kstep R s (s\<lparr> ks_workers := (ks_workers s)(w := p), ks_store := st \<rparr>)"
| recorder: "ks_workers s w = CRecord ir c
    \<Longrightarrow> kstep R s (s\<lparr> ks_workers := (ks_workers s)(w := c answer) \<rparr>)"
| external: "ks_workers s w = CCall c
    \<Longrightarrow> kstep R s (s\<lparr> ks_workers := (ks_workers s)(w := c outcome), ks_log := ks_log s @ [(w, outcome)] \<rparr>)"

text \<open>The scheduler that runs one given interleaving; the external outcomes and recorder answers are
  part of the schedule.\<close>

datatype ksched = KRepo nat | KRecord nat "goerr option" | KCall nat "goerr + string"

fun run_sched :: "'s RepoOps \<Rightarrow> ksched list \<Rightarrow> 's KSys \<Rightarrow> 's KSys option" where
  "run_sched R [] s = Some s"
| "run_sched R (KRepo w # xs) s =
     (case repo_step R (ks_workers s w) (ks_store s) of
        None \<Rightarrow> None
      | Some (p, st) \<Rightarrow> run_sched R xs (s\<lparr> ks_workers := (ks_workers s)(w := p), ks_store := st \<rparr>))"
| "run_sched R (KRecord w answer # xs) s =
     (case ks_workers s w of
        CRecord ir c \<Rightarrow> run_sched R xs (s\<lparr> ks_workers := (ks_workers s)(w := c answer) \<rparr>)
      | _ \<Rightarrow> None)"
| "run_sched R (KCall w outcome # xs) s =
     (case ks_workers s w of
        CCall c \<Rightarrow> run_sched R xs (s\<lparr> ks_workers := (ks_workers s)(w := c outcome),
                                    ks_log := ks_log s @ [(w, outcome)] \<rparr>)
      | _ \<Rightarrow> None)"

lemma kstep_then: "kstep R s t \<Longrightarrow> (kstep R)\<^sup>*\<^sup>* t u \<Longrightarrow> (kstep R)\<^sup>*\<^sup>* s u"
  by (rule converse_rtranclp_into_rtranclp)

lemma run_sched_steps: "run_sched R xs s = Some s' \<Longrightarrow> (kstep R)\<^sup>*\<^sup>* s s'"
proof (induction R xs s rule: run_sched.induct)
  case (2 R w xs s)
  then show ?case
    by (auto split: option.splits prod.splits intro: kstep_then kstep.repo)
next
  case (3 R w answer xs s)
  then show ?case
    by (auto split: proc.splits intro: kstep_then kstep.recorder)
next
  case (4 R w outcome xs s)
  then show ?case
    by (auto split: proc.splits intro: kstep_then kstep.external)
qed simp

section \<open>One worker alone\<close>

text \<open>A worker that nobody interrupts: the recorder answers \<open>rec\<close>, the operation has the outcome
  \<open>outcome\<close>. The result, the store and the number of external calls.\<close>

primrec solo :: "'s RepoOps \<Rightarrow> (InvocationRecord \<Rightarrow> goerr option) \<Rightarrow> goerr + string \<Rightarrow> proc \<Rightarrow> 's \<Rightarrow>
    (goerr + KResult) \<times> 's \<times> nat" where
  "solo R rec outcome (Return r) = (\<lambda>s. (r, s, 0))"
| "solo R rec outcome (CEnsure invo c) = (\<lambda>s. case op_Ensure R invo s of (r, s') \<Rightarrow> solo R rec outcome (c r) s')"
| "solo R rec outcome (CBegin i a c) = (\<lambda>s. case op_Begin R i a s of (r, s') \<Rightarrow> solo R rec outcome (c r) s')"
| "solo R rec outcome (CRecord ir c) = (\<lambda>s. solo R rec outcome (c (rec ir)) s)"
| "solo R rec outcome (CCall c) = (\<lambda>s. case solo R rec outcome (c outcome) s of (r, s', n) \<Rightarrow> (r, s', Suc n))"
| "solo R rec outcome (CComplete i a out c) =
     (\<lambda>s. case op_Complete R i a out s of (r, s') \<Rightarrow> solo R rec outcome (c r) s')"
| "solo R rec outcome (CFail i a reason c) =
     (\<lambda>s. case op_Fail R i a reason s of (r, s') \<Rightarrow> solo R rec outcome (c r) s')"
| "solo R rec outcome (CMarkUnknown i a reason c) =
     (\<lambda>s. case op_MarkUnknown R i a reason s of (r, s') \<Rightarrow> solo R rec outcome (c r) s')"

end
