(* ===== verification/InvocationStore.thy ===== *)
theory InvocationStore
  imports Kernel
begin

text \<open>
  The two implementations of the port \<^verbatim>\<open>RuntimeInvocationRepository\<close>: the in-memory one
  (\<^verbatim>\<open>domain/runtime/invocations_memory.go\<close>) and the database one
  (\<^verbatim>\<open>adapter/runtime_invocation_repository.go\<close>), and the contract both satisfy.

  An operation of the memory repository holds its mutex throughout, so it is one atomic step. A
  transaction of the database is one atomic step too; \<open>db_faults\<close> says for the next statements
  whether the database refuses (nothing happens), works, or works and loses the answer. The tables
  are lists of rows with the keys the models declare: the primary keys, the unique idempotency key
  (NULL never conflicts) and the unique pair of invocation and attempt number.
\<close>

section \<open>The in-memory repository\<close>

record memRepo =
  mr_invocations :: "(string, RuntimeInvocation) gomap"
  mr_attempts :: "(string, RuntimeInvocationAttempt list) gomap"
  mr_current :: "(string, string) gomap"

definition newMemoryInvocationRepository :: memRepo where
  "newMemoryInvocationRepository = \<lparr> mr_invocations = [], mr_attempts = [], mr_current = [] \<rparr>"

definition mem_Ensure :: "RuntimeInvocation \<Rightarrow> memRepo \<Rightarrow> (goerr + RuntimeInvocation option) \<times> memRepo" where
  "mem_Ensure invo r =
     (case map_of (mr_invocations r) (ri_InvocationID invo) of
        None \<Rightarrow> (Inr (Some invo), r\<lparr> mr_invocations := AList.update (ri_InvocationID invo) invo (mr_invocations r) \<rparr>)
      | Some existing \<Rightarrow> (Inr (Some existing), r))"

definition mem_Get :: "string \<Rightarrow> memRepo \<Rightarrow> goerr + RuntimeInvocation option" where
  "mem_Get invocationID r = Inr (map_of (mr_invocations r) invocationID)"

definition attempt_of :: "string \<Rightarrow> string \<Rightarrow> int \<Rightarrow> RuntimeInvocationAttempt" where
  "attempt_of invocationID attemptID no =
     \<lparr> ra_AttemptID = attemptID, ra_InvocationID = invocationID, ra_AttemptNo = no, ra_WorkerID = [],
       ra_Status = InvocationRunning, ra_Error = [] \<rparr>"

definition may_begin :: "InvocationStatus \<Rightarrow> bool" where
  "may_begin st \<longleftrightarrow> st = InvocationPending \<or> st = InvocationFailed \<or> st = InvocationUnknown"

definition mem_BeginAttempt ::
  "string \<Rightarrow> string \<Rightarrow> memRepo \<Rightarrow> (goerr + RuntimeInvocation option \<times> bool) \<times> memRepo" where
  "mem_BeginAttempt invocationID attemptID r =
     (case map_of (mr_invocations r) invocationID of
        None \<Rightarrow> (Inr (None, False), r)
      | Some invo \<Rightarrow>
          if \<not> may_begin (ri_Status invo) then (Inr (Some invo, False), r)
          else
            let invo' = invo\<lparr> ri_Status := InvocationRunning, ri_AttemptCount := ri_AttemptCount invo + 1 \<rparr>;
                earlier = (case map_of (mr_attempts r) invocationID of None \<Rightarrow> [] | Some as \<Rightarrow> as) in
            (Inr (Some invo', True),
             \<lparr> mr_invocations = AList.update invocationID invo' (mr_invocations r),
               mr_attempts = AList.update invocationID
                 (earlier @ [attempt_of invocationID attemptID (ri_AttemptCount invo')]) (mr_attempts r),
               mr_current = AList.update invocationID attemptID (mr_current r) \<rparr>))"

text \<open>A missing key of a Go map reads as the zero value.\<close>

definition current_of :: "memRepo \<Rightarrow> string \<Rightarrow> string" where
  "current_of r i = (case map_of (mr_current r) i of None \<Rightarrow> [] | Some a \<Rightarrow> a)"

definition mem_finish ::
  "string \<Rightarrow> string \<Rightarrow> InvocationStatus \<Rightarrow> string \<Rightarrow> string \<Rightarrow> memRepo \<Rightarrow> (goerr + bool) \<times> memRepo" where
  "mem_finish invocationID attemptID status output reason r =
     (case map_of (mr_invocations r) invocationID of
        None \<Rightarrow> (Inr False, r)
      | Some invo \<Rightarrow>
          if ri_Status invo \<noteq> InvocationRunning \<or> current_of r invocationID \<noteq> attemptID then (Inr False, r)
          else (Inr True, r\<lparr> mr_invocations := AList.update invocationID
                  (invo\<lparr> ri_Status := status, ri_OutputJSON := output, ri_Error := reason \<rparr>) (mr_invocations r) \<rparr>))"

definition mem_ops :: "memRepo RepoOps" where
  "mem_ops = \<lparr> op_Ensure = mem_Ensure, op_Begin = mem_BeginAttempt,
     op_Complete = (\<lambda>i a out. mem_finish i a InvocationSucceeded out []),
     op_Fail = (\<lambda>i a reason. mem_finish i a InvocationFailed [] reason),
     op_MarkUnknown = (\<lambda>i a reason. mem_finish i a InvocationUnknown [] reason) \<rparr>"

section \<open>The database repository\<close>

record RuntimeInvocationModel =
  im_InvocationID :: string
  im_RunID :: string
  im_StepID :: string
  im_Kind :: InvocationKind
  im_LogicalOrdinal :: int
  im_Status :: InvocationStatus
  im_AttemptCount :: int
  im_OperationName :: string
  im_RetrySafety :: RetrySafety
  im_IdempotencyKey :: "string option"
  im_InputDigest :: string
  im_InputJSON :: string
  im_OutputJSON :: "string option"
  im_Error :: "string option"

record RuntimeInvocationAttemptModel =
  am_AttemptID :: string
  am_InvocationID :: string
  am_AttemptNo :: int
  am_Status :: InvocationStatus
  am_Error :: "string option"

datatype fault = Works | Refuses goerr | LosesAnswer goerr

record SqlDb =
  db_invocation :: "RuntimeInvocationModel list"
  db_attempt :: "RuntimeInvocationAttemptModel list"
  db_faults :: "fault list"

definition next_fault :: "SqlDb \<Rightarrow> fault \<times> SqlDb" where
  "next_fault s = (case db_faults s of [] \<Rightarrow> (Works, s) | f # fs \<Rightarrow> (f, s\<lparr> db_faults := fs \<rparr>))"

text \<open>A statement or a transaction: an error of the body rolls back.\<close>

definition transact :: "(SqlDb \<Rightarrow> (goerr + 'a) \<times> SqlDb) \<Rightarrow> SqlDb \<Rightarrow> (goerr + 'a) \<times> SqlDb" where
  "transact body s0 =
     (case next_fault s0 of
        (Refuses e, s) \<Rightarrow> (Inl e, s)
      | (Works, s) \<Rightarrow> (case body s of (Inl e, _) \<Rightarrow> (Inl e, s) | (Inr v, s') \<Rightarrow> (Inr v, s'))
      | (LosesAnswer e, s) \<Rightarrow> (case body s of (Inl _, _) \<Rightarrow> (Inl e, s) | (Inr v, s') \<Rightarrow> (Inl e, s')))"

definition errRecordNotFound :: goerr where
  "errRecordNotFound = Errorf ''record not found''"

definition errRuntimeInvocationFenceLost :: goerr where
  "errRuntimeInvocationFenceLost = Errorf ''runtime invocation fencing ownership lost''"

definition runtimeInvocationFromModel :: "RuntimeInvocationModel \<Rightarrow> RuntimeInvocation" where
  "runtimeInvocationFromModel m =
     \<lparr> ri_InvocationID = im_InvocationID m, ri_RunID = im_RunID m, ri_StepID = im_StepID m,
       ri_Kind = im_Kind m, ri_LogicalOrdinal = im_LogicalOrdinal m, ri_Status = im_Status m,
       ri_AttemptCount = im_AttemptCount m, ri_OperationName = im_OperationName m,
       ri_RetrySafety = im_RetrySafety m, ri_IdempotencyKey = im_IdempotencyKey m,
       ri_InputDigest = im_InputDigest m, ri_InputJSON = im_InputJSON m,
       ri_OutputJSON = (case im_OutputJSON m of None \<Rightarrow> [] | Some out \<Rightarrow> out),
       ri_Error = (case im_Error m of None \<Rightarrow> [] | Some e \<Rightarrow> e) \<rparr>"

definition model_of :: "RuntimeInvocation \<Rightarrow> RuntimeInvocationModel" where
  "model_of invo =
     \<lparr> im_InvocationID = ri_InvocationID invo, im_RunID = ri_RunID invo, im_StepID = ri_StepID invo,
       im_Kind = ri_Kind invo, im_LogicalOrdinal = ri_LogicalOrdinal invo, im_Status = ri_Status invo,
       im_AttemptCount = ri_AttemptCount invo, im_OperationName = ri_OperationName invo,
       im_RetrySafety = ri_RetrySafety invo, im_IdempotencyKey = ri_IdempotencyKey invo,
       im_InputDigest = ri_InputDigest invo, im_InputJSON = ri_InputJSON invo,
       im_OutputJSON = None, im_Error = None \<rparr>"

definition find_invocation :: "string \<Rightarrow> RuntimeInvocationModel list \<Rightarrow> RuntimeInvocationModel option" where
  "find_invocation i rows = List.find (\<lambda>r. im_InvocationID r = i) rows"

definition sql_Get :: "string \<Rightarrow> SqlDb \<Rightarrow> (goerr + RuntimeInvocation) \<times> SqlDb" where
  "sql_Get invocationID =
     transact (\<lambda>s. case find_invocation invocationID (db_invocation s) of
         None \<Rightarrow> (Inl errRecordNotFound, s)
       | Some m \<Rightarrow> (Inr (runtimeInvocationFromModel m), s))"

text \<open>\<^verbatim>\<open>INSERT ... ON CONFLICT DO NOTHING\<close>: a conflict with any unique key leaves the table alone.\<close>

definition conflicts_invocation :: "RuntimeInvocationModel \<Rightarrow> RuntimeInvocationModel list \<Rightarrow> bool" where
  "conflicts_invocation m rows =
     list_ex (\<lambda>r. im_InvocationID r = im_InvocationID m
       \<or> (im_IdempotencyKey m \<noteq> None \<and> im_IdempotencyKey r = im_IdempotencyKey m)) rows"

definition sql_Ensure :: "RuntimeInvocation \<Rightarrow> SqlDb \<Rightarrow> (goerr + RuntimeInvocation option) \<times> SqlDb" where
  "sql_Ensure invo s0 =
     (case transact (\<lambda>s. (Inr (), if conflicts_invocation (model_of invo) (db_invocation s) then s
                else s\<lparr> db_invocation := db_invocation s @ [model_of invo] \<rparr>)) s0 of
        (Inl e, s) \<Rightarrow> (Inl e, s)
      | (Inr _, s) \<Rightarrow> (case sql_Get (ri_InvocationID invo) s of
            (Inl e, s') \<Rightarrow> (Inl e, s') | (Inr x, s') \<Rightarrow> (Inr (Some x), s')))"

definition begin_row :: "string \<Rightarrow> RuntimeInvocationModel \<Rightarrow> RuntimeInvocationModel" where
  "begin_row i r = (if im_InvocationID r = i \<and> may_begin (im_Status r)
     then r\<lparr> im_Status := InvocationRunning, im_AttemptCount := im_AttemptCount r + 1, im_Error := None \<rparr>
     else r)"

definition conflicts_attempt :: "RuntimeInvocationAttemptModel \<Rightarrow> RuntimeInvocationAttemptModel list \<Rightarrow> bool" where
  "conflicts_attempt m rows =
     list_ex (\<lambda>r. am_AttemptID r = am_AttemptID m
       \<or> (am_InvocationID r = am_InvocationID m \<and> am_AttemptNo r = am_AttemptNo m)) rows"

text \<open>The function literal that \<^verbatim>\<open>BeginAttempt\<close> runs in a transaction.\<close>

definition begin_tx ::
  "string \<Rightarrow> string \<Rightarrow> SqlDb \<Rightarrow> (goerr + RuntimeInvocation option \<times> bool) \<times> SqlDb" where
  "begin_tx invocationID attemptID s =
     (let affected = list_ex (\<lambda>r. im_InvocationID r = invocationID \<and> may_begin (im_Status r)) (db_invocation s);
          rows = map (begin_row invocationID) (db_invocation s) in
      case find_invocation invocationID rows of
        None \<Rightarrow> (Inl errRecordNotFound, s)
      | Some m \<Rightarrow>
          if \<not> affected then (Inr (Some (runtimeInvocationFromModel m), False), s\<lparr> db_invocation := rows \<rparr>)
          else
            let attempt = \<lparr> am_AttemptID = attemptID, am_InvocationID = invocationID,
                  am_AttemptNo = im_AttemptCount m, am_Status = InvocationRunning, am_Error = None \<rparr> in
            if conflicts_attempt attempt (db_attempt s) then (Inl (Errorf ''duplicate key''), s)
            else (Inr (Some (runtimeInvocationFromModel m), True),
                  s\<lparr> db_invocation := rows, db_attempt := db_attempt s @ [attempt] \<rparr>))"

definition sql_BeginAttempt ::
  "string \<Rightarrow> string \<Rightarrow> SqlDb \<Rightarrow> (goerr + RuntimeInvocation option \<times> bool) \<times> SqlDb" where
  "sql_BeginAttempt invocationID attemptID = transact (begin_tx invocationID attemptID)"

definition open_attempt :: "string \<Rightarrow> string \<Rightarrow> RuntimeInvocationAttemptModel \<Rightarrow> bool" where
  "open_attempt i a r \<longleftrightarrow> am_AttemptID r = a \<and> am_InvocationID r = i \<and> am_Status r = InvocationRunning"

definition settle_attempt ::
  "string \<Rightarrow> string \<Rightarrow> InvocationStatus \<Rightarrow> string \<Rightarrow> RuntimeInvocationAttemptModel \<Rightarrow> RuntimeInvocationAttemptModel" where
  "settle_attempt i a status reason r = (if open_attempt i a r
     then r\<lparr> am_Status := status, am_Error := (if status \<noteq> InvocationSucceeded then Some reason else am_Error r) \<rparr>
     else r)"

definition settle_row ::
  "string \<Rightarrow> InvocationStatus \<Rightarrow> string \<Rightarrow> string \<Rightarrow> RuntimeInvocationModel \<Rightarrow> RuntimeInvocationModel" where
  "settle_row i status output reason r = (if im_InvocationID r = i \<and> im_Status r = InvocationRunning
     then (if status = InvocationSucceeded
           then r\<lparr> im_Status := status, im_OutputJSON := Some output, im_Error := None \<rparr>
           else r\<lparr> im_Status := status, im_Error := Some reason \<rparr>)
     else r)"

definition finish_tx ::
  "string \<Rightarrow> string \<Rightarrow> InvocationStatus \<Rightarrow> string \<Rightarrow> string \<Rightarrow> SqlDb \<Rightarrow> (goerr + bool) \<times> SqlDb" where
  "finish_tx invocationID attemptID status outputJSON reason s =
     (let attempts = map (settle_attempt invocationID attemptID status reason) (db_attempt s) in
      if length (filter (open_attempt invocationID attemptID) (db_attempt s)) \<noteq> 1
        then (Inr False, s\<lparr> db_attempt := attempts \<rparr>)
      else if length (filter (\<lambda>r. im_InvocationID r = invocationID \<and> im_Status r = InvocationRunning) (db_invocation s)) \<noteq> 1
        then (Inl errRuntimeInvocationFenceLost, s)
      else (Inr True, s\<lparr> db_attempt := attempts,
              db_invocation := map (settle_row invocationID status outputJSON reason) (db_invocation s) \<rparr>))"

definition sql_finishAttempt ::
  "string \<Rightarrow> string \<Rightarrow> InvocationStatus \<Rightarrow> string \<Rightarrow> string \<Rightarrow> SqlDb \<Rightarrow> (goerr + bool) \<times> SqlDb" where
  "sql_finishAttempt invocationID attemptID status outputJSON reason s0 =
     (case transact (finish_tx invocationID attemptID status outputJSON reason) s0 of
        (Inl e, s) \<Rightarrow> if err_is e errRuntimeInvocationFenceLost then (Inr False, s) else (Inl e, s)
      | (Inr won, s) \<Rightarrow> (Inr won, s))"

definition sql_ops :: "SqlDb RepoOps" where
  "sql_ops = \<lparr> op_Ensure = sql_Ensure, op_Begin = sql_BeginAttempt,
     op_Complete = (\<lambda>i a out. sql_finishAttempt i a InvocationSucceeded out []),
     op_Fail = (\<lambda>i a reason. sql_finishAttempt i a InvocationFailed [] reason),
     op_MarkUnknown = (\<lambda>i a reason. sql_finishAttempt i a InvocationUnknown [] reason) \<rparr>"

section \<open>The contract of a repository\<close>

text \<open>
  \<open>look\<close> is what the store says of an invocation: its row and the attempt that holds the fence.
  \<open>ok\<close> is the store's own invariant. An operation may fail at any time; then its effect took place
  or did not.
\<close>

definition began :: "(string \<Rightarrow> (RuntimeInvocation \<times> string option) option) \<Rightarrow>
    (string \<Rightarrow> (RuntimeInvocation \<times> string option) option) \<Rightarrow> string \<Rightarrow> string \<Rightarrow> bool" where
  "began l l' i a \<longleftrightarrow> (\<exists>x c x'. l i = Some (x, c) \<and> may_begin (ri_Status x) \<and>
     l' = l(i \<mapsto> (x', Some a)) \<and> ri_Status x' = InvocationRunning)"

definition settled :: "(string \<Rightarrow> (RuntimeInvocation \<times> string option) option) \<Rightarrow>
    (string \<Rightarrow> (RuntimeInvocation \<times> string option) option) \<Rightarrow> string \<Rightarrow> string \<Rightarrow> InvocationStatus \<Rightarrow> string \<Rightarrow> bool" where
  "settled l l' i a status out \<longleftrightarrow> (\<exists>x x' c'. l i = Some (x, Some a) \<and> ri_Status x = InvocationRunning \<and>
     l' = l(i \<mapsto> (x', c')) \<and> ri_Status x' = status \<and>
     (status = InvocationSucceeded \<longrightarrow> ri_OutputJSON x' = out))"

definition ensured :: "(string \<Rightarrow> (RuntimeInvocation \<times> string option) option) \<Rightarrow>
    (string \<Rightarrow> (RuntimeInvocation \<times> string option) option) \<Rightarrow> RuntimeInvocation \<Rightarrow> bool" where
  "ensured l l' invo \<longleftrightarrow> (\<exists>x c. l (ri_InvocationID invo) = None \<and>
     l' = l(ri_InvocationID invo \<mapsto> (x, c)) \<and> ri_Status x = ri_Status invo)"

locale fenced_store =
  fixes R :: "'s RepoOps"
    and look :: "'s \<Rightarrow> string \<Rightarrow> (RuntimeInvocation \<times> string option) option"
    and ok :: "'s \<Rightarrow> bool"
  assumes ensure_ok: "ok s \<Longrightarrow> ri_Status invo = InvocationPending \<Longrightarrow> op_Ensure R invo s = (r, s') \<Longrightarrow> ok s'"
    and ensure_look: "ok s \<Longrightarrow> op_Ensure R invo s = (r, s') \<Longrightarrow> look s' = look s \<or> ensured (look s) (look s') invo"
    and ensure_answer: "ok s \<Longrightarrow> op_Ensure R invo s = (Inr (Some x), s') \<Longrightarrow> \<exists>c. look s' (ri_InvocationID invo) = Some (x, c)"
    and begin_ok: "ok s \<Longrightarrow> op_Begin R i a s = (rb, s') \<Longrightarrow> ok s'"
    and begin_look: "ok s \<Longrightarrow> op_Begin R i a s = (rb, s') \<Longrightarrow> look s' = look s \<or> began (look s) (look s') i a"
    and begin_won: "ok s \<Longrightarrow> op_Begin R i a s = (Inr (xo, True), s') \<Longrightarrow> began (look s) (look s') i a"
    and begin_lost: "ok s \<Longrightarrow> op_Begin R i a s = (Inr (Some x, False), s') \<Longrightarrow> \<exists>c. look s' i = Some (x, c)"
    and complete_ok: "ok s \<Longrightarrow> op_Complete R i a out s = (rw, s') \<Longrightarrow> ok s'"
    and complete_look: "ok s \<Longrightarrow> op_Complete R i a out s = (rw, s') \<Longrightarrow>
          look s' = look s \<or> settled (look s) (look s') i a InvocationSucceeded out"
    and complete_won: "ok s \<Longrightarrow> op_Complete R i a out s = (Inr True, s') \<Longrightarrow>
          settled (look s) (look s') i a InvocationSucceeded out"
    and fail_ok: "ok s \<Longrightarrow> op_Fail R i a reason s = (rw, s') \<Longrightarrow> ok s'"
    and fail_look: "ok s \<Longrightarrow> op_Fail R i a reason s = (rw, s') \<Longrightarrow>
          look s' = look s \<or> settled (look s) (look s') i a InvocationFailed []"
    and unknown_ok: "ok s \<Longrightarrow> op_MarkUnknown R i a reason s = (rw, s') \<Longrightarrow> ok s'"
    and unknown_look: "ok s \<Longrightarrow> op_MarkUnknown R i a reason s = (rw, s') \<Longrightarrow>
          look s' = look s \<or> settled (look s) (look s') i a InvocationUnknown []"

section \<open>Both implementations satisfy the contract\<close>

subsection \<open>Memory\<close>

definition mem_look :: "memRepo \<Rightarrow> string \<Rightarrow> (RuntimeInvocation \<times> string option) option" where
  "mem_look r i = map_option (\<lambda>x. (x, Some (current_of r i))) (map_of (mr_invocations r) i)"

lemma mem_look_update:
  assumes "mr_invocations r' = AList.update i y (mr_invocations r)"
    and "\<And>j. j \<noteq> i \<Longrightarrow> current_of r' j = current_of r j"
  shows "mem_look r' = (mem_look r)(i \<mapsto> (y, Some (current_of r' i)))"
  using assms by (auto simp: mem_look_def update_conv')

lemma mem_finish_look:
  assumes "mem_finish i a status out reason r = (rw, r')"
  shows "(rw = Inr True \<and> settled (mem_look r) (mem_look r') i a status out) \<or> (rw = Inr False \<and> r' = r)"
proof (cases "\<exists>x. map_of (mr_invocations r) i = Some x \<and> ri_Status x = InvocationRunning \<and> current_of r i = a")
  case True
  then obtain x where x: "map_of (mr_invocations r) i = Some x" "ri_Status x = InvocationRunning" "current_of r i = a"
    by blast
  let ?y = "x\<lparr> ri_Status := status, ri_OutputJSON := out, ri_Error := reason \<rparr>"
  have r': "rw = Inr True" "r' = r\<lparr> mr_invocations := AList.update i ?y (mr_invocations r) \<rparr>"
    using assms x by (auto simp: mem_finish_def)
  have "mem_look r' = (mem_look r)(i \<mapsto> (?y, Some (current_of r' i)))"
    by (rule mem_look_update) (simp_all add: r' current_of_def)
  moreover have "mem_look r i = Some (x, Some a)" using x by (simp add: mem_look_def)
  moreover have "ri_Status ?y = status" "ri_OutputJSON ?y = out" by simp_all
  ultimately show ?thesis unfolding settled_def using x(2) r'(1) by blast
next
  case False
  then show ?thesis using assms by (auto simp: mem_finish_def split: option.splits if_splits)
qed

lemma mem_begin_look:
  assumes "mem_BeginAttempt i a r = (rb, r')"
  shows "(\<exists>xo. rb = Inr (xo, True) \<and> began (mem_look r) (mem_look r') i a) \<or>
     (\<exists>xo. rb = Inr (xo, False) \<and> r' = r \<and> map_of (mr_invocations r) i = xo)"
proof (cases "\<exists>x. map_of (mr_invocations r) i = Some x \<and> may_begin (ri_Status x)")
  case True
  then obtain x where x: "map_of (mr_invocations r) i = Some x" "may_begin (ri_Status x)" by blast
  let ?y = "x\<lparr> ri_Status := InvocationRunning, ri_AttemptCount := ri_AttemptCount x + 1 \<rparr>"
  have r': "rb = Inr (Some ?y, True)" "mr_invocations r' = AList.update i ?y (mr_invocations r)"
      "mr_current r' = AList.update i a (mr_current r)"
    using assms x by (auto simp: mem_BeginAttempt_def Let_def)
  have "mem_look r' = (mem_look r)(i \<mapsto> (?y, Some (current_of r' i)))"
    by (rule mem_look_update) (simp_all add: r' current_of_def update_conv')
  moreover have "current_of r' i = a" by (simp add: r' current_of_def update_conv')
  moreover have "mem_look r i = Some (x, Some (current_of r i))" using x by (simp add: mem_look_def)
  moreover have "ri_Status ?y = InvocationRunning" by simp
  ultimately show ?thesis unfolding began_def using x(2) r'(1) by blast
next
  case False
  then show ?thesis using assms by (auto simp: mem_BeginAttempt_def split: option.splits if_splits)
qed

lemma mem_ensure_look:
  assumes "mem_Ensure invo r = (re, r')"
  shows "mem_look r' = mem_look r \<or> ensured (mem_look r) (mem_look r') invo"
    and "\<exists>x c. re = Inr (Some x) \<and> mem_look r' (ri_InvocationID invo) = Some (x, c)"
proof -
  let ?i = "ri_InvocationID invo"
  have fresh: "mem_look r' = (mem_look r)(?i \<mapsto> (invo, Some (current_of r' ?i)))" "re = Inr (Some invo)"
      "mem_look r ?i = None" if "map_of (mr_invocations r) ?i = None"
    using assms that mem_look_update [of r' ?i invo r]
    by (auto simp: mem_Ensure_def mem_look_def current_of_def)
  show "mem_look r' = mem_look r \<or> ensured (mem_look r) (mem_look r') invo"
  proof (cases "map_of (mr_invocations r) ?i")
    case None
    from fresh [OF this] show ?thesis unfolding ensured_def by blast
  next
    case (Some x)
    then show ?thesis using assms by (simp add: mem_Ensure_def)
  qed
  show "\<exists>x c. re = Inr (Some x) \<and> mem_look r' ?i = Some (x, c)"
  proof (cases "map_of (mr_invocations r) ?i")
    case None
    from fresh [OF this] show ?thesis by simp
  next
    case (Some x)
    then show ?thesis using assms by (simp add: mem_Ensure_def mem_look_def)
  qed
qed

interpretation mem: fenced_store mem_ops mem_look "\<lambda>r. True"
proof (unfold_locales, goal_cases)
  case (2 s invo r s')
  then show ?case using mem_ensure_look(1) by (simp add: mem_ops_def)
next
  case (3 s invo x s')
  then show ?case using mem_ensure_look(2) [of invo s] by (fastforce simp: mem_ops_def)
next
  case (5 s i a rb s')
  then show ?case using mem_begin_look by (fastforce simp: mem_ops_def)
next
  case (6 s i a xo s')
  then show ?case using mem_begin_look by (fastforce simp: mem_ops_def)
next
  case (7 s i a x s')
  then show ?case using mem_begin_look by (fastforce simp: mem_ops_def mem_look_def)
next
  case (9 s i a out rw s')
  then show ?case using mem_finish_look by (fastforce simp: mem_ops_def)
next
  case (10 s i a out s')
  then show ?case using mem_finish_look by (fastforce simp: mem_ops_def)
next
  case (12 s i a reason rw s')
  then show ?case using mem_finish_look by (fastforce simp: mem_ops_def)
next
  case (14 s i a reason rw s')
  then show ?case using mem_finish_look by (fastforce simp: mem_ops_def)
qed simp_all

subsection \<open>Database\<close>

definition running_attempt :: "string \<Rightarrow> RuntimeInvocationAttemptModel \<Rightarrow> bool" where
  "running_attempt i r \<longleftrightarrow> am_InvocationID r = i \<and> am_Status r = InvocationRunning"

definition holder :: "SqlDb \<Rightarrow> string \<Rightarrow> string option" where
  "holder s i = map_option am_AttemptID (List.find (running_attempt i) (db_attempt s))"

definition sql_look :: "SqlDb \<Rightarrow> string \<Rightarrow> (RuntimeInvocation \<times> string option) option" where
  "sql_look s i = map_option (\<lambda>m. (runtimeInvocationFromModel m, holder s i)) (find_invocation i (db_invocation s))"

text \<open>The invariant of the tables: the primary keys, and the open attempts are those of running
  invocations, at most one for each.\<close>

definition sql_ok :: "SqlDb \<Rightarrow> bool" where
  "sql_ok s \<longleftrightarrow> distinct (map im_InvocationID (db_invocation s)) \<and>
     distinct (map am_AttemptID (db_attempt s)) \<and>
     (\<forall>r \<in> set (db_attempt s). am_Status r = InvocationRunning \<longrightarrow>
        (\<exists>m \<in> set (db_invocation s). im_InvocationID m = am_InvocationID r \<and> im_Status m = InvocationRunning)) \<and>
     (\<forall>r \<in> set (db_attempt s). \<forall>r' \<in> set (db_attempt s).
        am_Status r = InvocationRunning \<and> am_Status r' = InvocationRunning \<and>
        am_InvocationID r = am_InvocationID r' \<longrightarrow> r = r')"

lemma sql_okI:
  assumes "distinct (map im_InvocationID (db_invocation s))" and "distinct (map am_AttemptID (db_attempt s))"
    and "\<And>r. r \<in> set (db_attempt s) \<Longrightarrow> am_Status r = InvocationRunning \<Longrightarrow>
        \<exists>m \<in> set (db_invocation s). im_InvocationID m = am_InvocationID r \<and> im_Status m = InvocationRunning"
    and "\<And>r r'. r \<in> set (db_attempt s) \<Longrightarrow> r' \<in> set (db_attempt s) \<Longrightarrow> am_Status r = InvocationRunning \<Longrightarrow>
        am_Status r' = InvocationRunning \<Longrightarrow> am_InvocationID r = am_InvocationID r' \<Longrightarrow> r = r'"
  shows "sql_ok s"
  using assms unfolding sql_ok_def by blast

lemma sql_ok_faults [simp]: "sql_ok (s\<lparr> db_faults := fs \<rparr>) = sql_ok s"
  by (simp add: sql_ok_def)

lemma sql_look_faults [simp]: "sql_look (s\<lparr> db_faults := fs \<rparr>) = sql_look s"
  by (simp add: sql_look_def holder_def fun_eq_iff)

lemma transact_cases:
  assumes "transact body s0 = (r, s')"
  obtains fs e where "r = Inl e" "s' = s0\<lparr> db_faults := fs \<rparr>"
  | fs v where "body (s0\<lparr> db_faults := fs \<rparr>) = (Inr v, s')" "r = Inr v \<or> (\<exists>e. r = Inl e)"
proof -
  obtain f fs where nf: "next_fault s0 = (f, s0\<lparr> db_faults := fs \<rparr>)"
    by (cases "db_faults s0") (auto simp: next_fault_def intro: that [of _ "[]"])
  show thesis
    using assms nf that by (cases f) (auto simp: transact_def split: sum.splits prod.splits)
qed

lemma find_invocation_map:
  "(\<And>r. im_InvocationID (f r) = im_InvocationID r) \<Longrightarrow>
   find_invocation j (map f rows) = map_option f (find_invocation j rows)"
  unfolding find_invocation_def by (induction rows) auto

lemma find_invocation_Some:
  "find_invocation j rows = Some m \<Longrightarrow> m \<in> set rows \<and> im_InvocationID m = j"
  by (auto simp: find_invocation_def find_Some_iff)

lemma find_invocation_unique:
  "distinct (map im_InvocationID rows) \<Longrightarrow> m \<in> set rows \<Longrightarrow> find_invocation (im_InvocationID m) rows = Some m"
  unfolding find_invocation_def by (induction rows) auto

lemma find_map_fixed:
  "(\<And>r. r \<in> set rows \<Longrightarrow> P (f r) = P r) \<Longrightarrow> (\<And>r. r \<in> set rows \<Longrightarrow> P r \<Longrightarrow> f r = r) \<Longrightarrow>
   List.find P (map f rows) = List.find P rows"
  by (induction rows) auto

lemma find_append_None: "List.find P xs = None \<Longrightarrow> List.find P (xs @ ys) = List.find P ys"
  by (induction xs) auto

lemma find_append_Not: "\<not> P y \<Longrightarrow> List.find P (xs @ [y]) = List.find P xs"
  by (induction xs) auto

text \<open>Beginning an attempt.\<close>

lemma begin_row_ID [simp]: "im_InvocationID (begin_row i r) = im_InvocationID r"
  by (simp add: begin_row_def)

lemma begin_row_other: "im_InvocationID r \<noteq> i \<Longrightarrow> begin_row i r = r"
  by (simp add: begin_row_def)

lemma holder_begin:
  assumes "List.find (running_attempt i) (db_attempt s) = None"
    and "am_InvocationID t = i" "am_Status t = InvocationRunning"
  shows "holder (s\<lparr> db_invocation := rows, db_attempt := db_attempt s @ [t] \<rparr>) j =
    (if j = i then Some (am_AttemptID t) else holder s j)"
  using assms by (auto simp: holder_def find_append_None find_append_Not running_attempt_def)

lemma sql_ok_no_open:
  assumes "sql_ok s" "find_invocation i (db_invocation s) = Some m" "im_Status m \<noteq> InvocationRunning"
  shows "List.find (running_attempt i) (db_attempt s) = None"
proof (rule ccontr)
  assume "List.find (running_attempt i) (db_attempt s) \<noteq> None"
  then obtain r where "r \<in> set (db_attempt s)" "running_attempt i r" by (auto simp: find_None_iff)
  then obtain m' where "m' \<in> set (db_invocation s)" "im_InvocationID m' = i" "im_Status m' = InvocationRunning"
    using assms(1) by (auto simp: sql_ok_def running_attempt_def)
  moreover have "distinct (map im_InvocationID (db_invocation s))" using assms(1) by (simp add: sql_ok_def)
  ultimately show False using find_invocation_unique [of "db_invocation s" m'] assms(2,3) by auto
qed

lemma begin_tx_cases:
  assumes "begin_tx i a s = (Inr (xo, won), s')" and "sql_ok s"
  obtains m where "\<not> won" "find_invocation i (db_invocation s) = Some m" "\<not> may_begin (im_Status m)"
      "xo = Some (runtimeInvocationFromModel m)" "s' = s"
  | m t where "won" "find_invocation i (db_invocation s) = Some m" "may_begin (im_Status m)"
      "am_AttemptID t = a" "am_InvocationID t = i" "am_Status t = InvocationRunning"
      "a \<notin> am_AttemptID ` set (db_attempt s)"
      "s' = s\<lparr> db_invocation := map (begin_row i) (db_invocation s), db_attempt := db_attempt s @ [t] \<rparr>"
proof -
  have dist: "distinct (map im_InvocationID (db_invocation s))" using assms(2) by (simp add: sql_ok_def)
  obtain m where m: "find_invocation i (db_invocation s) = Some m"
    using assms(1) by (auto simp: begin_tx_def find_invocation_map Let_def split: option.splits)
  then have unique: "r = m" if "r \<in> set (db_invocation s)" "im_InvocationID r = i" for r
    using find_invocation_unique [OF dist that(1)] that(2) by simp
  have affected: "list_ex (\<lambda>r. im_InvocationID r = i \<and> may_begin (im_Status r)) (db_invocation s) = may_begin (im_Status m)"
    using find_invocation_Some [OF m] unique by (auto simp: list_ex_iff)
  show thesis
  proof (cases "may_begin (im_Status m)")
    case False
    then have "begin_row i r = r" if "r \<in> set (db_invocation s)" for r
      using unique [OF that] by (auto simp: begin_row_def)
    then have "map (begin_row i) (db_invocation s) = db_invocation s" by (simp add: map_idI)
    then show thesis
      using assms(1) m False affected by (intro that(1) [OF _ m]) (auto simp: begin_tx_def Let_def)
  next
    case True
    then show thesis
      using assms(1) m affected
      by (intro that(2) [OF _ m, of "\<lparr> am_AttemptID = a, am_InvocationID = i,
            am_AttemptNo = im_AttemptCount (begin_row i m), am_Status = InvocationRunning, am_Error = None \<rparr>"])
        (auto simp: begin_tx_def find_invocation_map Let_def conflicts_attempt_def list_ex_iff split: if_splits)
  qed
qed

lemma begin_tx_look:
  assumes "begin_tx i a s = (Inr (xo, won), s')" and "sql_ok s"
  shows "if won then began (sql_look s) (sql_look s') i a
         else s' = s \<and> (\<exists>x c. xo = Some x \<and> sql_look s i = Some (x, c))"
  using assms
proof (cases rule: begin_tx_cases)
  case (1 m)
  then show ?thesis by (auto simp: sql_look_def)
next
  case (2 m t)
  have idle: "List.find (running_attempt i) (db_attempt s) = None"
    using sql_ok_no_open [OF assms(2) 2(2)] 2(3) by (auto simp: may_begin_def)
  have "sql_look s' = (sql_look s)(i \<mapsto> (runtimeInvocationFromModel (begin_row i m), Some a))"
  proof (rule ext)
    fix j
    show "sql_look s' j = ((sql_look s)(i \<mapsto> (runtimeInvocationFromModel (begin_row i m), Some a))) j"
    proof (cases "j = i")
      case True
      then show ?thesis
        using 2 idle by (simp add: sql_look_def find_invocation_map holder_begin)
    next
      case False
      then have "map_option (begin_row i) (find_invocation j (db_invocation s)) = find_invocation j (db_invocation s)"
        by (cases "find_invocation j (db_invocation s)") (auto dest: find_invocation_Some simp: begin_row_other)
      then show ?thesis
        using False 2 idle by (simp add: sql_look_def find_invocation_map holder_begin)
    qed
  qed
  moreover have "ri_Status (runtimeInvocationFromModel (begin_row i m)) = InvocationRunning"
    using 2 find_invocation_Some by (auto simp: runtimeInvocationFromModel_def begin_row_def)
  moreover have "sql_look s i = Some (runtimeInvocationFromModel m, holder s i)" using 2 by (simp add: sql_look_def)
  moreover have "may_begin (ri_Status (runtimeInvocationFromModel m))"
    using 2 by (simp add: runtimeInvocationFromModel_def)
  ultimately show ?thesis using 2(1) unfolding began_def by auto
qed

lemma begin_tx_ok:
  assumes "begin_tx i a s = (Inr (xo, won), s')" and "sql_ok s"
  shows "sql_ok s'"
  using assms
proof (cases rule: begin_tx_cases)
  case (1 m)
  then show ?thesis using assms(2) by simp
next
  case (2 m t)
  have idle: "\<not> running_attempt i r" if "r \<in> set (db_attempt s)" for r
    using sql_ok_no_open [OF assms(2) 2(2)] 2(3) that by (auto simp: may_begin_def find_None_iff)
  have keys: "map im_InvocationID (map (begin_row i) (db_invocation s)) = map im_InvocationID (db_invocation s)"
    by simp
  have m: "m \<in> set (db_invocation s)" "im_InvocationID m = i" using find_invocation_Some [OF 2(2)] by auto
  then have started: "begin_row i m \<in> set (map (begin_row i) (db_invocation s))"
      "im_Status (begin_row i m) = InvocationRunning"
    using 2(3) by (auto simp: begin_row_def)
  have kept: "im_Status (begin_row i r) = InvocationRunning" if "im_Status r = InvocationRunning" for r
    using that by (simp add: begin_row_def)
  show ?thesis
  proof (rule sql_okI, goal_cases)
    case 1
    then show ?case using assms(2) 2(8) by (simp add: sql_ok_def comp_def)
  next
    case 2
    then show ?case using assms(2) \<open>s' = _\<close> \<open>am_AttemptID t = a\<close> \<open>a \<notin> _\<close> by (simp add: sql_ok_def)
  next
    case (3 r)
    show ?case
    proof (cases "r = t")
      case True
      then show ?thesis using started m \<open>s' = _\<close> \<open>am_InvocationID t = i\<close> by fastforce
    next
      case False
      then obtain r0 where "r0 \<in> set (db_invocation s)" "im_InvocationID r0 = am_InvocationID r" "im_Status r0 = InvocationRunning"
        using assms(2) 3 \<open>s' = _\<close> by (auto simp: sql_ok_def)
      then show ?thesis using kept [of r0] \<open>s' = _\<close> by fastforce
    qed
  next
    case (4 r r')
    then show ?case
      using assms(2) idle \<open>s' = _\<close> \<open>am_InvocationID t = i\<close> by (auto simp: sql_ok_def running_attempt_def)
  qed
qed

lemma sql_begin_look:
  assumes "sql_BeginAttempt i a s = (rb, s')" and "sql_ok s"
  shows "sql_ok s' \<and> (sql_look s' = sql_look s \<or> began (sql_look s) (sql_look s') i a) \<and>
    (\<forall>xo. rb = Inr (xo, True) \<longrightarrow> began (sql_look s) (sql_look s') i a) \<and>
    (\<forall>x. rb = Inr (Some x, False) \<longrightarrow> (\<exists>c. sql_look s' i = Some (x, c)))"
  using assms(1) unfolding sql_BeginAttempt_def
proof (cases rule: transact_cases)
  case (1 fs e)
  then show ?thesis using assms(2) by simp
next
  case (2 fs v)
  obtain xo won where v: "v = (xo, won)" by (cases v)
  have ok: "sql_ok (s\<lparr> db_faults := fs \<rparr>)" using assms(2) by simp
  show ?thesis
    using begin_tx_ok [OF 2(1) [unfolded v] ok] begin_tx_look [OF 2(1) [unfolded v] ok] 2(2) v
    by (auto split: if_splits)
qed

text \<open>Settling an attempt.\<close>

lemma settle_row_ID [simp]: "im_InvocationID (settle_row i status out reason r) = im_InvocationID r"
  by (simp add: settle_row_def)

lemma settle_attempt_keys [simp]:
  "am_AttemptID (settle_attempt i a status reason r) = am_AttemptID r"
  "am_InvocationID (settle_attempt i a status reason r) = am_InvocationID r"
  by (simp_all add: settle_attempt_def)

lemma settle_attempt_running:
  "status \<noteq> InvocationRunning \<Longrightarrow>
   am_Status (settle_attempt i a status reason r) = InvocationRunning \<longleftrightarrow>
   am_Status r = InvocationRunning \<and> \<not> open_attempt i a r"
  by (auto simp: settle_attempt_def open_attempt_def)

lemma settle_attempt_closed: "\<not> open_attempt i a r \<Longrightarrow> settle_attempt i a status reason r = r"
  by (simp add: settle_attempt_def)

lemma distinct_filter_attempts:
  "distinct (map am_AttemptID rows) \<Longrightarrow> length (filter (open_attempt i a) rows) \<le> 1"
proof (induction rows)
  case (Cons r rows)
  have "filter (open_attempt i a) rows = []" if "open_attempt i a r"
    using Cons.prems that by (fastforce simp: filter_empty_conv open_attempt_def image_iff)
  then show ?case using Cons by auto
qed simp

lemma finish_tx_cases:
  assumes "finish_tx i a status out reason s = (Inr won, s')" and "sql_ok s"
  obtains "\<not> won" "s' = s"
  | t m where "won" "t \<in> set (db_attempt s)" "open_attempt i a t" "find_invocation i (db_invocation s) = Some m"
      "im_Status m = InvocationRunning"
      "s' = s\<lparr> db_attempt := map (settle_attempt i a status reason) (db_attempt s),
             db_invocation := map (settle_row i status out reason) (db_invocation s) \<rparr>"
proof (cases "\<exists>t \<in> set (db_attempt s). open_attempt i a t")
  case True
  then obtain t where t: "t \<in> set (db_attempt s)" "open_attempt i a t" by blast
  then have "filter (open_attempt i a) (db_attempt s) \<noteq> []" by (auto simp: filter_empty_conv)
  moreover have "length (filter (open_attempt i a) (db_attempt s)) \<le> 1"
    using assms(2) by (intro distinct_filter_attempts) (simp add: sql_ok_def)
  ultimately have one: "length (filter (open_attempt i a) (db_attempt s)) = 1"
    by (cases "filter (open_attempt i a) (db_attempt s)") auto
  obtain m where m: "m \<in> set (db_invocation s)" "im_InvocationID m = i" "im_Status m = InvocationRunning"
    using assms(2) t by (auto simp: sql_ok_def open_attempt_def)
  then have "find_invocation i (db_invocation s) = Some m"
    using find_invocation_unique [of "db_invocation s" m] assms(2) by (simp add: sql_ok_def)
  then show thesis
    using assms(1) one m(3) by (intro that(2) [OF _ t]) (auto simp: finish_tx_def Let_def split: if_splits)
next
  case False
  then have "map (settle_attempt i a status reason) (db_attempt s) = db_attempt s"
    by (auto simp: settle_attempt_closed intro: map_idI)
  moreover have "filter (open_attempt i a) (db_attempt s) = []" using False by (auto simp: filter_empty_conv)
  ultimately show thesis using assms(1) by (intro that(1)) (auto simp: finish_tx_def)
qed

lemma holder_settle_other:
  assumes "j \<noteq> i"
  shows "holder (s\<lparr> db_attempt := map (settle_attempt i a status reason) (db_attempt s), db_invocation := rows \<rparr>) j = holder s j"
proof -
  have "List.find (running_attempt j) (map (settle_attempt i a status reason) (db_attempt s)) =
        List.find (running_attempt j) (db_attempt s)"
    using assms by (intro find_map_fixed) (auto simp: running_attempt_def settle_attempt_def open_attempt_def)
  then show ?thesis by (simp add: holder_def)
qed

lemma finish_tx_look:
  assumes "finish_tx i a status out reason s = (Inr won, s')" and "sql_ok s"
  shows "if won then settled (sql_look s) (sql_look s') i a status out else s' = s"
  using assms
proof (cases rule: finish_tx_cases)
  case (2 t m)
  let ?m = "settle_row i status out reason m"
  have "sql_look s' = (sql_look s)(i \<mapsto> (runtimeInvocationFromModel ?m, holder s' i))"
  proof (rule ext)
    fix j
    show "sql_look s' j = ((sql_look s)(i \<mapsto> (runtimeInvocationFromModel ?m, holder s' i))) j"
    proof (cases "j = i")
      case True
      then show ?thesis using 2 by (simp add: sql_look_def find_invocation_map)
    next
      case False
      then have "map_option (settle_row i status out reason) (find_invocation j (db_invocation s)) =
          find_invocation j (db_invocation s)"
        by (cases "find_invocation j (db_invocation s)") (auto dest: find_invocation_Some simp: settle_row_def)
      then show ?thesis
        using False 2(6) by (simp add: sql_look_def find_invocation_map holder_settle_other)
    qed
  qed
  moreover have "holder s i = Some a"
  proof -
    obtain r where r: "List.find (running_attempt i) (db_attempt s) = Some r"
      using 2(2,3) by (cases "List.find (running_attempt i) (db_attempt s)")
        (auto simp: find_None_iff running_attempt_def open_attempt_def)
    then have "r \<in> set (db_attempt s)" "running_attempt i r" by (auto simp: find_Some_iff)
    then have "r = t" using assms(2) 2(2,3) by (auto simp: sql_ok_def running_attempt_def open_attempt_def)
    then show ?thesis using r 2(3) by (simp add: holder_def open_attempt_def)
  qed
  then have "sql_look s i = Some (runtimeInvocationFromModel m, Some a)" using 2 by (simp add: sql_look_def)
  moreover have "ri_Status (runtimeInvocationFromModel m) = InvocationRunning"
    using 2 by (simp add: runtimeInvocationFromModel_def)
  moreover have "ri_Status (runtimeInvocationFromModel ?m) = status"
      "status = InvocationSucceeded \<longrightarrow> ri_OutputJSON (runtimeInvocationFromModel ?m) = out"
    using 2(4,5) find_invocation_Some by (auto simp: runtimeInvocationFromModel_def settle_row_def)
  ultimately show ?thesis using 2(1) unfolding settled_def by auto
qed simp

lemma finish_tx_ok:
  assumes "finish_tx i a status out reason s = (Inr won, s')" and "sql_ok s" and "status \<noteq> InvocationRunning"
  shows "sql_ok s'"
  using assms(1,2)
proof (cases rule: finish_tx_cases)
  case 1
  then show ?thesis using assms(2) by simp
next
  case (2 t m)
  note s' = \<open>s' = _\<close>
  have attempt: "r \<in> set (db_attempt s)" "am_InvocationID r \<noteq> i"
    if row: "r \<in> set (db_attempt s')" "am_Status r = InvocationRunning" for r
  proof -
    obtain r0 where r0: "r = settle_attempt i a status reason r0" "r0 \<in> set (db_attempt s)" using row(1) s' by auto
    then have run: "am_Status r0 = InvocationRunning" "\<not> open_attempt i a r0"
      using row(2) settle_attempt_running [OF assms(3)] by auto
    then have "r = r0" using r0(1) by (simp add: settle_attempt_closed)
    moreover have "am_InvocationID r0 \<noteq> i" using run r0(2) 2(2,3) assms(2) by (auto simp: sql_ok_def open_attempt_def)
    ultimately show "r \<in> set (db_attempt s)" "am_InvocationID r \<noteq> i" using r0(2) by simp_all
  qed
  show ?thesis
  proof (rule sql_okI, goal_cases)
    case 1
    then show ?case using assms(2) s' by (simp add: sql_ok_def comp_def)
  next
    case 2
    then show ?case using assms(2) s' by (simp add: sql_ok_def comp_def)
  next
    case (3 r)
    then obtain r0 where "r0 \<in> set (db_invocation s)" "im_InvocationID r0 = am_InvocationID r" "im_Status r0 = InvocationRunning"
      using attempt assms(2) by (auto simp: sql_ok_def)
    moreover from this have "settle_row i status out reason r0 = r0" using attempt(2) [OF 3] by (simp add: settle_row_def)
    ultimately show ?case using s' by force
  next
    case (4 r r')
    then show ?case using attempt assms(2) by (auto simp: sql_ok_def)
  qed
qed

lemma sql_finish_look:
  assumes "sql_finishAttempt i a status out reason s = (rw, s')" and "sql_ok s" and "status \<noteq> InvocationRunning"
  shows "sql_ok s' \<and> (sql_look s' = sql_look s \<or> settled (sql_look s) (sql_look s') i a status out) \<and>
    (rw = Inr True \<longrightarrow> settled (sql_look s) (sql_look s') i a status out)"
proof -
  obtain r where r: "transact (finish_tx i a status out reason) s = (r, s')" "rw = Inr True \<longrightarrow> r = Inr True"
    using assms(1) by (auto simp: sql_finishAttempt_def split: prod.splits sum.splits if_splits)
  from r(1) show ?thesis
  proof (cases rule: transact_cases)
    case (1 fs e)
    then show ?thesis using assms(2) r(2) by simp
  next
    case (2 fs v)
    have ok: "sql_ok (s\<lparr> db_faults := fs \<rparr>)" using assms(2) by simp
    show ?thesis
      using finish_tx_ok [OF 2(1) ok assms(3)] finish_tx_look [OF 2(1) ok] 2(2) r(2)
      by (auto split: if_splits)
  qed
qed

text \<open>Ensuring an invocation.\<close>

lemma sql_Get_look:
  assumes "sql_Get i s = (r, s')"
  shows "sql_look s' = sql_look s \<and> sql_ok s' = sql_ok s \<and> (\<forall>x. r = Inr x \<longrightarrow> (\<exists>c. sql_look s i = Some (x, c)))"
  using assms unfolding sql_Get_def
proof (cases rule: transact_cases)
  case (2 fs v)
  then show ?thesis by (auto simp: sql_look_def holder_def split: option.splits)
qed auto

definition insert_invocation :: "RuntimeInvocationModel \<Rightarrow> SqlDb \<Rightarrow> SqlDb" where
  "insert_invocation m s = (if conflicts_invocation m (db_invocation s) then s
     else s\<lparr> db_invocation := db_invocation s @ [m] \<rparr>)"

lemma insert_invocation_look:
  "sql_look (insert_invocation (model_of invo) s) = sql_look s \<or>
   ensured (sql_look s) (sql_look (insert_invocation (model_of invo) s)) invo"
proof (cases "conflicts_invocation (model_of invo) (db_invocation s)")
  case False
  let ?i = "ri_InvocationID invo" and ?s = "insert_invocation (model_of invo) s"
  let ?x = "runtimeInvocationFromModel (model_of invo)"
  have new: "find_invocation ?i (db_invocation s) = None"
    using False by (auto simp: conflicts_invocation_def find_invocation_def find_None_iff list_ex_iff model_of_def)
  have rows: "find_invocation j (db_invocation ?s) =
      (if j = ?i then Some (model_of invo) else find_invocation j (db_invocation s))" for j
    using False new by (auto simp: insert_invocation_def find_invocation_def find_append_None find_append_Not model_of_def)
  have "holder ?s = holder s" using False by (auto simp: insert_invocation_def holder_def)
  then have "sql_look ?s = (sql_look s)(?i \<mapsto> (?x, holder s ?i))" by (auto simp: sql_look_def rows)
  moreover have "sql_look s ?i = None" using new by (simp add: sql_look_def)
  moreover have "ri_Status ?x = ri_Status invo" by (simp add: runtimeInvocationFromModel_def model_of_def)
  ultimately show ?thesis unfolding ensured_def by blast
qed (simp add: insert_invocation_def)

lemma insert_invocation_ok:
  assumes "sql_ok s"
  shows "sql_ok (insert_invocation m s)"
proof (cases "conflicts_invocation m (db_invocation s)")
  case False
  then have "im_InvocationID m \<notin> im_InvocationID ` set (db_invocation s)"
    by (auto simp: conflicts_invocation_def list_ex_iff)
  then show ?thesis using assms False by (auto simp: sql_ok_def insert_invocation_def)
qed (use assms in \<open>simp add: insert_invocation_def\<close>)

lemma sql_Ensure_look:
  assumes "sql_Ensure invo s = (r, s')" and "sql_ok s"
  shows "sql_ok s' \<and> (sql_look s' = sql_look s \<or> ensured (sql_look s) (sql_look s') invo) \<and>
    (\<forall>x. r = Inr (Some x) \<longrightarrow> (\<exists>c. sql_look s' (ri_InvocationID invo) = Some (x, c)))"
proof -
  have body: "(\<lambda>s. (Inr (), if conflicts_invocation (model_of invo) (db_invocation s) then s
      else s\<lparr> db_invocation := db_invocation s @ [model_of invo] \<rparr>)) = (\<lambda>s. (Inr (), insert_invocation (model_of invo) s))"
    by (simp add: insert_invocation_def)
  obtain r1 s1 where t: "transact (\<lambda>s. (Inr (), insert_invocation (model_of invo) s)) s = (r1 :: goerr + unit, s1)"
    by (metis surj_pair)
  then have first: "sql_ok s1 \<and> (sql_look s1 = sql_look s \<or> ensured (sql_look s) (sql_look s1) invo)"
  proof (cases rule: transact_cases)
    case (2 fs v)
    then show ?thesis
      using assms(2) insert_invocation_ok [of "s\<lparr> db_faults := fs \<rparr>"] insert_invocation_look [of invo "s\<lparr> db_faults := fs \<rparr>"]
      by auto
  qed (use assms(2) in simp)
  have "(\<exists>e. r = Inl e) \<and> s' = s1 \<or> (\<exists>r2. sql_Get (ri_InvocationID invo) s1 = (r2, s') \<and> (\<forall>x. r = Inr (Some x) \<longrightarrow> r2 = Inr x))"
    using assms(1) t unfolding sql_Ensure_def body by (auto split: prod.splits sum.splits)
  then show ?thesis using first sql_Get_look by (elim disjE exE conjE) fastforce+
qed

interpretation sql: fenced_store sql_ops sql_look sql_ok
proof (unfold_locales, goal_cases)
  case (1 s invo r s')
  then show ?case using sql_Ensure_look by (simp add: sql_ops_def)
next
  case (2 s invo r s')
  then show ?case using sql_Ensure_look by (simp add: sql_ops_def)
next
  case (3 s invo x s')
  then show ?case using sql_Ensure_look by (simp add: sql_ops_def)
next
  case (4 s i a rb s')
  then show ?case using sql_begin_look by (simp add: sql_ops_def)
next
  case (5 s i a rb s')
  then show ?case using sql_begin_look by (simp add: sql_ops_def)
next
  case (6 s i a xo s')
  then show ?case using sql_begin_look by (fastforce simp: sql_ops_def)
next
  case (7 s i a x s')
  then show ?case using sql_begin_look by (fastforce simp: sql_ops_def)
qed (auto simp: sql_ops_def dest: sql_finish_look)

end
