(* ===== verification/FenceProtocol.thy ===== *)
theory FenceProtocol
  imports InvocationStore
begin

text \<open>
  Correctness of the execution kernel under every interleaving of its workers, for every repository
  that satisfies the contract \<open>fenced_store\<close>, hence for the in-memory and the database repository.

  \<open>protocol\<close> is the discipline of one worker: which port calls it may make in which phase. That
  \<open>execute\<close> follows it is proved from its tree alone, for all answers. The system invariant \<open>kinv\<close>
  relates the phases of the workers to the store.
\<close>

section \<open>The protocol of one worker\<close>

text \<open>\<open>Closed (Some out)\<close>: the worker learnt that the invocation succeeded with \<open>out\<close>.\<close>

datatype phase = Outside | Owning | Settling "goerr + string" | Closed "string option"

definition seen_output :: "RuntimeInvocation \<Rightarrow> string option" where
  "seen_output x = (if ri_Status x = InvocationSucceeded then Some (ri_OutputJSON x) else None)"

fun ensure_phase :: "goerr + RuntimeInvocation option \<Rightarrow> phase" where
  "ensure_phase (Inr (Some x)) = (if ri_Status x = InvocationSucceeded then Closed (seen_output x) else Outside)"
| "ensure_phase _ = Outside"

fun begin_phase :: "goerr + RuntimeInvocation option \<times> bool \<Rightarrow> phase" where
  "begin_phase (Inl e) = Closed None"
| "begin_phase (Inr (xo, True)) = Owning"
| "begin_phase (Inr (Some x, False)) = Closed (seen_output x)"
| "begin_phase (Inr (None, False)) = Closed None"

primrec protocol :: "string \<Rightarrow> string \<Rightarrow> proc \<Rightarrow> phase \<Rightarrow> bool" where
  "protocol i a (Return r) = (\<lambda>ph. case r of
     Inr res \<Rightarrow> ph = Closed (Some (kr_Output res))
   | Inl e \<Rightarrow> ph = Outside \<or> (\<exists>x. ph = Closed x))"
| "protocol i a (CEnsure invo c) = (\<lambda>ph. ph = Outside \<and> ri_InvocationID invo = i \<and>
     ri_Status invo = InvocationPending \<and> (\<forall>r. protocol i a (c r) (ensure_phase r)))"
| "protocol i a (CBegin i' a' c) = (\<lambda>ph. ph = Outside \<and> i' = i \<and> a' = a \<and> (\<forall>r. protocol i a (c r) (begin_phase r)))"
| "protocol i a (CRecord ir c) = (\<lambda>ph. (ph = Owning \<or> (\<exists>x. ph = Closed x)) \<and> (\<forall>r. protocol i a (c r) ph))"
| "protocol i a (CCall c) = (\<lambda>ph. ph = Owning \<and> (\<forall>r. protocol i a (c r) (Settling r)))"
| "protocol i a (CComplete i' a' out c) = (\<lambda>ph. ph = Settling (Inr out) \<and> i' = i \<and> a' = a \<and>
     (\<forall>r. protocol i a (c r) (Closed (if r = Inr True then Some out else None))))"
| "protocol i a (CFail i' a' reason c) = (\<lambda>ph.
     (ph = Owning \<or> (\<exists>e. ph = Settling (Inl e) \<and> \<not> err_is e ErrExternalOutcomeUnknown)) \<and> i' = i \<and> a' = a \<and>
     (\<forall>r. protocol i a (c r) (Closed None)))"
| "protocol i a (CMarkUnknown i' a' reason c) = (\<lambda>ph.
     (\<exists>e. ph = Settling (Inl e) \<and> err_is e ErrExternalOutcomeUnknown) \<and> i' = i \<and> a' = a \<and>
     (\<forall>r. protocol i a (c r) (Closed None)))"

definition fence_of :: "Request \<Rightarrow> string \<times> string" where
  "fence_of req = (id_InvocationID (rq_Identity req),
     attemptKey (id_InvocationID (rq_Identity req)) (id_AttemptID (rq_Identity req)))"

lemmas kernel_parts = Let_def record_invocation_def markUnknown_def markFailed_def complete_attempt_def

lemma protocol_mark:
  assumes "i = id_InvocationID (rq_Identity req)" "a = id_AttemptID (rq_Identity req)"
  shows "err_is e ErrExternalOutcomeUnknown \<Longrightarrow> protocol i a (markUnknown k req e) (Settling (Inl e))"
    and "\<not> err_is e ErrExternalOutcomeUnknown \<Longrightarrow> protocol i a (markFailed k req e) (Settling (Inl e))"
    and "protocol i a (complete_attempt k req out) (Settling (Inr out))"
  using assms by (auto simp: kernel_parts split: sum.splits option.splits)

lemma protocol_owned:
  assumes "i = id_InvocationID (rq_Identity req)" "a = id_AttemptID (rq_Identity req)"
  shows "protocol i a (owned_attempt k req) Owning"
proof -
  have call: "protocol i a (CCall (\<lambda>r. case r of
      Inl executeErr \<Rightarrow> if err_is executeErr ErrExternalOutcomeUnknown then markUnknown k req executeErr
        else markFailed k req executeErr
    | Inr output \<Rightarrow> complete_attempt k req output)) Owning"
    using protocol_mark [OF assms] by (auto split: sum.splits)
  show ?thesis
    unfolding owned_attempt_def Let_def record_invocation_def
    using call assms by (auto split: option.splits sum.splits)
qed

lemma protocol_fenced:
  assumes "i = id_InvocationID (rq_Identity req)" "a = id_AttemptID (rq_Identity req)"
  shows "protocol i a (fenced_execution dig k req m) Outside"
  unfolding fenced_execution_def Let_def
  using protocol_owned [OF assms] assms
  by (auto simp: new_invocation_def resultWithoutFence_def cachedResult_def seen_output_def Let_def
      split: sum.splits option.splits prod.splits bool.splits)

lemma protocol_execute:
  "protocol (fst (fence_of req)) (snd (fence_of req)) (execute dig k req m f) Outside"
  by (auto simp: execute_def fence_of_def scoped_def split: option.splits intro!: protocol_fenced)

section \<open>The invariant of the system\<close>

type_synonym lookup = "string \<Rightarrow> (RuntimeInvocation \<times> string option) option"

definition holding :: "phase \<Rightarrow> bool" where
  "holding ph \<longleftrightarrow> ph = Owning \<or> (\<exists>r. ph = Settling r)"

lemma holding_simps [simp]:
  "holding Owning" "holding (Settling r)" "\<not> holding Outside" "\<not> holding (Closed x)"
  by (simp_all add: holding_def)

definition successes :: "(nat \<Rightarrow> string \<times> string) \<Rightarrow> (nat \<times> (goerr + string)) list \<Rightarrow> string \<Rightarrow> nat" where
  "successes ids lg i = length (filter (\<lambda>(w, r). fst (ids w) = i \<and> is_ok r) lg)"

text \<open>Every worker that holds the fence is the one the store names, and is alone.\<close>

definition fenced :: "(nat \<Rightarrow> string \<times> string) \<Rightarrow> (nat \<Rightarrow> phase) \<Rightarrow> lookup \<Rightarrow> bool" where
  "fenced ids phs l \<longleftrightarrow>
     (\<forall>w. holding (phs w) \<longrightarrow> (\<exists>x. l (fst (ids w)) = Some (x, Some (snd (ids w))) \<and> ri_Status x = InvocationRunning)) \<and>
     (\<forall>w w'. holding (phs w) \<and> holding (phs w') \<and> fst (ids w) = fst (ids w') \<longrightarrow> w = w')"

text \<open>What a worker learnt of a success is what the store holds.\<close>

definition informed :: "(nat \<Rightarrow> string \<times> string) \<Rightarrow> (nat \<Rightarrow> phase) \<Rightarrow> lookup \<Rightarrow> bool" where
  "informed ids phs l \<longleftrightarrow> (\<forall>w out. phs w = Closed (Some out) \<longrightarrow>
     (\<exists>x c. l (fst (ids w)) = Some (x, c) \<and> ri_Status x = InvocationSucceeded \<and> ri_OutputJSON x = out))"

text \<open>An operation that succeeded once is not started again.\<close>

definition once :: "(nat \<Rightarrow> string \<times> string) \<Rightarrow> (nat \<Rightarrow> phase) \<Rightarrow> lookup \<Rightarrow> (nat \<times> (goerr + string)) list \<Rightarrow> bool" where
  "once ids phs l lg \<longleftrightarrow> (\<forall>i. successes ids lg i = 0 \<or>
     successes ids lg i = 1 \<and>
     (\<exists>x c. l i = Some (x, c) \<and> (ri_Status x = InvocationRunning \<or> ri_Status x = InvocationSucceeded)) \<and>
     (\<forall>w. fst (ids w) = i \<and> holding (phs w) \<longrightarrow> (\<exists>out. phs w = Settling (Inr out))))"

definition kinv :: "(nat \<Rightarrow> string \<times> string) \<Rightarrow> (nat \<Rightarrow> phase) \<Rightarrow> lookup \<Rightarrow> (nat \<Rightarrow> proc) \<Rightarrow>
    (nat \<times> (goerr + string)) list \<Rightarrow> bool" where
  "kinv ids phs l ps lg \<longleftrightarrow>
     (\<forall>w. protocol (fst (ids w)) (snd (ids w)) (ps w) (phs w)) \<and>
     fenced ids phs l \<and> informed ids phs l \<and> once ids phs l lg"

lemma fencedI:
  assumes "\<And>v. holding (phs v) \<Longrightarrow> \<exists>x. l (fst (ids v)) = Some (x, Some (snd (ids v))) \<and> ri_Status x = InvocationRunning"
    and "\<And>v v'. holding (phs v) \<Longrightarrow> holding (phs v') \<Longrightarrow> fst (ids v) = fst (ids v') \<Longrightarrow> v = v'"
  shows "fenced ids phs l"
  using assms by (simp add: fenced_def)

lemma fencedD:
  assumes "fenced ids phs l" and "holding (phs v)"
  obtains x where "l (fst (ids v)) = Some (x, Some (snd (ids v)))" "ri_Status x = InvocationRunning"
  using assms by (auto simp: fenced_def)

lemma fenced_alone:
  "fenced ids phs l \<Longrightarrow> holding (phs v) \<Longrightarrow> holding (phs v') \<Longrightarrow> fst (ids v) = fst (ids v') \<Longrightarrow> v = v'"
  by (simp add: fenced_def)

lemma informedI:
  assumes "\<And>v out. phs v = Closed (Some out) \<Longrightarrow>
    \<exists>x c. l (fst (ids v)) = Some (x, c) \<and> ri_Status x = InvocationSucceeded \<and> ri_OutputJSON x = out"
  shows "informed ids phs l"
  using assms by (simp add: informed_def)

lemma informedD:
  assumes "informed ids phs l" and "phs v = Closed (Some out)"
  obtains x c where "l (fst (ids v)) = Some (x, c)" "ri_Status x = InvocationSucceeded" "ri_OutputJSON x = out"
  using assms unfolding informed_def by blast

lemma onceI:
  assumes "\<And>i. successes ids lg i \<noteq> 0 \<Longrightarrow> successes ids lg i = 1 \<and>
      (\<exists>x c. l i = Some (x, c) \<and> (ri_Status x = InvocationRunning \<or> ri_Status x = InvocationSucceeded))"
    and "\<And>v. successes ids lg (fst (ids v)) \<noteq> 0 \<Longrightarrow> holding (phs v) \<Longrightarrow> \<exists>out. phs v = Settling (Inr out)"
  shows "once ids phs l lg"
  using assms unfolding once_def by metis

lemma onceD:
  assumes "once ids phs l lg" and "successes ids lg i \<noteq> 0"
  obtains x c where "successes ids lg i = 1" "l i = Some (x, c)"
    "ri_Status x = InvocationRunning \<or> ri_Status x = InvocationSucceeded"
  using assms unfolding once_def by metis

lemma once_row:
  "once ids phs l lg \<Longrightarrow> successes ids lg i \<noteq> 0 \<Longrightarrow> successes ids lg i = 1 \<and>
   (\<exists>x c. l i = Some (x, c) \<and> (ri_Status x = InvocationRunning \<or> ri_Status x = InvocationSucceeded))"
  unfolding once_def by metis

lemma once_settling:
  "once ids phs l lg \<Longrightarrow> successes ids lg (fst (ids v)) \<noteq> 0 \<Longrightarrow> holding (phs v) \<Longrightarrow> \<exists>out. phs v = Settling (Inr out)"
  unfolding once_def by metis

lemma kinvD:
  assumes "kinv ids phs l ps lg"
  shows "protocol (fst (ids w)) (snd (ids w)) (ps w) (phs w)" "fenced ids phs l" "informed ids phs l" "once ids phs l lg"
  using assms by (simp_all add: kinv_def)

lemma kinv_updateI:
  assumes "kinv ids phs l ps lg" and "protocol (fst (ids w)) (snd (ids w)) p ph"
    and "fenced ids (phs(w := ph)) l'" "informed ids (phs(w := ph)) l'" "once ids (phs(w := ph)) l' lg'"
  shows "kinv ids (phs(w := ph)) l' (ps(w := p)) lg'"
  using assms by (simp add: kinv_def)

text \<open>The four kinds of step: the store does not change for the workers, an attempt begins, an
  attempt is settled, the operation is called.\<close>

lemma kinv_quiet:
  assumes inv: "kinv ids phs l ps lg" and p: "protocol (fst (ids w)) (snd (ids w)) p ph"
    and l': "l' = l \<or> (\<exists>i y. l i = None \<and> l' = l(i \<mapsto> y))"
    and ph: "\<not> holding ph \<or> ph = phs w"
    and out: "\<And>out. ph = Closed (Some out) \<Longrightarrow>
      \<exists>x c. l' (fst (ids w)) = Some (x, c) \<and> ri_Status x = InvocationSucceeded \<and> ri_OutputJSON x = out"
  shows "kinv ids (phs(w := ph)) l' (ps(w := p)) lg"
proof (rule kinv_updateI [OF inv p])
  note known = kinvD [OF inv]
  have keep: "l j = Some y \<Longrightarrow> l' j = Some y" for j y using l' by auto
  have held: "holding (phs v)" if "holding ((phs(w := ph)) v)" for v using that ph by (auto split: if_splits)
  show "fenced ids (phs(w := ph)) l'"
  proof (rule fencedI)
    fix v assume "holding ((phs(w := ph)) v)"
    from fencedD [OF known(2) held [OF this]]
    show "\<exists>x. l' (fst (ids v)) = Some (x, Some (snd (ids v))) \<and> ri_Status x = InvocationRunning"
      using keep by metis
  next
    fix v v' assume "holding ((phs(w := ph)) v)" "holding ((phs(w := ph)) v')" "fst (ids v) = fst (ids v')"
    then show "v = v'" using held by (blast intro: fenced_alone [OF known(2)])
  qed
  show "informed ids (phs(w := ph)) l'"
  proof (rule informedI)
    fix v out' assume v: "(phs(w := ph)) v = Closed (Some out')"
    show "\<exists>x c. l' (fst (ids v)) = Some (x, c) \<and> ri_Status x = InvocationSucceeded \<and> ri_OutputJSON x = out'"
      using v out by (cases "v = w") (auto elim!: informedD [OF known(3)] dest: keep)
  qed
  show "once ids (phs(w := ph)) l' lg"
  proof (rule onceI)
    fix i assume "successes ids lg i \<noteq> 0"
    with known(4) show "successes ids lg i = 1 \<and>
        (\<exists>x c. l' i = Some (x, c) \<and> (ri_Status x = InvocationRunning \<or> ri_Status x = InvocationSucceeded))"
      by (auto elim!: onceD dest: keep)
  next
    fix v assume v: "successes ids lg (fst (ids v)) \<noteq> 0" "holding ((phs(w := ph)) v)"
    show "\<exists>out. (phs(w := ph)) v = Settling (Inr out)"
      using once_settling [OF known(4) v(1) held [OF v(2)]] v(2) ph by (cases "v = w") auto
  qed
qed

lemma kinv_begin:
  assumes inv: "kinv ids phs l ps lg" and p: "protocol (fst (ids w)) (snd (ids w)) p ph"
    and l': "began l l' (fst (ids w)) (snd (ids w))" and ph: "ph = Owning \<or> ph = Closed None"
  shows "kinv ids (phs(w := ph)) l' (ps(w := p)) lg"
proof (rule kinv_updateI [OF inv p])
  note known = kinvD [OF inv]
  let ?i = "fst (ids w)"
  obtain x c x' where l: "l ?i = Some (x, c)" "may_begin (ri_Status x)"
      "l' = l(?i \<mapsto> (x', Some (snd (ids w))))" "ri_Status x' = InvocationRunning"
    using l' by (auto simp: began_def)
  have idle: "\<not> holding (phs v)" if "fst (ids v) = ?i" for v
    using l(1,2) that by (auto simp: may_begin_def elim: fencedD [OF known(2), of v])
  have fresh: "phs v \<noteq> Closed (Some out)" if "fst (ids v) = ?i" for v out
    using l(1,2) that by (auto simp: may_begin_def elim: informedD [OF known(3), of v])
  have none: "successes ids lg ?i = 0"
    using l(1,2) onceD [OF known(4), of ?i] by (fastforce simp: may_begin_def)
  show "fenced ids (phs(w := ph)) l'"
  proof (rule fencedI)
    fix v assume "holding ((phs(w := ph)) v)"
    then show "\<exists>x. l' (fst (ids v)) = Some (x, Some (snd (ids v))) \<and> ri_Status x = InvocationRunning"
      using l idle [of v] by (cases "v = w") (auto elim: fencedD [OF known(2)])
  next
    fix v v' assume "holding ((phs(w := ph)) v)" "holding ((phs(w := ph)) v')" "fst (ids v) = fst (ids v')"
    then show "v = v'"
      using idle [of v] idle [of v'] by (cases "v = w"; cases "v' = w") (auto intro: fenced_alone [OF known(2)])
  qed
  show "informed ids (phs(w := ph)) l'"
  proof (rule informedI)
    fix v out assume v: "(phs(w := ph)) v = Closed (Some out)"
    then have "v \<noteq> w" "phs v = Closed (Some out)" using ph by (auto split: if_splits)
    then show "\<exists>x c. l' (fst (ids v)) = Some (x, c) \<and> ri_Status x = InvocationSucceeded \<and> ri_OutputJSON x = out"
      using fresh [of v out] l(3) by (auto elim!: informedD [OF known(3)])
  qed
  show "once ids (phs(w := ph)) l' lg"
  proof (rule onceI)
    fix i assume i: "successes ids lg i \<noteq> 0"
    then have "i \<noteq> ?i" using none by auto
    then show "successes ids lg i = 1 \<and>
        (\<exists>x c. l' i = Some (x, c) \<and> (ri_Status x = InvocationRunning \<or> ri_Status x = InvocationSucceeded))"
      using once_row [OF known(4) i] l(3) by simp
  next
    fix v assume v: "successes ids lg (fst (ids v)) \<noteq> 0" "holding ((phs(w := ph)) v)"
    then have "v \<noteq> w" using none by auto
    then show "\<exists>out. (phs(w := ph)) v = Settling (Inr out)"
      using once_settling [OF known(4) v(1)] v(2) by simp
  qed
qed

lemma kinv_settle:
  assumes inv: "kinv ids phs l ps lg" and p: "protocol (fst (ids w)) (snd (ids w)) p (Closed out')"
    and held: "holding (phs w)" and l': "settled l l' (fst (ids w)) (snd (ids w)) status out"
    and good: "status = InvocationSucceeded \<or> out' = None \<and> (\<forall>o'. phs w \<noteq> Settling (Inr o'))"
    and seen: "out' = None \<or> out' = Some out"
  shows "kinv ids (phs(w := Closed out')) l' (ps(w := p)) lg"
proof (rule kinv_updateI [OF inv p])
  note known = kinvD [OF inv]
  let ?i = "fst (ids w)"
  obtain x x' c' where l: "l ?i = Some (x, Some (snd (ids w)))" "ri_Status x = InvocationRunning"
      "l' = l(?i \<mapsto> (x', c'))" "ri_Status x' = status" "status = InvocationSucceeded \<longrightarrow> ri_OutputJSON x' = out"
    using l' unfolding settled_def by blast
  have alone: "v = w" if "holding (phs v)" "fst (ids v) = ?i" for v
    using fenced_alone [OF known(2) that(1) held that(2)] .
  have other: "v \<noteq> w" "holding (phs v)" "fst (ids v) \<noteq> ?i" if "holding ((phs(w := Closed out')) v)" for v
    using that alone [of v] by (auto split: if_splits)
  have fresh: "phs v \<noteq> Closed (Some o')" if "fst (ids v) = ?i" for v o'
    using l(1,2) that by (auto elim: informedD [OF known(3), of v])
  have none: "successes ids lg ?i = 0" if "status \<noteq> InvocationSucceeded"
    using that good once_settling [OF known(4) _ held] by blast
  show "fenced ids (phs(w := Closed out')) l'"
  proof (rule fencedI)
    fix v assume v: "holding ((phs(w := Closed out')) v)"
    from known(2) other(2) [OF v] obtain y
      where "l (fst (ids v)) = Some (y, Some (snd (ids v)))" "ri_Status y = InvocationRunning" by (rule fencedD)
    then show "\<exists>x. l' (fst (ids v)) = Some (x, Some (snd (ids v))) \<and> ri_Status x = InvocationRunning"
      using other(3) [OF v] l(3) by simp
  next
    fix v v' assume "holding ((phs(w := Closed out')) v)" "holding ((phs(w := Closed out')) v')" "fst (ids v) = fst (ids v')"
    then show "v = v'" using other by (blast intro: fenced_alone [OF known(2)])
  qed
  show "informed ids (phs(w := Closed out')) l'"
  proof (rule informedI)
    fix v o' assume v: "(phs(w := Closed out')) v = Closed (Some o')"
    show "\<exists>x c. l' (fst (ids v)) = Some (x, c) \<and> ri_Status x = InvocationSucceeded \<and> ri_OutputJSON x = o'"
    proof (cases "v = w")
      case True
      then show ?thesis using v l good seen by auto
    next
      case False
      then show ?thesis using v fresh [of v o'] l(3) by (auto elim!: informedD [OF known(3)])
    qed
  qed
  show "once ids (phs(w := Closed out')) l' lg"
  proof (rule onceI)
    fix i assume i: "successes ids lg i \<noteq> 0"
    show "successes ids lg i = 1 \<and>
        (\<exists>x c. l' i = Some (x, c) \<and> (ri_Status x = InvocationRunning \<or> ri_Status x = InvocationSucceeded))"
    proof (cases "i = ?i")
      case True
      then have "status = InvocationSucceeded" using i none by (cases "status = InvocationSucceeded") simp_all
      then show ?thesis using True once_row [OF known(4) i] l(3,4) by simp
    next
      case False
      then show ?thesis using once_row [OF known(4) i] l(3) by simp
    qed
  next
    fix v assume v: "successes ids lg (fst (ids v)) \<noteq> 0" "holding ((phs(w := Closed out')) v)"
    then show "\<exists>out. (phs(w := Closed out')) v = Settling (Inr out)"
      using once_settling [OF known(4) v(1)] other [OF v(2)] by auto
  qed
qed

lemma kinv_settle_or_not:
  assumes inv: "kinv ids phs l ps lg" and p: "protocol (fst (ids w)) (snd (ids w)) p (Closed out')"
    and held: "holding (phs w)" and l': "l' = l \<or> settled l l' (fst (ids w)) (snd (ids w)) status out"
    and good: "status = InvocationSucceeded \<or> out' = None \<and> (\<forall>o'. phs w \<noteq> Settling (Inr o'))"
    and seen: "out' = None \<or> out' = Some out \<and> settled l l' (fst (ids w)) (snd (ids w)) status out"
  shows "kinv ids (phs(w := Closed out')) l' (ps(w := p)) lg"
proof (cases "settled l l' (fst (ids w)) (snd (ids w)) status out")
  case True
  then show ?thesis using kinv_settle [OF inv p held _ good] seen by blast
next
  case False
  then show ?thesis using l' seen by (intro kinv_quiet [OF inv p]) auto
qed

lemma successes_snoc:
  "successes ids (lg @ [(w, r)]) i = successes ids lg i + (if fst (ids w) = i \<and> is_ok r then 1 else 0)"
  by (simp add: successes_def)

lemma kinv_call:
  assumes inv: "kinv ids phs l ps lg" and own: "phs w = Owning"
    and p: "protocol (fst (ids w)) (snd (ids w)) p (Settling r)"
  shows "kinv ids (phs(w := Settling r)) l (ps(w := p)) (lg @ [(w, r)])"
proof (rule kinv_updateI [OF inv p])
  note known = kinvD [OF inv]
  let ?i = "fst (ids w)"
  have own': "holding (phs w)" using own by simp
  have held: "holding ((phs(w := Settling r)) v) = holding (phs v)" for v using own by simp
  have none: "successes ids lg ?i = 0" using once_settling [OF known(4) _ own'] own by auto
  show "fenced ids (phs(w := Settling r)) l"
    using known(2) unfolding fenced_def held .
  show "informed ids (phs(w := Settling r)) l"
    using known(3) own unfolding informed_def by simp
  show "once ids (phs(w := Settling r)) l (lg @ [(w, r)])"
  proof (rule onceI)
    fix i assume i: "successes ids (lg @ [(w, r)]) i \<noteq> 0"
    show "successes ids (lg @ [(w, r)]) i = 1 \<and>
        (\<exists>x c. l i = Some (x, c) \<and> (ri_Status x = InvocationRunning \<or> ri_Status x = InvocationSucceeded))"
    proof (cases "i = ?i")
      case True
      from known(2) own' obtain x where "l ?i = Some (x, Some (snd (ids w)))" "ri_Status x = InvocationRunning"
        by (rule fencedD)
      then show ?thesis using True i none by (simp add: successes_snoc split: if_splits)
    next
      case False
      then show ?thesis using i once_row [OF known(4), of i] by (simp add: successes_snoc)
    qed
  next
    fix v assume v: "successes ids (lg @ [(w, r)]) (fst (ids v)) \<noteq> 0" "holding ((phs(w := Settling r)) v)"
    show "\<exists>out. (phs(w := Settling r)) v = Settling (Inr out)"
    proof (cases "v = w")
      case True
      then show ?thesis using v(1) none by (auto simp: successes_snoc split: if_splits)
    next
      case False
      then have "fst (ids v) \<noteq> ?i" using fenced_alone [OF known(2) _ own'] v(2) held by blast
      then show ?thesis using v False held once_settling [OF known(4)] by (auto simp: successes_snoc)
    qed
  qed
qed

section \<open>Every step keeps the invariant\<close>

definition kstate :: "('s \<Rightarrow> lookup) \<Rightarrow> (nat \<Rightarrow> string \<times> string) \<Rightarrow> (nat \<Rightarrow> phase) \<Rightarrow> 's KSys \<Rightarrow> bool" where
  "kstate look ids phs s \<longleftrightarrow> kinv ids phs (look (ks_store s)) (ks_workers s) (ks_log s)"

context fenced_store
begin

lemma quiet_look: "look s' = look s \<or> ensured (look s) (look s') invo \<Longrightarrow>
    look s' = look s \<or> (\<exists>i y. look s i = None \<and> look s' = (look s)(i \<mapsto> y))"
  by (auto simp: ensured_def)

lemma ensure_keeps:
  assumes inv: "kinv ids phs (look st) ps lg" and ok: "ok st"
    and call: "ps w = CEnsure invo c" and r: "op_Ensure R invo st = (r, st')"
  shows "ok st' \<and> (\<exists>ph. kinv ids (phs(w := ph)) (look st') (ps(w := c r)) lg)"
proof -
  note pr = kinvD(1) [OF inv, of w, unfolded call]
  have "kinv ids (phs(w := ensure_phase r)) (look st') (ps(w := c r)) lg"
  proof (rule kinv_quiet [OF inv _ quiet_look [OF ensure_look [OF ok r]]])
    fix out assume out: "ensure_phase r = Closed (Some out)"
    then obtain x where x: "r = Inr (Some x)" "ri_Status x = InvocationSucceeded" "ri_OutputJSON x = out"
      by (cases r rule: ensure_phase.cases) (auto simp: seen_output_def split: if_splits)
    with ensure_answer [OF ok, of invo x st'] r pr
    show "\<exists>x c. look st' (fst (ids w)) = Some (x, c) \<and> ri_Status x = InvocationSucceeded \<and> ri_OutputJSON x = out"
      by auto
  next
    show "\<not> holding (ensure_phase r) \<or> ensure_phase r = phs w"
      by (cases r rule: ensure_phase.cases) auto
  qed (use pr in auto)
  then show ?thesis using ensure_ok [OF ok _ r] pr by auto
qed

lemma begin_seen:
  assumes ok: "ok st" and r: "op_Begin R i a st = (r, st')" and out: "begin_phase r = Closed (Some out)"
  shows "look st' = look st \<and>
    (\<exists>x c. look st' i = Some (x, c) \<and> ri_Status x = InvocationSucceeded \<and> ri_OutputJSON x = out)"
proof -
  obtain x where x: "r = Inr (Some x, False)" "ri_Status x = InvocationSucceeded" "ri_OutputJSON x = out"
    using out by (cases r rule: begin_phase.cases) (auto simp: seen_output_def split: if_splits)
  with begin_lost [OF ok, of i a x st'] r obtain c where c: "look st' i = Some (x, c)" by auto
  then have "look st' = look st" using begin_look [OF ok r] x(2) by (auto simp: began_def)
  then show ?thesis using c x by blast
qed

lemma begin_keeps:
  assumes inv: "kinv ids phs (look st) ps lg" and ok: "ok st"
    and call: "ps w = CBegin i a c" and r: "op_Begin R i a st = (r, st')"
  shows "ok st' \<and> (\<exists>ph. kinv ids (phs(w := ph)) (look st') (ps(w := c r)) lg)"
proof -
  note pr = kinvD(1) [OF inv, of w, unfolded call]
  then have ids: "i = fst (ids w)" "a = snd (ids w)"
    and next': "protocol (fst (ids w)) (snd (ids w)) (c r) (begin_phase r)" by auto
  have "kinv ids (phs(w := begin_phase r)) (look st') (ps(w := c r)) lg"
  proof (cases "begin_phase r = Owning \<or> began (look st) (look st') i a \<and> begin_phase r = Closed None")
    case True
    then have "began (look st) (look st') i a"
      using begin_won [OF ok] r by (cases r rule: begin_phase.cases) auto
    then show ?thesis using kinv_begin [OF inv next', of "look st'"] True ids by auto
  next
    case False
    then have idle: "\<not> holding (begin_phase r)" by (cases r rule: begin_phase.cases) auto
    have "look st' = look st"
    proof (cases "begin_phase r = Closed None")
      case True
      then show ?thesis using begin_look [OF ok r] False by blast
    next
      case seen: False
      then obtain out where "begin_phase r = Closed (Some out)" using False
        by (cases r rule: begin_phase.cases) (auto simp: seen_output_def split: if_splits)
      then show ?thesis using begin_seen [OF ok r] by blast
    qed
    then show ?thesis
      using idle begin_seen [OF ok r] ids by (intro kinv_quiet [OF inv next']) auto
  qed
  then show ?thesis using begin_ok [OF ok r] by blast
qed

lemma repo_step_keeps:
  assumes inv: "kinv ids phs (look st) ps lg" and ok: "ok st"
    and step: "repo_step R (ps w) st = Some (p, st')"
  shows "ok st' \<and> (\<exists>ph. kinv ids (phs(w := ph)) (look st') (ps(w := p)) lg)"
proof (cases "ps w")
  case (CEnsure invo c)
  then show ?thesis using step ensure_keeps [OF inv ok] by (auto split: prod.splits)
next
  case (CBegin i a c)
  then show ?thesis using step begin_keeps [OF inv ok] by (auto split: prod.splits)
next
  case (CComplete i a out c)
  then obtain r where r: "op_Complete R i a out st = (r, st')" "p = c r" using step by (auto split: prod.splits)
  have "kinv ids (phs(w := Closed (if r = Inr True then Some out else None))) (look st') (ps(w := p)) lg"
    using kinvD(1) [OF inv, of w, unfolded CComplete] r(2) complete_look [OF ok r(1)] complete_won [OF ok] r(1)
    by (intro kinv_settle_or_not [OF inv, where status = InvocationSucceeded and out = out]) auto
  then show ?thesis using complete_ok [OF ok r(1)] by blast
next
  case (CFail i a reason c)
  then obtain r where r: "op_Fail R i a reason st = (r, st')" "p = c r" using step by (auto split: prod.splits)
  have "kinv ids (phs(w := Closed None)) (look st') (ps(w := p)) lg"
    using kinvD(1) [OF inv, of w, unfolded CFail] r(2) fail_look [OF ok r(1)]
    by (intro kinv_settle_or_not [OF inv, where status = InvocationFailed and out = "[]"]) auto
  then show ?thesis using fail_ok [OF ok r(1)] by blast
next
  case (CMarkUnknown i a reason c)
  then obtain r where r: "op_MarkUnknown R i a reason st = (r, st')" "p = c r" using step by (auto split: prod.splits)
  have "kinv ids (phs(w := Closed None)) (look st') (ps(w := p)) lg"
    using kinvD(1) [OF inv, of w, unfolded CMarkUnknown] r(2) unknown_look [OF ok r(1)]
    by (intro kinv_settle_or_not [OF inv, where status = InvocationUnknown and out = "[]"]) auto
  then show ?thesis using unknown_ok [OF ok r(1)] by blast
qed (use step in auto)

lemma kstep_keeps:
  assumes "kstep R s s'" and "ok (ks_store s)" and "kstate look ids phs s"
  shows "ok (ks_store s') \<and> (\<exists>phs'. kstate look ids phs' s')"
  using assms
proof (cases rule: kstep.cases)
  case (repo w p st)
  then show ?thesis using repo_step_keeps [of ids phs "ks_store s" "ks_workers s" "ks_log s" w p st] assms(2,3)
    by (auto simp: kstate_def)
next
  case (recorder w ir c answer)
  note inv = assms(3) [unfolded kstate_def]
  have "kinv ids (phs(w := phs w)) (look (ks_store s)) ((ks_workers s)(w := c answer)) (ks_log s)"
    using kinvD(1) [OF inv, of w] recorder(2) informedD [OF kinvD(3) [OF inv], of w]
    by (intro kinv_quiet [OF inv]) (auto, blast)
  then show ?thesis using recorder(1) assms(2) by (auto simp: kstate_def)
next
  case (external w c outcome)
  note inv = assms(3) [unfolded kstate_def]
  have "kinv ids (phs(w := Settling outcome)) (look (ks_store s)) ((ks_workers s)(w := c outcome))
      (ks_log s @ [(w, outcome)])"
    using kinvD(1) [OF inv, of w] external(2) by (intro kinv_call [OF inv]) auto
  then show ?thesis using external(1) assms(2) by (auto simp: kstate_def)
qed

lemma ksteps_keep:
  assumes "(kstep R)\<^sup>*\<^sup>* s s'" and "ok (ks_store s)" and "kstate look ids phs s"
  shows "ok (ks_store s') \<and> (\<exists>phs'. kstate look ids phs' s')"
  using assms
proof (induction rule: rtranclp_induct)
  case (step t u)
  then show ?case using kstep_keeps by blast
qed blast

end

section \<open>Systems of kernel workers\<close>

text \<open>Any number of workers, each at the start of its request.\<close>

definition ksystem :: "(string \<Rightarrow> string) \<Rightarrow> Kernel \<Rightarrow> (nat \<Rightarrow> Request) \<Rightarrow> (nat \<Rightarrow> InputMatcher option) \<Rightarrow> 's \<Rightarrow> 's KSys" where
  "ksystem dig k reqs ms st =
     \<lparr> ks_workers = (\<lambda>w. execute dig k (reqs w) (ms w) True), ks_store = st, ks_log = [] \<rparr>"

text \<open>Between the won attempt and its settlement.\<close>

primrec holds_fence :: "proc \<Rightarrow> bool" where
  "holds_fence (Return r) = False"
| "holds_fence (CEnsure invo c) = False"
| "holds_fence (CBegin i a c) = False"
| "holds_fence (CRecord ir c) = holds_fence (c None)"
| "holds_fence (CCall c) = True"
| "holds_fence (CComplete i a out c) = True"
| "holds_fence (CFail i a reason c) = True"
| "holds_fence (CMarkUnknown i a reason c) = True"

lemma protocol_holds: "protocol i a p ph \<Longrightarrow> holds_fence p \<Longrightarrow> holding ph"
  by (induction p arbitrary: ph) auto

lemma kinv_start: "kinv (\<lambda>w. fence_of (reqs w)) (\<lambda>w. Outside) l (ks_workers (ksystem dig k reqs ms st)) []"
  by (simp add: kinv_def ksystem_def protocol_execute fenced_def informed_def once_def successes_def)

context fenced_store
begin

lemma reachable_state:
  assumes "(kstep R)\<^sup>*\<^sup>* (ksystem dig k reqs ms st) s" and "ok st"
  obtains phs where "kinv (\<lambda>w. fence_of (reqs w)) phs (look (ks_store s)) (ks_workers s) (ks_log s)" "ok (ks_store s)"
proof -
  have "kstate look (\<lambda>w. fence_of (reqs w)) (\<lambda>w. Outside) (ksystem dig k reqs ms st)"
    using kinv_start by (simp add: kstate_def ksystem_def)
  then show thesis
    using ksteps_keep [OF assms(1)] assms(2) that by (auto simp: ksystem_def kstate_def)
qed

lemma fence_exclusive:
  assumes "(kstep R)\<^sup>*\<^sup>* (ksystem dig k reqs ms st) s" and "ok st"
    and "holds_fence (ks_workers s w)" "holds_fence (ks_workers s w')"
    and "fst (fence_of (reqs w)) = fst (fence_of (reqs w'))"
  shows "w = w'"
proof -
  obtain phs where inv: "kinv (\<lambda>w. fence_of (reqs w)) phs (look (ks_store s)) (ks_workers s) (ks_log s)"
    using reachable_state [OF assms(1,2)] .
  then show ?thesis
    using fenced_alone [OF kinvD(2) [OF inv]] protocol_holds [OF kinvD(1) [OF inv]] assms(3-5) by blast
qed

lemma success_once:
  assumes "(kstep R)\<^sup>*\<^sup>* (ksystem dig k reqs ms st) s" and "ok st"
  shows "successes (\<lambda>w. fence_of (reqs w)) (ks_log s) i \<le> 1"
proof -
  obtain phs where inv: "kinv (\<lambda>w. fence_of (reqs w)) phs (look (ks_store s)) (ks_workers s) (ks_log s)"
    using reachable_state [OF assms] .
  show ?thesis
    using once_row [OF kinvD(4) [OF inv], of i] by (cases "successes (\<lambda>w. fence_of (reqs w)) (ks_log s) i") auto
qed

lemma returned_is_stored:
  assumes "(kstep R)\<^sup>*\<^sup>* (ksystem dig k reqs ms st) s" and "ok st"
    and "ks_workers s w = Return (Inr res)"
  obtains x c where "look (ks_store s) (fst (fence_of (reqs w))) = Some (x, c)"
    "ri_Status x = InvocationSucceeded" "ri_OutputJSON x = kr_Output res"
proof -
  obtain phs where inv: "kinv (\<lambda>w. fence_of (reqs w)) phs (look (ks_store s)) (ks_workers s) (ks_log s)"
    using reachable_state [OF assms(1,2)] .
  have "phs w = Closed (Some (kr_Output res))" using kinvD(1) [OF inv, of w] assms(3) by simp
  then show thesis using informedD [OF kinvD(3) [OF inv]] that by blast
qed

lemma repo_step_final:
  assumes "repo_step R p st = Some (p', st')" and "ok st"
    and "look st i = Some (x, c)" "ri_Status x = InvocationSucceeded"
  shows "look st' i = Some (x, c)"
  using assms
proof (cases p)
  case (CEnsure invo cont)
  then obtain r where r: "op_Ensure R invo st = (r, st')" using assms(1) by (auto split: prod.splits)
  show ?thesis using ensure_look [OF assms(2) r] assms(3) by (auto simp: ensured_def)
next
  case (CBegin j a cont)
  then obtain r where r: "op_Begin R j a st = (r, st')" using assms(1) by (auto split: prod.splits)
  show ?thesis using begin_look [OF assms(2) r] assms(3,4) by (auto simp: began_def may_begin_def)
next
  case (CComplete j a out cont)
  then obtain r where r: "op_Complete R j a out st = (r, st')" using assms(1) by (auto split: prod.splits)
  show ?thesis using complete_look [OF assms(2) r] assms(3,4) by (auto simp: settled_def)
next
  case (CFail j a reason cont)
  then obtain r where r: "op_Fail R j a reason st = (r, st')" using assms(1) by (auto split: prod.splits)
  show ?thesis using fail_look [OF assms(2) r] assms(3,4) by (auto simp: settled_def)
next
  case (CMarkUnknown j a reason cont)
  then obtain r where r: "op_MarkUnknown R j a reason st = (r, st')" using assms(1) by (auto split: prod.splits)
  show ?thesis using unknown_look [OF assms(2) r] assms(3,4) by (auto simp: settled_def)
qed auto

lemma kstep_final:
  assumes "kstep R s s'" and "ok (ks_store s)" and "kstate look ids phs s"
    and "look (ks_store s) i = Some (x, c)" "ri_Status x = InvocationSucceeded"
  shows "look (ks_store s') i = Some (x, c) \<and>
    filter (\<lambda>(w, r). fst (ids w) = i) (ks_log s') = filter (\<lambda>(w, r). fst (ids w) = i) (ks_log s)"
  using assms(1)
proof (cases rule: kstep.cases)
  case (repo w p st)
  then show ?thesis using repo_step_final [OF repo(2) assms(2,4,5)] by simp
next
  case (recorder w ir c answer)
  then show ?thesis using assms(4) by simp
next
  case (external w cont outcome)
  note inv = assms(3) [unfolded kstate_def]
  have "holding (phs w)" using kinvD(1) [OF inv, of w] external(2) by simp
  then have "fst (ids w) \<noteq> i" using assms(4,5) by (auto elim: fencedD [OF kinvD(2) [OF inv]])
  then show ?thesis using external(1) assms(4) by simp
qed

lemma ksteps_final:
  assumes "(kstep R)\<^sup>*\<^sup>* s s'" and "ok (ks_store s)" and "kstate look ids phs s"
    and "look (ks_store s) i = Some (x, c)" "ri_Status x = InvocationSucceeded"
  shows "look (ks_store s') i = Some (x, c) \<and>
    filter (\<lambda>(w, r). fst (ids w) = i) (ks_log s') = filter (\<lambda>(w, r). fst (ids w) = i) (ks_log s)"
  using assms(1)
proof (induction rule: rtranclp_induct)
  case base
  then show ?case using assms(4) by simp
next
  case (step t u)
  obtain phs' where "ok (ks_store t)" "kstate look ids phs' t" using ksteps_keep [OF step(1) assms(2,3)] by blast
  then show ?case using kstep_final [OF step(2)] step.IH assms(5) by auto
qed

end

end
