(* ===== verification/SoloRun.thy ===== *)
theory SoloRun
  imports FenceProtocol
begin

text \<open>
  Runs of the execution kernel by one worker that nobody interrupts, on the in-memory repository:
  what is stored after a success and what a repetition of the request returns.
\<close>

section \<open>Runs of one worker\<close>

text \<open>A kernel without a recorder.\<close>

definition plain_kernel :: Kernel where
  "plain_kernel = \<lparr> k_invocations = True, k_recorder = False \<rparr>"

text \<open>A row that only a run changed still matches the request.\<close>

lemma matchesRequest_settled [simp]:
  "matchesRequest dig (x\<lparr> ri_Status := a, ri_AttemptCount := n, ri_OutputJSON := b, ri_Error := c \<rparr>) req = matchesRequest dig x req"
  "matchesRequest dig (x\<lparr> ri_Status := a, ri_AttemptCount := n \<rparr>) req = matchesRequest dig x req"
  by (simp_all add: matchesRequest_def matchesRequestExceptInput_def)

lemma matchesRequest_new: "matchesRequest dig (new_invocation dig req) req"
  by (simp add: matchesRequest_def matchesRequestExceptInput_def new_invocation_def stringPtr_def)

definition same_operation :: "Request \<Rightarrow> Request \<Rightarrow> bool" where
  "same_operation req req' \<longleftrightarrow>
     id_InvocationID (rq_Identity req') = id_InvocationID (rq_Identity req) \<and>
     id_RunID (rq_Identity req') = id_RunID (rq_Identity req) \<and>
     id_StepID (rq_Identity req') = id_StepID (rq_Identity req) \<and>
     rq_Kind req' = rq_Kind req \<and> rq_OperationName req' = rq_OperationName req \<and>
     rq_Input req' = rq_Input req \<and> rq_RetrySafety req' = rq_RetrySafety req \<and>
     rq_IdempotencyKey req' = rq_IdempotencyKey req \<and> rq_LogicalOrdinal req' = rq_LogicalOrdinal req"

lemma mem_Ensure_row:
  obtains x s' where "mem_Ensure invo s = (Inr (Some x), s')" "map_of (mr_invocations s') (ri_InvocationID invo) = Some x"
  by (cases "map_of (mr_invocations s) (ri_InvocationID invo)") (auto simp: mem_Ensure_def update_conv')

lemma solo_record [simp]:
  "solo R rec outcome (record_invocation k ident st reason c) =
     solo R rec outcome (c (if k_recorder k then rec \<lparr> ir_Identity = ident, ir_Status = st, ir_Error = reason \<rparr> else None))"
  by (simp add: record_invocation_def)

lemma solo_mark:
  "solo R rec outcome (markFailed k req e) s \<noteq> (Inr res, s1, n)"
  "solo R rec outcome (markUnknown k req e) s \<noteq> (Inr res, s1, n)"
  by (auto simp: markFailed_def markUnknown_def Let_def split: prod.splits sum.splits option.splits if_splits)

lemma solo_owned:
  assumes "solo mem_ops rec outcome (owned_attempt k req) s = (Inr res, s1, n)"
  shows "\<exists>x. map_of (mr_invocations s) (id_InvocationID (rq_Identity req)) = Some x \<and>
    outcome = Inr (kr_Output res) \<and> n = 1 \<and>
    map_of (mr_invocations s1) (id_InvocationID (rq_Identity req)) =
      Some (x\<lparr> ri_Status := InvocationSucceeded, ri_OutputJSON := kr_Output res, ri_Error := [] \<rparr>)"
proof -
  obtain m where m: "solo mem_ops rec outcome (case outcome of
      Inl e \<Rightarrow> if err_is e ErrExternalOutcomeUnknown then markUnknown k req e else markFailed k req e
    | Inr out \<Rightarrow> complete_attempt k req out) s = (Inr res, s1, m)" "n = Suc m"
    using assms unfolding owned_attempt_def by (auto simp: Let_def split: prod.splits sum.splits option.splits if_splits)
  then obtain out where "outcome = Inr out"
    by (cases outcome) (auto simp: solo_mark split: if_splits)
  with m show ?thesis
    by (auto simp: complete_attempt_def mem_ops_def mem_finish_def Let_def update_conv'
        split: prod.splits sum.splits option.splits if_splits)
qed

lemma solo_success_stored:
  assumes "solo mem_ops rec outcome (Kernel_Execute dig k req True) s = (Inr res, s1, n)"
  shows "\<exists>x. map_of (mr_invocations s1) (id_InvocationID (rq_Identity req)) = Some x \<and>
    ri_Status x = InvocationSucceeded \<and> ri_OutputJSON x = kr_Output res \<and> matchesRequest dig x (scoped req) \<and>
    validate k req True = None \<and> (n = 0 \<or> outcome = Inr (kr_Output res))"
proof -
  let ?q = "scoped req" and ?i = "id_InvocationID (rq_Identity req)"
  have i: "id_InvocationID (rq_Identity ?q) = ?i" by (simp add: scoped_def)
  have v: "validate k req True = None" and f: "solo mem_ops rec outcome (fenced_execution dig k ?q None) s = (Inr res, s1, n)"
    using assms by (auto simp: Kernel_Execute_def execute_def split: option.splits)
  obtain x s2 where x: "mem_Ensure (new_invocation dig ?q) s = (Inr (Some x), s2)" "map_of (mr_invocations s2) ?i = Some x"
    using mem_Ensure_row [of "new_invocation dig ?q" s] by (auto simp: new_invocation_def i)
  show ?thesis
  proof (cases "ri_Status x = InvocationSucceeded")
    case True
    then show ?thesis
      using f x v by (auto simp: fenced_execution_def check_match_def mem_ops_def cachedResult_def i Let_def split: if_splits)
  next
    case False
    then have match: "matchesRequest dig x ?q"
      using f x by (auto simp: fenced_execution_def check_match_def mem_ops_def i Let_def split: if_splits)
    obtain s3 where s3: "solo mem_ops rec outcome (owned_attempt k ?q) s3 = (Inr res, s1, n)"
        "map_of (mr_invocations s3) ?i = Some (x\<lparr> ri_Status := InvocationRunning, ri_AttemptCount := ri_AttemptCount x + 1 \<rparr>)"
      using f x False
      by (auto simp: fenced_execution_def mem_ops_def mem_BeginAttempt_def resultWithoutFence_def i Let_def update_conv'
          split: if_splits option.splits)
    from solo_owned [OF s3(1)] show ?thesis using s3(2) match v by (auto simp: i matchesRequest_def matchesRequestExceptInput_def)
  qed
qed

lemma solo_replay:
  assumes "map_of (mr_invocations s) (id_InvocationID (rq_Identity req)) = Some x" "ri_Status x = InvocationSucceeded"
    and "matchesRequest dig x (scoped req)" and "validate k req True = None"
  shows "solo mem_ops rec outcome (Kernel_Execute dig k req True) s =
    (Inr \<lparr> kr_Output = ri_OutputJSON x, kr_Cached = True \<rparr>, s, 0)"
  using assms
  by (simp add: Kernel_Execute_def execute_def fenced_execution_def mem_ops_def mem_Ensure_def check_match_def
      cachedResult_def new_invocation_def Let_def scoped_def)

lemma solo_repeat:
  assumes "solo mem_ops rec outcome (Kernel_Execute dig k req True) s = (Inr res, s1, n)"
    and "same_operation req req'" and "id_AttemptID (rq_Identity req') \<noteq> []"
  shows "solo mem_ops rec' outcome' (Kernel_Execute dig k req' True) s1 =
    (Inr \<lparr> kr_Output = kr_Output res, kr_Cached = True \<rparr>, s1, 0)"
proof -
  from solo_success_stored [OF assms(1)] obtain x where x: "map_of (mr_invocations s1) (id_InvocationID (rq_Identity req)) = Some x"
      "ri_Status x = InvocationSucceeded" "ri_OutputJSON x = kr_Output res" "matchesRequest dig x (scoped req)" "validate k req True = None"
    by blast
  note fields = assms(2) [unfolded same_operation_def]
  have "matchesRequest dig x (scoped req')"
    using x(4) fields by (simp add: matchesRequest_def matchesRequestExceptInput_def scoped_def)
  moreover have "validate k req' True = None"
    using x(5) fields assms(3) by (simp add: validate_def Let_def split: if_splits)
  ultimately show ?thesis using solo_replay [of s1 req' x] x fields by simp
qed

end
