(* ===== verification/KernelProps.thy ===== *)
theory KernelProps
  imports SoloRun
begin

text \<open>
  The properties of the execution kernel: under every interleaving of its workers on the database
  repository, and for one worker that repeats its request. The sample fleet at the end of the
  definitions has three workers with the same invocation, marked as unsafe to retry.
\<close>

section \<open>A small fleet\<close>

definition sample_request :: "RetrySafety \<Rightarrow> string \<Rightarrow> Request" where
  "sample_request safety attempt =
     \<lparr> rq_Identity = \<lparr> id_RunID = ''run'', id_StepID = ''step'', id_InvocationID = ''call'', id_AttemptID = attempt \<rparr>,
       rq_Kind = InvocationTool, rq_OperationName = ''pay'', rq_Input = ''{}'', rq_RetrySafety = safety,
       rq_IdempotencyKey = [], rq_LogicalOrdinal = 0 \<rparr>"

definition sample_db :: SqlDb where
  "sample_db = \<lparr> db_invocation = [], db_attempt = [], db_faults = [] \<rparr>"

definition sample_reqs :: "nat \<Rightarrow> Request" where
  "sample_reqs w = sample_request RetryUnsafe (nat_str w)"

definition sample_fleet :: "'s \<Rightarrow> 's KSys" where
  "sample_fleet st = ksystem (\<lambda>s. s) plain_kernel sample_reqs (\<lambda>w. None) st"

fun returned :: "proc \<Rightarrow> (goerr + KResult) option" where
  "returned (Return r) = Some r"
| "returned _ = None"

lemma returned_Some [simp]: "returned p = Some r \<longleftrightarrow> p = Return r"
  by (cases p) auto

text \<open>Worker 0 wins the attempt, worker 1 comes too late.\<close>

definition sample_race :: "ksched list" where
  "sample_race = [KRepo 0, KRepo 1, KRepo 0, KRepo 1]"

lemma sample_db_ok: "sql_ok sample_db"
  by (simp add: sql_ok_def sample_db_def)

lemma sample_race_runs:
  "case run_sched sql_ops sample_race (sample_fleet sample_db) of
     None \<Rightarrow> False
   | Some s \<Rightarrow> holds_fence (ks_workers s 0)"
  by code_simp

definition sample_finish :: "ksched list" where
  "sample_finish = sample_race @ [KCall 0 (Inr ''paid''), KRepo 0, KRepo 2]"

lemma sample_finish_runs:
  "case run_sched sql_ops sample_finish (sample_fleet sample_db) of
     None \<Rightarrow> False
   | Some s \<Rightarrow> returned (ks_workers s 0) = Some (Inr \<lparr> kr_Output = ''paid'', kr_Cached = False \<rparr>)
       \<and> returned (ks_workers s 2) = Some (Inr \<lparr> kr_Output = ''paid'', kr_Cached = True \<rparr>)"
  by code_simp

lemma sample_late_runs:
  "case run_sched sql_ops sample_finish (sample_fleet sample_db) of
     None \<Rightarrow> False
   | Some s \<Rightarrow> run_sched sql_ops [KRepo 3] s \<noteq> None"
  by code_simp

text \<open>Worker 1 reads the pending row; worker 0 executes and does not learn the outcome; worker 1 begins.\<close>

definition sample_overlap :: "ksched list" where
  "sample_overlap = [KRepo 0, KRepo 1, KRepo 0, KCall 0 (Inl ErrExternalOutcomeUnknown), KRepo 0,
     KRepo 1, KCall 1 (Inr ''paid again'')]"

lemma unsafe_invocation_executed_twice:
  "case run_sched sql_ops sample_overlap (sample_fleet sample_db) of
     None \<Rightarrow> False
   | Some s \<Rightarrow> ks_log s = [(0, Inl ErrExternalOutcomeUnknown), (1, Inr ''paid again'')]"
  by code_simp

section \<open>Properties\<close>

text \<open>C5. However many workers run the same invocation through the database repository, however their
  port calls interleave, fail or lose their answer, and whatever crashes: two different workers are
  never both between winning the attempt and settling it, where the external operation runs.\<close>

theorem kernel_single_flight:
  assumes "sql_ok db" and "(kstep sql_ops)\<^sup>*\<^sup>* (ksystem dig k reqs ms db) s"
  shows "\<not> (w \<noteq> w' \<and> fst (fence_of (reqs w)) = fst (fence_of (reqs w')) \<and>
    holds_fence (ks_workers s w) \<and> holds_fence (ks_workers s w'))"
  using sql.fence_exclusive [OF assms(2,1)] by blast

theorem kernel_single_flight_witness:
  "\<exists>s. (kstep sql_ops)\<^sup>*\<^sup>* (sample_fleet sample_db) s \<and> holds_fence (ks_workers s 0) \<and> \<not> holds_fence (ks_workers s 1)"
proof -
  obtain s where s: "run_sched sql_ops sample_race (sample_fleet sample_db) = Some s" "holds_fence (ks_workers s 0)"
    using sample_race_runs by (auto split: option.splits)
  have steps: "(kstep sql_ops)\<^sup>*\<^sup>* (ksystem (\<lambda>s. s) plain_kernel sample_reqs (\<lambda>w. None) sample_db) s"
    using run_sched_steps [OF s(1)] by (simp add: sample_fleet_def)
  have "fst (fence_of (sample_reqs 0)) = fst (fence_of (sample_reqs 1))"
    by (simp add: fence_of_def sample_reqs_def sample_request_def)
  then show ?thesis
    using kernel_single_flight [OF sample_db_ok steps, of 0 1] s(2) steps by (auto simp: sample_fleet_def)
qed

text \<open>C6. Under every interleaving of workers on the database repository the external operation of an
  invocation succeeds at most once, and all workers that return a result for it return the same
  output, the one that is stored.\<close>

theorem kernel_success_once:
  assumes "sql_ok db" and "(kstep sql_ops)\<^sup>*\<^sup>* (ksystem dig k reqs ms db) s"
    and "ks_workers s w = Return (Inr res)" and "ks_workers s w' = Return (Inr res')"
    and "fst (fence_of (reqs w)) = fst (fence_of (reqs w'))"
  shows "successes (\<lambda>w. fence_of (reqs w)) (ks_log s) i \<le> 1 \<and> kr_Output res = kr_Output res' \<and>
    (\<exists>x c. sql_look (ks_store s) (fst (fence_of (reqs w))) = Some (x, c) \<and>
       ri_Status x = InvocationSucceeded \<and> ri_OutputJSON x = kr_Output res)"
  using sql.success_once [OF assms(2,1)] sql.returned_is_stored [OF assms(2,1,3)]
    sql.returned_is_stored [OF assms(2,1,4)] assms(5) by (metis option.inject prod.inject)

theorem kernel_success_once_witness:
  "\<exists>s res res'. (kstep sql_ops)\<^sup>*\<^sup>* (sample_fleet sample_db) s \<and> ks_workers s 0 = Return (Inr res) \<and>
     ks_workers s 2 = Return (Inr res') \<and> kr_Output res = kr_Output res'"
proof -
  obtain s where s: "run_sched sql_ops sample_finish (sample_fleet sample_db) = Some s"
      "ks_workers s 0 = Return (Inr \<lparr> kr_Output = ''paid'', kr_Cached = False \<rparr>)"
      "ks_workers s 2 = Return (Inr \<lparr> kr_Output = ''paid'', kr_Cached = True \<rparr>)"
    using sample_finish_runs by (auto split: option.splits)
  have steps: "(kstep sql_ops)\<^sup>*\<^sup>* (ksystem (\<lambda>s. s) plain_kernel sample_reqs (\<lambda>w. None) sample_db) s"
    using run_sched_steps [OF s(1)] by (simp add: sample_fleet_def)
  have "fst (fence_of (sample_reqs 0)) = fst (fence_of (sample_reqs 2))"
    by (simp add: fence_of_def sample_reqs_def sample_request_def)
  then show ?thesis
    using kernel_success_once [OF sample_db_ok steps s(2,3)] s(2,3) steps by (auto simp: sample_fleet_def)
qed

text \<open>C7. Once the stored row of an invocation says that it succeeded, it never changes again and the
  operation is never called again, in every continuation of the run.\<close>

theorem kernel_success_final:
  assumes "sql_ok db" and "(kstep sql_ops)\<^sup>*\<^sup>* (ksystem dig k reqs ms db) s" and "(kstep sql_ops)\<^sup>*\<^sup>* s s'"
    and "sql_look (ks_store s) i = Some (x, c)" and "ri_Status x = InvocationSucceeded"
  shows "sql_look (ks_store s') i = Some (x, c) \<and>
    filter (\<lambda>(w, r). fst (fence_of (reqs w)) = i) (ks_log s') = filter (\<lambda>(w, r). fst (fence_of (reqs w)) = i) (ks_log s)"
proof -
  obtain phs where "kinv (\<lambda>w. fence_of (reqs w)) phs (sql_look (ks_store s)) (ks_workers s) (ks_log s)" "sql_ok (ks_store s)"
    using sql.reachable_state [OF assms(2,1)] .
  then show ?thesis using sql.ksteps_final [OF assms(3) _ _ assms(4,5)] by (simp add: kstate_def)
qed

theorem kernel_success_final_witness:
  "\<exists>s s' x c. (kstep sql_ops)\<^sup>*\<^sup>* (sample_fleet sample_db) s \<and> (kstep sql_ops)\<^sup>*\<^sup>* s s' \<and>
     ri_Status x = InvocationSucceeded \<and> sql_look (ks_store s') ''call'' = Some (x, c)"
proof -
  obtain s s' where s: "run_sched sql_ops sample_finish (sample_fleet sample_db) = Some s"
      "ks_workers s 0 = Return (Inr \<lparr> kr_Output = ''paid'', kr_Cached = False \<rparr>)"
      "run_sched sql_ops [KRepo 3] s = Some s'"
    using sample_finish_runs sample_late_runs by (auto split: option.splits)
  have steps: "(kstep sql_ops)\<^sup>*\<^sup>* (ksystem (\<lambda>s. s) plain_kernel sample_reqs (\<lambda>w. None) sample_db) s"
    using run_sched_steps [OF s(1)] by (simp add: sample_fleet_def)
  have "fst (fence_of (sample_reqs 0)) = ''call''" by (simp add: fence_of_def sample_reqs_def sample_request_def)
  then obtain x c where x: "sql_look (ks_store s) ''call'' = Some (x, c)" "ri_Status x = InvocationSucceeded"
    using sql.returned_is_stored [OF steps sample_db_ok s(2)] by metis
  have "sql_look (ks_store s') ''call'' = Some (x, c)"
    using kernel_success_final [OF sample_db_ok steps run_sched_steps [OF s(3)] x] by (rule conjunct1)
  then show ?thesis
    using steps run_sched_steps [OF s(3)] x(2) unfolding sample_fleet_def by blast
qed

text \<open>C8. A run of the kernel that returned an output can be repeated, also under a new attempt: the
  repetition returns the same output from the store, leaves the store as it is and makes no external
  call, whatever the operation would answer now.\<close>

theorem kernel_replay:
  assumes "solo mem_ops rec outcome (Kernel_Execute dig k req True) s = (Inr res, s1, n)"
    and "same_operation req req'" and "id_AttemptID (rq_Identity req') \<noteq> []"
  shows "solo mem_ops rec' outcome' (Kernel_Execute dig k req' True) s1 =
    (Inr \<lparr> kr_Output = kr_Output res, kr_Cached = True \<rparr>, s1, 0)"
  using assms by (rule solo_repeat)

theorem kernel_replay_witness:
  "solo mem_ops (\<lambda>_. None) (Inr ''other'') (Kernel_Execute (\<lambda>s. s) plain_kernel (sample_request RetryUnsafe ''b'') True)
     (fst (snd (solo mem_ops (\<lambda>_. None) (Inr ''paid'')
        (Kernel_Execute (\<lambda>s. s) plain_kernel (sample_request RetryUnsafe ''a'') True) newMemoryInvocationRepository))) =
   (Inr \<lparr> kr_Output = ''paid'', kr_Cached = True \<rparr>,
    fst (snd (solo mem_ops (\<lambda>_. None) (Inr ''paid'')
        (Kernel_Execute (\<lambda>s. s) plain_kernel (sample_request RetryUnsafe ''a'') True) newMemoryInvocationRepository)), 0)"
proof -
  let ?r = "solo mem_ops (\<lambda>_. None) (Inr ''paid'')
        (Kernel_Execute (\<lambda>s. s) plain_kernel (sample_request RetryUnsafe ''a'') True) newMemoryInvocationRepository"
  have "fst ?r = Inr \<lparr> kr_Output = ''paid'', kr_Cached = False \<rparr>" by code_simp
  then have "?r = (Inr \<lparr> kr_Output = ''paid'', kr_Cached = False \<rparr>, fst (snd ?r), snd (snd ?r))" by (metis prod.collapse)
  from kernel_replay [OF this, of "sample_request RetryUnsafe ''b''"] show ?thesis
    by (simp add: same_operation_def sample_request_def)
qed

end
