(* ===== verification/ToolRuntime.thy ===== *)
theory ToolRuntime
  imports SoloRun Services
begin

text \<open>
  \<^verbatim>\<open>backend/domain/toolruntime\<close>: the governed execution of one tool call (\<^verbatim>\<open>runtime.go\<close>,
  \<^verbatim>\<open>policy.go\<close>, \<^verbatim>\<open>types.go\<close>), with the approval policy (\<^verbatim>\<open>application/toolpolicy\<close>) and the redactor
  (\<^verbatim>\<open>application/redact\<close>) it calls. The tool runs inside the execution kernel of \<open>Kernel\<close>, here by
  one worker that nobody interrupts (\<open>solo\<close>).

  What the runtime cannot know is a parameter: the validator, the quota service, the approval
  callback, the executor, and the JSON codec (\<open>canon\<close> for the canonical form of one JSON value,
  \<open>marshal\<close> and \<open>unmarshal\<close> for payloads, \<open>encode\<close> and \<open>decode\<close> for the persisted result). The calls
  on them are logged in order as \<open>tevent\<close>s. Metrics are left out.
\<close>

section \<open>Approval policy\<close>

record Policy =
  pl_requireApproval :: "string list"
  pl_autoApproved :: "string list"

definition NewPolicy :: "string list \<Rightarrow> string list \<Rightarrow> Policy" where
  "NewPolicy requireApproval autoApproved =
     \<lparr> pl_requireApproval = filter (\<lambda>n. n \<noteq> []) requireApproval,
       pl_autoApproved = filter (\<lambda>n. n \<noteq> []) autoApproved \<rparr>"

definition RequiresApproval :: "Policy option \<Rightarrow> string \<Rightarrow> bool" where
  "RequiresApproval po tool = (case po of None \<Rightarrow> False | Some p \<Rightarrow> tool \<in> set (pl_requireApproval p))"

definition Allowed :: "Policy option \<Rightarrow> string \<Rightarrow> bool" where
  "Allowed po tool =
     (case po of None \<Rightarrow> True
      | Some p \<Rightarrow> if tool \<notin> set (pl_requireApproval p) then True else tool \<in> set (pl_autoApproved p))"

section \<open>Redaction\<close>

text \<open>\<^verbatim>\<open>strings.ReplaceAll\<close> for a pattern that is not empty.\<close>

function replace_all :: "string \<Rightarrow> string \<Rightarrow> string \<Rightarrow> string" where
  "replace_all old new s =
     (if s = [] \<or> old = [] then s
      else if take (length old) s = old then new @ replace_all old new (drop (length old) s)
      else hd s # replace_all old new (tl s))"
  by pat_completeness auto
termination
  by (relation "measure (\<lambda>(old, new, s). length s)") auto

declare replace_all.simps [simp del]

record Redactor =
  rd_secrets :: "string list"

definition redacted_mark :: string where
  "redacted_mark = ''[REDACTED]''"

text \<open>\<open>trim\<close> is \<^verbatim>\<open>strings.TrimSpace\<close>.\<close>

definition Redactor_New :: "(string \<Rightarrow> string) \<Rightarrow> string list \<Rightarrow> Redactor" where
  "Redactor_New trim secrets =
     \<lparr> rd_secrets = fold (\<lambda>s out. let t = trim s in if t \<noteq> [] \<and> t \<notin> set out then out @ [t] else out) secrets [] \<rparr>"

definition Redactor_String :: "Redactor option \<Rightarrow> string \<Rightarrow> string" where
  "Redactor_String ro s =
     (case ro of None \<Rightarrow> s
      | Some r \<Rightarrow> if s = [] then s else fold (\<lambda>sec t. replace_all sec redacted_mark t) (rd_secrets r) s)"

section \<open>Bounds on outputs and errors\<close>

definition defaultToolOutputMaxBytes :: int where
  "defaultToolOutputMaxBytes = 32 * 1024"

definition defaultToolErrorMaxBytes :: int where
  "defaultToolErrorMaxBytes = 4 * 1024"

definition outputTruncationMarker :: "int \<Rightarrow> string" where
  "outputTruncationMarker bound = newline @ ''[output truncated: exceeded '' @ itoa bound @ '' bytes]''"

definition clipToolOutput :: "(structured \<Rightarrow> string option) \<Rightarrow> int \<Rightarrow> ToolExecutionResult \<Rightarrow> ToolExecutionResult" where
  "clipToolOutput marshal bound r =
     (if bound \<le> 0 \<or> int (length (te_Output r)) \<le> bound then r
      else
        let cut = utf8_cut (te_Output r) (nat bound) in
        \<lparr> te_Output = take cut (te_Output r) @ outputTruncationMarker bound,
          te_Structured =
            (if te_Structured r \<noteq> SNone then
               (case marshal (te_Structured r) of
                  None \<Rightarrow> SNone
                | Some raw \<Rightarrow> if int (length raw) > bound then SNone else te_Structured r)
             else SNone),
          te_SourceURI = te_SourceURI r \<rparr>)"

definition boundErrorMessage :: "goerr \<Rightarrow> int \<Rightarrow> goerr" where
  "boundErrorMessage e bound =
     (if bound \<le> 0 \<or> int (length (err_str e)) \<le> bound then e
      else Wraps (take (utf8_cut (err_str e) (nat bound)) (err_str e) @ outputTruncationMarker bound) [e])"

section \<open>Requests and results\<close>

definition retrySafety :: "ToolEffectClass \<Rightarrow> RetrySafety" where
  "retrySafety effect =
     (case effect of
        ToolEffectReadOnly \<Rightarrow> RetrySafeReadOnly
      | ToolEffectIdempotent \<Rightarrow> RetrySafeIdempotent
      | _ \<Rightarrow> RetryUnsafe)"

record ApprovalDecision =
  ad_Approved :: bool
  ad_DecidedBy :: string
  ad_Reason :: string

record TRequest =
  tq_Identity :: ExecutionIdentity
  tq_Definition :: ToolDefinition
  tq_ArgumentsJSON :: string
  tq_UserID :: string
  tq_ExpectedSchema :: string
  tq_Ordinal :: int
  tq_Permission :: string

record TResult =
  tr_Execution :: "ToolExecutionResult option"
  tr_Output :: string
  tr_Arguments :: string
  tr_Violations :: "Violation list"
  tr_IdempotencyKey :: string
  tr_ApprovedBy :: string
  tr_Cached :: bool

record ToolExecutionRequest =
  xq_ToolName :: string
  xq_ArgumentsJSON :: string
  xq_UserID :: string
  xq_Binding :: ToolBinding
  xq_EffectClass :: ToolEffectClass
  xq_ExpectedSchema :: string
  xq_Identity :: ExecutionIdentity
  xq_IdempotencyKey :: string

record ValidationResult =
  vr_Valid :: bool
  vr_Violations :: "Violation list"

definition violation_str :: "Violation \<Rightarrow> string" where
  "violation_str v = ''['' @ vl_Code v @ ''] field='' @ go_quote (vl_Field v) @ '': '' @ vl_Message v"

definition ValidationResult_Error :: "ValidationResult \<Rightarrow> string" where
  "ValidationResult_Error r = (if vr_Valid r then [] else join_with ''; '' (map violation_str (vr_Violations r)))"

record persistedToolResult =
  pt_Version :: string
  pt_Output :: string
  pt_Structured :: "string option"
  pt_SourceURI :: string

text \<open>What the runtime is configured with, and the JSON functions.\<close>

record ToolDeps =
  dp_Policy :: "Policy option"
  dp_Quota :: "(string \<Rightarrow> string \<Rightarrow> goerr + bool) option"
  dp_Validate :: "string \<Rightarrow> string \<Rightarrow> ValidationResult option"
  dp_Redactor :: "Redactor option"
  dp_Digest :: "string \<Rightarrow> string"
  dp_Kernel :: Kernel
  dp_Recorder :: "InvocationRecord \<Rightarrow> goerr option"
  dp_Executor :: "ToolExecutionRequest \<Rightarrow> goerr + ToolExecutionResult option"
  dp_canon :: "string \<Rightarrow> string option"
  dp_marshal :: "structured \<Rightarrow> string option"
  dp_unmarshal :: "string \<Rightarrow> structured"
  dp_encode :: "persistedToolResult \<Rightarrow> string option"
  dp_decode :: "string \<Rightarrow> persistedToolResult option"

datatype tevent =
    TApproval | TQuota string string | TValidate string | TValidated | TStarted | TExecute ToolExecutionRequest

section \<open>Execution\<close>

definition canonicalArguments :: "ToolDeps \<Rightarrow> string \<Rightarrow> string" where
  "canonicalArguments d arguments = (case dp_canon d arguments of None \<Rightarrow> arguments | Some c \<Rightarrow> c)"

definition encodeToolResult :: "ToolDeps \<Rightarrow> ToolExecutionResult \<Rightarrow> string" where
  "encodeToolResult d r =
     (let persisted = \<lparr> pt_Version = ''tool-runtime:v1'', pt_Output = te_Output r,
            pt_Structured = (if te_Structured r \<noteq> SNone then dp_marshal d (te_Structured r) else None),
            pt_SourceURI = te_SourceURI r \<rparr> in
      case dp_encode d persisted of None \<Rightarrow> te_Output r | Some e \<Rightarrow> e)"

definition decodeToolResult :: "ToolDeps \<Rightarrow> string \<Rightarrow> ToolExecutionResult" where
  "decodeToolResult d encoded =
     (let plain = \<lparr> te_Output = encoded, te_Structured = SNone, te_SourceURI = [] \<rparr> in
      case dp_decode d encoded of
        None \<Rightarrow> plain
      | Some p \<Rightarrow>
          if pt_Version p \<noteq> ''tool-runtime:v1'' then plain
          else \<lparr> te_Output = pt_Output p,
                 te_Structured = (case pt_Structured p of None \<Rightarrow> SNone
                   | Some s \<Rightarrow> if s = [] then SNone else dp_unmarshal d s),
                 te_SourceURI = pt_SourceURI p \<rparr>)"

definition redact :: "ToolDeps \<Rightarrow> string \<Rightarrow> string" where
  "redact d s = Redactor_String (dp_Redactor d) s"

text \<open>\<^verbatim>\<open>redactedError\<close>: the text is masked, the cause is kept for \<^verbatim>\<open>errors.Is\<close>.\<close>

definition safeError :: "ToolDeps \<Rightarrow> goerr \<Rightarrow> goerr" where
  "safeError d e = Wraps (redact d (err_str e)) [e]"

definition wrap_text :: "goerr \<Rightarrow> string \<Rightarrow> goerr" where
  "wrap_text e text = Wraps (err_str e @ '': '' @ text) [e]"

definition start_result :: "ToolDeps \<Rightarrow> TRequest \<Rightarrow> TResult" where
  "start_result d req = \<lparr> tr_Execution = None, tr_Output = [], tr_Arguments = redact d (tq_ArgumentsJSON req),
     tr_Violations = [], tr_IdempotencyKey = [], tr_ApprovedBy = [], tr_Cached = False \<rparr>"

definition execution_request :: "ToolDeps \<Rightarrow> TRequest \<Rightarrow> string \<Rightarrow> ToolExecutionRequest" where
  "execution_request d req key =
     \<lparr> xq_ToolName = td_Name (tq_Definition req), xq_ArgumentsJSON = tq_ArgumentsJSON req,
       xq_UserID = tq_UserID req, xq_Binding = td_Binding (tq_Definition req),
       xq_EffectClass = td_EffectClass (tq_Definition req), xq_ExpectedSchema = tq_ExpectedSchema req,
       xq_Identity = tq_Identity req, xq_IdempotencyKey = key \<rparr>"

text \<open>The function literal that the kernel calls: the clipped result and its encoding, or an error.\<close>

definition run_executor :: "ToolDeps \<Rightarrow> ToolExecutionRequest \<Rightarrow> goerr + ToolExecutionResult" where
  "run_executor d xreq =
     (case dp_Executor d xreq of
        Inl e \<Rightarrow> Inl (boundErrorMessage e defaultToolErrorMaxBytes)
      | Inr None \<Rightarrow> Inl (Errorf ''tool executor returned nil result'')
      | Inr (Some r) \<Rightarrow> Inr (clipToolOutput (dp_marshal d) defaultToolOutputMaxBytes r))"

definition kernel_request :: "ToolDeps \<Rightarrow> TRequest \<Rightarrow> Request" where
  "kernel_request d req =
     (let args = canonicalArguments d (tq_ArgumentsJSON req);
          name = td_Name (tq_Definition req) in
      \<lparr> rq_Identity = tq_Identity req, rq_Kind = InvocationTool, rq_OperationName = name, rq_Input = args,
        rq_RetrySafety = retrySafety (td_EffectClass (tq_Definition req)),
        rq_IdempotencyKey = ToolIdempotencyKey (dp_Digest d) (id_InvocationID (tq_Identity req)) name args,
        rq_LogicalOrdinal = tq_Ordinal req \<rparr>)"

text \<open>The durable part of \<open>Execute\<close>: the kernel, and what is read back when it did not call.\<close>

definition execute_durably ::
  "'s RepoOps \<Rightarrow> ToolDeps \<Rightarrow> TRequest \<Rightarrow> TResult \<Rightarrow> 's \<Rightarrow> (TResult \<times> goerr option) \<times> 's \<times> tevent list" where
  "execute_durably R d req result s =
     (let kreq = kernel_request d req;
          xreq = execution_request d req (rq_IdempotencyKey kreq);
          executed = run_executor d xreq;
          result1 = result\<lparr> tr_IdempotencyKey := rq_IdempotencyKey kreq \<rparr>;
          (kres, s', calls) = solo R (dp_Recorder d)
             (case executed of Inl e \<Rightarrow> Inl e | Inr r \<Rightarrow> Inr (encodeToolResult d r))
             (Kernel_Execute (dp_Digest d) (dp_Kernel d) kreq True) s;
          evs = (if calls > 0 then [TStarted, TExecute xreq] else []) in
      case kres of
        Inl e \<Rightarrow> ((result1, Some (safeError d e)), s', evs)
      | Inr kr \<Rightarrow>
          let exec = (case executed of
                        Inr r \<Rightarrow> if calls > 0 then r else decodeToolResult d (kr_Output kr)
                      | Inl e \<Rightarrow> decodeToolResult d (kr_Output kr)) in
          ((result1\<lparr> tr_Execution := Some exec, tr_Output := redact d (te_Output exec), tr_Cached := kr_Cached kr \<rparr>, None),
           s', evs))"

text \<open>Quota, then validation, then the durable part.\<close>

definition validated_execution ::
  "'s RepoOps \<Rightarrow> ToolDeps \<Rightarrow> TRequest \<Rightarrow> TResult \<Rightarrow> 's \<Rightarrow> (TResult \<times> goerr option) \<times> 's \<times> tevent list" where
  "validated_execution R d req result s =
     (let v = dp_Validate d (td_ArgsSchema (tq_Definition req)) (tq_ArgumentsJSON req) in
      if v \<noteq> None \<and> \<not> vr_Valid (the v)
      then ((result\<lparr> tr_Violations := vr_Violations (the v) \<rparr>,
             Some (wrap_text ErrToolArgumentsInvalid (redact d (ValidationResult_Error (the v))))), s, [TValidate (tq_ArgumentsJSON req)])
      else (case execute_durably R d req result s of
              (r, s', evs) \<Rightarrow> (r, s', [TValidate (tq_ArgumentsJSON req), TValidated] @ evs)))"

definition quota_execution ::
  "'s RepoOps \<Rightarrow> ToolDeps \<Rightarrow> TRequest \<Rightarrow> TResult \<Rightarrow> 's \<Rightarrow> (TResult \<times> goerr option) \<times> 's \<times> tevent list" where
  "quota_execution R d req result s =
     (let name = td_Name (tq_Definition req) in
      case dp_Quota d of
        None \<Rightarrow> validated_execution R d req result s
      | Some allow \<Rightarrow>
          (case allow (tq_UserID req) name of
             Inl e \<Rightarrow> ((result, Some (safeError d (Wrapf ''allow tool quota'' e))), s, [TQuota (tq_UserID req) name])
           | Inr allowed \<Rightarrow>
               if \<not> allowed then ((result, Some (wrap_text ErrToolQuotaExceeded name)), s, [TQuota (tq_UserID req) name])
               else (case validated_execution R d req result s of
                       (r, s', evs) \<Rightarrow> (r, s', TQuota (tq_UserID req) name # evs))))"

text \<open>\<open>approval\<close> is the answer of the caller's approval callback; \<open>None\<close> is a nil callback.\<close>

definition Tool_Execute ::
  "'s RepoOps \<Rightarrow> ToolDeps \<Rightarrow> (goerr + ApprovalDecision) option \<Rightarrow> TRequest \<Rightarrow> 's \<Rightarrow>
    (TResult \<times> goerr option) \<times> 's \<times> tevent list" where
  "Tool_Execute R d approval req s =
     (let result = start_result d req; name = td_Name (tq_Definition req) in
      if name = [] then
        ((result, Some (wrap_text ErrToolDenied ''resolved tool definition is required'')), s, [])
      else if tq_Permission req = [] \<or> tq_Permission req \<noteq> name then
        ((result, Some (wrap_text ErrToolDenied (''tool '' @ go_quote name @ '' is not in the resolved permission context''))), s, [])
      else if dp_Policy d \<noteq> None \<and> RequiresApproval (dp_Policy d) name \<and> \<not> Allowed (dp_Policy d) name then
        (case approval of
           None \<Rightarrow> ((result, Some ErrToolApprovalRequired), s, [])
         | Some (Inl e) \<Rightarrow> ((result, Some (safeError d e)), s, [TApproval])
         | Some (Inr decision) \<Rightarrow>
             let result1 = result\<lparr> tr_ApprovedBy := ad_DecidedBy decision \<rparr> in
             if \<not> ad_Approved decision then
               ((result1, Some (wrap_text ErrToolApprovalRejected (redact d (ad_Reason decision)))), s, [TApproval])
             else (case quota_execution R d req result1 s of (r, s', evs) \<Rightarrow> (r, s', TApproval # evs)))
      else quota_execution R d req result s)"

section \<open>Lemmas\<close>

text \<open>Clipping.\<close>

lemma clip_marked:
  assumes "bound > 0" "int (length s) > bound"
  shows "length (take (utf8_cut s (nat bound)) s) \<le> nat bound" "valid_utf8 (take (utf8_cut s (nat bound)) s)"
  using utf8_cut_le [of s "nat bound"] utf8_cut_valid [of s "nat bound"] by auto

lemma err_is_bound [simp]: "err_is (boundErrorMessage e bound) t \<longleftrightarrow> err_is e t \<or> boundErrorMessage e bound = t"
  by (auto simp: boundErrorMessage_def)

lemma err_is_safe: "err_is e t \<Longrightarrow> err_is (safeError d e) t"
  by (simp add: safeError_def)

text \<open>Governance: what the checks of a request are.\<close>

definition permitted_call :: "TRequest \<Rightarrow> bool" where
  "permitted_call req \<longleftrightarrow> tq_Permission req = td_Name (tq_Definition req) \<and> tq_Permission req \<noteq> []"

definition approved_call :: "ToolDeps \<Rightarrow> (goerr + ApprovalDecision) option \<Rightarrow> TRequest \<Rightarrow> bool" where
  "approved_call d approval req \<longleftrightarrow>
     (case dp_Policy d of
        None \<Rightarrow> True
      | Some p \<Rightarrow> td_Name (tq_Definition req) \<notin> set (pl_requireApproval p) \<or>
          td_Name (tq_Definition req) \<in> set (pl_autoApproved p) \<or>
          (case approval of Some (Inr decision) \<Rightarrow> ad_Approved decision | _ \<Rightarrow> False))"

definition within_quota :: "ToolDeps \<Rightarrow> TRequest \<Rightarrow> bool" where
  "within_quota d req \<longleftrightarrow>
     (case dp_Quota d of None \<Rightarrow> True
      | Some allow \<Rightarrow> allow (tq_UserID req) (td_Name (tq_Definition req)) = Inr True)"

definition valid_arguments :: "ToolDeps \<Rightarrow> TRequest \<Rightarrow> bool" where
  "valid_arguments d req \<longleftrightarrow>
     (case dp_Validate d (td_ArgsSchema (tq_Definition req)) (tq_ArgumentsJSON req) of
        None \<Rightarrow> True | Some v \<Rightarrow> vr_Valid v)"

definition governed :: "ToolDeps \<Rightarrow> (goerr + ApprovalDecision) option \<Rightarrow> TRequest \<Rightarrow> bool" where
  "governed d approval req \<longleftrightarrow>
     permitted_call req \<and> approved_call d approval req \<and> within_quota d req \<and> valid_arguments d req"

text \<open>The events before the durable part.\<close>

definition gate_events :: "ToolDeps \<Rightarrow> TRequest \<Rightarrow> tevent list" where
  "gate_events d req =
     (if RequiresApproval (dp_Policy d) (td_Name (tq_Definition req)) \<and> \<not> Allowed (dp_Policy d) (td_Name (tq_Definition req))
      then [TApproval] else []) @
     (if dp_Quota d \<noteq> None then [TQuota (tq_UserID req) (td_Name (tq_Definition req))] else []) @
     [TValidate (tq_ArgumentsJSON req), TValidated]"

definition approver :: "ToolDeps \<Rightarrow> (goerr + ApprovalDecision) option \<Rightarrow> TRequest \<Rightarrow> TResult" where
  "approver d approval req =
     (if RequiresApproval (dp_Policy d) (td_Name (tq_Definition req)) \<and> \<not> Allowed (dp_Policy d) (td_Name (tq_Definition req))
      then (case approval of Some (Inr decision) \<Rightarrow> (start_result d req)\<lparr> tr_ApprovedBy := ad_DecidedBy decision \<rparr>
              | _ \<Rightarrow> start_result d req)
      else start_result d req)"

lemmas governance_defs = Tool_Execute_def quota_execution_def validated_execution_def governed_def permitted_call_def
  approved_call_def within_quota_def valid_arguments_def gate_events_def approver_def RequiresApproval_def Allowed_def Let_def

text \<open>A governed request reaches the durable part; any other is refused with the store untouched.\<close>

lemma governed_runs:
  assumes "governed d approval req"
  shows "Tool_Execute R d approval req s =
    (case execute_durably R d req (approver d approval req) s of (r, s', evs) \<Rightarrow> (r, s', gate_events d req @ evs))"
  using assms unfolding governance_defs
  by (auto split: option.splits sum.splits prod.splits if_splits)

lemma ungoverned_refused:
  assumes "\<not> governed d approval req"
  shows "\<exists>r e evs. Tool_Execute R d approval req s = ((r, Some e), s, evs) \<and> list_all (\<lambda>ev. \<forall>x. ev \<noteq> TExecute x \<and> ev \<noteq> TStarted) evs"
  using assms unfolding governance_defs
  by (auto split: option.splits sum.splits prod.splits if_splits)

text \<open>The durable part.\<close>

lemma execute_durably_events:
  assumes "execute_durably R d req result s = (out, s', evs)"
  shows "evs = [] \<or> evs = [TStarted, TExecute (execution_request d req (rq_IdempotencyKey (kernel_request d req)))]"
  using assms by (auto simp: execute_durably_def Let_def split: prod.splits sum.splits if_splits)

lemma execute_durably_executed:
  assumes "execute_durably R d req result s = ((r, None), s', evs)" and "evs \<noteq> []"
    and "tr_Execution r = Some x"
  shows "(\<exists>r0. dp_Executor d (execution_request d req (rq_IdempotencyKey (kernel_request d req))) = Inr (Some r0) \<and>
      x = clipToolOutput (dp_marshal d) defaultToolOutputMaxBytes r0) \<or>
    (\<exists>e. run_executor d (execution_request d req (rq_IdempotencyKey (kernel_request d req))) = Inl e)"
  using assms by (auto simp: execute_durably_def run_executor_def Let_def split: prod.splits sum.splits if_splits option.splits)

lemma clip_length:
  "int (length (te_Output (clipToolOutput marshal bound r))) \<le>
   (if bound \<le> 0 then int (length (te_Output r)) else bound + int (length (outputTruncationMarker bound)))"
  using utf8_cut_le [of "te_Output r" "nat bound"] by (auto simp: clipToolOutput_def Let_def)

lemma decode_encode:
  assumes "\<And>p. \<exists>e. dp_encode d p = Some e \<and> dp_decode d e = Some p"
  shows "te_Output (decodeToolResult d (encodeToolResult d r)) = te_Output r"
    and "te_SourceURI (decodeToolResult d (encodeToolResult d r)) = te_SourceURI r"
proof -
  let ?p = "\<lparr> pt_Version = ''tool-runtime:v1'', pt_Output = te_Output r,
    pt_Structured = (if te_Structured r \<noteq> SNone then dp_marshal d (te_Structured r) else None),
    pt_SourceURI = te_SourceURI r \<rparr>"
  obtain e where "dp_encode d ?p = Some e" "dp_decode d e = Some ?p" using assms by blast
  then show "te_Output (decodeToolResult d (encodeToolResult d r)) = te_Output r"
    "te_SourceURI (decodeToolResult d (encodeToolResult d r)) = te_SourceURI r"
    by (simp_all add: encodeToolResult_def decodeToolResult_def Let_def del: if_split)
qed

definition new_attempt :: "string \<Rightarrow> TRequest \<Rightarrow> TRequest" where
  "new_attempt a req = req\<lparr> tq_Identity := (tq_Identity req)\<lparr> id_AttemptID := a \<rparr> \<rparr>"

lemma new_attempt_simps [simp]:
  "tq_Definition (new_attempt a req) = tq_Definition req" "tq_ArgumentsJSON (new_attempt a req) = tq_ArgumentsJSON req"
  "tq_UserID (new_attempt a req) = tq_UserID req" "tq_Permission (new_attempt a req) = tq_Permission req"
  "start_result d (new_attempt a req) = start_result d req"
  by (simp_all add: new_attempt_def start_result_def)

lemma new_attempt_governed [simp]:
  "governed d approval (new_attempt a req) = governed d approval req"
  "approver d approval (new_attempt a req) = approver d approval req"
  "gate_events d (new_attempt a req) = gate_events d req"
  by (auto simp: governed_def permitted_call_def approved_call_def within_quota_def valid_arguments_def
      approver_def gate_events_def split: option.splits sum.splits)

lemma same_operation_new_attempt: "same_operation (kernel_request d req) (kernel_request d (new_attempt a req))"
  by (simp add: same_operation_def kernel_request_def new_attempt_def Let_def)

lemma kernel_request_attempt [simp]: "id_AttemptID (rq_Identity (kernel_request d (new_attempt a req))) = a"
    "rq_IdempotencyKey (kernel_request d (new_attempt a req)) = rq_IdempotencyKey (kernel_request d req)"
  by (simp_all add: kernel_request_def new_attempt_def Let_def)

lemma execute_durably_replay:
  assumes json: "\<And>p. \<exists>e. dp_encode d p = Some e \<and> dp_decode d e = Some p"
    and first: "execute_durably mem_ops d req result s = ((r, None), s1, evs)" and "a \<noteq> []"
  shows "\<exists>x. execute_durably mem_ops d (new_attempt a req) result s1 =
    ((r\<lparr> tr_Execution := Some x, tr_Cached := True \<rparr>, None), s1, [])"
proof -
  let ?k = "kernel_request d req" and ?k' = "kernel_request d (new_attempt a req)"
  let ?out = "\<lambda>req. case run_executor d (execution_request d req (rq_IdempotencyKey ?k)) of
      Inl e \<Rightarrow> Inl e | Inr v \<Rightarrow> Inr (encodeToolResult d v)"
  obtain kres s2 n where run: "solo mem_ops (dp_Recorder d) (?out req)
      (Kernel_Execute (dp_Digest d) (dp_Kernel d) ?k True) s = (kres, s2, n)"
    by (metis prod_cases3)
  then obtain kr where kr: "kres = Inr kr" "s2 = s1"
    using first by (cases kres) (auto simp: execute_durably_def Let_def)
  obtain x where x: "r = result\<lparr> tr_IdempotencyKey := rq_IdempotencyKey ?k, tr_Execution := Some x,
      tr_Output := redact d (te_Output x), tr_Cached := kr_Cached kr \<rparr>"
      "x = (case run_executor d (execution_request d req (rq_IdempotencyKey ?k)) of
         Inr v \<Rightarrow> if n > 0 then v else decodeToolResult d (kr_Output kr) | Inl e \<Rightarrow> decodeToolResult d (kr_Output kr))"
    using first run kr by (auto simp: execute_durably_def Let_def)
  have "te_Output x = te_Output (decodeToolResult d (kr_Output kr))"
    using x(2) solo_success_stored [OF run [unfolded kr]] decode_encode(1) [OF json, of x]
    by (cases "run_executor d (execution_request d req (rq_IdempotencyKey ?k))") (auto split: if_splits)
  then have k: "solo mem_ops (dp_Recorder d) (?out req) (Kernel_Execute (dp_Digest d) (dp_Kernel d) ?k True) s = (Inr kr, s1, n)"
      "tr_Output r = redact d (te_Output (decodeToolResult d (kr_Output kr)))"
    using run kr x(1) by simp_all
  have "solo mem_ops (dp_Recorder d) (?out (new_attempt a req)) (Kernel_Execute (dp_Digest d) (dp_Kernel d) ?k' True) s1 =
      (Inr \<lparr> kr_Output = kr_Output kr, kr_Cached = True \<rparr>, s1, 0)"
    using solo_repeat [OF k(1) same_operation_new_attempt] assms(3) by simp
  then have "execute_durably mem_ops d (new_attempt a req) result s1 =
      ((r\<lparr> tr_Execution := Some (decodeToolResult d (kr_Output kr)), tr_Cached := True \<rparr>, None), s1, [])"
    using k(2) x(1) by (cases "run_executor d (execution_request d (new_attempt a req) (rq_IdempotencyKey ?k))")
      (simp_all add: execute_durably_def Let_def)
  then show ?thesis by blast
qed

text \<open>The structured payload is only measured when the output text itself is too long.\<close>

lemma oversized_structured_kept:
  "te_Structured (clipToolOutput (\<lambda>_. Some (replicate 40000 (CHR ''x''))) defaultToolOutputMaxBytes
     \<lparr> te_Output = ''ok'', te_Structured = SOther ''large'', te_SourceURI = [] \<rparr>) = SOther ''large''"
  by (simp add: clipToolOutput_def defaultToolOutputMaxBytes_def)

section \<open>A sample tool\<close>

definition sample_tool :: ToolDefinition where
  "sample_tool = \<lparr> td_Name = ''pay'', td_Desc = [], td_ArgsSchema = [], td_Source = ToolSourceLocal,
     td_Binding = \<lparr> tb_Source = ToolSourceLocal, tb_PluginID = 0, tb_ToolID = 0, tb_IsDraft = False,
       tb_ToolName = ''pay'', tb_WorkflowID = 0, tb_Server = [], tb_Reliability = None \<rparr>,
     td_EffectClass = ToolEffectNonIdempotent \<rparr>"

definition sample_call :: TRequest where
  "sample_call = \<lparr> tq_Identity = \<lparr> id_RunID = ''run'', id_StepID = ''step'', id_InvocationID = ''call'', id_AttemptID = ''one'' \<rparr>,
     tq_Definition = sample_tool, tq_ArgumentsJSON = ''{}'', tq_UserID = ''u'', tq_ExpectedSchema = [], tq_Ordinal = 0,
     tq_Permission = ''pay'' \<rparr>"

text \<open>A lossless codec: the length of each field in unary, then the fields.\<close>

definition unary :: "string \<Rightarrow> string" where
  "unary s = replicate (length s) (CHR ''1'') @ ''0'' @ s"

definition un_unary :: "string \<Rightarrow> string \<times> string" where
  "un_unary t = (let n = length (takeWhile (\<lambda>c. c = CHR ''1'') t); rest = drop (Suc n) t in (take n rest, drop n rest))"

lemma un_unary: "un_unary (unary s @ t) = (s, t)"
proof -
  have "takeWhile (\<lambda>c. c = CHR ''1'') (unary s @ t) = replicate (length s) (CHR ''1'')"
    by (simp add: unary_def takeWhile_append)
  then show ?thesis by (simp add: un_unary_def unary_def Let_def)
qed

definition sample_encode :: "persistedToolResult \<Rightarrow> string option" where
  "sample_encode p = Some (unary (pt_Version p) @ unary (pt_Output p) @ unary (pt_SourceURI p) @
     (case pt_Structured p of None \<Rightarrow> ''n'' | Some s \<Rightarrow> ''s'' @ s))"

definition sample_decode :: "string \<Rightarrow> persistedToolResult option" where
  "sample_decode t =
     (let (v, t1) = un_unary t; (out, t2) = un_unary t1; (uri, t3) = un_unary t2 in
      Some \<lparr> pt_Version = v, pt_Output = out, pt_Structured = (if t3 = ''n'' then None else Some (tl t3)), pt_SourceURI = uri \<rparr>)"

lemma sample_codec: "sample_decode (the (sample_encode p)) = Some p"
  by (cases p; cases "pt_Structured p") (auto simp: sample_encode_def sample_decode_def un_unary)

definition sample_deps :: "string \<Rightarrow> ToolDeps" where
  "sample_deps answer = \<lparr> dp_Policy = Some (NewPolicy [''pay''] []), dp_Quota = Some (\<lambda>u t. Inr True),
     dp_Validate = (\<lambda>sch args. Some \<lparr> vr_Valid = True, vr_Violations = [] \<rparr>), dp_Redactor = None,
     dp_Digest = (\<lambda>s. s), dp_Kernel = plain_kernel, dp_Recorder = (\<lambda>_. None),
     dp_Executor = (\<lambda>x. Inr (Some \<lparr> te_Output = answer, te_Structured = SNone, te_SourceURI = [] \<rparr>)),
     dp_canon = (\<lambda>s. Some s), dp_marshal = (\<lambda>_. None), dp_unmarshal = SOther,
     dp_encode = sample_encode, dp_decode = sample_decode \<rparr>"

definition sample_yes :: "(goerr + ApprovalDecision) option" where
  "sample_yes = Some (Inr \<lparr> ad_Approved = True, ad_DecidedBy = ''ops'', ad_Reason = [] \<rparr>)"

definition sample_execution :: "TRequest \<Rightarrow> memRepo \<Rightarrow> (TResult \<times> goerr option) \<times> memRepo \<times> tevent list" where
  "sample_execution = Tool_Execute mem_ops (sample_deps ''paid'') sample_yes"

lemma sample_executes:
  "snd (fst (sample_execution sample_call newMemoryInvocationRepository)) = None"
  "last (snd (snd (sample_execution sample_call newMemoryInvocationRepository))) =
     TExecute (execution_request (sample_deps ''paid'') sample_call
       (rq_IdempotencyKey (kernel_request (sample_deps ''paid'') sample_call)))"
  "snd (snd (sample_execution sample_call newMemoryInvocationRepository)) \<noteq> []"
  "map_option te_Output (tr_Execution (fst (fst (sample_execution sample_call newMemoryInvocationRepository)))) = Some ''paid''"
  by code_simp+

section \<open>Properties\<close>

text \<open>The error of the first check that fails, in the order of the code.\<close>

definition refusal :: "ToolDeps \<Rightarrow> (goerr + ApprovalDecision) option \<Rightarrow> TRequest \<Rightarrow> goerr" where
  "refusal d approval req =
     (if \<not> permitted_call req then ErrToolDenied
      else if \<not> approved_call d approval req then
        (case approval of None \<Rightarrow> ErrToolApprovalRequired | Some (Inl e) \<Rightarrow> e | Some (Inr _) \<Rightarrow> ErrToolApprovalRejected)
      else if \<not> within_quota d req then
        (case dp_Quota d of
           Some allow \<Rightarrow> (case allow (tq_UserID req) (td_Name (tq_Definition req)) of Inl e \<Rightarrow> e | Inr _ \<Rightarrow> ErrToolQuotaExceeded)
         | None \<Rightarrow> ErrToolQuotaExceeded)
      else ErrToolArgumentsInvalid)"

text \<open>C26. A tool is executed only if the caller holds the permission for exactly this tool, the policy
  does not gate it or auto-approves it or a human approved it, the quota allows it and the arguments
  are valid; the executor then gets the arguments that were checked, and the checks came before it
  in the order approval, quota, validation.\<close>

theorem tool_execution_governed:
  assumes "Tool_Execute R d approval req s = (out, s', evs)" and "TExecute x \<in> set evs"
  shows "governed d approval req \<and> evs = gate_events d req @ [TStarted, TExecute x] \<and>
    xq_ArgumentsJSON x = tq_ArgumentsJSON req \<and> xq_ToolName x = tq_Permission req"
proof -
  have gov: "governed d approval req"
    using ungoverned_refused [of d approval req R s] assms by (fastforce simp: list_all_iff)
  obtain evs' where evs: "execute_durably R d req (approver d approval req) s = (out, s', evs')" "evs = gate_events d req @ evs'"
    using governed_runs [OF gov, of R s] assms(1) by (auto split: prod.splits)
  have "TExecute x \<notin> set (gate_events d req)" by (auto simp: gate_events_def)
  then show ?thesis
    using execute_durably_events [OF evs(1)] evs(2) assms(2) gov
    by (auto simp: execution_request_def governed_def permitted_call_def)
qed

theorem tool_execution_governed_witness:
  "governed (sample_deps ''paid'') sample_yes sample_call"
proof -
  obtain out s' evs where e: "sample_execution sample_call newMemoryInvocationRepository = (out, s', evs)" by (metis prod_cases3)
  then have "TExecute (execution_request (sample_deps ''paid'') sample_call
      (rq_IdempotencyKey (kernel_request (sample_deps ''paid'') sample_call))) \<in> set evs"
    using sample_executes(2,3) by (metis last_in_set snd_conv)
  then show ?thesis
    using tool_execution_governed [OF e [unfolded sample_execution_def]] by blast
qed



text \<open>The output that a fresh execution hands on is at most 32 KiB plus the truncation marker, and
  it is the executor's output or a prefix of it, cut at a UTF-8 boundary, with the marker.\<close>

lemma tool_output_bounded:
  assumes "Tool_Execute R d approval req s = ((r, None), s', evs)" and "TExecute xreq \<in> set evs"
    and "dp_Executor d xreq = Inr (Some r0)" and "tr_Execution r = Some x"
  shows "length (te_Output x) \<le> 32768 + length (outputTruncationMarker 32768) \<and>
    (if length (te_Output r0) \<le> 32768 then te_Output x = te_Output r0
     else \<exists>cut \<le> 32768. valid_utf8 (take cut (te_Output r0)) \<and>
       te_Output x = take cut (te_Output r0) @ outputTruncationMarker 32768)"
proof -
  have gov: "governed d approval req"
    using ungoverned_refused [of d approval req R s] assms by (fastforce simp: list_all_iff)
  obtain evs' where evs: "execute_durably R d req (approver d approval req) s = ((r, None), s', evs')" "evs = gate_events d req @ evs'"
    using governed_runs [OF gov, of R s] assms(1) by (auto split: prod.splits)
  have "TExecute xreq \<notin> set (gate_events d req)" by (auto simp: gate_events_def)
  then have x: "xreq = execution_request d req (rq_IdempotencyKey (kernel_request d req))" "evs' \<noteq> []"
    using execute_durably_events [OF evs(1)] evs(2) assms(2) by auto
  have "x = clipToolOutput (dp_marshal d) defaultToolOutputMaxBytes r0"
    using execute_durably_executed [OF evs(1) x(2) assms(4)] assms(3) by (auto simp: x(1) run_executor_def)
  then show ?thesis
    using clip_length [of "dp_marshal d" defaultToolOutputMaxBytes r0] utf8_cut_le [of "te_Output r0" 32768]
      utf8_cut_valid [of "te_Output r0" 32768]
    by (auto simp: defaultToolOutputMaxBytes_def clipToolOutput_def Let_def)
qed




end
