(* ===== verification/Manifest.thy ===== *)
theory Manifest
  imports Kernel Prompt
begin

text \<open>
  \<^verbatim>\<open>backend/domain/execution/manifest.go\<close>: the frozen execution manifest that a checkpoint is
  validated against, and \<^verbatim>\<open>CheckpointManifest\<close> of \<^verbatim>\<open>agent_loop.go\<close>. The digest (SHA-256) is the
  parameter \<open>dig\<close>; the JSON encodings of the fingerprints are the fields of \<open>ManifestJSON\<close>. A
  fingerprint type that only renames the fields of another type is that type without the dropped
  fields.
\<close>

section \<open>Fingerprints\<close>

datatype modelReferenceFingerprint = ModelFingerprint
  (mf_ModelID: int64) (mf_BaseURL: string) (mf_ModelName: string)
  (mf_Params: "LLMParams option") (mf_Fallbacks: "modelReferenceFingerprint list")

fun canonicalModelReference :: "ModelRef \<Rightarrow> modelReferenceFingerprint" where
  "canonicalModelReference (ModelRef key url name pin pout mid fallbacks params) =
     ModelFingerprint mid url name params (map canonicalModelReference fallbacks)"

record modelFingerprint =
  fm_ModelName :: string
  fm_ModelBaseURL :: string
  fm_ModelRefDigest :: string

record toolsetFingerprint =
  ft_Tools :: "string list"
  ft_ToolBindingsDigest :: string

record configFingerprint =
  fc_KnowledgeIndex :: bool
  fc_ConfigVersion :: int64

record manifestFingerprint =
  fp_RuntimeVersion :: string
  fp_PromptVersion :: string
  fp_PromptDigest :: string
  fp_ModelDigest :: string
  fp_ToolsetDigest :: string
  fp_ConfigDigest :: string

record ManifestJSON =
  mj_string :: "string \<Rightarrow> string"
  mj_reference :: "modelReferenceFingerprint \<Rightarrow> string"
  mj_binding :: "ToolBinding \<Rightarrow> string"
  mj_bindings :: "ToolBinding list \<Rightarrow> string"
  mj_model :: "modelFingerprint \<Rightarrow> string"
  mj_toolset :: "toolsetFingerprint \<Rightarrow> string"
  mj_config :: "configFingerprint \<Rightarrow> string"
  mj_manifest :: "manifestFingerprint \<Rightarrow> string"

text \<open>The environment with the digests that \<^verbatim>\<open>FreezeManifest\<close> reads and fills.\<close>

record FrozenEnvironment = RunEnvironment +
  re_RuntimeVersion :: string
  re_PromptVersion :: string
  re_ModelDigest :: string
  re_ToolsetDigest :: string
  re_ConfigDigest :: string
  re_ManifestDigest :: string
  re_ModelRefDigest :: string
  re_ToolBindingsDigest :: string
  re_PromptDigest :: string

section \<open>Digests\<close>

definition canonicalDigest :: "(string \<Rightarrow> string) \<Rightarrow> string \<Rightarrow> string \<Rightarrow> string" where
  "canonicalDigest dig pfx encoded = dig (pfx @ ''|'' @ encoded)"

definition ModelReferenceDigest :: "(string \<Rightarrow> string) \<Rightarrow> ManifestJSON \<Rightarrow> ModelRef \<Rightarrow> string" where
  "ModelReferenceDigest dig J ref = canonicalDigest dig ''manifest:model-ref:v1'' (mj_reference J (canonicalModelReference ref))"

text \<open>Byte order of strings; \<^verbatim>\<open>sort.Slice\<close> by the encoding of each binding. Equal keys are equal
  encodings, so the order among them cannot be seen in the digest.\<close>

definition byte_sort_key :: "string \<Rightarrow> nat list" where
  "byte_sort_key s = map of_char s"

fun bytes_le :: "nat list \<Rightarrow> nat list \<Rightarrow> bool" where
  "bytes_le [] ys = True"
| "bytes_le (x # xs) [] = False"
| "bytes_le (x # xs) (y # ys) = (x < y \<or> (x = y \<and> bytes_le xs ys))"

definition string_le :: "string \<Rightarrow> string \<Rightarrow> bool" where
  "string_le s t = bytes_le (byte_sort_key s) (byte_sort_key t)"

fun insert_by :: "('a \<Rightarrow> string) \<Rightarrow> 'a \<Rightarrow> 'a list \<Rightarrow> 'a list" where
  "insert_by f x [] = [x]"
| "insert_by f x (y # ys) = (if string_le (f x) (f y) then x # y # ys else y # insert_by f x ys)"

definition sort_by :: "('a \<Rightarrow> string) \<Rightarrow> 'a list \<Rightarrow> 'a list" where
  "sort_by f xs = foldr (insert_by f) xs []"

definition ToolBindingsDigest :: "(string \<Rightarrow> string) \<Rightarrow> ManifestJSON \<Rightarrow> ToolBinding list \<Rightarrow> string" where
  "ToolBindingsDigest dig J bindings = canonicalDigest dig ''manifest:tool-bindings:v1'' (mj_bindings J (sort_by (mj_binding J) bindings))"

definition PromptContentDigest :: "(string \<Rightarrow> string) \<Rightarrow> ManifestJSON \<Rightarrow> string \<Rightarrow> string" where
  "PromptContentDigest dig J prompt = canonicalDigest dig ''manifest:prompt-content:v1'' (mj_string J prompt)"

definition FreezeManifest :: "(string \<Rightarrow> string) \<Rightarrow> ManifestJSON \<Rightarrow> FrozenEnvironment \<Rightarrow> FrozenEnvironment" where
  "FreezeManifest dig J environment =
     (let tools = sort_by id (re_Tools environment);
          modelDigest = canonicalDigest dig ''manifest:model:v1'' (mj_model J
            \<lparr> fm_ModelName = re_ModelName environment, fm_ModelBaseURL = re_ModelBaseURL environment,
              fm_ModelRefDigest = re_ModelRefDigest environment \<rparr>);
          toolsetDigest = canonicalDigest dig ''manifest:toolset:v1'' (mj_toolset J
            \<lparr> ft_Tools = tools, ft_ToolBindingsDigest = re_ToolBindingsDigest environment \<rparr>);
          configDigest = canonicalDigest dig ''manifest:config:v1'' (mj_config J
            \<lparr> fc_KnowledgeIndex = re_KnowledgeIndex environment, fc_ConfigVersion = re_ConfigVersion environment \<rparr>) in
      environment\<lparr> re_Tools := tools, re_ModelDigest := modelDigest, re_ToolsetDigest := toolsetDigest,
        re_ConfigDigest := configDigest,
        re_ManifestDigest := canonicalDigest dig ''manifest:v1'' (mj_manifest J
          \<lparr> fp_RuntimeVersion = re_RuntimeVersion environment, fp_PromptVersion = re_PromptVersion environment,
            fp_PromptDigest = re_PromptDigest environment, fp_ModelDigest = modelDigest,
            fp_ToolsetDigest = toolsetDigest, fp_ConfigDigest = configDigest \<rparr>) \<rparr>)"

definition ValidateManifest :: "string \<Rightarrow> string \<Rightarrow> goerr option" where
  "ValidateManifest checkpointDigest currentDigest =
     (if checkpointDigest = [] \<or> currentDigest = [] \<or> checkpointDigest \<noteq> currentDigest
      then Some (Wraps (err_str ErrManifestMismatch @ '': checkpoint='' @ go_quote checkpointDigest @ '' current='' @ go_quote currentDigest)
             [ErrManifestMismatch])
      else None)"

section \<open>The manifest of a checkpoint\<close>

definition effective_bindings :: "MagiConfig \<Rightarrow> AgentContext \<Rightarrow> ToolBinding list" where
  "effective_bindings cfg actx = (if ac_ToolBindings actx \<noteq> [] then ac_ToolBindings actx else mc_Tools cfg)"

definition checkpoint_environment ::
    "(string \<Rightarrow> string) \<Rightarrow> ManifestJSON \<Rightarrow> MagiConfig \<Rightarrow> AgentContext \<Rightarrow> string \<Rightarrow> FrozenEnvironment" where
  "checkpoint_environment dig J cfg actx systemPrompt =
     (let bindings = effective_bindings cfg actx in
      \<lparr> re_ModelName = mr_ModelName (mc_Model cfg), re_ModelBaseURL = mr_BaseURL (mc_Model cfg),
        re_Tools = map (\<lambda>b. tool_source_str (tb_Source b) @ '':'' @ tb_ToolName b) bindings,
        re_KnowledgeIndex = False, re_ConfigVersion = mc_Version cfg,
        re_RuntimeVersion = ''agent-loop-checkpoint:v2'', re_PromptVersion = [], re_ModelDigest = [],
        re_ToolsetDigest = [], re_ConfigDigest = [], re_ManifestDigest = [],
        re_ModelRefDigest = ModelReferenceDigest dig J (mc_Model cfg),
        re_ToolBindingsDigest = ToolBindingsDigest dig J bindings,
        re_PromptDigest = PromptContentDigest dig J systemPrompt \<rparr>)"

definition CheckpointManifest ::
    "(string \<Rightarrow> string) \<Rightarrow> ManifestJSON \<Rightarrow> MagiConfig \<Rightarrow> AgentContext \<Rightarrow> string \<Rightarrow> string" where
  "CheckpointManifest dig J cfg actx systemPrompt =
     re_ManifestDigest (FreezeManifest dig J (checkpoint_environment dig J cfg actx systemPrompt))"

section \<open>Lemmas\<close>

lemma ValidateManifest_None [simp]: "ValidateManifest a b = None \<longleftrightarrow> a = b \<and> a \<noteq> []"
  by (auto simp: ValidateManifest_def)

lemma mset_insert_by [simp]: "mset (insert_by f x xs) = add_mset x (mset xs)"
  by (induction xs) auto

lemma mset_sort_by [simp]: "mset (sort_by f xs) = mset xs"
  unfolding sort_by_def by (induction xs) simp_all

lemma bytes_le_linear: "bytes_le xs ys \<or> bytes_le ys xs"
  by (induction xs ys rule: bytes_le.induct) auto

lemma bytes_le_trans: "bytes_le xs ys \<Longrightarrow> bytes_le ys zs \<Longrightarrow> bytes_le xs zs"
  by (induction xs ys arbitrary: zs rule: bytes_le.induct) (case_tac zs; auto)+

lemma bytes_le_antisym: "bytes_le xs ys \<Longrightarrow> bytes_le ys xs \<Longrightarrow> xs = ys"
  by (induction xs ys rule: bytes_le.induct) (auto elim: bytes_le.elims)

lemma byte_sort_key_inject [simp]: "byte_sort_key s = byte_sort_key t \<longleftrightarrow> s = t"
  by (simp add: byte_sort_key_def inj_map_eq_map inj_on_def)

lemma string_le_total: "string_le s t \<or> string_le t s"
  by (simp add: string_le_def bytes_le_linear)

lemma string_le_antisym: "string_le s t \<Longrightarrow> string_le t s \<Longrightarrow> s = t"
  by (metis string_le_def bytes_le_antisym byte_sort_key_inject)

lemma string_le_trans: "string_le s t \<Longrightarrow> string_le t u \<Longrightarrow> string_le s u"
  unfolding string_le_def by (rule bytes_le_trans)

text \<open>Two insertions commute, so sorting does not depend on the order of the input.\<close>

lemma insert_by_commute:
  assumes "inj_on f {x, y}"
  shows "insert_by f x (insert_by f y zs) = insert_by f y (insert_by f x zs)"
  using string_le_total [of "f x" "f y"] assms
  by (induction zs) (auto dest: string_le_antisym string_le_trans)

lemma sort_by_remove1:
  assumes "inj f" "x \<in> set xs"
  shows "sort_by f xs = insert_by f x (sort_by f (remove1 x xs))"
  using assms(2)
proof (induction xs)
  case (Cons y ys)
  then show ?case
    using insert_by_commute [OF inj_on_subset [OF assms(1) subset_UNIV], of x y "sort_by f (remove1 x ys)"]
    by (auto simp: sort_by_def)
qed simp

lemma sort_by_mset:
  assumes "inj f" and "mset xs = mset ys"
  shows "sort_by f xs = sort_by f ys"
  using assms(2)
proof (induction xs arbitrary: ys)
  case (Cons x xs)
  then have x: "x \<in> set ys" by (metis list.set_intros(1) set_mset_mset)
  have "mset xs = mset (remove1 x ys)" using Cons.prems by (metis add_mset_remove_trivial mset.simps(2) mset_remove1)
  from Cons.IH [OF this] have "sort_by f (x # xs) = insert_by f x (sort_by f (remove1 x ys))" by (simp add: sort_by_def)
  then show ?case using sort_by_remove1 [OF assms(1) x] by simp
qed simp

lemma canonicalDigest_inject [simp]:
  "inj dig \<Longrightarrow> canonicalDigest dig p a = canonicalDigest dig p b \<longleftrightarrow> a = b"
  by (auto simp: canonicalDigest_def dest: injD)

text \<open>What the manifest depends on: the model chain without credentials and prices, the bindings as a
  multiset, the prompt and the configuration version.\<close>

definition same_environment :: "MagiConfig \<Rightarrow> AgentContext \<Rightarrow> string \<Rightarrow> MagiConfig \<Rightarrow> AgentContext \<Rightarrow> string \<Rightarrow> bool" where
  "same_environment cfg actx prompt cfg' actx' prompt' \<longleftrightarrow>
     canonicalModelReference (mc_Model cfg) = canonicalModelReference (mc_Model cfg') \<and>
     mset (effective_bindings cfg actx) = mset (effective_bindings cfg' actx') \<and>
     prompt = prompt' \<and> mc_Version cfg = mc_Version cfg'"

definition lossless_json :: "ManifestJSON \<Rightarrow> bool" where
  "lossless_json J \<longleftrightarrow> inj (mj_string J) \<and> inj (mj_reference J) \<and> inj (mj_binding J) \<and> inj (mj_bindings J) \<and>
     inj (mj_model J) \<and> inj (mj_toolset J) \<and> inj (mj_config J) \<and> inj (mj_manifest J)"

lemma reference_fields:
  "canonicalModelReference m = canonicalModelReference m' \<Longrightarrow> mr_ModelName m = mr_ModelName m' \<and> mr_BaseURL m = mr_BaseURL m'"
  by (cases m; cases m') auto

lemma tool_names_mset:
  "mset bs = mset bs' \<Longrightarrow> sort_by id (map g bs) = sort_by id (map g bs')"
  by (rule sort_by_mset) simp_all

lemma manifest_eq_iff:
  assumes "inj dig" and "lossless_json J"
  shows "CheckpointManifest dig J cfg actx prompt = CheckpointManifest dig J cfg' actx' prompt' \<longleftrightarrow>
    same_environment cfg actx prompt cfg' actx' prompt'"
proof -
  note json = assms(2) [unfolded lossless_json_def, simplified inj_eq]
  have bindings: "sort_by (mj_binding J) bs = sort_by (mj_binding J) bs' \<longleftrightarrow> mset bs = mset bs'" for bs bs'
    using sort_by_mset json by (metis mset_sort_by)
  show ?thesis
    using assms(1) json reference_fields [of "mc_Model cfg" "mc_Model cfg'"]
      tool_names_mset [of "effective_bindings cfg actx" "effective_bindings cfg' actx'"]
    by (auto simp: CheckpointManifest_def FreezeManifest_def checkpoint_environment_def ModelReferenceDigest_def
        ToolBindingsDigest_def PromptContentDigest_def same_environment_def inj_eq bindings Let_def)
qed

end
