(* ===== verification/Checkpoint.thy ===== *)
theory Checkpoint
  imports AgentParse Manifest
begin

text \<open>
  The durable state of an agent loop: the snapshot and its checks (\<^verbatim>\<open>execution/snapshot.go\<close>), how the
  loop builds it (\<^verbatim>\<open>buildCheckpointState\<close>) and how a resumed run reads it back (the restore part of
  \<^verbatim>\<open>AgentLoop.run\<close>). JSON is the record \<open>Codec\<close>: an encoder answers an error or a text, a decoder
  \<^term>\<open>None\<close> for a text it rejects. Messages of the history are never nil.
\<close>

section \<open>State of the loop\<close>

record LoopState =
  al_messages :: "Message list"
  al_ts :: TerminationState
  al_phase :: string
  al_compacted :: bool
  al_ledger :: EvidenceLedger
  al_last :: string
  al_result :: LoopResult
  al_pending :: "Message option"
  al_pendingIndex :: int

text \<open>\<^verbatim>\<open>result.Ledger\<close> is the loop's ledger by pointer; \<open>al_ledger\<close> is the one copy, and the result gets
  it when the run returns.\<close>

section \<open>Snapshots\<close>

record TerminationSnapshot =
  ns_GateFail :: int
  ns_ConsecToolFail :: int
  ns_TokenUsed :: int64
  ns_ValidationFail :: int
  ns_ToolCalls :: int

record AgentSnapshotV2 =
  as_Version :: int
  as_RunID :: string
  as_NextStep :: int
  as_Phase :: string
  as_MessagesJSON :: string
  as_Termination :: TerminationSnapshot
  as_Usage :: Usage
  as_Compacted :: bool
  as_LedgerJSON :: string
  as_ManifestDigest :: string
  as_LastCommittedInvocationID :: string
  as_SummaryJSON :: string
  as_ReflectionJSON :: string
  as_PendingResponseJSON :: string
  as_PendingToolIndex :: int

text \<open>The message references of the legacy format are never read and are left out.\<close>

record AgentState =
  ag_RunID :: string
  ag_CaseID :: string
  ag_ExecutionGeneration :: int64
  ag_MessagesJSON :: string
  ag_StepCount :: int
  ag_TokenUsed :: int
  ag_Phase :: string
  ag_SnapshotVersion :: int
  ag_SnapshotJSON :: string
  ag_ManifestDigest :: string

record Codec =
  cd_messages :: "Message list \<Rightarrow> goerr + string"
  cd_unmessages :: "string \<Rightarrow> Message list option"
  cd_message :: "Message \<Rightarrow> goerr + string"
  cd_unmessage :: "string \<Rightarrow> Message option"
  cd_toolcalls :: "string \<Rightarrow> nat option"
  cd_summary :: "EvidenceSummary \<Rightarrow> goerr + string"
  cd_unsummary :: "string \<Rightarrow> EvidenceSummary option"
  cd_reflection :: "Reflection \<Rightarrow> goerr + string"
  cd_unreflection :: "string \<Rightarrow> Reflection option"
  cd_ledger :: "ledgerSnapshot \<Rightarrow> goerr + string"
  cd_unledger :: "string \<Rightarrow> ledgerSnapshot option"
  cd_snapshot :: "AgentSnapshotV2 \<Rightarrow> goerr + string"
  cd_unsnapshot :: "string \<Rightarrow> AgentSnapshotV2 option"

definition AgentSnapshotV2Version :: int where
  "AgentSnapshotV2Version = 2"

definition MarshalAgentSnapshotV2 :: "Codec \<Rightarrow> AgentSnapshotV2 \<Rightarrow> goerr + string" where
  "MarshalAgentSnapshotV2 C snapshot0 =
     (let snapshot = (if as_Version snapshot0 = 0 then snapshot0\<lparr> as_Version := AgentSnapshotV2Version \<rparr> else snapshot0) in
      if as_Version snapshot \<noteq> AgentSnapshotV2Version
      then Inl (Errorf (''agent snapshot: unsupported version '' @ itoa (as_Version snapshot)))
      else (case cd_snapshot C snapshot of Inl e \<Rightarrow> Inl (Wrapf ''marshal agent snapshot'' e) | Inr t \<Rightarrow> Inr t))"

definition ParseAgentSnapshotV2 :: "Codec \<Rightarrow> string \<Rightarrow> goerr + AgentSnapshotV2" where
  "ParseAgentSnapshotV2 C encoded =
     (case cd_unsnapshot C encoded of
        None \<Rightarrow> Inl (Errorf ''parse agent snapshot'')
      | Some s \<Rightarrow>
          if as_Version s \<noteq> AgentSnapshotV2Version
          then Inl (Errorf (''agent snapshot: unsupported version '' @ itoa (as_Version s)))
          else if as_RunID s = [] \<or> as_NextStep s < 1 \<or> as_MessagesJSON s = [] \<or> as_ManifestDigest s = [] \<or> as_LedgerJSON s = []
          then Inl (Errorf ''agent snapshot: incomplete state'')
          else if as_PendingToolIndex s < -1
          then Inl (Errorf (''agent snapshot: invalid pending tool index '' @ itoa (as_PendingToolIndex s)))
          else if as_PendingResponseJSON s = [] then
            (if as_PendingToolIndex s \<noteq> -1 \<and> as_PendingToolIndex s \<noteq> 0
             then Inl (Errorf ''agent snapshot: pending tool index without response'') else Inr s)
          else (case cd_toolcalls C (as_PendingResponseJSON s) of
                  None \<Rightarrow> Inl (Errorf ''agent snapshot: invalid pending response'')
                | Some n \<Rightarrow>
                    if as_PendingToolIndex s \<ge> 0 \<and> as_PendingToolIndex s \<ge> int n
                    then Inl (Errorf (''agent snapshot: pending tool index '' @ itoa (as_PendingToolIndex s) @
                           '' out of range for '' @ itoa (int n) @ '' tool calls''))
                    else Inr s))"

section \<open>Building a checkpoint\<close>

definition marshal_ledger :: "Codec \<Rightarrow> EvidenceLedger \<Rightarrow> goerr + string" where
  "marshal_ledger C l = (case cd_ledger C (MarshalLedger l) of Inl e \<Rightarrow> Inl (Wrapf ''marshal ledger'' e) | Inr t \<Rightarrow> Inr t)"

text \<open>\<^verbatim>\<open>marshalCheckpointValue\<close> behind the nil checks of its callers.\<close>

definition marshalCheckpointValue :: "('a \<Rightarrow> goerr + string) \<Rightarrow> 'a option \<Rightarrow> goerr + string" where
  "marshalCheckpointValue enc vo =
     (case vo of None \<Rightarrow> Inr []
      | Some v \<Rightarrow> (case enc v of Inl e \<Rightarrow> Inl (Wrapf ''marshal checkpoint value'' e) | Inr t \<Rightarrow> Inr t))"

definition snapshot_of ::
    "string \<Rightarrow> LoopState \<Rightarrow> int \<Rightarrow> string \<Rightarrow> string \<Rightarrow> string \<Rightarrow> string \<Rightarrow> string \<Rightarrow> string \<Rightarrow> int \<Rightarrow> AgentSnapshotV2" where
  "snapshot_of runID st nextStep manifest msgs ledger summary reflection pending idx =
     \<lparr> as_Version = 0, as_RunID = runID, as_NextStep = nextStep, as_Phase = al_phase st, as_MessagesJSON = msgs,
       as_Termination = \<lparr> ns_GateFail = GateFail (al_ts st), ns_ConsecToolFail = ConsecToolFail (al_ts st),
         ns_TokenUsed = TokenUsed (al_ts st), ns_ValidationFail = ValidationFail (al_ts st), ns_ToolCalls = ToolCalls (al_ts st) \<rparr>,
       as_Usage = (case lr_Usage (al_result st) of None \<Rightarrow> zero_usage | Some u \<Rightarrow> u),
       as_Compacted = al_compacted st, as_LedgerJSON = ledger, as_ManifestDigest = manifest,
       as_LastCommittedInvocationID = al_last st, as_SummaryJSON = summary, as_ReflectionJSON = reflection,
       as_PendingResponseJSON = pending, as_PendingToolIndex = idx \<rparr>"

definition buildCheckpointState ::
    "Codec \<Rightarrow> string \<Rightarrow> LoopState \<Rightarrow> int \<Rightarrow> string \<Rightarrow> Message option \<Rightarrow> int \<Rightarrow> goerr + AgentState" where
  "buildCheckpointState C runID st nextStep manifest pendingResponse pendingToolIndex =
     (case cd_messages C (al_messages st) of
        Inl e \<Rightarrow> Inl (Wrapf ''marshal checkpoint messages'' e)
      | Inr msgs \<Rightarrow> (case marshal_ledger C (al_ledger st) of
        Inl e \<Rightarrow> Inl e
      | Inr ledger \<Rightarrow> (case marshalCheckpointValue (cd_summary C) (lr_Summary (al_result st)) of
        Inl e \<Rightarrow> Inl e
      | Inr summary \<Rightarrow> (case marshalCheckpointValue (cd_reflection C) (lr_Reflection (al_result st)) of
        Inl e \<Rightarrow> Inl e
      | Inr reflection \<Rightarrow> (case marshalCheckpointValue (cd_message C) pendingResponse of
        Inl e \<Rightarrow> Inl e
      | Inr pending \<Rightarrow>
          (case MarshalAgentSnapshotV2 C (snapshot_of runID st nextStep manifest msgs ledger summary reflection pending pendingToolIndex) of
             Inl e \<Rightarrow> Inl e
           | Inr snapshot \<Rightarrow> Inr \<lparr> ag_RunID = runID, ag_CaseID = [], ag_ExecutionGeneration = 0, ag_MessagesJSON = msgs,
               ag_StepCount = nextStep - 1, ag_TokenUsed = TokenUsed (al_ts st), ag_Phase = al_phase st,
               ag_SnapshotVersion = AgentSnapshotV2Version, ag_SnapshotJSON = snapshot, ag_ManifestDigest = manifest \<rparr>))))))"

section \<open>The gate of a summary\<close>

text \<open>The evidence gate and the role gate on a ledger whose corroboration was recomputed.\<close>

definition summary_verdict ::
    "RuleRegistry \<Rightarrow> MagiConfig \<Rightarrow> EvidenceStandard \<Rightarrow> bool \<Rightarrow> EvidenceSummary \<Rightarrow> EvidenceLedger \<Rightarrow> GateResult" where
  "summary_verdict registry cfg std hasTools s ledger =
     (let res = Gate_Evaluate registry (Some s) ledger std (mc_Code cfg);
          roleViolations = ValidateRoleAssessment (Some s) (Some ledger) (mc_RolePolicy cfg) (mc_Objective cfg) (mc_Code cfg) hasTools in
      if roleViolations \<noteq> [] then \<lparr> Passed = False, Violations = Violations res @ roleViolations \<rparr> else res)"

text \<open>The printed message of a violation is a parameter, \<open>say\<close>.\<close>

definition gateViolationsMsg :: "(GateViolation \<Rightarrow> string) \<Rightarrow> GateResult \<Rightarrow> string" where
  "gateViolationsMsg say g = join_with ''; '' (map (\<lambda>v. ''['' @ gv_Code v @ ''] '' @ say v) (Violations g))"

section \<open>Restoring a checkpoint\<close>

definition vote_transition :: string where
  "vote_transition = ''Evidence gate passed. Now output the Vote JSON.''"

definition reflection_transition :: string where
  "reflection_transition = ''Evidence gate passed. Now output the Reflection JSON.''"

text \<open>The summary in the message at position \<open>i\<close>, if the loop answered it with a gate-passed transition.\<close>

definition passed_summary_at :: "Validators \<Rightarrow> Message list \<Rightarrow> nat \<Rightarrow> EvidenceSummary option" where
  "passed_summary_at V ms i =
     (let m = ms ! i in
      if mg_Role m \<noteq> RoleAssistant \<or> mg_ToolCalls m \<noteq> [] then None
      else case parseResponse V m ''gather'' of
        ResponseEvidenceSummary s \<Rightarrow>
          if i + 1 < length ms \<and> mg_Role (ms ! (i + 1)) = RoleUser \<and>
             (mg_Content (ms ! (i + 1)) = vote_transition \<or> mg_Content (ms ! (i + 1)) = reflection_transition)
          then Some s else None
      | _ \<Rightarrow> None)"

fun scan_summary :: "Validators \<Rightarrow> Message list \<Rightarrow> nat \<Rightarrow> EvidenceSummary option" where
  "scan_summary V ms 0 = None"
| "scan_summary V ms (Suc i) = (case passed_summary_at V ms i of Some s \<Rightarrow> Some s | None \<Rightarrow> scan_summary V ms i)"

definition restoreCheckpointSummaryFromMessages :: "Validators \<Rightarrow> Message list \<Rightarrow> goerr + EvidenceSummary" where
  "restoreCheckpointSummaryFromMessages V ms =
     (case scan_summary V ms (length ms) of
        Some s \<Rightarrow> Inr s
      | None \<Rightarrow> Inl (Errorf ''schema-valid evidence summary with gate-passed transition missing from message history''))"

text \<open>The summary and the ledger with the corroboration it recomputed.\<close>

definition restoreVerifiedCheckpointSummary ::
    "Validators \<Rightarrow> RuleRegistry \<Rightarrow> (GateViolation \<Rightarrow> string) \<Rightarrow> MagiConfig \<Rightarrow> EvidenceStandard \<Rightarrow> bool \<Rightarrow> Message list \<Rightarrow> EvidenceLedger \<Rightarrow>
     goerr + EvidenceSummary \<times> EvidenceLedger" where
  "restoreVerifiedCheckpointSummary V registry say cfg std hasTools ms ledger =
     (case restoreCheckpointSummaryFromMessages V ms of
        Inl e \<Rightarrow> Inl e
      | Inr s \<Rightarrow>
          let ledger' = RecomputeCorroboration (s_Claims s) ledger;
              g = summary_verdict registry cfg std hasTools s ledger' in
          if Passed g then Inr (s, ledger')
          else Inl (Errorf (''saved evidence summary no longer verifies: '' @ gateViolationsMsg say g)))"

fun restore_err_str :: "restore_error \<Rightarrow> string" where
  "restore_err_str RestoreIncompleteState = ''restore ledger: incomplete state''"
| "restore_err_str RestoreInvalidRecord = ''restore ledger: invalid evidence record''"
| "restore_err_str (RestoreDuplicateRecord i) = ''restore ledger: duplicate evidence record '' @ go_quote i"
| "restore_err_str RestoreInvalidClaim = ''restore ledger: invalid claim''"
| "restore_err_str (RestoreDuplicateClaim i) = ''restore ledger: duplicate claim '' @ go_quote i"

definition restore_ledger :: "Codec \<Rightarrow> string \<Rightarrow> goerr + EvidenceLedger" where
  "restore_ledger C encoded =
     (case cd_unledger C encoded of
        None \<Rightarrow> Inl (Errorf ''restore ledger'')
      | Some s \<Rightarrow> (case RestoreLedger s of Inl e \<Rightarrow> Inl (Errorf (restore_err_str e)) | Inr l \<Rightarrow> Inr l))"

definition restore_messages :: "Codec \<Rightarrow> string \<Rightarrow> string \<Rightarrow> goerr + Message list" where
  "restore_messages C what encoded =
     (case cd_unmessages C encoded of
        None \<Rightarrow> Inl (Errorf what)
      | Some ms \<Rightarrow> if ms = [] then Inl (Wrapf what (Errorf ''empty message history'')) else Inr ms)"

definition restore_value :: "(string \<Rightarrow> 'a option) \<Rightarrow> string \<Rightarrow> string \<Rightarrow> goerr + 'a option" where
  "restore_value dec what encoded =
     (if encoded = [] then Inr None
      else case dec encoded of None \<Rightarrow> Inl (Errorf what) | Some v \<Rightarrow> Inr (Some v))"

definition needs_summary :: "string \<Rightarrow> bool" where
  "needs_summary phase \<longleftrightarrow> phase = ''reconsider_reflect'' \<or> phase = ''vote''"

text \<open>The summary of a snapshot: stored, or else found again and verified when its phase needs one.\<close>

definition snapshot_summary ::
    "Codec \<Rightarrow> Validators \<Rightarrow> RuleRegistry \<Rightarrow> (GateViolation \<Rightarrow> string) \<Rightarrow> MagiConfig \<Rightarrow> EvidenceStandard \<Rightarrow> bool \<Rightarrow> AgentSnapshotV2 \<Rightarrow>
     Message list \<Rightarrow> EvidenceLedger \<Rightarrow> goerr + EvidenceSummary option \<times> EvidenceLedger" where
  "snapshot_summary C V registry say cfg std hasTools c ms ledger =
     (if as_SummaryJSON c \<noteq> [] then
        (case restore_value (cd_unsummary C) ''agent loop: restore checkpoint summary'' (as_SummaryJSON c) of
           Inl e \<Rightarrow> Inl e | Inr s \<Rightarrow> Inr (s, ledger))
      else if needs_summary (as_Phase c) then
        (case restoreVerifiedCheckpointSummary V registry say cfg std hasTools ms ledger of
           Inl e \<Rightarrow> Inl (Wrapf ''agent loop: restore checkpoint summary'' e)
         | Inr (s, ledger') \<Rightarrow> Inr (Some s, ledger'))
      else Inr (None, ledger))"

text \<open>The loop state and the first step of a run that resumes from a snapshot; \<open>st0\<close> is the fresh state.\<close>

definition restore_snapshot ::
    "Codec \<Rightarrow> Validators \<Rightarrow> RuleRegistry \<Rightarrow> (GateViolation \<Rightarrow> string) \<Rightarrow> MagiConfig \<Rightarrow> EvidenceStandard \<Rightarrow> bool \<Rightarrow> AgentSnapshotV2 \<Rightarrow>
     LoopState \<Rightarrow> goerr + LoopState \<times> int" where
  "restore_snapshot C V registry say cfg std hasTools c st0 =
     (case restore_messages C ''agent loop: restore checkpoint messages'' (as_MessagesJSON c) of
        Inl e \<Rightarrow> Inl e
      | Inr ms \<Rightarrow> (case restore_ledger C (as_LedgerJSON c) of
        Inl e \<Rightarrow> Inl (Wrapf ''agent loop: restore checkpoint ledger'' e)
      | Inr ledger0 \<Rightarrow> (case snapshot_summary C V registry say cfg std hasTools c ms ledger0 of
        Inl e \<Rightarrow> Inl e
      | Inr (summary, ledger) \<Rightarrow>
          (case restore_value (cd_unreflection C) ''agent loop: restore checkpoint reflection'' (as_ReflectionJSON c) of
        Inl e \<Rightarrow> Inl e
      | Inr reflection \<Rightarrow>
          (case restore_value (cd_unmessage C) ''agent loop: restore pending model response'' (as_PendingResponseJSON c) of
        Inl e \<Rightarrow> Inl e
      | Inr pending \<Rightarrow>
          let t = as_Termination c in
          Inr (st0\<lparr> al_messages := ms, al_ledger := ledger,
                 al_ts := \<lparr> GateFail = ns_GateFail t, ConsecToolFail = ns_ConsecToolFail t, TokenUsed = ns_TokenUsed t,
                   ValidationFail = ns_ValidationFail t, ToolCalls = ns_ToolCalls t \<rparr>,
                 al_result := (al_result st0)\<lparr> lr_Usage := Some (as_Usage c), lr_Summary := summary, lr_Reflection := reflection \<rparr>,
                 al_pending := pending,
                 al_pendingIndex := (if pending = None then al_pendingIndex st0 else as_PendingToolIndex c),
                 al_phase := as_Phase c, al_compacted := as_Compacted c, al_last := as_LastCommittedInvocationID c \<rparr>,
               as_NextStep c))))))"

text \<open>The format before snapshots: only the messages, the tokens and the phase.\<close>

definition restore_legacy :: "Codec \<Rightarrow> Validators \<Rightarrow> AgentState \<Rightarrow> LoopState \<Rightarrow> goerr + LoopState \<times> int" where
  "restore_legacy C V s st0 =
     (case restore_messages C ''agent loop: restore legacy checkpoint messages'' (ag_MessagesJSON s) of
        Inl e \<Rightarrow> Inl e
      | Inr ms \<Rightarrow>
          let st1 = st0\<lparr> al_messages := ms, al_ts := (al_ts st0)\<lparr> TokenUsed := ag_TokenUsed s \<rparr>, al_phase := ag_Phase s \<rparr> in
          if needs_summary (ag_Phase s) then
            (case restoreCheckpointSummaryFromMessages V ms of
               Inl e \<Rightarrow> Inl (Wrapf ''agent loop: restore legacy checkpoint summary'' e)
             | Inr sm \<Rightarrow> Inr (st1\<lparr> al_result := (al_result st1)\<lparr> lr_Summary := Some sm \<rparr> \<rparr>, ag_StepCount s + 1))
          else Inr (st1, ag_StepCount s + 1))"

datatype checkpoint = NoCheckpoint | LegacyCheckpoint AgentState | SnapshotCheckpoint AgentSnapshotV2

text \<open>The checks on a loaded row.\<close>

definition accept_checkpoint :: "Codec \<Rightarrow> string \<Rightarrow> string \<Rightarrow> AgentState option \<Rightarrow> goerr + checkpoint" where
  "accept_checkpoint C runID manifest so =
     (case so of
        None \<Rightarrow> Inr NoCheckpoint
      | Some s \<Rightarrow>
          if ag_SnapshotJSON s = [] then
            (if ag_MessagesJSON s = [] then Inl (Errorf ''agent loop: load checkpoint: incomplete legacy checkpoint'')
             else Inr (LegacyCheckpoint s))
          else case ParseAgentSnapshotV2 C (ag_SnapshotJSON s) of
            Inl e \<Rightarrow> Inl (Wrapf ''agent loop: load checkpoint'' e)
          | Inr p \<Rightarrow>
              if as_RunID p \<noteq> runID then Inl (Errorf (''agent loop: load checkpoint: run ID mismatch checkpoint='' @ go_quote (as_RunID p) @
                '' current='' @ go_quote runID))
              else if ag_ManifestDigest s \<noteq> [] \<and> ag_ManifestDigest s \<noteq> as_ManifestDigest p
              then Inl (Wrapf ''agent loop: load checkpoint'' ErrManifestMismatch)
              else (case ValidateManifest (as_ManifestDigest p) manifest of
                      Some e \<Rightarrow> Inl (Wrapf ''agent loop: load checkpoint'' e)
                    | None \<Rightarrow> Inr (SnapshotCheckpoint p)))"

definition restore_checkpoint ::
    "Codec \<Rightarrow> Validators \<Rightarrow> RuleRegistry \<Rightarrow> (GateViolation \<Rightarrow> string) \<Rightarrow> MagiConfig \<Rightarrow> EvidenceStandard \<Rightarrow> bool \<Rightarrow> checkpoint \<Rightarrow>
     LoopState \<Rightarrow> goerr + LoopState \<times> int" where
  "restore_checkpoint C V registry say cfg std hasTools c st0 =
     (case c of
        NoCheckpoint \<Rightarrow> Inr (st0, 1)
      | LegacyCheckpoint s \<Rightarrow> restore_legacy C V s st0
      | SnapshotCheckpoint p \<Rightarrow> restore_snapshot C V registry say cfg std hasTools p st0)"

section \<open>A checkpoint restores the state it was built from\<close>

text \<open>The value survives encoding and decoding, and its text is not empty.\<close>

definition encodes :: "('a \<Rightarrow> goerr + string) \<Rightarrow> (string \<Rightarrow> 'a option) \<Rightarrow> 'a \<Rightarrow> bool" where
  "encodes enc dec x \<longleftrightarrow> (case enc x of Inl e \<Rightarrow> False | Inr t \<Rightarrow> t \<noteq> [] \<and> dec t = Some x)"

definition encodes_option :: "('a \<Rightarrow> goerr + string) \<Rightarrow> (string \<Rightarrow> 'a option) \<Rightarrow> 'a option \<Rightarrow> bool" where
  "encodes_option enc dec xo \<longleftrightarrow> (case xo of None \<Rightarrow> True | Some x \<Rightarrow> encodes enc dec x)"

definition text_of :: "goerr + string \<Rightarrow> string" where
  "text_of r = (case r of Inl e \<Rightarrow> [] | Inr t \<Rightarrow> t)"

definition snapshot_built :: "Codec \<Rightarrow> string \<Rightarrow> LoopState \<Rightarrow> int \<Rightarrow> string \<Rightarrow> Message option \<Rightarrow> int \<Rightarrow> AgentSnapshotV2" where
  "snapshot_built C runID st nextStep manifest pending idx =
     (snapshot_of runID st nextStep manifest (text_of (cd_messages C (al_messages st))) (text_of (marshal_ledger C (al_ledger st)))
        (text_of (marshalCheckpointValue (cd_summary C) (lr_Summary (al_result st))))
        (text_of (marshalCheckpointValue (cd_reflection C) (lr_Reflection (al_result st))))
        (text_of (marshalCheckpointValue (cd_message C) pending)) idx)\<lparr> as_Version := AgentSnapshotV2Version \<rparr>"

text \<open>JSON loses nothing of what a checkpoint of this state holds.\<close>

definition codec_faithful :: "Codec \<Rightarrow> string \<Rightarrow> LoopState \<Rightarrow> int \<Rightarrow> string \<Rightarrow> Message option \<Rightarrow> int \<Rightarrow> bool" where
  "codec_faithful C runID st nextStep manifest pending idx \<longleftrightarrow>
     encodes (cd_messages C) (cd_unmessages C) (al_messages st) \<and>
     encodes (cd_ledger C) (cd_unledger C) (MarshalLedger (al_ledger st)) \<and>
     encodes_option (cd_summary C) (cd_unsummary C) (lr_Summary (al_result st)) \<and>
     encodes_option (cd_reflection C) (cd_unreflection C) (lr_Reflection (al_result st)) \<and>
     encodes_option (cd_message C) (cd_unmessage C) pending \<and>
     (case pending of None \<Rightarrow> True | Some m \<Rightarrow> cd_toolcalls C (text_of (cd_message C m)) = Some (length (mg_ToolCalls m))) \<and>
     encodes (cd_snapshot C) (cd_unsnapshot C) (snapshot_built C runID st nextStep manifest pending idx)"

text \<open>A state that the loop can take a checkpoint of.\<close>

definition checkpointable :: "string \<Rightarrow> LoopState \<Rightarrow> int \<Rightarrow> string \<Rightarrow> Message option \<Rightarrow> int \<Rightarrow> bool" where
  "checkpointable runID st nextStep manifest pending idx \<longleftrightarrow>
     runID \<noteq> [] \<and> nextStep \<ge> 1 \<and> manifest \<noteq> [] \<and> al_messages st \<noteq> [] \<and> ledger_wf (al_ledger st) \<and>
     (needs_summary (al_phase st) \<longrightarrow> lr_Summary (al_result st) \<noteq> None) \<and>
     (case pending of None \<Rightarrow> idx = -1 | Some m \<Rightarrow> -1 \<le> idx \<and> idx < int (length (mg_ToolCalls m)) \<or> idx = -1)"

definition resumed_state :: "LoopState \<Rightarrow> LoopState \<Rightarrow> Message option \<Rightarrow> int \<Rightarrow> LoopState" where
  "resumed_state st0 st pending idx =
     st\<lparr> al_result := (al_result st0)\<lparr>
           lr_Usage := Some (case lr_Usage (al_result st) of None \<Rightarrow> zero_usage | Some u \<Rightarrow> u),
           lr_Summary := lr_Summary (al_result st), lr_Reflection := lr_Reflection (al_result st) \<rparr>,
         al_pending := pending, al_pendingIndex := (if pending = None then al_pendingIndex st0 else idx) \<rparr>"

lemma encodesD: "encodes enc dec x \<Longrightarrow> \<exists>t. enc x = Inr t \<and> t \<noteq> [] \<and> dec t = Some x"
  by (auto simp: encodes_def split: sum.splits)

lemma restore_marshal_value:
  assumes "encodes_option enc dec xo"
  shows "\<exists>t. marshalCheckpointValue enc xo = Inr t \<and> restore_value dec what t = Inr xo \<and> (t = [] \<longleftrightarrow> xo = None)"
proof (cases xo)
  case (Some x)
  then obtain t where "enc x = Inr t" "t \<noteq> []" "dec t = Some x" using assms encodesD by (force simp: encodes_option_def)
  then show ?thesis using Some by (simp add: marshalCheckpointValue_def restore_value_def)
qed (simp add: marshalCheckpointValue_def restore_value_def)

lemma restore_marshal_ledger:
  assumes "encodes (cd_ledger C) (cd_unledger C) (MarshalLedger l)" and "ledger_wf l"
  shows "\<exists>t. marshal_ledger C l = Inr t \<and> t \<noteq> [] \<and> restore_ledger C t = Inr l"
  using encodesD [OF assms(1)] restore_marshal [OF assms(2)] by (auto simp: marshal_ledger_def restore_ledger_def)

lemma restore_marshal_messages:
  assumes "encodes (cd_messages C) (cd_unmessages C) ms" and "ms \<noteq> []"
  shows "\<exists>t. cd_messages C ms = Inr t \<and> t \<noteq> [] \<and> restore_messages C what t = Inr ms"
  using encodesD [OF assms(1)] assms(2) by (auto simp: restore_messages_def)

lemma snapshot_summary_stored:
  assumes "restore_value (cd_unsummary C) ''agent loop: restore checkpoint summary'' (as_SummaryJSON c) = Inr so"
    and "as_SummaryJSON c = [] \<longleftrightarrow> so = None" and "needs_summary (as_Phase c) \<longrightarrow> so \<noteq> None"
  shows "snapshot_summary C V registry say cfg std hasTools c ms ledger = Inr (so, ledger)"
  using assms by (auto simp: snapshot_summary_def)

lemma build_accept_restore:
  assumes "codec_faithful C runID st nextStep manifest pending idx" and "checkpointable runID st nextStep manifest pending idx"
  shows "\<exists>s c. buildCheckpointState C runID st nextStep manifest pending idx = Inr s \<and>
    accept_checkpoint C runID manifest (Some (s\<lparr> ag_CaseID := k, ag_ExecutionGeneration := g \<rparr>)) = Inr c \<and>
    restore_checkpoint C V registry say cfg std hasTools c st0 = Inr (resumed_state st0 st pending idx, nextStep)"
proof -
  note faithful = assms(1) [unfolded codec_faithful_def] and ok = assms(2) [unfolded checkpointable_def]
  obtain msgs where msgs: "cd_messages C (al_messages st) = Inr msgs" "msgs \<noteq> []"
      "restore_messages C ''agent loop: restore checkpoint messages'' msgs = Inr (al_messages st)"
    using restore_marshal_messages faithful ok by blast
  obtain ledger where ledger: "marshal_ledger C (al_ledger st) = Inr ledger" "ledger \<noteq> []" "restore_ledger C ledger = Inr (al_ledger st)"
    using restore_marshal_ledger faithful ok by blast
  obtain sm where sm: "marshalCheckpointValue (cd_summary C) (lr_Summary (al_result st)) = Inr sm" "sm = [] \<longleftrightarrow> lr_Summary (al_result st) = None"
      "restore_value (cd_unsummary C) ''agent loop: restore checkpoint summary'' sm = Inr (lr_Summary (al_result st))"
    using restore_marshal_value faithful by blast
  obtain rf where rf: "marshalCheckpointValue (cd_reflection C) (lr_Reflection (al_result st)) = Inr rf"
      "restore_value (cd_unreflection C) ''agent loop: restore checkpoint reflection'' rf = Inr (lr_Reflection (al_result st))"
    using restore_marshal_value faithful by blast
  obtain pd where pd: "marshalCheckpointValue (cd_message C) pending = Inr pd" "pd = [] \<longleftrightarrow> pending = None"
      "restore_value (cd_unmessage C) ''agent loop: restore pending model response'' pd = Inr pending"
    using restore_marshal_value faithful by blast
  define p where "p = snapshot_built C runID st nextStep manifest pending idx"
  have p: "p = (snapshot_of runID st nextStep manifest msgs ledger sm rf pd idx)\<lparr> as_Version := AgentSnapshotV2Version \<rparr>"
    by (simp add: p_def snapshot_built_def msgs ledger sm rf pd text_of_def)
  obtain t where t: "cd_snapshot C p = Inr t" "t \<noteq> []" "cd_unsnapshot C t = Some p"
    using encodesD [of "cd_snapshot C" "cd_unsnapshot C" p] faithful unfolding p_def by metis
  have marshal: "MarshalAgentSnapshotV2 C (snapshot_of runID st nextStep manifest msgs ledger sm rf pd idx) = Inr t"
    using t(1) p by (simp add: MarshalAgentSnapshotV2_def snapshot_of_def)
  have calls: "cd_toolcalls C pd = Some (length (mg_ToolCalls m))" if "pending = Some m" for m
    using faithful pd(1) that by (auto simp: marshalCheckpointValue_def text_of_def split: sum.splits)
  have parse: "ParseAgentSnapshotV2 C t = Inr p"
    using t ok msgs(2) ledger(2) pd(2) calls by (cases pending) (auto simp: ParseAgentSnapshotV2_def p snapshot_of_def)
  have summary: "snapshot_summary C V registry say cfg std hasTools p (al_messages st) (al_ledger st) =
      Inr (lr_Summary (al_result st), al_ledger st)"
    using sm ok by (intro snapshot_summary_stored) (auto simp: p snapshot_of_def)
  have restore: "restore_snapshot C V registry say cfg std hasTools p st0 = Inr (resumed_state st0 st pending idx, nextStep)"
    using msgs(3) ledger(3) rf(2) pd(3) summary
    by (simp add: restore_snapshot_def p snapshot_of_def resumed_state_def Let_def)
  have p_fields: "as_RunID p = runID" "as_ManifestDigest p = manifest" by (simp_all add: p snapshot_of_def)
  have manifest: "ValidateManifest manifest manifest = None" using ok by simp
  have "\<exists>s. buildCheckpointState C runID st nextStep manifest pending idx = Inr s \<and> ag_SnapshotJSON s = t \<and> ag_ManifestDigest s = manifest"
    using marshal by (simp add: buildCheckpointState_def msgs ledger sm rf pd)
  then obtain s where s: "buildCheckpointState C runID st nextStep manifest pending idx = Inr s" "ag_SnapshotJSON s = t" "ag_ManifestDigest s = manifest"
    by blast
  have "accept_checkpoint C runID manifest (Some (s\<lparr> ag_CaseID := k, ag_ExecutionGeneration := g \<rparr>)) = Inr (SnapshotCheckpoint p)"
    using parse t(2) by (simp add: accept_checkpoint_def s p_fields manifest)
  with s(1) restore show ?thesis by (auto simp: restore_checkpoint_def)
qed

end
