(* ===== verification/ModelRuntime.thy ===== *)
theory ModelRuntime
  imports AgentParse Manifest
begin

text \<open>
  \<^verbatim>\<open>backend/domain/modelruntime/runtime.go\<close>: a model call through the execution kernel, so that the
  complete response is stored before it is used, by one worker that nobody interrupts. The
  canonical encoding of the input and the gob codec of the response are parameters; Go's reflection
  over the message structs (\<^verbatim>\<open>canonicalizeInput\<close>) is behind the first of them. The type
  \<^verbatim>\<open>modelIdentityV1\<close> has the fields of \<^typ>\<open>modelReferenceFingerprint\<close>.
\<close>

section \<open>Identity and codecs\<close>

definition responseCodecPrefix :: string where
  "responseCodecPrefix = ''magi:model-response:gob:v1:''"

definition inputCodecPrefix :: string where
  "inputCodecPrefix = ''magi:model-input:canonical-json:v1:''"

definition legacyInputPrefix :: string where
  "legacyInputPrefix = ''magi:model-input:gob:v1:''"

record legacyInputEnvelopeV1 =
  le_Version :: string
  le_Model :: modelReferenceFingerprint
  le_Messages :: "Message list"

record ModelDeps =
  md_kernel :: "Kernel option"
  md_Digest :: "string \<Rightarrow> string"
  md_Recorder :: "InvocationRecord \<Rightarrow> goerr option"
  md_identity :: "modelReferenceFingerprint \<Rightarrow> string"
  md_input :: "modelReferenceFingerprint \<Rightarrow> Message list \<Rightarrow> goerr + string"
  md_gob :: "Message \<Rightarrow> goerr + string"
  md_ungob :: "string \<Rightarrow> goerr + string \<times> Message option"
  md_ungobInput :: "string \<Rightarrow> goerr + legacyInputEnvelopeV1"

fun canonicalModelIdentity :: "ModelRef \<Rightarrow> modelReferenceFingerprint" where
  "canonicalModelIdentity (ModelRef key url name pin pout mid fallbacks params) =
     ModelFingerprint mid url name params (map canonicalModelIdentity fallbacks)"

definition modelDigest :: "ModelDeps \<Rightarrow> ModelRef \<Rightarrow> string" where
  "modelDigest d ref = md_Digest d (md_identity d (canonicalModelIdentity ref))"

text \<open>\<^verbatim>\<open>NewInvocationID\<close> of the package.\<close>

definition Model_InvocationID :: "ModelDeps \<Rightarrow> string \<Rightarrow> ModelRef \<Rightarrow> string" where
  "Model_InvocationID d stepID ref = NewModelInvocationID (md_Digest d) stepID (modelDigest d ref) 0"

definition encodeCanonicalInput :: "ModelDeps \<Rightarrow> modelReferenceFingerprint \<Rightarrow> Message list \<Rightarrow> goerr + string" where
  "encodeCanonicalInput d ident messages =
     (case md_input d ident messages of Inl e \<Rightarrow> Inl e | Inr t \<Rightarrow> Inr (inputCodecPrefix @ t))"

definition encodeInput :: "ModelDeps \<Rightarrow> ModelRef \<Rightarrow> Message list \<Rightarrow> goerr + string" where
  "encodeInput d ref messages = encodeCanonicalInput d (canonicalModelIdentity ref) messages"

text \<open>A list has no nil; copying the fallbacks is the identity.\<close>

fun normalizeLegacyModelIdentity :: "modelReferenceFingerprint \<Rightarrow> modelReferenceFingerprint" where
  "normalizeLegacyModelIdentity (ModelFingerprint i url name params fallbacks) =
     ModelFingerprint i url name params (map normalizeLegacyModelIdentity fallbacks)"

definition has_prefix :: "string \<Rightarrow> string \<Rightarrow> bool" where
  "has_prefix pfx s \<longleftrightarrow> take (length pfx) s = pfx"

definition matchLegacyInput :: "ModelDeps \<Rightarrow> InputMatcher" where
  "matchLegacyInput d invo req =
     (if \<not> has_prefix legacyInputPrefix (ri_InputJSON invo) then Inr False
      else case md_ungobInput d (drop (length legacyInputPrefix) (ri_InputJSON invo)) of
        Inl e \<Rightarrow> Inl e
      | Inr legacy \<Rightarrow>
          if le_Version legacy \<noteq> ''v1'' then Inl (Errorf ''unsupported legacy model input version'')
          else (case encodeCanonicalInput d (normalizeLegacyModelIdentity (le_Model legacy)) (le_Messages legacy) of
                  Inl e \<Rightarrow> Inl e | Inr t \<Rightarrow> Inr (t = rq_Input req)))"

definition encodeResponse :: "ModelDeps \<Rightarrow> Message \<Rightarrow> goerr + string" where
  "encodeResponse d response = (case md_gob d response of Inl e \<Rightarrow> Inl e | Inr t \<Rightarrow> Inr (responseCodecPrefix @ t))"

definition decodeResponse :: "ModelDeps \<Rightarrow> string \<Rightarrow> goerr + Message" where
  "decodeResponse d encoded =
     (if \<not> has_prefix responseCodecPrefix encoded
      then Inl (Wrapf ''model runtime: deserialize persisted response'' (Errorf ''unsupported persisted value codec''))
      else case md_ungob d (drop (length responseCodecPrefix) encoded) of
        Inl e \<Rightarrow> Inl (Wrapf ''model runtime: deserialize persisted response'' e)
      | Inr (version, mo) \<Rightarrow>
          (case mo of
             None \<Rightarrow> Inl (Errorf ''model runtime: invalid persisted response envelope'')
           | Some m \<Rightarrow> if version \<noteq> ''v1'' then Inl (Errorf ''model runtime: invalid persisted response envelope'') else Inr m))"

section \<open>Generation\<close>

record MRequest =
  mq_Identity :: ExecutionIdentity
  mq_ModelRef :: ModelRef
  mq_Input :: "Message list"

definition invalid_model_request :: "string \<Rightarrow> goerr" where
  "invalid_model_request text = Wraps (err_str ErrInvalidRequest @ '': '' @ text) [ErrInvalidRequest]"

definition model_request :: "MRequest \<Rightarrow> string \<Rightarrow> Request" where
  "model_request req input =
     \<lparr> rq_Identity = mq_Identity req, rq_Kind = InvocationModel, rq_OperationName = ''generate'', rq_Input = input,
       rq_RetrySafety = RetryUnsafe, rq_IdempotencyKey = [], rq_LogicalOrdinal = 0 \<rparr>"

text \<open>The function literal: what the provider answers, as the bytes to store. \<^term>\<open>Inr None\<close> is a nil response.\<close>

definition model_outcome :: "ModelDeps \<Rightarrow> goerr + Message option \<Rightarrow> goerr + string" where
  "model_outcome d answer =
     (case answer of
        Inl e \<Rightarrow> Inl e
      | Inr None \<Rightarrow> Inl (Wraps (err_str ErrExternalOutcomeUnknown @ '': model returned nil response'') [ErrExternalOutcomeUnknown])
      | Inr (Some m) \<Rightarrow>
          (case encodeResponse d m of
             Inl e \<Rightarrow> Inl (Wraps (err_str ErrExternalOutcomeUnknown @ '': serialize model response: '' @ err_str e) [ErrExternalOutcomeUnknown])
           | Inr t \<Rightarrow> Inr t))"

text \<open>\<open>answer\<close> is what the provider says if it is called; the last component counts the calls.\<close>

definition Model_Generate ::
    "'s RepoOps \<Rightarrow> ModelDeps \<Rightarrow> goerr + Message option \<Rightarrow> MRequest \<Rightarrow> 's \<Rightarrow> (goerr + Message) \<times> 's \<times> nat" where
  "Model_Generate R d answer req s =
     (case md_kernel d of
        None \<Rightarrow> (Inl (invalid_model_request ''execution kernel is required''), s, 0)
      | Some k \<Rightarrow>
          if id_InvocationID (mq_Identity req) \<noteq> Model_InvocationID d (id_StepID (mq_Identity req)) (mq_ModelRef req)
          then (Inl (invalid_model_request ''model invocation identity does not match model reference''), s, 0)
          else case encodeInput d (mq_ModelRef req) (mq_Input req) of
            Inl e \<Rightarrow> (Inl (invalid_model_request (''serialize model input: '' @ err_str e)), s, 0)
          | Inr input \<Rightarrow>
              (case solo R (md_Recorder d) (model_outcome d answer)
                      (ExecuteWithInputMatcher (md_Digest d) k (model_request req input) (Some (matchLegacyInput d)) True) s of
                 (Inl e, s', n) \<Rightarrow> (Inl e, s', n)
               | (Inr kr, s', n) \<Rightarrow> (decodeResponse d (kr_Output kr), s', n)))"

section \<open>Lemmas\<close>

lemma has_prefix_append [simp]: "has_prefix p (p @ s)"
  by (simp add: has_prefix_def)

lemma normalizeLegacyModelIdentity_id: "normalizeLegacyModelIdentity m = m"
  by (induction m) (simp add: map_idI)

lemma decode_encode_response:
  assumes "encodeResponse d m = Inr t" and "\<And>g. md_gob d m = Inr g \<Longrightarrow> md_ungob d g = Inr (''v1'', Some m)"
  shows "decodeResponse d t = Inr m"
  using assms by (auto simp: encodeResponse_def decodeResponse_def split: sum.splits)

lemma model_identity_ignores_secrets:
  "canonicalModelIdentity (ModelRef key url name pin pout mid fallbacks params) =
   canonicalModelIdentity (ModelRef key' url name pin' pout' mid fallbacks params)"
  by simp

end
