(* ===== verification/AgentEnv.thy ===== *)
theory AgentEnv
  imports Checkpoint ModelRuntime
begin

text \<open>
  The ports of the agent loop and what it does with them besides calling models and tools:
  checkpoints (\<^verbatim>\<open>runtime/checkpoint.go\<close>, \<^verbatim>\<open>commitCheckpoint\<close>), durable and best-effort events
  (\<^verbatim>\<open>execution/recorder.go\<close>) and human approvals (\<^verbatim>\<open>requestApproval\<close>).

  Every call of a port appends one \<open>afx\<close> to the log of the run. What a port answers is a function of
  the log so far and of the call, a field of \<open>AEnv\<close>; saves and critical events carry their answer in
  the log. Nil dependencies are flags. The invocation store \<open>'s\<close> of the execution kernel is threaded
  through model and tool calls.
\<close>

section \<open>Approvals\<close>

datatype ApprovalStatus =
    ApprovalPending | ApprovalApproved | ApprovalRejected | ApprovalExpired | ApprovalOther string

text \<open>The times of the decision and of the row are not read and left out.\<close>

record ApprovalRequest =
  aq_ID :: string
  aq_CaseID :: string
  aq_RunID :: string
  aq_AgentCode :: MagiCode
  aq_ToolName :: string
  aq_Arguments :: string
  aq_InvocationID :: string
  aq_IntentDigest :: string
  aq_Status :: ApprovalStatus
  aq_Reason :: string
  aq_DecidedBy :: string
  aq_RequestedAt :: timestamp

text \<open>How the wait for a decision ends when no poll shows one.\<close>

datatype wait_end = WaitCancelled goerr | WaitTimeout

section \<open>Events and effects\<close>

text \<open>The events of the loop with the payload fields that are not derived from the others.\<close>

datatype aevent =
    EvCheckpointFailed int string
  | EvCheckpointCommitted int
  | EvContextCompacted int int64
  | EvInvocationStarted int string
  | EvInvocationFailed int string
  | EvInvocationUnknown int string
  | EvInvocationSucceeded int
  | EvModelResponded int
  | EvToolCallRequested string string string
  | EvToolCallValidated string string
  | EvToolCallStarted string string
  | EvToolCallFailed string string string string
  | EvToolCallCompleted string string int string
  | EvEvidenceCreated string float64 string string
  | EvClaimCreated string string "string list" "string list"
  | EvEvidenceGateFailed string
  | EvEvidenceGatePassed
  | EvVoteSubmitted VoteDecision float64 string
  | EvToolApprovalRequested string string
  | EvToolApprovalResolved string string string string string

datatype afx =
    XBuild ModelRef
  | XListTools "ToolBinding list"
  | XBindTools "string list"
  | XLoad "ExecutionContext option" string
  | XSave "ExecutionContext option" AgentState "goerr option"
  | XCritical aevent "goerr option"
  | XTelemetry aevent
  | XCompact "Message list"
  | XGenerate int "Message list" nat
  | XTool string int tevent
  | XFindApproval string string
  | XCreateApproval ApprovalRequest
  | XGetApproval string
  | XMarkExpired string
  | XRecordAgent string string

type_synonym alog = "afx list"

section \<open>The environment\<close>

record 's AEnv =
  ae_codec :: Codec
  ae_validators :: Validators
  ae_json :: ManifestJSON
  ae_digest :: "string \<Rightarrow> string"
  ae_canon :: "string \<Rightarrow> string option"
  ae_trim :: "string \<Rightarrow> string"
  ae_say :: "GateViolation \<Rightarrow> string"
  ae_sayRole :: "role_error \<Rightarrow> string"
  ae_registry :: RuleRegistry
  ae_resolver :: "ToolBinding \<Rightarrow> ReliabilityScore"
  ae_adapters :: "adapter list"
  ae_summarySchema :: string
  ae_voteSchema :: string
  ae_reflectionSchema :: string
  ae_toolReg :: bool
  ae_toolRuntime :: bool
  ae_approvals :: bool
  ae_checkpoints :: "bool option"
  ae_publisher :: bool
  ae_taskTree :: bool
  ae_repo :: "'s RepoOps"
  ae_model :: ModelDeps
  ae_tools :: "alog \<Rightarrow> ToolDeps"
  ae_now :: "alog \<Rightarrow> timestamp"
  ae_leaseLost :: "alog \<Rightarrow> bool"
  ae_ctxErr :: "alog \<Rightarrow> goerr option"
  ae_build :: "alog \<Rightarrow> goerr option"
  ae_list :: "alog \<Rightarrow> ToolBinding list \<Rightarrow> goerr + ToolDefinition list"
  ae_bind :: "alog \<Rightarrow> goerr option"
  ae_load :: "alog \<Rightarrow> goerr + AgentState option"
  ae_save :: "alog \<Rightarrow> AgentState \<Rightarrow> goerr option"
  ae_publish :: "alog \<Rightarrow> aevent \<Rightarrow> goerr option"
  ae_generate :: "alog \<Rightarrow> Message list \<Rightarrow> goerr + Message option"
  ae_find :: "alog \<Rightarrow> string \<Rightarrow> goerr + ApprovalRequest option"
  ae_create :: "alog \<Rightarrow> ApprovalRequest \<Rightarrow> goerr + string"
  ae_polls :: "alog \<Rightarrow> (goerr + ApprovalRequest option) \<times> (goerr + ApprovalRequest option) list \<times> wait_end"

text \<open>\<open>ae_checkpoints\<close> is \<^term>\<open>None\<close> for a nil repository, else whether it knows execution generations.
  \<open>ae_create\<close> answers the identifier that \<^verbatim>\<open>Create\<close> gives the request. \<open>ae_polls\<close> are the answers of
  \<^verbatim>\<open>Get\<close>, the first at once and one more per tick, and what ends the wait after the last of them; a
  wait that never ends is not modelled.\<close>

record 's AWorld =
  aw_log :: alog
  aw_store :: 's
  aw_st :: LoopState

section \<open>Actions\<close>

text \<open>The loop leaves at a \<open>stop\<close>: the status and the error of the result.\<close>

type_synonym stop = "LoopStatus \<times> goerr option"
type_synonym ('s, 'a) aact = "'s AWorld \<Rightarrow> (stop + 'a) \<times> 's AWorld"

definition returnA :: "'a \<Rightarrow> ('s, 'a) aact" where
  "returnA x w = (Inr x, w)"

definition stopA :: "LoopStatus \<Rightarrow> goerr option \<Rightarrow> ('s, 'a) aact" where
  "stopA status e w = (Inl (status, e), w)"

definition bindA :: "('s, 'a) aact \<Rightarrow> ('a \<Rightarrow> ('s, 'b) aact) \<Rightarrow> ('s, 'b) aact" where
  "bindA m k w = (case m w of (Inl s, w') \<Rightarrow> (Inl s, w') | (Inr x, w') \<Rightarrow> k x w')"

definition thenA :: "('s, unit) aact \<Rightarrow> ('s, 'b) aact \<Rightarrow> ('s, 'b) aact" where
  "thenA m k = bindA m (\<lambda>_. k)"

definition getA :: "('s, LoopState) aact" where
  "getA w = (Inr (aw_st w), w)"

definition askA :: "(alog \<Rightarrow> 'a) \<Rightarrow> ('s, 'a) aact" where
  "askA f w = (Inr (f (aw_log w)), w)"

definition modifyA :: "(LoopState \<Rightarrow> LoopState) \<Rightarrow> ('s, unit) aact" where
  "modifyA f w = (Inr (), w\<lparr> aw_st := f (aw_st w) \<rparr>)"

definition logA :: "afx \<Rightarrow> ('s, unit) aact" where
  "logA fx w = (Inr (), w\<lparr> aw_log := aw_log w @ [fx] \<rparr>)"

fun eachA :: "('a \<Rightarrow> ('s, unit) aact) \<Rightarrow> 'a list \<Rightarrow> ('s, unit) aact" where
  "eachA f [] = returnA ()"
| "eachA f (x # xs) = thenA (f x) (eachA f xs)"

section \<open>Events\<close>

definition telemetry :: "'s AEnv \<Rightarrow> aevent \<Rightarrow> ('s, unit) aact" where
  "telemetry env ev = (if ae_publisher env then logA (XTelemetry ev) else returnA ())"

text \<open>A critical event: the answer of the publisher, nil without one.\<close>

definition recordCritical :: "'s AEnv \<Rightarrow> aevent \<Rightarrow> ('s, goerr option) aact" where
  "recordCritical env ev =
     (if ae_publisher env
      then bindA (askA (\<lambda>l. ae_publish env l ev)) (\<lambda>a. thenA (logA (XCritical ev a)) (returnA a))
      else returnA None)"

text \<open>What the callers do with an error of the loop's own infrastructure.\<close>

definition failA :: "goerr option \<Rightarrow> ('s, unit) aact" where
  "failA eo = (case eo of None \<Rightarrow> returnA () | Some e \<Rightarrow> stopA LoopStatusError (Some e))"

section \<open>Checkpoints\<close>

definition save_checkpoint :: "'s AEnv \<Rightarrow> ExecutionContext option \<Rightarrow> bool \<Rightarrow> AgentState \<Rightarrow> ('s, goerr option) aact" where
  "save_checkpoint env owner generations state =
     (if IsDurable owner \<and> \<not> generations then returnA (Some ErrLeaseLost)
      else bindA (askA (\<lambda>l. ae_save env l state)) (\<lambda>a.
           thenA (logA (XSave (if IsDurable owner then owner else None) state a)) (returnA a)))"

definition CommitForExecution :: "'s AEnv \<Rightarrow> ExecutionContext option \<Rightarrow> AgentState \<Rightarrow> ('s, goerr option) aact" where
  "CommitForExecution env owner state =
     (case ae_checkpoints env of
        None \<Rightarrow> returnA None
      | Some generations \<Rightarrow>
          bindA (save_checkpoint env owner generations state) (\<lambda>a. case a of
            Some e \<Rightarrow> bindA (recordCritical env (EvCheckpointFailed (ag_StepCount state + 1) (err_str e))) (\<lambda>_. returnA (Some e))
          | None \<Rightarrow> recordCritical env (EvCheckpointCommitted (ag_StepCount state + 1))))"

text \<open>What the loop was started with, as far as its steps need it.\<close>

record Setup =
  su_cfg :: MagiConfig
  su_actx :: AgentContext
  su_defs :: "(string, ToolDefinition) gomap"
  su_hasTools :: bool
  su_std :: EvidenceStandard
  su_manifest :: string
  su_logicalRunID :: string
  su_attemptID :: string

definition checkpoint_error :: "'s AEnv \<Rightarrow> Setup \<Rightarrow> int \<Rightarrow> Message option \<Rightarrow> int \<Rightarrow> ('s, goerr option) aact" where
  "checkpoint_error env su nextStep pendingResponse pendingToolIndex =
     (let actx = su_actx su in
      if ac_RunID actx = [] then returnA None
      else bindA (askA (ae_leaseLost env)) (\<lambda>lost.
        if lost then returnA (Some ErrLeaseLost)
        else bindA getA (\<lambda>st.
          case buildCheckpointState (ae_codec env) (ac_RunID actx) st nextStep (su_manifest su) pendingResponse pendingToolIndex of
            Inl e \<Rightarrow> returnA (Some e)
          | Inr state \<Rightarrow> CommitForExecution env (ac_Execution actx)
              (state\<lparr> ag_CaseID := ac_CaseID actx,
                 ag_ExecutionGeneration := (if IsDurable (ac_Execution actx)
                   then x_ExecutionGeneration (the (ac_Execution actx)) else 0) \<rparr>))))"

text \<open>\<^verbatim>\<open>commitCheckpoint\<close> and the early return of its callers.\<close>

definition commitCheckpoint :: "'s AEnv \<Rightarrow> Setup \<Rightarrow> int \<Rightarrow> Message option \<Rightarrow> int \<Rightarrow> ('s, unit) aact" where
  "commitCheckpoint env su nextStep pendingResponse pendingToolIndex =
     bindA (checkpoint_error env su nextStep pendingResponse pendingToolIndex) failA"

text \<open>The loading side; a checkpoint of an owned run is only read through its generation.\<close>

definition LoadForExecution :: "'s AEnv \<Rightarrow> ExecutionContext option \<Rightarrow> string \<Rightarrow> alog \<Rightarrow> (goerr + AgentState option) \<times> alog" where
  "LoadForExecution env owner runID lg =
     (case ae_checkpoints env of
        None \<Rightarrow> (Inr None, lg)
      | Some generations \<Rightarrow>
          if IsDurable owner \<and> \<not> generations then (Inl ErrLeaseLost, lg)
          else (ae_load env lg, lg @ [XLoad (if IsDurable owner then owner else None) runID]))"

section \<open>Human approval of a tool call\<close>

definition canonicalToolArguments :: "'s AEnv \<Rightarrow> string \<Rightarrow> string" where
  "canonicalToolArguments env arguments = (case ae_canon env arguments of None \<Rightarrow> arguments | Some c \<Rightarrow> c)"

definition refuse :: "string \<Rightarrow> goerr + ApprovalDecision" where
  "refuse reason = Inr \<lparr> ad_Approved = False, ad_DecidedBy = [], ad_Reason = reason \<rparr>"

definition log_event :: "'s AEnv \<Rightarrow> aevent \<Rightarrow> alog" where
  "log_event env ev = (if ae_publisher env then [XTelemetry ev] else [])"

text \<open>The polling loop on the request \<open>reqID\<close>. Without a timeout only cancellation ends the wait.\<close>

fun poll_approval ::
    "'s AEnv \<Rightarrow> string \<Rightarrow> string \<Rightarrow> int \<Rightarrow> (goerr + ApprovalRequest option) list \<Rightarrow> wait_end \<Rightarrow> (goerr + ApprovalDecision) \<times> alog" where
  "poll_approval env reqID tool timeout [] ending =
     (case ending of
        WaitCancelled e \<Rightarrow> (Inl e, [])
      | WaitTimeout \<Rightarrow>
          if timeout > 0 then
            (refuse ''approval request timed out'', XMarkExpired reqID # log_event env (EvToolApprovalResolved reqID tool ''expired'' [] []))
          else (Inl ErrCanceled, []))"
| "poll_approval env reqID tool timeout (a # later) ending =
     (let continue = (case poll_approval env reqID tool timeout later ending of (r, l) \<Rightarrow> (r, XGetApproval reqID # l)) in
      case a of
        Inr (Some cur) \<Rightarrow>
          (case aq_Status cur of
             ApprovalApproved \<Rightarrow>
               (Inr \<lparr> ad_Approved = True, ad_DecidedBy = aq_DecidedBy cur, ad_Reason = aq_Reason cur \<rparr>,
                XGetApproval reqID # log_event env (EvToolApprovalResolved (aq_ID cur) tool ''approved'' (aq_DecidedBy cur) []))
           | ApprovalRejected \<Rightarrow>
               (Inr \<lparr> ad_Approved = False, ad_DecidedBy = aq_DecidedBy cur, ad_Reason = aq_Reason cur \<rparr>,
                XGetApproval reqID # log_event env (EvToolApprovalResolved (aq_ID cur) tool ''rejected'' (aq_DecidedBy cur) (aq_Reason cur)))
           | ApprovalExpired \<Rightarrow> (refuse ''approval request expired'', [XGetApproval reqID])
           | _ \<Rightarrow> continue)
      | _ \<Rightarrow> continue)"

text \<open>The check of the stored request and the wait.\<close>

definition await_approval ::
    "'s AEnv \<Rightarrow> ApprovalRequest \<Rightarrow> string \<Rightarrow> string \<Rightarrow> int \<Rightarrow> alog \<Rightarrow> (goerr + ApprovalDecision) \<times> alog" where
  "await_approval env req tool intentDigest timeout lg =
     (if aq_ToolName req \<noteq> tool \<or> aq_IntentDigest req \<noteq> intentDigest
      then (refuse ''approval does not match this invocation'', lg)
      else case ae_polls env lg of
        (first, later, ending) \<Rightarrow>
          (case poll_approval env (aq_ID req) tool timeout (first # later) ending of (r, l) \<Rightarrow> (r, lg @ l)))"

definition new_approval :: "Setup \<Rightarrow> string \<Rightarrow> ToolCallMsg \<Rightarrow> string \<Rightarrow> string \<Rightarrow> timestamp \<Rightarrow> ApprovalRequest" where
  "new_approval su invocationID tc tool intentDigest now =
     \<lparr> aq_ID = [], aq_CaseID = ac_CaseID (su_actx su), aq_RunID = ac_RunID (su_actx su), aq_AgentCode = mc_Code (su_cfg su),
       aq_ToolName = tool, aq_Arguments = tm_Arguments tc, aq_InvocationID = invocationID, aq_IntentDigest = intentDigest,
       aq_Status = ApprovalPending, aq_Reason = [], aq_DecidedBy = [], aq_RequestedAt = now \<rparr>"

definition requestApproval ::
    "'s AEnv \<Rightarrow> Setup \<Rightarrow> string \<Rightarrow> ToolCallMsg \<Rightarrow> ToolDefinition \<Rightarrow> alog \<Rightarrow> (goerr + ApprovalDecision) \<times> alog" where
  "requestApproval env su invocationID tc td lg =
     (if \<not> ae_approvals env then (refuse ''approval required but approval repository is not configured'', lg)
      else
        let tool = td_Name td; caseID = ac_CaseID (su_actx su);
            intentDigest = ApprovalIntentDigest (ae_digest env) tool (canonicalToolArguments env (tm_Arguments tc));
            timeout = ApprovalTimeout (mc_LoopPolicy (su_cfg su));
            lg1 = lg @ [XFindApproval caseID invocationID] in
        case ae_find env lg invocationID of
          Inl e \<Rightarrow> (Inl (Wrapf ''find approval'' e), lg1)
        | Inr (Some req) \<Rightarrow> await_approval env req tool intentDigest timeout lg1
        | Inr None \<Rightarrow>
            let req = new_approval su invocationID tc tool intentDigest (ae_now env lg1);
                lg2 = lg1 @ [XCreateApproval req] in
            (case ae_create env lg1 req of
               Inr reqID \<Rightarrow> await_approval env (req\<lparr> aq_ID := reqID \<rparr>) tool intentDigest timeout
                             (lg2 @ log_event env (EvToolApprovalRequested reqID tool))
             | Inl e \<Rightarrow>
                 if err_is e ErrApprovalConflict then
                   (case ae_find env lg2 invocationID of
                      Inl e2 \<Rightarrow> (Inl (Wrapf ''find approval after conflict'' e2), lg2 @ [XFindApproval caseID invocationID])
                    | Inr None \<Rightarrow> (refuse ''approval conflict without an authoritative request'', lg2 @ [XFindApproval caseID invocationID])
                    | Inr (Some req2) \<Rightarrow> await_approval env req2 tool intentDigest timeout (lg2 @ [XFindApproval caseID invocationID]))
                 else (Inl (Wrapf ''create approval'' e), lg2)))"

end
