(* ===== verification/AgentLoop.thy ===== *)
theory AgentLoop
  imports AgentEnv
begin

text \<open>
  \<^verbatim>\<open>AgentLoop.Run\<close> of \<^verbatim>\<open>backend/domain/runtime/agent_loop.go\<close>: the loop in which one agent gathers
  evidence with tools, passes the evidence gate, reflects when it reconsiders, and votes. One action
  per part of the loop body, one per branch of the switch on the parsed response; \<open>agent_loop\<close> counts
  the steps that are left, so the loop is total. Models answer through the model runtime, tools run
  through the tool runtime, both on the invocation store.

  Left out: metrics, log lines, spans, the deadlines of contexts (they show up as errors that ports
  answer) and the construction without a model runtime that only tests use.
\<close>

section \<open>Trace and history\<close>

definition new_step :: "string \<Rightarrow> int \<Rightarrow> timestamp \<Rightarrow> timestamp \<Rightarrow> Message option \<Rightarrow> Usage option \<Rightarrow> Step" where
  "new_step stepID step start now resp usage =
     \<lparr> sp_ID = stepID, sp_Index = step, sp_ModelOutput = map_option mg_Content resp, sp_ToolCalls = [], sp_IsFinal = False,
       sp_StartedAt = start, sp_Duration = now - start, sp_ModelUsage = usage \<rparr>"

definition add_step :: "Step \<Rightarrow> ('s, unit) aact" where
  "add_step s = modifyA (\<lambda>st. st\<lparr> al_result := (al_result st)\<lparr> lr_Trace :=
     map_option (\<lambda>t. t\<lparr> lt_Steps := lt_Steps t @ [s] \<rparr>) (lr_Trace (al_result st)) \<rparr> \<rparr>)"

definition say :: "Message list \<Rightarrow> ('s, unit) aact" where
  "say ms = modifyA (\<lambda>st. st\<lparr> al_messages := al_messages st @ ms \<rparr>)"

definition modifyTs :: "(TerminationState \<Rightarrow> TerminationState) \<Rightarrow> ('s, unit) aact" where
  "modifyTs f = modifyA (\<lambda>st. st\<lparr> al_ts := f (al_ts st) \<rparr>)"

definition modifyResult :: "(LoopResult \<Rightarrow> LoopResult) \<Rightarrow> ('s, unit) aact" where
  "modifyResult f = modifyA (\<lambda>st. st\<lparr> al_result := f (al_result st) \<rparr>)"

text \<open>\<^verbatim>\<open>if CheckTermination(...) { finalizeTrace; return }\<close>.\<close>

definition check_termination :: "Setup \<Rightarrow> ('s, unit) aact" where
  "check_termination su = bindA getA (\<lambda>st.
     case CheckTermination (al_ts st) (mc_LoopPolicy (su_cfg su)) of
       None \<Rightarrow> returnA () | Some (status, e) \<Rightarrow> stopA status (Some e))"

section \<open>The model call\<close>

definition account :: "Usage \<Rightarrow> ('s, unit) aact" where
  "account u = modifyA (\<lambda>st. st\<lparr> al_result := (al_result st)\<lparr> lr_Usage := addUsage (lr_Usage (al_result st)) (Some u) \<rparr>,
     al_ts := (al_ts st)\<lparr> TokenUsed := TokenUsed (al_ts st) + u_TotalTokens u \<rparr> \<rparr>)"

definition compaction_due :: "LoopPolicy \<Rightarrow> LoopState \<Rightarrow> bool" where
  "compaction_due p st \<longleftrightarrow> TokenBudget p > 0 \<and> TokenCompactionThreshold p > 0 \<and> \<not> al_compacted st \<and>
     of_int (TokenUsed (al_ts st)) \<ge> of_int (TokenBudget p) * TokenCompactionThreshold p"

text \<open>A nil summary without an error, on which Go would panic, counts as a failed summary.\<close>

definition summarizer :: "'s AEnv \<Rightarrow> alog \<Rightarrow> Message list \<Rightarrow> goerr + Message" where
  "summarizer env lg ms =
     (case ae_generate env lg ms of Inl e \<Rightarrow> Inl e | Inr None \<Rightarrow> Inl (Panicked ''nil summary'') | Inr (Some m) \<Rightarrow> Inr m)"

definition compact_if_due :: "'s AEnv \<Rightarrow> Setup \<Rightarrow> int \<Rightarrow> ('s, unit) aact" where
  "compact_if_due env su step = bindA getA (\<lambda>st.
     if \<not> compaction_due (mc_LoopPolicy (su_cfg su)) st then returnA ()
     else bindA (askA (\<lambda>l. compactHistory (ae_trim env) (summarizer env l) (al_messages st))) (\<lambda>r.
       case r of
         Inl e \<Rightarrow> returnA ()
       | Inr (ms, usage) \<Rightarrow>
           if ms = [] then returnA ()
           else thenA (logA (XCompact (al_messages st)))
               (thenA (modifyA (\<lambda>st. st\<lparr> al_messages := ms, al_compacted := True \<rparr>))
               (thenA (case usage of None \<Rightarrow> returnA () | Some u \<Rightarrow> account u)
               (bindA getA (\<lambda>st2. thenA (telemetry env (EvContextCompacted step (TokenUsed (al_ts st2))))
               (commitCheckpoint env su step None (-1))))))))"

definition model_identity :: "'s AEnv \<Rightarrow> Setup \<Rightarrow> string \<Rightarrow> ExecutionIdentity" where
  "model_identity env su stepID =
     \<lparr> id_RunID = su_logicalRunID su, id_StepID = stepID,
       id_InvocationID = Model_InvocationID (ae_model env) stepID (mc_Model (su_cfg su)), id_AttemptID = su_attemptID su \<rparr>"

definition call_model :: "'s AEnv \<Rightarrow> Setup \<Rightarrow> int \<Rightarrow> string \<Rightarrow> Message list \<Rightarrow> ('s, goerr + Message) aact" where
  "call_model env su step stepID ms w =
     (case Model_Generate (ae_repo env) (ae_model env) (ae_generate env (aw_log w) ms)
             \<lparr> mq_Identity = model_identity env su stepID, mq_ModelRef = mc_Model (su_cfg su), mq_Input = ms \<rparr> (aw_store w) of
        (r, s, n) \<Rightarrow> (Inr r, w\<lparr> aw_store := s, aw_log := aw_log w @ [XGenerate step ms n] \<rparr>))"

definition timed_out :: "LoopPolicy \<Rightarrow> goerr \<Rightarrow> goerr" where
  "timed_out p e = (if err_is e ErrDeadlineExceeded \<and> CallTimeout p > 0 then Wrapf ''model call timed out'' e else e)"

text \<open>The model failed: the outcome is recorded as far as possible and the run ends.\<close>

definition model_failed :: "'s AEnv \<Rightarrow> int \<Rightarrow> Step \<Rightarrow> goerr \<Rightarrow> ('s, 'a) aact" where
  "model_failed env step st e =
     bindA (recordCritical env
       (if err_is e ErrDeadlineExceeded \<or> err_is e ErrCanceled then EvInvocationUnknown step (err_str e)
        else EvInvocationFailed step (err_str e))) (\<lambda>_.
     thenA (telemetry env (EvModelResponded step)) (thenA (add_step st) (stopA LoopStatusError (Some e))))"

text \<open>The response was returned: it is recorded, accounted and made durable before it is acted on.\<close>

definition model_responded :: "'s AEnv \<Rightarrow> Setup \<Rightarrow> int \<Rightarrow> string \<Rightarrow> Message \<Rightarrow> ('s, Message) aact" where
  "model_responded env su step stepID resp =
     bindA (recordCritical env (EvInvocationSucceeded step)) (\<lambda>re. thenA (failA re)
     (thenA (telemetry env (EvModelResponded step))
     (thenA (modifyA (\<lambda>st. st\<lparr> al_last := Model_InvocationID (ae_model env) stepID (mc_Model (su_cfg su)) \<rparr>))
     (thenA (account (extractUsage resp))
     (thenA (commitCheckpoint env su step (Some resp) (-1)) (returnA resp))))))"

definition generate_step :: "'s AEnv \<Rightarrow> Setup \<Rightarrow> int \<Rightarrow> string \<Rightarrow> timestamp \<Rightarrow> ('s, Message) aact" where
  "generate_step env su step stepID start =
     thenA (commitCheckpoint env su step None (-1))
     (thenA (compact_if_due env su step)
     (bindA (askA (ae_ctxErr env)) (\<lambda>ce. thenA (case ce of None \<Rightarrow> returnA () | Some e \<Rightarrow> stopA LoopStatusCancelled (Some e))
     (bindA (recordCritical env (EvInvocationStarted step (Model_InvocationID (ae_model env) stepID (mc_Model (su_cfg su))))) (\<lambda>re.
      thenA (failA re)
     (bindA getA (\<lambda>st. bindA (call_model env su step stepID (al_messages st)) (\<lambda>r. bindA (askA (ae_now env)) (\<lambda>now.
        case r of
          Inl e \<Rightarrow> model_failed env step (new_step stepID step start now None None) (timed_out (mc_LoopPolicy (su_cfg su)) e)
        | Inr resp \<Rightarrow> model_responded env su step stepID resp)))))))))"

section \<open>Tool calls\<close>

definition new_call_record :: "'s AEnv \<Rightarrow> Setup \<Rightarrow> string \<Rightarrow> ToolCallMsg \<Rightarrow> ToolCallRecord" where
  "new_call_record env su invocationID tc =
     \<lparr> tcr_ToolCallID = tm_ID tc, tcr_InvocationID = invocationID, tcr_AttemptID = su_attemptID su,
       tcr_IdempotencyKey = ToolIdempotencyKey (ae_digest env) invocationID (tm_Name tc) (canonicalToolArguments env (tm_Arguments tc)),
       tcr_ToolName = tm_Name tc, tcr_Arguments = tm_Arguments tc, tcr_EvidenceID = [], tcr_Valid = False, tcr_Violations = [],
       tcr_Result = [], tcr_Err = [], tcr_ApprovedBy = [], tcr_Duration = 0 \<rparr>"

text \<open>A call that failed: the counter, the event, the answer in the history.\<close>

definition call_failed :: "'s AEnv \<Rightarrow> ToolCallMsg \<Rightarrow> string \<Rightarrow> string \<Rightarrow> string \<Rightarrow> ('s, unit) aact" where
  "call_failed env tc e reason feedback =
     thenA (modifyTs (\<lambda>ts. ts\<lparr> ConsecToolFail := ConsecToolFail ts + 1 \<rparr>))
     (thenA (telemetry env (EvToolCallFailed (tm_ID tc) (tm_Name tc) e reason))
     (say [ToolMessage feedback (tm_ID tc)]))"

definition record_candidate :: "'s AEnv \<Rightarrow> ToolCallMsg \<Rightarrow> ToolDefinition \<Rightarrow> EvidenceCandidate \<Rightarrow> ('s, unit) aact" where
  "record_candidate env tc td c =
     bindA (askA (ae_now env)) (\<lambda>now. bindA getA (\<lambda>st.
       case Record now (tm_ID tc) (tm_Name tc) (tool_source_str (td_Source td)) (ec_SourceURI c) (ec_Observation c) (ec_Reliability c)
              (al_ledger st) of
         (ev, l) \<Rightarrow> thenA (modifyA (\<lambda>st. st\<lparr> al_ledger := l \<rparr>))
           (telemetry env (EvEvidenceCreated (e_ID ev) (rs_Final (e_Reliability ev)) (e_Observation ev) (tm_Name tc)))))"

text \<open>The identifier of the last candidate's record.\<close>

definition last_evidence_id :: "EvidenceCandidate list \<Rightarrow> EvidenceLedger \<Rightarrow> string" where
  "last_evidence_id cs l = (if cs = [] then [] else evidence_id (l_evCounter l + int (length cs)))"

definition tool_request :: "'s AEnv \<Rightarrow> Setup \<Rightarrow> string \<Rightarrow> string \<Rightarrow> string \<Rightarrow> nat \<Rightarrow> ToolCallMsg \<Rightarrow> ToolDefinition \<Rightarrow> TRequest" where
  "tool_request env su stepID phase invocationID ordinal tc td =
     \<lparr> tq_Identity = \<lparr> id_RunID = (if su_logicalRunID su = [] then stepID else su_logicalRunID su), id_StepID = stepID,
         id_InvocationID = invocationID, id_AttemptID = su_attemptID su \<rparr>,
       tq_Definition = td, tq_ArgumentsJSON = tm_Arguments tc, tq_UserID = ac_UserID (su_actx su),
       tq_ExpectedSchema = expectedSchemaForTool (tm_Name tc) phase (ae_summarySchema env) (ae_voteSchema env) (ae_reflectionSchema env),
       tq_Ordinal = int ordinal, tq_Permission = tm_Name tc \<rparr>"

text \<open>The log of one execution: the approval where it was asked for, the lifecycle events, and the calls
  on quota, validator and executor.\<close>

definition tool_fx :: "'s AEnv \<Rightarrow> ToolCallMsg \<Rightarrow> nat \<Rightarrow> alog \<Rightarrow> tevent \<Rightarrow> alog" where
  "tool_fx env tc ordinal asked t =
     (case t of
        TApproval \<Rightarrow> asked
      | TValidated \<Rightarrow> log_event env (EvToolCallValidated (tm_ID tc) (tm_Name tc))
      | TStarted \<Rightarrow> log_event env (EvToolCallStarted (tm_ID tc) (tm_Name tc))
      | _ \<Rightarrow> [XTool (tm_ID tc) (int ordinal) t])"

text \<open>\<open>toolRuntime.Execute\<close> with the approval callback; the last component is \<^verbatim>\<open>approvalReason\<close>.\<close>

definition run_tool ::
    "'s AEnv \<Rightarrow> Setup \<Rightarrow> string \<Rightarrow> string \<Rightarrow> nat \<Rightarrow> ToolCallMsg \<Rightarrow> ToolDefinition \<Rightarrow> ('s, TResult \<times> goerr option \<times> string \<times> int) aact" where
  "run_tool env su stepID invocationID ordinal tc td w =
     (case requestApproval env su invocationID tc td (aw_log w) of (decision, lg) \<Rightarrow>
      case Tool_Execute (ae_repo env) (ae_tools env (aw_log w)) (Some decision)
             (tool_request env su stepID (al_phase (aw_st w)) invocationID ordinal tc td) (aw_store w) of ((r, eo), s, evs) \<Rightarrow>
      let lg' = aw_log w @ concat (map (tool_fx env tc ordinal (drop (length (aw_log w)) lg)) evs);
          reason = (if TApproval \<in> set evs then (case decision of Inl e \<Rightarrow> [] | Inr d \<Rightarrow> ad_Reason d) else []);
          duration = (if TStarted \<in> set evs then ae_now env lg' - ae_now env (aw_log w) else 0) in
      (Inr (r, eo, reason, duration), w\<lparr> aw_store := s, aw_log := lg' \<rparr>))"

text \<open>The tool did not execute or its execution failed.\<close>

definition tool_error :: "'s AEnv \<Rightarrow> ToolCallMsg \<Rightarrow> ToolCallRecord \<Rightarrow> goerr \<Rightarrow> string \<Rightarrow> ('s, ToolCallRecord) aact" where
  "tool_error env tc tcr e reason =
     (let rejected = err_is e ErrToolApprovalRejected;
          shown = (if rejected then ''tool rejected by human: '' @ reason else err_str e);
          feedback = (if rejected then quoteToolOutput shown
                      else ''tool '' @ tm_Name tc @ '' failed: '' @ quoteToolOutput (err_str e)) in
      thenA (call_failed env tc (err_str e) (if err_is e ErrToolArgumentsInvalid then ''args_invalid'' else []) feedback)
        (returnA (tcr\<lparr> tcr_Err := shown \<rparr>)))"

definition tool_success :: "'s AEnv \<Rightarrow> ToolCallMsg \<Rightarrow> ToolDefinition \<Rightarrow> ToolCallRecord \<Rightarrow> string \<Rightarrow> ToolExecutionResult \<Rightarrow> ('s, ToolCallRecord) aact" where
  "tool_success env tc td tcr out exec =
     (let candidates = Registry_Extract (ae_resolver env) (ae_adapters env) td exec in
      thenA (modifyTs (\<lambda>ts. ts\<lparr> ConsecToolFail := 0 \<rparr>))
      (thenA (telemetry env (EvToolCallCompleted (tm_ID tc) (tm_Name tc) (tcr_Duration tcr) (quoteToolOutput out)))
      (bindA getA (\<lambda>st.
       thenA (eachA (record_candidate env tc td) candidates)
      (thenA (say [ToolMessage (quoteToolOutput out) (tm_ID tc)])
      (returnA (tcr\<lparr> tcr_Valid := True, tcr_Result := out, tcr_EvidenceID := last_evidence_id candidates (al_ledger st) \<rparr>)))))))"

definition permitted_tool :: "'s AEnv \<Rightarrow> Setup \<Rightarrow> string \<Rightarrow> string \<Rightarrow> nat \<Rightarrow> ToolCallMsg \<Rightarrow> ToolDefinition \<Rightarrow> ToolCallRecord \<Rightarrow> ('s, ToolCallRecord) aact" where
  "permitted_tool env su stepID invocationID ordinal tc td tcr0 =
     bindA (run_tool env su stepID invocationID ordinal tc td) (\<lambda>(r, eo, reason, duration).
       let tcr = tcr0\<lparr> tcr_Arguments := tr_Arguments r, tcr_IdempotencyKey := tr_IdempotencyKey r, tcr_ApprovedBy := tr_ApprovedBy r,
             tcr_Violations := tr_Violations r, tcr_Duration := duration \<rparr> in
       case eo of
         Some e \<Rightarrow> tool_error env tc tcr e reason
       | None \<Rightarrow>
           (case tr_Execution r of
              None \<Rightarrow> tool_error env tc tcr (Errorf ''tool runtime returned no execution result'') reason
            | Some exec \<Rightarrow> tool_success env tc td tcr (tr_Output r) exec))"

text \<open>A call that never reaches the tool runtime.\<close>

definition call_unavailable :: "'s AEnv \<Rightarrow> ToolCallMsg \<Rightarrow> ToolCallRecord \<Rightarrow> string \<Rightarrow> string \<Rightarrow> ('s, ToolCallRecord) aact" where
  "call_unavailable env tc tcr e reason = thenA (call_failed env tc e reason e) (returnA (tcr\<lparr> tcr_Err := e \<rparr>))"

definition handle_tool_call :: "'s AEnv \<Rightarrow> Setup \<Rightarrow> string \<Rightarrow> nat \<Rightarrow> ToolCallMsg \<Rightarrow> ('s, ToolCallRecord) aact" where
  "handle_tool_call env su stepID ordinal tc =
     (let invocationID = NewInvocationID (ae_digest env) stepID InvocationTool (int ordinal);
          tcr = new_call_record env su invocationID tc in
      thenA (telemetry env (EvToolCallRequested (tm_ID tc) (tm_Name tc) (tm_Arguments tc)))
      (case map_of (su_defs su) (tm_Name tc) of
         None \<Rightarrow> call_unavailable env tc tcr (''tool not found: '' @ tm_Name tc) ''tool_not_found''
       | Some td \<Rightarrow>
           if \<not> ae_toolRuntime env then call_unavailable env tc tcr ''tool runtime not configured'' []
           else permitted_tool env su stepID invocationID ordinal tc td tcr))"

text \<open>The calls of one response from \<open>ordinal\<close> on; every call is made durable before it runs.\<close>

fun tool_loop :: "'s AEnv \<Rightarrow> Setup \<Rightarrow> int \<Rightarrow> string \<Rightarrow> Message \<Rightarrow> nat \<Rightarrow> bool \<Rightarrow> ToolCallMsg list \<Rightarrow> ('s, ToolCallRecord list) aact" where
  "tool_loop env su step stepID resp ordinal counted [] = returnA []"
| "tool_loop env su step stepID resp ordinal counted (tc # tcs) =
     thenA (if ordinal > 0
            then modifyA (\<lambda>st. st\<lparr> al_last := NewInvocationID (ae_digest env) stepID InvocationTool (int ordinal - 1) \<rparr>) else returnA ())
     (thenA (if counted then returnA () else modifyTs (\<lambda>ts. ts\<lparr> ToolCalls := ToolCalls ts + 1 \<rparr>))
     (thenA (commitCheckpoint env su step (Some resp) (int ordinal))
     (bindA (handle_tool_call env su stepID ordinal tc) (\<lambda>r.
      bindA (tool_loop env su step stepID resp (Suc ordinal) False tcs) (\<lambda>rs. returnA (r # rs))))))"

definition limit_reached :: "LoopPolicy \<Rightarrow> TerminationState \<Rightarrow> bool" where
  "limit_reached p ts \<longleftrightarrow> MaxToolCalls p > 0 \<and> ToolCalls ts \<ge> MaxToolCalls p"

definition skip_message :: "ToolCallMsg \<Rightarrow> Message" where
  "skip_message tc = ToolMessage ''tool call skipped: tool-call limit reached'' (tm_ID tc)"

definition limit_message :: "LoopPolicy \<Rightarrow> Message" where
  "limit_message p = UserMessage (''You have reached the tool-call limit ('' @ itoa (MaxToolCalls p) @
     ''). Stop calling tools and output your EvidenceSummary JSON now, citing the EV-IDs you have gathered.'')"

text \<open>The branch for tool calls; \<open>idx\<close> is the pending index when the response was resumed, else -1.\<close>

definition on_tool_calls :: "'s AEnv \<Rightarrow> Setup \<Rightarrow> int \<Rightarrow> Step \<Rightarrow> Message \<Rightarrow> int \<Rightarrow> ('s, unit) aact" where
  "on_tool_calls env su step sp resp idx =
     (let calls = mg_ToolCalls resp; p = mc_LoopPolicy (su_cfg su) in
      thenA (if idx < 0 then say [resp] else returnA ())
      (bindA getA (\<lambda>st.
        if limit_reached p (al_ts st) then
          thenA (say (map skip_message calls @ [limit_message p]))
          (thenA (commitCheckpoint env su (step + 1) None (-1)) (add_step sp))
        else
          bindA (tool_loop env su step (sp_ID sp) resp (nat idx) (idx \<ge> 0) (drop (nat idx) calls)) (\<lambda>recs.
          thenA (modifyA (\<lambda>st. st\<lparr> al_last := (if calls = [] then al_last st
                   else NewInvocationID (ae_digest env) (sp_ID sp) InvocationTool (int (length calls) - 1)), al_pendingIndex := -1 \<rparr>))
          (thenA (commitCheckpoint env su (step + 1) None (-1))
          (thenA (add_step (sp\<lparr> sp_ToolCalls := recs \<rparr>)) (check_termination su)))))))"

section \<open>The other responses\<close>

definition record_claim :: "'s AEnv \<Rightarrow> EvidenceSummaryClaim \<Rightarrow> ('s, unit) aact" where
  "record_claim env c =
     bindA (askA (ae_now env)) (\<lambda>now. bindA getA (\<lambda>st.
       case RecordClaim now (sc_Statement c) (sc_Supports c) (sc_Contradicts c) (al_ledger st) of
         (cl, l) \<Rightarrow> thenA (modifyA (\<lambda>st. st\<lparr> al_ledger := l \<rparr>))
           (telemetry env (EvClaimCreated (cl_ID cl) (sc_Statement c) (sc_Supports c) (sc_Contradicts c)))))"

definition submit_claim :: "'s AEnv \<Rightarrow> EvidenceSummaryClaim \<Rightarrow> ('s, unit) aact" where
  "submit_claim env c = bindA getA (\<lambda>st.
     if list_all (\<lambda>i. ExistsCollected (al_ledger st) i []) (sc_Supports c) then record_claim env c else returnA ())"

definition on_claims :: "'s AEnv \<Rightarrow> Step \<Rightarrow> Message \<Rightarrow> EvidenceSummaryClaim list \<Rightarrow> ('s, unit) aact" where
  "on_claims env sp resp claims =
     thenA (say [resp]) (thenA (eachA (submit_claim env) claims)
     (bindA getA (\<lambda>st. thenA (say [UserMessage (BuildClaimFeedback claims (al_ledger st))]) (add_step sp))))"

definition gate_failed :: "'s AEnv \<Rightarrow> Setup \<Rightarrow> Step \<Rightarrow> Message \<Rightarrow> GateResult \<Rightarrow> ('s, unit) aact" where
  "gate_failed env su sp resp g =
     thenA (telemetry env (EvEvidenceGateFailed (gateViolationsMsg (ae_say env) g)))
     (thenA (modifyTs (\<lambda>ts. ts\<lparr> GateFail := GateFail ts + 1 \<rparr>))
     (bindA getA (\<lambda>st.
       let hint = AvailableEvidenceHint (al_ledger st) 8;
           fix_hint = ''Evidence gate failed: '' @ gateViolationsMsg (ae_say env) g @ ''; gather more evidence or fix your EvidenceSummary.'' @
             (if hint \<noteq> [] then '' '' @ hint else []) in
       thenA (say [resp, UserMessage fix_hint]) (thenA (add_step sp) (check_termination su)))))"

definition gate_passed :: "'s AEnv \<Rightarrow> Setup \<Rightarrow> int \<Rightarrow> Step \<Rightarrow> Message \<Rightarrow> EvidenceSummary \<Rightarrow> ('s, unit) aact" where
  "gate_passed env su step sp resp s =
     (let debating = ac_DebateContext (su_actx su) \<noteq> None in
      thenA (telemetry env EvEvidenceGatePassed)
      (thenA (modifyResult (\<lambda>r. r\<lparr> lr_Summary := Some s \<rparr>))
      (thenA (eachA (record_claim env) (s_Claims s))
      (thenA (say [resp, UserMessage (if debating then reflection_transition else vote_transition)])
      (thenA (modifyA (\<lambda>st. st\<lparr> al_phase := (if debating then ''reconsider_reflect'' else ''vote'') \<rparr>))
      (thenA (commitCheckpoint env su (step + 1) None (-1)) (add_step sp)))))))"

definition on_summary :: "'s AEnv \<Rightarrow> Setup \<Rightarrow> int \<Rightarrow> Step \<Rightarrow> Message \<Rightarrow> EvidenceSummary \<Rightarrow> ('s, unit) aact" where
  "on_summary env su step sp resp s =
     thenA (modifyA (\<lambda>st. st\<lparr> al_ledger := RecomputeCorroboration (s_Claims s) (al_ledger st) \<rparr>))
     (bindA getA (\<lambda>st.
       let g = summary_verdict (ae_registry env) (su_cfg su) (su_std su) (su_hasTools su) s (al_ledger st) in
       if Passed g then gate_passed env su step sp resp s else gate_failed env su sp resp g))"

definition on_reflection :: "'s AEnv \<Rightarrow> Setup \<Rightarrow> int \<Rightarrow> Step \<Rightarrow> Message \<Rightarrow> Reflection \<Rightarrow> ('s, unit) aact" where
  "on_reflection env su step sp resp rf =
     thenA (modifyResult (\<lambda>r. r\<lparr> lr_Reflection := Some rf \<rparr>))
     (thenA (say [resp, UserMessage ''Reflection recorded. Now output the Vote JSON.''])
     (thenA (modifyA (\<lambda>st. st\<lparr> al_phase := ''vote'' \<rparr>))
     (thenA (commitCheckpoint env su (step + 1) None (-1)) (add_step sp))))"

definition vote_refused :: "Step \<Rightarrow> Message \<Rightarrow> string \<Rightarrow> ('s, unit) aact" where
  "vote_refused sp resp feedback = thenA (say [resp, UserMessage feedback]) (add_step sp)"

definition on_vote :: "'s AEnv \<Rightarrow> Setup \<Rightarrow> Step \<Rightarrow> Message \<Rightarrow> Vote \<Rightarrow> ('s, unit) aact" where
  "on_vote env su sp resp v = bindA getA (\<lambda>st.
     case ValidateVoteDimensions (Some v) (mc_Objective (su_cfg su)) of
       Some e \<Rightarrow> vote_refused sp resp (''Vote dimension check failed: '' @ e @ ''; fix and output a valid Vote JSON.'')
     | None \<Rightarrow>
         (case ValidateRoleDecision (Some v) (lr_Summary (al_result st)) (mc_RolePolicy (su_cfg su)) (mc_Objective (su_cfg su)) of
            Some e \<Rightarrow> vote_refused sp resp (''Role decision check failed: '' @ ae_sayRole env e @
                        ''; revise the role assessment or output a valid Vote JSON.'')
          | None \<Rightarrow>
              thenA (modifyResult (\<lambda>r. r\<lparr> lr_Vote := Some v \<rparr>))
              (thenA (telemetry env (EvVoteSubmitted (v_Decision v) (v_Confidence v) (v_ReasoningSummary v)))
              (thenA (add_step (sp\<lparr> sp_IsFinal := True \<rparr>)) (stopA LoopStatusCompleted None)))))"

definition on_invalid :: "Step \<Rightarrow> Message \<Rightarrow> ('s, unit) aact" where
  "on_invalid sp resp =
     thenA (modifyTs (\<lambda>ts. ts\<lparr> ValidationFail := ValidationFail ts + 1 \<rparr>))
     (thenA (say [resp, UserMessage ''Invalid response. In gather phase output EvidenceSummary JSON; in vote phase output Vote JSON.''])
     (add_step sp))"

section \<open>One step\<close>

definition on_response :: "'s AEnv \<Rightarrow> Setup \<Rightarrow> int \<Rightarrow> Step \<Rightarrow> Message \<Rightarrow> int \<Rightarrow> ('s, unit) aact" where
  "on_response env su step sp resp0 idx = bindA getA (\<lambda>st.
     let resp = unwrapFunctionCall (ae_validators env) resp0 in
     case parseResponse (ae_validators env) resp (al_phase st) of
       ResponseToolCall \<Rightarrow> on_tool_calls env su step sp resp idx
     | ResponseClaimSubmission claims \<Rightarrow> on_claims env sp resp claims
     | ResponseEvidenceSummary s \<Rightarrow> on_summary env su step sp resp s
     | ResponseReflection rf \<Rightarrow> on_reflection env su step sp resp rf
     | ResponseVote v \<Rightarrow> on_vote env su sp resp v
     | ResponseInvalid \<Rightarrow> on_invalid sp resp)"

definition agent_step :: "'s AEnv \<Rightarrow> Setup \<Rightarrow> int \<Rightarrow> ('s, unit) aact" where
  "agent_step env su step =
     (let stepID = NewStepID (ae_digest env) (su_logicalRunID su) step in
      bindA (askA (ae_now env)) (\<lambda>start. bindA (askA (ae_leaseLost env)) (\<lambda>lost.
      if lost then stopA LoopStatusCancelled (Some ErrLeaseLost)
      else bindA getA (\<lambda>st0.
        bindA (case al_pending st0 of
                 Some m \<Rightarrow> thenA (modifyA (\<lambda>st. st\<lparr> al_pending := None \<rparr>)) (returnA m)
               | None \<Rightarrow> generate_step env su step stepID start) (\<lambda>resp.
        bindA (askA (ae_now env)) (\<lambda>now.
          let resuming = al_pending st0 \<noteq> None;
              sp = new_step stepID step start now (Some resp) (if resuming then None else Some (extractUsage resp)) in
          bindA getA (\<lambda>st.
            case CheckTermination (al_ts st) (mc_LoopPolicy (su_cfg su)) of
              Some (status, e) \<Rightarrow> thenA (add_step sp) (stopA status (Some e))
            | None \<Rightarrow> on_response env su step sp resp (if resuming then al_pendingIndex st else -1))))))))"

text \<open>\<open>n\<close> is the number of steps left.\<close>

primrec agent_loop :: "'s AEnv \<Rightarrow> Setup \<Rightarrow> nat \<Rightarrow> int \<Rightarrow> ('s, unit) aact" where
  "agent_loop env su 0 step = stopA LoopStatusMaxSteps (Some ErrMaxSteps)"
| "agent_loop env su (Suc n) step = thenA (agent_step env su step) (agent_loop env su n (step + 1))"

section \<open>A run\<close>

definition fresh_state :: "MagiConfig \<Rightarrow> AgentContext \<Rightarrow> string \<Rightarrow> timestamp \<Rightarrow> LoopState" where
  "fresh_state cfg actx systemPrompt now =
     (let ledger = NewEvidenceLedger (ac_CaseID actx) (ac_RunID actx) (mc_Code cfg) in
      \<lparr> al_messages = [SystemMessage systemPrompt, UserMessage (t_CanonicalQuestion (ac_Task actx))],
        al_ts = \<lparr> GateFail = 0, ConsecToolFail = 0, TokenUsed = 0, ValidationFail = 0, ToolCalls = 0 \<rparr>,
        al_phase = (if ac_DebateContext actx \<noteq> None then ''reconsider_gather'' else ''gather''),
        al_compacted = False, al_ledger = ledger, al_last = [],
        al_result = \<lparr> lr_FinalAnswer = [], lr_Vote = None, lr_Summary = None, lr_Reflection = None,
          lr_Trace = Some \<lparr> lt_StartedAt = now, lt_CompletedAt = 0, lt_Status = LoopStatusOther [], lt_Steps = [] \<rparr>,
          lr_Ledger = None, lr_Usage = None, lr_Status = LoopStatusOther [], lr_Err = None \<rparr>,
        al_pending = None, al_pendingIndex = -1 \<rparr>)"

definition max_steps :: "MagiConfig \<Rightarrow> int" where
  "max_steps cfg = (if MaxSteps (mc_LoopPolicy cfg) \<le> 0 then 12 else MaxSteps (mc_LoopPolicy cfg))"

text \<open>The result the run returns: status and error of the stop, the trace finalized, the ledger, and the
  cost of the tokens where the provider reported none (the deferred function).\<close>

definition finish_result :: "MagiConfig \<Rightarrow> timestamp \<Rightarrow> stop \<Rightarrow> LoopState \<Rightarrow> LoopResult" where
  "finish_result cfg now s st =
     (al_result st)\<lparr> lr_Status := fst s, lr_Err := snd s, lr_Ledger := Some (al_ledger st),
        lr_Trace := map_option (finalizeTrace now (fst s)) (lr_Trace (al_result st)),
        lr_Usage := map_option (\<lambda>u. if u_CostUSD u = 0
          then u\<lparr> u_CostUSD := Usage_Cost (Some u) (mr_PricePerMInputUSD (mc_Model cfg)) (mr_PricePerMOutputUSD (mc_Model cfg)) \<rparr> else u)
          (lr_Usage (al_result st)) \<rparr>"

text \<open>The part of \<^verbatim>\<open>run\<close> from the first termination check on.\<close>

definition run_loop :: "'s AEnv \<Rightarrow> Setup \<Rightarrow> int \<Rightarrow> 's AWorld \<Rightarrow> stop \<times> 's AWorld" where
  "run_loop env su start w =
     (case thenA (check_termination su) (agent_loop env su (nat (max_steps (su_cfg su) - start + 1)) start) w of
        (Inl s, w') \<Rightarrow> (s, w')
      | (Inr _, w') \<Rightarrow> ((LoopStatusMaxSteps, Some ErrMaxSteps), w'))"

text \<open>The tools of the run: listed, indexed by name, bound to the model.\<close>

definition resolve_tools :: "'s AEnv \<Rightarrow> MagiConfig \<Rightarrow> AgentContext \<Rightarrow> alog \<Rightarrow> (goerr + (string, ToolDefinition) gomap) \<times> alog" where
  "resolve_tools env cfg actx lg =
     (let bindings = effective_bindings cfg actx in
      if \<not> ae_toolReg env \<or> bindings = [] then (Inr [], lg)
      else
        let lg1 = lg @ [XListTools bindings] in
        case ae_list env lg bindings of
          Inl e \<Rightarrow> (Inl (Wrapf ''agent loop: list tools'' e), lg1)
        | Inr defs \<Rightarrow>
            let index = index_tools defs in
            if index = [] then (Inr [], lg1)
            else (case ae_bind env lg1 of
                    Some e \<Rightarrow> (Inl (Wrapf ''agent loop: bind tools'' e), lg1 @ [XBindTools (map fst index)])
                  | None \<Rightarrow> (Inr index, lg1 @ [XBindTools (map fst index)])))"

definition setup_run :: "'s AEnv \<Rightarrow> MagiConfig \<Rightarrow> AgentContext \<Rightarrow> (string, ToolDefinition) gomap \<Rightarrow> string \<Rightarrow> Setup" where
  "setup_run env cfg actx defs systemPrompt =
     \<lparr> su_cfg = cfg, su_actx = actx, su_defs = defs, su_hasTools = (defs \<noteq> []),
       su_std = RelaxEvidenceStandard (mc_EvidenceStandard cfg) (defs \<noteq> []),
       su_manifest = CheckpointManifest (ae_digest env) (ae_json env) cfg actx systemPrompt,
       su_logicalRunID = fst (traceIdentity (ac_RunID actx)), su_attemptID = snd (traceIdentity (ac_RunID actx)) \<rparr>"

text \<open>\<^verbatim>\<open>l.prompts\<close> is never set by \<^verbatim>\<open>NewAgentLoop\<close>, so the prompt is built without a provider.\<close>

definition system_prompt :: "'s AEnv \<Rightarrow> MagiConfig \<Rightarrow> AgentContext \<Rightarrow> bool \<Rightarrow> string" where
  "system_prompt env cfg actx hasTools =
     BuildAgentSystemPromptCtx None (Some cfg) (ae_summarySchema env) (ae_voteSchema env) (ae_reflectionSchema env)
       (ac_DebateContext actx) hasTools (ac_KnowledgeCtx actx)"

definition load_checkpoint :: "'s AEnv \<Rightarrow> Setup \<Rightarrow> alog \<Rightarrow> (goerr + checkpoint) \<times> alog" where
  "load_checkpoint env su lg =
     (let actx = su_actx su in
      if ac_RunID actx = [] then (Inr NoCheckpoint, lg)
      else case LoadForExecution env (ac_Execution actx) (ac_RunID actx) lg of
        (Inl e, lg') \<Rightarrow> (Inl (Wrapf ''agent loop: load checkpoint'' e), lg')
      | (Inr so, lg') \<Rightarrow> (accept_checkpoint (ae_codec env) (ac_RunID actx) (su_manifest su) so, lg'))"

definition agent_run :: "'s AEnv \<Rightarrow> MagiConfig option \<Rightarrow> AgentContext \<Rightarrow> alog \<Rightarrow> 's \<Rightarrow> (LoopResult option \<times> goerr option) \<times> alog \<times> 's" where
  "agent_run env cfgo actx lg store =
     (case cfgo of
        None \<Rightarrow> ((None, Some (Errorf ''agent loop: nil config'')), lg, store)
      | Some cfg \<Rightarrow>
          let lg0 = lg @ [XBuild (mc_Model cfg)] in
          case ae_build env lg of
            Some e \<Rightarrow> ((None, Some (Wrapf ''agent loop: build model'' e)), lg0, store)
          | None \<Rightarrow> (case resolve_tools env cfg actx lg0 of
            (Inl e, lg1) \<Rightarrow> ((None, Some e), lg1, store)
          | (Inr defs, lg1) \<Rightarrow>
              let systemPrompt = system_prompt env cfg actx (defs \<noteq> []); su = setup_run env cfg actx defs systemPrompt in
              (case load_checkpoint env su lg1 of
                 (Inl e, lg2) \<Rightarrow> ((None, Some e), lg2, store)
               | (Inr c, lg2) \<Rightarrow>
                   (case restore_checkpoint (ae_codec env) (ae_validators env) (ae_registry env) (ae_say env) cfg (su_std su) (su_hasTools su) c
                           (fresh_state cfg actx systemPrompt (ae_now env lg2)) of
                      Inl e \<Rightarrow> ((None, Some e), lg2, store)
                    | Inr (st, start) \<Rightarrow>
                        (case run_loop env su start \<lparr> aw_log = lg2, aw_store = store, aw_st = st \<rparr> of
                           (s, w) \<Rightarrow> ((Some (finish_result cfg (ae_now env (aw_log w)) s (aw_st w)), snd s), aw_log w, aw_store w))))))"

fun loop_status_str :: "LoopStatus \<Rightarrow> string" where
  "loop_status_str LoopStatusCompleted = ''completed''"
| "loop_status_str LoopStatusMaxSteps = ''max_steps''"
| "loop_status_str LoopStatusCancelled = ''cancelled''"
| "loop_status_str LoopStatusError = ''error''"
| "loop_status_str LoopStatusGateFailed = ''gate_failed''"
| "loop_status_str LoopStatusTokenBudget = ''token_budget_exceeded''"
| "loop_status_str LoopStatusToolFailures = ''tool_failures''"
| "loop_status_str LoopStatusValidationFailed = ''validation_failed''"
| "loop_status_str (LoopStatusOther s) = s"

definition Agent_Run :: "'s AEnv \<Rightarrow> MagiConfig option \<Rightarrow> AgentContext \<Rightarrow> alog \<Rightarrow> 's \<Rightarrow> (LoopResult option \<times> goerr option) \<times> alog \<times> 's" where
  "Agent_Run env cfgo actx lg store =
     (case agent_run env cfgo actx lg store of ((r, e), lg', s') \<Rightarrow>
      ((r, e), lg' @ (case cfgo of
         None \<Rightarrow> []
       | Some cfg \<Rightarrow> if ae_taskTree env \<and> ac_CaseID actx \<noteq> []
                     then [XRecordAgent (mc_Code cfg) (case r of None \<Rightarrow> [] | Some x \<Rightarrow> loop_status_str (lr_Status x))] else []), s'))"

end
