(* ===== verification/AgentFrames.thy ===== *)
theory AgentFrames
  imports AgentLoop
begin

text \<open>
  How the parts of the agent loop change the world. \<open>moves R m\<close>: the action takes every world to one
  that R relates it to, whatever it returns. For a preorder R this is compositional, which the
  locale \<open>world_order\<close> proves once; each property of the loop interprets it with the relation it
  needs. \<open>stops S m\<close>: the action leaves the loop only with a stop in S.
\<close>

section \<open>Compositional rules\<close>

named_theorems stop_rules \<open>rules that decompose \<open>stops\<close> along an action\<close>

definition moves :: "('s AWorld \<Rightarrow> 's AWorld \<Rightarrow> bool) \<Rightarrow> ('s, 'a) aact \<Rightarrow> bool" where
  "moves R m \<longleftrightarrow> (\<forall>w. R w (snd (m w)))"

definition stops :: "(stop \<Rightarrow> bool) \<Rightarrow> ('s, 'a) aact \<Rightarrow> bool" where
  "stops S m \<longleftrightarrow> (\<forall>w s w'. m w = (Inl s, w') \<longrightarrow> S s)"

lemma movesD: "moves R m \<Longrightarrow> m w = (r, w') \<Longrightarrow> R w w'"
  by (metis moves_def snd_conv)

lemma stopsD: "stops S m \<Longrightarrow> m w = (Inl s, w') \<Longrightarrow> S s"
  unfolding stops_def by blast

lemma stops_return [stop_rules]: "stops S (returnA x)"
  by (simp add: stops_def returnA_def)

lemma stops_stop [stop_rules]: "S (status, e) \<Longrightarrow> stops S (stopA status e)"
  by (simp add: stops_def stopA_def)

lemma stops_bind [stop_rules]: "stops S m \<Longrightarrow> (\<And>x. stops S (k x)) \<Longrightarrow> stops S (bindA m k)"
  unfolding stops_def bindA_def by (fastforce split: prod.splits sum.splits)

lemma stops_then [stop_rules]: "stops S m \<Longrightarrow> stops S k \<Longrightarrow> stops S (thenA m k)"
  by (simp add: thenA_def stops_bind)

lemma stops_basic [stop_rules]: "stops S getA" "stops S (askA f)" "stops S (modifyA g)" "stops S (logA fx)"
  by (simp_all add: stops_def getA_def askA_def modifyA_def logA_def)

lemma stops_each [stop_rules]: "(\<And>x. stops S (f x)) \<Longrightarrow> stops S (eachA f xs)"
  by (induction xs) (auto intro: stop_rules)

lemma stops_if [stop_rules]: "(b \<Longrightarrow> stops S m) \<Longrightarrow> (\<not> b \<Longrightarrow> stops S n) \<Longrightarrow> stops S (if b then m else n)"
  by simp

lemma stops_option [stop_rules]:
  "(x = None \<Longrightarrow> stops S m) \<Longrightarrow> (\<And>y. x = Some y \<Longrightarrow> stops S (n y)) \<Longrightarrow> stops S (case x of None \<Rightarrow> m | Some y \<Rightarrow> n y)"
  by (cases x) simp_all

lemma stops_sum [stop_rules]:
  "(\<And>y. x = Inl y \<Longrightarrow> stops S (m y)) \<Longrightarrow> (\<And>y. x = Inr y \<Longrightarrow> stops S (n y)) \<Longrightarrow> stops S (case x of Inl y \<Rightarrow> m y | Inr y \<Rightarrow> n y)"
  by (cases x) simp_all

lemma stops_prod [stop_rules]: "(\<And>a b. p = (a, b) \<Longrightarrow> stops S (f a b)) \<Longrightarrow> stops S (case p of (a, b) \<Rightarrow> f a b)"
  by (cases p) simp

lemma stops_Let [stop_rules]: "(\<And>x. stops S (f x)) \<Longrightarrow> stops S (Let e f)"
  by simp

locale world_order =
  fixes R :: "'s AWorld \<Rightarrow> 's AWorld \<Rightarrow> bool"
  assumes refl: "R w w" and trans: "R w w' \<Longrightarrow> R w' w'' \<Longrightarrow> R w w''"
begin

lemma return: "moves R (returnA x)"
  by (simp add: moves_def returnA_def refl)

lemma stop: "moves R (stopA status e)"
  by (simp add: moves_def stopA_def refl)

lemma get: "moves R getA"
  by (simp add: moves_def getA_def refl)

lemma ask: "moves R (askA f)"
  by (simp add: moves_def askA_def refl)

lemma bind: "moves R m \<Longrightarrow> (\<And>x. moves R (k x)) \<Longrightarrow> moves R (bindA m k)"
  unfolding moves_def
proof (intro allI)
  fix w
  assume m: "\<forall>w. R w (snd (m w))" and k: "\<And>x. \<forall>w. R w (snd (k x w))"
  obtain r w' where w': "m w = (r, w')" by fastforce
  then have "R w w'" using m by (metis snd_conv)
  then show "R w (snd (bindA m k w))"
    using w' k trans [of w w'] by (cases r) (auto simp: bindA_def)
qed

lemma seq: "moves R m \<Longrightarrow> moves R k \<Longrightarrow> moves R (thenA m k)"
  by (simp add: thenA_def bind)

lemma each: "(\<And>x. moves R (f x)) \<Longrightarrow> moves R (eachA f xs)"
  by (induction xs) (auto intro: return seq)

lemma cond: "(b \<Longrightarrow> moves R m) \<Longrightarrow> (\<not> b \<Longrightarrow> moves R n) \<Longrightarrow> moves R (if b then m else n)"
  by simp

lemma option: "(x = None \<Longrightarrow> moves R m) \<Longrightarrow> (\<And>y. x = Some y \<Longrightarrow> moves R (n y)) \<Longrightarrow> moves R (case x of None \<Rightarrow> m | Some y \<Rightarrow> n y)"
  by (cases x) simp_all

lemma sum: "(\<And>y. x = Inl y \<Longrightarrow> moves R (m y)) \<Longrightarrow> (\<And>y. x = Inr y \<Longrightarrow> moves R (n y)) \<Longrightarrow>
    moves R (case x of Inl y \<Rightarrow> m y | Inr y \<Rightarrow> n y)"
  by (cases x) simp_all

lemma prod: "(\<And>a b. p = (a, b) \<Longrightarrow> moves R (f a b)) \<Longrightarrow> moves R (case p of (a, b) \<Rightarrow> f a b)"
  by (cases p) simp

lemma letin: "(\<And>x. moves R (f x)) \<Longrightarrow> moves R (Let e f)"
  by simp

lemma modify: "(\<And>w. R w (w\<lparr> aw_st := f (aw_st w) \<rparr>)) \<Longrightarrow> moves R (modifyA f)"
  by (simp add: moves_def modifyA_def)

lemma log: "(\<And>w. R w (w\<lparr> aw_log := aw_log w @ [fx] \<rparr>)) \<Longrightarrow> moves R (logA fx)"
  by (simp add: moves_def logA_def)

lemmas rules = return stop get ask bind seq each cond option sum prod letin

end

section \<open>Stops with an error\<close>

text \<open>Every stop but the one after a valid vote carries an error and is not completed.\<close>

definition failing :: "stop \<Rightarrow> bool" where
  "failing s \<longleftrightarrow> fst s \<noteq> LoopStatusCompleted \<and> snd s \<noteq> None"

lemma failing_simps [simp]: "failing (status, Some e) \<longleftrightarrow> status \<noteq> LoopStatusCompleted" "\<not> failing (status, None)"
  by (simp_all add: failing_def)

lemma stops_fail [stop_rules]: "stops failing (failA eo)"
  unfolding failA_def by (auto intro!: stop_rules)

lemma stops_events [stop_rules]: "stops S (telemetry env ev)" "stops S (recordCritical env ev)"
  unfolding telemetry_def recordCritical_def by (auto intro!: stop_rules)

lemma stops_commit [stop_rules]: "stops failing (commitCheckpoint env su n p i)"
  unfolding commitCheckpoint_def checkpoint_error_def CommitForExecution_def save_checkpoint_def by (intro stop_rules)

lemma stops_state [stop_rules]: "stops S (add_step sp)" "stops S (say ms)" "stops S (modifyTs f)" "stops S (modifyResult g)" "stops S (account u)"
  unfolding add_step_def say_def modifyTs_def modifyResult_def account_def by (intro stop_rules)+

lemma stops_check [stop_rules]: "stops failing (check_termination su)"
  unfolding check_termination_def by (intro stop_rules) (auto dest: CheckTermination_not_completed)

lemma stops_generate [stop_rules]: "stops failing (generate_step env su step stepID start)"
proof -
  have "stops failing (call_model env su step stepID ms)" for ms
    unfolding stops_def call_model_def by (auto split: prod.splits)
  then show ?thesis
    unfolding generate_step_def compact_if_due_def model_failed_def model_responded_def by (intro stop_rules) simp_all
qed

lemma stops_ledger [stop_rules]: "stops S (record_candidate env tc td c)" "stops S (record_claim env cl)" "stops S (submit_claim env cl)"
  unfolding record_candidate_def record_claim_def submit_claim_def by (intro stop_rules)+

lemma stops_tool_call [stop_rules]: "stops S (handle_tool_call env su stepID ordinal tc)"
proof -
  have "stops S (run_tool env su stepID i ordinal tc td)" for i td
    unfolding stops_def run_tool_def by (auto simp: Let_def split: prod.splits)
  then show ?thesis
    unfolding handle_tool_call_def permitted_tool_def tool_error_def tool_success_def call_failed_def call_unavailable_def by (intro stop_rules)
qed

lemma stops_tool_loop [stop_rules]: "stops failing (tool_loop env su step stepID resp ordinal counted tcs)"
  by (induction tcs arbitrary: ordinal counted) (auto intro!: stop_rules)

lemma stops_gate [stop_rules]: "stops failing (gate_failed env su sp resp g)" "stops failing (gate_passed env su step sp resp s)"
  unfolding gate_failed_def gate_passed_def by (intro stop_rules)+

lemma stops_responses [stop_rules]:
  "stops failing (on_tool_calls env su step sp resp idx)" "stops failing (on_claims env sp resp claims)"
  "stops failing (on_summary env su step sp resp s)" "stops failing (on_reflection env su step sp resp rf)"
  "stops failing (on_invalid sp resp)" "stops S (vote_refused sp resp text)"
  unfolding on_tool_calls_def on_claims_def on_summary_def on_reflection_def on_invalid_def vote_refused_def
  by (intro stop_rules)+

section \<open>Triples\<close>

text \<open>From P the action returns with Q or stops with F.\<close>

definition spec :: "('s AWorld \<Rightarrow> bool) \<Rightarrow> ('s, 'a) aact \<Rightarrow> ('a \<Rightarrow> 's AWorld \<Rightarrow> bool) \<Rightarrow> (stop \<Rightarrow> 's AWorld \<Rightarrow> bool) \<Rightarrow> bool" where
  "spec P m Q F \<longleftrightarrow> (\<forall>w. P w \<longrightarrow> (case m w of (Inl s, w') \<Rightarrow> F s w' | (Inr x, w') \<Rightarrow> Q x w'))"

named_theorems spec_rules \<open>rules that decompose a triple along an action\<close>

lemma specD: "spec P m Q F \<Longrightarrow> P w \<Longrightarrow> m w = (r, w') \<Longrightarrow> (case r of Inl s \<Rightarrow> F s w' | Inr x \<Rightarrow> Q x w')"
  unfolding spec_def by (fastforce split: sum.splits)

lemma spec_conseq: "spec P' m Q' F' \<Longrightarrow> (\<And>w. P w \<Longrightarrow> P' w) \<Longrightarrow> (\<And>x w. Q' x w \<Longrightarrow> Q x w) \<Longrightarrow> (\<And>s w. F' s w \<Longrightarrow> F s w) \<Longrightarrow> spec P m Q F"
  unfolding spec_def by (fastforce split: prod.splits sum.splits)

lemma weak_pre: "spec P m Q F \<Longrightarrow> spec (\<lambda>w. P w \<and> X w) m Q F"
  by (erule spec_conseq) auto

lemma spec_absurd: "(\<And>w. \<not> P w) \<Longrightarrow> spec P m Q F"
  by (simp add: spec_def)

lemma spec_return [spec_rules]: "(\<And>w. P w \<Longrightarrow> Q x w) \<Longrightarrow> spec P (returnA x) Q F"
  by (simp add: spec_def returnA_def)

lemma spec_stop [spec_rules]: "(\<And>w. P w \<Longrightarrow> F (status, e) w) \<Longrightarrow> spec P (stopA status e) Q F"
  by (simp add: spec_def stopA_def)

lemma spec_modify [spec_rules]: "(\<And>w. P w \<Longrightarrow> Q () (w\<lparr> aw_st := f (aw_st w) \<rparr>)) \<Longrightarrow> spec P (modifyA f) Q F"
  by (simp add: spec_def modifyA_def)

lemma spec_log [spec_rules]: "(\<And>w. P w \<Longrightarrow> Q () (w\<lparr> aw_log := aw_log w @ [fx] \<rparr>)) \<Longrightarrow> spec P (logA fx) Q F"
  by (simp add: spec_def logA_def)

lemma spec_bind:
  assumes "spec P m R F" and "\<And>x. spec (R x) (k x) Q F"
  shows "spec P (bindA m k) Q F"
  unfolding spec_def
proof (intro allI impI)
  fix w
  assume "P w"
  obtain r w' where w': "m w = (r, w')" by fastforce
  then have r: "case r of Inl s \<Rightarrow> F s w' | Inr x \<Rightarrow> R x w'" using specD [OF assms(1) \<open>P w\<close>] by blast
  show "case bindA m k w of (Inl s, w') \<Rightarrow> F s w' | (Inr x, w') \<Rightarrow> Q x w'"
    using w' r assms(2) by (cases r) (simp_all add: bindA_def spec_def)
qed

lemma spec_then: "spec P m (\<lambda>_. R) F \<Longrightarrow> spec R k Q F \<Longrightarrow> spec P (thenA m k) Q F"
  unfolding thenA_def by (rule spec_bind)

lemma spec_get: "(\<And>st. spec (\<lambda>w. P w \<and> aw_st w = st) (k st) Q F) \<Longrightarrow> spec P (bindA getA k) Q F"
  by (simp add: spec_def bindA_def getA_def)

lemma spec_ask: "(\<And>x. spec (\<lambda>w. P w \<and> x = f (aw_log w)) (k x) Q F) \<Longrightarrow> spec P (bindA (askA f) k) Q F"
  by (simp add: spec_def bindA_def askA_def)

lemma spec_if [spec_rules]: "(b \<Longrightarrow> spec P m Q F) \<Longrightarrow> (\<not> b \<Longrightarrow> spec P n Q F) \<Longrightarrow> spec P (if b then m else n) Q F"
  by simp

lemma spec_option [spec_rules]:
  "(x = None \<Longrightarrow> spec P m Q F) \<Longrightarrow> (\<And>y. x = Some y \<Longrightarrow> spec P (n y) Q F) \<Longrightarrow> spec P (case x of None \<Rightarrow> m | Some y \<Rightarrow> n y) Q F"
  by (cases x) simp_all

lemma spec_Let [spec_rules]: "(\<And>x. x = e \<Longrightarrow> spec P (f x) Q F) \<Longrightarrow> spec P (Let e f) Q F"
  by simp

text \<open>An action that moves by R, stops with S, and a predicate that R preserves.\<close>

lemma spec_moves:
  assumes "moves R m" and "stops S m" and "\<And>w w'. P w \<Longrightarrow> R w w' \<Longrightarrow> P w'" and "\<And>s w. S s \<Longrightarrow> P w \<Longrightarrow> F s w"
  shows "spec P m (\<lambda>_. P) F"
  unfolding spec_def
proof (intro allI impI)
  fix w
  assume "P w"
  obtain r w' where w': "m w = (r, w')" by fastforce
  then have "P w'" using assms(3) [OF \<open>P w\<close>] movesD [OF assms(1)] by blast
  then show "case m w of (Inl s, w') \<Rightarrow> F s w' | (Inr x, w') \<Rightarrow> P w'"
    using w' stopsD [OF assms(2)] assms(4) by (cases r) auto
qed

end
