(* ===== verification/AgentVote.thy ===== *)
theory AgentVote
  imports AgentFrames
begin

text \<open>
  Why a vote of the agent loop is a vote about a summary that passed the gate: between the gate and
  the vote nothing changes the summary, and the ledger only grows.
\<close>

section \<open>Actions that leave summary, vote and phase alone\<close>

definition quiet :: "'s AWorld \<Rightarrow> 's AWorld \<Rightarrow> bool" where
  "quiet w w' \<longleftrightarrow>
     al_phase (aw_st w') = al_phase (aw_st w) \<and> lr_Summary (al_result (aw_st w')) = lr_Summary (al_result (aw_st w)) \<and>
     lr_Vote (al_result (aw_st w')) = lr_Vote (al_result (aw_st w)) \<and>
     prefix (l_recordOrder (al_ledger (aw_st w))) (l_recordOrder (al_ledger (aw_st w')))"

interpretation quiet: world_order quiet
  by unfold_locales (auto simp: quiet_def)

named_theorems quiet_rules \<open>actions that are quiet\<close>

declare quiet.rules [quiet_rules]

lemma quiet_log [quiet_rules]: "moves quiet (logA fx)"
  by (simp add: quiet.log quiet_def)

lemma quiet_events [quiet_rules]: "moves quiet (telemetry env ev)" "moves quiet (recordCritical env ev)" "moves quiet (failA eo)"
  unfolding telemetry_def recordCritical_def failA_def by (intro quiet_rules)+

lemma quiet_commit [quiet_rules]: "moves quiet (commitCheckpoint env su n p i)"
  unfolding commitCheckpoint_def checkpoint_error_def CommitForExecution_def save_checkpoint_def by (intro quiet_rules)

lemma quiet_state [quiet_rules]:
  "moves quiet (add_step sp)" "moves quiet (say ms)" "moves quiet (modifyTs f)" "moves quiet (account u)"
  unfolding add_step_def say_def modifyTs_def account_def by (rule quiet.modify; simp add: quiet_def)+

lemma quiet_fields [quiet_rules]:
  "moves quiet (modifyA (\<lambda>st. st\<lparr> al_last := f st \<rparr>))" "moves quiet (modifyA (\<lambda>st. st\<lparr> al_last := f st, al_pendingIndex := i \<rparr>))"
  "moves quiet (modifyA (\<lambda>st. st\<lparr> al_pending := p \<rparr>))" "moves quiet (modifyA (\<lambda>st. st\<lparr> al_messages := ms, al_compacted := b \<rparr>))"
  "moves quiet (modifyA (\<lambda>st. st\<lparr> al_ledger := RecomputeCorroboration cs (al_ledger st) \<rparr>))"
  by (rule quiet.modify; simp add: quiet_def RecomputeCorroboration_def)+

lemma quiet_check [quiet_rules]: "moves quiet (check_termination su)"
  unfolding check_termination_def by (intro quiet_rules)

lemma quiet_generate [quiet_rules]: "moves quiet (generate_step env su step stepID start)"
proof -
  have "moves quiet (call_model env su step stepID ms)" for ms
    unfolding moves_def call_model_def quiet_def by (auto split: prod.splits)
  then show ?thesis
    unfolding generate_step_def compact_if_due_def model_failed_def model_responded_def by (intro quiet_rules)
qed

lemma quiet_ledger [quiet_rules]:
  "moves quiet (record_candidate env tc td c)" "moves quiet (record_claim env cl)" "moves quiet (submit_claim env cl)"
proof -
  show claim: "moves quiet (record_claim env cl)" for cl
    unfolding moves_def record_claim_def bindA_def askA_def getA_def thenA_def modifyA_def telemetry_def logA_def returnA_def
    by (auto simp: quiet_def RecordClaim_def Let_def)
  show "moves quiet (record_candidate env tc td c)"
    unfolding moves_def record_candidate_def bindA_def askA_def getA_def thenA_def modifyA_def telemetry_def logA_def returnA_def
    by (auto simp: quiet_def Record_def Let_def)
  show "moves quiet (submit_claim env cl)"
    unfolding submit_claim_def by (intro quiet_rules claim)
qed

lemma quiet_tool_call [quiet_rules]: "moves quiet (handle_tool_call env su stepID ordinal tc)"
proof -
  have "moves quiet (run_tool env su stepID i ordinal tc td)" for i td
    unfolding moves_def run_tool_def quiet_def by (auto simp: Let_def split: prod.splits)
  then show ?thesis
    unfolding handle_tool_call_def permitted_tool_def tool_error_def tool_success_def call_failed_def call_unavailable_def
    by (intro quiet_rules)
qed

lemma quiet_tool_loop [quiet_rules]: "moves quiet (tool_loop env su step stepID resp ordinal counted tcs)"
  by (induction tcs arbitrary: ordinal counted) (auto intro!: quiet_rules)

lemma quiet_responses [quiet_rules]:
  "moves quiet (on_tool_calls env su step sp resp idx)" "moves quiet (on_claims env sp resp claims)"
  "moves quiet (gate_failed env su sp resp g)" "moves quiet (on_invalid sp resp)" "moves quiet (vote_refused sp resp text)"
  unfolding on_tool_calls_def on_claims_def gate_failed_def on_invalid_def vote_refused_def by (intro quiet_rules)+

section \<open>The invariant\<close>

definition passed_on :: "'s AEnv \<Rightarrow> Setup \<Rightarrow> EvidenceSummary \<Rightarrow> LoopState \<Rightarrow> bool" where
  "passed_on env su s st \<longleftrightarrow> (\<exists>l0. prefix (l_recordOrder l0) (l_recordOrder (al_ledger st)) \<and>
     Passed (summary_verdict (ae_registry env) (su_cfg su) (su_std su) (su_hasTools su) s l0))"

definition armed :: "'s AEnv \<Rightarrow> Setup \<Rightarrow> 's AWorld \<Rightarrow> bool" where
  "armed env su w \<longleftrightarrow> lr_Vote (al_result (aw_st w)) = None \<and>
     (\<exists>s. lr_Summary (al_result (aw_st w)) = Some s \<and> passed_on env su s (aw_st w))"

definition running :: "'s AEnv \<Rightarrow> Setup \<Rightarrow> 's AWorld \<Rightarrow> bool" where
  "running env su w \<longleftrightarrow> armed env su w \<or>
     (lr_Vote (al_result (aw_st w)) = None \<and> lr_Summary (al_result (aw_st w)) = None \<and> \<not> needs_summary (al_phase (aw_st w)))"

definition voted :: "'s AEnv \<Rightarrow> Setup \<Rightarrow> LoopState \<Rightarrow> bool" where
  "voted env su st \<longleftrightarrow> (\<exists>v s. lr_Vote (al_result st) = Some v \<and> lr_Summary (al_result st) = Some s \<and> passed_on env su s st \<and>
     ValidateVoteDimensions (Some v) (mc_Objective (su_cfg su)) = None \<and>
     ValidateRoleDecision (Some v) (Some s) (mc_RolePolicy (su_cfg su)) (mc_Objective (su_cfg su)) = None)"

definition ended :: "'s AEnv \<Rightarrow> Setup \<Rightarrow> stop \<Rightarrow> 's AWorld \<Rightarrow> bool" where
  "ended env su s w \<longleftrightarrow>
     (if fst s = LoopStatusCompleted then snd s = None \<and> voted env su (aw_st w)
      else snd s \<noteq> None \<and> lr_Vote (al_result (aw_st w)) = None)"

lemma passed_on_quiet: "passed_on env su s (aw_st w) \<Longrightarrow> quiet w w' \<Longrightarrow> passed_on env su s (aw_st w')"
  unfolding passed_on_def quiet_def by (metis prefix_order.trans)

lemma armed_quiet: "armed env su w \<Longrightarrow> quiet w w' \<Longrightarrow> armed env su w'"
  using passed_on_quiet by (fastforce simp: armed_def quiet_def)

lemma running_quiet: "running env su w \<Longrightarrow> quiet w w' \<Longrightarrow> running env su w'"
  using armed_quiet by (fastforce simp: running_def quiet_def)

lemma failing_ended: "failing s \<Longrightarrow> running env su w \<Longrightarrow> ended env su s w"
  by (auto simp: failing_def running_def armed_def ended_def)

lemma armed_running: "armed env su w \<Longrightarrow> running env su w"
  by (simp add: running_def)

lemma quiet_running: "moves quiet m \<Longrightarrow> stops failing m \<Longrightarrow> spec (running env su) m (\<lambda>_. running env su) (ended env su)"
  by (erule (1) spec_moves) (rule running_quiet failing_ended; assumption)+

lemma quiet_armed: "moves quiet m \<Longrightarrow> stops failing m \<Longrightarrow> spec (armed env su) m (\<lambda>_. armed env su) (ended env su)"
  by (erule (1) spec_moves) (rule armed_quiet failing_ended [OF _ armed_running]; assumption)+

section \<open>The loop keeps it\<close>

lemma gate_passed_ok:
  "spec (\<lambda>w. running env su w \<and> Passed (summary_verdict (ae_registry env) (su_cfg su) (su_std su) (su_hasTools su) s (al_ledger (aw_st w))))
     (gate_passed env su step sp resp s) (\<lambda>_. running env su) (ended env su)" (is "spec ?P _ _ _")
proof -
  let ?A = "armed env su"
  have event: "spec ?P (telemetry env ev) (\<lambda>_. ?P) (ended env su)" for ev
    unfolding telemetry_def by (intro spec_rules) (auto simp: running_def armed_def passed_on_def)
  have keep: "spec ?P (modifyResult (\<lambda>r. r\<lparr> lr_Summary := Some s \<rparr>)) (\<lambda>_. ?A) (ended env su)"
    unfolding modifyResult_def by (intro spec_rules) (auto simp: running_def armed_def passed_on_def)
  have phase: "spec ?A (modifyA (\<lambda>st. st\<lparr> al_phase := p \<rparr>)) (\<lambda>_. ?A) (ended env su)" for p
    by (intro spec_rules) (auto simp: armed_def passed_on_def)
  have last: "spec ?A (add_step sp) (\<lambda>_. running env su) (ended env su)"
    using quiet_armed [OF quiet_state(1) stops_state(1)] by (rule spec_conseq) (auto simp: armed_running)
  show ?thesis
    unfolding gate_passed_def Let_def
    by (intro spec_then [OF event] spec_then [OF keep] spec_then [OF phase] last
        spec_then [OF quiet_armed [OF quiet_state(2) stops_state(2)]] spec_then [OF quiet_armed [OF quiet_commit stops_commit]]
        spec_then [OF quiet_armed]) (auto intro!: quiet_rules stop_rules)
qed

lemma on_summary_ok: "spec (running env su) (on_summary env su step sp resp s) (\<lambda>_. running env su) (ended env su)"
proof -
  have failed: "spec (running env su) (gate_failed env su sp resp g) (\<lambda>_. running env su) (ended env su)" for g
    by (intro quiet_running quiet_rules stop_rules)
  show ?thesis
    unfolding on_summary_def Let_def
    by (intro spec_then [OF quiet_running [OF quiet_fields(5) stops_basic(3)]] spec_get spec_if)
      (rule spec_conseq [OF gate_passed_ok] spec_conseq [OF failed]; auto)+
qed

lemma on_reflection_ok:
  "spec (armed env su) (on_reflection env su step sp resp rf) (\<lambda>_. running env su) (ended env su)"
proof -
  let ?A = "armed env su"
  have keep: "spec ?A (modifyResult (\<lambda>r. r\<lparr> lr_Reflection := Some rf \<rparr>)) (\<lambda>_. ?A) (ended env su)"
    unfolding modifyResult_def by (intro spec_rules) (auto simp: armed_def passed_on_def)
  have phase: "spec ?A (modifyA (\<lambda>st. st\<lparr> al_phase := p \<rparr>)) (\<lambda>_. ?A) (ended env su)" for p
    by (intro spec_rules) (auto simp: armed_def passed_on_def)
  have last: "spec ?A (add_step sp) (\<lambda>_. running env su) (ended env su)"
    using quiet_armed [OF quiet_state(1) stops_state(1)] by (rule spec_conseq) (auto simp: armed_running)
  show ?thesis
    unfolding on_reflection_def
    by (intro spec_then [OF keep] spec_then [OF phase] last
        spec_then [OF quiet_armed [OF quiet_state(2) stops_state(2)]] spec_then [OF quiet_armed [OF quiet_commit stops_commit]])
qed

text \<open>The only stop that completes a run follows both checks of the vote.\<close>

lemma on_vote_ok: "spec (armed env su) (on_vote env su sp resp v) (\<lambda>_. running env su) (ended env su)"
proof -
  have refused: "spec (armed env su) (vote_refused sp resp msg) (\<lambda>_. running env su) (ended env su)" for msg
    using quiet_armed [OF quiet_responses(5) stops_responses(6)] by (rule spec_conseq) (auto simp: armed_running)
  have cast: "spec (\<lambda>w. armed env su w \<and> ValidateVoteDimensions (Some v) (mc_Objective (su_cfg su)) = None \<and>
        ValidateRoleDecision (Some v) (lr_Summary (al_result (aw_st w))) (mc_RolePolicy (su_cfg su)) (mc_Objective (su_cfg su)) = None)
      (thenA (modifyResult (\<lambda>r. r\<lparr> lr_Vote := Some v \<rparr>)) (thenA (telemetry env ev) (thenA (add_step sp') (stopA LoopStatusCompleted None))))
      (\<lambda>_. running env su) (ended env su)" for ev sp'
    by (auto simp: spec_def thenA_def bindA_def modifyResult_def modifyA_def telemetry_def logA_def returnA_def add_step_def stopA_def
        ended_def voted_def armed_def passed_on_def split: if_splits)
  show ?thesis
    unfolding on_vote_def
    by (intro spec_get spec_option) (rule spec_conseq [OF refused] spec_conseq [OF cast]; auto)+
qed

lemma parsed_phase:
  "parseResponse V resp phase = ResponseVote v \<Longrightarrow> phase = ''vote''"
  "parseResponse V resp phase = ResponseReflection rf \<Longrightarrow> phase = ''reconsider_reflect''"
  by (auto simp: parseResponse_def parse_tagged_def parse_by_phase_def Let_def split: if_splits option.splits)

lemma on_response_ok: "spec (running env su) (on_response env su step sp resp idx) (\<lambda>_. running env su) (ended env su)"
  unfolding on_response_def Let_def
proof (rule spec_get)
  fix st
  let ?r = "unwrapFunctionCall (ae_validators env) resp" and ?P = "\<lambda>w. running env su w \<and> aw_st w = st"
  have armed: "armed env su w" if "?P w" "needs_summary (al_phase st)" for w
    using that by (auto simp: running_def)
  have quiet: "spec ?P m (\<lambda>_. running env su) (ended env su)" if "moves quiet m" "stops failing m" for m :: "('a, unit) aact"
    using quiet_running [OF that] by (rule spec_conseq) auto
  show "spec ?P (case parseResponse (ae_validators env) ?r (al_phase st) of
      ResponseToolCall \<Rightarrow> on_tool_calls env su step sp ?r idx
    | ResponseClaimSubmission claims \<Rightarrow> on_claims env sp ?r claims
    | ResponseEvidenceSummary s \<Rightarrow> on_summary env su step sp ?r s
    | ResponseReflection rf \<Rightarrow> on_reflection env su step sp ?r rf
    | ResponseVote v \<Rightarrow> on_vote env su sp ?r v
    | ResponseInvalid \<Rightarrow> on_invalid sp ?r) (\<lambda>_. running env su) (ended env su)"
  proof (cases "parseResponse (ae_validators env) ?r (al_phase st)")
    case (ResponseReflection rf)
    then show ?thesis using parsed_phase(2) armed by (auto simp: needs_summary_def intro: spec_conseq [OF on_reflection_ok])
  next
    case (ResponseEvidenceSummary s)
    then show ?thesis by (auto intro: spec_conseq [OF on_summary_ok])
  next
    case (ResponseVote v)
    then show ?thesis using parsed_phase(1) armed by (auto simp: needs_summary_def intro: spec_conseq [OF on_vote_ok])
  qed (auto intro!: quiet quiet_rules stop_rules)
qed

lemma agent_step_ok: "spec (running env su) (agent_step env su step) (\<lambda>_. running env su) (ended env su)"
proof -
  have lost: "spec (running env su) (stopA LoopStatusCancelled (Some e)) (\<lambda>_. running env su) (ended env su)" for e
    by (intro quiet_running quiet_rules stop_rules) simp
  have weak: "spec (running env su) m (\<lambda>_. running env su) (ended env su) \<Longrightarrow>
      spec (\<lambda>w. running env su w \<and> X w) m (\<lambda>_. running env su) (ended env su)" for m :: "('a, 'b) aact" and X
    by (erule spec_conseq) auto
  have terminate: "spec (running env su) (thenA (add_step sp) (stopA status (Some e))) (\<lambda>_. running env su) (ended env su)"
    if "CheckTermination ts p = Some (status, e)" for sp ts p status e
    using CheckTermination_not_completed [OF that] by (intro quiet_running quiet_rules stop_rules) simp
  have response: "spec (running env su) (case al_pending st0 of
        Some m \<Rightarrow> thenA (modifyA (\<lambda>st. st\<lparr> al_pending := None \<rparr>)) (returnA m)
      | None \<Rightarrow> generate_step env su step stepID start) (\<lambda>_. running env su) (ended env su)" for st0 stepID start
    by (intro quiet_running quiet_rules stop_rules)
  show ?thesis
    unfolding agent_step_def Let_def
    by (intro spec_ask weak spec_if lost spec_get spec_bind [OF weak [OF response]])
      (auto intro!: spec_ask spec_get weak on_response_ok terminate split: option.splits)
qed

lemma agent_loop_ok: "spec (running env su) (agent_loop env su n step) (\<lambda>_. running env su) (ended env su)"
proof (induction n arbitrary: step)
  case 0
  show ?case by (auto intro!: quiet_running quiet_rules stop_rules)
next
  case (Suc n)
  show ?case using spec_then [OF agent_step_ok Suc.IH] by simp
qed

lemma agent_loop_stops: "\<exists>s w'. agent_loop env su n step w = (Inl s, w')"
  by (induction n arbitrary: step w) (auto simp: stopA_def thenA_def bindA_def split: prod.splits sum.splits)

lemma run_loop_ended:
  assumes "running env su w" and "run_loop env su start w = (s, w')"
  shows "ended env su s w'"
proof -
  let ?m = "thenA (check_termination su) (agent_loop env su (nat (max_steps (su_cfg su) - start + 1)) start)"
  obtain r w2 where m: "?m w = (r, w2)" by fastforce
  have "spec (running env su) ?m (\<lambda>_. running env su) (ended env su)"
    by (rule spec_then [OF quiet_running [OF quiet_check stops_check] agent_loop_ok])
  from specD [OF this assms(1) m] m assms(2) show ?thesis
    by (cases r) (auto simp: run_loop_def intro: failing_ended)
qed

end
