(* ===== verification/AgentLog.thy ===== *)
theory AgentLog
  imports AgentFrames
begin

text \<open>
  What the parts of the agent loop append to the log of port calls, as frame rules in locales over
  the effects that may be appended: \<open>log_frame\<close> for parts that only publish, \<open>approval_frame\<close> for those
  that also ask for approvals and run tools, \<open>store_frame\<close> for those that also save checkpoints.
\<close>

section \<open>Frames over the log\<close>

text \<open>The messages and the pending response stay, and only effects in \<open>ok\<close> are appended.\<close>

definition still :: "(afx \<Rightarrow> bool) \<Rightarrow> 's AWorld \<Rightarrow> 's AWorld \<Rightarrow> bool" where
  "still ok w w' \<longleftrightarrow>
     al_messages (aw_st w') = al_messages (aw_st w) \<and> al_pending (aw_st w') = al_pending (aw_st w) \<and>
     (\<exists>l. aw_log w' = aw_log w @ l \<and> list_all ok l)"

lemma still_refl: "still ok w w"
  by (auto simp: still_def intro: exI [of _ "[]"])

lemma still_trans: "still ok w w' \<Longrightarrow> still ok w' w'' \<Longrightarrow> still ok w w''"
  unfolding still_def by (metis append.assoc list_all_append)

lemma still_state: "al_messages (f (aw_st w)) = al_messages (aw_st w) \<Longrightarrow> al_pending (f (aw_st w)) = al_pending (aw_st w) \<Longrightarrow>
    still ok w (w\<lparr> aw_st := f (aw_st w) \<rparr>)"
  by (auto simp: still_def intro: exI [of _ "[]"])

text \<open>The same without the state: only the log is looked at.\<close>

definition logs :: "(afx \<Rightarrow> bool) \<Rightarrow> 's AWorld \<Rightarrow> 's AWorld \<Rightarrow> bool" where
  "logs ok w w' \<longleftrightarrow> (\<exists>l. aw_log w' = aw_log w @ l \<and> list_all ok l)"

lemma logs_refl: "logs ok w w"
  by (auto simp: logs_def intro: exI [of _ "[]"])

lemma logs_trans: "logs ok w w' \<Longrightarrow> logs ok w' w'' \<Longrightarrow> logs ok w w''"
  unfolding logs_def by (metis append.assoc list_all_append)

lemma logs_still: "moves (still ok) m \<Longrightarrow> moves (logs ok) m"
  by (auto simp: moves_def still_def logs_def)

locale log_frame =
  fixes ok :: "afx \<Rightarrow> bool"
  assumes telemetry_ok: "ok (XTelemetry ev)" and critical_ok: "ok (XCritical ev a)"
begin

sublocale world_order "still ok :: 's AWorld \<Rightarrow> 's AWorld \<Rightarrow> bool"
  by unfold_locales (fact still_refl still_trans)+

sublocale logs: world_order "logs ok :: 's AWorld \<Rightarrow> 's AWorld \<Rightarrow> bool"
  by unfold_locales (fact logs_refl logs_trans)+

lemma logs_modify: "moves (logs ok) (modifyA f)"
  by (rule logs.modify) (auto simp: logs_def intro: exI [of _ "[]"])

lemma logs_say: "moves (logs ok) (say ms)"
  unfolding say_def by (rule logs_modify)

lemma append: "ok fx \<Longrightarrow> moves (still ok) (logA fx)"
  by (rule log) (auto simp: still_def)

lemma events: "moves (still ok) (telemetry env ev)" "moves (still ok) (recordCritical env ev)" "moves (still ok) (failA eo)"
  unfolding telemetry_def recordCritical_def failA_def by (intro rules append telemetry_ok critical_ok)+

lemma state: "moves (still ok) (add_step sp)" "moves (still ok) (modifyTs f)" "moves (still ok) (account u)" "moves (still ok) (modifyResult g)"
  unfolding add_step_def modifyTs_def account_def modifyResult_def by (rule modify; rule still_state; simp)+

lemma fields:
  "moves (still ok) (modifyA (\<lambda>st. st\<lparr> al_last := f st \<rparr>))" "moves (still ok) (modifyA (\<lambda>st. st\<lparr> al_last := f st, al_pendingIndex := i \<rparr>))"
  "moves (still ok) (modifyA (\<lambda>st. st\<lparr> al_ledger := g st \<rparr>))" "moves (still ok) (modifyA (\<lambda>st. st\<lparr> al_phase := p \<rparr>))"
  by (rule modify; rule still_state; simp)+

lemma check: "moves (still ok) (check_termination su)"
  unfolding check_termination_def by (intro rules)

lemma ledger: "moves (still ok) (record_candidate env tc td c)" "moves (still ok) (record_claim env cl)" "moves (still ok) (submit_claim env cl)"
  unfolding submit_claim_def record_candidate_def record_claim_def by (intro rules fields events)+

lemmas frame_rules = rules events state fields check ledger

lemma logs_parts:
  "moves (logs ok) (telemetry env ev)" "moves (logs ok) (recordCritical env ev)" "moves (logs ok) (failA eo)" "moves (logs ok) (add_step sp)"
  "moves (logs ok) (modifyTs g)" "moves (logs ok) (account u)" "moves (logs ok) (modifyResult r)" "moves (logs ok) (check_termination su)"
  "moves (logs ok) (record_candidate env tc td c)" "moves (logs ok) (record_claim env cl)" "moves (logs ok) (submit_claim env cl)"
  by (intro logs_still frame_rules)+

lemmas log_rules = logs.rules logs_modify logs_say logs_parts

lemma logs_call_failed: "moves (logs ok) (call_failed env tc e reason feedback)"
  unfolding call_failed_def by (intro log_rules)

lemma logs_tool_end: "moves (logs ok) (tool_error env tc tcr e reason)" "moves (logs ok) (tool_success env tc td tcr out exec)"
    "moves (logs ok) (call_unavailable env tc tcr msg reason)"
  unfolding tool_error_def tool_success_def call_unavailable_def by (intro log_rules logs_call_failed)+

end

locale approval_frame = log_frame +
  assumes approval_ok: "ok (XFindApproval k i)" "ok (XCreateApproval r)" "ok (XGetApproval i)" "ok (XMarkExpired i)"
begin

lemma poll_log: "list_all ok (snd (poll_approval env i tool timeout polls ending))"
  by (induction polls)
    (auto simp: log_event_def telemetry_ok approval_ok Let_def split: wait_end.splits sum.splits option.splits ApprovalStatus.splits prod.splits)

lemma await_log: "\<exists>l. snd (await_approval env req tool dig timeout lg) = lg @ l \<and> list_all ok l"
proof -
  obtain first later ending where polls: "ae_polls env lg = (first, later, ending)" by (metis prod_cases3)
  have "list_all ok (snd (poll_approval env (aq_ID req) tool timeout (first # later) ending))" by (rule poll_log)
  then show ?thesis
    by (cases "aq_ToolName req \<noteq> tool \<or> aq_IntentDigest req \<noteq> dig")
      (simp_all add: await_approval_def polls case_prod_beta del: poll_approval.simps)
qed

lemma await_append: "list_all ok l0 \<Longrightarrow> \<exists>l. snd (await_approval env req tool dig timeout (lg @ l0)) = lg @ l \<and> list_all ok l"
  using await_log [of env req tool dig timeout "lg @ l0"] by auto

lemma approval_log: "\<exists>l. snd (requestApproval env su i tc td lg) = lg @ l \<and> list_all ok l"
  using await_append [of "[XFindApproval (ac_CaseID (su_actx su)) i]"]
    await_append [of "[XFindApproval (ac_CaseID (su_actx su)) i, XCreateApproval r] @ log_event env ev" for r ev]
    await_append [of "[XFindApproval (ac_CaseID (su_actx su)) i, XCreateApproval r, XFindApproval (ac_CaseID (su_actx su)) i]" for r]
  by (auto simp: requestApproval_def Let_def log_event_def telemetry_ok approval_ok split: sum.splits option.splits)

lemma tool_log: "(\<And>i t. ok (XTool i (int n) t)) \<Longrightarrow> list_all ok asked \<Longrightarrow> list_all ok (concat (map (tool_fx env tc n asked) evs))"
  by (induction evs) (auto simp: tool_fx_def log_event_def telemetry_ok split: tevent.splits)

lemma run_tool:
  fixes env :: "'x AEnv"
  assumes "\<And>i t. ok (XTool i (int ordinal) t)"
  shows "moves (still ok) (run_tool env su stepID i ordinal tc td)"
  unfolding moves_def
proof (intro allI)
  fix w :: "'x AWorld"
  obtain decision lg where approval: "requestApproval env su i tc td (aw_log w) = (decision, lg)" by fastforce
  obtain r eo s evs where exec: "Tool_Execute (ae_repo env) (ae_tools env (aw_log w)) (Some decision)
      (tool_request env su stepID (al_phase (aw_st w)) i ordinal tc td) (aw_store w) = ((r, eo), s, evs)" by (metis prod.exhaust)
  have "list_all ok (drop (length (aw_log w)) lg)"
    using approval_log [of env su i tc td "aw_log w"] approval by auto
  from tool_log [OF assms this] show "still ok w (snd (run_tool env su stepID i ordinal tc td w))"
    by (simp add: run_tool_def approval exec still_def Let_def)
qed

end

locale store_frame = approval_frame +
  assumes save_ok: "ok (XSave owner s a)" and tool_ok: "ok (XTool i n t)"
begin

lemma commit: "moves (still ok) (commitCheckpoint env su n p i)"
  unfolding commitCheckpoint_def checkpoint_error_def CommitForExecution_def save_checkpoint_def
  by (intro frame_rules append save_ok)

lemma logs_compact: "ok (XCompact ms) \<Longrightarrow> moves (logs ok) (logA (XCompact ms))"
  by (intro logs_still append)

lemma any_tool: "moves (still ok) (run_tool env su stepID i ordinal tc td)"
  by (rule run_tool) (rule tool_ok)

lemma logs_tool_call: "moves (logs ok) (handle_tool_call env su stepID ordinal tc)"
  unfolding handle_tool_call_def permitted_tool_def by (intro log_rules logs_tool_end logs_still any_tool)

lemma logs_tool_loop: "moves (logs ok) (tool_loop env su step stepID resp ordinal counted tcs)"
  by (induction tcs arbitrary: ordinal counted) (auto intro!: log_rules logs_tool_call logs_still [OF commit])

lemma logs_responses:
  "moves (logs ok) (on_tool_calls env su step sp resp idx)" "moves (logs ok) (on_claims env sp resp claims)"
  "moves (logs ok) (on_summary env su step sp resp s)" "moves (logs ok) (on_reflection env su step sp resp rf)"
  "moves (logs ok) (on_vote env su sp resp v)" "moves (logs ok) (on_invalid sp resp)"
  unfolding on_tool_calls_def on_claims_def on_summary_def gate_passed_def gate_failed_def on_reflection_def on_vote_def vote_refused_def on_invalid_def
  by (intro log_rules logs_tool_loop logs_still [OF commit])+

lemma logs_on_response: "moves (logs ok) (on_response env su step sp resp idx)"
  unfolding on_response_def
  by (intro log_rules) (simp add: logs_responses split: ParsedResponse.splits)

end

section \<open>Model calls\<close>

definition is_generate :: "afx \<Rightarrow> bool" where
  "is_generate fx \<longleftrightarrow> (case fx of XGenerate step ms n \<Rightarrow> True | _ \<Rightarrow> False)"

interpretation free: store_frame "\<lambda>fx. \<not> is_generate fx"
  by unfold_locales (simp_all add: is_generate_def)

abbreviation calm :: "'s AWorld \<Rightarrow> 's AWorld \<Rightarrow> bool" where
  "calm \<equiv> still (\<lambda>fx. \<not> is_generate fx)"

end
