(* ===== verification/AgentDurable.thy ===== *)
theory AgentDurable
  imports AgentLog
begin

text \<open>
  Two facts about the log of an agent run: a step calls the model at most once, and every model call
  and every tool execution is preceded by an acknowledged checkpoint of the state it acts on.
\<close>

section \<open>Model calls are bounded\<close>

definition model_calls :: "alog \<Rightarrow> nat" where
  "model_calls lg = length (filter is_generate lg)"

definition costs :: "nat \<Rightarrow> ('s, 'a) aact \<Rightarrow> bool" where
  "costs c m \<longleftrightarrow> (\<forall>w. model_calls (aw_log (snd (m w))) \<le> model_calls (aw_log w) + c)"

abbreviation mute :: "'s AWorld \<Rightarrow> 's AWorld \<Rightarrow> bool" where
  "mute \<equiv> logs (\<lambda>fx. \<not> is_generate fx)"

lemma mute_costs:
  assumes "moves mute m"
  shows "costs 0 m"
  unfolding costs_def
proof (intro allI)
  fix w
  obtain l where "aw_log (snd (m w)) = aw_log w @ l" "list_all (\<lambda>fx. \<not> is_generate fx) l"
    using assms unfolding moves_def logs_def by blast
  then show "model_calls (aw_log (snd (m w))) \<le> model_calls (aw_log w) + 0"
    by (simp add: model_calls_def list_all_iff filter_empty_conv)
qed

lemma costs_bind:
  assumes "costs a m" and "\<And>x. costs b (k x)"
  shows "costs (a + b) (bindA m k)"
  unfolding costs_def
proof (intro allI)
  fix w
  obtain r w' where m: "m w = (r, w')" by fastforce
  then have "model_calls (aw_log w') \<le> model_calls (aw_log w) + a" using assms(1) unfolding costs_def by (metis snd_conv)
  then show "model_calls (aw_log (snd (bindA m k w))) \<le> model_calls (aw_log w) + (a + b)" 
  proof (cases r)
    case (Inr x)
    have "model_calls (aw_log (snd (k x w'))) \<le> model_calls (aw_log w') + b" using assms(2) unfolding costs_def by blast
    with \<open>model_calls (aw_log w') \<le> _\<close> show ?thesis by (simp add: bindA_def m Inr)
  qed (simp add: bindA_def m)
qed

lemma costs_then: "costs a m \<Longrightarrow> costs b k \<Longrightarrow> costs (a + b) (thenA m k)"
  unfolding thenA_def by (rule costs_bind)

lemma costs_free: "moves mute m \<Longrightarrow> (\<And>x. costs c (k x)) \<Longrightarrow> costs c (bindA m k)"
  using costs_bind [OF mute_costs] by fastforce

lemma costs_free_then: "moves mute m \<Longrightarrow> costs c k \<Longrightarrow> costs c (thenA m k)"
  unfolding thenA_def by (rule costs_free)

lemma costs_mono: "costs a m \<Longrightarrow> a \<le> b \<Longrightarrow> costs b m"
  unfolding costs_def by (meson add_left_mono order_trans)

lemma call_model_costs: "costs 1 (call_model env su step stepID ms)"
  unfolding costs_def call_model_def by (auto simp: model_calls_def is_generate_def split: prod.splits)

lemma compact_mute: "moves mute (compact_if_due env su step)"
  unfolding compact_if_due_def
  by (intro free.log_rules free.logs_compact logs_still [OF free.commit]) (simp add: is_generate_def)

lemma generate_costs: "costs 1 (generate_step env su step stepID start)"
proof -
  have rest: "moves mute (bindA (askA (ae_now env)) (\<lambda>now. case r of
      Inl e \<Rightarrow> model_failed env step (sp now) (f e) | Inr resp \<Rightarrow> model_responded env su step stepID resp))" for r sp f
    unfolding model_failed_def model_responded_def by (intro free.log_rules logs_still [OF free.commit])
  have "costs (1 + 0) (bindA (call_model env su step stepID ms) (\<lambda>r. bindA (askA (ae_now env)) (\<lambda>now. case r of
      Inl e \<Rightarrow> model_failed env step (sp now) (f e) | Inr resp \<Rightarrow> model_responded env su step stepID resp)))" for ms sp f
    by (rule costs_bind [OF call_model_costs mute_costs [OF rest]])
  then show ?thesis
    unfolding generate_step_def
    by (intro costs_free_then [OF logs_still [OF free.commit]] costs_free_then [OF compact_mute] costs_free [OF free.logs.ask]
        costs_free_then costs_free [OF free.logs_parts(2)] costs_free_then [OF free.logs_parts(3)] costs_free [OF free.logs.get])
      (auto intro!: free.log_rules)
qed

lemma agent_step_costs: "costs 1 (agent_step env su step)"
proof -
  have response: "costs 1 (case al_pending st0 of
        Some m \<Rightarrow> thenA (modifyA (\<lambda>st. st\<lparr> al_pending := None \<rparr>)) (returnA m)
      | None \<Rightarrow> generate_step env su step stepID start)" for st0 stepID start
  proof (cases "al_pending st0")
    case (Some m)
    then show ?thesis by (simp, intro costs_mono [OF mute_costs] free.log_rules) simp
  qed (use generate_costs in simp)
  have rest: "moves mute (bindA (askA (ae_now env)) (\<lambda>now. bindA getA (\<lambda>st. case CheckTermination (al_ts st) p of
        Some (status, e) \<Rightarrow> thenA (add_step (sp now)) (stopA status (Some e))
      | None \<Rightarrow> on_response env su step (sp now) resp (i st))))" for p sp resp i
    by (intro free.log_rules free.logs_on_response)
  have stop: "costs 1 (stopA status e)" for status e
    by (intro costs_mono [OF mute_costs] free.log_rules) simp
  have "costs (1 + 0) (bindA (case al_pending st0 of
        Some m \<Rightarrow> thenA (modifyA (\<lambda>st. st\<lparr> al_pending := None \<rparr>)) (returnA m)
      | None \<Rightarrow> generate_step env su step stepID start) (\<lambda>resp. bindA (askA (ae_now env)) (\<lambda>now. bindA getA (\<lambda>st. case CheckTermination (al_ts st) p of
        Some (status, e) \<Rightarrow> thenA (add_step (sp resp now)) (stopA status (Some e))
      | None \<Rightarrow> on_response env su step (sp resp now) resp (i st)))))" for st0 stepID start p sp i
    by (rule costs_bind [OF response mute_costs [OF rest]])
  then show ?thesis
    unfolding agent_step_def Let_def using stop
    by (intro costs_free [OF free.logs.ask] costs_free [OF free.logs.get]) (auto intro!: costs_free [OF free.logs.get])
qed

lemma agent_loop_costs: "costs n (agent_loop env su n step)"
proof (induction n arbitrary: step)
  case 0
  show ?case unfolding agent_loop.simps by (intro mute_costs free.log_rules)
next
  case (Suc n)
  show ?case unfolding agent_loop.simps using costs_then [OF agent_step_costs Suc.IH] by simp
qed

lemma run_loop_costs:
  assumes "run_loop env su start w = (s, w')"
  shows "model_calls (aw_log w') \<le> model_calls (aw_log w) + nat (max_steps (su_cfg su) - start + 1)"
proof -
  let ?m = "thenA (check_termination su) (agent_loop env su (nat (max_steps (su_cfg su) - start + 1)) start)"
  have "costs (nat (max_steps (su_cfg su) - start + 1)) ?m"
    by (rule costs_free_then [OF free.logs_parts(8) agent_loop_costs])
  then show ?thesis using assms unfolding costs_def run_loop_def by (auto split: prod.splits sum.splits) (metis snd_conv)+
qed

section \<open>Checkpoints come first\<close>

definition is_save :: "afx \<Rightarrow> bool" where
  "is_save fx \<longleftrightarrow> (case fx of XSave owner s a \<Rightarrow> True | _ \<Rightarrow> False)"

definition failed_save :: "afx \<Rightarrow> bool" where
  "failed_save fx \<longleftrightarrow> (case fx of XSave owner s (Some e) \<Rightarrow> True | _ \<Rightarrow> False)"

definition is_execution :: "afx \<Rightarrow> bool" where
  "is_execution fx \<longleftrightarrow> (case fx of XTool i n (TExecute x) \<Rightarrow> True | _ \<Rightarrow> False)"

text \<open>
  The last save of the log was acknowledged, no save since \<open>lg0\<close> failed, and the saved snapshot
  resumes at \<open>step\<close> and at the tool call \<open>idx\<close> with the messages \<open>ms\<close>.
\<close>

definition checkpointed :: "'s AEnv \<Rightarrow> alog \<Rightarrow> alog \<Rightarrow> int \<Rightarrow> Message list \<Rightarrow> int \<Rightarrow> bool" where
  "checkpointed env lg0 lg step ms idx \<longleftrightarrow>
     (\<exists>a b owner s p. lg = lg0 @ a @ XSave owner s None # b \<and> list_all (\<lambda>fx. \<not> failed_save fx) a \<and> list_all (\<lambda>fx. \<not> is_save fx) b \<and>
        cd_messages (ae_codec env) ms = Inr (ag_MessagesJSON s) \<and> cd_snapshot (ae_codec env) p = Inr (ag_SnapshotJSON s) \<and>
        as_MessagesJSON p = ag_MessagesJSON s \<and> as_NextStep p = step \<and> as_PendingToolIndex p = idx)"

definition covered :: "'s AEnv \<Rightarrow> alog \<Rightarrow> alog \<Rightarrow> afx \<Rightarrow> bool" where
  "covered env lg0 lg fx \<longleftrightarrow>
     (case fx of
        XGenerate step ms n \<Rightarrow> checkpointed env lg0 lg step ms (-1)
      | XTool i n (TExecute x) \<Rightarrow> (\<exists>step ms. checkpointed env lg0 lg step ms n)
      | _ \<Rightarrow> True)"

fun ahead :: "'s AEnv \<Rightarrow> alog \<Rightarrow> alog \<Rightarrow> alog \<Rightarrow> bool" where
  "ahead env lg0 lg [] = True"
| "ahead env lg0 lg (fx # l) = (covered env lg0 lg fx \<and> ahead env lg0 (lg @ [fx]) l)"

definition uneventful :: "afx \<Rightarrow> bool" where
  "uneventful fx \<longleftrightarrow> \<not> is_save fx \<and> \<not> is_generate fx \<and> \<not> is_execution fx"

lemma ahead_append: "ahead env lg0 lg (l @ l') \<longleftrightarrow> ahead env lg0 lg l \<and> ahead env lg0 (lg @ l) l'"
  by (induction l arbitrary: lg) auto

lemma ahead_at: "ahead env lg0 lg (a @ fx # b) \<Longrightarrow> covered env lg0 (lg @ a) fx"
  by (simp add: ahead_append)

lemma covered_uneventful: "uneventful fx \<Longrightarrow> covered env lg0 lg fx"
  by (auto simp: uneventful_def covered_def is_save_def is_generate_def is_execution_def split: afx.splits tevent.splits)

lemma ahead_uneventful: "list_all uneventful l \<Longrightarrow> ahead env lg0 lg l"
  by (induction l arbitrary: lg) (auto simp: covered_uneventful)

lemma checkpointed_append:
  assumes "checkpointed env lg0 lg step ms idx" and "list_all (\<lambda>fx. \<not> is_save fx) l"
  shows "checkpointed env lg0 (lg @ l) step ms idx"
proof -
  obtain a b owner s p where "lg = lg0 @ a @ XSave owner s None # b" "list_all (\<lambda>fx. \<not> failed_save fx) a" "list_all (\<lambda>fx. \<not> is_save fx) b"
      "cd_messages (ae_codec env) ms = Inr (ag_MessagesJSON s)" "cd_snapshot (ae_codec env) p = Inr (ag_SnapshotJSON s)"
      "as_MessagesJSON p = ag_MessagesJSON s" "as_NextStep p = step" "as_PendingToolIndex p = idx"
    using assms(1) unfolding checkpointed_def by blast
  with assms(2) show ?thesis
    unfolding checkpointed_def by (intro exI [of _ a] exI [of _ "b @ l"] exI [of _ owner] exI [of _ s] exI [of _ p]) simp
qed

interpretation plain: approval_frame uneventful
  by unfold_locales (simp_all add: uneventful_def is_save_def is_generate_def is_execution_def)

text \<open>Effects of one tool call: a execution is of the call with this ordinal.\<close>

definition of_call :: "int \<Rightarrow> afx \<Rightarrow> bool" where
  "of_call n fx \<longleftrightarrow> uneventful fx \<or> (\<exists>i x. fx = XTool i n (TExecute x))"

lemma of_call_tool: "of_call n (XTool i n t)"
  by (cases t) (auto simp: of_call_def uneventful_def is_save_def is_generate_def is_execution_def)

lemma of_call_frame: "approval_frame (of_call n)"
  using plain.telemetry_ok plain.critical_ok plain.approval_ok by unfold_locales (auto simp: of_call_def)

lemma ahead_of_call: "list_all (of_call n) l \<Longrightarrow> checkpointed env lg0 lg step ms n \<Longrightarrow> ahead env lg0 lg l"
proof (induction l arbitrary: lg)
  case (Cons fx l)
  have "\<not> is_save fx" using Cons.prems(1) by (auto simp: of_call_def uneventful_def is_save_def)
  then have "checkpointed env lg0 (lg @ [fx]) step ms n" using checkpointed_append [OF Cons.prems(2), of "[fx]"] by simp
  moreover have "covered env lg0 lg fx" 
  proof (cases "uneventful fx")
    case False
    then obtain i x where "fx = XTool i n (TExecute x)" using Cons.prems(1) by (auto simp: of_call_def)
    with Cons.prems(2) show ?thesis unfolding covered_def by auto
  qed (rule covered_uneventful)
  ultimately show ?case using Cons by simp
qed simp

section \<open>The loop writes ahead\<close>

definition safe_log :: "'s AEnv \<Rightarrow> alog \<Rightarrow> 's AWorld \<Rightarrow> bool" where
  "safe_log env lg0 w \<longleftrightarrow> (\<exists>l. aw_log w = lg0 @ l \<and> ahead env lg0 lg0 l)"

definition sound_log :: "'s AEnv \<Rightarrow> alog \<Rightarrow> 's AWorld \<Rightarrow> bool" where
  "sound_log env lg0 w \<longleftrightarrow> (\<exists>l. aw_log w = lg0 @ l \<and> ahead env lg0 lg0 l \<and> list_all (\<lambda>fx. \<not> failed_save fx) l)"

definition saved :: "'s AEnv \<Rightarrow> alog \<Rightarrow> int \<Rightarrow> Message list \<Rightarrow> int \<Rightarrow> 's AWorld \<Rightarrow> bool" where
  "saved env lg0 step ms idx w \<longleftrightarrow> sound_log env lg0 w \<and> al_messages (aw_st w) = ms \<and> checkpointed env lg0 (aw_log w) step ms idx"

abbreviation safe_stop :: "'s AEnv \<Rightarrow> alog \<Rightarrow> stop \<Rightarrow> 's AWorld \<Rightarrow> bool" where
  "safe_stop env lg0 s \<equiv> safe_log env lg0"

lemma sound_safe: "sound_log env lg0 w \<Longrightarrow> safe_log env lg0 w"
  by (auto simp: sound_log_def safe_log_def)

lemma uneventful_save: "uneventful fx \<Longrightarrow> \<not> is_save fx \<and> \<not> failed_save fx"
  by (auto simp: uneventful_def is_save_def failed_save_def split: afx.splits)

lemma sound_logs: "sound_log env lg0 w \<Longrightarrow> logs uneventful w w' \<Longrightarrow> sound_log env lg0 w'"
  unfolding sound_log_def logs_def
  by (auto simp: ahead_append ahead_uneventful list_all_iff uneventful_save)

lemma safe_logs: "safe_log env lg0 w \<Longrightarrow> logs uneventful w w' \<Longrightarrow> safe_log env lg0 w'"
  unfolding safe_log_def logs_def by (auto simp: ahead_append ahead_uneventful)

lemma saved_still:
  assumes "saved env lg0 step ms idx w" and "still uneventful w w'"
  shows "saved env lg0 step ms idx w'"
proof -
  obtain l where l: "aw_log w' = aw_log w @ l" "list_all uneventful l" using assms(2) by (auto simp: still_def)
  then have "checkpointed env lg0 (aw_log w') step ms idx"
    using assms(1) checkpointed_append [of env lg0 "aw_log w" step ms idx l] uneventful_save by (auto simp: saved_def list_all_iff)
  then show ?thesis using assms sound_logs [of env lg0 w w'] by (auto simp: saved_def still_def logs_def)
qed

lemma plain_sound: "moves (logs uneventful) m \<Longrightarrow> spec (sound_log env lg0) m (\<lambda>_. sound_log env lg0) (safe_stop env lg0)"
  by (erule spec_moves [where S = "\<lambda>_. True", OF _ _ sound_logs]) (auto simp: stops_def sound_safe)

lemma plain_safe: "moves (logs uneventful) m \<Longrightarrow> spec (safe_log env lg0) m (\<lambda>_. safe_log env lg0) (safe_stop env lg0)"
  by (erule spec_moves [where S = "\<lambda>_. True", OF _ _ safe_logs]) (auto simp: stops_def)

lemma plain_saved: "moves (still uneventful) m \<Longrightarrow> spec (saved env lg0 step ms idx) m (\<lambda>_. saved env lg0 step ms idx) (safe_stop env lg0)"
  by (erule spec_moves [where S = "\<lambda>_. True", OF _ _ saved_still]) (auto simp: stops_def saved_def sound_safe)

lemma build_snapshot:
  assumes "buildCheckpointState C runID st step manifest pending idx = Inr s"
  shows "cd_messages C (al_messages st) = Inr (ag_MessagesJSON s)"
    and "\<exists>p. cd_snapshot C p = Inr (ag_SnapshotJSON s) \<and> as_MessagesJSON p = ag_MessagesJSON s \<and> as_NextStep p = step \<and> as_PendingToolIndex p = idx"
  using assms
  by (auto simp: buildCheckpointState_def MarshalAgentSnapshotV2_def snapshot_of_def Let_def split: sum.splits if_splits)

lemma checkpointed_save:
  assumes "list_all (\<lambda>fx. \<not> failed_save fx) l" and "cd_messages (ae_codec env) ms = Inr (ag_MessagesJSON s)"
    and "cd_snapshot (ae_codec env) p = Inr (ag_SnapshotJSON s)" and "as_MessagesJSON p = ag_MessagesJSON s"
  shows "checkpointed env lg0 (lg0 @ l @ [XSave owner s None]) (as_NextStep p) ms (as_PendingToolIndex p)"
  unfolding checkpointed_def using assms by (intro exI [of _ l] exI [of _ "[]"] exI [of _ owner] exI [of _ s] exI [of _ p]) simp

lemma save_saved:
  assumes "cd_messages (ae_codec env) ms = Inr (ag_MessagesJSON s)" and "cd_snapshot (ae_codec env) p = Inr (ag_SnapshotJSON s)"
    and "as_MessagesJSON p = ag_MessagesJSON s"
  shows "spec (\<lambda>w. sound_log env lg0 w \<and> al_messages (aw_st w) = ms) (save_checkpoint env owner g s)
    (\<lambda>a w. if a = None then saved env lg0 (as_NextStep p) ms (as_PendingToolIndex p) w else safe_log env lg0 w) (safe_stop env lg0)"
proof -
  let ?P = "\<lambda>w. sound_log env lg0 w \<and> al_messages (aw_st w) = ms"
  let ?Q = "\<lambda>a w. if a = None then saved env lg0 (as_NextStep p) ms (as_PendingToolIndex p) w else safe_log env lg0 w"
  have log: "spec ?P (logA (XSave o' s a)) (\<lambda>_. ?Q a) (safe_stop env lg0)" for o' a
    using checkpointed_save [OF _ assms]
    by (intro spec_log) (auto simp: saved_def sound_log_def safe_log_def ahead_append covered_def failed_save_def)
  show ?thesis
    unfolding save_checkpoint_def
    by (intro spec_if spec_ask weak_pre spec_then [OF log] spec_return) (auto simp: sound_safe)
qed

text \<open>A checkpoint that returns without an error leaves the state saved.\<close>

lemma commit_execution_saved:
  assumes "ae_checkpoints env = Some g" and "cd_messages (ae_codec env) ms = Inr (ag_MessagesJSON s)"
    and "cd_snapshot (ae_codec env) p = Inr (ag_SnapshotJSON s)" and "as_MessagesJSON p = ag_MessagesJSON s"
  shows "spec (\<lambda>w. sound_log env lg0 w \<and> al_messages (aw_st w) = ms) (CommitForExecution env owner s)
    (\<lambda>a w. (a = None \<longrightarrow> saved env lg0 (as_NextStep p) ms (as_PendingToolIndex p) w) \<and> safe_log env lg0 w) (safe_stop env lg0)"
    (is "spec ?P _ ?Q _")
proof -
  have failed: "spec (safe_log env lg0) (bindA (recordCritical env ev) (\<lambda>_. returnA (Some e))) ?Q (safe_stop env lg0)" for ev e
    by (intro spec_bind [OF plain_safe [OF plain.logs_parts(2)]] spec_return) auto
  have committed: "spec (saved env lg0 (as_NextStep p) ms (as_PendingToolIndex p)) (recordCritical env ev) ?Q (safe_stop env lg0)" for ev
    by (rule spec_conseq [OF plain_saved [OF plain.events(2)]]) (auto simp: saved_def sound_safe)
  show ?thesis
    unfolding CommitForExecution_def assms(1) option.case
    by (rule spec_bind [OF save_saved [OF assms(2-4)]]) (auto split: option.splits intro: committed failed)
qed

lemma commit_saved:
  assumes "ac_RunID (su_actx su) \<noteq> []" and "ae_checkpoints env = Some g"
  shows "spec (\<lambda>w. sound_log env lg0 w \<and> al_messages (aw_st w) = ms) (commitCheckpoint env su step pending idx)
    (\<lambda>_. saved env lg0 step ms idx) (safe_stop env lg0)" (is "spec ?P _ _ _")
proof -
  let ?Q = "\<lambda>a w. (a = None \<longrightarrow> saved env lg0 step ms idx w) \<and> safe_log env lg0 w"
  have refuse: "spec (\<lambda>w. ?P w \<and> X w) (returnA (Some e)) ?Q (safe_stop env lg0)" for X e
    by (intro spec_return) (auto simp: sound_safe)
  have build: "spec (\<lambda>w. ?P w \<and> aw_st w = st) (case buildCheckpointState (ae_codec env) runID st step m pending idx of
        Inl e \<Rightarrow> returnA (Some e) | Inr s \<Rightarrow> CommitForExecution env owner (s\<lparr> ag_CaseID := c, ag_ExecutionGeneration := gen \<rparr>))
      ?Q (safe_stop env lg0)" for st runID m owner c gen
  proof (cases "buildCheckpointState (ae_codec env) runID st step m pending idx")
    case (Inr s)
    obtain p where p: "cd_snapshot (ae_codec env) p = Inr (ag_SnapshotJSON s)" "as_MessagesJSON p = ag_MessagesJSON s"
        "as_NextStep p = step" "as_PendingToolIndex p = idx" using build_snapshot(2) [OF Inr] by blast
    show ?thesis
    proof (cases "al_messages st = ms")
      case True
      have "cd_messages (ae_codec env) ms = Inr (ag_MessagesJSON (s\<lparr> ag_CaseID := c, ag_ExecutionGeneration := gen \<rparr>))"
        using build_snapshot(1) [OF Inr] True by simp
      from weak_pre [OF commit_execution_saved [OF assms(2) this, of p lg0 owner], of "\<lambda>w. aw_st w = st"] show ?thesis
        using p by (simp add: Inr)
    qed (auto intro!: spec_absurd)
  qed (auto intro!: spec_return simp: sound_safe)
  have "spec ?P (checkpoint_error env su step pending idx) ?Q (safe_stop env lg0)"
    using assms(1) unfolding checkpoint_error_def Let_def
    by (auto intro!: spec_ask spec_if refuse weak_pre [OF spec_get] build)
  then show ?thesis
    unfolding commitCheckpoint_def failA_def by (rule spec_bind) (intro spec_option spec_return spec_stop; auto)
qed

lemma commit_sound:
  assumes "ac_RunID (su_actx su) \<noteq> []" and "ae_checkpoints env = Some g"
  shows "spec (sound_log env lg0) (commitCheckpoint env su step pending idx) (\<lambda>_. sound_log env lg0) (safe_stop env lg0)"
proof -
  have "spec (\<lambda>w. sound_log env lg0 w \<and> al_messages (aw_st w) = ms) (commitCheckpoint env su step pending idx)
      (\<lambda>_. sound_log env lg0) (safe_stop env lg0)" for ms
    by (rule spec_conseq [OF commit_saved [OF assms]]) (auto simp: saved_def)
  then show ?thesis by (simp add: spec_def)
qed

subsection \<open>Actions that keep the log sound\<close>

definition writes_ahead :: "'s AEnv \<Rightarrow> alog \<Rightarrow> ('s, 'a) aact \<Rightarrow> bool" where
  "writes_ahead env lg0 m \<longleftrightarrow> spec (sound_log env lg0) m (\<lambda>_. sound_log env lg0) (safe_stop env lg0)"

named_theorems ahead_rules \<open>rules that decompose \<open>writes_ahead\<close> along an action\<close>

lemma ahead_bind [ahead_rules]: "writes_ahead env lg0 m \<Longrightarrow> (\<And>x. writes_ahead env lg0 (k x)) \<Longrightarrow> writes_ahead env lg0 (bindA m k)"
  unfolding writes_ahead_def by (rule spec_bind)

lemma ahead_then [ahead_rules]: "writes_ahead env lg0 m \<Longrightarrow> writes_ahead env lg0 k \<Longrightarrow> writes_ahead env lg0 (thenA m k)"
  unfolding thenA_def by (rule ahead_bind)

lemma ahead_if [ahead_rules]: "(b \<Longrightarrow> writes_ahead env lg0 m) \<Longrightarrow> (\<not> b \<Longrightarrow> writes_ahead env lg0 n) \<Longrightarrow> writes_ahead env lg0 (if b then m else n)"
  by simp

lemma ahead_option [ahead_rules]:
  "(x = None \<Longrightarrow> writes_ahead env lg0 m) \<Longrightarrow> (\<And>y. x = Some y \<Longrightarrow> writes_ahead env lg0 (n y)) \<Longrightarrow>
     writes_ahead env lg0 (case x of None \<Rightarrow> m | Some y \<Rightarrow> n y)"
  by (cases x) simp_all

lemma ahead_sum [ahead_rules]:
  "(\<And>y. writes_ahead env lg0 (m y)) \<Longrightarrow> (\<And>y. writes_ahead env lg0 (n y)) \<Longrightarrow> writes_ahead env lg0 (case x of Inl y \<Rightarrow> m y | Inr y \<Rightarrow> n y)"
  by (cases x) simp_all

lemma ahead_prod [ahead_rules]: "(\<And>a b. writes_ahead env lg0 (f a b)) \<Longrightarrow> writes_ahead env lg0 (case p of (a, b) \<Rightarrow> f a b)"
  by (cases p) simp

lemma ahead_Let [ahead_rules]: "(\<And>x. writes_ahead env lg0 (f x)) \<Longrightarrow> writes_ahead env lg0 (Let e f)"
  by simp

lemma ahead_plain: "moves (logs uneventful) m \<Longrightarrow> writes_ahead env lg0 m"
  unfolding writes_ahead_def by (rule plain_sound)

lemma ahead_parts [ahead_rules]:
  "writes_ahead env lg0 (returnA x)" "writes_ahead env lg0 (stopA status e)" "writes_ahead env lg0 getA" "writes_ahead env lg0 (askA q)"
  "writes_ahead env lg0 (modifyA f)" "writes_ahead env lg0 (say ms)" "writes_ahead env lg0 (telemetry env ev)" "writes_ahead env lg0 (recordCritical env ev)"
  "writes_ahead env lg0 (failA eo)" "writes_ahead env lg0 (add_step sp)" "writes_ahead env lg0 (modifyTs g)" "writes_ahead env lg0 (account u)"
  "writes_ahead env lg0 (modifyResult r)" "writes_ahead env lg0 (check_termination su)" "writes_ahead env lg0 (eachA (submit_claim env) cs)"
  "writes_ahead env lg0 (eachA (record_claim env) cs)"
  by (intro ahead_plain plain.log_rules)+

lemma tool_ahead:
  fixes env :: "'s AEnv"
  shows "spec (saved env lg0 step ms (int ordinal)) (run_tool env su stepID i ordinal tc td) (\<lambda>_. sound_log env lg0) F"
  unfolding spec_def
proof (intro allI impI)
  fix w :: "'s AWorld"
  assume saved: "saved env lg0 step ms (int ordinal) w"
  obtain r w' where run: "run_tool env su stepID i ordinal tc td w = (r, w')" by fastforce
  have "still (of_call (int ordinal)) w w'"
    using movesD [OF approval_frame.run_tool [OF of_call_frame of_call_tool] run] .
  then obtain l where l: "aw_log w' = aw_log w @ l" "list_all (of_call (int ordinal)) l" by (auto simp: still_def)
  have "list_all (\<lambda>fx. \<not> failed_save fx) l"
    using l(2) uneventful_save by (auto simp: list_all_iff of_call_def failed_save_def)
  then have "sound_log env lg0 w'"
    using saved l ahead_of_call [OF l(2), of env lg0 "aw_log w" step ms] by (auto simp: saved_def sound_log_def ahead_append)
  then show "case run_tool env su stepID i ordinal tc td w of (Inl s, w') \<Rightarrow> F s w' | (Inr x, w') \<Rightarrow> sound_log env lg0 w'"
    using run by (cases r) (auto simp: run_tool_def Let_def split: prod.splits)
qed

lemma tool_call_ahead:
  "spec (saved env lg0 step ms (int ordinal)) (handle_tool_call env su stepID ordinal tc) (\<lambda>_. sound_log env lg0) (safe_stop env lg0)"
proof -
  have unavailable: "spec (saved env lg0 step ms (int ordinal)) (call_unavailable env tc tcr e reason) (\<lambda>_. sound_log env lg0) (safe_stop env lg0)" for tcr e reason
    by (rule spec_conseq [OF plain_sound [OF plain.logs_tool_end(3)]]) (auto simp: saved_def)
  have permitted: "spec (saved env lg0 step ms (int ordinal)) (permitted_tool env su stepID i ordinal tc td tcr) (\<lambda>_. sound_log env lg0) (safe_stop env lg0)" for i td tcr
    unfolding permitted_tool_def
    by (rule spec_bind [OF tool_ahead]) (auto split: prod.splits option.splits intro!: plain_sound plain.logs_tool_end simp: Let_def)
  show ?thesis
    unfolding handle_tool_call_def Let_def
    by (intro spec_then [OF plain_saved [OF plain.events(1)]] spec_option spec_if unavailable permitted)
qed

definition durable :: "'s AEnv \<Rightarrow> Setup \<Rightarrow> bool" where
  "durable env su \<longleftrightarrow> ac_RunID (su_actx su) \<noteq> [] \<and> ae_checkpoints env \<noteq> None"

lemma commit_ahead [ahead_rules]: "durable env su \<Longrightarrow> writes_ahead env lg0 (commitCheckpoint env su step pending idx)"
  unfolding writes_ahead_def durable_def using commit_sound by blast

lemma spec_messages: "(\<And>ms. spec (\<lambda>w. P w \<and> al_messages (aw_st w) = ms) m Q F) \<Longrightarrow> spec P m Q F"
  by (simp add: spec_def)

lemma tool_loop_ahead:
  assumes "durable env su"
  shows "writes_ahead env lg0 (tool_loop env su step stepID resp ordinal counted tcs)"
proof (induction tcs arbitrary: ordinal counted)
  case (Cons tc tcs)
  obtain g where g: "ac_RunID (su_actx su) \<noteq> []" "ae_checkpoints env = Some g" using assms by (auto simp: durable_def)
  have next_ahead: "spec (sound_log env lg0) (bindA (tool_loop env su step stepID resp (Suc ordinal) False tcs) (\<lambda>rs. returnA (r # rs)))
      (\<lambda>_. sound_log env lg0) (safe_stop env lg0)" for r
    using ahead_bind [OF Cons.IH ahead_parts(1)] unfolding writes_ahead_def .
  have "writes_ahead env lg0 (thenA (commitCheckpoint env su step (Some resp) (int ordinal))
      (bindA (handle_tool_call env su stepID ordinal tc) (\<lambda>r. bindA (tool_loop env su step stepID resp (Suc ordinal) False tcs) (\<lambda>rs. returnA (r # rs)))))"
    unfolding writes_ahead_def
    by (rule spec_messages) (intro spec_then [OF commit_saved [OF g]] spec_bind [OF tool_call_ahead] next_ahead)
  then show ?case unfolding tool_loop.simps by (intro ahead_then [of _ _ "if _ then _ else _"] ahead_if ahead_parts)
qed (simp add: ahead_parts)

lemma responses_ahead [ahead_rules]:
  assumes "durable env su"
  shows "writes_ahead env lg0 (on_tool_calls env su step sp resp idx)" "writes_ahead env lg0 (on_claims env sp resp claims)"
    "writes_ahead env lg0 (on_summary env su step sp resp s)" "writes_ahead env lg0 (on_reflection env su step sp resp rf)"
    "writes_ahead env lg0 (on_vote env su sp resp v)" "writes_ahead env lg0 (on_invalid sp resp)"
  unfolding on_tool_calls_def on_claims_def on_summary_def gate_passed_def gate_failed_def on_reflection_def on_vote_def vote_refused_def on_invalid_def
  by (intro ahead_rules tool_loop_ahead assms)+

subsection \<open>The model call\<close>

lemma call_model_ahead:
  fixes env :: "'s AEnv"
  shows "spec (saved env lg0 step ms (-1)) (call_model env su step stepID ms) (\<lambda>_. sound_log env lg0) F"
  unfolding spec_def
proof (intro allI impI)
  fix w :: "'s AWorld"
  assume "saved env lg0 step ms (-1) w"
  then have "sound_log env lg0 (w\<lparr> aw_store := s, aw_log := aw_log w @ [XGenerate step ms n] \<rparr>)" for s n
    by (auto simp: saved_def sound_log_def ahead_append covered_def failed_save_def)
  then show "case call_model env su step stepID ms w of (Inl s, w') \<Rightarrow> F s w' | (Inr x, w') \<Rightarrow> sound_log env lg0 w'"
    by (auto simp: call_model_def split: prod.splits)
qed

text \<open>The compactor calls the model only after a checkpoint, and the compacted history is saved again.\<close>

lemma compact_saved:
  assumes "durable env su"
  shows "spec (saved env lg0 step ms (-1)) (compact_if_due env su step) (\<lambda>_ w. saved env lg0 step (al_messages (aw_st w)) (-1) w) (safe_stop env lg0)"
proof -
  obtain g where g: "ac_RunID (su_actx su) \<noteq> []" "ae_checkpoints env = Some g" using assms by (auto simp: durable_def)
  have keep: "spec (\<lambda>w. saved env lg0 step ms (-1) w \<and> X w) (returnA ()) (\<lambda>_ w. saved env lg0 step (al_messages (aw_st w)) (-1) w) (safe_stop env lg0)" for X
    by (intro spec_return) (auto simp: saved_def)
  have save: "spec (sound_log env lg0) (commitCheckpoint env su step None (-1)) (\<lambda>_ w. saved env lg0 step (al_messages (aw_st w)) (-1) w) (safe_stop env lg0)"
    by (rule spec_messages, rule spec_conseq [OF commit_saved [OF g]]) (auto simp: saved_def)
  have log: "spec (\<lambda>w. saved env lg0 step ms (-1) w \<and> X w) (logA (XCompact h)) (\<lambda>_. sound_log env lg0) (safe_stop env lg0)" for X h
    by (intro spec_log) (auto simp: saved_def sound_log_def ahead_append covered_def failed_save_def)
  have part: "writes_ahead env lg0 m \<Longrightarrow> spec (sound_log env lg0) k Q (safe_stop env lg0) \<Longrightarrow> spec (sound_log env lg0) (thenA m k) Q (safe_stop env lg0)"
    for m k and Q :: "unit \<Rightarrow> 'a AWorld \<Rightarrow> bool"
    unfolding writes_ahead_def by (rule spec_then)
  have usage: "writes_ahead env lg0 (case usage of None \<Rightarrow> returnA () | Some u \<Rightarrow> account u)" for usage
    by (intro ahead_rules)
  have replace: "spec (\<lambda>w. saved env lg0 step ms (-1) w \<and> X w) (thenA (logA (XCompact h)) (thenA (modifyA f)
      (thenA (case usage of None \<Rightarrow> returnA () | Some u \<Rightarrow> account u) (bindA getA (\<lambda>st2. thenA (telemetry env (ev st2))
      (commitCheckpoint env su step None (-1))))))) (\<lambda>_ w. saved env lg0 step (al_messages (aw_st w)) (-1) w) (safe_stop env lg0)" for X h f usage ev
    by (intro spec_then [OF log] part [OF ahead_parts(5)] part [OF usage] spec_get weak_pre part [OF ahead_parts(7)] save)
  have result: "spec (\<lambda>w. saved env lg0 step ms (-1) w \<and> X w) (case r of Inl e \<Rightarrow> returnA () | Inr (h2, usage) \<Rightarrow>
      if h2 = [] then returnA () else thenA (logA (XCompact h)) (thenA (modifyA (\<lambda>st. st\<lparr> al_messages := h2, al_compacted := True \<rparr>))
      (thenA (case usage of None \<Rightarrow> returnA () | Some u \<Rightarrow> account u) (bindA getA (\<lambda>st2. thenA (telemetry env (ev st2))
      (commitCheckpoint env su step None (-1))))))) (\<lambda>_ w. saved env lg0 step (al_messages (aw_st w)) (-1) w) (safe_stop env lg0)"
    for X h and r :: "goerr + Message list \<times> Usage option" and ev
    using keep replace by (auto split: sum.splits)
  show ?thesis
    unfolding compact_if_due_def
    using spec_get [OF spec_if [OF keep spec_ask [OF spec_conseq [OF result]]]] by (simp add: conj_assoc)
qed

text \<open>The part of a step that the checkpoint of its messages covers.\<close>

abbreviation ready :: "'s AEnv \<Rightarrow> alog \<Rightarrow> int \<Rightarrow> 's AWorld \<Rightarrow> bool" where
  "ready env lg0 step w \<equiv> saved env lg0 step (al_messages (aw_st w)) (-1) w"

lemma ready_still:
  assumes "moves (still uneventful) m"
  shows "spec (ready env lg0 step) m (\<lambda>_. ready env lg0 step) (safe_stop env lg0)"
  by (rule spec_messages, rule spec_conseq [OF plain_saved [OF assms]]) (auto simp: saved_def)

lemma generate_ahead:
  assumes "durable env su"
  shows "writes_ahead env lg0 (generate_step env su step stepID start)"
proof -
  obtain g where g: "ac_RunID (su_actx su) \<noteq> []" "ae_checkpoints env = Some g" using assms by (auto simp: durable_def)
  have commit: "spec (sound_log env lg0) (commitCheckpoint env su step None (-1)) (\<lambda>_. ready env lg0 step) (safe_stop env lg0)"
    by (rule spec_messages, rule spec_conseq [OF commit_saved [OF g]]) (auto simp: saved_def)
  have compact: "spec (ready env lg0 step) (compact_if_due env su step) (\<lambda>_. ready env lg0 step) (safe_stop env lg0)"
    by (rule spec_messages, rule spec_conseq [OF compact_saved [OF assms]]) (auto simp: saved_def)
  have cancel: "moves (still uneventful) (case ce of None \<Rightarrow> returnA () | Some e \<Rightarrow> stopA LoopStatusCancelled (Some e))" for ce
    by (intro plain.frame_rules)
  have call: "spec (\<lambda>w. ready env lg0 step w \<and> aw_st w = st) (call_model env su step stepID (al_messages st)) (\<lambda>_. sound_log env lg0) (safe_stop env lg0)" for st
    by (rule spec_conseq [OF call_model_ahead]) auto
  have rest: "spec (sound_log env lg0) (bindA (askA (ae_now env)) (\<lambda>now. case r of
      Inl e \<Rightarrow> model_failed env step (sp now) (f e) | Inr resp \<Rightarrow> model_responded env su step stepID resp))
      (\<lambda>_. sound_log env lg0) (safe_stop env lg0)" for r sp f
    using assms unfolding writes_ahead_def [symmetric] model_failed_def model_responded_def by (intro ahead_rules)
  show ?thesis
    unfolding generate_step_def writes_ahead_def
    apply (rule spec_then [OF commit])
    apply (rule spec_then [OF compact])
    apply (rule spec_ask, rule weak_pre)
    apply (rule spec_then [OF ready_still [OF cancel]])
    apply (rule spec_bind [OF ready_still [OF plain.events(2)]])
    apply (rule spec_then [OF ready_still [OF plain.events(3)]])
    apply (rule spec_get)
    apply (rule spec_bind [OF call])
    apply (rule rest)
    done
qed

lemma agent_step_ahead:
  assumes "durable env su"
  shows "writes_ahead env lg0 (agent_step env su step)"
proof -
  have response: "writes_ahead env lg0 (on_response env su step sp resp idx)" for sp resp idx
    unfolding on_response_def Let_def using responses_ahead [OF assms]
    by (intro ahead_bind ahead_parts) (auto split: ParsedResponse.splits)
  show ?thesis
    unfolding agent_step_def by (intro ahead_rules generate_ahead response assms)
qed

lemma agent_loop_ahead: "durable env su \<Longrightarrow> writes_ahead env lg0 (agent_loop env su n step)"
  by (induction n arbitrary: step) (simp_all add: ahead_parts ahead_then agent_step_ahead)

lemma run_loop_ahead:
  assumes "durable env su" and "run_loop env su start w = (s, w')"
  shows "safe_log env (aw_log w) w'"
proof -
  let ?m = "thenA (check_termination su) (agent_loop env su (nat (max_steps (su_cfg su) - start + 1)) start)"
  obtain r w2 where m: "?m w = (r, w2)" by fastforce
  have "sound_log env (aw_log w) w" by (simp add: sound_log_def)
  moreover have "spec (sound_log env (aw_log w)) ?m (\<lambda>_. sound_log env (aw_log w)) (safe_stop env (aw_log w))"
    unfolding writes_ahead_def [symmetric] by (intro ahead_then ahead_parts agent_loop_ahead assms)
  ultimately have "case r of Inl s \<Rightarrow> safe_stop env (aw_log w) s w2 | Inr x \<Rightarrow> sound_log env (aw_log w) w2"
    using specD m by blast
  then show ?thesis
    using m assms(2) by (cases r) (auto simp: run_loop_def intro: sound_safe)
qed

end
