(* ===== verification/AgentHistory.thy ===== *)
theory AgentHistory
  imports AgentLog
begin

text \<open>
  The history of an agent run: what the parts of the loop append to the messages and to the log. The
  chat protocol asks that a response with tool calls is followed by one tool message per call, in
  order, and that no tool message stands elsewhere (\<open>history\<close>); the loop keeps this while it is not
  compacted.
\<close>

section \<open>Histories\<close>

text \<open>The histories that the chat protocol accepts, built at the end.\<close>

inductive history :: "Message list \<Rightarrow> bool" where
  empty: "history []"
| plain: "history h \<Longrightarrow> mg_Role m \<noteq> RoleTool \<Longrightarrow> mg_ToolCalls m = [] \<Longrightarrow> history (h @ [m])"
| batch: "history h \<Longrightarrow> mg_Role m \<noteq> RoleTool \<Longrightarrow> length texts = length (mg_ToolCalls m) \<Longrightarrow>
    history (h @ m # map2 ToolMessage texts (map tm_ID (mg_ToolCalls m)))"

lemma message_simps [simp]:
  "mg_Role (UserMessage t) = RoleUser" "mg_ToolCalls (UserMessage t) = []"
  "mg_Role (SystemMessage t) = RoleSystem" "mg_ToolCalls (SystemMessage t) = []"
  "mg_Role (AssistantMessage t) = RoleAssistant" "mg_ToolCalls (AssistantMessage t) = []"
  by (simp_all add: UserMessage_def SystemMessage_def AssistantMessage_def plain_message_def)

lemma history_user: "history h \<Longrightarrow> history (h @ [UserMessage t])"
  by (rule history.plain) simp_all

lemma history_reply: "history h \<Longrightarrow> mg_Role m \<noteq> RoleTool \<Longrightarrow> mg_ToolCalls m = [] \<Longrightarrow> history (h @ [m, UserMessage t])"
  using history_user [OF history.plain [of h m]] by simp

lemma unwrap_role: "mg_Role m \<noteq> RoleTool \<Longrightarrow> mg_Role (unwrapFunctionCall V m) \<noteq> RoleTool"
  by (auto simp: unwrapFunctionCall_def split: list.splits option.splits)

lemma parsed_calls: "parseResponse V m phase \<noteq> ResponseToolCall \<Longrightarrow> mg_ToolCalls m = []"
  by (auto simp: parseResponse_def split: if_splits)

section \<open>The messages of a step\<close>

text \<open>The messages are \<open>h\<close>, nothing is pending, and what was sent since position \<open>k\<close> of the log is a history.\<close>

definition sent :: "nat \<Rightarrow> alog \<Rightarrow> bool" where
  "sent k lg \<longleftrightarrow> (\<forall>step ms n. XGenerate step ms n \<in> set (drop k lg) \<longrightarrow> history ms)"

definition holds :: "nat \<Rightarrow> Message list \<Rightarrow> 's AWorld \<Rightarrow> bool" where
  "holds k h w \<longleftrightarrow> al_messages (aw_st w) = h \<and> al_pending (aw_st w) = None \<and> sent k (aw_log w)"

abbreviation sent_at :: "nat \<Rightarrow> stop \<Rightarrow> 's AWorld \<Rightarrow> bool" where
  "sent_at k s w \<equiv> sent k (aw_log w)"

lemma sent_append: "sent k lg \<Longrightarrow> list_all (\<lambda>fx. \<not> is_generate fx) l \<Longrightarrow> sent k (lg @ l)"
  using in_set_dropD [of _ "k - length lg" l] by (fastforce simp: sent_def list_all_iff is_generate_def)

lemma holds_calm: "holds k h w \<Longrightarrow> calm w w' \<Longrightarrow> holds k h w'"
  using sent_append by (fastforce simp: holds_def still_def)

lemma calm_holds: "moves calm m \<Longrightarrow> spec (holds k h) m (\<lambda>_. holds k h) (sent_at k)"
  by (erule spec_moves [where S = "\<lambda>_. True", OF _ _ holds_calm]) (auto simp: stops_def holds_def)

lemma say_holds: "spec (holds k h) (say ms) (\<lambda>_. holds k (h @ ms)) F"
  unfolding say_def by (intro spec_rules) (simp add: holds_def)

lemma call_failed_holds: "spec (holds k h) (call_failed env tc e reason feedback) (\<lambda>_. holds k (h @ [ToolMessage feedback (tm_ID tc)])) (sent_at k)"
  unfolding call_failed_def
  by (intro spec_then [OF calm_holds [OF free.state(2)]] spec_then [OF calm_holds [OF free.events(1)]] say_holds)

definition answered :: "nat \<Rightarrow> Message list \<Rightarrow> ToolCallMsg list \<Rightarrow> 's AWorld \<Rightarrow> bool" where
  "answered k h tcs w \<longleftrightarrow> (\<exists>texts. length texts = length tcs \<and> holds k (h @ map2 ToolMessage texts (map tm_ID tcs)) w)"

lemma answered_one: "holds k (h @ [ToolMessage t (tm_ID tc)]) w \<Longrightarrow> answered k h [tc] w"
  by (auto simp: answered_def intro: exI [of _ "[t]"])

lemma call_failed_answers: "spec (holds k h) (thenA (call_failed env tc e reason feedback) (returnA r)) (\<lambda>_. answered k h [tc]) (sent_at k)"
  by (rule spec_then [OF call_failed_holds]) (auto intro!: spec_rules answered_one)

lemma tool_success_answers: "spec (holds k h) (tool_success env tc td tcr out exec) (\<lambda>_. answered k h [tc]) (sent_at k)"
proof -
  have weak: "spec (holds k h) m Q (sent_at k) \<Longrightarrow> spec (\<lambda>w. holds k h w \<and> X w) m Q (sent_at k)" for m :: "('a, 'b) aact" and Q X
    by (erule spec_conseq) auto
  have records: "moves calm (eachA (record_candidate env tc td) cs)" for cs
    by (intro free.frame_rules)
  show ?thesis
    unfolding tool_success_def Let_def
    by (intro spec_then [OF calm_holds [OF free.state(2)]] spec_then [OF calm_holds [OF free.events(1)]] spec_get weak
        spec_then [OF calm_holds [OF records]] spec_then [OF say_holds]) (auto intro!: spec_rules answered_one)
qed

text \<open>Every call is answered by exactly one tool message.\<close>

lemma tool_call_answers: "spec (holds k h) (handle_tool_call env su stepID ordinal tc) (\<lambda>_. answered k h [tc]) (sent_at k)"
proof -
  have "spec (holds k h) (tool_error env tc tcr e reason) (\<lambda>_. answered k h [tc]) (sent_at k)" for tcr e reason
    unfolding tool_error_def Let_def by (rule call_failed_answers)
  then have "spec (holds k h) (permitted_tool env su stepID i ordinal tc td tcr) (\<lambda>_. answered k h [tc]) (sent_at k)" for i td tcr
    unfolding permitted_tool_def Let_def
    by (intro spec_bind [OF calm_holds [OF free.any_tool]]) (auto split: prod.splits option.splits intro: tool_success_answers)
  then show ?thesis
    unfolding handle_tool_call_def Let_def call_unavailable_def
    by (intro spec_then [OF calm_holds [OF free.events(1)]] spec_rules call_failed_answers)
qed

lemma answered_bind:
  fixes m :: "('s, 'a) aact"
  assumes "\<And>h. spec (holds k h) m (\<lambda>_. answered k h tcs) (sent_at k)"
  shows "spec (answered k h [tc]) (bindA m (\<lambda>x. returnA (f x))) (\<lambda>_. answered k h (tc # tcs)) (sent_at k)"
  unfolding spec_def
proof (intro allI impI)
  fix w :: "'s AWorld"
  assume "answered k h [tc] w"
  then obtain t where t: "holds k (h @ [ToolMessage t (tm_ID tc)]) w" by (auto simp: answered_def length_Suc_conv)
  obtain r w' where m: "m w = (r, w')" by fastforce
  have "case r of Inl s \<Rightarrow> sent_at k s w' | Inr x \<Rightarrow> answered k h (tc # tcs) w'"
    using specD [OF assms t m] by (cases r) (auto simp: answered_def intro: exI [of _ "t # _"])
  then show "case bindA m (\<lambda>x. returnA (f x)) w of (Inl s, w') \<Rightarrow> sent_at k s w' | (Inr x, w') \<Rightarrow> answered k h (tc # tcs) w'"
    by (cases r) (simp_all add: m bindA_def returnA_def)
qed

lemma tool_loop_answers: "spec (holds k h) (tool_loop env su step stepID resp ordinal counted tcs) (\<lambda>_. answered k h tcs) (sent_at k)"
proof (induction tcs arbitrary: h ordinal counted)
  case Nil
  show ?case by (auto intro!: spec_rules simp: answered_def)
next
  case (Cons tc tcs)
  have "moves calm (if ordinal > 0 then modifyA (\<lambda>st. st\<lparr> al_last := NewInvocationID (ae_digest env) stepID InvocationTool (int ordinal - 1) \<rparr>) else returnA ())"
      "moves calm (if counted then returnA () else modifyTs (\<lambda>ts. ts\<lparr> ToolCalls := ToolCalls ts + 1 \<rparr>))"
    by (intro free.frame_rules)+
  then show ?case
    unfolding tool_loop.simps
    by (intro spec_then [OF calm_holds] spec_bind [OF tool_call_answers] free.commit answered_bind Cons.IH)
qed

section \<open>The loop keeps the history valid\<close>

definition steady :: "nat \<Rightarrow> 's AWorld \<Rightarrow> bool" where
  "steady k w \<longleftrightarrow> history (al_messages (aw_st w)) \<and> al_pending (aw_st w) = None \<and> sent k (aw_log w)"

lemma steady_holds: "steady k w \<longleftrightarrow> (\<exists>h. history h \<and> holds k h w)"
  by (auto simp: steady_def holds_def)

lemma steady_step: "steady k w \<Longrightarrow> calm w w' \<Longrightarrow> steady k w'"
  by (metis steady_holds holds_calm)

lemma steady_calm: "moves calm m \<Longrightarrow> spec (steady k) m (\<lambda>_. steady k) (sent_at k)"
  by (erule spec_moves [where S = "\<lambda>_. True", OF _ _ steady_step]) (auto simp: stops_def steady_def)

lemma spec_steady:
  fixes m :: "('s, 'a) aact"
  assumes "\<And>h. history h \<Longrightarrow> spec (holds k h) m Q F"
  shows "spec (steady k) m Q F"
  unfolding spec_def
proof (intro allI impI)
  fix w :: "'s AWorld"
  assume "steady k w"
  then obtain h where "history h" "holds k h w" by (auto simp: steady_holds)
  then show "case m w of (Inl s, w') \<Rightarrow> F s w' | (Inr x, w') \<Rightarrow> Q x w'" using assms unfolding spec_def by auto
qed

lemma holds_steady: "history h \<Longrightarrow> holds k h w \<Longrightarrow> steady k w"
  by (auto simp: steady_holds)

lemma answered_steady:
  assumes "history h" "mg_Role m \<noteq> RoleTool" "answered k (h @ [m]) (mg_ToolCalls m) w"
  shows "steady k w"
  using assms history.batch [OF assms(1,2)] by (fastforce simp: answered_def steady_holds)

lemma skipped: "map skip_message tcs = map2 ToolMessage (replicate (length tcs) ''tool call skipped: tool-call limit reached'') (map tm_ID tcs)"
  by (induction tcs) (simp_all add: skip_message_def)

lemma on_tool_calls_steady:
  assumes "mg_Role resp \<noteq> RoleTool" and "idx < 0"
  shows "spec (steady k) (on_tool_calls env su step sp resp idx) (\<lambda>_. steady k) (sent_at k)"
proof (rule spec_steady)
  fix h
  assume h: "history h"
  let ?p = "mc_LoopPolicy (su_cfg su)"
  have limit: "history (h @ [resp] @ map skip_message (mg_ToolCalls resp) @ [limit_message ?p])"
    using history_user [OF history.batch [OF h assms(1), of "replicate (length (mg_ToolCalls resp)) ''tool call skipped: tool-call limit reached''"]]
    by (simp add: skipped limit_message_def)
  have skip: "spec (holds k (h @ [resp])) (thenA (say (map skip_message (mg_ToolCalls resp) @ [limit_message ?p]))
      (thenA (commitCheckpoint env su (step + 1) None (-1)) (add_step sp))) (\<lambda>_. steady k) (sent_at k)"
    by (rule spec_then [OF say_holds], rule spec_then [OF calm_holds [OF free.commit]],
        rule spec_conseq [OF calm_holds [OF free.state(1)]]) (use limit holds_steady in auto)
  have run: "spec (holds k (h @ [resp])) (bindA (tool_loop env su step i resp n b (mg_ToolCalls resp)) f) (\<lambda>_. steady k) (sent_at k)"
    if "\<And>recs. moves calm (f recs)" for i n b f
    by (rule spec_bind [OF tool_loop_answers], rule spec_conseq [OF steady_calm [OF that]])
      (use h assms(1) in \<open>auto intro: answered_steady\<close>)
  show "spec (holds k h) (on_tool_calls env su step sp resp idx) (\<lambda>_. steady k) (sent_at k)"
    using assms(2) unfolding on_tool_calls_def Let_def
    by (auto intro!: spec_then [OF say_holds] spec_get weak_pre skip run free.frame_rules free.commit)
qed

lemma reply_steady:
  assumes "mg_Role resp \<noteq> RoleTool" and "mg_ToolCalls resp = []"
  shows "spec (steady k) (say [resp, UserMessage t]) (\<lambda>_. steady k) (sent_at k)"
  using history_reply [OF _ assms, of _ t] unfolding say_def by (intro spec_rules) (auto simp: steady_def)

lemma responses_steady:
  assumes "mg_Role resp \<noteq> RoleTool" and "mg_ToolCalls resp = []"
  shows "spec (steady k) (on_claims env sp resp claims) (\<lambda>_. steady k) (sent_at k)"
    and "spec (steady k) (on_summary env su step sp resp s) (\<lambda>_. steady k) (sent_at k)"
    and "spec (steady k) (on_reflection env su step sp resp rf) (\<lambda>_. steady k) (sent_at k)"
    and "spec (steady k) (on_vote env su sp resp v) (\<lambda>_. steady k) (sent_at k)"
    and "spec (steady k) (on_invalid sp resp) (\<lambda>_. steady k) (sent_at k)"
proof -
  note reply = spec_then [OF reply_steady [OF assms]] and calm = spec_then [OF steady_calm]
  have one: "spec (steady k) (say [resp]) (\<lambda>_. steady k) (sent_at k)"
    using history.plain [OF _ assms] unfolding say_def by (intro spec_rules) (auto simp: steady_def)
  have user: "spec (steady k) (say [UserMessage t]) (\<lambda>_. steady k) (sent_at k)" for t
    using history_user unfolding say_def by (intro spec_rules) (auto simp: steady_def)
  have each: "moves calm (eachA (submit_claim env) cs)" "moves calm (eachA (record_claim env) cs)" for cs
    by (intro free.frame_rules)+
  show "spec (steady k) (on_claims env sp resp claims) (\<lambda>_. steady k) (sent_at k)"
    unfolding on_claims_def
    by (intro spec_then [OF one] calm [OF each(1)] spec_get weak_pre spec_then [OF user] steady_calm free.state)
  have passed: "spec (steady k) (gate_passed env su step sp resp s) (\<lambda>_. steady k) (sent_at k)"
    unfolding gate_passed_def Let_def
    by (intro calm [OF free.events(1)] calm [OF free.state(4)] calm [OF each(2)] reply calm [OF free.fields(4)] calm [OF free.commit]
        steady_calm free.state)
  have failed: "spec (steady k) (gate_failed env su sp resp g) (\<lambda>_. steady k) (sent_at k)" for g
    unfolding gate_failed_def Let_def
    by (intro calm [OF free.events(1)] calm [OF free.state(2)] spec_get weak_pre reply calm [OF free.state(1)] steady_calm free.check)
  show "spec (steady k) (on_summary env su step sp resp s) (\<lambda>_. steady k) (sent_at k)"
    unfolding on_summary_def Let_def by (intro calm [OF free.fields(3)] spec_get weak_pre spec_if passed failed)
  show "spec (steady k) (on_reflection env su step sp resp rf) (\<lambda>_. steady k) (sent_at k)"
    unfolding on_reflection_def
    by (intro calm [OF free.state(4)] reply calm [OF free.fields(4)] calm [OF free.commit] steady_calm free.state)
  show "spec (steady k) (on_invalid sp resp) (\<lambda>_. steady k) (sent_at k)"
    unfolding on_invalid_def by (intro calm [OF free.state(2)] reply steady_calm free.state)
  have refused: "spec (steady k) (vote_refused sp resp msg) (\<lambda>_. steady k) (sent_at k)" for msg
    unfolding vote_refused_def by (intro reply steady_calm free.state)
  have cast: "spec (steady k) (thenA (modifyResult f) (thenA (telemetry env ev) (thenA (add_step sp') (stopA status e)))) (\<lambda>_. steady k) (sent_at k)" for f ev sp' status e
    by (intro calm [OF free.state(4)] calm [OF free.events(1)] calm [OF free.state(1)] steady_calm free.stop)
  show "spec (steady k) (on_vote env su sp resp v) (\<lambda>_. steady k) (sent_at k)"
    unfolding on_vote_def by (intro spec_get weak_pre spec_option refused cast)
qed

text \<open>What the run relies on: stored responses are not tool messages, and the history is never compacted.\<close>

definition replies_assistant :: "'s AEnv \<Rightarrow> bool" where
  "replies_assistant env \<longleftrightarrow> (\<forall>t m. decodeResponse (ae_model env) t = Inr m \<longrightarrow> mg_Role m \<noteq> RoleTool)"

definition never_compacts :: "LoopPolicy \<Rightarrow> bool" where
  "never_compacts p \<longleftrightarrow> TokenBudget p \<le> 0 \<or> TokenCompactionThreshold p \<le> 0"

lemma never_compacts_due: "never_compacts p \<Longrightarrow> \<not> compaction_due p st"
  by (auto simp: never_compacts_def compaction_due_def)

lemma generated: "Model_Generate R d answer req s = (Inr m, s', n) \<Longrightarrow> \<exists>t. decodeResponse d t = Inr m"
  by (auto simp: Model_Generate_def split: option.splits sum.splits prod.splits if_splits)

lemma call_model_holds:
  fixes env :: "'s AEnv"
  assumes "history h" and "replies_assistant env"
  shows "spec (holds k h) (call_model env su step stepID h) (\<lambda>r w. holds k h w \<and> (\<forall>m. r = Inr m \<longrightarrow> mg_Role m \<noteq> RoleTool)) F"
  unfolding spec_def call_model_def
proof (intro allI impI)
  fix w :: "'s AWorld"
  assume "holds k h w"
  then have sent: "sent k (aw_log w @ [XGenerate step h n])" for n
    using assms(1) by (cases "k \<le> length (aw_log w)") (auto simp: holds_def sent_def)
  show "case case Model_Generate (ae_repo env) (ae_model env) (ae_generate env (aw_log w) h)
              \<lparr> mq_Identity = model_identity env su stepID, mq_ModelRef = mc_Model (su_cfg su), mq_Input = h \<rparr> (aw_store w) of
          (r, s, n) \<Rightarrow> (Inr r, w\<lparr> aw_store := s, aw_log := aw_log w @ [XGenerate step h n] \<rparr>) of
      (Inl s, w') \<Rightarrow> F s w' | (Inr r, w') \<Rightarrow> holds k h w' \<and> (\<forall>m. r = Inr m \<longrightarrow> mg_Role m \<noteq> RoleTool)"
    using \<open>holds k h w\<close> sent generated assms(2)
    by (fastforce simp: holds_def replies_assistant_def split: prod.splits)
qed

lemma failed_holds: "spec (holds k h) (model_failed env step sp e) (\<lambda>_ _. False) (sent_at k)"
  unfolding model_failed_def
  by (intro spec_bind [OF calm_holds [OF free.events(2)]] spec_then [OF calm_holds [OF free.events(1)]]
      spec_then [OF calm_holds [OF free.state(1)]] spec_stop) (simp add: holds_def)

lemma responded_holds:
  "spec (holds k h) (model_responded env su step stepID resp) (\<lambda>r w. holds k h w \<and> r = resp) (sent_at k)"
  unfolding model_responded_def
  by (intro spec_bind [OF calm_holds [OF free.events(2)]] spec_then [OF calm_holds [OF free.events(3)]]
      spec_then [OF calm_holds [OF free.events(1)]] spec_then [OF calm_holds [OF free.fields(1)]]
      spec_then [OF calm_holds [OF free.state(3)]] spec_then [OF calm_holds [OF free.commit]]) (auto intro: spec_rules)

lemma generate_holds:
  assumes "history h" and "replies_assistant env" and "never_compacts (mc_LoopPolicy (su_cfg su))"
  shows "spec (holds k h) (generate_step env su step stepID start) (\<lambda>r w. holds k h w \<and> mg_Role r \<noteq> RoleTool) (sent_at k)"
proof -
  have "moves calm (compact_if_due env su step)"
    unfolding compact_if_due_def using never_compacts_due [OF assms(3)] by (auto intro!: free.frame_rules)
  note compact = calm_holds [OF this]
  have cancel: "moves calm (case ce of None \<Rightarrow> returnA () | Some e \<Rightarrow> stopA LoopStatusCancelled (Some e))" for ce
    by (intro free.frame_rules)
  have model: "spec (\<lambda>w. holds k h w \<and> aw_st w = st) (call_model env su step stepID (al_messages st))
      (\<lambda>r w. holds k h w \<and> (\<forall>m. r = Inr m \<longrightarrow> mg_Role m \<noteq> RoleTool)) (sent_at k)" for st
    using call_model_holds [OF assms(1,2), of k su step stepID "sent_at k"]
    by (cases "al_messages st = h") (auto intro: weak_pre simp: spec_def holds_def)
  have handle: "spec (\<lambda>w. (holds k h w \<and> (\<forall>m. r = Inr m \<longrightarrow> mg_Role m \<noteq> RoleTool)) \<and> X w)
      (case r of Inl e \<Rightarrow> model_failed env step (sp e) (f e) | Inr resp \<Rightarrow> model_responded env su step stepID resp)
      (\<lambda>r w. holds k h w \<and> mg_Role r \<noteq> RoleTool) (sent_at k)" for r sp f X
  proof (cases r)
    case (Inl e)
    then show ?thesis using failed_holds [of k h env step "sp e" "f e"] by (auto elim: spec_conseq)
  next
    case (Inr resp)
    show ?thesis
    proof (cases "mg_Role resp = RoleTool")
      case True
      then show ?thesis using Inr by (simp add: spec_def)
    next
      case False
      then show ?thesis
        unfolding Inr sum.case by (intro spec_conseq [OF responded_holds]) auto
    qed
  qed
  show ?thesis
    unfolding generate_step_def
    by (intro spec_then [OF calm_holds [OF free.commit]] spec_then [OF compact] spec_ask weak_pre spec_then [OF calm_holds [OF cancel]]
        spec_bind [OF calm_holds [OF free.events(2)]] spec_then [OF calm_holds [OF free.events(3)]] spec_get spec_bind [OF model] handle)
qed

lemma on_response_steady:
  assumes "mg_Role resp \<noteq> RoleTool"
  shows "spec (steady k) (on_response env su step sp resp (-1)) (\<lambda>_. steady k) (sent_at k)"
  unfolding on_response_def Let_def
proof (intro spec_get weak_pre)
  fix st
  let ?r = "unwrapFunctionCall (ae_validators env) resp"
  have role: "mg_Role ?r \<noteq> RoleTool" by (rule unwrap_role [OF assms])
  show "spec (steady k) (case parseResponse (ae_validators env) ?r (al_phase st) of
      ResponseToolCall \<Rightarrow> on_tool_calls env su step sp ?r (-1)
    | ResponseClaimSubmission claims \<Rightarrow> on_claims env sp ?r claims
    | ResponseEvidenceSummary s \<Rightarrow> on_summary env su step sp ?r s
    | ResponseReflection rf \<Rightarrow> on_reflection env su step sp ?r rf
    | ResponseVote v \<Rightarrow> on_vote env su sp ?r v
    | ResponseInvalid \<Rightarrow> on_invalid sp ?r) (\<lambda>_. steady k) (sent_at k)"
    using role parsed_calls [of "ae_validators env" ?r "al_phase st"]
    by (cases "parseResponse (ae_validators env) ?r (al_phase st)") (simp_all add: on_tool_calls_steady responses_steady)
qed

lemma agent_step_steady:
  assumes "replies_assistant env" and "never_compacts (mc_LoopPolicy (su_cfg su))"
  shows "spec (steady k) (agent_step env su step) (\<lambda>_. steady k) (sent_at k)"
proof (rule spec_steady)
  fix h
  assume h: "history h"
  let ?R = "\<lambda>r w. holds k h w \<and> mg_Role r \<noteq> RoleTool"
  have response: "spec (\<lambda>w. holds k h w \<and> aw_st w = st0) (case al_pending st0 of
        Some m \<Rightarrow> thenA (modifyA (\<lambda>st. st\<lparr> al_pending := None \<rparr>)) (returnA m)
      | None \<Rightarrow> generate_step env su step stepID start) ?R (sent_at k)" for st0 stepID start
  proof (cases "al_pending st0")
    case None
    then show ?thesis by (simp add: weak_pre [OF generate_holds [OF h assms]])
  qed (auto simp: spec_def holds_def)
  have terminate: "spec (steady k) (thenA (add_step sp) (stopA status e)) (\<lambda>_. steady k) (sent_at k)" for sp status e
    by (intro steady_calm free.frame_rules)
  have act: "spec (\<lambda>w. (?R r w \<and> X w) \<and> aw_st w = st) (case CheckTermination (al_ts st) p of
        Some (status, e) \<Rightarrow> thenA (add_step sp) (stopA status (Some e))
      | None \<Rightarrow> on_response env su step sp r (if al_pending st0 \<noteq> None then al_pendingIndex st else -1)) (\<lambda>_. steady k) (sent_at k)"
    if "al_pending st0 = None" for r X st p sp st0
  proof (cases "mg_Role r = RoleTool")
    case False
    have pre: "\<And>w. (?R r w \<and> X w) \<and> aw_st w = st \<Longrightarrow> steady k w" using holds_steady [OF h] by blast
    show ?thesis
      using that spec_conseq [OF terminate pre] spec_conseq [OF on_response_steady [OF False] pre]
      by (cases "CheckTermination (al_ts st) p") auto
  qed (simp add: spec_def)
  have step: "spec (\<lambda>w. holds k h w \<and> aw_st w = st0) (bindA (case al_pending st0 of
        Some m \<Rightarrow> thenA (modifyA (\<lambda>st. st\<lparr> al_pending := None \<rparr>)) (returnA m)
      | None \<Rightarrow> generate_step env su step stepID start) (\<lambda>resp. bindA (askA (ae_now env)) (\<lambda>now. bindA getA (\<lambda>st.
        case CheckTermination (al_ts st) (mc_LoopPolicy (su_cfg su)) of
          Some (status, e) \<Rightarrow> thenA (add_step (f now resp)) (stopA status (Some e))
        | None \<Rightarrow> on_response env su step (f now resp) resp (if al_pending st0 \<noteq> None then al_pendingIndex st else -1)))))
      (\<lambda>_. steady k) (sent_at k)" for st0 stepID start f
  proof (cases "al_pending st0 = None")
    case True
    show ?thesis by (intro spec_bind [OF response] spec_ask spec_get act True)
  next
    case False
    then show ?thesis by (intro spec_absurd) (auto simp: holds_def)
  qed
  show "spec (holds k h) (agent_step env su step) (\<lambda>_. steady k) (sent_at k)"
    unfolding agent_step_def Let_def
    by (intro spec_ask weak_pre spec_if spec_stop spec_get step) (auto simp: holds_def)
qed

lemma agent_loop_steady:
  assumes "replies_assistant env" and "never_compacts (mc_LoopPolicy (su_cfg su))"
  shows "spec (steady k) (agent_loop env su n step) (\<lambda>_. steady k) (sent_at k)"
proof (induction n arbitrary: step)
  case 0
  show ?case unfolding agent_loop.simps by (intro steady_calm free.stop)
next
  case (Suc n)
  show ?case unfolding agent_loop.simps by (rule spec_then [OF agent_step_steady [OF assms] Suc.IH])
qed

lemma run_loop_sent:
  assumes "replies_assistant env" and "never_compacts (mc_LoopPolicy (su_cfg su))" and "steady k w" and "run_loop env su start w = (s, w')"
  shows "sent k (aw_log w')"
proof -
  let ?m = "thenA (check_termination su) (agent_loop env su (nat (max_steps (su_cfg su) - start + 1)) start)"
  obtain r w2 where m: "?m w = (r, w2)" by fastforce
  have "spec (steady k) ?m (\<lambda>_. steady k) (sent_at k)"
    by (rule spec_then [OF steady_calm [OF free.check] agent_loop_steady [OF assms(1,2)]])
  from specD [OF this assms(3) m] m assms(4) show ?thesis
    by (cases r) (auto simp: run_loop_def steady_def)
qed

end
