(* ===== verification/AgentProgress.thy ===== *)
theory AgentProgress
  imports AgentHistory
begin

text \<open>
  Progress of the agent loop: when its ports work and the model delivers an acceptable summary and
  then an acceptable vote, the run completes. Triples whose stop condition is false say that an
  action returns.
\<close>

section \<open>The first execution of an invocation\<close>

lemma scoped_fields [simp]:
  "id_InvocationID (rq_Identity (scoped req)) = id_InvocationID (rq_Identity req)"
  by (simp add: scoped_def)

lemma solo_fresh:
  assumes "map_of (mr_invocations s) (id_InvocationID (rq_Identity req)) = None" and "validate k req True = None"
    and "\<And>ir. k_recorder k \<Longrightarrow> rec ir = None"
  shows "\<exists>s1. solo mem_ops rec (Inr out) (execute dig k req matcher True) s = (Inr \<lparr> kr_Output = out, kr_Cached = False \<rparr>, s1, 1) \<and>
    (\<forall>i. i \<noteq> id_InvocationID (rq_Identity req) \<longrightarrow> map_of (mr_invocations s1) i = map_of (mr_invocations s) i)"
proof -
  have "check_match dig matcher (new_invocation dig (scoped req)) (scoped req) = None"
    by (simp add: check_match_def matchesRequest_new)
  moreover have "ri_InvocationID (new_invocation dig (scoped req)) = id_InvocationID (rq_Identity req)"
      "ri_Status (new_invocation dig (scoped req)) = InvocationPending"
    by (simp_all add: new_invocation_def)
  ultimately show ?thesis
    using assms
    by (simp add: execute_def fenced_execution_def mem_ops_def mem_Ensure_def mem_BeginAttempt_def may_begin_def owned_attempt_def
        complete_attempt_def mem_finish_def current_of_def update_conv' Let_def)
qed

text \<open>The model runtime can store and reload this response.\<close>

definition storable :: "ModelDeps \<Rightarrow> Message \<Rightarrow> bool" where
  "storable d m \<longleftrightarrow> (case encodeResponse d m of Inl e \<Rightarrow> False | Inr t \<Rightarrow> decodeResponse d t = Inr m)"

definition kernel_ready :: "ModelDeps \<Rightarrow> bool" where
  "kernel_ready d \<longleftrightarrow> (case md_kernel d of None \<Rightarrow> False | Some k \<Rightarrow> k_invocations k) \<and> (\<forall>ir. md_Recorder d ir = None) \<and>
     (\<forall>i ms. case md_input d i ms of Inl e \<Rightarrow> False | Inr t \<Rightarrow> True)"

lemma model_fresh:
  assumes "kernel_ready d" and "storable d m" and "map_of (mr_invocations s) (id_InvocationID (mq_Identity req)) = None"
    and "id_InvocationID (mq_Identity req) = Model_InvocationID d (id_StepID (mq_Identity req)) (mq_ModelRef req)"
    and "id_RunID (mq_Identity req) \<noteq> []" "id_StepID (mq_Identity req) \<noteq> []" "id_InvocationID (mq_Identity req) \<noteq> []" "id_AttemptID (mq_Identity req) \<noteq> []"
  shows "\<exists>s1. Model_Generate mem_ops d (Inr (Some m)) req s = (Inr m, s1, 1) \<and>
    (\<forall>i. i \<noteq> id_InvocationID (mq_Identity req) \<longrightarrow> map_of (mr_invocations s1) i = map_of (mr_invocations s) i)"
proof -
  obtain k where k: "md_kernel d = Some k" "k_invocations k" using assms(1) by (auto simp: kernel_ready_def split: option.splits)
  obtain input where input: "encodeInput d (mq_ModelRef req) (mq_Input req) = Inr input"
    using assms(1) by (fastforce simp: kernel_ready_def encodeInput_def encodeCanonicalInput_def split: sum.splits)
  obtain t where t: "encodeResponse d m = Inr t" "decodeResponse d t = Inr m"
    using assms(2) by (auto simp: storable_def split: sum.splits)
  have q: "rq_Identity (model_request req input) = mq_Identity req" by (simp add: model_request_def)
  have "validate k (model_request req input) True = None"
    using k assms(5-8) by (simp add: validate_def q)
  then obtain s1 where "solo mem_ops (md_Recorder d) (Inr t) (execute (md_Digest d) k (model_request req input) (Some (matchLegacyInput d)) True) s =
      (Inr \<lparr> kr_Output = t, kr_Cached = False \<rparr>, s1, 1)"
      "\<forall>i. i \<noteq> id_InvocationID (mq_Identity req) \<longrightarrow> map_of (mr_invocations s1) i = map_of (mr_invocations s) i"
    using solo_fresh [of s "model_request req input" k "md_Recorder d"] assms(1,3) unfolding q by (force simp: kernel_ready_def)
  then show ?thesis
    using k(1) input t assms(4) by (simp add: Model_Generate_def model_outcome_def ExecuteWithInputMatcher_def)
qed

section \<open>Ports that work\<close>

definition encodes_all :: "('a \<Rightarrow> goerr + string) \<Rightarrow> bool" where
  "encodes_all enc \<longleftrightarrow> (\<forall>x. case enc x of Inl e \<Rightarrow> False | Inr t \<Rightarrow> True)"

definition healthy :: "'s AEnv \<Rightarrow> bool" where
  "healthy env \<longleftrightarrow> (\<forall>l. \<not> ae_leaseLost env l) \<and> (\<forall>l. ae_ctxErr env l = None) \<and> (\<forall>l s. ae_save env l s = None) \<and>
     (\<forall>l ev. ae_publish env l ev = None) \<and> ae_checkpoints env \<noteq> Some False \<and>
     encodes_all (cd_messages (ae_codec env)) \<and> encodes_all (cd_ledger (ae_codec env)) \<and> encodes_all (cd_summary (ae_codec env)) \<and>
     encodes_all (cd_reflection (ae_codec env)) \<and> encodes_all (cd_message (ae_codec env)) \<and> encodes_all (cd_snapshot (ae_codec env))"

lemma encodes_allD: "encodes_all enc \<Longrightarrow> \<exists>t. enc x = Inr t"
  unfolding encodes_all_def by (metis old.sum.exhaust sum.case(1))

abbreviation never :: "stop \<Rightarrow> bool" where
  "never \<equiv> \<lambda>_. False"

lemma build_total:
  assumes "healthy env"
  shows "\<exists>s. buildCheckpointState (ae_codec env) runID st n manifest p i = Inr s"
proof -
  have all: "encodes_all (cd_messages (ae_codec env))" "encodes_all (cd_ledger (ae_codec env))" "encodes_all (cd_summary (ae_codec env))"
     "encodes_all (cd_reflection (ae_codec env))" "encodes_all (cd_message (ae_codec env))" "encodes_all (cd_snapshot (ae_codec env))"
    using assms by (auto simp: healthy_def)
  have marshals: "\<exists>t. marshalCheckpointValue enc xo = Inr t" if "encodes_all enc" for enc :: "'b \<Rightarrow> goerr + string" and xo
    using encodes_allD [OF that] by (cases xo) (auto simp: marshalCheckpointValue_def, metis sum.case(2))
  obtain a b c d e where parts: "cd_messages (ae_codec env) (al_messages st) = Inr a" "marshal_ledger (ae_codec env) (al_ledger st) = Inr b"
      "marshalCheckpointValue (cd_summary (ae_codec env)) (lr_Summary (al_result st)) = Inr c"
      "marshalCheckpointValue (cd_reflection (ae_codec env)) (lr_Reflection (al_result st)) = Inr d"
      "marshalCheckpointValue (cd_message (ae_codec env)) p = Inr e"
    using encodes_allD [OF all(1)] encodes_allD [OF all(2), of "MarshalLedger (al_ledger st)"] marshals [OF all(3)] marshals [OF all(4)] marshals [OF all(5)]
    unfolding marshal_ledger_def by (metis sum.case(2))
  obtain f where "MarshalAgentSnapshotV2 (ae_codec env) (snapshot_of runID st n manifest a b c d e i) = Inr f"
    using encodes_allD [OF all(6)] by (auto simp: MarshalAgentSnapshotV2_def snapshot_of_def) (metis sum.case(2))
  then show ?thesis by (simp add: buildCheckpointState_def parts)
qed

text \<open>Nothing the loop looks at later changes but the trace, the usage and the last invocation.\<close>

definition drift :: "'s AWorld \<Rightarrow> 's AWorld \<Rightarrow> bool" where
  "drift w w' \<longleftrightarrow> set (aw_log w) \<subseteq> set (aw_log w') \<and> aw_store w' = aw_store w \<and> al_phase (aw_st w') = al_phase (aw_st w) \<and> al_messages (aw_st w') = al_messages (aw_st w) \<and>
     al_ledger (aw_st w') = al_ledger (aw_st w) \<and> al_pending (aw_st w') = al_pending (aw_st w) \<and>
     lr_Summary (al_result (aw_st w')) = lr_Summary (al_result (aw_st w)) \<and>
     GateFail (al_ts (aw_st w')) = GateFail (al_ts (aw_st w)) \<and> ConsecToolFail (al_ts (aw_st w')) = ConsecToolFail (al_ts (aw_st w)) \<and>
     ValidationFail (al_ts (aw_st w')) = ValidationFail (al_ts (aw_st w))"

interpretation drift: world_order drift
  by unfold_locales (auto simp: drift_def)

lemma drift_parts:
  "moves drift (telemetry env ev)" "moves drift (recordCritical env ev)" "moves drift (failA eo)" "moves drift (add_step sp)"
  "moves drift (account u)" "moves drift (modifyA (\<lambda>st. st\<lparr> al_last := f st \<rparr>))" "moves drift (check_termination su)"
  unfolding telemetry_def recordCritical_def failA_def add_step_def account_def check_termination_def
  by (intro drift.rules drift.modify drift.log; auto simp: drift_def)+

lemma drift_commit: "moves drift (commitCheckpoint env su n p i)"
  unfolding commitCheckpoint_def checkpoint_error_def CommitForExecution_def save_checkpoint_def Let_def
  by (intro drift.rules drift_parts drift.log) (auto simp: drift_def)

definition poised :: "afx set \<Rightarrow> string \<Rightarrow> Message list \<Rightarrow> EvidenceLedger \<Rightarrow> EvidenceSummary option \<Rightarrow> 's \<Rightarrow> 's AWorld \<Rightarrow> bool" where
  "poised K phase ms l so s w \<longleftrightarrow> K \<subseteq> set (aw_log w) \<and> al_phase (aw_st w) = phase \<and> al_messages (aw_st w) = ms \<and> al_ledger (aw_st w) = l \<and>
     lr_Summary (al_result (aw_st w)) = so \<and> aw_store w = s \<and> al_pending (aw_st w) = None \<and>
     GateFail (al_ts (aw_st w)) = 0 \<and> ConsecToolFail (al_ts (aw_st w)) = 0 \<and> ValidationFail (al_ts (aw_st w)) = 0"

lemma poised_drift: "poised K phase ms l so s w \<Longrightarrow> drift w w' \<Longrightarrow> poised K phase ms l so s w'"
  by (auto simp: poised_def drift_def)

lemma spec_drift:
  assumes "moves drift m" and "stops never m"
  shows "spec (poised K phase ms l so s) m (\<lambda>_. poised K phase ms l so s) F"
  by (rule spec_moves [OF assms]) (auto intro: poised_drift)

text \<open>Actions that report success to their caller.\<close>

definition succeeds :: "('s, goerr option) aact \<Rightarrow> bool" where
  "succeeds m \<longleftrightarrow> (\<forall>w. fst (m w) = Inr None)"

lemma succeedsD:
  assumes "succeeds m"
  obtains w' where "m w = (Inr None, w')"
  using assms that [of "snd (m w)"] by (auto simp: succeeds_def prod_eq_iff)

lemma succeeds_bind:
  assumes "succeeds m" and "succeeds (k None)"
  shows "succeeds (bindA m k)"
  unfolding succeeds_def
proof (intro allI)
  fix w
  obtain w1 where "m w = (Inr None, w1)" by (rule succeedsD [OF assms(1)])
  then show "fst (bindA m k w) = Inr None" using assms(2) by (simp add: bindA_def succeeds_def)
qed

lemma succeeds_critical: "healthy env \<Longrightarrow> succeeds (recordCritical env ev)"
  by (simp add: succeeds_def recordCritical_def bindA_def askA_def thenA_def logA_def returnA_def healthy_def)

lemma succeeds_save: "healthy env \<Longrightarrow> ae_checkpoints env = Some g \<Longrightarrow> succeeds (save_checkpoint env owner g state)"
  by (auto simp: succeeds_def save_checkpoint_def bindA_def askA_def thenA_def logA_def returnA_def healthy_def)

lemma succeeds_commit: "healthy env \<Longrightarrow> succeeds (CommitForExecution env owner state)"
  unfolding CommitForExecution_def
  by (cases "ae_checkpoints env") (auto simp: succeeds_def [of "returnA None"] returnA_def intro!: succeeds_bind succeeds_save succeeds_critical)

lemma succeeds_checkpoint:
  assumes "healthy env"
  shows "succeeds (checkpoint_error env su n p i)"
  unfolding succeeds_def
proof (intro allI)
  fix w :: "'a AWorld"
  obtain state where state: "buildCheckpointState (ae_codec env) (ac_RunID (su_actx su)) (aw_st w) n (su_manifest su) p i = Inr state"
    using build_total [OF assms] by blast
  then show "fst (checkpoint_error env su n p i w) = Inr None"
    using succeeds_commit [OF assms] assms
    by (simp add: checkpoint_error_def Let_def bindA_def askA_def getA_def returnA_def succeeds_def healthy_def)
qed

lemma stops_never_checked: "succeeds m \<Longrightarrow> stops never (bindA m failA)"
  unfolding stops_def
proof (intro allI impI)
  fix w s w'
  assume m: "succeeds m" and stop: "bindA m failA w = (Inl s, w')"
  obtain w1 where "m w = (Inr None, w1)" by (rule succeedsD [OF m])
  with stop show False by (simp add: bindA_def failA_def returnA_def)
qed

lemma commit_poised: "healthy env \<Longrightarrow> spec (poised K phase ms l so s) (commitCheckpoint env su n p i) (\<lambda>_. poised K phase ms l so s) F"
  by (rule spec_drift [OF drift_commit]) (simp add: commitCheckpoint_def stops_never_checked succeeds_checkpoint)

lemma critical_poised:
  assumes "healthy env"
  shows "spec (poised K phase ms l so s) (recordCritical env ev) (\<lambda>r w. poised K phase ms l so s w \<and> r = None) F"
  unfolding spec_def
proof (intro allI impI)
  fix w :: "'a AWorld"
  assume "poised K phase ms l so s w"
  obtain w' where w': "recordCritical env ev w = (Inr None, w')" by (rule succeedsD [OF succeeds_critical [OF assms]])
  with movesD [OF drift_parts(2) w'] \<open>poised K phase ms l so s w\<close>
  show "case recordCritical env ev w of (Inl st, w') \<Rightarrow> F st w' | (Inr r, w') \<Rightarrow> poised K phase ms l so s w' \<and> r = None"
    by (simp add: poised_drift)
qed

lemma telemetry_poised: "spec (poised K phase ms l so s) (telemetry env ev) (\<lambda>_. poised K phase ms l so s) F"
  by (rule spec_drift [OF drift_parts(1)]) (intro stop_rules)

lemma state_poised:
  "spec (poised K phase ms l so s) (add_step sp) (\<lambda>_. poised K phase ms l so s) F"
  "spec (poised K phase ms l so s) (account u) (\<lambda>_. poised K phase ms l so s) F"
  "spec (poised K phase ms l so s) (modifyA (\<lambda>st. st\<lparr> al_last := f st \<rparr>)) (\<lambda>_. poised K phase ms l so s) F"
  by (rule spec_drift, rule drift_parts, intro stop_rules)+

section \<open>A step with an answer\<close>

lemma termination_silent: "poised K phase ms l so s w \<Longrightarrow> TokenBudget p \<le> 0 \<Longrightarrow> CheckTermination (al_ts (aw_st w)) p = None"
  by (simp add: poised_def CheckTermination_def)

lemma generate_poised:
  assumes "healthy env" and "TokenBudget (mc_LoopPolicy (su_cfg su)) \<le> 0" and "\<And>lg. ae_generate env lg ms = Inr (Some m)"
    and "Model_Generate (ae_repo env) (ae_model env) (Inr (Some m))
      \<lparr> mq_Identity = model_identity env su stepID, mq_ModelRef = mc_Model (su_cfg su), mq_Input = ms \<rparr> s = (Inr m, s1, n)"
  shows "spec (poised K phase ms l so s) (generate_step env su step stepID start) (\<lambda>r w. poised (insert (XGenerate step ms n) K) phase ms l so s1 w \<and> r = m) F"
proof -
  have compact: "spec (poised K phase ms l so s) (compact_if_due env su step) (\<lambda>_. poised K phase ms l so s) F"
    unfolding compact_if_due_def using assms(2) by (intro spec_get) (auto simp: compaction_due_def intro!: spec_return)
  have alive: "spec (\<lambda>w. poised K phase ms l so s w \<and> ce = ae_ctxErr env (aw_log w))
      (case ce of None \<Rightarrow> returnA () | Some e \<Rightarrow> stopA LoopStatusCancelled (Some e)) (\<lambda>_. poised K phase ms l so s) F" for ce
  proof (cases ce)
    case (Some e)
    then show ?thesis using assms(1) by (intro spec_absurd) (simp add: healthy_def)
  qed (auto intro: spec_return)
  have ok: "spec (\<lambda>w. poised K' phase ms l so s' w \<and> re = None) (failA re) (\<lambda>_. poised K' phase ms l so s') F" for re s' K'
    by (cases re) (auto simp: failA_def intro: spec_return spec_absurd)
  have call: "spec (\<lambda>w. poised K phase ms l so s w \<and> aw_st w = st) (call_model env su step stepID (al_messages st)) (\<lambda>r w. poised (insert (XGenerate step ms n) K) phase ms l so s1 w \<and> r = Inr m) F" for st
    using assms(3,4) by (auto simp: spec_def call_model_def poised_def subset_iff)
  have responded: "spec (poised (insert (XGenerate step ms n) K) phase ms l so s1) (model_responded env su step stepID m) (\<lambda>r w. poised (insert (XGenerate step ms n) K) phase ms l so s1 w \<and> r = m) F"
    unfolding model_responded_def
    by (intro spec_bind [OF critical_poised [OF assms(1)]] spec_then [OF ok] spec_then [OF telemetry_poised] spec_then [OF state_poised(3)]
        spec_then [OF state_poised(2)] spec_then [OF commit_poised [OF assms(1)]] spec_return) auto
  have handle: "spec (\<lambda>w. (poised (insert (XGenerate step ms n) K) phase ms l so s1 w \<and> r = Inr m) \<and> now = ae_now env (aw_log w))
      (case r of Inl e \<Rightarrow> model_failed env step (sp now) (f e) | Inr resp \<Rightarrow> model_responded env su step stepID resp)
      (\<lambda>r w. poised (insert (XGenerate step ms n) K) phase ms l so s1 w \<and> r = m) F" for r now sp f
    using responded by (cases "r = Inr m") (auto intro: spec_conseq spec_absurd)
  show ?thesis
    unfolding generate_step_def
    by (intro spec_then [OF commit_poised [OF assms(1)]] spec_then [OF compact] spec_ask spec_then [OF alive]
        spec_bind [OF critical_poised [OF assms(1)]] spec_then [OF ok] spec_get spec_bind [OF call] handle)
qed

lemma agent_step_poised:
  assumes "healthy env" and "TokenBudget (mc_LoopPolicy (su_cfg su)) \<le> 0"
    and "\<And>stepID start. stepID = NewStepID (ae_digest env) (su_logicalRunID su) step \<Longrightarrow>
      spec (poised K phase ms l so s) (generate_step env su step stepID start) (\<lambda>r w. poised K' phase ms l so s1 w \<and> r = m) F"
    and "\<And>sp. spec (poised K' phase ms l so s1) (on_response env su step sp m (-1)) Q F"
  shows "spec (poised K phase ms l so s) (agent_step env su step) Q F"
proof -
  have act: "spec (\<lambda>w. (poised K' phase ms l so s1 w \<and> resp = m) \<and> aw_st w = st)
      (case CheckTermination (al_ts st) (mc_LoopPolicy (su_cfg su)) of Some (status, e) \<Rightarrow> thenA (add_step sp) (stopA status (Some e))
       | None \<Rightarrow> on_response env su step sp resp (-1)) Q F" for resp st sp
  proof (cases "resp = m \<and> CheckTermination (al_ts st) (mc_LoopPolicy (su_cfg su)) = None")
    case True
    then show ?thesis using weak_pre [OF assms(4)] by simp
  next
    case False
    then show ?thesis using termination_silent [OF _ assms(2)] by (intro spec_absurd) fastforce
  qed
  have step: "spec (\<lambda>w. poised K phase ms l so s w \<and> aw_st w = st0) (bindA (case al_pending st0 of
        Some m \<Rightarrow> thenA (modifyA (\<lambda>st. st\<lparr> al_pending := None \<rparr>)) (returnA m)
      | None \<Rightarrow> generate_step env su step (NewStepID (ae_digest env) (su_logicalRunID su) step) start) (\<lambda>resp.
        bindA (askA (ae_now env)) (\<lambda>now. bindA getA (\<lambda>st.
          case CheckTermination (al_ts st) (mc_LoopPolicy (su_cfg su)) of
            Some (status, e) \<Rightarrow> thenA (add_step (sp now resp)) (stopA status (Some e))
          | None \<Rightarrow> on_response env su step (sp now resp) resp (if al_pending st0 \<noteq> None then al_pendingIndex st else -1))))) Q F" for st0 start sp
  proof (cases "al_pending st0 = None")
    case True
    show ?thesis
      apply (simp only: True option.case simp_thms if_False)
      apply (rule spec_bind [OF weak_pre [OF assms(3) [OF refl]]])
      apply (rule spec_ask, rule weak_pre)
      apply (rule spec_get)
      apply (rule act)
      done
  qed (auto intro!: spec_absurd simp: poised_def)
  have "spec (\<lambda>w. poised K phase ms l so s w \<and> lost = ae_leaseLost env (aw_log w)) m' Q F"
    if "\<not> lost \<Longrightarrow> spec (poised K phase ms l so s) m' Q F" for lost m'
    using that assms(1) by (cases lost) (auto simp: healthy_def intro: spec_absurd elim: spec_conseq)
  note alive = this
  show ?thesis
    unfolding agent_step_def Let_def
    by (intro spec_ask weak_pre alive) (auto intro!: spec_get step)
qed

section \<open>The summary and the vote\<close>

lemma claims_poised: "spec (poised K phase ms l so s) (eachA (record_claim env) cs) (\<lambda>_ w. \<exists>l'. poised K phase ms l' so s w) F"
proof -
  have one: "spec (\<lambda>w. \<exists>l'. poised K phase ms l' so s w) (record_claim env c) (\<lambda>_ w. \<exists>l'. poised K phase ms l' so s w) F" for c
    unfolding record_claim_def
    by (intro spec_ask weak_pre spec_get) (auto simp: spec_def thenA_def bindA_def modifyA_def telemetry_def logA_def returnA_def poised_def split: prod.splits)
  have "spec (\<lambda>w. \<exists>l'. poised K phase ms l' so s w) (eachA (record_claim env) cs) (\<lambda>_ w. \<exists>l'. poised K phase ms l' so s w) F"
    by (induction cs) (auto intro: spec_return spec_then [OF one])
  then show ?thesis by (rule spec_conseq) auto
qed

lemma spec_ledger: "(\<And>l. spec (poised K phase ms l so s) m Q F) \<Longrightarrow> spec (\<lambda>w. \<exists>l. poised K phase ms l so s w) m Q F"
  by (fastforce simp: spec_def)

lemma summary_poised:
  assumes "healthy env" and "ac_DebateContext (su_actx su) = None"
    and "Passed (summary_verdict (ae_registry env) (su_cfg su) (su_std su) (su_hasTools su) sm (RecomputeCorroboration (s_Claims sm) l))"
  shows "spec (poised K phase ms l so s) (on_summary env su step sp resp sm)
    (\<lambda>_ w. \<exists>l'. poised K ''vote'' (ms @ [resp, UserMessage vote_transition]) l' (Some sm) s w) F"
proof -
  let ?l = "RecomputeCorroboration (s_Claims sm) l"
  have recompute: "spec (poised K phase ms l so s) (modifyA (\<lambda>st. st\<lparr> al_ledger := RecomputeCorroboration (s_Claims sm) (al_ledger st) \<rparr>))
      (\<lambda>_. poised K phase ms ?l so s) F"
    by (rule spec_modify) (simp add: poised_def)
  have keep: "spec (poised K phase ms l' so s) (modifyResult (\<lambda>r. r\<lparr> lr_Summary := Some sm \<rparr>)) (\<lambda>_. poised K phase ms l' (Some sm) s) F" for l'
    unfolding modifyResult_def by (rule spec_modify) (simp add: poised_def)
  have tell: "spec (poised K phase ms l' (Some sm) s) (say xs) (\<lambda>_. poised K phase (ms @ xs) l' (Some sm) s) F" for l' xs
    unfolding say_def by (rule spec_modify) (simp add: poised_def)
  have phase: "spec (poised K phase ms' l' (Some sm) s) (modifyA (\<lambda>st. st\<lparr> al_phase := p \<rparr>)) (\<lambda>_. poised K p ms' l' (Some sm) s) F" for l' ms' p
    by (rule spec_modify) (simp add: poised_def)
  have passed: "spec (poised K phase ms ?l so s) (gate_passed env su step sp resp sm)
      (\<lambda>_ w. \<exists>l'. poised K ''vote'' (ms @ [resp, UserMessage vote_transition]) l' (Some sm) s w) F"
    unfolding gate_passed_def Let_def using assms(2)
    by simp (intro spec_then [OF telemetry_poised] spec_then [OF keep] spec_then [OF claims_poised] spec_ledger spec_then [OF tell]
        spec_then [OF phase] spec_then [OF commit_poised [OF assms(1)]] spec_conseq [OF state_poised(1)], auto)
  show ?thesis
    unfolding on_summary_def Let_def
  proof (rule spec_then [OF recompute], rule spec_get)
    fix st
    show "spec (\<lambda>w. poised K phase ms ?l so s w \<and> aw_st w = st)
        (if Passed (summary_verdict (ae_registry env) (su_cfg su) (su_std su) (su_hasTools su) sm (al_ledger st)) then gate_passed env su step sp resp sm
         else gate_failed env su sp resp (summary_verdict (ae_registry env) (su_cfg su) (su_std su) (su_hasTools su) sm (al_ledger st)))
        (\<lambda>_ w. \<exists>l'. poised K ''vote'' (ms @ [resp, UserMessage vote_transition]) l' (Some sm) s w) F"
      using weak_pre [OF passed] assms(3) by (cases "al_ledger st = ?l") (auto intro: spec_absurd simp: poised_def)
  qed
qed

text \<open>The run is over and has this vote and summary; its log has these effects.\<close>

definition delivered :: "afx set \<Rightarrow> Vote \<Rightarrow> EvidenceSummary \<Rightarrow> stop \<Rightarrow> 's AWorld \<Rightarrow> bool" where
  "delivered K v sm st w \<longleftrightarrow> K \<subseteq> set (aw_log w) \<and> st = (LoopStatusCompleted, None) \<and> lr_Vote (al_result (aw_st w)) = Some v \<and> lr_Summary (al_result (aw_st w)) = Some sm"

lemma vote_poised:
  assumes "ValidateVoteDimensions (Some v) (mc_Objective (su_cfg su)) = None"
    and "ValidateRoleDecision (Some v) (Some sm) (mc_RolePolicy (su_cfg su)) (mc_Objective (su_cfg su)) = None"
  shows "spec (poised K phase ms l (Some sm) s) (on_vote env su sp resp v) Q (delivered K v sm)"
  using assms
  by (auto simp: spec_def on_vote_def bindA_def getA_def thenA_def modifyResult_def modifyA_def telemetry_def logA_def returnA_def
      add_step_def stopA_def poised_def delivered_def)

lemma parsed_poised:
  assumes "\<And>resp. resp = unwrapFunctionCall (ae_validators env) m \<Longrightarrow>
      spec (poised K phase ms l so s) (case parseResponse (ae_validators env) resp phase of
       ResponseToolCall \<Rightarrow> on_tool_calls env su step sp resp (-1)
     | ResponseClaimSubmission claims \<Rightarrow> on_claims env sp resp claims
     | ResponseEvidenceSummary sm \<Rightarrow> on_summary env su step sp resp sm
     | ResponseReflection rf \<Rightarrow> on_reflection env su step sp resp rf
     | ResponseVote v \<Rightarrow> on_vote env su sp resp v
     | ResponseInvalid \<Rightarrow> on_invalid sp resp) Q F"
  shows "spec (poised K phase ms l so s) (on_response env su step sp m (-1)) Q F"
  unfolding on_response_def Let_def
proof (rule spec_get)
  fix st
  let ?r = "unwrapFunctionCall (ae_validators env) m"
  show "spec (\<lambda>w. poised K phase ms l so s w \<and> aw_st w = st) (case parseResponse (ae_validators env) ?r (al_phase st) of
       ResponseToolCall \<Rightarrow> on_tool_calls env su step sp ?r (-1)
     | ResponseClaimSubmission claims \<Rightarrow> on_claims env sp ?r claims
     | ResponseEvidenceSummary sm \<Rightarrow> on_summary env su step sp ?r sm
     | ResponseReflection rf \<Rightarrow> on_reflection env su step sp ?r rf
     | ResponseVote v \<Rightarrow> on_vote env su sp ?r v
     | ResponseInvalid \<Rightarrow> on_invalid sp ?r) Q F"
    using weak_pre [OF assms [OF refl]] by (cases "al_phase st = phase") (auto intro: spec_absurd simp: poised_def)
qed

section \<open>A run with two answers\<close>

text \<open>To the opening messages \<open>ms\<close> the model answers a summary that passes the gate, and then a vote that
  passes its checks.\<close>

definition cooperative :: "'s AEnv \<Rightarrow> Setup \<Rightarrow> Message list \<Rightarrow> Message \<Rightarrow> EvidenceSummary \<Rightarrow> Message \<Rightarrow> Vote \<Rightarrow> bool" where
  "cooperative env su ms m1 sm m2 v \<longleftrightarrow>
     (let V = ae_validators env; cfg = su_cfg su; actx = su_actx su;
          l = RecomputeCorroboration (s_Claims sm) (NewEvidenceLedger (ac_CaseID actx) (ac_RunID actx) (mc_Code cfg)) in
      (\<forall>lg. ae_generate env lg ms = Inr (Some m1)) \<and> storable (ae_model env) m1 \<and>
      (\<forall>lg. ae_generate env lg (ms @ [unwrapFunctionCall V m1, UserMessage vote_transition]) = Inr (Some m2)) \<and> storable (ae_model env) m2 \<and>
      parseResponse V (unwrapFunctionCall V m1) ''gather'' = ResponseEvidenceSummary sm \<and>
      Passed (summary_verdict (ae_registry env) cfg (su_std su) (su_hasTools su) sm l) \<and>
      parseResponse V (unwrapFunctionCall V m2) ''vote'' = ResponseVote v \<and>
      ValidateVoteDimensions (Some v) (mc_Objective cfg) = None \<and>
      ValidateRoleDecision (Some v) (Some sm) (mc_RolePolicy cfg) (mc_Objective cfg) = None)"

text \<open>Digests without collisions, and a run with an identity.\<close>

definition identified :: "'s AEnv \<Rightarrow> Setup \<Rightarrow> bool" where
  "identified env su \<longleftrightarrow> inj (ae_digest env) \<and> inj (md_Digest (ae_model env)) \<and> (\<forall>t. ae_digest env t \<noteq> []) \<and>
     (\<forall>t. md_Digest (ae_model env) t \<noteq> []) \<and> su_logicalRunID su \<noteq> [] \<and> su_attemptID su \<noteq> []"

lemma step_invocations_distinct:
  assumes "identified env su"
  shows "id_InvocationID (model_identity env su (NewStepID (ae_digest env) (su_logicalRunID su) 1)) \<noteq>
    id_InvocationID (model_identity env su (NewStepID (ae_digest env) (su_logicalRunID su) 2))"
proof -
  have "itoa 1 \<noteq> itoa 2" by code_simp
  with assms show ?thesis
    by (auto simp: identified_def model_identity_def Model_InvocationID_def NewModelInvocationID_def NewStepID_def inj_eq)
qed

lemma model_answers:
  assumes "identified env su" and "ae_repo env = mem_ops" and "kernel_ready (ae_model env)" and "storable (ae_model env) m"
    and "map_of (mr_invocations s) (id_InvocationID (model_identity env su (NewStepID (ae_digest env) (su_logicalRunID su) step))) = None"
  shows "\<exists>s1. Model_Generate (ae_repo env) (ae_model env) (Inr (Some m)) \<lparr> mq_Identity = model_identity env su (NewStepID (ae_digest env) (su_logicalRunID su) step),
      mq_ModelRef = mc_Model (su_cfg su), mq_Input = ms \<rparr> s = (Inr m, s1, 1) \<and>
    (\<forall>i. i \<noteq> id_InvocationID (model_identity env su (NewStepID (ae_digest env) (su_logicalRunID su) step)) \<longrightarrow>
       map_of (mr_invocations s1) i = map_of (mr_invocations s) i)"
proof -
  let ?q = "\<lparr> mq_Identity = model_identity env su (NewStepID (ae_digest env) (su_logicalRunID su) step), mq_ModelRef = mc_Model (su_cfg su), mq_Input = ms \<rparr>"
  have "id_RunID (mq_Identity ?q) \<noteq> []" "id_StepID (mq_Identity ?q) \<noteq> []" "id_InvocationID (mq_Identity ?q) \<noteq> []" "id_AttemptID (mq_Identity ?q) \<noteq> []"
      "id_InvocationID (mq_Identity ?q) = Model_InvocationID (ae_model env) (id_StepID (mq_Identity ?q)) (mq_ModelRef ?q)"
    using assms(1) by (simp_all add: identified_def model_identity_def NewStepID_def Model_InvocationID_def NewModelInvocationID_def)
  from model_fresh [OF assms(3,4) _ this(5,1-4)] show ?thesis using assms(2,5) by simp
qed

lemma run_completes:
  assumes env: "healthy env" "ae_repo env = mem_ops" "kernel_ready (ae_model env)" "identified env su"
    and cfg: "TokenBudget (mc_LoopPolicy (su_cfg su)) \<le> 0" "2 \<le> max_steps (su_cfg su)" "ac_DebateContext (su_actx su) = None"
    and model: "cooperative env su ms m1 sm m2 v"
    and start: "poised {} ''gather'' ms (NewEvidenceLedger (ac_CaseID (su_actx su)) (ac_RunID (su_actx su)) (mc_Code (su_cfg su))) None newMemoryInvocationRepository w"
  shows "\<exists>w'. run_loop env su 1 w = ((LoopStatusCompleted, None), w') \<and>
    delivered {XGenerate 1 ms 1, XGenerate 2 (ms @ [unwrapFunctionCall (ae_validators env) m1, UserMessage vote_transition]) 1} v sm (LoopStatusCompleted, None) w'"
proof -
  let ?l = "NewEvidenceLedger (ac_CaseID (su_actx su)) (ac_RunID (su_actx su)) (mc_Code (su_cfg su))"
  let ?id = "\<lambda>step. id_InvocationID (model_identity env su (NewStepID (ae_digest env) (su_logicalRunID su) step))"
  let ?ms = "ms @ [unwrapFunctionCall (ae_validators env) m1, UserMessage vote_transition]"
  let ?K1 = "{XGenerate 1 ms 1}" and ?K2 = "{XGenerate 1 ms 1, XGenerate 2 ?ms 1}"
  note model' = model [unfolded cooperative_def Let_def]
  obtain s1 where s1: "Model_Generate (ae_repo env) (ae_model env) (Inr (Some m1))
      \<lparr> mq_Identity = model_identity env su (NewStepID (ae_digest env) (su_logicalRunID su) 1), mq_ModelRef = mc_Model (su_cfg su), mq_Input = ms \<rparr>
        newMemoryInvocationRepository = (Inr m1, s1, 1)" "map_of (mr_invocations s1) (?id 2) = None"
    using model_answers [OF env(4,2,3), of m1 newMemoryInvocationRepository 1 ms] step_invocations_distinct [OF env(4)] model'
    by (auto simp: newMemoryInvocationRepository_def)
  obtain s2 where s2: "Model_Generate (ae_repo env) (ae_model env) (Inr (Some m2))
      \<lparr> mq_Identity = model_identity env su (NewStepID (ae_digest env) (su_logicalRunID su) 2), mq_ModelRef = mc_Model (su_cfg su), mq_Input = ?ms \<rparr>
        s1 = (Inr m2, s2, 1)"
    using model_answers [OF env(4,2,3) _ s1(2), of m2 ?ms] model' by auto
  have first: "spec (poised {} ''gather'' ms ?l None newMemoryInvocationRepository) (agent_step env su 1)
      (\<lambda>_ w. \<exists>l. poised ?K1 ''vote'' ?ms l (Some sm) s1 w) (delivered ?K2 v sm)"
    using model' s1(1)
    by (intro agent_step_poised [OF env(1) cfg(1) generate_poised [OF env(1) cfg(1)]] parsed_poised)
      (auto intro!: summary_poised [OF env(1) cfg(3)])
  have second: "spec (poised ?K1 ''vote'' ?ms l (Some sm) s1) (agent_step env su 2) (\<lambda>_ _. False) (delivered ?K2 v sm)" for l
    using model' s2
    by (intro agent_step_poised [OF env(1) cfg(1) generate_poised [OF env(1) cfg(1)]] parsed_poised)
      (auto simp: insert_commute intro!: vote_poised)
  define n where "n = nat (max_steps (su_cfg su) - 2)"
  have n: "nat (max_steps (su_cfg su) - 1 + 1) = Suc (Suc n)" using cfg(2) unfolding n_def by linarith
  let ?m = "thenA (check_termination su) (agent_loop env su (Suc (Suc n)) 1)"
  have check: "spec (poised {} ''gather'' ms ?l None newMemoryInvocationRepository) (check_termination su)
      (\<lambda>_. poised {} ''gather'' ms ?l None newMemoryInvocationRepository) (delivered ?K2 v sm)"
    unfolding check_termination_def
    by (auto simp: spec_def bindA_def getA_def returnA_def termination_silent [OF _ cfg(1)])
  have "spec (poised {} ''gather'' ms ?l None newMemoryInvocationRepository) ?m (\<lambda>_ _. False) (delivered ?K2 v sm)"
    unfolding agent_loop.simps one_add_one
    by (rule spec_then [OF check], rule spec_then [OF first], rule spec_ledger, rule spec_then [where R = "\<lambda>_. False"],
        rule second, rule spec_absurd, simp)
  then have "case ?m w of (Inl st, w') \<Rightarrow> delivered ?K2 v sm st w' | (Inr x, w') \<Rightarrow> False"
    using start by (auto simp: spec_def split: prod.splits sum.splits)
  then show ?thesis
    unfolding run_loop_def n by (auto simp: delivered_def split: prod.splits sum.splits)
qed

end
