(* ===== verification/ManifestProps.thy ===== *)
theory ManifestProps
  imports Manifest ToolRuntime
begin

text \<open>
  The manifest of a checkpoint identifies the environment of the run: the property, and an
  injective encoding of the fingerprints that shows its hypotheses can hold.
\<close>

section \<open>Self-delimiting encodings\<close>

definition delimits :: "('a \<Rightarrow> string) \<Rightarrow> 'a \<Rightarrow> bool" where
  "delimits f x \<longleftrightarrow> (\<forall>y s t. f x @ s = f y @ t \<longleftrightarrow> x = y \<and> s = t)"

lemma delimits_inj: "(\<And>x. delimits f x) \<Longrightarrow> inj f"
  unfolding delimits_def inj_def by (metis append_Nil2)

lemma delimits_eq [simp]: "delimits f x \<Longrightarrow> f x @ s = f y @ t \<longleftrightarrow> x = y \<and> s = t"
  by (simp add: delimits_def)

lemma delimits_unary [simp]: "delimits unary x"
  unfolding delimits_def by (metis un_unary prod.inject)

definition enc_nat :: "nat \<Rightarrow> string" where
  "enc_nat n = unary (replicate n (CHR ''1''))"

definition enc_int :: "int \<Rightarrow> string" where
  "enc_int i = enc_nat (nat i) @ enc_nat (nat (- i))"

definition enc_rat :: "rat \<Rightarrow> string" where
  "enc_rat q = enc_int (fst (quotient_of q)) @ enc_int (snd (quotient_of q))"

definition enc_bool :: "bool \<Rightarrow> string" where
  "enc_bool b = (if b then ''t'' else ''f'')"

definition enc_option :: "('a \<Rightarrow> string) \<Rightarrow> 'a option \<Rightarrow> string" where
  "enc_option f xo = (case xo of None \<Rightarrow> ''n'' | Some x \<Rightarrow> ''s'' @ f x)"

definition enc_list :: "('a \<Rightarrow> string) \<Rightarrow> 'a list \<Rightarrow> string" where
  "enc_list f xs = concat (map (\<lambda>x. ''c'' @ f x) xs) @ ''e''"

lemma enc_list_simps [simp]: "enc_list f [] = ''e''" "enc_list f (x # xs) = CHR ''c'' # f x @ enc_list f xs"
  by (simp_all add: enc_list_def)

lemma delimits_nat [simp]: "delimits enc_nat n"
  unfolding delimits_def enc_nat_def by simp

lemma delimits_int [simp]: "delimits enc_int i"
  unfolding delimits_def enc_int_def by auto

lemma delimits_rat [simp]: "delimits enc_rat q"
  unfolding delimits_def enc_rat_def by (auto simp: prod_eq_iff quotient_of_inject_eq [symmetric])

lemma delimits_bool [simp]: "delimits enc_bool b"
  unfolding delimits_def enc_bool_def by auto

lemma delimits_option [simp]: "(\<And>x. delimits f x) \<Longrightarrow> delimits (enc_option f) xo"
  unfolding delimits_def enc_option_def by (auto split: option.splits)

lemma delimits_list: "(\<And>x. x \<in> set xs \<Longrightarrow> delimits f x) \<Longrightarrow> delimits (enc_list f) xs"
proof (induction xs)
  case Nil
  then show ?case unfolding delimits_def
  proof (intro allI)
    fix ys s t
    show "(enc_list f [] @ s = enc_list f ys @ t) = ([] = ys \<and> s = t)" by (cases ys) auto
  qed
next
  case (Cons x xs)
  then show ?case unfolding delimits_def [of "enc_list f"]
  proof (intro allI)
    fix ys s t
    show "(enc_list f (x # xs) @ s = enc_list f ys @ t) = (x # xs = ys \<and> s = t)"
      using Cons by (cases ys) auto
  qed
qed

section \<open>An injective encoding of the fingerprints\<close>

definition enc_format :: "ResponseFormat \<Rightarrow> string" where
  "enc_format r = (case r of ResponseFormatText \<Rightarrow> ''t'' | ResponseFormatMarkdown \<Rightarrow> ''m'' | ResponseFormatJSON \<Rightarrow> ''j''
     | ResponseFormatOther s \<Rightarrow> ''o'' @ unary s)"

definition enc_params :: "LLMParams \<Rightarrow> string" where
  "enc_params p = enc_option enc_rat (lp_Temperature p) @ enc_int (lp_MaxTokens p) @ enc_option enc_rat (lp_TopP p) @
     enc_option enc_int (lp_TopK p) @ enc_rat (lp_FrequencyPenalty p) @ enc_rat (lp_PresencePenalty p) @
     enc_format (lp_ResponseFormat p) @ enc_option enc_bool (lp_EnableThinking p)"

fun enc_reference :: "modelReferenceFingerprint \<Rightarrow> string" where
  "enc_reference (ModelFingerprint i url name params fallbacks) =
     enc_int i @ unary url @ unary name @ enc_option enc_params params @ concat (map (\<lambda>r. ''c'' @ enc_reference r) fallbacks) @ ''e''"

definition enc_source :: "ToolSource \<Rightarrow> string" where
  "enc_source s = (case s of ToolSourcePlugin \<Rightarrow> ''p'' | ToolSourceLocal \<Rightarrow> ''l'' | ToolSourceKnowledge \<Rightarrow> ''k''
     | ToolSourceWorkflow \<Rightarrow> ''w'' | ToolSourceCodeRunner \<Rightarrow> ''c'' | ToolSourceMCP \<Rightarrow> ''m'' | ToolSourceOther t \<Rightarrow> ''o'' @ unary t)"

definition enc_binding :: "ToolBinding \<Rightarrow> string" where
  "enc_binding b = enc_source (tb_Source b) @ enc_int (tb_PluginID b) @ enc_int (tb_ToolID b) @ enc_bool (tb_IsDraft b) @
     unary (tb_ToolName b) @ enc_int (tb_WorkflowID b) @ unary (tb_Server b) @ enc_option enc_rat (tb_Reliability b)"

definition sample_json :: ManifestJSON where
  "sample_json = \<lparr> mj_string = unary, mj_reference = enc_reference, mj_binding = enc_binding, mj_bindings = enc_list enc_binding,
     mj_model = (\<lambda>m. unary (fm_ModelName m) @ unary (fm_ModelBaseURL m) @ unary (fm_ModelRefDigest m)),
     mj_toolset = (\<lambda>f. enc_list unary (ft_Tools f) @ unary (ft_ToolBindingsDigest f)),
     mj_config = (\<lambda>f. enc_bool (fc_KnowledgeIndex f) @ enc_int (fc_ConfigVersion f)),
     mj_manifest = (\<lambda>f. unary (fp_RuntimeVersion f) @ unary (fp_PromptVersion f) @ unary (fp_PromptDigest f) @
       unary (fp_ModelDigest f) @ unary (fp_ToolsetDigest f) @ unary (fp_ConfigDigest f)) \<rparr>"

lemma delimits_format [simp]: "delimits enc_format r"
  unfolding delimits_def enc_format_def by (auto split: ResponseFormat.splits)

lemma delimits_params [simp]: "delimits enc_params p"
  unfolding delimits_def enc_params_def by (auto simp: LLMParams.splits)

lemma delimits_source [simp]: "delimits enc_source s"
  unfolding delimits_def enc_source_def by (auto split: ToolSource.splits)

lemma delimits_binding [simp]: "delimits enc_binding b"
  unfolding delimits_def enc_binding_def by auto

lemma enc_reference_list: "enc_reference (ModelFingerprint i url name params fallbacks) =
    enc_int i @ unary url @ unary name @ enc_option enc_params params @ enc_list enc_reference fallbacks"
  by (simp add: enc_list_def)

lemma delimits_reference [simp]: "delimits enc_reference r"
proof (induction r)
  case (ModelFingerprint i url name params fallbacks)
  then have list: "delimits (enc_list enc_reference) fallbacks" by (rule delimits_list)
  show ?case unfolding delimits_def
  proof (intro allI)
    fix y s t
    show "(enc_reference (ModelFingerprint i url name params fallbacks) @ s = enc_reference y @ t) =
        (ModelFingerprint i url name params fallbacks = y \<and> s = t)"
      using list by (cases y) (auto simp: enc_reference_list simp del: enc_reference.simps)
  qed
qed

lemma sample_json_lossless: "lossless_json sample_json"
  unfolding lossless_json_def sample_json_def
  by (auto intro!: delimits_inj simp: delimits_list delimits_def [of "\<lambda>f. _ f @ _ f"])

section \<open>The property\<close>

definition sample_task :: DecisionTask where
  "sample_task = \<lparr> t_CanonicalQuestion = ''q'', t_DecisionType = DecisionTypeOther [], t_Background = [], t_Constraints = [], t_Dimensions = [],
     t_InformationNeeds = [], t_SuccessCriteria = [], t_Unknowns = [] \<rparr>"

definition sample_context :: "ToolBinding list \<Rightarrow> AgentContext" where
  "sample_context bindings = \<lparr> ac_CaseID = ''k'', ac_UserID = ''u'', ac_RunID = ''run'', ac_Task = sample_task, ac_Constraints = [],
     ac_ToolBindings = bindings, ac_KnowledgeCtx = [], ac_DebateContext = None, ac_PreviousRun = None, ac_Execution = None \<rparr>"

text \<open>C25. If the digest and the JSON encodings are collision free, a checkpoint is accepted for a resume
  exactly if it was taken in the same environment: the same chain of models with the same
  parameters, the same tool bindings in any order, the same system prompt and the same version of
  the configuration. Credentials and prices do not matter.\<close>

theorem manifest_exact:
  assumes "inj dig" and "\<And>s. dig s \<noteq> []" and "lossless_json J"
  shows "ValidateManifest (CheckpointManifest dig J cfg actx prompt) (CheckpointManifest dig J cfg' actx' prompt') = None \<longleftrightarrow>
    same_environment cfg actx prompt cfg' actx' prompt'"
  using manifest_eq_iff [OF assms(1,3)] assms(2)
  by (simp add: CheckpointManifest_def FreezeManifest_def canonicalDigest_def Let_def)

theorem manifest_exact_witness:
  "ValidateManifest
     (CheckpointManifest (Cons (CHR ''d'')) sample_json (sample_config ''m'') (sample_context [td_Binding sample_tool, (td_Binding sample_tool)\<lparr> tb_ToolName := ''q'' \<rparr>]) ''p'')
     (CheckpointManifest (Cons (CHR ''d'')) sample_json (sample_config ''m'') (sample_context [(td_Binding sample_tool)\<lparr> tb_ToolName := ''q'' \<rparr>, td_Binding sample_tool]) ''p'') = None"
  by (subst manifest_exact [OF _ _ sample_json_lossless])
    (simp_all add: same_environment_def effective_bindings_def sample_context_def)

end
