(* ===== verification/AgentSample.thy ===== *)
theory AgentSample
  imports AgentLoop ManifestProps
begin

text \<open>
  A concrete environment of an agent: the model answers a summary that passes the gate and then a
  vote, checkpoints are saved, the invocation store is the one in memory, a human approves every
  request. The witnesses of the theorems on agent runs refer to it.
\<close>

definition sample_policy :: LoopPolicy where
  "sample_policy = (mc_LoopPolicy (sample_config ''m''))\<lparr> MaxSteps := 4 \<rparr>"

definition agent_config :: MagiConfig where
  "agent_config = (sample_config ''m'')\<lparr> mc_LoopPolicy := sample_policy \<rparr>"

text \<open>The answers of the model: to the opening messages a summary, later a vote.\<close>

definition sample_answer :: "nat \<Rightarrow> Message" where
  "sample_answer n = AssistantMessage (if n = 2 then ''S'' else ''V'')"

definition plain_summary :: EvidenceSummary where
  "plain_summary = \<lparr> s_EvidenceByType = [], s_Claims = [], s_RoleAssessment = None, s_Ready = True \<rparr>"

definition sample_validators :: Validators where
  "sample_validators = \<lparr> val_summary = (\<lambda>t. if t = ''S'' then Some plain_summary else None),
     val_vote = (\<lambda>t. if t = ''V'' then Some (sample_vote VoteDecisionApprove) else None),
     val_claims = (\<lambda>_. None), val_reflection = (\<lambda>_. None), js_type = (\<lambda>_. []), js_strip = (\<lambda>t. t), js_object = (\<lambda>_. None) \<rparr>"

definition agent_codec :: Codec where
  "agent_codec = \<lparr> cd_messages = (\<lambda>ms. Inr (map (\<lambda>_. CHR ''m'') ms)), cd_unmessages = (\<lambda>_. None),
     cd_message = (\<lambda>_. Inr ''a''), cd_unmessage = (\<lambda>_. None), cd_toolcalls = (\<lambda>_. None),
     cd_summary = (\<lambda>_. Inr ''s''), cd_unsummary = (\<lambda>_. None), cd_reflection = (\<lambda>_. Inr ''r''), cd_unreflection = (\<lambda>_. None),
     cd_ledger = (\<lambda>_. Inr ''l''), cd_unledger = (\<lambda>_. None), cd_snapshot = (\<lambda>_. Inr ''n''), cd_unsnapshot = (\<lambda>_. None) \<rparr>"

definition flat_json :: ManifestJSON where
  "flat_json = \<lparr> mj_string = (\<lambda>_. ''j''), mj_reference = (\<lambda>_. ''j''), mj_binding = (\<lambda>_. ''j''), mj_bindings = (\<lambda>_. ''j''),
     mj_model = (\<lambda>_. ''j''), mj_toolset = (\<lambda>_. ''j''), mj_config = (\<lambda>_. ''j''), mj_manifest = (\<lambda>_. ''j'') \<rparr>"

definition sample_model :: ModelDeps where
  "sample_model = \<lparr> md_kernel = Some plain_kernel, md_Digest = Cons (CHR ''d''), md_Recorder = (\<lambda>_. None), md_identity = (\<lambda>_. ''i''),
     md_input = (\<lambda>_ _. Inr ''in''), md_gob = (\<lambda>m. Inr (mg_Content m)),
     md_ungob = (\<lambda>t. Inr (''v1'', Some (AssistantMessage t))),
     md_ungobInput = (\<lambda>_. Inl (Errorf [])) \<rparr>"

definition sample_request_row :: ApprovalRequest where
  "sample_request_row = \<lparr> aq_ID = ''q'', aq_CaseID = ''k'', aq_RunID = ''run'', aq_AgentCode = ''m'', aq_ToolName = ''pay'',
     aq_Arguments = ''{}'', aq_InvocationID = [], aq_IntentDigest = [], aq_Status = ApprovalApproved, aq_Reason = [],
     aq_DecidedBy = ''ops'', aq_RequestedAt = 0 \<rparr>"

definition agent_env :: "memRepo AEnv" where
  "agent_env = \<lparr> ae_codec = agent_codec, ae_validators = sample_validators, ae_json = flat_json, ae_digest = Cons (CHR ''d''),
     ae_canon = (\<lambda>s. Some s), ae_trim = (\<lambda>s. s), ae_say = (\<lambda>_. []), ae_sayRole = (\<lambda>_. []), ae_registry = (\<lambda>_. None),
     ae_resolver = (\<lambda>_. ComputeReliability sample_input), ae_adapters = [], ae_summarySchema = [], ae_voteSchema = [],
     ae_reflectionSchema = [], ae_toolReg = True, ae_toolRuntime = True, ae_approvals = True, ae_checkpoints = Some True,
     ae_publisher = False, ae_taskTree = False, ae_repo = mem_ops, ae_model = sample_model, ae_tools = (\<lambda>_. sample_deps ''paid''),
     ae_now = (\<lambda>_. 1), ae_leaseLost = (\<lambda>_. False), ae_ctxErr = (\<lambda>_. None), ae_build = (\<lambda>_. None),
     ae_list = (\<lambda>_ bs. Inr (map (\<lambda>_. sample_tool) bs)), ae_bind = (\<lambda>_. None), ae_load = (\<lambda>_. Inr None), ae_save = (\<lambda>_ _. None),
     ae_publish = (\<lambda>_ _. None), ae_generate = (\<lambda>_ ms. Inr (Some (sample_answer (length ms)))),
     ae_find = (\<lambda>_ _. Inr None), ae_create = (\<lambda>_ _. Inr ''q''),
     ae_polls = (\<lambda>_. (Inr (Some sample_request_row), [], WaitTimeout)) \<rparr>"

end
