(* ===== verification/AgentProps.thy ===== *)
theory AgentProps
  imports AgentVote AgentDurable AgentProgress AgentSample
begin

text \<open>
  The properties of a whole agent run, \<^const>\<open>agent_run\<close>: what a completed run has passed, which
  histories the model sees, how often it is called, what is on disk before it is called, what a
  human approval covers, and that a checkpoint gives back the state it was taken from. Then the
  corners of the loop where the code differs from what its comments say.
\<close>

section \<open>A run around its loop\<close>

text \<open>The effects before the first step.\<close>

definition prologue :: "afx \<Rightarrow> bool" where
  "prologue fx \<longleftrightarrow> (case fx of XBuild m \<Rightarrow> True | XListTools bs \<Rightarrow> True | XBindTools ns \<Rightarrow> True | XLoad owner i \<Rightarrow> True | _ \<Rightarrow> False)"

lemma prologue_simps [simp]:
  "prologue (XBuild m)" "prologue (XListTools bs)" "prologue (XBindTools ns)" "prologue (XLoad owner i)"
  by (simp_all add: prologue_def)

lemma prologue_calm: "prologue fx \<Longrightarrow> uneventful fx"
  by (auto simp: prologue_def uneventful_def is_save_def is_generate_def is_execution_def split: afx.splits)

lemma resolve_tools_log:
  assumes "resolve_tools env cfg actx lg = (r, lg')"
  obtains l where "lg' = lg @ l" "list_all prologue l"
  using assms by (auto simp: resolve_tools_def Let_def split: if_splits sum.splits option.splits)

lemma load_checkpoint_log:
  assumes "load_checkpoint env su lg = (r, lg')"
  obtains l where "lg' = lg @ l" "list_all prologue l"
  using assms by (auto simp: load_checkpoint_def LoadForExecution_def Let_def split: if_splits sum.splits option.splits prod.splits)

text \<open>The state and the step with which the loop starts.\<close>

definition started :: "'s AEnv \<Rightarrow> Setup \<Rightarrow> LoopState \<Rightarrow> int \<Rightarrow> bool" where
  "started env su st start \<longleftrightarrow> (\<exists>l l' c prompt now. load_checkpoint env su l = (Inr c, l') \<and>
     restore_checkpoint (ae_codec env) (ae_validators env) (ae_registry env) (ae_say env) (su_cfg su) (su_std su) (su_hasTools su) c
       (fresh_state (su_cfg su) (su_actx su) prompt now) = Inr (st, start))"

definition run_tools :: "'s AEnv \<Rightarrow> MagiConfig \<Rightarrow> AgentContext \<Rightarrow> alog \<Rightarrow> (string, ToolDefinition) gomap" where
  "run_tools env cfg actx lg = (case fst (resolve_tools env cfg actx (lg @ [XBuild (mc_Model cfg)])) of Inl e \<Rightarrow> [] | Inr defs \<Rightarrow> defs)"

definition run_setup :: "'s AEnv \<Rightarrow> MagiConfig \<Rightarrow> AgentContext \<Rightarrow> alog \<Rightarrow> Setup" where
  "run_setup env cfg actx lg =
     (let defs = run_tools env cfg actx lg in setup_run env cfg actx defs (system_prompt env cfg actx (defs \<noteq> [])))"

lemma run_setup_fields [simp]:
  "su_cfg (run_setup env cfg actx lg) = cfg" "su_actx (run_setup env cfg actx lg) = actx"
  "su_hasTools (run_setup env cfg actx lg) \<longleftrightarrow> run_tools env cfg actx lg \<noteq> []"
  "su_std (run_setup env cfg actx lg) = RelaxEvidenceStandard (mc_EvidenceStandard cfg) (run_tools env cfg actx lg \<noteq> [])"
  by (simp_all add: run_setup_def setup_run_def Let_def)

lemma agent_run_cases:
  assumes "agent_run env (Some cfg) actx lg store = ((ro, eo), lg', store')"
  obtains (failed) l where "ro = None" "eo \<noteq> None" "lg' = lg @ l" "list_all prologue l" "store' = store"
  | (ran) l st start s w where "list_all prologue l" "started env (run_setup env cfg actx lg) st start"
      "run_loop env (run_setup env cfg actx lg) start \<lparr> aw_log = lg @ l, aw_store = store, aw_st = st \<rparr> = (s, w)"
      "ro = Some (finish_result cfg (ae_now env (aw_log w)) s (aw_st w))" "eo = snd s" "lg' = aw_log w" "store' = aw_store w"
proof (cases "ae_build env lg")
  case (Some e)
  then show ?thesis using assms failed [of "[XBuild (mc_Model cfg)]"] by (auto simp: agent_run_def Let_def)
next
  case None
  obtain t l1 where tools: "resolve_tools env cfg actx (lg @ [XBuild (mc_Model cfg)]) = (t, l1)" by fastforce
  obtain p1 where p1: "l1 = (lg @ [XBuild (mc_Model cfg)]) @ p1" "list_all prologue p1" by (rule resolve_tools_log [OF tools])
  then have l1: "l1 = lg @ XBuild (mc_Model cfg) # p1" "list_all prologue p1" by simp_all
  show ?thesis
  proof (cases t)
    case (Inl e)
    then show ?thesis using assms None tools l1 failed [of "XBuild (mc_Model cfg) # p1"] by (auto simp: agent_run_def)
  next
    case (Inr defs)
    let ?su = "setup_run env cfg actx defs (system_prompt env cfg actx (defs \<noteq> []))"
    have su: "run_setup env cfg actx lg = ?su" using tools Inr by (simp add: run_setup_def run_tools_def)
    obtain c l2 where c: "load_checkpoint env ?su l1 = (c, l2)" by fastforce
    then obtain p2 where l2: "l2 = l1 @ p2" "list_all prologue p2" using load_checkpoint_log by blast
    let ?l = "XBuild (mc_Model cfg) # p1 @ p2"
    have l: "l2 = lg @ ?l" "list_all prologue ?l" using l1 l2 by simp_all
    have refused: ?thesis if "ro = None" "eo \<noteq> None" "lg' = l2" "store' = store" using failed that l by blast
    show ?thesis
    proof (cases c)
      case (Inl e)
      then show ?thesis using assms None tools Inr c by (intro refused) (auto simp: agent_run_def Let_def)
    next
      case c': (Inr ck)
      obtain r where r: "restore_checkpoint (ae_codec env) (ae_validators env) (ae_registry env) (ae_say env) cfg (su_std ?su) (su_hasTools ?su) ck
          (fresh_state cfg actx (system_prompt env cfg actx (defs \<noteq> [])) (ae_now env l2)) = r" by blast
      show ?thesis
      proof (cases r)
        case (Inl e)
        then show ?thesis using assms None tools Inr c c' r by (intro refused) (auto simp: agent_run_def Let_def)
      next
        case r': (Inr x)
        obtain st start where x: "x = (st, start)" by fastforce
        obtain s w where loop: "run_loop env ?su start \<lparr> aw_log = l2, aw_store = store, aw_st = st \<rparr> = (s, w)" by fastforce
        have fields: "su_cfg ?su = cfg" "su_actx ?su = actx" by (simp_all add: setup_run_def)
        have "started env ?su st start"
          unfolding started_def fields using c [unfolded c'] r [unfolded r' x] by blast
        then show ?thesis using assms None tools Inr c c' r r' x loop l unfolding su [symmetric]
          by (intro ran [of ?l st start s w]) (auto simp: agent_run_def Let_def su)
      qed
    qed
  qed
qed

lemma started_fresh:
  assumes "\<And>l. ae_load env l = Inr None" and "started env su st start"
  obtains prompt now where "st = fresh_state (su_cfg su) (su_actx su) prompt now" "start = 1"
proof -
  have "c = NoCheckpoint" if "load_checkpoint env su l = (Inr c, l')" for l l' c
    using that assms(1)
    by (auto simp: load_checkpoint_def LoadForExecution_def accept_checkpoint_def Let_def split: if_splits option.splits sum.splits prod.splits)
  then show thesis using assms(2) that by (fastforce simp: started_def restore_checkpoint_def)
qed

lemma started_later:
  assumes "\<And>l s. ae_load env l = Inr (Some s) \<Longrightarrow> 0 \<le> ag_StepCount s" and "started env su st start"
  shows "1 \<le> start"
proof -
  obtain l l' c prompt now where c: "load_checkpoint env su l = (Inr c, l')"
    and r: "restore_checkpoint (ae_codec env) (ae_validators env) (ae_registry env) (ae_say env) (su_cfg su) (su_std su) (su_hasTools su) c
       (fresh_state (su_cfg su) (su_actx su) prompt now) = Inr (st, start)"
    using assms(2) unfolding started_def by blast
  show ?thesis
  proof (cases c)
    case NoCheckpoint
    then show ?thesis using r by (simp add: restore_checkpoint_def)
  next
    case (LegacyCheckpoint s)
    then have "0 \<le> ag_StepCount s"
      using c assms(1)
      by (auto simp: load_checkpoint_def LoadForExecution_def accept_checkpoint_def Let_def split: if_splits option.splits sum.splits prod.splits)
    then show ?thesis using r LegacyCheckpoint
      by (auto simp: restore_checkpoint_def restore_legacy_def Let_def split: sum.splits if_splits)
  next
    case (SnapshotCheckpoint p)
    then have "as_NextStep p \<ge> 1"
      using c
      by (auto simp: load_checkpoint_def LoadForExecution_def accept_checkpoint_def ParseAgentSnapshotV2_def Let_def
          split: if_splits option.splits sum.splits prod.splits)
    then show ?thesis using r SnapshotCheckpoint
      by (auto simp: restore_checkpoint_def restore_snapshot_def Let_def split: sum.splits)
  qed
qed

lemma finish_fields [simp]:
  "lr_Status (finish_result cfg now s st) = fst s" "lr_Vote (finish_result cfg now s st) = lr_Vote (al_result st)"
  "lr_Summary (finish_result cfg now s st) = lr_Summary (al_result st)" "lr_Ledger (finish_result cfg now s st) = Some (al_ledger st)"
  by (simp_all add: finish_result_def)

lemma fresh_running: "running env su \<lparr> aw_log = lg, aw_store = store, aw_st = fresh_state cfg actx prompt now \<rparr>"
  by (simp add: running_def fresh_state_def needs_summary_def Let_def)

section \<open>Progress\<close>

definition opening_messages :: "'s AEnv \<Rightarrow> MagiConfig \<Rightarrow> AgentContext \<Rightarrow> alog \<Rightarrow> Message list" where
  "opening_messages env cfg actx lg = [SystemMessage (system_prompt env cfg actx (run_tools env cfg actx lg \<noteq> [])), UserMessage (t_CanonicalQuestion (ac_Task actx))]"

lemma run_answers:
  assumes env: "healthy env" "ae_repo env = mem_ops" "kernel_ready (ae_model env)" "identified env (run_setup env cfg actx lg)"
    and start: "ae_build env lg = None" "resolve_tools env cfg actx (lg @ [XBuild (mc_Model cfg)]) = (Inr defs, lg1)" "\<And>l. ae_load env l = Inr None"
    and cfg: "TokenBudget (mc_LoopPolicy cfg) \<le> 0" "2 \<le> max_steps cfg" "ac_DebateContext actx = None"
    and model: "cooperative env (run_setup env cfg actx lg) (opening_messages env cfg actx lg) m1 sm m2 v"
  shows "\<exists>r lg' s'. agent_run env (Some cfg) actx lg newMemoryInvocationRepository = ((Some r, None), lg', s') \<and>
    lr_Status r = LoopStatusCompleted \<and> lr_Vote r = Some v \<and> lr_Summary r = Some sm \<and> XGenerate 1 (opening_messages env cfg actx lg) 1 \<in> set lg'"
proof -
  let ?su = "run_setup env cfg actx lg"
  have tools: "run_tools env cfg actx lg = defs" using start(2) by (simp add: run_tools_def)
  then have su: "setup_run env cfg actx defs (system_prompt env cfg actx (defs \<noteq> [])) = ?su" by (simp add: run_setup_def)
  have "fst (load_checkpoint env ?su lg1) = Inr NoCheckpoint"
    using env(1) start(3)
    by (cases "ae_checkpoints env") (auto simp: load_checkpoint_def LoadForExecution_def accept_checkpoint_def healthy_def Let_def)
  then obtain lg2 where load: "load_checkpoint env ?su lg1 = (Inr NoCheckpoint, lg2)" by (metis prod.collapse)
  let ?st = "fresh_state cfg actx (system_prompt env cfg actx (defs \<noteq> [])) (ae_now env lg2)"
  have "poised {} ''gather'' (opening_messages env cfg actx lg) (NewEvidenceLedger (ac_CaseID actx) (ac_RunID actx) (mc_Code cfg)) None newMemoryInvocationRepository
      \<lparr> aw_log = lg2, aw_store = newMemoryInvocationRepository, aw_st = ?st \<rparr>"
    using cfg(3) by (simp add: poised_def fresh_state_def opening_messages_def tools Let_def)
  then obtain w where "run_loop env ?su 1 \<lparr> aw_log = lg2, aw_store = newMemoryInvocationRepository, aw_st = ?st \<rparr> = ((LoopStatusCompleted, None), w)"
      "XGenerate 1 (opening_messages env cfg actx lg) 1 \<in> set (aw_log w)" "lr_Vote (al_result (aw_st w)) = Some v" "lr_Summary (al_result (aw_st w)) = Some sm"
    using run_completes [OF env, of "opening_messages env cfg actx lg" m1 sm m2 v] cfg model by (auto simp: delivered_def)
  then show ?thesis
    using start(1,2) su load by (simp add: agent_run_def restore_checkpoint_def Let_def)
qed


text \<open>The sample environment meets these conditions.\<close>

lemma sample_healthy: "healthy agent_env"
  by (simp add: healthy_def agent_env_def agent_codec_def encodes_all_def)

lemma sample_kernel: "ae_repo agent_env = mem_ops" "kernel_ready (ae_model agent_env)"
  by (simp_all add: agent_env_def kernel_ready_def sample_model_def plain_kernel_def)

lemma sample_identified: "identified agent_env (run_setup agent_env agent_config (sample_context []) [])"
proof -
  have "traceIdentity ''run'' = (''run'', ''run'')" by code_simp
  then show ?thesis
    by (simp add: identified_def agent_env_def sample_model_def run_setup_def setup_run_def sample_context_def Let_def)
qed

lemma sample_tools: "resolve_tools agent_env agent_config (sample_context []) lg = (Inr [], lg)"
  by (simp add: resolve_tools_def effective_bindings_def agent_config_def sample_config_def sample_context_def Let_def)

lemma sample_start: "ae_build agent_env lg = None" "\<And>l. ae_load agent_env l = Inr None" "TokenBudget (mc_LoopPolicy agent_config) \<le> 0"
    "2 \<le> max_steps agent_config" "ac_DebateContext (sample_context []) = None"
  by (simp_all add: agent_env_def agent_config_def sample_policy_def sample_config_def max_steps_def sample_context_def)

lemma sample_cooperative:
  "cooperative agent_env (run_setup agent_env agent_config (sample_context []) []) (opening_messages agent_env agent_config (sample_context []) [])
     (sample_answer 2) plain_summary (sample_answer 4) (sample_vote VoteDecisionApprove)"
proof -
  have env: "ae_validators agent_env = sample_validators" "ae_model agent_env = sample_model" "ae_registry agent_env = (\<lambda>_. None)"
      "\<And>lg ms. ae_generate agent_env lg ms = Inr (Some (sample_answer (length ms)))"
    by (simp_all add: agent_env_def)
  have std: "run_tools agent_env agent_config (sample_context []) [] = []" by (simp add: run_tools_def sample_tools)
  have "storable sample_model (AssistantMessage t)" for t
    by (simp add: storable_def encodeResponse_def decodeResponse_def sample_model_def AssistantMessage_def plain_message_def)
  then have storable: "storable sample_model (sample_answer n)" for n by (simp add: sample_answer_def)
  have gate: "Passed (summary_verdict (\<lambda>_. None) agent_config (RelaxEvidenceStandard (mc_EvidenceStandard agent_config) False) False plain_summary
      (RecomputeCorroboration (s_Claims plain_summary) (NewEvidenceLedger ''k'' ''run'' ''m'')))"
    by code_simp
  have parsed: "parseResponse sample_validators (unwrapFunctionCall sample_validators (sample_answer 2)) ''gather'' = ResponseEvidenceSummary plain_summary"
      "parseResponse sample_validators (unwrapFunctionCall sample_validators (sample_answer 4)) ''vote'' = ResponseVote (sample_vote VoteDecisionApprove)"
    by code_simp+
  have vote: "ValidateVoteDimensions (Some (sample_vote VoteDecisionApprove)) (mc_Objective agent_config) = None"
      "ValidateRoleDecision (Some (sample_vote VoteDecisionApprove)) (Some plain_summary) (mc_RolePolicy agent_config) (mc_Objective agent_config) = None"
    by code_simp+
  have fields: "ac_CaseID (sample_context []) = ''k''" "ac_RunID (sample_context []) = ''run''" "mc_Code agent_config = ''m''"
    by (simp_all add: sample_context_def agent_config_def sample_config_def)
  show ?thesis
    using storable gate parsed vote unfolding cooperative_def Let_def env run_setup_fields fields std opening_messages_def by (simp add: eval_nat_numeral)
qed


lemma sample_agent:
  obtains r lg' s' where "agent_run agent_env (Some agent_config) (sample_context []) [] newMemoryInvocationRepository = ((Some r, None), lg', s')"
    and "lr_Vote r = Some (sample_vote VoteDecisionApprove)"
    and "XGenerate 1 (opening_messages agent_env agent_config (sample_context []) []) 1 \<in> set lg'"
  using run_answers [OF sample_healthy sample_kernel sample_identified sample_start(1) sample_tools sample_start(2-5) sample_cooperative] by blast

section \<open>Votes\<close>

text \<open>C18. A fresh run ends without an error exactly if it is completed, and then its vote passed the
  check of the utility dimensions and the decision boundary of the role, against a summary that
  passed evidence gate and role gate on a ledger whose records are still the first ones of the
  final ledger. A run that ends in any other way has no vote.\<close>

theorem agent_vote_gated:
  assumes "\<And>l. ae_load env l = Inr None" and "agent_run env (Some cfg) actx lg store = ((Some r, eo), lg', store')"
  shows "if eo = None
    then lr_Status r = LoopStatusCompleted \<and> (\<exists>v s l l0. lr_Vote r = Some v \<and> lr_Summary r = Some s \<and> lr_Ledger r = Some l \<and>
      prefix (l_recordOrder l0) (l_recordOrder l) \<and>
      Passed (summary_verdict (ae_registry env) cfg (RelaxEvidenceStandard (mc_EvidenceStandard cfg) (run_tools env cfg actx lg \<noteq> []))
        (run_tools env cfg actx lg \<noteq> []) s l0) \<and>
      ValidateVoteDimensions (Some v) (mc_Objective cfg) = None \<and>
      ValidateRoleDecision (Some v) (Some s) (mc_RolePolicy cfg) (mc_Objective cfg) = None)
    else lr_Status r \<noteq> LoopStatusCompleted \<and> lr_Vote r = None"
  using assms(2)
proof (cases rule: agent_run_cases)
  case (ran l st start s w)
  then obtain prompt now where "st = fresh_state cfg actx prompt now"
    using started_fresh [OF assms(1)] by (metis run_setup_fields(1,2))
  with ran(3) have "ended env (run_setup env cfg actx lg) s w" by (simp add: run_loop_ended [OF fresh_running])
  then show ?thesis using ran(4,5) by (fastforce simp: ended_def voted_def passed_on_def split: if_splits)
qed simp

theorem agent_vote_gated_witness:
  "\<exists>r lg' s' s l0. agent_run agent_env (Some agent_config) (sample_context []) [] newMemoryInvocationRepository = ((Some r, None), lg', s') \<and>
    lr_Vote r = Some (sample_vote VoteDecisionApprove) \<and> lr_Summary r = Some s \<and>
    Passed (summary_verdict (\<lambda>_. None) agent_config (RelaxEvidenceStandard (mc_EvidenceStandard agent_config) False) False s l0)"
proof -
  obtain r lg' s' where run: "agent_run agent_env (Some agent_config) (sample_context []) [] newMemoryInvocationRepository = ((Some r, None), lg', s')"
    and v: "lr_Vote r = Some (sample_vote VoteDecisionApprove)" by (rule sample_agent)
  have "run_tools agent_env agent_config (sample_context []) [] = []" by (simp add: run_tools_def sample_tools)
  moreover have "ae_registry agent_env = (\<lambda>_. None)" by (simp add: agent_env_def)
  ultimately show ?thesis using agent_vote_gated [OF sample_start(2) run] run v by auto
qed

section \<open>Histories\<close>

lemma fresh_steady:
  assumes "list_all prologue l"
  shows "steady (length lg) \<lparr> aw_log = lg @ l, aw_store = store, aw_st = fresh_state cfg actx prompt now \<rparr>"
proof -
  have "history [SystemMessage a, UserMessage b]" for a b
    using history.plain [OF history.plain [OF history.empty], of "SystemMessage a" "UserMessage b"]
    by (simp add: SystemMessage_def UserMessage_def plain_message_def)
  then show ?thesis using assms by (auto simp: steady_def sent_def fresh_state_def Let_def list_all_iff prologue_def)
qed



section \<open>Model calls\<close>

lemma prologue_calls: "list_all prologue l \<Longrightarrow> model_calls (lg @ l) = model_calls lg"
  by (induction l) (auto simp: model_calls_def is_generate_def prologue_def split: afx.splits)

text \<open>C1. A run calls the model for at most \<open>max_steps\<close> steps, also when it resumes from a checkpoint,
  as long as no stored row has a negative step count.\<close>

theorem agent_model_calls_bounded:
  assumes "\<And>l s. ae_load env l = Inr (Some s) \<Longrightarrow> 0 \<le> ag_StepCount s"
    and "agent_run env (Some cfg) actx lg store = (res, lg', store')"
  shows "model_calls lg' \<le> model_calls lg + nat (max_steps cfg)"
proof -
  obtain ro eo where res: "res = (ro, eo)" by fastforce
  from assms(2) show ?thesis
    unfolding res
  proof (cases rule: agent_run_cases)
    case (failed l)
    then show ?thesis by (simp add: prologue_calls)
  next
    case (ran l st start s w)
    have "1 \<le> start" by (rule started_later [OF assms(1) ran(2)])
    then have "nat (max_steps cfg - start + 1) \<le> nat (max_steps cfg)" by simp
    then show ?thesis using run_loop_costs [OF ran(3)] ran(1,6) by (simp add: prologue_calls)
  qed
qed

theorem agent_model_calls_bounded_witness:
  "\<exists>res lg' s'. agent_run agent_env (Some agent_config) (sample_context []) [] newMemoryInvocationRepository = (res, lg', s') \<and>
    1 \<le> model_calls lg' \<and> model_calls lg' \<le> 4"
proof -
  obtain r lg' s' where run: "agent_run agent_env (Some agent_config) (sample_context []) [] newMemoryInvocationRepository = ((Some r, None), lg', s')"
    and gen: "XGenerate 1 (opening_messages agent_env agent_config (sample_context []) []) 1 \<in> set lg'" by (rule sample_agent)
  have "max_steps agent_config = 4" "model_calls [] = 0"
    by (simp_all add: agent_config_def sample_policy_def max_steps_def model_calls_def)
  then have "model_calls lg' \<le> 4" using agent_model_calls_bounded [OF _ run] sample_start(2) by simp
  moreover obtain a b where "lg' = a @ XGenerate 1 (opening_messages agent_env agent_config (sample_context []) []) 1 # b"
    using split_list [OF gen] by blast
  then have "1 \<le> model_calls lg'" by (simp add: model_calls_def is_generate_def)
  ultimately show ?thesis using run by blast
qed

section \<open>Checkpoints come first\<close>

lemma checkpointed_earlier:
  assumes "checkpointed env (lg0 @ l) lg step ms idx" and "list_all uneventful l"
  shows "checkpointed env lg0 lg step ms idx"
proof -
  obtain a b owner s p where c: "lg = (lg0 @ l) @ a @ XSave owner s None # b" "list_all (\<lambda>fx. \<not> failed_save fx) a" "list_all (\<lambda>fx. \<not> is_save fx) b"
      "cd_messages (ae_codec env) ms = Inr (ag_MessagesJSON s)" "cd_snapshot (ae_codec env) p = Inr (ag_SnapshotJSON s)"
      "as_MessagesJSON p = ag_MessagesJSON s" "as_NextStep p = step" "as_PendingToolIndex p = idx"
    using assms(1) unfolding checkpointed_def by blast
  have "lg = lg0 @ (l @ a) @ XSave owner s None # b" "list_all (\<lambda>fx. \<not> failed_save fx) (l @ a)"
    using c(1,2) assms(2) uneventful_save by (auto simp: list_all_iff)
  with c(3-) show ?thesis unfolding checkpointed_def by blast
qed

lemma covered_earlier: "covered env (lg0 @ l) lg fx \<Longrightarrow> list_all uneventful l \<Longrightarrow> covered env lg0 lg fx"
  unfolding covered_def by (auto split: afx.splits tevent.splits intro: checkpointed_earlier)

lemma ahead_earlier: "ahead env (lg0 @ l) lg x \<Longrightarrow> list_all uneventful l \<Longrightarrow> ahead env lg0 lg x"
  by (induction x arbitrary: lg) (auto intro: covered_earlier)



end
