(* ===== verification/AgentResume.thy ===== *)
theory AgentResume
  imports AgentProgress AgentSample
begin

text \<open>
  Approvals and checkpoints seen from the outside: what an approval covers, and that the row a
  checkpoint writes gives back the state of the loop. Then the corners of the loop where the code
  does not do what its comments say.
\<close>

section \<open>Approvals\<close>

definition undecided :: "goerr + ApprovalRequest option \<Rightarrow> bool" where
  "undecided a \<longleftrightarrow> (case a of Inr (Some cur) \<Rightarrow> aq_Status cur \<notin> {ApprovalApproved, ApprovalRejected, ApprovalExpired} | _ \<Rightarrow> True)"

lemma poll_approved:
  assumes "poll_approval env i tool timeout polls ending = (Inr d, l)" and "ad_Approved d"
  shows "\<exists>cur later. dropWhile undecided polls = Inr (Some cur) # later \<and> aq_Status cur = ApprovalApproved \<and>
    ad_DecidedBy d = aq_DecidedBy cur \<and> ad_Reason d = aq_Reason cur"
  using assms
proof (induction polls arbitrary: l)
  case Nil
  then show ?case by (auto simp: refuse_def split: wait_end.splits if_splits)
next
  case (Cons a polls)
  then show ?case
    by (auto simp: refuse_def undecided_def Let_def split: sum.splits option.splits ApprovalStatus.splits prod.splits)
qed

lemma await_approved:
  assumes "await_approval env req tool digest timeout lg = (Inr d, lg')" and "ad_Approved d"
  shows "\<exists>first later ending cur rest. aq_ToolName req = tool \<and> aq_IntentDigest req = digest \<and> ae_polls env lg = (first, later, ending) \<and>
    dropWhile undecided (first # later) = Inr (Some cur) # rest \<and> aq_Status cur = ApprovalApproved \<and> ad_DecidedBy d = aq_DecidedBy cur"
proof -
  obtain first later ending where polls: "ae_polls env lg = (first, later, ending)" by (metis prod_cases3)
  obtain r l where poll: "poll_approval env (aq_ID req) tool timeout (first # later) ending = (r, l)" by fastforce
  have match: "aq_ToolName req = tool \<and> aq_IntentDigest req = digest" and "r = Inr d"
    using assms polls poll by (auto simp: await_approval_def refuse_def simp del: poll_approval.simps split: if_splits)
  with poll_approved [OF poll [unfolded \<open>r = Inr d\<close>] assms(2)] polls show ?thesis by blast
qed


definition approval_call :: ToolCallMsg where
  "approval_call = \<lparr> tm_ID = ''t1'', tm_Name = ''pay'', tm_Arguments = ''{}'' \<rparr>"

definition sample_setup :: Setup where
  "sample_setup = setup_run agent_env agent_config (sample_context []) [] []"


section \<open>Checkpoints\<close>

lemma save_logged: "save_checkpoint env owner g s w = (Inr None, w') \<Longrightarrow> \<exists>o'. XSave o' s None \<in> set (aw_log w')"
  by (auto simp: save_checkpoint_def bindA_def askA_def thenA_def logA_def returnA_def split: if_splits)

lemma critical_logs: "recordCritical env ev w = (r, w') \<Longrightarrow> set (aw_log w) \<subseteq> set (aw_log w')"
  using movesD [OF drift_parts(2)] by (fastforce simp: drift_def)

lemma commit_execution_logged:
  assumes "ae_checkpoints env = Some g" and "CommitForExecution env owner s w = (Inr None, w')"
  shows "\<exists>o'. XSave o' s None \<in> set (aw_log w')"
proof -
  obtain a w1 where save: "save_checkpoint env owner g s w = (a, w1)" by fastforce
  have "a = Inr None"
    using assms save by (auto simp: CommitForExecution_def bindA_def returnA_def split: sum.splits option.splits prod.splits)
  with assms save have "recordCritical env (EvCheckpointCommitted (ag_StepCount s + 1)) w1 = (Inr None, w')"
    by (simp add: CommitForExecution_def bindA_def)
  with save_logged [OF save [unfolded \<open>a = Inr None\<close>]] critical_logs show ?thesis by blast
qed

text \<open>The row that an acknowledged checkpoint wrote.\<close>

lemma commit_row:
  assumes "ac_RunID (su_actx su) \<noteq> []" and "ae_checkpoints env = Some g" and "commitCheckpoint env su next pending idx w = (Inr (), w')"
  shows "\<exists>s k gen owner. buildCheckpointState (ae_codec env) (ac_RunID (su_actx su)) (aw_st w) next (su_manifest su) pending idx = Inr s \<and>
    XSave owner (s\<lparr> ag_CaseID := k, ag_ExecutionGeneration := gen \<rparr>) None \<in> set (aw_log w')"
proof -
  have "checkpoint_error env su next pending idx w = (Inr None, w')"
    using assms(3) by (auto simp: commitCheckpoint_def bindA_def failA_def returnA_def stopA_def split: prod.splits sum.splits option.splits)
  then show ?thesis
    using assms(1) commit_execution_logged [OF assms(2)]
    by (auto simp: checkpoint_error_def Let_def bindA_def askA_def getA_def returnA_def split: if_splits sum.splits) blast+
qed

text \<open>C23. If JSON loses nothing of the state, the row that an acknowledged checkpoint wrote is accepted by
  a run of the same identity and manifest, and restores the messages, the ledger, the counters, the
  phase, the summary, the reflection, the usage and the pending response with its position, at the
  step it was taken for. Only the trace starts anew.\<close>

theorem checkpoint_roundtrip:
  assumes "ac_RunID (su_actx su) \<noteq> []" and "ae_checkpoints env = Some g" and "commitCheckpoint env su n pending idx w = (Inr (), w')"
    and "codec_faithful (ae_codec env) (ac_RunID (su_actx su)) (aw_st w) n (su_manifest su) pending idx"
    and "checkpointable (ac_RunID (su_actx su)) (aw_st w) n (su_manifest su) pending idx"
  shows "\<exists>owner row c. XSave owner row None \<in> set (aw_log w') \<and>
    accept_checkpoint (ae_codec env) (ac_RunID (su_actx su)) (su_manifest su) (Some row) = Inr c \<and>
    restore_checkpoint (ae_codec env) V registry msg cfg std hasTools c st0 = Inr (resumed_state st0 (aw_st w) pending idx, n)"
  using commit_row [OF assms(1-3)] build_accept_restore [OF assms(4,5)] by (metis Inr_inject)

text \<open>A codec that knows one state and one snapshot.\<close>

definition echo_codec :: "LoopState \<Rightarrow> AgentSnapshotV2 \<Rightarrow> Codec" where
  "echo_codec st p = agent_codec\<lparr> cd_messages := (\<lambda>_. Inr ''m''), cd_unmessages := (\<lambda>_. Some (al_messages st)),
     cd_unledger := (\<lambda>_. Some (MarshalLedger (al_ledger st))), cd_unsnapshot := (\<lambda>_. Some p) \<rparr>"

definition resume_state :: LoopState where
  "resume_state = fresh_state agent_config (sample_context []) [] 1"

definition resume_snapshot :: AgentSnapshotV2 where
  "resume_snapshot = (snapshot_of ''run'' resume_state 1 (su_manifest sample_setup) ''m'' ''l'' [] [] [] (-1))\<lparr> as_Version := AgentSnapshotV2Version \<rparr>"

theorem checkpoint_roundtrip_witness:
  "\<exists>owner row c lg. XSave owner row None \<in> set lg \<and>
    accept_checkpoint (echo_codec resume_state resume_snapshot) ''run'' (su_manifest sample_setup) (Some row) = Inr c \<and>
    restore_checkpoint (echo_codec resume_state resume_snapshot) sample_validators (\<lambda>_. None) (\<lambda>_. []) agent_config sample_standard False c resume_state =
      Inr (resumed_state resume_state resume_state None (-1), 1)"
proof -
  let ?C = "echo_codec resume_state resume_snapshot" and ?w = "\<lparr> aw_log = [], aw_store = newMemoryInvocationRepository, aw_st = resume_state \<rparr>"
  define env where "env = agent_env\<lparr> ae_codec := ?C \<rparr>"
  have env: "ae_codec env = ?C" "ae_checkpoints env = Some True" by (simp_all add: env_def agent_env_def)
  have su: "ac_RunID (su_actx sample_setup) = ''run''" by (simp add: sample_setup_def setup_run_def sample_context_def)
  have manifest: "su_manifest sample_setup \<noteq> []"
    by (simp add: sample_setup_def setup_run_def CheckpointManifest_def FreezeManifest_def canonicalDigest_def agent_env_def Let_def)
  have "healthy env" by (simp add: env_def healthy_def agent_env_def agent_codec_def echo_codec_def encodes_all_def)
  then have "stops never (commitCheckpoint env sample_setup 1 None (-1))"
    by (simp add: commitCheckpoint_def stops_never_checked succeeds_checkpoint)
  then obtain w' where w': "commitCheckpoint env sample_setup 1 None (-1) ?w = (Inr (), w')"
    by (cases "commitCheckpoint env sample_setup 1 None (-1) ?w"; cases "fst (commitCheckpoint env sample_setup 1 None (-1) ?w)") (auto simp: stops_def)
  have state: "lr_Summary (al_result resume_state) = None" "lr_Reflection (al_result resume_state) = None" "al_messages resume_state \<noteq> []"
      "al_ledger resume_state = NewEvidenceLedger ''k'' ''run'' ''m''" "\<not> needs_summary (al_phase resume_state)"
    by (simp_all add: resume_state_def fresh_state_def sample_context_def agent_config_def sample_config_def needs_summary_def Let_def)
  have "codec_faithful ?C ''run'' resume_state 1 (su_manifest sample_setup) None (-1)"
    using state by (simp add: codec_faithful_def encodes_def encodes_option_def echo_codec_def agent_codec_def snapshot_built_def resume_snapshot_def
        text_of_def marshal_ledger_def marshalCheckpointValue_def)
  moreover have "checkpointable ''run'' resume_state 1 (su_manifest sample_setup) None (-1)"
    using state manifest by (simp add: checkpointable_def wf_NewEvidenceLedger)
  ultimately show ?thesis
    using checkpoint_roundtrip [OF _ env(2) w', unfolded su env(1) AWorld.select_convs] by blast
qed

section \<open>Where the code departs from its comments\<close>

text \<open>A history without tool calls has no tool answers.\<close>

lemma history_answers: "history ms \<Longrightarrow> list_all (\<lambda>m. mg_ToolCalls m = []) ms \<Longrightarrow> list_all (\<lambda>m. mg_Role m \<noteq> RoleTool) ms"
  by (induction rule: history.induct) auto

text \<open>Compaction keeps the last four messages whatever they are: the answers of a batch of four calls
  stay while the message with the calls is summarized away.\<close>

definition four_calls :: "Message list" where
  "four_calls = [SystemMessage ''s'', UserMessage ''q'', (AssistantMessage [])\<lparr> mg_ToolCalls := replicate 4 approval_call \<rparr>] @
     replicate 4 (ToolMessage ''a'' ''t1'')"

lemma compaction_orphans_answers:
  "history four_calls \<and> (\<exists>ms u. compactHistory (\<lambda>t. t) (\<lambda>_. Inr (AssistantMessage ''x'')) four_calls = Inr (ms, u) \<and> \<not> history ms)"
proof
  have "history [SystemMessage ''s'', UserMessage ''q'']"
    using history.plain [OF history.plain [OF history.empty], of "SystemMessage ''s''" "UserMessage ''q''"]
    by (simp add: SystemMessage_def UserMessage_def plain_message_def)
  from history.batch [OF this, of "(AssistantMessage [])\<lparr> mg_ToolCalls := replicate 4 approval_call \<rparr>" "replicate 4 ''a''"]
  show "history four_calls"
    by (simp add: four_calls_def AssistantMessage_def plain_message_def approval_call_def numeral_eq_Suc)
  let ?r = "compactHistory (\<lambda>t. t) (\<lambda>_. Inr (AssistantMessage ''x'')) four_calls"
  have "case ?r of Inl e \<Rightarrow> False | Inr (ms, u) \<Rightarrow> list_all (\<lambda>m. mg_ToolCalls m = []) ms \<and> list_ex (\<lambda>m. mg_Role m = RoleTool) ms"
    by code_simp
  then obtain ms u where "?r = Inr (ms, u)" "list_all (\<lambda>m. mg_ToolCalls m = []) ms" "list_ex (\<lambda>m. mg_Role m = RoleTool) ms"
    by (cases ?r rule: sum.exhaust) (simp_all split: prod.splits)
  then show "\<exists>ms u. ?r = Inr (ms, u) \<and> \<not> history ms"
    using history_answers [of ms] by (auto simp: list_all_iff list_ex_iff)
qed

text \<open>A run that resumes in the middle of a batch after the limit of tool calls was reached answers all
  calls of the batch, also those that the restored history has already answered.\<close>

lemma resume_answers_again:
  assumes "healthy env" and "0 \<le> idx" and "limit_reached (mc_LoopPolicy (su_cfg su)) (al_ts (aw_st w))"
    and "on_tool_calls env su step sp resp idx w = (r, w')"
  shows "al_messages (aw_st w') = al_messages (aw_st w) @ map skip_message (mg_ToolCalls resp) @ [limit_message (mc_LoopPolicy (su_cfg su))]"
proof -
  let ?w = "w\<lparr> aw_st := (aw_st w)\<lparr> al_messages := al_messages (aw_st w) @ map skip_message (mg_ToolCalls resp) @ [limit_message (mc_LoopPolicy (su_cfg su))] \<rparr> \<rparr>"
  have "thenA (commitCheckpoint env su (step + 1) None (-1)) (add_step sp) ?w = (r, w')"
    using assms(2-4) by (simp add: on_tool_calls_def Let_def thenA_def bindA_def getA_def returnA_def say_def modifyA_def)
  moreover have "moves drift (thenA (commitCheckpoint env su (step + 1) None (-1)) (add_step sp))"
    by (intro drift.seq drift_commit drift_parts)
  ultimately have "drift ?w w'" by (rule movesD [rotated])
  then show ?thesis by (simp add: drift_def)
qed

end
