(* ===== verification/JobStore.thy ===== *)
theory JobStore
  imports Persist Checkpoint
begin

text \<open>
  The tables behind a durable execution and the transactions on them: the decision jobs with their
  leases and claims (\<^verbatim>\<open>adapter/job_repository.go\<close>), the owned commits of cases and artifacts
  (\<^verbatim>\<open>adapter/case_execution.go\<close>, \<^verbatim>\<open>adapter/repository.go\<close>), external pause, resume and cancel
  (\<^verbatim>\<open>adapter/case_control.go\<close>) and the admission gate (\<^verbatim>\<open>adapter/decision_writer_contract.go\<close>).

  A transaction is one atomic step: the code locks the job row, then the case row, before it reads
  them. The next entry of \<open>jd_faults\<close> says what happens to it: it works, the database refuses (nothing
  happens), the commit fails after the body ran, or the commit succeeds and the answer is lost.
  A row of \<open>decision_case\<close>, \<open>resolution\<close> or an artifact table is the entity it stores; JSON columns lose
  nothing, and columns that no transaction here reads (\<open>updated_at\<close> of jobs, run and agent of an event)
  are left out.
\<close>

section \<open>Rows\<close>

datatype DecisionJobStatus =
    DecisionJobQueued | DecisionJobRunning | DecisionJobSucceeded | DecisionJobFailed
  | DecisionJobCancelled | DecisionJobPaused | DecisionJobStatusOther string

record DecisionJob =
  j_ID :: string
  j_CaseID :: string
  j_Status :: DecisionJobStatus
  j_Attempt :: int
  j_MaxAttempts :: int
  j_WorkerID :: string
  j_LeaseUntil :: "timestamp option"
  j_ExecutionGeneration :: int64
  j_ClaimToken :: string
  j_AvailableAt :: timestamp
  j_LastError :: string
  j_CreatedAt :: timestamp

record DecisionJobModel =
  jm_ID :: string
  jm_CaseID :: string
  jm_Status :: DecisionJobStatus
  jm_Attempt :: int
  jm_MaxAttempts :: int
  jm_WorkerID :: string
  jm_LeaseUntil :: "timestamp option"
  jm_ExecutionGeneration :: int64
  jm_ClaimToken :: "string option"
  jm_AvailableAt :: timestamp
  jm_LastError :: string
  jm_CreatedAt :: timestamp

record DecisionJobClaimModel =
  jc_ClaimToken :: string
  jc_JobID :: string
  jc_CaseID :: string
  jc_WorkerID :: string
  jc_ExecutionGeneration :: int64
  jc_Attempt :: int
  jc_MaxAttempts :: int
  jc_LeaseUntil :: timestamp
  jc_ClaimedAt :: timestamp

text \<open>An event with its identity, as the owned commits get it, and its row.\<close>

record IdEvent = MagiEvent +
  me_ID :: string

record EventModel =
  em_ID :: string
  em_CaseID :: string
  em_ExecutionGeneration :: int64
  em_Seq :: nat
  em_Type :: EventType
  em_Payload :: payload

record DecisionWriterContractModel =
  wc_ContractVersion :: nat
  wc_AdmissionState :: string
  wc_CutoverEpoch :: nat
  wc_LegacyRollbackForbidden :: bool
  wc_WriterAccount :: string

datatype txfault = TxWorks | TxRefused goerr | TxCommitFails goerr | TxAnswerLost goerr

record JobDb =
  jd_case :: "DecisionCase list"
  jd_job :: "DecisionJobModel list"
  jd_claim :: "DecisionJobClaimModel list"
  jd_event :: "EventModel list"
  jd_cursor :: "(string, nat) gomap"
  jd_resolution :: "Resolution list"
  jd_artifact :: "artifact list"
  jd_checkpoint :: "AgentState list"
  jd_contract :: "DecisionWriterContractModel option"
  jd_faults :: "txfault list"

text \<open>The connection: the database account under MySQL, nothing under another dialect, and the
  parser of the UUID package.\<close>

record JobEnv =
  je_account :: "string option"
  je_validUUID :: "string \<Rightarrow> bool"

section \<open>Statements and transactions\<close>

definition update_rows :: "('r \<Rightarrow> bool) \<Rightarrow> ('r \<Rightarrow> 'r) \<Rightarrow> 'r list \<Rightarrow> 'r list" where
  "update_rows P f rows = map (\<lambda>r. if P r then f r else r) rows"

definition affected :: "('r \<Rightarrow> bool) \<Rightarrow> 'r list \<Rightarrow> nat" where
  "affected P rows = length (filter P rows)"

definition next_txfault :: "JobDb \<Rightarrow> txfault \<times> JobDb" where
  "next_txfault s = (case jd_faults s of [] \<Rightarrow> (TxWorks, s) | f # fs \<Rightarrow> (f, s\<lparr> jd_faults := fs \<rparr>))"

text \<open>The result, what the body returned if it succeeded, and the tables afterwards.\<close>

definition txn :: "(JobDb \<Rightarrow> (goerr + 'a) \<times> JobDb) \<Rightarrow> JobDb \<Rightarrow> (goerr + 'a) \<times> 'a option \<times> JobDb" where
  "txn body s0 =
     (case next_txfault s0 of (f, s) \<Rightarrow>
        (case f of
           TxRefused e \<Rightarrow> (Inl e, None, s)
         | _ \<Rightarrow>
             (case body s of
                (Inl e, _) \<Rightarrow> (Inl e, None, s)
              | (Inr v, s') \<Rightarrow>
                  (case f of
                     TxCommitFails e \<Rightarrow> (Inl e, Some v, s)
                   | TxAnswerLost e \<Rightarrow> (Inl e, Some v, s')
                   | _ \<Rightarrow> (Inr v, Some v, s')))))"

definition stmt :: "(JobDb \<Rightarrow> (goerr + 'a) \<times> JobDb) \<Rightarrow> JobDb \<Rightarrow> (goerr + 'a) \<times> JobDb" where
  "stmt body s = (case txn body s of (r, _, s') \<Rightarrow> (r, s'))"

definition query :: "(JobDb \<Rightarrow> goerr + 'a) \<Rightarrow> JobDb \<Rightarrow> (goerr + 'a) \<times> JobDb" where
  "query q = stmt (\<lambda>s. (q s, s))"

definition find_job :: "string \<Rightarrow> JobDb \<Rightarrow> DecisionJobModel option" where
  "find_job caseID s = List.find (\<lambda>j. jm_CaseID j = caseID) (jd_job s)"

definition find_case :: "string \<Rightarrow> JobDb \<Rightarrow> DecisionCase option" where
  "find_case caseID s = List.find (\<lambda>c. c_ID c = caseID) (jd_case s)"

section \<open>The admission gate\<close>

definition errDecisionWriterBlocked :: goerr where
  "errDecisionWriterBlocked = Errorf ''decision writer admission blocked''"

definition errDecisionWriterVersion :: goerr where
  "errDecisionWriterVersion = Errorf ''decision writer contract version incompatible''"

definition errDecisionWriterIdentity :: goerr where
  "errDecisionWriterIdentity = Errorf ''decision writer database identity incompatible''"

definition errDecisionWriterSchema :: goerr where
  "errDecisionWriterSchema = Errorf ''decision writer schema incompatible''"

definition lockDecisionWriterGate :: "JobEnv \<Rightarrow> JobDb \<Rightarrow> goerr option" where
  "lockDecisionWriterGate env s =
     (case jd_contract s of
        None \<Rightarrow> Some (Wrapf ''gate unavailable'' errDecisionWriterBlocked)
      | Some gate \<Rightarrow>
          if wc_ContractVersion gate \<noteq> 1 then Some errDecisionWriterVersion
          else if wc_AdmissionState gate \<noteq> ''ENABLED'' \<or> \<not> wc_LegacyRollbackForbidden gate \<or> wc_CutoverEpoch gate = 0
            then Some errDecisionWriterBlocked
          else (case je_account env of
              Some account \<Rightarrow>
                if wc_WriterAccount gate = [] \<or> wc_WriterAccount gate \<noteq> account
                then Some errDecisionWriterIdentity else None
            | None \<Rightarrow> None))"

definition jr_CheckDecisionWriter :: "JobEnv \<Rightarrow> JobDb \<Rightarrow> (goerr + unit) \<times> JobDb" where
  "jr_CheckDecisionWriter env =
     query (\<lambda>s. case lockDecisionWriterGate env s of Some e \<Rightarrow> Inl e | None \<Rightarrow> Inr ())"

definition IsDecisionWriterDenied :: "goerr \<Rightarrow> bool" where
  "IsDecisionWriterDenied e \<longleftrightarrow> err_is e errDecisionWriterBlocked \<or> err_is e errDecisionWriterVersion
     \<or> err_is e errDecisionWriterIdentity \<or> err_is e errDecisionWriterSchema"

section \<open>Jobs\<close>

definition jobFromModel :: "DecisionJobModel \<Rightarrow> DecisionJob" where
  "jobFromModel m =
     \<lparr> j_ID = jm_ID m, j_CaseID = jm_CaseID m, j_Status = jm_Status m, j_Attempt = jm_Attempt m,
       j_MaxAttempts = jm_MaxAttempts m, j_WorkerID = jm_WorkerID m, j_LeaseUntil = jm_LeaseUntil m,
       j_ExecutionGeneration = jm_ExecutionGeneration m,
       j_ClaimToken = (case jm_ClaimToken m of None \<Rightarrow> [] | Some t \<Rightarrow> t),
       j_AvailableAt = jm_AvailableAt m, j_LastError = jm_LastError m, j_CreatedAt = jm_CreatedAt m \<rparr>"

definition isActiveJob :: "DecisionJobModel \<Rightarrow> bool" where
  "isActiveJob j \<longleftrightarrow> jm_Status j = DecisionJobQueued \<or> jm_Status j = DecisionJobRunning"

text \<open>The join of jobs and cases that counts the active jobs of a user.\<close>

definition active_of_user :: "int64 \<Rightarrow> JobDb \<Rightarrow> nat" where
  "active_of_user userID s =
     affected (\<lambda>j. isActiveJob j \<and> list_ex (\<lambda>c. c_ID c = jm_CaseID j \<and> c_UserID c = userID) (jd_case s)) (jd_job s)"

definition admit_reset :: "int \<Rightarrow> timestamp \<Rightarrow> DecisionJobModel \<Rightarrow> DecisionJobModel" where
  "admit_reset maxAttempts now j =
     j\<lparr> jm_Status := DecisionJobQueued, jm_Attempt := 0, jm_MaxAttempts := maxAttempts, jm_WorkerID := [],
        jm_LeaseUntil := None, jm_AvailableAt := now, jm_LastError := [] \<rparr>"

definition new_job :: "string \<Rightarrow> string \<Rightarrow> int \<Rightarrow> timestamp \<Rightarrow> DecisionJobModel" where
  "new_job jobID caseID maxAttempts now =
     \<lparr> jm_ID = jobID, jm_CaseID = caseID, jm_Status = DecisionJobQueued, jm_Attempt = 0,
       jm_MaxAttempts = maxAttempts, jm_WorkerID = [], jm_LeaseUntil = None, jm_ExecutionGeneration = 0,
       jm_ClaimToken = None, jm_AvailableAt = now, jm_LastError = [], jm_CreatedAt = now \<rparr>"

text \<open>Resetting a job: the answer keeps the old limit of attempts of the row.\<close>

definition admit_tx ::
  "JobEnv \<Rightarrow> string \<Rightarrow> int \<Rightarrow> int \<Rightarrow> timestamp \<Rightarrow> string \<Rightarrow> JobDb \<Rightarrow> (goerr + DecisionJob option) \<times> JobDb" where
  "admit_tx env caseID maxAttempts perUserLimit now jobID s =
     (case lockDecisionWriterGate env s of Some e \<Rightarrow> (Inl e, s) | None \<Rightarrow>
      case find_case caseID s of None \<Rightarrow> (Inl errRecordNotFound, s) | Some c \<Rightarrow>
      let full = c_UserID c \<noteq> 0 \<and> perUserLimit > 0 \<and> int (active_of_user (c_UserID c) s) \<ge> perUserLimit in
      case find_job caseID s of
        Some m \<Rightarrow>
          if jm_Status m \<in> {DecisionJobQueued, DecisionJobRunning, DecisionJobSucceeded}
            then (Inr (Some (jobFromModel m)), s)
          else if full then (Inr None, s)
          else (Inr (Some ((jobFromModel (admit_reset maxAttempts now m))\<lparr> j_MaxAttempts := jm_MaxAttempts m \<rparr>)),
                s\<lparr> jd_job := update_rows (\<lambda>j. jm_ID j = jm_ID m) (admit_reset maxAttempts now) (jd_job s) \<rparr>)
      | None \<Rightarrow>
          if full then (Inr None, s)
          else if list_ex (\<lambda>j. jm_ID j = jobID) (jd_job s) then (Inl (Errorf ''duplicate key''), s)
          else (Inr (Some (jobFromModel (new_job jobID caseID maxAttempts now))),
                s\<lparr> jd_job := jd_job s @ [new_job jobID caseID maxAttempts now] \<rparr>))"

definition defaultJobAttempts :: int where
  "defaultJobAttempts = 3"

definition jr_Admit ::
  "JobEnv \<Rightarrow> string \<Rightarrow> int \<Rightarrow> int \<Rightarrow> timestamp \<Rightarrow> string \<Rightarrow> JobDb \<Rightarrow> (goerr + DecisionJob option) \<times> JobDb" where
  "jr_Admit env caseID maxAttempts perUserLimit now jobID s =
     (if caseID = [] then (Inl (Errorf ''decision job: case ID is required''), s)
      else stmt (admit_tx env caseID (if maxAttempts \<le> 0 then defaultJobAttempts else maxAttempts)
             perUserLimit now jobID) s)"

section \<open>Claims\<close>

definition claimRecordToJobModel :: "DecisionJobClaimModel \<Rightarrow> DecisionJobModel" where
  "claimRecordToJobModel m =
     \<lparr> jm_ID = jc_JobID m, jm_CaseID = jc_CaseID m, jm_Status = DecisionJobRunning,
       jm_Attempt = jc_Attempt m, jm_MaxAttempts = jc_MaxAttempts m, jm_WorkerID = jc_WorkerID m,
       jm_LeaseUntil = Some (jc_LeaseUntil m), jm_ExecutionGeneration = jc_ExecutionGeneration m,
       jm_ClaimToken = Some (jc_ClaimToken m), jm_AvailableAt = 0, jm_LastError = [],
       jm_CreatedAt = jc_ClaimedAt m \<rparr>"

definition jr_GetByClaimToken :: "string \<Rightarrow> JobDb \<Rightarrow> (goerr + DecisionJob) \<times> JobDb" where
  "jr_GetByClaimToken claimToken s0 =
     (if claimToken = [] then (Inl errRecordNotFound, s0)
      else query (\<lambda>s. case List.find (\<lambda>m. jc_ClaimToken m = claimToken) (jd_claim s) of
          None \<Rightarrow> Inl errRecordNotFound
        | Some m \<Rightarrow> Inr (jobFromModel (claimRecordToJobModel m))) s0)"

definition release_job :: "DecisionJobStatus \<Rightarrow> DecisionJobModel \<Rightarrow> DecisionJobModel" where
  "release_job st j = j\<lparr> jm_Status := st, jm_WorkerID := [], jm_LeaseUntil := None \<rparr>"

definition reconcile_target :: "CaseStatus \<Rightarrow> DecisionJobStatus" where
  "reconcile_target st =
     (if st = CaseStatusPaused then DecisionJobPaused
      else if st = CaseStatusCancelled then DecisionJobCancelled
      else if st \<in> {CaseStatusMemoryIndexed, CaseStatusInsufficientEv, CaseStatusResolved, CaseStatusDeadlocked}
        then DecisionJobSucceeded
      else DecisionJobFailed)"

definition completion_events :: "string \<Rightarrow> int64 list \<Rightarrow> JobDb \<Rightarrow> nat" where
  "completion_events caseID gens s =
     affected (\<lambda>e. em_CaseID e = caseID \<and> em_Type e = EventCaseCompleted \<and> em_ExecutionGeneration e \<in> set gens) (jd_event s)"

definition resolutions_of :: "string \<Rightarrow> int64 \<Rightarrow> JobDb \<Rightarrow> nat" where
  "resolutions_of caseID gen s =
     affected (\<lambda>r. r_CaseID r = caseID \<and> r_ExecutionGeneration r = gen) (jd_resolution s)"

text \<open>\<^term>\<open>None\<close>: the case is open. Otherwise the job is settled like its case, or that failed.\<close>

definition reconcileTerminalJob :: "DecisionJobModel \<Rightarrow> DecisionCase \<Rightarrow> JobDb \<Rightarrow> (goerr + JobDb) option" where
  "reconcileTerminalJob job c s =
     (let st = c_Status c; gen = c_ExecutionGeneration c in
      if \<not> isPublicTerminalCaseStatus st \<and> st \<noteq> CaseStatusPaused then None
      else if st \<in> {CaseStatusResolved, CaseStatusDeadlocked} \<and> completion_events (c_ID c) [0, gen] s = 0
        then Some (Inl (Errorf ''terminal Job reconciliation: completion event missing''))
      else if st = CaseStatusResolved \<and> resolutions_of (c_ID c) gen s \<noteq> 1
        then Some (Inl (Errorf ''terminal Job reconciliation: resolution generation mismatch''))
      else if jm_ExecutionGeneration job \<noteq> gen
        then Some (Inl (Errorf ''terminal Job reconciliation: generation mismatch''))
      else Some (Inr (s\<lparr> jd_job := update_rows (\<lambda>j. jm_ID j = jm_ID job)
              (release_job (reconcile_target st)) (jd_job s) \<rparr>)))"

definition errClaimFenceLost :: goerr where
  "errClaimFenceLost = Errorf ''decision job: claim fence lost''"

definition errClaimTokenConflict :: goerr where
  "errClaimTokenConflict = Errorf ''decision job claim token conflict''"

definition max_int64 :: int64 where
  "max_int64 = 2 ^ 63 - 1"

definition claim_job :: "string \<Rightarrow> string \<Rightarrow> timestamp \<Rightarrow> DecisionJobModel \<Rightarrow> DecisionJobModel" where
  "claim_job workerID claimToken leaseUntil j =
     j\<lparr> jm_Status := DecisionJobRunning, jm_WorkerID := workerID, jm_LeaseUntil := Some leaseUntil,
        jm_Attempt := jm_Attempt j + 1, jm_ExecutionGeneration := jm_ExecutionGeneration j + 1,
        jm_ClaimToken := Some claimToken \<rparr>"

definition claim_record :: "timestamp \<Rightarrow> timestamp \<Rightarrow> string \<Rightarrow> DecisionJobModel \<Rightarrow> DecisionJobClaimModel" where
  "claim_record now leaseUntil claimToken j =
     \<lparr> jc_ClaimToken = claimToken, jc_JobID = jm_ID j, jc_CaseID = jm_CaseID j, jc_WorkerID = jm_WorkerID j,
       jc_ExecutionGeneration = jm_ExecutionGeneration j, jc_Attempt = jm_Attempt j,
       jc_MaxAttempts = jm_MaxAttempts j, jc_LeaseUntil = leaseUntil, jc_ClaimedAt = now \<rparr>"

text \<open>The generation of the case and the row of the job move on together; a lost update rolls back.\<close>

definition claim_rows ::
  "string \<Rightarrow> string \<Rightarrow> timestamp \<Rightarrow> timestamp \<Rightarrow> DecisionJobModel \<Rightarrow> DecisionCase \<Rightarrow> JobDb \<Rightarrow>
    (goerr + DecisionJob option) \<times> JobDb" where
  "claim_rows workerID claimToken leaseUntil now claimed c s =
     (let gen = c_ExecutionGeneration c;
          the_case = (\<lambda>x. c_ID x = jm_CaseID claimed \<and> c_ExecutionGeneration x = gen);
          the_job = (\<lambda>j. jm_ID j = jm_ID claimed \<and> jm_Status j = DecisionJobQueued \<and>
            jm_Attempt j = jm_Attempt claimed \<and> jm_ExecutionGeneration j = jm_ExecutionGeneration claimed);
          claimed' = claim_job workerID claimToken leaseUntil claimed in
      if affected the_case (jd_case s) \<noteq> 1 \<or> affected the_job (jd_job s) \<noteq> 1 then (Inl errClaimFenceLost, s)
      else if list_ex (\<lambda>j. jm_ClaimToken j = Some claimToken) (jd_job s) then (Inl (Errorf ''duplicate key''), s)
      else (Inr (Some (jobFromModel claimed')),
            s\<lparr> jd_case := update_rows the_case (\<lambda>x. x\<lparr> c_ExecutionGeneration := gen + 1, c_UpdatedAt := now \<rparr>) (jd_case s),
               jd_job := update_rows the_job (claim_job workerID claimToken leaseUntil) (jd_job s),
               jd_claim := jd_claim s @ [claim_record now leaseUntil claimToken claimed'] \<rparr>))"

definition claim_tx ::
  "JobEnv \<Rightarrow> string \<Rightarrow> string \<Rightarrow> string \<Rightarrow> timestamp \<Rightarrow> timestamp \<Rightarrow> JobDb \<Rightarrow> (goerr + DecisionJob option) \<times> JobDb" where
  "claim_tx env jobID workerID claimToken leaseUntil now s =
     (case lockDecisionWriterGate env s of Some e \<Rightarrow> (Inl e, s) | None \<Rightarrow>
      case List.find (\<lambda>m. jc_ClaimToken m = claimToken) (jd_claim s) of
        Some existing \<Rightarrow>
          if jc_JobID existing \<noteq> jobID then (Inl errClaimTokenConflict, s)
          else (Inr (Some (jobFromModel (claimRecordToJobModel existing))), s)
      | None \<Rightarrow>
      case List.find (\<lambda>j. jm_ID j = jobID \<and> jm_Status j = DecisionJobQueued \<and> jm_AvailableAt j \<le> now) (jd_job s) of
        None \<Rightarrow> (Inl errRecordNotFound, s)
      | Some claimed \<Rightarrow>
      case find_case (jm_CaseID claimed) s of
        None \<Rightarrow> (Inl errRecordNotFound, s)
      | Some c \<Rightarrow>
      case reconcileTerminalJob claimed c s of
        Some (Inl e) \<Rightarrow> (Inl e, s)
      | Some (Inr s') \<Rightarrow> (Inr None, s')
      | None \<Rightarrow>
          if c_ExecutionGeneration c \<noteq> jm_ExecutionGeneration claimed
            then (Inl (Errorf ''decision job: claim generation mismatch''), s)
          else if c_ExecutionGeneration c = max_int64
            then (Inl (Errorf ''decision job: execution generation exhausted''), s)
          else claim_rows workerID claimToken leaseUntil now claimed c s)"

definition jr_Claim ::
  "JobEnv \<Rightarrow> string \<Rightarrow> string \<Rightarrow> string \<Rightarrow> timestamp \<Rightarrow> timestamp \<Rightarrow> JobDb \<Rightarrow> (goerr + DecisionJob option) \<times> JobDb" where
  "jr_Claim env jobID workerID claimToken leaseUntil now s0 =
     (if claimToken = [] then (Inl (Errorf ''decision job: claim token is required''), s0)
      else if \<not> je_validUUID env claimToken then (Inl (Errorf ''decision job: invalid claim token''), s0)
      else case stmt (claim_tx env jobID workerID claimToken leaseUntil now) s0 of
        (Inr r, s) \<Rightarrow> (Inr r, s)
      | (Inl err, s) \<Rightarrow>
          if IsDecisionWriterDenied err then (Inl err, s)
          else (case jr_GetByClaimToken claimToken s of
              (Inr recovered, s') \<Rightarrow>
                (if j_ID recovered \<noteq> jobID then Inl errClaimTokenConflict else Inr (Some recovered), s')
            | (Inl _, s') \<Rightarrow>
                (if err_is err errRecordNotFound \<or> err_is err errClaimFenceLost then Inr None else Inl err, s')))"

section \<open>Worker-owned settlements of a job\<close>

definition activeDecisionJobOwner ::
  "JobDb \<Rightarrow> string \<Rightarrow> string \<Rightarrow> string \<Rightarrow> int64 \<Rightarrow> timestamp \<Rightarrow> DecisionJobModel \<Rightarrow> bool" where
  "activeDecisionJobOwner s jobID caseID workerID generation now j \<longleftrightarrow>
     jm_ID j = jobID \<and> jm_CaseID j = caseID \<and> jm_Status j = DecisionJobRunning \<and> jm_WorkerID j = workerID \<and>
     jm_ExecutionGeneration j = generation \<and>
     (case jm_LeaseUntil j of None \<Rightarrow> False | Some l \<Rightarrow> l > now) \<and>
     list_ex (\<lambda>c. c_ID c = caseID \<and> c_ID c = jm_CaseID j \<and> c_ExecutionGeneration c = generation) (jd_case s)"

text \<open>One guarded \<^verbatim>\<open>UPDATE\<close>; no matching row means that the lease is lost.\<close>

definition owned_update ::
  "string \<Rightarrow> (DecisionJobModel \<Rightarrow> DecisionJobModel) \<Rightarrow> string \<Rightarrow> string \<Rightarrow> string \<Rightarrow> int64 \<Rightarrow> timestamp \<Rightarrow>
    JobDb \<Rightarrow> (goerr + unit) \<times> JobDb" where
  "owned_update what f jobID caseID workerID generation now =
     stmt (\<lambda>s. let P = activeDecisionJobOwner s jobID caseID workerID generation now in
       if affected P (jd_job s) = 0 then (Inl (Wrapf what ErrLeaseLost), s)
       else (Inr (), s\<lparr> jd_job := update_rows P f (jd_job s) \<rparr>))"

definition jr_Heartbeat ::
  "string \<Rightarrow> string \<Rightarrow> string \<Rightarrow> int64 \<Rightarrow> timestamp \<Rightarrow> timestamp \<Rightarrow> JobDb \<Rightarrow> (goerr + unit) \<times> JobDb" where
  "jr_Heartbeat jobID caseID workerID generation leaseUntil now s =
     (if \<not> leaseUntil > now then (Inl (Wrapf ''decision job: heartbeat'' ErrLeaseLost), s)
      else owned_update ''decision job: heartbeat'' (\<lambda>j. j\<lparr> jm_LeaseUntil := Some leaseUntil \<rparr>)
             jobID caseID workerID generation now s)"

definition jr_MarkSucceeded ::
  "string \<Rightarrow> string \<Rightarrow> string \<Rightarrow> int64 \<Rightarrow> timestamp \<Rightarrow> JobDb \<Rightarrow> (goerr + unit) \<times> JobDb" where
  "jr_MarkSucceeded = owned_update ''decision job: mark succeeded'' (release_job DecisionJobSucceeded)"

definition jr_MarkFailed ::
  "string \<Rightarrow> string \<Rightarrow> string \<Rightarrow> int64 \<Rightarrow> string \<Rightarrow> timestamp option \<Rightarrow> timestamp \<Rightarrow> JobDb \<Rightarrow> (goerr + unit) \<times> JobDb" where
  "jr_MarkFailed jobID caseID workerID generation lastError retryAt =
     owned_update ''decision job: mark failed''
       (\<lambda>j. case retryAt of
          Some t \<Rightarrow> (release_job DecisionJobQueued j)\<lparr> jm_LastError := lastError, jm_AvailableAt := t \<rparr>
        | None \<Rightarrow> (release_job DecisionJobFailed j)\<lparr> jm_LastError := lastError \<rparr>)
       jobID caseID workerID generation"

definition jr_CancelOwned ::
  "string \<Rightarrow> string \<Rightarrow> string \<Rightarrow> int64 \<Rightarrow> timestamp \<Rightarrow> JobDb \<Rightarrow> (goerr + unit) \<times> JobDb" where
  "jr_CancelOwned = owned_update ''decision job: cancel owned'' (release_job DecisionJobCancelled)"

definition jr_MarkPausedOwned ::
  "string \<Rightarrow> string \<Rightarrow> string \<Rightarrow> int64 \<Rightarrow> timestamp \<Rightarrow> JobDb \<Rightarrow> (goerr + unit) \<times> JobDb" where
  "jr_MarkPausedOwned = owned_update ''decision job: pause owned'' (release_job DecisionJobPaused)"

section \<open>Jobs seen from outside\<close>

definition external_update ::
  "string \<Rightarrow> (DecisionJobModel \<Rightarrow> bool) \<Rightarrow> (DecisionJobModel \<Rightarrow> DecisionJobModel) \<Rightarrow> JobDb \<Rightarrow> (goerr + unit) \<times> JobDb" where
  "external_update what P f =
     stmt (\<lambda>s. if affected P (jd_job s) = 0 then (Inl (Errorf what), s)
       else (Inr (), s\<lparr> jd_job := update_rows P f (jd_job s) \<rparr>))"

definition jr_Cancel :: "string \<Rightarrow> JobDb \<Rightarrow> (goerr + unit) \<times> JobDb" where
  "jr_Cancel jobID = external_update ''decision job: cannot cancel''
     (\<lambda>j. jm_ID j = jobID \<and> isActiveJob j) (release_job DecisionJobCancelled)"

definition jr_MarkPaused :: "string \<Rightarrow> JobDb \<Rightarrow> (goerr + unit) \<times> JobDb" where
  "jr_MarkPaused jobID = external_update ''decision job: cannot pause''
     (\<lambda>j. jm_ID j = jobID \<and> isActiveJob j) (release_job DecisionJobPaused)"

definition jr_ResumeQueued :: "string \<Rightarrow> timestamp \<Rightarrow> JobDb \<Rightarrow> (goerr + unit) \<times> JobDb" where
  "jr_ResumeQueued jobID now = external_update ''decision job: cannot resume''
     (\<lambda>j. jm_ID j = jobID \<and> jm_Status j = DecisionJobPaused)
     (\<lambda>j. j\<lparr> jm_Status := DecisionJobQueued, jm_AvailableAt := now \<rparr>)"

definition expired :: "timestamp \<Rightarrow> DecisionJobModel \<Rightarrow> bool" where
  "expired now j \<longleftrightarrow> jm_Status j = DecisionJobRunning \<and>
     (case jm_LeaseUntil j of None \<Rightarrow> False | Some l \<Rightarrow> l < now)"

definition jr_RequeueExpired :: "timestamp \<Rightarrow> JobDb \<Rightarrow> (goerr + unit) \<times> JobDb" where
  "jr_RequeueExpired now = stmt (\<lambda>s. (Inr (), s\<lparr> jd_job :=
     update_rows (expired now) (\<lambda>j. (release_job DecisionJobQueued j)\<lparr> jm_AvailableAt := now \<rparr>) (jd_job s) \<rparr>))"

fun string_less :: "string \<Rightarrow> string \<Rightarrow> bool" where
  "string_less [] ys = (ys \<noteq> [])"
| "string_less (x # xs) [] = False"
| "string_less (x # xs) (y # ys) =
     (if x = y then string_less xs ys else (of_char x :: nat) < of_char y)"

definition before :: "DecisionJobModel \<Rightarrow> DecisionJobModel \<Rightarrow> bool" where
  "before a b \<longleftrightarrow> jm_CreatedAt a < jm_CreatedAt b \<or> jm_CreatedAt a = jm_CreatedAt b \<and> string_less (jm_ID a) (jm_ID b)"

fun insert_job :: "DecisionJobModel \<Rightarrow> DecisionJobModel list \<Rightarrow> DecisionJobModel list" where
  "insert_job j [] = [j]"
| "insert_job j (x # xs) = (if before j x then j # x # xs else x # insert_job j xs)"

definition jr_ListRunnable :: "timestamp \<Rightarrow> JobDb \<Rightarrow> (goerr + DecisionJob list) \<times> JobDb" where
  "jr_ListRunnable now = query (\<lambda>s. Inr (map jobFromModel
     (foldr insert_job (filter (\<lambda>j. jm_Status j = DecisionJobQueued \<and> jm_AvailableAt j \<le> now) (jd_job s)) [])))"

definition jr_GetByCase :: "string \<Rightarrow> JobDb \<Rightarrow> (goerr + DecisionJob) \<times> JobDb" where
  "jr_GetByCase caseID = query (\<lambda>s. case find_job caseID s of
     None \<Rightarrow> Inl errRecordNotFound | Some m \<Rightarrow> Inr (jobFromModel m))"

definition jr_CountActiveByUser :: "int64 \<Rightarrow> JobDb \<Rightarrow> (goerr + nat) \<times> JobDb" where
  "jr_CountActiveByUser userID = query (\<lambda>s. Inr (active_of_user userID s))"

text \<open>The attempt number is not a column of the case.\<close>

definition cr_Get :: "string \<Rightarrow> JobDb \<Rightarrow> (goerr + DecisionCase) \<times> JobDb" where
  "cr_Get caseID = query (\<lambda>s. case find_case caseID s of
     None \<Rightarrow> Inl errRecordNotFound | Some c \<Rightarrow> Inr (c\<lparr> c_ExecutionAttempt := 0 \<rparr>))"

end
