(* ===== verification/CaseCommit.thy ===== *)
theory CaseCommit
  imports JobStore
begin

text \<open>
  The transactions on a case and its job together: the commits of the owner of an execution
  (\<^verbatim>\<open>adapter/case_execution.go\<close>, the owned writes of \<^verbatim>\<open>adapter/repository.go\<close> and
  \<^verbatim>\<open>CommitFinalFailure\<close> of \<^verbatim>\<open>adapter/job_repository.go\<close>) and the external control of a case
  (\<^verbatim>\<open>adapter/case_control.go\<close>); then all operations of the store as one function.
\<close>

section \<open>The owner of an execution\<close>

definition lockExecutionRows :: "string \<Rightarrow> string \<Rightarrow> JobDb \<Rightarrow> (DecisionJobModel \<times> DecisionCase) option" where
  "lockExecutionRows jobID caseID s =
     (case List.find (\<lambda>j. jm_ID j = jobID \<and> jm_CaseID j = caseID) (jd_job s) of
        None \<Rightarrow> None
      | Some job \<Rightarrow> (case find_case caseID s of None \<Rightarrow> None | Some c \<Rightarrow> Some (job, c)))"

definition validateActiveExecutionAt :: "DecisionJobModel \<Rightarrow> DecisionCase \<Rightarrow> ExecutionContext option \<Rightarrow> timestamp \<Rightarrow> bool" where
  "validateActiveExecutionAt job c owner now \<longleftrightarrow>
     (case owner of None \<Rightarrow> False | Some x \<Rightarrow> IsDurable owner \<and>
        jm_Status job = DecisionJobRunning \<and> jm_WorkerID job = x_WorkerID x \<and>
        jm_ExecutionGeneration job = x_ExecutionGeneration x \<and> c_ExecutionGeneration c = x_ExecutionGeneration x \<and>
        (case jm_LeaseUntil job of None \<Rightarrow> False | Some l \<Rightarrow> l > now))"

definition lockActiveExecution ::
  "ExecutionContext option \<Rightarrow> timestamp \<Rightarrow> JobDb \<Rightarrow> goerr + DecisionJobModel \<times> DecisionCase" where
  "lockActiveExecution owner now s =
     (case owner of None \<Rightarrow> Inl ErrLeaseLost | Some x \<Rightarrow>
        if \<not> IsDurable owner then Inl ErrLeaseLost
        else case lockExecutionRows (x_JobID x) (x_CaseID x) s of
            None \<Rightarrow> Inl ErrLeaseLost
          | Some (job, c) \<Rightarrow> if validateActiveExecutionAt job c owner now then Inr (job, c) else Inl ErrLeaseLost)"

definition settleExecutionJob ::
  "DecisionJobModel \<Rightarrow> DecisionJobStatus \<Rightarrow> string \<Rightarrow> JobDb \<Rightarrow> (goerr + unit) \<times> JobDb" where
  "settleExecutionJob job st lastError s =
     (let P = (\<lambda>j. jm_ID j = jm_ID job) in
      if affected P (jd_job s) \<noteq> 1 then (Inl ErrLeaseLost, s)
      else (Inr (), s\<lparr> jd_job := update_rows P (\<lambda>j. (release_job st j)\<lparr> jm_LastError := lastError \<rparr>) (jd_job s) \<rparr>))"

definition validateOwnedEvent :: "ExecutionContext option \<Rightarrow> IdEvent option \<Rightarrow> goerr option" where
  "validateOwnedEvent owner event =
     (if \<not> IsDurable owner then Some ErrLeaseLost
      else case (owner, event) of
        (Some x, Some e) \<Rightarrow>
          if me_ID e = [] \<or> me_CaseID e \<noteq> x_CaseID x \<or> me_ExecutionGeneration e \<noteq> x_ExecutionGeneration x
          then Some (Errorf ''owned case commit: event identity/generation does not match owner'') else None
      | _ \<Rightarrow> Some (Errorf ''owned case commit: event identity/generation does not match owner''))"

definition createEventInTx :: "IdEvent \<Rightarrow> JobDb \<Rightarrow> (goerr + unit) \<times> JobDb" where
  "createEventInTx e s =
     (let sq = (case map_of (jd_cursor s) (me_CaseID e) of None \<Rightarrow> 1 | Some n \<Rightarrow> n);
          m = \<lparr> em_ID = me_ID e, em_CaseID = me_CaseID e, em_ExecutionGeneration = me_ExecutionGeneration e,
                em_Seq = sq, em_Type = me_Type e, em_Payload = me_Payload e \<rparr> in
      if list_ex (\<lambda>r. em_ID r = em_ID m \<or> em_CaseID r = em_CaseID m \<and> em_Seq r = sq) (jd_event s)
        then (Inl (Errorf ''duplicate key''), s)
      else (Inr (), s\<lparr> jd_cursor := AList.update (me_CaseID e) (sq + 1) (jd_cursor s), jd_event := jd_event s @ [m] \<rparr>))"

definition update_case_status ::
  "string \<Rightarrow> int64 \<Rightarrow> CaseStatus \<Rightarrow> CaseStatus \<Rightarrow> timestamp \<Rightarrow> JobDb \<Rightarrow> (goerr + unit) \<times> JobDb" where
  "update_case_status caseID gen current target now s =
     (let P = (\<lambda>c. c_ID c = caseID \<and> c_ExecutionGeneration c = gen \<and> c_Status c = current) in
      if affected P (jd_case s) \<noteq> 1 then (Inl ErrLeaseLost, s)
      else (Inr (), s\<lparr> jd_case := update_rows P (\<lambda>c. c\<lparr> c_Status := target, c_UpdatedAt := now \<rparr>) (jd_case s) \<rparr>))"

definition and_then :: "(goerr + unit) \<times> JobDb \<Rightarrow> (JobDb \<Rightarrow> (goerr + unit) \<times> JobDb) \<Rightarrow> (goerr + unit) \<times> JobDb" where
  "and_then r k = (case r of (Inl e, s) \<Rightarrow> (Inl e, s) | (Inr _, s) \<Rightarrow> k s)"

definition open_for_owner :: "DecisionCase \<Rightarrow> CaseStatus list \<Rightarrow> bool" where
  "open_for_owner c expected \<longleftrightarrow> c_Status c \<in> set expected \<and>
     \<not> isPublicTerminalCaseStatus (c_Status c) \<and> c_Status c \<noteq> CaseStatusPaused"

section \<open>Commits and their confirmation\<close>

definition settled_row :: "ExecutionContext \<Rightarrow> DecisionJobStatus \<Rightarrow> DecisionJobModel \<Rightarrow> bool" where
  "settled_row x st j \<longleftrightarrow> jm_ID j = x_JobID x \<and> jm_CaseID j = x_CaseID x \<and>
     jm_ExecutionGeneration j = x_ExecutionGeneration x \<and> jm_Status j = st \<and> jm_WorkerID j = [] \<and> jm_LeaseUntil j = None"

definition confirmCaseCommit ::
  "ExecutionContext \<Rightarrow> CaseStatus \<Rightarrow> IdEvent \<Rightarrow> bool \<Rightarrow> Resolution option \<Rightarrow> JobDb \<Rightarrow> (goerr + bool) \<times> JobDb" where
  "confirmCaseCommit x target event terminal resolution = query (\<lambda>s.
     let gen = x_ExecutionGeneration x in
     if \<not> list_ex (\<lambda>c. c_ID c = x_CaseID x \<and> c_Status c = target \<and> c_ExecutionGeneration c = gen) (jd_case s)
       then Inl errRecordNotFound
     else case List.find (\<lambda>e. em_ID e = me_ID event \<and> em_CaseID e = x_CaseID x \<and> em_ExecutionGeneration e = gen \<and>
             em_Type e = me_Type event) (jd_event s) of
       None \<Rightarrow> Inl errRecordNotFound
     | Some stored \<Rightarrow>
         if em_Payload stored \<noteq> me_Payload event \<or> em_Seq stored = 0
           then Inl (Errorf ''completion event identity conflict'')
         else if terminal \<and> \<not> list_ex (settled_row x
               (if target = CaseStatusFailed then DecisionJobFailed else DecisionJobSucceeded)) (jd_job s)
           then Inl errRecordNotFound
         else (case resolution of
             Some res \<Rightarrow>
               if list_ex (\<lambda>r. r_ID r = r_ID res \<and> r_CaseID r = x_CaseID x \<and> r_ExecutionGeneration r = gen) (jd_resolution s)
               then Inr True else Inl errRecordNotFound
           | None \<Rightarrow> Inr True))"

definition caseCommit ::
  "ExecutionContext \<Rightarrow> IdEvent \<Rightarrow> CaseStatus \<Rightarrow> bool \<Rightarrow> Resolution option \<Rightarrow>
    (DecisionJobModel \<Rightarrow> DecisionCase \<Rightarrow> JobDb \<Rightarrow> (goerr + unit) \<times> JobDb) \<Rightarrow> timestamp \<Rightarrow> JobDb \<Rightarrow> (goerr + bool) \<times> JobDb" where
  "caseCommit x event target terminal resolution write now s0 =
     (case txn (\<lambda>s. case lockActiveExecution (Some x) now s of
            Inl e \<Rightarrow> (Inl e, s)
          | Inr (job, c) \<Rightarrow> write job c s) s0 of
        (Inr _, _, s) \<Rightarrow> (Inr True, s)
      | (Inl err, None, s) \<Rightarrow> (if err_is err ErrLeaseLost then Inr False else Inl err, s)
      | (Inl err, Some _, s) \<Rightarrow>
          (case confirmCaseCommit x target event terminal resolution s of
             (Inr True, s') \<Rightarrow> (Inr True, s')
           | (_, s') \<Rightarrow> (Inl (Wrapf ''commit'' ErrCommitOutcomeUnknown), s')))"

definition status_write ::
  "ExecutionContext \<Rightarrow> CaseStatus list \<Rightarrow> CaseStatus \<Rightarrow> IdEvent \<Rightarrow> timestamp \<Rightarrow>
    DecisionJobModel \<Rightarrow> DecisionCase \<Rightarrow> JobDb \<Rightarrow> (goerr + unit) \<times> JobDb" where
  "status_write x expected target event now job c s =
     (if \<not> open_for_owner c expected then (Inl ErrLeaseLost, s)
      else and_then (update_case_status (x_CaseID x) (x_ExecutionGeneration x) (c_Status c) target now s)
             (createEventInTx event))"

definition CommitStatusTransitionOwned ::
  "ExecutionContext option \<Rightarrow> CaseStatus list \<Rightarrow> CaseStatus \<Rightarrow> IdEvent option \<Rightarrow> timestamp \<Rightarrow> JobDb \<Rightarrow> (goerr + bool) \<times> JobDb" where
  "CommitStatusTransitionOwned owner expected target event now s =
     (case validateOwnedEvent owner event of Some e \<Rightarrow> (Inl e, s) | None \<Rightarrow>
      case (owner, event) of (Some x, Some ev) \<Rightarrow>
        if me_Type ev \<noteq> EventCaseStatusChanged \<or> isPublicTerminalCaseStatus target \<or> target = CaseStatusPaused
          then (Inl (Errorf ''owned status commit: invalid ordinary transition''), s)
        else caseCommit x ev target False None (status_write x expected target ev now) now s
      | _ \<Rightarrow> (Inl ErrLeaseLost, s))"

definition reset_write ::
  "ExecutionContext \<Rightarrow> CaseStatus list \<Rightarrow> timestamp \<Rightarrow> DecisionCase \<Rightarrow> JobDb \<Rightarrow> (goerr + unit) \<times> JobDb" where
  "reset_write x expected now c s =
     (if \<not> open_for_owner c expected then (Inl ErrLeaseLost, s)
      else if c_Status c = CaseStatusDraft then (Inr (), s)
      else update_case_status (x_CaseID x) (x_ExecutionGeneration x) (c_Status c) CaseStatusDraft now s)"

definition ResetCaseForRetryOwned ::
  "ExecutionContext option \<Rightarrow> CaseStatus list \<Rightarrow> timestamp \<Rightarrow> JobDb \<Rightarrow> (goerr + bool) \<times> JobDb" where
  "ResetCaseForRetryOwned owner expected now s0 =
     (case owner of None \<Rightarrow> (Inl ErrLeaseLost, s0) | Some x \<Rightarrow>
      if \<not> IsDurable owner then (Inl ErrLeaseLost, s0)
      else case txn (\<lambda>s. case lockActiveExecution owner now s of
             Inl e \<Rightarrow> (Inl e, s)
           | Inr (_, c) \<Rightarrow> reset_write x expected now c s) s0 of
          (Inr _, _, s) \<Rightarrow> (Inr True, s)
        | (Inl err, done, s) \<Rightarrow>
            (if err_is err ErrLeaseLost then Inr False
             else if done \<noteq> None then Inl (Wrapf ''retry reset'' ErrCommitOutcomeUnknown)
             else Inl err, s))"

section \<open>References of a resolution and the terminal commit\<close>

fun artifact_key :: "artifact \<Rightarrow> string \<times> string" where
  "artifact_key (AAgentRun v) = (''agent_run'', ar_ID v)"
| "artifact_key (AEvidence v) = (''evidence'', e_ID v)"
| "artifact_key (AClaim v) = (''claim'', cl_ID v)"
| "artifact_key (AVote v) = (''vote'', v_ID v)"
| "artifact_key (ADebateRound v) = (''debate_round'', dr_ID v)"
| "artifact_key (AReflection v) = (''reflection'', rf_ID v)"
| "artifact_key (AToolCall v) = (''tool_call'', tc_ID v)"

definition citedArtifactIDs :: "string \<Rightarrow> string list \<Rightarrow> goerr + string list" where
  "citedArtifactIDs kind ids =
     (if [] \<in> set ids then Inl (Errorf ''terminal commit: resolution cites an empty id'')
      else Inr (rev (remdups (rev ids))))"

definition verify_cited :: "JobDb \<Rightarrow> Resolution \<Rightarrow> string \<times> string list \<Rightarrow> goerr option" where
  "verify_cited s res check =
     (case citedArtifactIDs (fst check) (snd check) of
        Inl e \<Rightarrow> Some e
      | Inr ids \<Rightarrow>
          if ids = [] then None
          else if affected (\<lambda>a. fst (artifact_key a) = fst check \<and> snd (artifact_key a) \<in> set ids \<and>
                 artifact_case a = r_CaseID res \<and> artifact_generation a = r_ExecutionGeneration res)
               (jd_artifact s) \<noteq> length ids
            then Some (Errorf ''terminal commit: resolution cites missing ids'')
          else None)"

definition verifyResolutionReferences :: "JobDb \<Rightarrow> Resolution \<Rightarrow> goerr option" where
  "verifyResolutionReferences s res =
     check_all (verify_cited s res)
       [(''vote'', r_VoteIDs res), (''evidence'', r_KeyEvidenceIDs res), (''claim'', r_KeyClaimIDs res)]"

definition create_resolution :: "Resolution option \<Rightarrow> JobDb \<Rightarrow> (goerr + unit) \<times> JobDb" where
  "create_resolution resolution s =
     (case resolution of None \<Rightarrow> (Inr (), s) | Some res \<Rightarrow>
      case verifyResolutionReferences s res of Some e \<Rightarrow> (Inl e, s) | None \<Rightarrow>
      if list_ex (\<lambda>r. r_ID r = r_ID res \<or> r_CaseID r = r_CaseID res) (jd_resolution s)
        then (Inl (Errorf ''duplicate key''), s)
      else (Inr (), s\<lparr> jd_resolution := jd_resolution s @ [res] \<rparr>))"

definition terminal_write ::
  "ExecutionContext \<Rightarrow> CaseStatus \<Rightarrow> CaseStatus \<Rightarrow> Resolution option \<Rightarrow> IdEvent \<Rightarrow> timestamp \<Rightarrow>
    DecisionJobModel \<Rightarrow> DecisionCase \<Rightarrow> JobDb \<Rightarrow> (goerr + unit) \<times> JobDb" where
  "terminal_write x expected target resolution event now job c s =
     (if \<not> open_for_owner c [expected] then (Inl ErrLeaseLost, s)
      else and_then (create_resolution resolution s) (\<lambda>s1.
           and_then (update_case_status (x_CaseID x) (x_ExecutionGeneration x) expected target now s1) (\<lambda>s2.
           and_then (createEventInTx event s2) (settleExecutionJob job DecisionJobSucceeded []))))"

definition CommitTerminalOwned ::
  "ExecutionContext option \<Rightarrow> CaseStatus \<Rightarrow> CaseStatus \<Rightarrow> Resolution option \<Rightarrow> IdEvent option \<Rightarrow> timestamp \<Rightarrow>
    JobDb \<Rightarrow> (goerr + bool) \<times> JobDb" where
  "CommitTerminalOwned owner expected target resolution event now s =
     (case validateOwnedEvent owner event of Some e \<Rightarrow> (Inl e, s) | None \<Rightarrow>
      case (owner, event) of (Some x, Some ev) \<Rightarrow>
        if target \<noteq> CaseStatusResolved \<and> target \<noteq> CaseStatusDeadlocked \<or> me_Type ev \<noteq> EventCaseCompleted
          then (Inl (Errorf ''owned terminal commit: invalid terminal outcome''), s)
        else if target = CaseStatusResolved \<and> resolution = None
          then (Inl (Errorf ''owned terminal commit: resolution required''), s)
        else if target = CaseStatusDeadlocked \<and> resolution \<noteq> None
          then (Inl (Errorf ''owned terminal commit: deadlock must not carry a resolution''), s)
        else if (case resolution of None \<Rightarrow> False | Some res \<Rightarrow> r_ID res = [] \<or> r_CaseID res \<noteq> x_CaseID x
               \<or> r_ExecutionGeneration res \<noteq> x_ExecutionGeneration x)
          then (Inl (Errorf ''owned terminal commit: resolution identity/generation does not match owner''), s)
        else caseCommit x ev target True resolution (terminal_write x expected target resolution ev now) now s
      | _ \<Rightarrow> (Inl ErrLeaseLost, s))"

definition ExecutionSettled :: "ExecutionContext option \<Rightarrow> JobDb \<Rightarrow> (goerr + bool) \<times> JobDb" where
  "ExecutionSettled owner s0 =
     (case owner of None \<Rightarrow> (Inl ErrLeaseLost, s0) | Some x \<Rightarrow>
      if \<not> IsDurable owner then (Inl ErrLeaseLost, s0)
      else query (\<lambda>s.
        let gen = x_ExecutionGeneration x in
        case List.find (\<lambda>j. jm_ID j = x_JobID x \<and> jm_CaseID j = x_CaseID x \<and> jm_ExecutionGeneration j = gen) (jd_job s) of
          None \<Rightarrow> Inl errRecordNotFound | Some job \<Rightarrow>
        case List.find (\<lambda>c. c_ID c = x_CaseID x \<and> c_ExecutionGeneration c = gen) (jd_case s) of
          None \<Rightarrow> Inl errRecordNotFound | Some c \<Rightarrow>
        Inr (jm_Status job = DecisionJobSucceeded \<and> jm_WorkerID job = [] \<and> jm_LeaseUntil job = None \<and>
             c_Status c \<in> {CaseStatusResolved, CaseStatusDeadlocked} \<and>
             affected (\<lambda>m. jc_JobID m = x_JobID x \<and> jc_CaseID m = x_CaseID x \<and>
               jc_ExecutionGeneration m = gen \<and> jc_WorkerID m = x_WorkerID x) (jd_claim s) = 1 \<and>
             completion_events (x_CaseID x) [gen] s = 1 \<and>
             (c_Status c = CaseStatusResolved \<longrightarrow> resolutions_of (x_CaseID x) gen s = 1))) s0)"

section \<open>The failure of the last attempt\<close>

definition failure_write ::
  "ExecutionContext \<Rightarrow> CaseStatus list \<Rightarrow> string \<Rightarrow> IdEvent \<Rightarrow> timestamp \<Rightarrow>
    DecisionJobModel \<Rightarrow> DecisionCase \<Rightarrow> JobDb \<Rightarrow> (goerr + unit) \<times> JobDb" where
  "failure_write x expected lastError event now job c s =
     (if \<not> open_for_owner c expected then (Inl ErrLeaseLost, s)
      else and_then (update_case_status (x_CaseID x) (x_ExecutionGeneration x) (c_Status c) CaseStatusFailed now s) (\<lambda>s1.
           and_then (createEventInTx event s1) (settleExecutionJob job DecisionJobFailed lastError)))"

definition errFinalFailureFence :: goerr where
  "errFinalFailureFence = Errorf ''decision job: final failure fence lost''"

definition legacy_failure_tx ::
  "string \<Rightarrow> string \<Rightarrow> int64 \<Rightarrow> string \<Rightarrow> CaseStatus list \<Rightarrow> string \<Rightarrow> IdEvent \<Rightarrow> timestamp \<Rightarrow> JobDb \<Rightarrow> (goerr + unit) \<times> JobDb" where
  "legacy_failure_tx jobID workerID generation caseID sts lastError event now s =
     (let P = activeDecisionJobOwner s jobID caseID workerID generation now;
          Q = (\<lambda>c. c_ID c = caseID \<and> c_ExecutionGeneration c = generation \<and> c_Status c \<in> set sts \<and>
            \<not> isPublicTerminalCaseStatus (c_Status c)) in
      if affected P (jd_job s) \<noteq> 1 \<or> affected Q (jd_case s) \<noteq> 1 then (Inl errFinalFailureFence, s)
      else createEventInTx event (s\<lparr>
        jd_job := update_rows P (\<lambda>j. (release_job DecisionJobFailed j)\<lparr> jm_LastError := lastError \<rparr>) (jd_job s),
        jd_case := update_rows Q (\<lambda>c. c\<lparr> c_Status := CaseStatusFailed, c_UpdatedAt := now \<rparr>) (jd_case s) \<rparr>))"

definition commitFinalFailureLegacy ::
  "string \<Rightarrow> string \<Rightarrow> int64 \<Rightarrow> string \<Rightarrow> CaseStatus list \<Rightarrow> string \<Rightarrow> IdEvent option \<Rightarrow> timestamp \<Rightarrow>
    JobDb \<Rightarrow> (goerr + bool) \<times> JobDb" where
  "commitFinalFailureLegacy jobID workerID generation caseID expected lastError event now s0 =
     (case event of None \<Rightarrow> (Inl (Errorf ''decision job: final failure event is required''), s0) | Some ev \<Rightarrow>
      let sts = filter (\<lambda>st. \<not> isPublicTerminalCaseStatus st) expected in
      if sts = [] then (Inr False, s0)
      else case stmt (legacy_failure_tx jobID workerID generation caseID sts lastError ev now) s0 of
          (Inr _, s) \<Rightarrow> (Inr True, s)
        | (Inl err, s) \<Rightarrow> (if err_is err errFinalFailureFence then Inr False else Inl err, s))"

definition failure_owner :: "string \<Rightarrow> string \<Rightarrow> string \<Rightarrow> int64 \<Rightarrow> ExecutionContext" where
  "failure_owner jobID caseID workerID generation =
     \<lparr> x_CaseID = caseID, x_JobID = jobID, x_RunID = [], x_WorkerID = workerID, x_JobAttempt = 0,
       x_ExecutionGeneration = generation \<rparr>"

definition CommitFinalFailure ::
  "string \<Rightarrow> string \<Rightarrow> int64 \<Rightarrow> string \<Rightarrow> CaseStatus list \<Rightarrow> string \<Rightarrow> IdEvent option \<Rightarrow> timestamp \<Rightarrow>
    JobDb \<Rightarrow> (goerr + bool) \<times> JobDb" where
  "CommitFinalFailure jobID workerID generation caseID expected lastError event0 now s =
     (let x = failure_owner jobID caseID workerID generation;
          event = map_option (\<lambda>e. if me_ExecutionGeneration e = 0 then e\<lparr> me_ExecutionGeneration := generation \<rparr> else e) event0 in
      if generation = 0 then commitFinalFailureLegacy jobID workerID generation caseID expected lastError event0 now s
      else case validateOwnedEvent (Some x) event of Some e \<Rightarrow> (Inl e, s) | None \<Rightarrow>
      case event of
        None \<Rightarrow> (Inl ErrLeaseLost, s)
      | Some ev \<Rightarrow>
          if me_Type ev \<noteq> EventCaseFailed then (Inl (Errorf ''final failure: invalid event type''), s)
          else caseCommit x ev CaseStatusFailed True None (failure_write x expected lastError ev now) now s)"

section \<open>Owned artifacts and checkpoints\<close>

definition withActiveExecution ::
  "ExecutionContext option \<Rightarrow> (JobDb \<Rightarrow> (goerr + 'a) \<times> JobDb) \<Rightarrow> timestamp \<Rightarrow> JobDb \<Rightarrow> (goerr + 'a) \<times> JobDb" where
  "withActiveExecution owner write now s0 =
     (if \<not> IsDurable owner then (Inl ErrLeaseLost, s0)
      else stmt (\<lambda>s. case lockActiveExecution owner now s of Inl e \<Rightarrow> (Inl e, s) | Inr _ \<Rightarrow> write s) s0)"

definition validateArtifactOwner :: "ExecutionContext option \<Rightarrow> string \<Rightarrow> int64 \<Rightarrow> bool" where
  "validateArtifactOwner owner caseID generation \<longleftrightarrow>
     (case owner of None \<Rightarrow> False | Some x \<Rightarrow> IsDurable owner \<and> caseID = x_CaseID x \<and>
        (generation = 0 \<or> generation = x_ExecutionGeneration x))"

fun stamp_generation :: "int64 \<Rightarrow> artifact \<Rightarrow> artifact" where
  "stamp_generation g (AAgentRun v) = AAgentRun (v\<lparr> ar_ExecutionGeneration := g \<rparr>)"
| "stamp_generation g (AEvidence v) = AEvidence (v\<lparr> e_ExecutionGeneration := g \<rparr>)"
| "stamp_generation g (AClaim v) = AClaim (v\<lparr> cl_ExecutionGeneration := g \<rparr>)"
| "stamp_generation g (AVote v) = AVote (v\<lparr> v_ExecutionGeneration := g \<rparr>)"
| "stamp_generation g (ADebateRound v) = ADebateRound (v\<lparr> dr_ExecutionGeneration := g \<rparr>)"
| "stamp_generation g (AReflection v) = AReflection (v\<lparr> rf_ExecutionGeneration := g \<rparr>)"
| "stamp_generation g (AToolCall v) = AToolCall (v\<lparr> tc_ExecutionGeneration := g \<rparr>)"

text \<open>\<^verbatim>\<open>CreateAgentRunOwned\<close> and its six siblings, one per constructor.\<close>

definition CreateOwned :: "ExecutionContext option \<Rightarrow> artifact \<Rightarrow> timestamp \<Rightarrow> JobDb \<Rightarrow> (goerr + unit) \<times> JobDb" where
  "CreateOwned owner a now s0 =
     (case owner of None \<Rightarrow> (Inl ErrLeaseLost, s0) | Some x \<Rightarrow>
      if \<not> validateArtifactOwner owner (artifact_case a) (artifact_generation a) then (Inl ErrLeaseLost, s0)
      else withActiveExecution owner (\<lambda>s.
        if list_ex (\<lambda>b. artifact_key b = artifact_key a) (jd_artifact s) then (Inl (Errorf ''duplicate key''), s)
        else (Inr (), s\<lparr> jd_artifact := jd_artifact s @ [stamp_generation (x_ExecutionGeneration x) a] \<rparr>)) now s0)"

definition upsert_checkpoint :: "AgentState \<Rightarrow> AgentState list \<Rightarrow> AgentState list" where
  "upsert_checkpoint m rows =
     (let P = (\<lambda>r. ag_RunID r = ag_RunID m \<and> ag_ExecutionGeneration r = ag_ExecutionGeneration m) in
      if affected P rows = 0 then rows @ [m] else update_rows P (\<lambda>_. m) rows)"

definition SaveCheckpointOwned ::
  "ExecutionContext option \<Rightarrow> AgentState option \<Rightarrow> timestamp \<Rightarrow> JobDb \<Rightarrow> (goerr + unit) \<times> JobDb" where
  "SaveCheckpointOwned owner state now s0 =
     (case (owner, state) of
        (Some x, Some st) \<Rightarrow>
          if ag_RunID st = [] \<or> \<not> validateArtifactOwner owner (ag_CaseID st) (ag_ExecutionGeneration st)
            then (Inl ErrLeaseLost, s0)
          else withActiveExecution owner (\<lambda>s. (Inr (), s\<lparr> jd_checkpoint :=
             upsert_checkpoint (st\<lparr> ag_ExecutionGeneration := x_ExecutionGeneration x \<rparr>) (jd_checkpoint s) \<rparr>)) now s0
      | _ \<Rightarrow> (Inl ErrLeaseLost, s0))"

definition LoadCheckpointOwned ::
  "ExecutionContext option \<Rightarrow> string \<Rightarrow> timestamp \<Rightarrow> JobDb \<Rightarrow> (goerr + AgentState option) \<times> JobDb" where
  "LoadCheckpointOwned owner runID now s0 =
     (case owner of None \<Rightarrow> (Inl ErrLeaseLost, s0) | Some x \<Rightarrow>
      if runID = [] then (Inl ErrLeaseLost, s0)
      else withActiveExecution owner (\<lambda>s. (Inr (List.find (\<lambda>m. ag_RunID m = runID \<and> ag_CaseID m = x_CaseID x \<and>
             ag_ExecutionGeneration m = x_ExecutionGeneration x) (jd_checkpoint s)), s)) now s0)"

section \<open>External control\<close>

text \<open>What the body of the transaction leaves for the confirmation.\<close>

record ControlDone =
  ct_target :: CaseStatus
  ct_pausedFrom :: CaseStatus
  ct_generation :: int64
  ct_job :: "string option"

definition control_job_status :: "CaseStatus \<Rightarrow> bool \<Rightarrow> DecisionJobStatus" where
  "control_job_status target resume =
     (if resume then DecisionJobQueued
      else if target = CaseStatusPaused then DecisionJobPaused else DecisionJobCancelled)"

definition control_job :: "CaseStatus \<Rightarrow> bool \<Rightarrow> timestamp \<Rightarrow> DecisionJobModel \<Rightarrow> DecisionJobModel" where
  "control_job target resume now j =
     (let j' = release_job (control_job_status target resume) j in
      if resume then j'\<lparr> jm_AvailableAt := now \<rparr> else j')"

definition control_case :: "CaseStatus \<Rightarrow> CaseStatus \<Rightarrow> bool \<Rightarrow> timestamp \<Rightarrow> DecisionCase \<Rightarrow> DecisionCase" where
  "control_case target pausedFrom resume now c =
     (let c' = c\<lparr> c_Status := target, c_UpdatedAt := now \<rparr> in
      if resume then c'\<lparr> c_PausedFromStatus := CaseStatusZero \<rparr>
      else if target = CaseStatusPaused then c'\<lparr> c_PausedFromStatus := pausedFrom \<rparr> else c')"

definition control_tx ::
  "string \<Rightarrow> CaseStatus \<Rightarrow> bool \<Rightarrow> timestamp \<Rightarrow> JobDb \<Rightarrow> (goerr + ControlDone) \<times> JobDb" where
  "control_tx caseID target0 resume now s =
     (let job = find_job caseID s in
      case find_case caseID s of None \<Rightarrow> (Inl errRecordNotFound, s) | Some c \<Rightarrow>
      let target = (if resume then
              (if c_PausedFromStatus c = CaseStatusZero then CaseStatusDraft else c_PausedFromStatus c) else target0);
          pausedFrom = (if target \<noteq> CaseStatusPaused then CaseStatusZero
            else if c_Status c = CaseStatusPaused then c_PausedFromStatus c else c_Status c) in
      if job = None \<and> c_ExecutionGeneration c > 0 then (Inl ErrLeaseLost, s)
      else if resume \<and> (c_Status c \<noteq> CaseStatusPaused \<or>
           (case job of None \<Rightarrow> False | Some j \<Rightarrow> jm_Status j \<noteq> DecisionJobPaused)) then (Inl ErrLeaseLost, s)
      else if \<not> resume \<and> c_Status c \<noteq> target \<and> isPublicTerminalCaseStatus (c_Status c) then (Inl ErrLeaseLost, s)
      else
        let s1 = s\<lparr> jd_case := update_rows (\<lambda>x. c_ID x = caseID) (control_case target pausedFrom resume now) (jd_case s) \<rparr>;
            res = \<lparr> ct_target = target, ct_pausedFrom = pausedFrom, ct_generation = c_ExecutionGeneration c,
                    ct_job = map_option jm_ID job \<rparr> in
        (case job of
           None \<Rightarrow> (Inr res, s1)
         | Some j \<Rightarrow>
             if jm_ExecutionGeneration j \<noteq> c_ExecutionGeneration c
               then (Inl (Errorf ''case control: Job/Case generation mismatch''), s)
             else (Inr res, s1\<lparr> jd_job := update_rows (\<lambda>r. jm_ID r = jm_ID j) (control_job target resume now) (jd_job s) \<rparr>)))"

definition confirm_control :: "string \<Rightarrow> bool \<Rightarrow> ControlDone \<Rightarrow> JobDb \<Rightarrow> (goerr + bool) \<times> JobDb" where
  "confirm_control caseID resume r = query (\<lambda>s.
     case List.find (\<lambda>c. c_ID c = caseID \<and> c_Status c = ct_target r \<and> c_ExecutionGeneration c = ct_generation r) (jd_case s) of
       None \<Rightarrow> Inl errRecordNotFound
     | Some c \<Rightarrow>
         if ct_target r = CaseStatusPaused \<and> c_PausedFromStatus c \<noteq> ct_pausedFrom r
           then Inl (Errorf ''case control: pre-pause status changed'')
         else (case ct_job r of
             None \<Rightarrow> Inr True
           | Some jobID \<Rightarrow>
               if list_ex (\<lambda>j. jm_ID j = jobID \<and> jm_CaseID j = caseID \<and> jm_ExecutionGeneration j = ct_generation r \<and>
                    jm_Status j = control_job_status (ct_target r) resume \<and> jm_WorkerID j = [] \<and> jm_LeaseUntil j = None) (jd_job s)
               then Inr True else Inl errRecordNotFound))"

definition commitCaseControl ::
  "string \<Rightarrow> CaseStatus \<Rightarrow> bool \<Rightarrow> timestamp \<Rightarrow> JobDb \<Rightarrow> (goerr + bool) \<times> JobDb" where
  "commitCaseControl caseID target resume now s0 =
     (if caseID = [] \<or> \<not> resume \<and> target \<noteq> CaseStatusPaused \<and> target \<noteq> CaseStatusCancelled
        then (Inl (Errorf ''invalid case control''), s0)
      else case txn (control_tx caseID target resume now) s0 of
          (Inr _, _, s) \<Rightarrow> (Inr True, s)
        | (Inl err, done, s) \<Rightarrow>
            if err_is err ErrLeaseLost then (Inr False, s)
            else (case done of
                None \<Rightarrow> (Inl err, s)
              | Some r \<Rightarrow> (case confirm_control caseID resume r s of
                    (Inr True, s') \<Rightarrow> (Inr True, s')
                  | (_, s') \<Rightarrow> (Inl (Wrapf ''control'' ErrCommitOutcomeUnknown), s'))))"

section \<open>All operations of the store\<close>

datatype DbOp =
    OpCheckDecisionWriter
  | OpAdmit string int int timestamp string
  | OpClaim string string string timestamp timestamp
  | OpGetByClaimToken string
  | OpGetByCase string
  | OpGetCase string
  | OpListRunnable timestamp
  | OpCountActiveByUser int64
  | OpHeartbeat string string string int64 timestamp timestamp
  | OpMarkSucceeded string string string int64 timestamp
  | OpMarkFailed string string string int64 string "timestamp option" timestamp
  | OpCancelOwned string string string int64 timestamp
  | OpMarkPausedOwned string string string int64 timestamp
  | OpCancel string
  | OpMarkPaused string
  | OpResumeQueued string timestamp
  | OpRequeueExpired timestamp
  | OpCommitFinalFailure string string int64 string "CaseStatus list" string "IdEvent option" timestamp
  | OpCommitStatusOwned "ExecutionContext option" "CaseStatus list" CaseStatus "IdEvent option" timestamp
  | OpResetCaseForRetryOwned "ExecutionContext option" "CaseStatus list" timestamp
  | OpCommitTerminalOwned "ExecutionContext option" CaseStatus CaseStatus "Resolution option" "IdEvent option" timestamp
  | OpExecutionSettled "ExecutionContext option"
  | OpCreateOwned "ExecutionContext option" artifact timestamp
  | OpSaveForExecution "ExecutionContext option" "AgentState option" timestamp
  | OpLoadForExecution "ExecutionContext option" string timestamp
  | OpCaseControl string CaseStatus timestamp
  | OpResumeControl string timestamp

datatype DbReply =
    RpUnit "goerr + unit"
  | RpBool "goerr + bool"
  | RpJob "goerr + DecisionJob"
  | RpJobOpt "goerr + DecisionJob option"
  | RpJobs "goerr + DecisionJob list"
  | RpCase "goerr + DecisionCase"
  | RpState "goerr + AgentState option"
  | RpCount "goerr + nat"

definition reply :: "('a \<Rightarrow> DbReply) \<Rightarrow> 'a \<times> JobDb \<Rightarrow> DbReply \<times> JobDb" where
  "reply f r = (f (fst r), snd r)"

fun db_exec :: "JobEnv \<Rightarrow> DbOp \<Rightarrow> JobDb \<Rightarrow> DbReply \<times> JobDb" where
  "db_exec env OpCheckDecisionWriter s = reply RpUnit (jr_CheckDecisionWriter env s)"
| "db_exec env (OpAdmit c n u now j) s = reply RpJobOpt (jr_Admit env c n u now j s)"
| "db_exec env (OpClaim j w t l now) s = reply RpJobOpt (jr_Claim env j w t l now s)"
| "db_exec env (OpGetByClaimToken t) s = reply RpJob (jr_GetByClaimToken t s)"
| "db_exec env (OpGetByCase c) s = reply RpJob (jr_GetByCase c s)"
| "db_exec env (OpGetCase c) s = reply RpCase (cr_Get c s)"
| "db_exec env (OpListRunnable now) s = reply RpJobs (jr_ListRunnable now s)"
| "db_exec env (OpCountActiveByUser u) s = reply RpCount (jr_CountActiveByUser u s)"
| "db_exec env (OpHeartbeat j c w g l now) s = reply RpUnit (jr_Heartbeat j c w g l now s)"
| "db_exec env (OpMarkSucceeded j c w g now) s = reply RpUnit (jr_MarkSucceeded j c w g now s)"
| "db_exec env (OpMarkFailed j c w g e r now) s = reply RpUnit (jr_MarkFailed j c w g e r now s)"
| "db_exec env (OpCancelOwned j c w g now) s = reply RpUnit (jr_CancelOwned j c w g now s)"
| "db_exec env (OpMarkPausedOwned j c w g now) s = reply RpUnit (jr_MarkPausedOwned j c w g now s)"
| "db_exec env (OpCancel j) s = reply RpUnit (jr_Cancel j s)"
| "db_exec env (OpMarkPaused j) s = reply RpUnit (jr_MarkPaused j s)"
| "db_exec env (OpResumeQueued j now) s = reply RpUnit (jr_ResumeQueued j now s)"
| "db_exec env (OpRequeueExpired now) s = reply RpUnit (jr_RequeueExpired now s)"
| "db_exec env (OpCommitFinalFailure j w g c sts e ev now) s = reply RpBool (CommitFinalFailure j w g c sts e ev now s)"
| "db_exec env (OpCommitStatusOwned x sts t ev now) s = reply RpBool (CommitStatusTransitionOwned x sts t ev now s)"
| "db_exec env (OpResetCaseForRetryOwned x sts now) s = reply RpBool (ResetCaseForRetryOwned x sts now s)"
| "db_exec env (OpCommitTerminalOwned x st t r ev now) s = reply RpBool (CommitTerminalOwned x st t r ev now s)"
| "db_exec env (OpExecutionSettled x) s = reply RpBool (ExecutionSettled x s)"
| "db_exec env (OpCreateOwned x a now) s = reply RpUnit (CreateOwned x a now s)"
| "db_exec env (OpSaveForExecution x st now) s = reply RpUnit (SaveCheckpointOwned x st now s)"
| "db_exec env (OpLoadForExecution x r now) s = reply RpState (LoadCheckpointOwned x r now s)"
| "db_exec env (OpCaseControl c t now) s = reply RpBool (commitCaseControl c t False now s)"
| "db_exec env (OpResumeControl c now) s = reply RpBool (commitCaseControl c CaseStatusZero True now s)"

text \<open>A history: the operations of all processes in the order of their commits.\<close>

fun db_run :: "JobEnv \<Rightarrow> DbOp list \<Rightarrow> JobDb \<Rightarrow> JobDb" where
  "db_run env [] s = s"
| "db_run env (op # ops) s = db_run env ops (snd (db_exec env op s))"

end
