(* ===== verification/JobMoves.thy ===== *)
theory JobMoves
  imports CaseCommit
begin

text \<open>
  What the transactions of the job store do to its tables, as an abstract relation: \<open>db_move act T s s'\<close> has
  one rule per kind of change; \<open>act\<close> allows it to make a job active, \<open>T\<close> are the tokens it may register. Every operation of the store is one such move (\<open>db_exec_move\<close>), whatever
  the faults; the invariants and the properties of the store are proved on the moves.
\<close>

section \<open>Invariant of the tables\<close>

text \<open>
  The keys are unique; a job and its case agree on the generation; a case without a job is in
  generation zero; a generation is an \<open>int64\<close>; the claims of a job have distinct generations that the job has reached; the row
  of a job names its latest claim, and the worker of that claim while it runs.
\<close>

definition claim_of :: "DecisionJobClaimModel \<Rightarrow> DecisionJobModel \<Rightarrow> bool" where
  "claim_of m j \<longleftrightarrow> jc_JobID m = jm_ID j \<and> jc_CaseID m = jm_CaseID j"

definition latest_claim :: "DecisionJobClaimModel \<Rightarrow> DecisionJobModel \<Rightarrow> bool" where
  "latest_claim m j \<longleftrightarrow> claim_of m j \<and> jc_ExecutionGeneration m = jm_ExecutionGeneration j \<and>
     jm_ClaimToken j = Some (jc_ClaimToken m) \<and> (jm_Status j = DecisionJobRunning \<longrightarrow> jm_WorkerID j = jc_WorkerID m)"

definition keys_ok :: "JobDb \<Rightarrow> bool" where
  "keys_ok s \<longleftrightarrow> distinct (map c_ID (jd_case s)) \<and> distinct (map jm_ID (jd_job s)) \<and>
     distinct (map jm_CaseID (jd_job s)) \<and> distinct (map jc_ClaimToken (jd_claim s))"

definition generations_ok :: "JobDb \<Rightarrow> bool" where
  "generations_ok s \<longleftrightarrow>
     (\<forall>j \<in> set (jd_job s). \<exists>c \<in> set (jd_case s). c_ID c = jm_CaseID j \<and> c_ExecutionGeneration c = jm_ExecutionGeneration j) \<and>
     (\<forall>c \<in> set (jd_case s). (\<forall>j \<in> set (jd_job s). jm_CaseID j \<noteq> c_ID c) \<longrightarrow> c_ExecutionGeneration c = 0) \<and>
     (\<forall>j \<in> set (jd_job s). 0 \<le> jm_ExecutionGeneration j \<and> jm_ExecutionGeneration j \<le> max_int64)"

definition claims_ok :: "JobDb \<Rightarrow> bool" where
  "claims_ok s \<longleftrightarrow>
     (\<forall>m \<in> set (jd_claim s). \<exists>j \<in> set (jd_job s). claim_of m j \<and> 0 < jc_ExecutionGeneration m \<and>
        jc_ExecutionGeneration m \<le> jm_ExecutionGeneration j) \<and>
     distinct (map (\<lambda>m. (jc_JobID m, jc_ExecutionGeneration m)) (jd_claim s)) \<and>
     (\<forall>j \<in> set (jd_job s). jm_ExecutionGeneration j = 0 \<and> jm_ClaimToken j = None \<and> jm_Status j \<noteq> DecisionJobRunning \<or>
        (\<exists>m \<in> set (jd_claim s). latest_claim m j))"

definition jobs_ok :: "JobDb \<Rightarrow> bool" where
  "jobs_ok s \<longleftrightarrow> keys_ok s \<and> generations_ok s \<and> claims_ok s"

section \<open>The moves\<close>

text \<open>A change of a job that leaves its identity and its claim: it is released, or its lease moves.\<close>

definition touched :: "DecisionJobModel \<Rightarrow> DecisionJobModel \<Rightarrow> bool" where
  "touched j j' \<longleftrightarrow> jm_ID j' = jm_ID j \<and> jm_CaseID j' = jm_CaseID j \<and>
     jm_ExecutionGeneration j' = jm_ExecutionGeneration j \<and> jm_ClaimToken j' = jm_ClaimToken j \<and>
     (jm_Status j' = DecisionJobRunning \<longrightarrow> jm_Status j = DecisionJobRunning \<and> jm_WorkerID j' = jm_WorkerID j)"

definition set_status :: "string \<Rightarrow> int64 \<Rightarrow> CaseStatus \<Rightarrow> CaseStatus \<Rightarrow> timestamp \<Rightarrow> DecisionCase list \<Rightarrow> DecisionCase list" where
  "set_status caseID gen current target now =
     update_rows (\<lambda>c. c_ID c = caseID \<and> c_ExecutionGeneration c = gen \<and> c_Status c = current)
       (\<lambda>c. c\<lparr> c_Status := target, c_UpdatedAt := now \<rparr>)"

text \<open>What an owned commit may write beside the status: the events, the resolutions and the status of the job.\<close>

definition outcome ::
  "ExecutionContext \<Rightarrow> CaseStatus \<Rightarrow> EventModel list \<Rightarrow> Resolution list \<Rightarrow> DecisionJobStatus option \<Rightarrow> bool" where
  "outcome x target evs ress jst \<longleftrightarrow>
     (if target \<in> {CaseStatusResolved, CaseStatusDeadlocked} then
        (\<exists>e. evs = [e] \<and> em_Type e = EventCaseCompleted \<and> em_CaseID e = x_CaseID x \<and>
             em_ExecutionGeneration e = x_ExecutionGeneration x) \<and> jst = Some DecisionJobSucceeded \<and>
        (if target = CaseStatusResolved
         then \<exists>r. ress = [r] \<and> r_CaseID r = x_CaseID x \<and> r_ExecutionGeneration r = x_ExecutionGeneration x
         else ress = [])
      else target \<noteq> CaseStatusPaused \<and> (\<forall>e \<in> set evs. em_Type e \<noteq> EventCaseCompleted) \<and> ress = [] \<and>
        (isPublicTerminalCaseStatus target \<longrightarrow> target = CaseStatusFailed) \<and>
        jst = (if target = CaseStatusFailed then Some DecisionJobFailed else None))"

definition settle_rows :: "string \<Rightarrow> DecisionJobStatus option \<Rightarrow> string \<Rightarrow> DecisionJobModel list \<Rightarrow> DecisionJobModel list" where
  "settle_rows jobID jst lastError rows =
     (case jst of None \<Rightarrow> rows
      | Some st \<Rightarrow> update_rows (\<lambda>j. jm_ID j = jobID) (\<lambda>j. (release_job st j)\<lparr> jm_LastError := lastError \<rparr>) rows)"

inductive db_move :: "bool \<Rightarrow> string set \<Rightarrow> JobDb \<Rightarrow> JobDb \<Rightarrow> bool" for act :: bool and T :: "string set" and s :: JobDb where
  idle: "db_move act T s (s\<lparr> jd_faults := fs \<rparr>)"
| admit: "act \<Longrightarrow> find_case c s = Some k \<Longrightarrow> find_job c s = None \<Longrightarrow> \<forall>r \<in> set (jd_job s). jm_ID r \<noteq> j \<Longrightarrow>
    db_move act T s (s\<lparr> jd_job := jd_job s @ [new_job j c n now], jd_faults := fs \<rparr>)"
| jobs: "\<forall>r \<in> set (jd_job s). P r \<longrightarrow> touched r (f r) \<and> jm_Status r \<noteq> DecisionJobSucceeded \<and> (isActiveJob (f r) \<longrightarrow> isActiveJob r \<or> act) \<Longrightarrow>
    db_move act T s (s\<lparr> jd_job := update_rows P f (jd_job s), jd_faults := fs \<rparr>)"
| claim: "t \<in> T \<Longrightarrow> j \<in> set (jd_job s) \<Longrightarrow> jm_Status j = DecisionJobQueued \<Longrightarrow> find_case (jm_CaseID j) s = Some c \<Longrightarrow>
    c_ExecutionGeneration c = jm_ExecutionGeneration j \<Longrightarrow> jm_ExecutionGeneration j \<noteq> max_int64 \<Longrightarrow>
    \<not> isPublicTerminalCaseStatus (c_Status c) \<Longrightarrow> c_Status c \<noteq> CaseStatusPaused \<Longrightarrow>
    \<forall>m \<in> set (jd_claim s). jc_ClaimToken m \<noteq> t \<Longrightarrow>
    db_move act T s (s\<lparr>
      jd_case := update_rows (\<lambda>x. c_ID x = jm_CaseID j)
        (\<lambda>x. x\<lparr> c_ExecutionGeneration := jm_ExecutionGeneration j + 1, c_UpdatedAt := now \<rparr>) (jd_case s),
      jd_job := update_rows (\<lambda>r. jm_ID r = jm_ID j) (claim_job w t l) (jd_job s),
      jd_claim := jd_claim s @ [claim_record now l t (claim_job w t l j)], jd_faults := fs \<rparr>)"
| commit: "lockActiveExecution (Some x) now s = Inr (job, c) \<Longrightarrow>
    \<not> isPublicTerminalCaseStatus (c_Status c) \<Longrightarrow> c_Status c \<noteq> CaseStatusPaused \<Longrightarrow> outcome x target evs ress jst \<Longrightarrow>
    (target = CaseStatusResolved \<Longrightarrow> \<forall>r \<in> set ress. verifyResolutionReferences s r = None) \<Longrightarrow>
    db_move act T s (s\<lparr> jd_case := set_status (x_CaseID x) (x_ExecutionGeneration x) (c_Status c) target now (jd_case s),
      jd_event := jd_event s @ evs, jd_cursor := cur, jd_resolution := jd_resolution s @ ress,
      jd_job := settle_rows (jm_ID job) jst err (jd_job s), jd_faults := fs \<rparr>)"
| store: "lockActiveExecution (Some x) now s = Inr (job, c) \<Longrightarrow>
    db_move act T s (s\<lparr> jd_artifact := jd_artifact s @ as, jd_checkpoint := cks, jd_faults := fs \<rparr>)"
| control: "find_case k s = Some c \<Longrightarrow> (resume \<Longrightarrow> act) \<Longrightarrow>
    (resume \<Longrightarrow> c_Status c = CaseStatusPaused \<and>
       target = (if c_PausedFromStatus c = CaseStatusZero then CaseStatusDraft else c_PausedFromStatus c)) \<Longrightarrow>
    (\<not> resume \<Longrightarrow> (target = CaseStatusPaused \<or> target = CaseStatusCancelled) \<and>
       (isPublicTerminalCaseStatus (c_Status c) \<longrightarrow> c_Status c = target)) \<Longrightarrow>
    pausedFrom = (if target \<noteq> CaseStatusPaused then CaseStatusZero
       else if c_Status c = CaseStatusPaused then c_PausedFromStatus c else c_Status c) \<Longrightarrow>
    db_move act T s (s\<lparr> jd_case := update_rows (\<lambda>x. c_ID x = k) (control_case target pausedFrom resume now) (jd_case s),
      jd_job := update_rows (\<lambda>r. jm_CaseID r = k) (control_job target resume now) (jd_job s), jd_faults := fs \<rparr>)"

section \<open>Transactions\<close>

definition later :: "JobDb \<Rightarrow> JobDb" where
  "later s = s\<lparr> jd_faults := tl (jd_faults s) \<rparr>"

lemma next_txfault_later: "\<exists>f. next_txfault s = (f, later s)"
  by (cases "jd_faults s") (simp_all add: next_txfault_def later_def)

lemma later_sel [simp]:
  "jd_case (later s) = jd_case s" "jd_job (later s) = jd_job s" "jd_claim (later s) = jd_claim s"
  "jd_event (later s) = jd_event s" "jd_cursor (later s) = jd_cursor s"
  "jd_resolution (later s) = jd_resolution s" "jd_artifact (later s) = jd_artifact s"
  "jd_checkpoint (later s) = jd_checkpoint s" "jd_contract (later s) = jd_contract s"
  by (simp_all add: later_def)

lemma find_later [simp]:
  "find_case c (later s) = find_case c s" "find_job c (later s) = find_job c s"
  by (simp_all add: find_case_def find_job_def)

lemma lockActiveExecution_later [simp]: "lockActiveExecution x now (later s) = lockActiveExecution x now s"
  by (simp add: lockActiveExecution_def lockExecutionRows_def split: option.splits)

lemma later_upd: "(later s)\<lparr> jd_job := js \<rparr> = s\<lparr> jd_job := js, jd_faults := tl (jd_faults s) \<rparr>"
  by (simp add: later_def)

lemma idle_same: "db_move act T s s"
  using idle [of act T s "jd_faults s"] by simp

lemma idle_later: "db_move act T s (later s)"
  by (simp add: later_def idle)

lemma jobs_later:
  assumes "\<And>r. r \<in> set (jd_job s) \<Longrightarrow> P r \<Longrightarrow> touched r (f r) \<and> jm_Status r \<noteq> DecisionJobSucceeded \<and>
      (isActiveJob (f r) \<longrightarrow> isActiveJob r \<or> act)"
  shows "db_move act T s ((later s)\<lparr> jd_job := update_rows P f (jd_job s) \<rparr>)"
  unfolding later_upd using assms by (intro jobs) blast

lemma txn_result:
  assumes "txn body s = (r, v, s')"
  shows "s' = later s \<or> (\<exists>u. body (later s) = (Inr u, s'))"
  using assms next_txfault_later [of s]
  by (auto simp: txn_def split: txfault.splits prod.splits sum.splits)

lemma txn_success:
  assumes "txn body s = (Inr u, v, s')"
  shows "body (later s) = (Inr u, s')"
  using assms next_txfault_later [of s]
  by (auto simp: txn_def split: txfault.splits prod.splits sum.splits)

lemma txn_done:
  assumes "txn body s = (r, Some u, s')"
  obtains s'' where "body (later s) = (Inr u, s'')"
  using assms next_txfault_later [of s]
  by (auto simp: txn_def split: txfault.splits prod.splits sum.splits)

lemma txn_move:
  assumes "txn body s = (r, v, s')" and "\<And>u s''. body (later s) = (Inr u, s'') \<Longrightarrow> db_move act T s s''"
  shows "db_move act T s s'"
  using txn_result [OF assms(1)] assms(2) idle_later by blast

lemma stmt_result:
  assumes "stmt body s = (r, s')"
  shows "s' = later s \<or> (\<exists>u. body (later s) = (Inr u, s'))"
  using assms txn_result by (fastforce simp: stmt_def split: prod.splits)

lemma stmt_success:
  assumes "stmt body s = (Inr u, s')"
  shows "body (later s) = (Inr u, s')"
  using assms txn_success by (fastforce simp: stmt_def split: prod.splits)

lemma stmt_move:
  assumes "stmt body s = (r, s')" and "\<And>u s''. body (later s) = (Inr u, s'') \<Longrightarrow> db_move act T s s''"
  shows "db_move act T s s'"
  using stmt_result [OF assms(1)] assms(2) idle_later by blast

lemma query_later: "snd (query q s) = later s"
  using stmt_result [of "\<lambda>s. (q s, s)" s] by (cases "query q s") (auto simp: query_def)

lemma query_state: "query q s = (r, s') \<Longrightarrow> s' = later s"
  using query_later [of q s] by simp

lemma query_success: "query q s = (Inr v, s') \<Longrightarrow> q (later s) = Inr v \<and> s' = later s"
  unfolding query_def by (drule stmt_success) auto

text \<open>A second transaction that only reads keeps the move.\<close>

lemma db_move_later: "db_move act T s s' \<Longrightarrow> db_move act T s (later s')"
proof (induction rule: db_move.cases)
  case (commit x now job c target evs ress jst err fs)
  then show ?case by (simp add: later_def db_move.commit)
qed (auto simp: later_def intro: db_move.intros)

section \<open>Every operation is a move\<close>

lemma key_unique:
  assumes "distinct (map k xs)" and "x \<in> set xs" and "y \<in> set xs" and "k x = k y"
  shows "x = y"
  using assms by (simp add: distinct_map inj_on_def)

lemma update_rows_cong: "(\<And>r. r \<in> set rows \<Longrightarrow> P r = Q r) \<Longrightarrow> update_rows P f rows = update_rows Q f rows"
  by (simp add: update_rows_def)

lemma affected_pos: "affected P rows = 0 \<longleftrightarrow> (\<forall>r \<in> set rows. \<not> P r)"
  by (simp add: affected_def filter_empty_conv)

lemma affected_oneD: "affected P rows = 1 \<Longrightarrow> \<exists>r \<in> set rows. P r"
  using affected_pos [of P rows] by auto

lemma touched_release [simp]: "st \<noteq> DecisionJobRunning \<Longrightarrow> touched j (release_job st j)"
  by (simp add: touched_def release_job_def)

lemma admit_move:
  assumes "jobs_ok s" and "jr_Admit env c n u now j s = (r, s')"
  shows "db_move True T s s'"
proof (cases "c = []")
  case True
  then show ?thesis using assms idle_same by (simp add: jr_Admit_def)
next
  case False
  define n' where "n' = (if n \<le> 0 then defaultJobAttempts else n)"
  have st: "stmt (admit_tx env c n' u now j) s = (r, s')"
    using assms(2) False by (simp add: jr_Admit_def n'_def)
  have ids: "distinct (map jm_ID (jd_job s))" using assms(1) by (simp add: jobs_ok_def keys_ok_def)
  show ?thesis
  proof (rule stmt_move [OF st])
    fix v s''
    assume body: "admit_tx env c n' u now j (later s) = (Inr v, s'')"
    then consider "s'' = later s"
      | m where "find_job c s = Some m" "jm_Status m \<noteq> DecisionJobSucceeded"
          "s'' = (later s)\<lparr> jd_job := update_rows (\<lambda>r. jm_ID r = jm_ID m) (admit_reset n' now) (jd_job s) \<rparr>"
      | k where "find_case c s = Some k" "find_job c s = None" "\<forall>r \<in> set (jd_job s). jm_ID r \<noteq> j"
          "s'' = (later s)\<lparr> jd_job := jd_job s @ [new_job j c n' now] \<rparr>"
      by (auto simp: admit_tx_def Let_def list_ex_iff split: option.splits if_splits)
    then show "db_move True T s s''"
    proof cases
      case (2 m)
      show ?thesis unfolding 2(3)
        using 2(1,2) key_unique [OF ids]
        by (intro jobs_later) (auto simp: find_job_def touched_def admit_reset_def dest!: find_SomeD)
    next
      case (3 k)
      then show ?thesis unfolding 3(4) later_upd by (blast intro: admit)
    qed (simp add: idle_later)
  qed
qed

lemma owned_update_move:
  assumes "owned_update what f j c w g now s = (r, s')"
    and "\<And>r. jm_Status r = DecisionJobRunning \<Longrightarrow> touched r (f r)"
  shows "db_move act T s s'"
proof (rule stmt_move [OF assms(1) [unfolded owned_update_def]])
  fix u s''
  let ?P = "activeDecisionJobOwner (later s) j c w g now"
  assume "(let P = ?P in if affected P (jd_job (later s)) = 0 then (Inl (Wrapf what ErrLeaseLost), later s)
     else (Inr (), (later s)\<lparr> jd_job := update_rows P f (jd_job (later s)) \<rparr>)) = (Inr u, s'')"
  then have "s'' = (later s)\<lparr> jd_job := update_rows ?P f (jd_job s) \<rparr>" by (simp add: Let_def split: if_splits)
  then show "db_move act T s s''"
    using assms(2) by (auto simp: activeDecisionJobOwner_def isActiveJob_def intro!: jobs_later)
qed

lemma external_update_move:
  assumes "external_update what P f s = (r, s')"
    and "\<And>r. P r \<Longrightarrow> touched r (f r) \<and> jm_Status r \<noteq> DecisionJobSucceeded \<and> (isActiveJob (f r) \<longrightarrow> isActiveJob r \<or> act)"
  shows "db_move act T s s'"
proof (rule stmt_move [OF assms(1) [unfolded external_update_def]])
  fix u s''
  assume "(if affected P (jd_job (later s)) = 0 then (Inl (Errorf what), later s)
     else (Inr (), (later s)\<lparr> jd_job := update_rows P f (jd_job (later s)) \<rparr>)) = (Inr u, s'')"
  then have "s'' = (later s)\<lparr> jd_job := update_rows P f (jd_job s) \<rparr>" by (simp split: if_splits)
  then show "db_move act T s s''" using assms(2) by (auto intro: jobs_later)
qed

lemma requeue_move:
  assumes "jr_RequeueExpired now s = (r, s')"
  shows "db_move act T s s'"
proof (rule stmt_move [OF assms [unfolded jr_RequeueExpired_def]])
  fix u s''
  let ?f = "\<lambda>j. (release_job DecisionJobQueued j)\<lparr> jm_AvailableAt := now \<rparr>"
  assume "(Inr (), (later s)\<lparr> jd_job := update_rows (expired now) ?f (jd_job (later s)) \<rparr>) = (Inr u, s'')"
  then have "s'' = (later s)\<lparr> jd_job := update_rows (expired now) ?f (jd_job s) \<rparr>" by simp
  then show "db_move act T s s''"
    by (auto simp: expired_def touched_def release_job_def isActiveJob_def intro!: jobs_later)
qed

lemma query_move: "query q s = (r, s') \<Longrightarrow> db_move act T s s'"
  using query_state idle_later by blast

lemma case_unique:
  assumes "jobs_ok s" and "find_case k s = Some c"
  shows "c \<in> set (jd_case s)" "c_ID c = k" "x \<in> set (jd_case s) \<Longrightarrow> c_ID x = k \<Longrightarrow> x = c"
  using assms key_unique [of c_ID "jd_case s"]
  by (auto simp: find_case_def jobs_ok_def keys_ok_def dest: find_SomeD)

lemma job_unique:
  assumes "jobs_ok s" and "j \<in> set (jd_job s)" and "r \<in> set (jd_job s)"
  shows "jm_ID r = jm_ID j \<longleftrightarrow> r = j" "jm_CaseID r = jm_CaseID j \<longleftrightarrow> r = j"
  using assms key_unique [of jm_ID "jd_job s"] key_unique [of jm_CaseID "jd_job s"]
  by (auto simp: jobs_ok_def keys_ok_def)

lemma claim_rows_move:
  assumes "jobs_ok s" and "j \<in> set (jd_job s)" and "jm_Status j = DecisionJobQueued"
    and "find_case (jm_CaseID j) s = Some c" and "c_ExecutionGeneration c = jm_ExecutionGeneration j"
    and "c_ExecutionGeneration c \<noteq> max_int64" and "reconcileTerminalJob j c s = None"
    and "\<forall>m \<in> set (jd_claim s). jc_ClaimToken m \<noteq> t"
    and "claim_rows w t l now j c (later s) = (Inr v, s')" and "t \<in> T"
  shows "db_move act T s s'"
proof -
  have "\<not> isPublicTerminalCaseStatus (c_Status c)" "c_Status c \<noteq> CaseStatusPaused"
    using assms(7) by (auto simp: reconcileTerminalJob_def Let_def split: if_splits)
  note mv = claim [OF assms(10) assms(2-5) _ this assms(8), where now = now and w = w and l = l and fs = "tl (jd_faults s)"]
  have case_rows: "update_rows (\<lambda>x. c_ID x = jm_CaseID j \<and> c_ExecutionGeneration x = jm_ExecutionGeneration j) f (jd_case s) =
      update_rows (\<lambda>x. c_ID x = jm_CaseID j) f (jd_case s)" for f
    using case_unique(3) [OF assms(1,4)] assms(5) by (intro update_rows_cong) auto
  have job_rows: "update_rows (\<lambda>r. jm_ID r = jm_ID j \<and> jm_Status r = DecisionJobQueued \<and> jm_Attempt r = jm_Attempt j \<and>
        jm_ExecutionGeneration r = jm_ExecutionGeneration j) f (jd_job s) =
      update_rows (\<lambda>r. jm_ID r = jm_ID j) f (jd_job s)" for f
    using job_unique(1) [OF assms(1,2)] assms(3) by (intro update_rows_cong) auto
  have "s' = s\<lparr>
      jd_case := update_rows (\<lambda>x. c_ID x = jm_CaseID j)
        (\<lambda>x. x\<lparr> c_ExecutionGeneration := jm_ExecutionGeneration j + 1, c_UpdatedAt := now \<rparr>) (jd_case s),
      jd_job := update_rows (\<lambda>r. jm_ID r = jm_ID j) (claim_job w t l) (jd_job s),
      jd_claim := jd_claim s @ [claim_record now l t (claim_job w t l j)], jd_faults := tl (jd_faults s) \<rparr>"
    using assms(9) by (auto simp: claim_rows_def Let_def case_rows job_rows assms(5) later_def split: if_splits)
  with mv assms(5,6) show ?thesis by simp
qed

lemma claim_tx_move:
  assumes "jobs_ok s" and "claim_tx env j w t l now (later s) = (Inr v, s')" and "t \<in> T"
  shows "db_move act T s s'"
proof -
  have gate: "lockDecisionWriterGate env (later s) = None"
    using assms(2) by (auto simp: claim_tx_def split: option.splits)
  show ?thesis
  proof (cases "List.find (\<lambda>m. jc_ClaimToken m = t) (jd_claim s)")
    case (Some m)
    then show ?thesis using assms(2) gate idle_later [of act T s] by (simp add: claim_tx_def split: if_splits)
  next
    case None
    then have fresh: "\<forall>m \<in> set (jd_claim s). jc_ClaimToken m \<noteq> t" by (simp add: find_None_iff)
    obtain d where d: "List.find (\<lambda>r. jm_ID r = j \<and> jm_Status r = DecisionJobQueued \<and> jm_AvailableAt r \<le> now) (jd_job s) = Some d"
      using assms(2) gate None by (auto simp: claim_tx_def split: option.splits)
    then have dj: "d \<in> set (jd_job s)" "jm_Status d = DecisionJobQueued" by (auto dest: find_SomeD)
    obtain c where c: "find_case (jm_CaseID d) s = Some c"
      using assms(2) gate None d by (auto simp: claim_tx_def split: option.splits)
    show ?thesis
    proof (cases "reconcileTerminalJob d c (later s)")
      case (Some q)
      then obtain s'' where q: "q = Inr s''" "s' = s''"
        using assms(2) gate None d c by (auto simp: claim_tx_def split: sum.splits)
      then have "s' = (later s)\<lparr> jd_job := update_rows (\<lambda>r. jm_ID r = jm_ID d) (release_job (reconcile_target (c_Status c))) (jd_job s) \<rparr>"
        using Some by (auto simp: reconcileTerminalJob_def Let_def split: if_splits)
      moreover have "reconcile_target (c_Status c) \<noteq> DecisionJobRunning" by (simp add: reconcile_target_def)
      ultimately show ?thesis using job_unique(1) [OF assms(1) dj(1)] dj(2)
        by (auto simp: isActiveJob_def intro!: jobs_later)
    next
      case None': None
      moreover have "reconcileTerminalJob d c s = None"
        using None' by (auto simp: reconcileTerminalJob_def Let_def split: if_splits)
      ultimately show ?thesis
        using assms(2) gate None d c by (auto simp: claim_tx_def split: if_splits intro: claim_rows_move [OF assms(1) dj c _ _ _ fresh _ assms(3)])
    qed
  qed
qed

lemma getByClaimToken_state: "jr_GetByClaimToken t s = (r, s') \<Longrightarrow> s' = s \<or> s' = later s"
  by (auto simp: jr_GetByClaimToken_def split: if_splits dest: query_state)

lemma claim_move:
  assumes "jobs_ok s" and "jr_Claim env j w t l now s = (r, s')" and "t \<in> T"
  shows "db_move act T s s'"
proof (cases "t = [] \<or> \<not> je_validUUID env t")
  case True
  then show ?thesis using assms(2) idle_same by (auto simp: jr_Claim_def split: if_splits)
next
  case False
  obtain q s1 where q: "stmt (claim_tx env j w t l now) s = (q, s1)" by fastforce
  have "db_move act T s s1" by (rule stmt_move [OF q]) (rule claim_tx_move [OF assms(1) _ assms(3)])
  moreover have "s' = s1 \<or> s' = later s1"
    using assms(2) False q getByClaimToken_state
    by (fastforce simp: jr_Claim_def split: sum.splits if_splits prod.splits)
  ultimately show ?thesis by (auto intro: db_move_later)
qed

lemma and_then_Inr:
  assumes "and_then r k = (Inr u, s')"
  obtains s1 where "r = (Inr (), s1)" "k s1 = (Inr u, s')"
  using assms by (auto simp: and_then_def split: prod.splits sum.splits)

lemma update_case_status_Inr:
  "update_case_status k g cur target now s = (Inr u, s') \<Longrightarrow> s' = s\<lparr> jd_case := set_status k g cur target now (jd_case s) \<rparr>"
  by (simp add: update_case_status_def set_status_def Let_def split: if_splits)

lemma createEventInTx_Inr:
  assumes "createEventInTx ev s = (Inr u, s')"
  obtains m cur where "s' = s\<lparr> jd_cursor := cur, jd_event := jd_event s @ [m] \<rparr>" "em_CaseID m = me_CaseID ev"
    "em_ExecutionGeneration m = me_ExecutionGeneration ev" "em_Type m = me_Type ev" "em_ID m = me_ID ev"
    "em_Payload m = me_Payload ev"
  using assms by (force simp: createEventInTx_def Let_def split: if_splits)

lemma settleExecutionJob_Inr:
  "settleExecutionJob job st err s = (Inr u, s') \<Longrightarrow> s' = s\<lparr> jd_job := settle_rows (jm_ID job) (Some st) err (jd_job s) \<rparr>"
  by (simp add: settleExecutionJob_def settle_rows_def Let_def split: if_splits)

lemma create_resolution_Inr:
  assumes "create_resolution res s = (Inr u, s')"
  shows "s' = s\<lparr> jd_resolution := jd_resolution s @ (case res of None \<Rightarrow> [] | Some r \<Rightarrow> [r]) \<rparr>"
    and "res = Some r \<Longrightarrow> verifyResolutionReferences s r = None"
  using assms by (auto simp: create_resolution_def split: option.splits if_splits)

lemma verify_later [simp]: "verifyResolutionReferences (later s) r = verifyResolutionReferences s r"
proof -
  have "verify_cited (later s) r = verify_cited s r" by (rule ext) (simp add: verify_cited_def split: sum.splits)
  then show ?thesis by (simp add: verifyResolutionReferences_def)
qed

lemma confirmCaseCommit_state: "confirmCaseCommit x target ev terminal res s = (r, s') \<Longrightarrow> s' = later s"
  unfolding confirmCaseCommit_def by (rule query_state)

lemma caseCommit_move:
  assumes "caseCommit x ev target terminal res write now s = (r, s')"
    and "\<And>job c u s''. lockActiveExecution (Some x) now s = Inr (job, c) \<Longrightarrow>
           write job c (later s) = (Inr u, s'') \<Longrightarrow> db_move act T s s''"
  shows "db_move act T s s'"
proof -
  let ?body = "\<lambda>s. case lockActiveExecution (Some x) now s of Inl e \<Rightarrow> (Inl e, s) | Inr (job, c) \<Rightarrow> write job c s"
  obtain q v s1 where q: "txn ?body s = (q, v, s1)" by (rule prod_cases3)
  have mv: "db_move act T s s1"
    by (rule txn_move [OF q]) (use assms(2) in \<open>auto split: sum.splits prod.splits\<close>)
  have "s' = s1 \<or> s' = later s1"
  proof -
    obtain b s2 where b: "confirmCaseCommit x target ev terminal res s1 = (b, s2)" by fastforce
    show ?thesis using assms(1) confirmCaseCommit_state [OF b]
      by (auto simp: caseCommit_def q b split: sum.splits option.splits bool.splits)
  qed
  then show ?thesis using mv by (auto intro: db_move_later)
qed

lemma open_for_ownerD: "open_for_owner c sts \<Longrightarrow> \<not> isPublicTerminalCaseStatus (c_Status c) \<and> c_Status c \<noteq> CaseStatusPaused"
  by (simp add: open_for_owner_def)

lemma commit_eq:
  assumes "lockActiveExecution (Some x) now s = Inr (job, c)" and "open_for_owner c sts" and "outcome x target evs ress jst"
    and "\<And>r. r \<in> set ress \<Longrightarrow> verifyResolutionReferences s r = None"
    and "s' = (later s)\<lparr> jd_resolution := jd_resolution s @ ress,
      jd_case := set_status (x_CaseID x) (x_ExecutionGeneration x) (c_Status c) target now (jd_case s),
      jd_cursor := cur, jd_event := jd_event s @ evs, jd_job := settle_rows (jm_ID job) jst err (jd_job s) \<rparr>"
  shows "db_move act T s s'"
proof -
  have "s' = s\<lparr> jd_case := set_status (x_CaseID x) (x_ExecutionGeneration x) (c_Status c) target now (jd_case s),
      jd_event := jd_event s @ evs, jd_cursor := cur, jd_resolution := jd_resolution s @ ress,
      jd_job := settle_rows (jm_ID job) jst err (jd_job s), jd_faults := tl (jd_faults s) \<rparr>"
    using assms(5) by (simp add: later_def)
  then show ?thesis using commit [OF assms(1)] open_for_ownerD [OF assms(2)] assms(3,4) by blast
qed

lemma status_write_move:
  assumes "lockActiveExecution (Some x) now s = Inr (job, c)" and "status_write x sts target ev now job c (later s) = (Inr u, s')"
    and "me_Type ev = EventCaseStatusChanged" "\<not> isPublicTerminalCaseStatus target" "target \<noteq> CaseStatusPaused"
  shows "db_move act T s s'"
proof -
  have op: "open_for_owner c sts" using assms(2) by (auto simp: status_write_def split: if_splits)
  then obtain s1 where s1: "update_case_status (x_CaseID x) (x_ExecutionGeneration x) (c_Status c) target now (later s) = (Inr (), s1)"
      and s2: "createEventInTx ev s1 = (Inr u, s')"
    using assms(2) by (auto simp: status_write_def elim: and_then_Inr)
  obtain m cur where m: "s' = s1\<lparr> jd_cursor := cur, jd_event := jd_event s1 @ [m] \<rparr>" "em_Type m = me_Type ev"
    by (rule createEventInTx_Inr [OF s2])
  have "outcome x target [m] [] None"
    using assms(3-5) m(2) by (auto simp: outcome_def isPublicTerminalCaseStatus_def)
  then show ?thesis
    by (rule commit_eq [OF assms(1) op, where cur = cur])
      (simp_all add: m(1) update_case_status_Inr [OF s1] settle_rows_def)
qed

lemma failure_write_move:
  assumes "lockActiveExecution (Some x) now s = Inr (job, c)" and "failure_write x sts err ev now job c (later s) = (Inr u, s')"
    and "me_Type ev = EventCaseFailed"
  shows "db_move act T s s'"
proof -
  have op: "open_for_owner c sts" using assms(2) by (auto simp: failure_write_def split: if_splits)
  then obtain s1 s2 where s1: "update_case_status (x_CaseID x) (x_ExecutionGeneration x) (c_Status c) CaseStatusFailed now (later s) = (Inr (), s1)"
      and s2: "createEventInTx ev s1 = (Inr (), s2)" and s3: "settleExecutionJob job DecisionJobFailed err s2 = (Inr u, s')"
    using assms(2) by (auto simp: failure_write_def elim!: and_then_Inr)
  obtain m cur where m: "s2 = s1\<lparr> jd_cursor := cur, jd_event := jd_event s1 @ [m] \<rparr>" "em_Type m = me_Type ev"
    by (rule createEventInTx_Inr [OF s2])
  have "outcome x CaseStatusFailed [m] [] (Some DecisionJobFailed)"
    using assms(3) m(2) by (auto simp: outcome_def)
  then show ?thesis
    by (rule commit_eq [OF assms(1) op, where cur = cur and err = err])
      (simp_all add: settleExecutionJob_Inr [OF s3] m(1) update_case_status_Inr [OF s1])
qed

lemma terminal_write_move:
  assumes "lockActiveExecution (Some x) now s = Inr (job, c)"
    and "terminal_write x expected target res ev now job c (later s) = (Inr u, s')"
    and "validateOwnedEvent (Some x) (Some ev) = None" "me_Type ev = EventCaseCompleted"
    and "target = CaseStatusResolved \<and> (\<exists>r. res = Some r \<and> r_CaseID r = x_CaseID x \<and> r_ExecutionGeneration r = x_ExecutionGeneration x)
       \<or> target = CaseStatusDeadlocked \<and> res = None"
  shows "db_move act T s s'"
proof -
  have op: "open_for_owner c [expected]" using assms(2) by (auto simp: terminal_write_def split: if_splits)
  then have cur': "c_Status c = expected" by (simp add: open_for_owner_def)
  from op obtain s1 s2 s3 where s1: "create_resolution res (later s) = (Inr (), s1)"
      and s2: "update_case_status (x_CaseID x) (x_ExecutionGeneration x) expected target now s1 = (Inr (), s2)"
      and s3: "createEventInTx ev s2 = (Inr (), s3)" and s4: "settleExecutionJob job DecisionJobSucceeded [] s3 = (Inr u, s')"
    using assms(2) by (auto simp: terminal_write_def elim!: and_then_Inr)
  obtain m cur where m: "s3 = s2\<lparr> jd_cursor := cur, jd_event := jd_event s2 @ [m] \<rparr>" "em_CaseID m = me_CaseID ev"
      "em_ExecutionGeneration m = me_ExecutionGeneration ev" "em_Type m = me_Type ev"
    by (rule createEventInTx_Inr [OF s3])
  let ?ress = "case res of None \<Rightarrow> [] | Some r \<Rightarrow> [r]"
  have "outcome x target [m] ?ress (Some DecisionJobSucceeded)"
    using assms(3-5) m(2-4) by (auto simp: outcome_def validateOwnedEvent_def split: if_splits)
  moreover have "verifyResolutionReferences s r = None" if "r \<in> set ?ress" for r
    using that create_resolution_Inr(2) [OF s1] by (auto split: option.splits)
  ultimately show ?thesis
    by (rule commit_eq [OF assms(1) op, where cur = cur and err = "[]"])
      (simp_all add: settleExecutionJob_Inr [OF s4] m(1) update_case_status_Inr [OF s2] create_resolution_Inr(1) [OF s1] cur')
qed

lemma CommitStatusTransitionOwned_move:
  assumes "CommitStatusTransitionOwned owner sts target ev now s = (r, s')"
  shows "db_move act T s s'"
proof (cases "\<exists>x e. owner = Some x \<and> ev = Some e \<and> validateOwnedEvent owner ev = None \<and>
    me_Type e = EventCaseStatusChanged \<and> \<not> isPublicTerminalCaseStatus target \<and> target \<noteq> CaseStatusPaused")
  case True
  then obtain x e where xe: "owner = Some x" "ev = Some e" "validateOwnedEvent owner ev = None"
      "me_Type e = EventCaseStatusChanged" "\<not> isPublicTerminalCaseStatus target" "target \<noteq> CaseStatusPaused" by blast
  then have "caseCommit x e target False None (status_write x sts target e now) now s = (r, s')"
    using assms by (simp add: CommitStatusTransitionOwned_def)
  then show ?thesis by (rule caseCommit_move) (rule status_write_move [OF _ _ xe(4-6)])
next
  case False
  then have "s' = s" using assms
    by (auto simp: CommitStatusTransitionOwned_def split: option.splits if_splits)
  then show ?thesis using idle_same by simp
qed

lemma CommitTerminalOwned_move:
  assumes "CommitTerminalOwned owner expected target res ev now s = (r, s')"
  shows "db_move act T s s'"
proof (cases "s' = s")
  case False
  then obtain x e where xe: "owner = Some x" "ev = Some e" "validateOwnedEvent owner ev = None"
      "me_Type e = EventCaseCompleted"
      "target = CaseStatusResolved \<and> (\<exists>r. res = Some r \<and> r_CaseID r = x_CaseID x \<and> r_ExecutionGeneration r = x_ExecutionGeneration x)
       \<or> target = CaseStatusDeadlocked \<and> res = None"
      and c: "caseCommit x e target True res (terminal_write x expected target res e now) now s = (r, s')"
    using assms by (auto simp: CommitTerminalOwned_def split: option.splits if_splits)
  from c show ?thesis
    by (rule caseCommit_move) (rule terminal_write_move [OF _ _ xe(3) [unfolded xe(1,2)] xe(4,5)])
next
  case True
  then show ?thesis using idle_same by simp
qed

lemma ResetCaseForRetryOwned_move:
  assumes "ResetCaseForRetryOwned owner sts now s = (r, s')"
  shows "db_move act T s s'"
proof (cases "s' = s")
  case False
  then obtain x where x: "owner = Some x" "IsDurable owner"
    using assms by (auto simp: ResetCaseForRetryOwned_def split: option.splits if_splits)
  let ?body = "\<lambda>s. case lockActiveExecution owner now s of Inl e \<Rightarrow> (Inl e, s) | Inr (_, c) \<Rightarrow> reset_write x sts now c s"
  obtain q v s1 where q: "txn ?body s = (q, v, s1)" by (rule prod_cases3)
  have s1: "s' = s1" using assms x q by (auto simp: ResetCaseForRetryOwned_def split: sum.splits)
  show ?thesis unfolding s1
  proof (rule txn_move [OF q])
    fix u s''
    assume "?body (later s) = (Inr u, s'')"
    then obtain job c where jc: "lockActiveExecution (Some x) now s = Inr (job, c)"
        and w: "reset_write x sts now c (later s) = (Inr u, s'')"
      using x by (auto split: sum.splits prod.splits)
    then have op: "open_for_owner c sts" by (auto simp: reset_write_def split: if_splits)
    show "db_move act T s s''"
    proof (cases "c_Status c = CaseStatusDraft")
      case True
      then show ?thesis using w op idle_later [of act T s] by (simp add: reset_write_def)
    next
      case False
      then have up: "update_case_status (x_CaseID x) (x_ExecutionGeneration x) (c_Status c) CaseStatusDraft now (later s) = (Inr u, s'')"
        using w op by (simp add: reset_write_def)
      have "outcome x CaseStatusDraft [] [] None" by (simp add: outcome_def isPublicTerminalCaseStatus_def)
      then show ?thesis
        by (rule commit_eq [OF jc op, where cur = "jd_cursor s"])
          (simp_all add: update_case_status_Inr [OF up] settle_rows_def)
    qed
  qed
next
  case True
  then show ?thesis using idle_same by simp
qed

lemma withActiveExecution_move:
  assumes "withActiveExecution owner write now s = (r, s')"
    and "\<And>u s''. write (later s) = (Inr u, s'') \<Longrightarrow>
      \<exists>as cks. s'' = (later s)\<lparr> jd_artifact := jd_artifact s @ as, jd_checkpoint := cks \<rparr>"
  shows "db_move act T s s'"
proof (cases "IsDurable owner")
  case True
  then obtain x where x: "owner = Some x" by (cases owner) (auto simp: IsDurable_def)
  have st: "stmt (\<lambda>s. case lockActiveExecution owner now s of Inl e \<Rightarrow> (Inl e, s) | Inr _ \<Rightarrow> write s) s = (r, s')"
    using assms(1) True by (simp add: withActiveExecution_def)
  show ?thesis
  proof (rule stmt_move [OF st])
    fix u s''
    assume "(case lockActiveExecution owner now (later s) of Inl e \<Rightarrow> (Inl e, later s) | Inr _ \<Rightarrow> write (later s)) = (Inr u, s'')"
    then obtain jc where lock: "lockActiveExecution (Some x) now s = Inr jc" and w: "write (later s) = (Inr u, s'')"
      using x by (auto split: sum.splits)
    obtain as cks where "s'' = (later s)\<lparr> jd_artifact := jd_artifact s @ as, jd_checkpoint := cks \<rparr>"
      using assms(2) [OF w] by blast
    then have "s'' = s\<lparr> jd_artifact := jd_artifact s @ as, jd_checkpoint := cks, jd_faults := tl (jd_faults s) \<rparr>"
      by (simp add: later_def)
    then show "db_move act T s s''" using lock by (cases jc) (metis store)
  qed
next
  case False
  then show ?thesis using assms(1) idle_same by (simp add: withActiveExecution_def)
qed

lemma running_generation:
  assumes "jobs_ok s" and "j \<in> set (jd_job s)" and "jm_Status j = DecisionJobRunning"
  obtains m where "m \<in> set (jd_claim s)" "latest_claim m j" "0 < jm_ExecutionGeneration j"
  using assms by (fastforce simp: jobs_ok_def claims_ok_def latest_claim_def)

lemma legacy_failure:
  assumes "jobs_ok s" and "commitFinalFailureLegacy j w 0 c sts err ev now s = (r, s')"
  shows "(s' = s \<or> s' = later s) \<and> r \<noteq> Inr True"
proof -
  have "\<not> activeDecisionJobOwner (later s) j c w 0 now r" if "r \<in> set (jd_job s)" for r
    by (rule ccontr) (auto simp: activeDecisionJobOwner_def elim: running_generation [OF assms(1) that])
  then have none: "affected (activeDecisionJobOwner (later s) j c w 0 now) (jd_job s) = 0"
    by (simp add: affected_pos)
  have body: "legacy_failure_tx j w 0 c sts' err e now (later s) = (Inl errFinalFailureFence, later s)" for sts' e
    by (simp add: legacy_failure_tx_def Let_def none)
  then have "stmt (legacy_failure_tx j w 0 c sts' err e now) s = (q, s1) \<Longrightarrow> s1 = later s \<and> \<not> is_ok q" for sts' e q s1
    by (cases q) (auto dest: stmt_result stmt_success)
  then show ?thesis using assms(2)
    by (fastforce simp: commitFinalFailureLegacy_def Let_def split: option.splits if_splits prod.splits sum.splits)
qed

lemmas legacy_failure_state = legacy_failure [THEN conjunct1]

lemma legacy_failure_refused: "jobs_ok s \<Longrightarrow> fst (commitFinalFailureLegacy j w 0 c sts err ev now s) \<noteq> Inr True"
  using legacy_failure [OF _ surjective_pairing] by blast

lemma CommitFinalFailure_move:
  assumes "jobs_ok s" and "CommitFinalFailure j w g c sts err ev now s = (r, s')"
  shows "db_move act T s s'"
proof (cases "g = 0")
  case True
  then have "s' = s \<or> s' = later s"
    using assms(2) legacy_failure_state [OF assms(1), of j w c sts err ev now]
    by (simp add: CommitFinalFailure_def)
  then show ?thesis using idle_same idle_later by auto
next
  case False
  let ?x = "failure_owner j c w g"
  show ?thesis
  proof (cases "s' = s")
    case changed: False
    define ev' where "ev' = map_option (\<lambda>e. if me_ExecutionGeneration e = 0 then e\<lparr> me_ExecutionGeneration := g \<rparr> else e) ev"
    obtain e where e: "me_Type e = EventCaseFailed"
        and "caseCommit ?x e CaseStatusFailed True None (failure_write ?x sts err e now) now s = (r, s')"
      using assms(2) False changed
      by (auto simp: CommitFinalFailure_def Let_def ev'_def [symmetric] split: option.splits if_splits)
    from this(2) show ?thesis by (rule caseCommit_move) (rule failure_write_move [OF _ _ e])
  next
    case True
    then show ?thesis using idle_same by simp
  qed
qed

lemma control_tx_move:
  assumes "jobs_ok s" and "resume \<Longrightarrow> act" and "resume \<or> target = CaseStatusPaused \<or> target = CaseStatusCancelled"
    and "control_tx k target resume now (later s) = (Inr v, s')"
  shows "db_move act T s s'"
proof -
  obtain c where c: "find_case k s = Some c" using assms(4) by (auto simp: control_tx_def Let_def split: option.splits)
  define tg where "tg = (if resume then (if c_PausedFromStatus c = CaseStatusZero then CaseStatusDraft else c_PausedFromStatus c) else target)"
  define pf where "pf = (if tg \<noteq> CaseStatusPaused then CaseStatusZero
       else if c_Status c = CaseStatusPaused then c_PausedFromStatus c else c_Status c)"
  let ?s1 = "(later s)\<lparr> jd_case := update_rows (\<lambda>x. c_ID x = k) (control_case tg pf resume now) (jd_case s) \<rparr>"
  have body: "\<not> (resume \<and> c_Status c \<noteq> CaseStatusPaused)"
      "\<not> (\<not> resume \<and> c_Status c \<noteq> tg \<and> isPublicTerminalCaseStatus (c_Status c))"
      "s' = (case find_job k s of None \<Rightarrow> ?s1
         | Some j \<Rightarrow> ?s1\<lparr> jd_job := update_rows (\<lambda>r. jm_ID r = jm_ID j) (control_job tg resume now) (jd_job s) \<rparr>)"
    using assms(4) unfolding control_tx_def find_later c Let_def option.case tg_def [symmetric] pf_def [symmetric]
    by (auto split: if_splits option.splits)
  have job_rows: "update_rows (\<lambda>r. jm_CaseID r = k) f (jd_job s) =
      (case find_job k s of None \<Rightarrow> jd_job s | Some j \<Rightarrow> update_rows (\<lambda>r. jm_ID r = jm_ID j) f (jd_job s))" for f
  proof (cases "find_job k s")
    case None
    then have "r \<in> set (jd_job s) \<Longrightarrow> jm_CaseID r \<noteq> k" for r by (auto simp: find_job_def find_None_iff)
    then show ?thesis unfolding None by (auto simp: update_rows_def intro: map_idI)
  next
    case (Some j)
    then have "j \<in> set (jd_job s)" "jm_CaseID j = k" by (auto simp: find_job_def dest: find_SomeD)
    then show ?thesis using Some job_unique [OF assms(1), of j] by (auto intro: update_rows_cong)
  qed
  have "s' = s\<lparr> jd_case := update_rows (\<lambda>x. c_ID x = k) (control_case tg pf resume now) (jd_case s),
      jd_job := update_rows (\<lambda>r. jm_CaseID r = k) (control_job tg resume now) (jd_job s), jd_faults := tl (jd_faults s) \<rparr>"
    unfolding body(3) job_rows by (simp add: later_def split: option.splits)
  moreover have "\<not> resume \<Longrightarrow> tg = CaseStatusPaused \<or> tg = CaseStatusCancelled" using assms(3) by (auto simp: tg_def)
  moreover have "resume \<Longrightarrow> tg = (if c_PausedFromStatus c = CaseStatusZero then CaseStatusDraft else c_PausedFromStatus c)"
    by (simp add: tg_def)
  ultimately show ?thesis using control [OF c _ _ _ pf_def, where resume = resume] assms(2) body(1,2) by blast
qed

lemma commitCaseControl_move:
  assumes "jobs_ok s" and "resume \<Longrightarrow> act" and "commitCaseControl k target resume now s = (r, s')"
  shows "db_move act T s s'"
proof (cases "k = [] \<or> \<not> resume \<and> target \<noteq> CaseStatusPaused \<and> target \<noteq> CaseStatusCancelled")
  case True
  then show ?thesis using assms(3) idle_same by (auto simp: commitCaseControl_def)
next
  case False
  obtain q v s1 where q: "txn (control_tx k target resume now) s = (q, v, s1)" by (rule prod_cases3)
  have mv: "db_move act T s s1"
    by (rule txn_move [OF q]) (use False in \<open>auto intro: control_tx_move [OF assms(1,2)]\<close>)
  have cs: "confirm_control k resume d s1 = (b, s2) \<Longrightarrow> s2 = later s1" for d b s2
    unfolding confirm_control_def by (rule query_state)
  have "s' = s1 \<or> s' = later s1"
    using assms(3) False cs
    by (cases v) (auto simp: commitCaseControl_def q split: sum.splits option.splits prod.splits bool.splits if_splits)
  then show ?thesis using mv by (auto intro: db_move_later)
qed

text \<open>The operations that answer without touching a row.\<close>

lemma reading_moves:
  "jr_CheckDecisionWriter env s = (ru, s') \<Longrightarrow> db_move act T s s'"
  "jr_GetByClaimToken t s = (rj, s') \<Longrightarrow> db_move act T s s'"
  "jr_GetByCase k s = (rj, s') \<Longrightarrow> db_move act T s s'"
  "cr_Get k s = (rc, s') \<Longrightarrow> db_move act T s s'"
  "jr_ListRunnable now s = (rl, s') \<Longrightarrow> db_move act T s s'"
  "jr_CountActiveByUser u s = (rn, s') \<Longrightarrow> db_move act T s s'"
  "ExecutionSettled x s = (rb, s') \<Longrightarrow> db_move act T s s'"
  using idle_same idle_later
  by (auto simp: jr_CheckDecisionWriter_def jr_GetByCase_def cr_Get_def jr_ListRunnable_def jr_CountActiveByUser_def
      ExecutionSettled_def dest!: query_state getByClaimToken_state split: option.splits if_splits)

lemma job_moves:
  "jr_Heartbeat j c w g l now s = (r, s') \<Longrightarrow> db_move act T s s'"
  "jr_MarkSucceeded j c w g now s = (r, s') \<Longrightarrow> db_move act T s s'"
  "jr_MarkFailed j c w g err when now s = (r, s') \<Longrightarrow> db_move act T s s'"
  "jr_CancelOwned j c w g now s = (r, s') \<Longrightarrow> db_move act T s s'"
  "jr_MarkPausedOwned j c w g now s = (r, s') \<Longrightarrow> db_move act T s s'"
  "jr_Cancel j s = (r, s') \<Longrightarrow> db_move act T s s'"
  "jr_MarkPaused j s = (r, s') \<Longrightarrow> db_move act T s s'"
  "jr_ResumeQueued j now s = (r, s') \<Longrightarrow> db_move True T s s'"
  using idle_same
  by (auto simp: jr_Heartbeat_def jr_MarkSucceeded_def jr_MarkFailed_def jr_CancelOwned_def jr_MarkPausedOwned_def
      jr_Cancel_def jr_MarkPaused_def jr_ResumeQueued_def touched_def release_job_def isActiveJob_def
      split: if_splits option.splits elim!: owned_update_move external_update_move)

lemma appended_rows:
  "\<exists>as cks. (later s)\<lparr> jd_artifact := jd_artifact s @ [b] \<rparr> = (later s)\<lparr> jd_artifact := jd_artifact s @ as, jd_checkpoint := cks \<rparr>"
  "\<exists>as cks. (later s)\<lparr> jd_checkpoint := rows \<rparr> = (later s)\<lparr> jd_artifact := jd_artifact s @ as, jd_checkpoint := cks \<rparr>"
  "\<exists>as cks. later s = (later s)\<lparr> jd_artifact := jd_artifact s @ as, jd_checkpoint := cks \<rparr>"
proof -
  show "\<exists>as cks. (later s)\<lparr> jd_artifact := jd_artifact s @ [b] \<rparr> = (later s)\<lparr> jd_artifact := jd_artifact s @ as, jd_checkpoint := cks \<rparr>"
    by (rule exI [of _ "[b]"], rule exI [of _ "jd_checkpoint s"]) (simp add: later_def)
  show "\<exists>as cks. (later s)\<lparr> jd_checkpoint := rows \<rparr> = (later s)\<lparr> jd_artifact := jd_artifact s @ as, jd_checkpoint := cks \<rparr>"
    by (rule exI [of _ "[]"], rule exI [of _ rows]) (simp add: later_def)
  show "\<exists>as cks. later s = (later s)\<lparr> jd_artifact := jd_artifact s @ as, jd_checkpoint := cks \<rparr>"
    by (rule exI [of _ "[]"], rule exI [of _ "jd_checkpoint s"]) (simp add: later_def)
qed

lemma artifact_moves:
  "CreateOwned owner a now s = (ru, s') \<Longrightarrow> db_move act T s s'"
  "SaveCheckpointOwned owner st now s = (ru, s') \<Longrightarrow> db_move act T s s'"
  "LoadCheckpointOwned owner run now s = (rs, s') \<Longrightarrow> db_move act T s s'"
  using idle_same appended_rows [where s = s]
  by (auto simp: CreateOwned_def SaveCheckpointOwned_def LoadCheckpointOwned_def
      split: option.splits if_splits elim!: withActiveExecution_move)

text \<open>The operations that may make a job active.\<close>

fun activates :: "DbOp \<Rightarrow> bool" where
  "activates (OpAdmit c n u now j) = True"
| "activates (OpResumeQueued j now) = True"
| "activates (OpResumeControl c now) = True"
| "activates op = False"

text \<open>The tokens an operation may leave in the registry of claims.\<close>

fun claim_tokens :: "DbOp \<Rightarrow> string set" where
  "claim_tokens (OpClaim j w t l now) = {t}"
| "claim_tokens op = {}"

theorem db_exec_move:
  assumes "jobs_ok s"
  shows "db_move (activates op) (claim_tokens op) s (snd (db_exec env op s))"
  by (cases op) (simp_all add: reply_def admit_move [OF assms, OF surjective_pairing]
      claim_move [OF assms surjective_pairing] reading_moves [OF surjective_pairing] job_moves [OF surjective_pairing]
      requeue_move [OF surjective_pairing] CommitFinalFailure_move [OF assms, OF surjective_pairing]
      CommitStatusTransitionOwned_move [OF surjective_pairing] ResetCaseForRetryOwned_move [OF surjective_pairing]
      CommitTerminalOwned_move [OF surjective_pairing] artifact_moves [OF surjective_pairing]
      commitCaseControl_move [OF assms _ surjective_pairing])

end
