(* ===== verification/JobInvariants.thy ===== *)
theory JobInvariants
  imports JobMoves
begin

text \<open>
  Every move of the job store keeps the invariant of its tables, claims are never removed, and the
  fate of a case is told the same way by its status, its job, its events and its resolution.
\<close>

section \<open>The tables\<close>

lemma touched_refl [simp]: "touched j j"
  by (simp add: touched_def)

lemma latest_claim_touched: "latest_claim m j \<Longrightarrow> touched j j' \<Longrightarrow> latest_claim m j'"
  by (auto simp: latest_claim_def claim_of_def touched_def)

lemma jobs_ok_touch:
  assumes "jobs_ok s" and "jd_job s' = map g (jd_job s)" and "\<And>r. r \<in> set (jd_job s) \<Longrightarrow> touched r (g r)"
    and "jd_case s' = map h (jd_case s)"
    and "\<And>c. c \<in> set (jd_case s) \<Longrightarrow> c_ID (h c) = c_ID c \<and> c_ExecutionGeneration (h c) = c_ExecutionGeneration c"
    and "jd_claim s' = jd_claim s"
  shows "jobs_ok s'"
proof -
  have ids: "map c_ID (jd_case s') = map c_ID (jd_case s)" "map jm_ID (jd_job s') = map jm_ID (jd_job s)"
      "map jm_CaseID (jd_job s') = map jm_CaseID (jd_job s)"
    using assms(3,5) by (auto simp: assms(2,4) touched_def)
  have keys: "keys_ok s'" using assms(1,6) ids by (simp add: jobs_ok_def keys_ok_def)
  have "generations_ok s'"
    using assms(1) assms(3,5) unfolding jobs_ok_def generations_ok_def assms(2,4) by (auto simp: touched_def)
  moreover have "claims_ok s'"
    unfolding claims_ok_def
  proof (intro conjI ballI)
    fix m assume "m \<in> set (jd_claim s')"
    then obtain j where "j \<in> set (jd_job s)" "claim_of m j" "0 < jc_ExecutionGeneration m" "jc_ExecutionGeneration m \<le> jm_ExecutionGeneration j"
      using assms(1,6) by (auto simp: jobs_ok_def claims_ok_def)
    then show "\<exists>j \<in> set (jd_job s'). claim_of m j \<and> 0 < jc_ExecutionGeneration m \<and> jc_ExecutionGeneration m \<le> jm_ExecutionGeneration j"
      using assms(3) [of j] by (intro bexI [of _ "g j"]) (auto simp: assms(2) claim_of_def touched_def)
  next
    show "distinct (map (\<lambda>m. (jc_JobID m, jc_ExecutionGeneration m)) (jd_claim s'))"
      using assms(1,6) by (simp add: jobs_ok_def claims_ok_def)
  next
    fix j' assume "j' \<in> set (jd_job s')"
    then obtain j where j: "j \<in> set (jd_job s)" "j' = g j" by (auto simp: assms(2))
    have "jm_ExecutionGeneration j = 0 \<and> jm_ClaimToken j = None \<and> jm_Status j \<noteq> DecisionJobRunning \<or>
        (\<exists>m \<in> set (jd_claim s). latest_claim m j)"
      using assms(1) j(1) by (auto simp: jobs_ok_def claims_ok_def)
    then show "jm_ExecutionGeneration j' = 0 \<and> jm_ClaimToken j' = None \<and> jm_Status j' \<noteq> DecisionJobRunning \<or>
        (\<exists>m \<in> set (jd_claim s'). latest_claim m j')"
      using assms(3) [OF j(1)] latest_claim_touched j(2) assms(6) by (auto simp: touched_def)
  qed
  ultimately show ?thesis using keys by (simp add: jobs_ok_def)
qed

lemma jobs_ok_admit:
  assumes "jobs_ok s" and "find_case c s = Some k" and "find_job c s = None" and "\<forall>r \<in> set (jd_job s). jm_ID r \<noteq> j"
  shows "jobs_ok (s\<lparr> jd_job := jd_job s @ [new_job j c n now], jd_faults := fs \<rparr>)"
proof -
  have k: "k \<in> set (jd_case s)" "c_ID k = c" using case_unique(1,2) [OF assms(1,2)] by simp_all
  have c: "jm_CaseID r \<noteq> c" if "r \<in> set (jd_job s)" for r
    using assms(3) that unfolding find_job_def find_None_iff by blast
  have k0: "c_ExecutionGeneration k = 0" using assms(1) k c by (auto simp: jobs_ok_def generations_ok_def)
  let ?s = "s\<lparr> jd_job := jd_job s @ [new_job j c n now], jd_faults := fs \<rparr>"
  have new: "jm_ID (new_job j c n now) = j" "jm_CaseID (new_job j c n now) = c" "jm_ClaimToken (new_job j c n now) = None"
      "jm_ExecutionGeneration (new_job j c n now) = 0" "jm_Status (new_job j c n now) = DecisionJobQueued"
    by (simp_all add: new_job_def)
  have "keys_ok ?s" using assms(1,4) c by (auto simp: jobs_ok_def keys_ok_def new)
  moreover have "generations_ok ?s"
    using assms(1) k k0 by (auto simp: jobs_ok_def generations_ok_def new max_int64_def)
  moreover have "claims_ok ?s"
    using assms(1) by (auto simp: jobs_ok_def claims_ok_def new)
  ultimately show ?thesis by (simp add: jobs_ok_def)
qed

lemma jobs_ok_claim:
  assumes "jobs_ok s" and j: "j \<in> set (jd_job s)" "find_case (jm_CaseID j) s = Some c"
    and g: "c_ExecutionGeneration c = jm_ExecutionGeneration j" "jm_ExecutionGeneration j \<noteq> max_int64"
    and t: "\<forall>m \<in> set (jd_claim s). jc_ClaimToken m \<noteq> t"
    and s': "s' = s\<lparr>
      jd_case := update_rows (\<lambda>x. c_ID x = jm_CaseID j)
        (\<lambda>x. x\<lparr> c_ExecutionGeneration := jm_ExecutionGeneration j + 1, c_UpdatedAt := now \<rparr>) (jd_case s),
      jd_job := update_rows (\<lambda>r. jm_ID r = jm_ID j) (claim_job w t l) (jd_job s),
      jd_claim := jd_claim s @ [claim_record now l t (claim_job w t l j)], jd_faults := fs \<rparr>"
  shows "jobs_ok s'"
proof -
  let ?j = "claim_job w t l j" and ?m = "claim_record now l t (claim_job w t l j)"
  have u: "jm_ID r = jm_ID j \<longleftrightarrow> r = j" "jm_CaseID r = jm_CaseID j \<longleftrightarrow> r = j" if "r \<in> set (jd_job s)" for r
    using job_unique [OF assms(1) j(1) that] by simp_all
  have ids: "map c_ID (jd_case s') = map c_ID (jd_case s)" "map jm_ID (jd_job s') = map jm_ID (jd_job s)"
      "map jm_CaseID (jd_job s') = map jm_CaseID (jd_job s)"
    by (auto simp: s' update_rows_def claim_job_def)
  have keys: "keys_ok s'" using assms(1) t ids by (auto simp: s' jobs_ok_def keys_ok_def claim_record_def)
  have jset: "set (jd_job s') = insert ?j (set (jd_job s) - {j})"
    using u(1) j(1) by (auto simp: s' update_rows_def)
  have gj: "0 \<le> jm_ExecutionGeneration j" "jm_ExecutionGeneration j < max_int64"
    using assms(1) j(1) g(2) by (fastforce simp: jobs_ok_def generations_ok_def)+
  have "generations_ok s'"
  proof -
    have cset: "x \<in> set (jd_case s) \<Longrightarrow> c_ID x \<noteq> jm_CaseID j \<Longrightarrow> x \<in> set (jd_case s')" for x
      by (force simp: s' update_rows_def)
    have "\<exists>x \<in> set (jd_case s'). c_ID x = jm_CaseID j \<and> c_ExecutionGeneration x = jm_ExecutionGeneration j + 1"
      using case_unique(1,2) [OF assms(1) j(2)]
      by (intro bexI [of _ "c\<lparr> c_ExecutionGeneration := jm_ExecutionGeneration j + 1, c_UpdatedAt := now \<rparr>"])
        (auto simp: s' update_rows_def)
    moreover have "\<exists>x \<in> set (jd_case s'). c_ID x = jm_CaseID r \<and> c_ExecutionGeneration x = jm_ExecutionGeneration r"
      if "r \<in> set (jd_job s)" "r \<noteq> j" for r
      using assms(1) that u(2) [of r] cset by (fastforce simp: jobs_ok_def generations_ok_def)
    moreover have "c_ExecutionGeneration x = 0" if "x \<in> set (jd_case s')" "\<forall>r \<in> set (jd_job s'). jm_CaseID r \<noteq> c_ID x" for x
    proof -
      have nj: "c_ID x \<noteq> jm_CaseID j" using that(2) jset by (auto simp: claim_job_def)
      then have "x \<in> set (jd_case s)" using that(1) by (auto simp: s' update_rows_def split: if_splits)
      moreover have "\<forall>r \<in> set (jd_job s). jm_CaseID r \<noteq> c_ID x" using that(2) nj by (auto simp: jset)
      ultimately show ?thesis using assms(1) by (auto simp: jobs_ok_def generations_ok_def)
    qed
    ultimately show ?thesis
      using assms(1) gj unfolding jobs_ok_def generations_ok_def jset by (auto simp: claim_job_def)
  qed
  moreover have "claims_ok s'"
  proof -
    have old: "m \<in> set (jd_claim s) \<Longrightarrow> \<exists>r \<in> set (jd_job s). claim_of m r \<and> 0 < jc_ExecutionGeneration m \<and>
        jc_ExecutionGeneration m \<le> jm_ExecutionGeneration r" for m
      using assms(1) by (auto simp: jobs_ok_def claims_ok_def)
    have "(jm_ID j, jm_ExecutionGeneration j + 1) \<noteq> (jc_JobID m, jc_ExecutionGeneration m)" if "m \<in> set (jd_claim s)" for m
      using old [OF that] u(1) by (force simp: claim_of_def)
    then have "distinct (map (\<lambda>m. (jc_JobID m, jc_ExecutionGeneration m)) (jd_claim s'))"
      using assms(1) by (auto simp: s' claim_record_def claim_job_def jobs_ok_def claims_ok_def)
    moreover have "\<exists>r \<in> set (jd_job s'). claim_of m r \<and> 0 < jc_ExecutionGeneration m \<and> jc_ExecutionGeneration m \<le> jm_ExecutionGeneration r"
      if "m \<in> set (jd_claim s)" for m
      using old [OF that] unfolding jset by (fastforce simp: claim_of_def claim_job_def)
    moreover have "claim_of ?m ?j" "latest_claim ?m ?j" "0 < jc_ExecutionGeneration ?m" "jc_ExecutionGeneration ?m \<le> jm_ExecutionGeneration ?j"
      using gj by (simp_all add: claim_of_def latest_claim_def claim_record_def claim_job_def)
    moreover have "jm_ExecutionGeneration r = 0 \<and> jm_ClaimToken r = None \<and> jm_Status r \<noteq> DecisionJobRunning \<or>
        (\<exists>m \<in> set (jd_claim s). latest_claim m r)" if "r \<in> set (jd_job s)" for r
      using assms(1) that by (auto simp: jobs_ok_def claims_ok_def)
    moreover have cset: "set (jd_claim s') = insert ?m (set (jd_claim s))" by (simp add: s')
    ultimately show ?thesis
      unfolding claims_ok_def cset using jset by auto
  qed
  ultimately show ?thesis using keys by (simp add: jobs_ok_def)
qed

lemma update_rows_map: "update_rows P f rows = map (\<lambda>r. if P r then f r else r) rows"
  by (simp add: update_rows_def)

theorem move_jobs_ok:
  assumes "db_move act T s s'" and "jobs_ok s"
  shows "jobs_ok s'"
  using assms(1)
proof cases
  case (idle fs)
  then show ?thesis using jobs_ok_touch [OF assms(2), of s' id id] by simp
next
  case (admit c k j n now fs)
  then show ?thesis using jobs_ok_admit [OF assms(2)] by simp
next
  case (jobs P f fs)
  then show ?thesis using jobs_ok_touch [OF assms(2), of s' "\<lambda>r. if P r then f r else r" id]
    by (simp add: update_rows_map)
next
  case (claim t j c fs now l w)
  then show ?thesis by (intro jobs_ok_claim [OF assms(2)]) simp_all
next
  case (commit x now job c target evs ress jst cur err fs)
  define g where "g = (\<lambda>r. if jst \<noteq> None \<and> jm_ID r = jm_ID job then (release_job (the jst) r)\<lparr> jm_LastError := err \<rparr> else r)"
  have "touched r (g r)" for r
    using commit(5) by (auto simp: g_def touched_def release_job_def outcome_def split: if_splits)
  moreover have "jd_job s' = map g (jd_job s)"
    by (cases jst) (simp_all add: commit(1) settle_rows_def g_def update_rows_map)
  ultimately show ?thesis
    by (intro jobs_ok_touch [OF assms(2), of s' g "\<lambda>r. if c_ID r = x_CaseID x \<and> c_ExecutionGeneration r = x_ExecutionGeneration x \<and>
          c_Status r = c_Status c then r\<lparr> c_Status := target, c_UpdatedAt := now \<rparr> else r"])
      (simp_all add: commit(1) set_status_def update_rows_map)
next
  case (store x now job c as cks fs)
  then show ?thesis using jobs_ok_touch [OF assms(2), of s' id id] by simp
next
  case (control k c resume target pausedFrom fs now)
  show ?thesis
    by (intro jobs_ok_touch [OF assms(2), of s' "\<lambda>r. if jm_CaseID r = k then control_job target resume now r else r"
        "\<lambda>r. if c_ID r = k then control_case target pausedFrom resume now r else r"])
      (simp_all add: control(1) update_rows_map touched_def control_job_def control_case_def release_job_def
        control_job_status_def Let_def)
qed

lemma db_exec_ok: "jobs_ok s \<Longrightarrow> jobs_ok (snd (db_exec env op s))"
  using move_jobs_ok db_exec_move by blast

lemma db_run_ok: "jobs_ok s \<Longrightarrow> jobs_ok (db_run env ops s)"
  by (induction env ops s rule: db_run.induct) (simp_all add: db_exec_ok)

section \<open>The fate of a case\<close>

definition completed_events :: "string \<Rightarrow> JobDb \<Rightarrow> EventModel list" where
  "completed_events k s = filter (\<lambda>e. em_CaseID e = k \<and> em_Type e = EventCaseCompleted) (jd_event s)"

definition case_resolutions :: "string \<Rightarrow> JobDb \<Rightarrow> Resolution list" where
  "case_resolutions k s = filter (\<lambda>r. r_CaseID r = k) (jd_resolution s)"

definition job_succeeded :: "string \<Rightarrow> JobDb \<Rightarrow> bool" where
  "job_succeeded k s \<longleftrightarrow> list_ex (\<lambda>j. jm_CaseID j = k \<and> jm_Status j = DecisionJobSucceeded) (jd_job s)"

text \<open>
  A case is resolved or deadlocked exactly if there is one completion event for it, of its generation;
  then its job succeeded, and it has one resolution if it is resolved and none otherwise. A
  paused case was paused in an open status.
\<close>

definition told :: "JobDb \<Rightarrow> DecisionCase \<Rightarrow> bool" where
  "told s c \<longleftrightarrow>
     (if c_Status c \<in> {CaseStatusResolved, CaseStatusDeadlocked} then
        map em_ExecutionGeneration (completed_events (c_ID c) s) = [c_ExecutionGeneration c] \<and>
        map r_ExecutionGeneration (case_resolutions (c_ID c) s) =
          (if c_Status c = CaseStatusResolved then [c_ExecutionGeneration c] else []) \<and>
        job_succeeded (c_ID c) s
      else completed_events (c_ID c) s = [] \<and> case_resolutions (c_ID c) s = [] \<and>
        (c_Status c = CaseStatusPaused \<longrightarrow> \<not> isPublicTerminalCaseStatus (c_PausedFromStatus c) \<and>
           c_PausedFromStatus c \<noteq> CaseStatusPaused))"

definition outcomes_ok :: "JobDb \<Rightarrow> bool" where
  "outcomes_ok s \<longleftrightarrow> (\<forall>c \<in> set (jd_case s). told s c)"

lemma told_frame:
  assumes "told s c" and "c_Status c' = c_Status c" "c_ID c' = c_ID c" "c_PausedFromStatus c' = c_PausedFromStatus c"
    and "c_ExecutionGeneration c' = c_ExecutionGeneration c"
    and "completed_events (c_ID c) s' = completed_events (c_ID c) s"
    and "case_resolutions (c_ID c) s' = case_resolutions (c_ID c) s"
    and "job_succeeded (c_ID c) s \<Longrightarrow> job_succeeded (c_ID c) s'"
  shows "told s' c'"
  using assms by (auto simp: told_def split: if_splits)

lemma job_succeeded_update:
  assumes "job_succeeded k s" and "jd_job s' = map g (jd_job s)"
    and "\<And>r. r \<in> set (jd_job s) \<Longrightarrow> jm_CaseID r = k \<Longrightarrow> jm_Status r = DecisionJobSucceeded \<Longrightarrow> g r = r"
  shows "job_succeeded k s'"
proof -
  obtain r where r: "r \<in> set (jd_job s)" "jm_CaseID r = k" "jm_Status r = DecisionJobSucceeded"
    using assms(1) by (auto simp: job_succeeded_def list_ex_iff)
  then show ?thesis using assms(3) [OF r] by (auto simp: job_succeeded_def list_ex_iff assms(2) intro!: bexI [of _ r])
qed

lemma lockActiveExecutionD:
  assumes "jobs_ok s" and "lockActiveExecution (Some x) now s = Inr (job, c)"
  shows "job \<in> set (jd_job s)" "jm_ID job = x_JobID x" "jm_CaseID job = x_CaseID x" "jm_Status job = DecisionJobRunning"
    "jm_WorkerID job = x_WorkerID x" "jm_ExecutionGeneration job = x_ExecutionGeneration x"
    "\<exists>l. jm_LeaseUntil job = Some l \<and> now < l"
    "c \<in> set (jd_case s)" "c_ID c = x_CaseID x" "c_ExecutionGeneration c = x_ExecutionGeneration x"
    "0 < x_ExecutionGeneration x"
  using assms(2) case_unique(1,2) [OF assms(1)]
  by (auto simp: lockActiveExecution_def lockExecutionRows_def validateActiveExecutionAt_def IsDurable_def
      split: if_splits option.splits dest!: find_SomeD)

lemma outcomes_commit:
  assumes "jobs_ok s" and "outcomes_ok s" and lock: "lockActiveExecution (Some x) now s = Inr (job, c)"
    and st: "\<not> isPublicTerminalCaseStatus (c_Status c)" "c_Status c \<noteq> CaseStatusPaused"
    and out: "outcome x target evs ress jst"
    and s': "s' = s\<lparr> jd_case := set_status (x_CaseID x) (x_ExecutionGeneration x) (c_Status c) target now (jd_case s),
      jd_event := jd_event s @ evs, jd_cursor := cur, jd_resolution := jd_resolution s @ ress,
      jd_job := settle_rows (jm_ID job) jst err (jd_job s), jd_faults := fs \<rparr>"
  shows "outcomes_ok s'"
  unfolding outcomes_ok_def
proof
  note L = lockActiveExecutionD [OF assms(1) lock]
  fix c' assume "c' \<in> set (jd_case s')"
  then obtain d where d: "d \<in> set (jd_case s)"
      "c' = (if c_ID d = x_CaseID x \<and> c_ExecutionGeneration d = x_ExecutionGeneration x \<and> c_Status d = c_Status c
        then d\<lparr> c_Status := target, c_UpdatedAt := now \<rparr> else d)"
    by (auto simp: s' set_status_def update_rows_map)
  have told_d: "told s d" using assms(2) d(1) by (simp add: outcomes_ok_def)
  have open_c: "completed_events (x_CaseID x) s = []" "case_resolutions (x_CaseID x) s = []"
    using assms(2) L(8,9) st by (auto simp: outcomes_ok_def told_def isPublicTerminalCaseStatus_def split: if_splits)
  show "told s' c'"
  proof (cases "c_ID d = x_CaseID x")
    case True
    then have "d = c" using key_unique [of c_ID "jd_case s" d c] assms(1) d(1) L(8,9) by (simp add: jobs_ok_def keys_ok_def)
    then have c': "c_ID c' = x_CaseID x" "c_Status c' = target" "c_ExecutionGeneration c' = x_ExecutionGeneration x"
      using d(2) L(9,10) by simp_all
    have ev: "completed_events (x_CaseID x) s' = filter (\<lambda>e. em_CaseID e = x_CaseID x \<and> em_Type e = EventCaseCompleted) evs"
      using open_c(1) by (simp add: completed_events_def s')
    have rs: "case_resolutions (x_CaseID x) s' = filter (\<lambda>r. r_CaseID r = x_CaseID x) ress"
      using open_c(2) by (simp add: case_resolutions_def s')
    have "job_succeeded (x_CaseID x) s'" if "jst = Some DecisionJobSucceeded"
    proof -
      let ?j = "(release_job DecisionJobSucceeded job)\<lparr> jm_LastError := err \<rparr>"
      have "?j \<in> set (jd_job s')" using that L(1) by (auto simp: s' settle_rows_def update_rows_map)
      then show ?thesis using L(3) by (auto simp: job_succeeded_def list_ex_iff release_job_def intro!: bexI [of _ ?j])
    qed
    then show ?thesis using out c' ev rs
      by (auto simp: told_def outcome_def filter_empty_conv split: if_splits)
  next
    case False
    then have "c' = d" using d(2) by simp
    moreover have "completed_events (c_ID d) s' = completed_events (c_ID d) s"
      using False out by (auto simp: completed_events_def s' outcome_def filter_empty_conv split: if_splits)
    moreover have "case_resolutions (c_ID d) s' = case_resolutions (c_ID d) s"
      using False out by (auto simp: case_resolutions_def s' outcome_def split: if_splits)
    moreover have "job_succeeded (c_ID d) s'" if "job_succeeded (c_ID d) s"
    proof (rule job_succeeded_update [OF that])
      show "jd_job s' = map (\<lambda>r. if jst \<noteq> None \<and> jm_ID r = jm_ID job then (release_job (the jst) r)\<lparr> jm_LastError := err \<rparr> else r) (jd_job s)"
        by (cases jst) (simp_all add: s' settle_rows_def update_rows_map)
    next
      fix r assume r: "r \<in> set (jd_job s)" "jm_CaseID r = c_ID d"
      then have "jm_ID r \<noteq> jm_ID job" using job_unique(1) [OF assms(1) L(1)] L(3) False by auto
      then show "(if jst \<noteq> None \<and> jm_ID r = jm_ID job then (release_job (the jst) r)\<lparr> jm_LastError := err \<rparr> else r) = r" by simp
    qed
    ultimately show ?thesis using told_frame [OF told_d] by blast
  qed
qed

lemma outcomes_control:
  assumes "jobs_ok s" and "outcomes_ok s" and c: "find_case k s = Some c"
    and resume: "resume \<Longrightarrow> c_Status c = CaseStatusPaused \<and>
       target = (if c_PausedFromStatus c = CaseStatusZero then CaseStatusDraft else c_PausedFromStatus c)"
    and other: "\<not> resume \<Longrightarrow> (target = CaseStatusPaused \<or> target = CaseStatusCancelled) \<and>
       (isPublicTerminalCaseStatus (c_Status c) \<longrightarrow> c_Status c = target)"
    and pf: "pf = (if target \<noteq> CaseStatusPaused then CaseStatusZero
       else if c_Status c = CaseStatusPaused then c_PausedFromStatus c else c_Status c)"
    and s': "s' = s\<lparr> jd_case := update_rows (\<lambda>x. c_ID x = k) (control_case target pf resume now) (jd_case s),
      jd_job := update_rows (\<lambda>r. jm_CaseID r = k) (control_job target resume now) (jd_job s), jd_faults := fs \<rparr>"
  shows "outcomes_ok s'"
  unfolding outcomes_ok_def
proof
  fix c' assume "c' \<in> set (jd_case s')"
  then obtain d where d: "d \<in> set (jd_case s)" "c' = (if c_ID d = k then control_case target pf resume now d else d)"
    by (auto simp: s' update_rows_map)
  have told_d: "told s d" using assms(2) d(1) by (simp add: outcomes_ok_def)
  have same: "completed_events i s' = completed_events i s" "case_resolutions i s' = case_resolutions i s" for i
    by (simp_all add: completed_events_def case_resolutions_def s')
  show "told s' c'"
  proof (cases "c_ID d = k")
    case True
    then have "d = c" using case_unique(3) [OF assms(1) c] d(1) by simp
    then have "told s c" "c' = control_case target pf resume now c" "c_ID c = k" using told_d d(2) True by simp_all
    then show ?thesis using resume other pf same
      by (cases resume) (auto simp: told_def control_case_def Let_def isPublicTerminalCaseStatus_def split: if_splits)
  next
    case False
    then have c': "c' = d" using d(2) by simp
    have "job_succeeded (c_ID d) s'" if "job_succeeded (c_ID d) s"
      by (rule job_succeeded_update [OF that, where g = "\<lambda>r. if jm_CaseID r = k then control_job target resume now r else r"])
        (use False in \<open>auto simp: s' update_rows_map\<close>)
    then show ?thesis using told_frame [OF told_d, of c' s'] same c' by simp
  qed
qed

lemma outcomes_claim:
  assumes "jobs_ok s" and "outcomes_ok s" and j: "j \<in> set (jd_job s)" "jm_Status j = DecisionJobQueued"
    and c: "find_case (jm_CaseID j) s = Some c" "\<not> isPublicTerminalCaseStatus (c_Status c)" "c_Status c \<noteq> CaseStatusPaused"
    and s': "s' = s\<lparr>
      jd_case := update_rows (\<lambda>x. c_ID x = jm_CaseID j)
        (\<lambda>x. x\<lparr> c_ExecutionGeneration := g, c_UpdatedAt := now \<rparr>) (jd_case s),
      jd_job := update_rows (\<lambda>r. jm_ID r = jm_ID j) (claim_job w t l) (jd_job s),
      jd_claim := ms, jd_faults := fs \<rparr>"
  shows "outcomes_ok s'"
  unfolding outcomes_ok_def
proof
  fix c' assume "c' \<in> set (jd_case s')"
  then obtain d where d: "d \<in> set (jd_case s)"
      "c' = (if c_ID d = jm_CaseID j then d\<lparr> c_ExecutionGeneration := g, c_UpdatedAt := now \<rparr> else d)"
    by (auto simp: s' update_rows_map)
  have told_d: "told s d" using assms(2) d(1) by (simp add: outcomes_ok_def)
  have same: "completed_events i s' = completed_events i s" "case_resolutions i s' = case_resolutions i s" for i
    by (simp_all add: completed_events_def case_resolutions_def s')
  show "told s' c'"
  proof (cases "c_ID d = jm_CaseID j")
    case True
    then have "d = c" using case_unique(3) [OF assms(1) c(1)] d(1) by simp
    then show ?thesis using told_d d(2) True same c(2,3)
      by (auto simp: told_def isPublicTerminalCaseStatus_def split: if_splits)
  next
    case False
    then have c': "c' = d" using d(2) by simp
    have "job_succeeded (c_ID d) s'" if "job_succeeded (c_ID d) s"
      by (rule job_succeeded_update [OF that, where g = "\<lambda>r. if jm_ID r = jm_ID j then claim_job w t l r else r"])
        (use j job_unique(1) [OF assms(1) j(1)] in \<open>auto simp: s' update_rows_map\<close>)
    then show ?thesis using told_frame [OF told_d, of c' s'] same c' by simp
  qed
qed

theorem move_outcomes_ok:
  assumes "db_move act T s s'" and "jobs_ok s" and "outcomes_ok s"
  shows "outcomes_ok s'"
proof -
  have frame: "outcomes_ok t" if "jd_case t = jd_case s" "jd_event t = jd_event s" "jd_resolution t = jd_resolution s"
      "\<And>k. job_succeeded k s \<Longrightarrow> job_succeeded k t" for t
    unfolding outcomes_ok_def
  proof
    fix c assume "c \<in> set (jd_case t)"
    then have "told s c" using assms(3) that(1) by (simp add: outcomes_ok_def)
    then show "told t c"
      by (rule told_frame) (simp_all add: that completed_events_def case_resolutions_def)
  qed
  from assms(1) show ?thesis
  proof cases
    case (idle fs)
    then show ?thesis by (auto intro!: frame simp: job_succeeded_def)
  next
    case (admit c k j n now fs)
    then show ?thesis by (auto intro!: frame simp: job_succeeded_def)
  next
    case (jobs P f fs)
    have "job_succeeded k s'" if "job_succeeded k s" for k
      by (rule job_succeeded_update [OF that, where g = "\<lambda>r. if P r then f r else r"])
        (use jobs in \<open>auto simp: update_rows_map\<close>)
    then show ?thesis by (intro frame) (simp_all add: jobs(1))
  next
    case (claim t j c fs now l w)
    then show ?thesis by (intro outcomes_claim [OF assms(2,3)]) simp_all
  next
    case (commit x now job c target evs ress jst)
    then show ?thesis by (intro outcomes_commit [OF assms(2,3)]) simp_all
  next
    case (store x now job c)
    then show ?thesis by (auto intro!: frame simp: job_succeeded_def)
  next
    case (control k c resume target pausedFrom)
    then show ?thesis by (intro outcomes_control [OF assms(2,3)]) simp_all
  qed
qed

text \<open>A terminal case keeps its status and its generation.\<close>

lemma move_terminal:
  assumes "db_move act T s s'" and "jobs_ok s" and "c \<in> set (jd_case s)" and "isPublicTerminalCaseStatus (c_Status c)"
  shows "\<exists>c' \<in> set (jd_case s'). c_ID c' = c_ID c \<and> c_Status c' = c_Status c \<and> c_ExecutionGeneration c' = c_ExecutionGeneration c"
  using assms(1)
proof cases
  case (claim t j d fs now l w)
  then have "c_ID c \<noteq> jm_CaseID j" using case_unique(3) [OF assms(2) claim(5)] assms(3,4) by auto
  then show ?thesis using assms(3) by (auto simp: claim(1) update_rows_map intro!: bexI [of _ c])
next
  case (commit x now job d target evs ress jst)
  then have "\<not> (c_ID c = x_CaseID x \<and> c_Status c = c_Status d)" using assms(4) by auto
  then show ?thesis using assms(3) by (auto simp: commit(1) set_status_def update_rows_map intro!: bexI [of _ c])
next
  case (control k d resume target pausedFrom fs now)
  show ?thesis
  proof (cases "c_ID c = k")
    case True
    then have "d = c" using case_unique(3) [OF assms(2) control(2)] assms(3) by simp
    then have nr: "\<not> resume" using control(4) assms(4) by (auto simp: isPublicTerminalCaseStatus_def)
    then have "c_Status c = target" using control(5) assms(4) \<open>d = c\<close> by blast
    moreover have "control_case target pausedFrom resume now c \<in> set (jd_case s')"
      using assms(3) True by (auto simp: control(1) update_rows_map)
    ultimately show ?thesis using nr
      by (intro bexI [of _ "control_case target pausedFrom resume now c"]) (simp_all add: control_case_def Let_def)
  next
    case False
    then show ?thesis using assms(3) by (auto simp: control(1) update_rows_map intro!: bexI [of _ c])
  qed
qed (use assms(3) in auto)

lemma db_run_outcomes: "jobs_ok s \<Longrightarrow> outcomes_ok s \<Longrightarrow> outcomes_ok (db_run env ops s)"
  by (induction env ops s rule: db_run.induct) (simp_all add: db_exec_ok move_outcomes_ok [OF db_exec_move])

lemma db_run_terminal:
  assumes "jobs_ok s" and "c \<in> set (jd_case s)" and "isPublicTerminalCaseStatus (c_Status c)"
  shows "\<exists>c' \<in> set (jd_case (db_run env ops s)). c_ID c' = c_ID c \<and> c_Status c' = c_Status c \<and>
    c_ExecutionGeneration c' = c_ExecutionGeneration c"
  using assms
proof (induction env ops s arbitrary: c rule: db_run.induct)
  case (2 env op ops s)
  obtain d where d: "d \<in> set (jd_case (snd (db_exec env op s)))" "c_ID d = c_ID c" "c_Status d = c_Status c"
      "c_ExecutionGeneration d = c_ExecutionGeneration c"
    using move_terminal [OF db_exec_move [OF 2(2)] 2(2-4)] by blast
  with 2(1) [OF db_exec_ok [OF 2(2)], of d] 2(4) show ?case by simp
qed auto

section \<open>Claims are never removed\<close>

lemma move_claims: "db_move act T s s' \<Longrightarrow> set (jd_claim s) \<subseteq> set (jd_claim s')"
  by (erule db_move.cases) auto

lemma move_claim_tokens:
  "db_move act T s s' \<Longrightarrow> m \<in> set (jd_claim s') \<Longrightarrow> m \<in> set (jd_claim s) \<or> jc_ClaimToken m \<in> T"
  by (erule db_move.cases) (auto simp: claim_record_def)

lemma db_run_claims: "jobs_ok s \<Longrightarrow> set (jd_claim s) \<subseteq> set (jd_claim (db_run env ops s))"
proof (induction env ops s rule: db_run.induct)
  case (2 env op ops s)
  then show ?case using move_claims [OF db_exec_move [OF 2(2), of op env]] db_exec_ok [OF 2(2), of env op] by auto
qed simp

end
