(* ===== verification/JobProps.thy ===== *)
theory JobProps
  imports JobInvariants
begin

text \<open>
  The properties of the job store over whole histories: which writes of an owner take effect, that a
  case is decided once, that a claim whose answer is lost is found again, the limit of active jobs
  per user, the way back from a crashed worker, and pause and resume.
\<close>

section \<open>Histories\<close>

text \<open>Before the first operation: drafts that nobody executed.\<close>

definition fresh_store :: "JobDb \<Rightarrow> bool" where
  "fresh_store s \<longleftrightarrow> distinct (map c_ID (jd_case s)) \<and>
     list_all (\<lambda>c. c_Status c = CaseStatusDraft \<and> c_ExecutionGeneration c = 0) (jd_case s) \<and>
     jd_job s = [] \<and> jd_claim s = [] \<and> jd_event s = [] \<and> jd_resolution s = []"

definition tables :: "JobDb \<Rightarrow> JobDb" where
  "tables s = s\<lparr> jd_faults := [] \<rparr>"

definition owner_key :: "ExecutionContext option \<Rightarrow> timestamp \<Rightarrow> (string \<times> string \<times> string \<times> int64 \<times> timestamp) option" where
  "owner_key x now = map_option (\<lambda>x. (x_JobID x, x_CaseID x, x_WorkerID x, x_ExecutionGeneration x, now)) x"

text \<open>The operations that act for an execution: its job, case, worker and generation, and the time.\<close>

fun op_owner :: "DbOp \<Rightarrow> (string \<times> string \<times> string \<times> int64 \<times> timestamp) option" where
  "op_owner (OpHeartbeat j c w g l now) = Some (j, c, w, g, now)"
| "op_owner (OpMarkSucceeded j c w g now) = Some (j, c, w, g, now)"
| "op_owner (OpMarkFailed j c w g e r now) = Some (j, c, w, g, now)"
| "op_owner (OpCancelOwned j c w g now) = Some (j, c, w, g, now)"
| "op_owner (OpMarkPausedOwned j c w g now) = Some (j, c, w, g, now)"
| "op_owner (OpCommitFinalFailure j w g c sts e ev now) = Some (j, c, w, g, now)"
| "op_owner (OpCommitStatusOwned x sts t ev now) = owner_key x now"
| "op_owner (OpResetCaseForRetryOwned x sts now) = owner_key x now"
| "op_owner (OpCommitTerminalOwned x st t r ev now) = owner_key x now"
| "op_owner (OpCreateOwned x a now) = owner_key x now"
| "op_owner (OpSaveForExecution x st now) = owner_key x now"
| "op_owner (OpLoadForExecution x r now) = owner_key x now"
| "op_owner op = None"

text \<open>The answer reports success.\<close>

fun acknowledged :: "DbReply \<Rightarrow> bool" where
  "acknowledged (RpUnit r) = is_ok r"
| "acknowledged (RpBool r) = (r = Inr True)"
| "acknowledged (RpState r) = is_ok r"
| "acknowledged _ = False"

text \<open>The job is running for this worker and generation, and its lease has not expired.\<close>

definition leased :: "JobDb \<Rightarrow> string \<Rightarrow> string \<Rightarrow> string \<Rightarrow> int64 \<Rightarrow> timestamp \<Rightarrow> DecisionJobModel \<Rightarrow> bool" where
  "leased s j c w g now r \<longleftrightarrow> r \<in> set (jd_job s) \<and> jm_ID r = j \<and> jm_CaseID r = c \<and> jm_Status r = DecisionJobRunning \<and>
     jm_WorkerID r = w \<and> jm_ExecutionGeneration r = g \<and> (\<exists>l. jm_LeaseUntil r = Some l \<and> now < l)"

definition sample_case :: "string \<Rightarrow> int64 \<Rightarrow> DecisionCase" where
  "sample_case k u =
     \<lparr> c_ID = k, c_UserID = u, c_Question = ''q'', c_Context = [], c_Constraints = [], c_ParentCaseID = [],
       c_Status = CaseStatusDraft, c_CurrentPhase = [], c_Pinned = False, c_Archived = False, c_ExecutionAttempt = 0,
       c_ExecutionGeneration = 0, c_PausedFromStatus = CaseStatusZero, c_MaxDebateRounds = 1, c_Deadline = None,
       c_CreatedAt = 0, c_UpdatedAt = 0 \<rparr>"

definition sample_store :: JobDb where
  "sample_store =
     \<lparr> jd_case = [sample_case ''c1'' 7, sample_case ''c2'' 7], jd_job = [], jd_claim = [], jd_event = [], jd_cursor = [],
       jd_resolution = [], jd_artifact = [], jd_checkpoint = [],
       jd_contract = Some \<lparr> wc_ContractVersion = 1, wc_AdmissionState = ''ENABLED'', wc_CutoverEpoch = 1,
         wc_LegacyRollbackForbidden = True, wc_WriterAccount = ''magi'' \<rparr>,
       jd_faults = [] \<rparr>"

definition sample_job_env :: JobEnv where
  "sample_job_env = \<lparr> je_account = Some ''magi'', je_validUUID = (\<lambda>t. t \<noteq> []) \<rparr>"

text \<open>A worker claims a job, crashes, and a second worker takes over; then the first one wakes up.\<close>

definition sample_history :: "DbOp list" where
  "sample_history =
     [OpAdmit ''c1'' 3 1 0 ''j1'', OpClaim ''j1'' ''w1'' ''t1'' 10 1, OpRequeueExpired 20,
      OpClaim ''j1'' ''w2'' ''t2'' 40 21]"

definition sample_owner :: ExecutionContext where
  "sample_owner = \<lparr> x_CaseID = ''c1'', x_JobID = ''j1'', x_RunID = [], x_WorkerID = ''w2'', x_JobAttempt = 2,
     x_ExecutionGeneration = 2 \<rparr>"

definition sample_event :: IdEvent where
  "sample_event = \<lparr> me_CaseID = ''c1'', me_ExecutionGeneration = 2, me_Type = EventCaseCompleted, me_Payload = PNil,
     me_ID = ''e1'' \<rparr>"

definition sample_decision :: DbOp where
  "sample_decision =
     OpCommitTerminalOwned (Some sample_owner) CaseStatusDraft CaseStatusDeadlocked None (Some sample_event) 30"

text \<open>The admission works; the claim commits but its answer is lost, and so is that of the recovery.\<close>

definition sample_lossy :: JobDb where
  "sample_lossy = sample_store\<lparr> jd_faults := [TxWorks, TxAnswerLost (Errorf ''connection reset''), TxRefused (Errorf ''timeout'')] \<rparr>"

lemmas sample_defs = sample_case_def sample_store_def sample_job_env_def sample_history_def sample_owner_def sample_event_def

lemma fresh_jobs_ok: "fresh_store s \<Longrightarrow> jobs_ok s"
  by (auto simp: fresh_store_def jobs_ok_def keys_ok_def generations_ok_def claims_ok_def list_all_iff)

lemma fresh_outcomes_ok: "fresh_store s \<Longrightarrow> outcomes_ok s"
  by (auto simp: fresh_store_def outcomes_ok_def told_def completed_events_def case_resolutions_def list_all_iff)

lemma sample_fresh: "fresh_store sample_store"
  by (simp add: fresh_store_def sample_defs)

section \<open>Writes of an owner\<close>

lemma tables_later [simp]: "tables (later s) = tables s"
  by (simp add: tables_def later_def)

lemma txn_effect:
  assumes "txn body s = (r, v, s')" and "tables s' \<noteq> tables s \<or> is_ok r \<or> v \<noteq> None"
  shows "\<exists>u s''. body (later s) = (Inr u, s'')"
proof (cases v)
  case (Some u)
  then show ?thesis using assms(1) by (auto elim: txn_done)
next
  case None
  then show ?thesis using assms txn_result [OF assms(1)] by (cases r) (auto dest: txn_success)
qed

lemma stmt_effect:
  assumes "stmt body s = (r, s')" and "tables s' \<noteq> tables s \<or> is_ok r"
  shows "\<exists>u s''. body (later s) = (Inr u, s'')"
  using assms stmt_result [OF assms(1)] by (cases r) (auto dest: stmt_success)

lemma owned_update_leased:
  assumes "owned_update what f j c w g now s = (r, s')" and "tables s' \<noteq> tables s \<or> is_ok r"
  shows "\<exists>x. leased s j c w g now x"
proof -
  have "affected (activeDecisionJobOwner (later s) j c w g now) (jd_job s) \<noteq> 0"
    using stmt_effect [OF assms [unfolded owned_update_def]] by (auto simp: Let_def split: if_splits)
  then show ?thesis by (auto simp: affected_pos activeDecisionJobOwner_def leased_def split: option.splits)
qed

lemma lock_leased:
  assumes "jobs_ok s" and "lockActiveExecution (Some x) now s = Inr jc"
  shows "\<exists>r. leased s (x_JobID x) (x_CaseID x) (x_WorkerID x) (x_ExecutionGeneration x) now r"
  using lockActiveExecutionD [OF assms(1), of x now "fst jc" "snd jc"] assms(2) unfolding leased_def by auto

lemma caseCommit_leased:
  assumes "jobs_ok s" and "caseCommit x ev target terminal res write now s = (r, s')"
    and "tables s' \<noteq> tables s \<or> r = Inr True"
  shows "\<exists>r. leased s (x_JobID x) (x_CaseID x) (x_WorkerID x) (x_ExecutionGeneration x) now r"
proof -
  let ?body = "\<lambda>s. case lockActiveExecution (Some x) now s of Inl e \<Rightarrow> (Inl e, s) | Inr (job, c) \<Rightarrow> write job c s"
  obtain q v s1 where q: "txn ?body s = (q, v, s1)" by (rule prod_cases3)
  obtain b s2 where b: "confirmCaseCommit x target ev terminal res s1 = (b, s2)" by fastforce
  have "tables s1 \<noteq> tables s \<or> is_ok q \<or> v \<noteq> None"
    using assms(2,3) confirmCaseCommit_state [OF b]
    by (auto simp: caseCommit_def q b split: sum.splits option.splits bool.splits if_splits)
  from txn_effect [OF q this] obtain jc where "lockActiveExecution (Some x) now s = Inr jc"
    by (auto split: sum.splits)
  then show ?thesis by (rule lock_leased [OF assms(1)])
qed

lemma withActive_leased:
  assumes "jobs_ok s" and "withActiveExecution (Some x) write now s = (r, s')" and "tables s' \<noteq> tables s \<or> is_ok r"
  shows "\<exists>r. leased s (x_JobID x) (x_CaseID x) (x_WorkerID x) (x_ExecutionGeneration x) now r"
proof -
  have st: "stmt (\<lambda>s. case lockActiveExecution (Some x) now s of Inl e \<Rightarrow> (Inl e, s) | Inr _ \<Rightarrow> write s) s = (r, s')"
    using assms(2,3) by (auto simp: withActiveExecution_def split: if_splits)
  from stmt_effect [OF st assms(3)] obtain jc where "lockActiveExecution (Some x) now s = Inr jc"
    by (auto split: sum.splits)
  then show ?thesis by (rule lock_leased [OF assms(1)])
qed

lemma failure_owner_sel [simp]:
  "x_JobID (failure_owner j c w g) = j" "x_CaseID (failure_owner j c w g) = c" "x_WorkerID (failure_owner j c w g) = w"
  "x_ExecutionGeneration (failure_owner j c w g) = g"
  by (simp_all add: failure_owner_def)

lemma owned_op_leased:
  assumes "jobs_ok s" and "op_owner op = Some (j, c, w, g, now)"
    and "tables (snd (db_exec env op s)) \<noteq> tables s \<or> acknowledged (fst (db_exec env op s))"
  shows "\<exists>r. leased s j c w g now r"
proof -
  note upd = owned_update_leased [OF surjective_pairing disjI1] owned_update_leased [OF surjective_pairing disjI2]
    and com = caseCommit_leased [OF assms(1) surjective_pairing disjI1] caseCommit_leased [OF assms(1) surjective_pairing disjI2]
    and wth = withActive_leased [OF assms(1) surjective_pairing disjI1] withActive_leased [OF assms(1) surjective_pairing disjI2]
  show ?thesis
  proof (cases op)
    case (OpHeartbeat j' c' w' g' l now')
    then show ?thesis using assms(2,3) by (auto dest: upd simp: reply_def jr_Heartbeat_def split: if_splits)
  next
    case (OpMarkSucceeded j' c' w' g' now')
    then show ?thesis using assms(2,3) by (auto dest: upd simp: reply_def jr_MarkSucceeded_def)
  next
    case (OpMarkFailed j' c' w' g' e r now')
    then show ?thesis using assms(2,3) by (auto dest: upd simp: reply_def jr_MarkFailed_def)
  next
    case (OpCancelOwned j' c' w' g' now')
    then show ?thesis using assms(2,3) by (auto dest: upd simp: reply_def jr_CancelOwned_def)
  next
    case (OpMarkPausedOwned j' c' w' g' now')
    then show ?thesis using assms(2,3) by (auto dest: upd simp: reply_def jr_MarkPausedOwned_def)
  next
    case (OpCommitFinalFailure j' w' g' c' sts e ev now')
    then have eq: "j' = j" "c' = c" "w' = w" "g' = g" "now' = now" using assms(2) by auto
    show ?thesis
    proof (cases "g = 0")
      case True
      have "snd (CommitFinalFailure j w 0 c sts e ev now s) \<in> {s, later s}"
        using legacy_failure_state [OF assms(1) surjective_pairing] by (simp add: CommitFinalFailure_def)
      moreover have "fst (CommitFinalFailure j w 0 c sts e ev now s) \<noteq> Inr True"
        using legacy_failure_refused [OF assms(1)] by (simp add: CommitFinalFailure_def)
      ultimately show ?thesis using assms(3) True eq by (auto simp: OpCommitFinalFailure reply_def)
    next
      case False
      define ev' where "ev' = map_option (\<lambda>e. if me_ExecutionGeneration e = 0 then e\<lparr> me_ExecutionGeneration := g \<rparr> else e) ev"
      show ?thesis using assms(3) False
        by (auto dest!: com [where x = "failure_owner j c w g"] simp: OpCommitFinalFailure reply_def eq CommitFinalFailure_def Let_def ev'_def [symmetric]
            split: option.splits if_splits)
    qed
  next
    case (OpCommitStatusOwned x sts t ev now')
    then show ?thesis using assms(2,3)
      by (auto dest: com simp: reply_def owner_key_def CommitStatusTransitionOwned_def split: option.splits if_splits)
  next
    case (OpResetCaseForRetryOwned x sts now')
    then obtain y where y: "x = Some y" "j = x_JobID y" "c = x_CaseID y" "w = x_WorkerID y" "g = x_ExecutionGeneration y" "now' = now"
      using assms(2) by (auto simp: owner_key_def)
    let ?body = "\<lambda>s. case lockActiveExecution x now s of Inl e \<Rightarrow> (Inl e, s) | Inr (_, c) \<Rightarrow> reset_write y sts now c s"
    obtain q v s1 where q: "txn ?body s = (q, v, s1)" by (rule prod_cases3)
    have "tables s1 \<noteq> tables s \<or> is_ok q \<or> v \<noteq> None"
      using assms(3) q y by (auto simp: OpResetCaseForRetryOwned reply_def ResetCaseForRetryOwned_def split: sum.splits if_splits)
    from txn_effect [OF q this] obtain jc where "lockActiveExecution (Some y) now s = Inr jc"
      using y by (auto split: sum.splits)
    then show ?thesis using lock_leased [OF assms(1)] y by simp
  next
    case (OpCommitTerminalOwned x st t r ev now')
    then show ?thesis using assms(2,3)
      by (auto dest: com simp: reply_def owner_key_def CommitTerminalOwned_def split: option.splits if_splits)
  next
    case (OpCreateOwned x a now')
    then show ?thesis using assms(2,3) by (auto dest: wth simp: reply_def owner_key_def CreateOwned_def split: if_splits)
  next
    case (OpSaveForExecution x st now')
    then show ?thesis using assms(2,3)
      by (auto dest: wth simp: reply_def owner_key_def SaveCheckpointOwned_def split: if_splits option.splits)
  next
    case (OpLoadForExecution x r now')
    then show ?thesis using assms(2,3) by (auto dest: wth simp: reply_def owner_key_def LoadCheckpointOwned_def split: if_splits)
  qed (use assms(2) in simp_all)
qed

lemma claims_of_jobs:
  assumes "jobs_ok s" and "m \<in> set (jd_claim s)"
  shows "\<exists>j \<in> set (jd_job s). claim_of m j \<and> 0 < jc_ExecutionGeneration m \<and> jc_ExecutionGeneration m \<le> jm_ExecutionGeneration j"
  using assms by (simp add: jobs_ok_def claims_ok_def)

lemma leased_claim:
  assumes "jobs_ok s" and "leased s j c w g now r"
  shows "\<exists>m \<in> set (jd_claim s). jc_JobID m = j \<and> jc_CaseID m = c \<and> jc_WorkerID m = w \<and> jc_ExecutionGeneration m = g \<and>
    (\<forall>m' \<in> set (jd_claim s). jc_JobID m' = j \<longrightarrow> jc_ExecutionGeneration m' \<le> g)"
proof -
  have r: "r \<in> set (jd_job s)" "jm_ID r = j" "jm_CaseID r = c" "jm_Status r = DecisionJobRunning" "jm_WorkerID r = w"
      "jm_ExecutionGeneration r = g"
    using assms(2) by (auto simp: leased_def)
  obtain m where m: "m \<in> set (jd_claim s)" "latest_claim m r" by (rule running_generation [OF assms(1) r(1,4)])
  have "jc_ExecutionGeneration m' \<le> g" if m': "m' \<in> set (jd_claim s)" "jc_JobID m' = j" for m'
  proof -
    obtain r' where "r' \<in> set (jd_job s)" "claim_of m' r'" "jc_ExecutionGeneration m' \<le> jm_ExecutionGeneration r'"
      using claims_of_jobs [OF assms(1) m'(1)] by blast
    then show ?thesis using job_unique(1) [OF assms(1) r(1)] m'(2) r(2,6) by (auto simp: claim_of_def)
  qed
  then show ?thesis using m r by (auto simp: latest_claim_def claim_of_def)
qed

text \<open>C9. Whatever was done to the store before, by whomever and with whichever faults: an operation for
  an execution that changes a row or reports success was made by the worker that claimed this
  generation of this job; no later claim of the job exists, and its lease has not expired. So the
  writes of a worker that was superseded, paused or cancelled have no effect.\<close>

theorem owned_write_fenced:
  assumes "fresh_store s0" and "s = db_run env ops s0" and "op_owner op = Some (j, c, w, g, now)"
    and "tables (snd (db_exec env op s)) \<noteq> tables s \<or> acknowledged (fst (db_exec env op s))"
  shows "(\<exists>r. leased s j c w g now r) \<and>
    (\<exists>m \<in> set (jd_claim s). jc_JobID m = j \<and> jc_CaseID m = c \<and> jc_WorkerID m = w \<and> jc_ExecutionGeneration m = g \<and>
       (\<forall>m' \<in> set (jd_claim s). jc_JobID m' = j \<longrightarrow> jc_ExecutionGeneration m' \<le> g))"
proof -
  have ok: "jobs_ok s" using assms(1,2) fresh_jobs_ok db_run_ok by blast
  obtain r where "leased s j c w g now r" using owned_op_leased [OF ok assms(3,4)] by blast
  then show ?thesis using leased_claim [OF ok] by blast
qed

text \<open>The second worker of the sample history commits; the first one, which was superseded, is refused.\<close>

theorem owned_write_fenced_witness:
  "(\<exists>m \<in> set (jd_claim (db_run sample_job_env sample_history sample_store)).
      jc_JobID m = ''j1'' \<and> jc_WorkerID m = ''w2'' \<and> jc_ExecutionGeneration m = 2) \<and>
   \<not> acknowledged (fst (db_exec sample_job_env (OpMarkSucceeded ''j1'' ''c1'' ''w1'' 1 30)
       (db_run sample_job_env sample_history sample_store)))"
proof -
  let ?op = "OpCommitTerminalOwned (Some sample_owner) CaseStatusDraft CaseStatusDeadlocked None (Some sample_event) 30"
  have own: "op_owner ?op = Some (''j1'', ''c1'', ''w2'', 2, 30)" by (simp add: owner_key_def sample_owner_def)
  have ack: "acknowledged (fst (db_exec sample_job_env ?op (db_run sample_job_env sample_history sample_store)))"
    by code_simp
  show ?thesis
  proof
    show "\<exists>m \<in> set (jd_claim (db_run sample_job_env sample_history sample_store)).
        jc_JobID m = ''j1'' \<and> jc_WorkerID m = ''w2'' \<and> jc_ExecutionGeneration m = 2"
      using owned_write_fenced [OF sample_fresh refl own disjI2, OF ack] by blast
    show "\<not> acknowledged (fst (db_exec sample_job_env (OpMarkSucceeded ''j1'' ''c1'' ''w1'' 1 30)
        (db_run sample_job_env sample_history sample_store)))"
      by code_simp
  qed
qed



section \<open>Claims whose answer is lost\<close>

lemma claim_tx_appended:
  assumes "jobs_ok s" and "claim_tx env j w t l now s = (Inr v, s')" and "jd_claim s' \<noteq> jd_claim s"
  obtains d where "d \<in> set (jd_job s)" "jm_ID d = j" "jd_claim s' = jd_claim s @ [claim_record now l t (claim_job w t l d)]"
    "jd_case s' = update_rows (\<lambda>x. c_ID x = jm_CaseID d \<and> c_ExecutionGeneration x = jm_ExecutionGeneration d)
        (\<lambda>x. x\<lparr> c_ExecutionGeneration := jm_ExecutionGeneration d + 1, c_UpdatedAt := now \<rparr>) (jd_case s)"
proof -
  obtain d c where d: "List.find (\<lambda>r. jm_ID r = j \<and> jm_Status r = DecisionJobQueued \<and> jm_AvailableAt r \<le> now) (jd_job s) = Some d"
      and c: "c_ExecutionGeneration c = jm_ExecutionGeneration d" and rows: "claim_rows w t l now d c s = (Inr v, s')"
    using assms(2,3)
    by (auto simp: claim_tx_def reconcileTerminalJob_def Let_def split: option.splits if_splits sum.splits)
  have "d \<in> set (jd_job s)" "jm_ID d = j" using find_SomeD [OF d] by simp_all
  then show thesis using that rows c by (auto simp: claim_rows_def Let_def split: if_splits)
qed

lemma claim_appended:
  assumes "jobs_ok s" and "jr_Claim env j w t l now s = (r, s')" and "jd_claim s' \<noteq> jd_claim s"
  obtains d where "d \<in> set (jd_job s)" "jm_ID d = j" "t \<noteq> []" "je_validUUID env t"
    "jd_claim s' = jd_claim s @ [claim_record now l t (claim_job w t l d)]"
    "jd_case s' = update_rows (\<lambda>x. c_ID x = jm_CaseID d \<and> c_ExecutionGeneration x = jm_ExecutionGeneration d)
        (\<lambda>x. x\<lparr> c_ExecutionGeneration := jm_ExecutionGeneration d + 1, c_UpdatedAt := now \<rparr>) (jd_case s)"
proof -
  have t: "t \<noteq> []" "je_validUUID env t" using assms(2,3) by (auto simp: jr_Claim_def split: if_splits)
  obtain q s1 where q: "stmt (claim_tx env j w t l now) s = (q, s1)" by fastforce
  have "s' = s1 \<or> s' = later s1"
    using assms(2) t q getByClaimToken_state
    by (fastforce simp: jr_Claim_def split: sum.splits if_splits prod.splits)
  then have s1: "jd_claim s' = jd_claim s1" "jd_case s' = jd_case s1" by auto
  then obtain v where "claim_tx env j w t l now (later s) = (Inr v, s1)" using stmt_result [OF q] assms(3) by auto
  moreover have "jobs_ok (later s)" using move_jobs_ok [OF idle_later assms(1)] .
  ultimately show thesis using that t s1 assms(3) by (auto elim!: claim_tx_appended)
qed

lemma find_appended: "\<forall>x \<in> set xs. \<not> P x \<Longrightarrow> P y \<Longrightarrow> List.find P (xs @ [y]) = Some y"
  by (induction xs) auto

text \<open>C14. If a claim took effect, its answer may be lost: the token still leads to exactly the claimed
  job, in the next generation of the case, and repeating the claim gives this job again without a
  further generation.\<close>

theorem claim_never_lost:
  assumes "fresh_store s0" and "s = db_run env ops s0" and "jr_Claim env j w t l now s = (r, s1)"
    and "\<forall>m \<in> set (jd_claim s). jc_ClaimToken m \<noteq> t" and "jd_claim s1 \<noteq> jd_claim s" and "s2 = tables s1"
  shows "\<exists>job. jr_GetByClaimToken t s2 = (Inr job, s2) \<and> j_ID job = j \<and> j_WorkerID job = w \<and> j_ClaimToken job = t \<and>
    (\<exists>c \<in> set (jd_case s). \<exists>c' \<in> set (jd_case s2). c_ID c = j_CaseID job \<and> c_ID c' = c_ID c \<and>
       c_ExecutionGeneration c' = j_ExecutionGeneration job \<and> j_ExecutionGeneration job = c_ExecutionGeneration c + 1) \<and>
    (lockDecisionWriterGate env s2 = None \<longrightarrow> (\<forall>w' l' now'. jr_Claim env j w' t l' now' s2 = (Inr (Some job), s2)))"
proof -
  have ok: "jobs_ok s" using assms(1,2) fresh_jobs_ok db_run_ok by blast
  obtain d where d: "d \<in> set (jd_job s)" "jm_ID d = j" "t \<noteq> []" "je_validUUID env t"
      "jd_claim s1 = jd_claim s @ [claim_record now l t (claim_job w t l d)]"
      "jd_case s1 = update_rows (\<lambda>x. c_ID x = jm_CaseID d \<and> c_ExecutionGeneration x = jm_ExecutionGeneration d)
        (\<lambda>x. x\<lparr> c_ExecutionGeneration := jm_ExecutionGeneration d + 1, c_UpdatedAt := now \<rparr>) (jd_case s)"
    by (rule claim_appended [OF ok assms(3,5)])
  let ?m = "claim_record now l t (claim_job w t l d)"
  let ?job = "jobFromModel (claimRecordToJobModel ?m)"
  have found: "List.find (\<lambda>m. jc_ClaimToken m = t) (jd_claim s2) = Some ?m"
    using assms(4) by (simp add: assms(6) tables_def d(5) find_appended claim_record_def)
  have nofault: "next_txfault s2 = (TxWorks, s2)" by (simp add: next_txfault_def assms(6) tables_def)
  have get: "jr_GetByClaimToken t s2 = (Inr ?job, s2)"
    using d(3) found by (simp add: jr_GetByClaimToken_def query_def stmt_def txn_def nofault)
  have again: "jr_Claim env j w' t l' now' s2 = (Inr (Some ?job), s2)" if "lockDecisionWriterGate env s2 = None" for w' l' now'
  proof -
    have "jc_JobID ?m = j" using d(2) by (simp add: claim_record_def claim_job_def)
    then show ?thesis using d(3,4) found that by (simp add: jr_Claim_def stmt_def txn_def nofault claim_tx_def)
  qed
  obtain c where c: "c \<in> set (jd_case s)" "c_ID c = jm_CaseID d" "c_ExecutionGeneration c = jm_ExecutionGeneration d"
    using ok d(1) by (auto simp: jobs_ok_def generations_ok_def)
  let ?c' = "c\<lparr> c_ExecutionGeneration := jm_ExecutionGeneration d + 1, c_UpdatedAt := now \<rparr>"
  have c': "?c' \<in> set (jd_case s2)" using c by (auto simp: assms(6) tables_def d(6) update_rows_map)
  have job: "j_ID ?job = j" "j_WorkerID ?job = w" "j_ClaimToken ?job = t" "j_CaseID ?job = jm_CaseID d"
      "j_ExecutionGeneration ?job = jm_ExecutionGeneration d + 1"
    using d(2) by (simp_all add: jobFromModel_def claimRecordToJobModel_def claim_record_def claim_job_def)
  have "c_ID c = j_CaseID ?job \<and> c_ID ?c' = c_ID c \<and> c_ExecutionGeneration ?c' = j_ExecutionGeneration ?job \<and>
      j_ExecutionGeneration ?job = c_ExecutionGeneration c + 1"
    using c job by simp
  then show ?thesis using get again job(1-3) c(1) c' by blast
qed

theorem claim_never_lost_witness:
  "\<exists>job. jr_GetByClaimToken ''t1'' (tables (snd (jr_Claim sample_job_env ''j1'' ''w1'' ''t1'' 10 1
       (db_run sample_job_env [OpAdmit ''c1'' 3 1 0 ''j1''] sample_lossy)))) =
     (Inr job, tables (snd (jr_Claim sample_job_env ''j1'' ''w1'' ''t1'' 10 1
       (db_run sample_job_env [OpAdmit ''c1'' 3 1 0 ''j1''] sample_lossy)))) \<and> j_ID job = ''j1''"
proof -
  let ?s = "db_run sample_job_env [OpAdmit ''c1'' 3 1 0 ''j1''] sample_lossy"
  have fresh: "fresh_store sample_lossy" using sample_fresh by (simp add: fresh_store_def sample_lossy_def)
  have new: "\<forall>m \<in> set (jd_claim ?s). jc_ClaimToken m \<noteq> ''t1''" by code_simp
  have happened: "jd_claim (snd (jr_Claim sample_job_env ''j1'' ''w1'' ''t1'' 10 1 ?s)) \<noteq> jd_claim ?s" by code_simp
  show ?thesis
    using claim_never_lost [OF fresh refl surjective_pairing new happened refl] by blast
qed

section \<open>The limit of active jobs\<close>

lemma affected_mono:
  assumes "\<And>r. r \<in> set rows \<Longrightarrow> Q (g r) \<Longrightarrow> P r"
  shows "affected Q (map g rows) \<le> affected P rows"
  using assms unfolding affected_def by (induction rows) auto

lemma affected_update_le:
  "affected Q (update_rows P f rows) \<le> affected Q rows + affected P rows"
  unfolding affected_def update_rows_def by (induction rows) auto

lemma affected_key_le:
  assumes "distinct (map k rows)"
  shows "affected (\<lambda>r. k r = x) rows \<le> 1"
  using assms unfolding affected_def
proof (induction rows)
  case (Cons r rows)
  show ?case
  proof (cases "k r = x")
    case True
    then have "filter (\<lambda>r. k r = x) rows = []" using Cons.prems
      by (simp add: filter_empty_conv) (metis image_eqI)
    then show ?thesis using True by simp
  next
    case False
    then show ?thesis using Cons by simp
  qed
qed simp

definition users :: "JobDb \<Rightarrow> (string \<times> int64) list" where
  "users s = map (\<lambda>c. (c_ID c, c_UserID c)) (jd_case s)"

lemma active_of_user_alt:
  "active_of_user u s = affected (\<lambda>j. isActiveJob j \<and> (jm_CaseID j, u) \<in> set (users s)) (jd_job s)"
  unfolding active_of_user_def users_def by (rule arg_cong [where f = "\<lambda>P. affected P (jd_job s)"]) (force simp: list_ex_iff image_iff fun_eq_iff)

lemma map_update_rows: "(\<And>r. k (f r) = k r) \<Longrightarrow> map k (update_rows P f rows) = map k rows"
  by (simp add: update_rows_def)

lemma move_users: "db_move act T s s' \<Longrightarrow> users s' = users s"
  by (erule db_move.cases) (auto simp: users_def set_status_def map_update_rows control_case_def Let_def)

lemma move_active:
  assumes "db_move False T s s'" and "jobs_ok s"
  shows "active_of_user u s' \<le> active_of_user u s"
proof -
  have le: "active_of_user u s' \<le> active_of_user u s"
    if "jd_job s' = map g (jd_job s)" "\<And>r. r \<in> set (jd_job s) \<Longrightarrow> (isActiveJob (g r) \<longrightarrow> isActiveJob r) \<and> jm_CaseID (g r) = jm_CaseID r" for g
    unfolding active_of_user_alt move_users [OF assms(1)] that(1)
    by (rule affected_mono) (use that(2) in auto)
  from assms(1) show ?thesis
  proof cases
    case (jobs P f fs)
    then show ?thesis by (intro le [of "\<lambda>r. if P r then f r else r"]) (auto simp: update_rows_map touched_def)
  next
    case (claim t j c fs now l w)
    show ?thesis
      by (rule le [of "\<lambda>r. if jm_ID r = jm_ID j then claim_job w t l r else r"])
        (use job_unique(1) [OF assms(2) claim(3)] claim(4) in \<open>auto simp: claim(1) update_rows_map isActiveJob_def claim_job_def\<close>)
  next
    case (commit x now job c target evs ress jst cur err fs)
    have "jst \<noteq> Some DecisionJobQueued" "jst \<noteq> Some DecisionJobRunning" using commit(5) by (auto simp: outcome_def split: if_splits)
    then show ?thesis
      by (intro le [of "\<lambda>r. if jst \<noteq> None \<and> jm_ID r = jm_ID job then (release_job (the jst) r)\<lparr> jm_LastError := err \<rparr> else r"])
        (cases jst; auto simp: commit(1) settle_rows_def update_rows_map isActiveJob_def release_job_def)+
  next
    case (control k c resume target pausedFrom fs now)
    then show ?thesis
      by (intro le [of "\<lambda>r. if jm_CaseID r = k then control_job target resume now r else r"])
        (auto simp: update_rows_map isActiveJob_def control_job_def release_job_def control_job_status_def Let_def)
  qed (simp_all add: active_of_user_alt users_def)
qed

text \<open>\<open>admit_adds\<close>: an admission that takes effect makes one job active, of the user of the case, who had room.\<close>

lemma admit_adds:
  assumes "jobs_ok s" and "jr_Admit env c n cap now j s = (r, s')" and "u \<noteq> 0" and "0 < cap"
    and "int (active_of_user u s) \<le> cap"
  shows "int (active_of_user u s') \<le> cap"
proof -
  have us: "users s' = users s" by (rule move_users [OF admit_move [OF assms(1,2)]])
  have ids: "distinct (map jm_ID (jd_job s))" using assms(1) by (simp add: jobs_ok_def keys_ok_def)
  let ?Q = "\<lambda>j. isActiveJob j \<and> (jm_CaseID j, u) \<in> set (users s)"
  show ?thesis
  proof (cases "jd_job s' = jd_job s")
    case True
    then show ?thesis using assms(5) by (simp add: active_of_user_alt us)
  next
    case False
    have "c \<noteq> []" using False assms(2) by (auto simp: jr_Admit_def)
    then obtain n' where "stmt (admit_tx env c n' cap now j) s = (r, s')" using assms(2) by (auto simp: jr_Admit_def)
    then obtain v where tx: "admit_tx env c n' cap now j (later s) = (Inr v, s')"
      using stmt_result False by fastforce
    then obtain k where k: "find_case c s = Some k" by (auto simp: admit_tx_def split: option.splits)
    have room: "\<not> (c_UserID k \<noteq> 0 \<and> 0 < cap \<and> int (active_of_user (c_UserID k) s) \<ge> cap)"
      using tx k False by (auto simp: admit_tx_def Let_def active_of_user_def split: option.splits if_splits)
    have kc: "k \<in> set (jd_case s)" "c_ID k = c" by (rule case_unique [OF assms(1) k])+
    have one: "affected ?Q (jd_job s') \<le> affected ?Q (jd_job s) + (if c_UserID k = u then 1 else 0)"
    proof (cases "find_job c s")
      case None
      then have "jd_job s' = jd_job s @ [new_job j c n' now]"
        using tx k False by (auto simp: admit_tx_def Let_def split: option.splits if_splits)
      moreover have "c_UserID k = u" if "(c, u) \<in> set (users s)"
        using that case_unique(3) [OF assms(1) k] by (auto simp: users_def)
      ultimately show ?thesis by (auto simp: affected_def new_job_def)
    next
      case (Some m)
      then have m: "m \<in> set (jd_job s)" "jm_CaseID m = c" by (auto simp: find_job_def dest: find_SomeD)
      have rows: "jd_job s' = update_rows (\<lambda>r. jm_ID r = jm_ID m) (admit_reset n' now) (jd_job s)"
        using tx k Some False by (auto simp: admit_tx_def Let_def split: option.splits if_splits)
      show ?thesis
      proof (cases "c_UserID k = u")
        case True
        then show ?thesis unfolding rows
          using affected_update_le [of ?Q "\<lambda>r. jm_ID r = jm_ID m" "admit_reset n' now" "jd_job s"]
            affected_key_le [OF ids, of "jm_ID m"] by simp
      next
        case False
        have "(c, u) \<notin> set (users s)" using False case_unique(3) [OF assms(1) k] by (auto simp: users_def)
        then have "affected ?Q (jd_job s') \<le> affected ?Q (jd_job s)"
          unfolding rows update_rows_map
          by (intro affected_mono) (use m job_unique(1) [OF assms(1) m(1)] in \<open>auto simp: admit_reset_def split: if_splits\<close>)
        then show ?thesis by simp
      qed
    qed
    show ?thesis using one room assms(3-5) by (auto simp: active_of_user_alt us split: if_splits)
  qed
qed

text \<open>All admissions use the limit; nothing is resumed.\<close>

fun limited :: "int \<Rightarrow> DbOp \<Rightarrow> bool" where
  "limited cap (OpAdmit c n u now j) = (u = cap)"
| "limited cap (OpResumeQueued j now) = False"
| "limited cap (OpResumeControl c now) = False"
| "limited cap op = True"

lemma exec_limit:
  assumes "jobs_ok s" and "limited cap op" and "u \<noteq> 0" and "0 < cap" and "int (active_of_user u s) \<le> cap"
  shows "int (active_of_user u (snd (db_exec env op s))) \<le> cap"
proof (cases "\<exists>c n l now j. op = OpAdmit c n l now j")
  case True
  then show ?thesis using assms admit_adds [OF assms(1) surjective_pairing assms(3-5)] by (auto simp: reply_def)
next
  case False
  then have "activates op = False" using assms(2) by (cases op) auto
  then show ?thesis using move_active [of _ s _ u] db_exec_move [OF assms(1), of op env] assms(1,5) by fastforce
qed

text \<open>C16. While nothing is resumed, no history of the store gives a user more active jobs than the limit of
  the admissions.\<close>

theorem user_limit_kept:
  assumes "fresh_store s" and "list_all (limited cap) ops" and "u \<noteq> 0" and "0 < cap"
  shows "int (active_of_user u (db_run env ops s)) \<le> cap"
proof -
  have "jobs_ok s \<Longrightarrow> list_all (limited cap) ops \<Longrightarrow> int (active_of_user u s) \<le> cap \<Longrightarrow>
      int (active_of_user u (db_run env ops s)) \<le> cap" for s
  proof (induction ops arbitrary: s)
    case (Cons op ops)
    then show ?case using exec_limit [OF Cons(2) _ assms(3,4)] db_exec_ok by simp
  qed simp
  moreover have "active_of_user u s = 0" using assms(1) by (simp add: active_of_user_def affected_def fresh_store_def)
  ultimately show ?thesis using assms fresh_jobs_ok by simp
qed

theorem user_limit_kept_witness:
  "int (active_of_user 7 (db_run sample_job_env [OpAdmit ''c1'' 3 1 0 ''j1'', OpAdmit ''c2'' 3 1 0 ''j2''] sample_store)) \<le> 1"
  by (rule user_limit_kept [OF sample_fresh]) simp_all

text \<open>A paused job does not count; when it is resumed the limit is not looked at.\<close>

lemma resume_exceeds_limit:
  "active_of_user 7 (db_run sample_job_env
     [OpAdmit ''c1'' 3 1 0 ''j1'', OpCaseControl ''c1'' CaseStatusPaused 1, OpAdmit ''c2'' 3 1 2 ''j2'', OpResumeControl ''c1'' 3]
     sample_store) = 2"
  by code_simp

text \<open>The maximum of attempts is not looked at when a lease expires.\<close>

lemma attempts_exceed_maximum:
  "map (\<lambda>j. (jm_Attempt j, jm_MaxAttempts j)) (jd_job (db_run sample_job_env
     [OpAdmit ''c1'' 1 1 0 ''j1'', OpClaim ''j1'' ''w1'' ''t1'' 10 1, OpRequeueExpired 20, OpClaim ''j1'' ''w2'' ''t2'' 30 21]
     sample_store)) = [(2, 1)]"
  by code_simp

section \<open>Recovery, pause and resume\<close>

lemma no_fault: "jd_faults s = [] \<Longrightarrow> next_txfault s = (TxWorks, s)"
  by (simp add: next_txfault_def)

lemma find_unique:
  assumes "x \<in> set xs" and "P x" and "\<And>y. y \<in> set xs \<Longrightarrow> P y \<Longrightarrow> y = x"
  shows "List.find P xs = Some x"
proof (cases "List.find P xs")
  case None
  then show ?thesis using assms(1,2) by (auto simp: find_None_iff)
next
  case (Some y)
  then show ?thesis using assms(3) find_SomeD [OF Some] by simp
qed

lemma affected_unique:
  assumes "distinct (map k rows)" and "x \<in> set rows" and "P x" and "\<And>y. y \<in> set rows \<Longrightarrow> P y \<Longrightarrow> k y = k x"
  shows "affected P rows = 1"
proof -
  have "affected P rows \<le> affected (\<lambda>r. k r = k x) rows"
    using assms(4) affected_mono [of rows P id "\<lambda>r. k r = k x"] by simp
  then show ?thesis using affected_key_le [OF assms(1), of "k x"] affected_pos [of P rows] assms(2,3) by fastforce
qed

lemma claim_rows_ok:
  assumes "affected (\<lambda>x. c_ID x = jm_CaseID d \<and> c_ExecutionGeneration x = c_ExecutionGeneration c) (jd_case s) = 1"
    and "affected (\<lambda>j. jm_ID j = jm_ID d \<and> jm_Status j = DecisionJobQueued \<and> jm_Attempt j = jm_Attempt d \<and>
      jm_ExecutionGeneration j = jm_ExecutionGeneration d) (jd_job s) = 1"
    and "\<And>r. r \<in> set (jd_job s) \<Longrightarrow> jm_ClaimToken r \<noteq> Some t"
  shows "\<exists>s2. claim_rows w t l now d c s = (Inr (Some (jobFromModel (claim_job w t l d))), s2)"
proof -
  have "\<not> list_ex (\<lambda>j. jm_ClaimToken j = Some t) (jd_job s)" using assms(3) by (auto simp: list_ex_iff)
  then show ?thesis using assms(1,2) by (simp add: claim_rows_def Let_def)
qed

text \<open>C15. A job whose worker vanished is never lost: once its lease has expired, a sweep puts it back, and
  any worker of an admitted deployment can claim it, in the next generation, as long as its case is
  open.\<close>

theorem expired_job_reclaimed:
  assumes "fresh_store s0" and "s = tables (db_run env ops s0)" and "j \<in> set (jd_job s)" and "expired now j"
    and "find_case (jm_CaseID j) s = Some c" and "\<not> isPublicTerminalCaseStatus (c_Status c)" and "c_Status c \<noteq> CaseStatusPaused"
    and "jm_ExecutionGeneration j < max_int64" and "lockDecisionWriterGate env s = None"
    and "t \<noteq> []" and "je_validUUID env t" and "\<forall>m \<in> set (jd_claim s). jc_ClaimToken m \<noteq> t" and "now < l"
  shows "\<exists>job. fst (jr_Claim env (jm_ID j) w t l now (snd (jr_RequeueExpired now s))) = Inr (Some job) \<and>
    j_WorkerID job = w \<and> j_Status job = DecisionJobRunning \<and> j_LeaseUntil job = Some l \<and>
    j_ExecutionGeneration job = jm_ExecutionGeneration j + 1"
proof -
  have ok: "jobs_ok s"
    using db_run_ok [OF fresh_jobs_ok [OF assms(1)], of env ops] move_jobs_ok [OF idle [of False "{}" "db_run env ops s0" "[]"]]
    by (simp add: assms(2) tables_def)
  let ?f = "\<lambda>j. (release_job DecisionJobQueued j)\<lparr> jm_AvailableAt := now \<rparr>"
  let ?s1 = "s\<lparr> jd_job := update_rows (expired now) ?f (jd_job s) \<rparr>"
  have nf: "next_txfault s = (TxWorks, s)" "next_txfault ?s1 = (TxWorks, ?s1)"
    by (simp_all add: no_fault assms(2) tables_def)
  have req: "snd (jr_RequeueExpired now s) = ?s1" by (simp add: jr_RequeueExpired_def stmt_def txn_def nf)
  have in1: "?f j \<in> set (jd_job ?s1)" using assms(3,4) by (auto simp: update_rows_map)
  have ok1: "jobs_ok ?s1"
    using db_exec_ok [OF ok, of env "OpRequeueExpired now"] req by (simp add: reply_def)
  have uniq: "jm_ID r = jm_ID j \<longleftrightarrow> r = ?f j" "jm_ClaimToken r = Some t \<Longrightarrow> False" if "r \<in> set (jd_job ?s1)" for r
  proof -
    show "jm_ID r = jm_ID j \<longleftrightarrow> r = ?f j"
      using job_unique(1) [OF ok1 in1 that] by (simp add: release_job_def)
    show False if "jm_ClaimToken r = Some t"
      using ok1 \<open>r \<in> set (jd_job ?s1)\<close> that assms(12) by (auto simp: jobs_ok_def claims_ok_def latest_claim_def)
  qed
  have gen: "c_ExecutionGeneration c = jm_ExecutionGeneration j"
    using ok assms(3,5) case_unique(3) [OF ok assms(5)] by (fastforce simp: jobs_ok_def generations_ok_def)
  have find1: "List.find (\<lambda>r. jm_ID r = jm_ID j \<and> jm_Status r = DecisionJobQueued \<and> jm_AvailableAt r \<le> now) (jd_job ?s1) = Some (?f j)"
    using in1 uniq(1) by (intro find_unique) (auto simp: release_job_def)
  have aff_job: "affected (\<lambda>r. jm_ID r = jm_ID j \<and> jm_Status r = DecisionJobQueued \<and> jm_Attempt r = jm_Attempt j \<and>
      jm_ExecutionGeneration r = jm_ExecutionGeneration j) (jd_job ?s1) = 1"
    using ok1 in1 uniq(1) by (intro affected_unique [where k = jm_ID and x = "?f j"]) (auto simp: jobs_ok_def keys_ok_def release_job_def)
  have aff_case: "affected (\<lambda>x. c_ID x = jm_CaseID j \<and> c_ExecutionGeneration x = jm_ExecutionGeneration j) (jd_case s) = 1"
    using ok case_unique(1,2) [OF ok assms(5)] gen
    by (intro affected_unique [where k = c_ID and x = c]) (auto simp: jobs_ok_def keys_ok_def)
  let ?job = "jobFromModel (claim_job w t l (?f j))"
  obtain s2 where "claim_rows w t l now (?f j) c ?s1 = (Inr (Some ?job), s2)"
    using claim_rows_ok [of "?f j" c ?s1 t w l now] aff_job aff_case uniq(2) gen by (auto simp: release_job_def)
  moreover have "claim_tx env (jm_ID j) w t l now ?s1 = claim_rows w t l now (?f j) c ?s1"
    using assms(5-9,12) find1 gen
    by (auto simp: claim_tx_def lockDecisionWriterGate_def find_case_def find_None_iff [THEN iffD2] reconcileTerminalJob_def
        Let_def release_job_def split: option.splits)
  ultimately have "claim_tx env (jm_ID j) w t l now ?s1 = (Inr (Some ?job), s2)" by simp
  then have "fst (jr_Claim env (jm_ID j) w t l now ?s1) = Inr (Some ?job)"
    using assms(10,11) nf(2) by (simp add: jr_Claim_def stmt_def txn_def)
  then show ?thesis unfolding req by (simp add: jobFromModel_def claim_job_def release_job_def)
qed

theorem expired_job_reclaimed_witness:
  "\<exists>job. fst (jr_Claim sample_job_env ''j1'' ''w2'' ''t2'' 40 20
       (snd (jr_RequeueExpired 20 (tables (db_run sample_job_env (take 2 sample_history) sample_store))))) = Inr (Some job) \<and>
     j_ExecutionGeneration job = 2"
proof -
  let ?s = "tables (db_run sample_job_env (take 2 sample_history) sample_store)"
  let ?j = "hd (jd_job ?s)"
  have j: "?j \<in> set (jd_job ?s)" "expired 20 ?j" "jm_ID ?j = ''j1''" "jm_ExecutionGeneration ?j = 1"
      "jm_ExecutionGeneration ?j < max_int64" by code_simp+
  have c: "find_case (jm_CaseID ?j) ?s = Some (hd (jd_case ?s))"
      "\<not> isPublicTerminalCaseStatus (c_Status (hd (jd_case ?s)))" "c_Status (hd (jd_case ?s)) \<noteq> CaseStatusPaused" by code_simp+
  have g: "lockDecisionWriterGate sample_job_env ?s = None" "je_validUUID sample_job_env ''t2''"
      "\<forall>m \<in> set (jd_claim ?s). jc_ClaimToken m \<noteq> ''t2''" by code_simp+
  show ?thesis
    using expired_job_reclaimed [OF sample_fresh refl j(1,2) c j(5) g(1) _ g(2,3), of 40 "''w2''"] j(3,4) by auto
qed

lemma find_update_rows:
  assumes "\<And>r. r \<in> set rows \<Longrightarrow> k (f r) = k r" and "\<And>r. r \<in> set rows \<Longrightarrow> P r \<longleftrightarrow> k r = x"
  shows "List.find (\<lambda>r. k r = x) (update_rows P f rows) = map_option f (List.find (\<lambda>r. k r = x) rows)"
  using assms by (induction rows) (auto simp: update_rows_def)

definition paused_store :: "string \<Rightarrow> DecisionCase \<Rightarrow> DecisionJobModel \<Rightarrow> timestamp \<Rightarrow> JobDb \<Rightarrow> JobDb" where
  "paused_store k c j now s = s\<lparr>
     jd_case := update_rows (\<lambda>x. c_ID x = k) (control_case CaseStatusPaused (c_Status c) False now) (jd_case s),
     jd_job := update_rows (\<lambda>r. jm_ID r = jm_ID j) (control_job CaseStatusPaused False now) (jd_job s) \<rparr>"

lemma pause_control:
  assumes "jobs_ok s" and "jd_faults s = []" and "k \<noteq> []" and "find_case k s = Some c" and "find_job k s = Some j"
    and "\<not> isPublicTerminalCaseStatus (c_Status c)" and "c_Status c \<noteq> CaseStatusPaused"
  shows "commitCaseControl k CaseStatusPaused False now s = (Inr True, paused_store k c j now s)"
    and "find_case k (paused_store k c j now s) = Some (control_case CaseStatusPaused (c_Status c) False now c)"
    and "find_job k (paused_store k c j now s) = Some (control_job CaseStatusPaused False now j)"
proof -
  have j: "j \<in> set (jd_job s)" "jm_CaseID j = k" using assms(5) by (auto simp: find_job_def dest: find_SomeD)
  have gen: "jm_ExecutionGeneration j = c_ExecutionGeneration c"
    using assms(1) j case_unique(3) [OF assms(1,4)] by (fastforce simp: jobs_ok_def generations_ok_def)
  show "commitCaseControl k CaseStatusPaused False now s = (Inr True, paused_store k c j now s)"
    using assms(3-7) gen
    by (simp add: commitCaseControl_def txn_def no_fault [OF assms(2)] control_tx_def Let_def paused_store_def)
  show "find_case k (paused_store k c j now s) = Some (control_case CaseStatusPaused (c_Status c) False now c)"
    using assms(4) find_update_rows [of "jd_case s" c_ID "control_case CaseStatusPaused (c_Status c) False now" "\<lambda>x. c_ID x = k" k]
    by (simp add: find_case_def paused_store_def control_case_def Let_def)
  show "find_job k (paused_store k c j now s) = Some (control_job CaseStatusPaused False now j)"
    using assms(5) job_unique [OF assms(1) j(1)] j(2)
      find_update_rows [of "jd_job s" jm_CaseID "control_job CaseStatusPaused False now" "\<lambda>r. jm_ID r = jm_ID j" k]
    by (simp add: find_job_def paused_store_def control_job_def release_job_def Let_def)
qed

text \<open>C17. Pausing an open case and resuming it gives back its status; the generation and the attempts of its
  job are untouched, and the job waits in the queue without a worker.\<close>

theorem pause_resume_restores:
  assumes "fresh_store s0" and "s = tables (db_run env ops s0)" and "k \<noteq> []" and "find_case k s = Some c" and "find_job k s = Some j"
    and "\<not> isPublicTerminalCaseStatus (c_Status c)" and "c_Status c \<noteq> CaseStatusPaused" and "c_Status c \<noteq> CaseStatusZero"
    and "commitCaseControl k CaseStatusPaused False t1 s = (r1, s1)" and "commitCaseControl k CaseStatusZero True t2 s1 = (r2, s2)"
  shows "r1 = Inr True \<and> r2 = Inr True \<and>
    (\<exists>c2 j2. find_case k s2 = Some c2 \<and> find_job k s2 = Some j2 \<and> c_Status c2 = c_Status c \<and>
       c_ExecutionGeneration c2 = c_ExecutionGeneration c \<and> c_PausedFromStatus c2 = CaseStatusZero \<and>
       j2 = (release_job DecisionJobQueued j)\<lparr> jm_AvailableAt := t2 \<rparr>)"
proof -
  have ok: "jobs_ok s"
    using db_run_ok [OF fresh_jobs_ok [OF assms(1)], of env ops] move_jobs_ok [OF idle [of False "{}" "db_run env ops s0" "[]"]]
    by (simp add: assms(2) tables_def)
  have nf: "jd_faults s = []" by (simp add: assms(2) tables_def)
  note P = pause_control [OF ok nf assms(3-7), of t1]
  have r1: "r1 = Inr True" and s1: "s1 = paused_store k c j t1 s" using assms(9) P(1) by simp_all
  let ?c = "control_case CaseStatusPaused (c_Status c) False t1 c" and ?j = "control_job CaseStatusPaused False t1 j"
  have j: "j \<in> set (jd_job s)" "jm_CaseID j = k" using assms(5) by (auto simp: find_job_def dest: find_SomeD)
  have gen: "jm_ExecutionGeneration j = c_ExecutionGeneration c"
    using ok j case_unique(3) [OF ok assms(4)] by (fastforce simp: jobs_ok_def generations_ok_def)
  have c1: "c_Status ?c = CaseStatusPaused" "c_PausedFromStatus ?c = c_Status c" "c_ExecutionGeneration ?c = c_ExecutionGeneration c"
      "c_ID ?c = c_ID c" by (simp_all add: control_case_def Let_def)
  have j1: "jm_Status ?j = DecisionJobPaused" "jm_ID ?j = jm_ID j" "jm_ExecutionGeneration ?j = c_ExecutionGeneration c"
    using gen by (simp_all add: control_job_def control_job_status_def release_job_def Let_def)
  have nf1: "jd_faults s1 = []" by (simp add: s1 paused_store_def nf)
  let ?s2 = "s1\<lparr> jd_case := update_rows (\<lambda>x. c_ID x = k) (control_case (c_Status c) CaseStatusZero True t2) (jd_case s1),
      jd_job := update_rows (\<lambda>r. jm_ID r = jm_ID j) (control_job (c_Status c) True t2) (jd_job s1) \<rparr>"
  have "commitCaseControl k CaseStatusZero True t2 s1 = (Inr True, ?s2)"
    using P(2,3) c1 j1 assms(3,7,8)
    by (simp add: commitCaseControl_def txn_def no_fault [OF nf1] control_tx_def Let_def s1 [symmetric])
  then have r2: "r2 = Inr True" and s2: "s2 = ?s2" using assms(10) by simp_all
  have ok1: "jobs_ok s1"
    using db_exec_ok [OF ok, of env "OpCaseControl k CaseStatusPaused t1"] assms(9) by (simp add: reply_def)
  have "?j \<in> set (jd_job s1)" using P(3) s1 by (auto simp: find_job_def dest: find_SomeD)
  then have uniq: "jm_ID r = jm_ID j \<longleftrightarrow> jm_CaseID r = k" if "r \<in> set (jd_job s1)" for r
    using job_unique [OF ok1 _ that, of ?j] j1(2) j(2) by (simp add: control_job_def release_job_def Let_def)
  have "find_case k s2 = Some (control_case (c_Status c) CaseStatusZero True t2 ?c)"
    using P(2) find_update_rows [of "jd_case s1" c_ID "control_case (c_Status c) CaseStatusZero True t2" "\<lambda>x. c_ID x = k" k]
    by (simp add: find_case_def s2 s1 [symmetric] control_case_def Let_def)
  moreover have "find_job k s2 = Some (control_job (c_Status c) True t2 ?j)"
    using P(3) uniq find_update_rows [of "jd_job s1" jm_CaseID "control_job (c_Status c) True t2" "\<lambda>r. jm_ID r = jm_ID j" k]
    by (simp add: find_job_def s2 s1 [symmetric] control_job_def release_job_def Let_def)
  ultimately show ?thesis using r1 r2
    by (simp add: control_case_def control_job_def control_job_status_def release_job_def Let_def)
qed

theorem pause_resume_restores_witness:
  "\<exists>c2. find_case ''c1'' (snd (commitCaseControl ''c1'' CaseStatusZero True 6
       (snd (commitCaseControl ''c1'' CaseStatusPaused False 5 (tables (db_run sample_job_env (take 2 sample_history) sample_store)))))) = Some c2 \<and>
     c_Status c2 = CaseStatusDraft"
proof -
  let ?s = "tables (db_run sample_job_env (take 2 sample_history) sample_store)"
  have c: "find_case ''c1'' ?s = Some (hd (jd_case ?s))" "find_job ''c1'' ?s = Some (hd (jd_job ?s))"
      "\<not> isPublicTerminalCaseStatus (c_Status (hd (jd_case ?s)))" "c_Status (hd (jd_case ?s)) \<noteq> CaseStatusPaused"
      "c_Status (hd (jd_case ?s)) \<noteq> CaseStatusZero" "c_Status (hd (jd_case ?s)) = CaseStatusDraft" by code_simp+
  show ?thesis
    using pause_resume_restores [OF sample_fresh refl _ c(1-5) surjective_pairing surjective_pairing] c(6) by auto
qed

end
