(* ===== verification/RunManager.thy ===== *)
theory RunManager
  imports CaseCommit
begin

text \<open>
  \<^verbatim>\<open>RunManager\<close> of \<^verbatim>\<open>backend/application/decision/run_manager.go\<close>: it admits the jobs of cases, executes
  them under a lease with retries, and stops, pauses, resumes and recovers them.

  The goroutine of a job, \<^verbatim>\<open>execute\<close>, is a tree of the calls it makes: an operation of the store, a
  look at the clock or at a context, a run of the orchestrator. What a call answers is the argument
  of the rest of the tree. \<open>RLoop\<close> is the \<^verbatim>\<open>continue\<close> of its loop. The other operations are functions on
  the local state of the manager and the store. Metrics and log lines are left out.
\<close>

section \<open>The manager\<close>

text \<open>The optional dependencies and the capabilities of the ports (Go type assertions) are flags.\<close>

record RunManager =
  rm_jobRepo :: bool
  rm_ownedCases :: bool
  rm_settlementReader :: bool
  rm_caseRepo :: bool
  rm_conditionalWriter :: bool
  rm_caseControl :: bool
  rm_resumeControl :: bool
  rm_requiresOwner :: bool
  rm_writerGuard :: bool
  rm_ownerAware :: bool
  rm_nonAtomic :: bool
  rm_liveEvents :: bool
  rm_workerID :: string
  rm_lease :: int
  rm_maxAttempts :: int
  rm_retryBase :: int
  rm_maxConcurrentPerUser :: int

text \<open>Durations are nanoseconds.\<close>

definition time_Second :: int where "time_Second = 1000000000"
definition time_Minute :: int where "time_Minute = 60 * time_Second"

definition NewRunManager :: "string \<Rightarrow> RunManager \<Rightarrow> RunManager" where
  "NewRunManager uuid d = d\<lparr>
     rm_workerID := (if rm_workerID d = [] then ''worker-'' @ uuid else rm_workerID d),
     rm_lease := (if rm_lease d \<le> 0 then 5 * time_Minute else rm_lease d),
     rm_maxAttempts := (if rm_maxAttempts d \<le> 0 then 3 else rm_maxAttempts d),
     rm_retryBase := (if rm_retryBase d \<le> 0 then time_Second else rm_retryBase d) \<rparr>"

definition activeClaimForWorker :: "DecisionJob \<Rightarrow> DecisionJob \<Rightarrow> string \<Rightarrow> string \<Rightarrow> timestamp \<Rightarrow> bool" where
  "activeClaimForWorker job expected workerID claimToken now \<longleftrightarrow>
     j_ID job = j_ID expected \<and> j_CaseID job = j_CaseID expected \<and> j_Status job = DecisionJobRunning \<and>
     j_WorkerID job = workerID \<and> j_ExecutionGeneration job = j_ExecutionGeneration expected \<and>
     j_ExecutionGeneration job > 0 \<and> j_ClaimToken job = claimToken \<and>
     (case j_LeaseUntil job of None \<Rightarrow> False | Some l \<Rightarrow> l > now)"

text \<open>The delay doubles with every attempt, up to a minute.\<close>

fun double_delay :: "nat \<Rightarrow> int \<Rightarrow> int option" where
  "double_delay 0 d = Some d"
| "double_delay (Suc n) d = (if d \<ge> time_Minute div 2 then None else double_delay n (d * 2))"

definition retryDelay :: "RunManager \<Rightarrow> int \<Rightarrow> int" where
  "retryDelay m attempt =
     (case double_delay (nat (attempt - 1)) (rm_retryBase m) of
        None \<Rightarrow> time_Minute
      | Some d \<Rightarrow> if d > time_Minute then time_Minute else d)"

definition retryableCaseStatuses :: "CaseStatus list" where
  "retryableCaseStatuses =
     [CaseStatusZero, CaseStatusDraft, CaseStatusNormalizing, CaseStatusContextBuilding, CaseStatusRetrievingMemory,
      CaseStatusInvestigating, CaseStatusEvidenceGating, CaseStatusCollectingVotes, CaseStatusConsensusCheck,
      CaseStatusResolving, CaseStatusGeneratingReport, CaseStatusSavingMemory, CaseStatusEvaluating,
      CaseStatusDebating, CaseStatusReflecting, CaseStatusRevoting, CaseStatusMemoryIndexed, CaseStatusInsufficientEv]"

definition isTerminalCaseStatus :: "CaseStatus \<Rightarrow> bool" where
  "isTerminalCaseStatus st \<longleftrightarrow> st \<in> {CaseStatusResolved, CaseStatusMemoryIndexed, CaseStatusFailed,
     CaseStatusCancelled, CaseStatusTimedOut, CaseStatusInsufficientEv, CaseStatusDeadlocked}"

section \<open>The goroutine of a job\<close>

text \<open>
  \<open>RCancelled\<close>: is the run's context done. \<open>RLeaseLost\<close>: was the attempt cancelled because the lease was
  lost. \<open>RSleep t\<close>: wait until \<open>t\<close>, or until the context is done (the answer is true). \<open>ROrchestrate\<close>
  answers the error and the case, which the orchestrator mutates. \<open>RLegacyReset\<close> is the status write of a
  case repository without owned commits.
\<close>

datatype rproc =
    RStop
  | RLoop DecisionCase
  | RCancelled "bool \<Rightarrow> rproc"
  | RLeaseLost "bool \<Rightarrow> rproc"
  | RPaused string "bool \<Rightarrow> rproc"
  | RSleep timestamp "bool \<Rightarrow> rproc"
  | RNow "timestamp \<Rightarrow> rproc"
  | RToken "string \<Rightarrow> rproc"
  | REventID "string \<Rightarrow> rproc"
  | RDb DbOp "DbReply \<Rightarrow> rproc"
  | RLegacyReset string "CaseStatus list" "goerr + bool \<Rightarrow> rproc"
  | ROrchestrate ExecutionContext DecisionCase "goerr option \<times> DecisionCase \<Rightarrow> rproc"
  | RPublish IdEvent rproc

definition db_unit :: "(timestamp \<Rightarrow> DbOp) \<Rightarrow> (goerr + unit \<Rightarrow> rproc) \<Rightarrow> rproc" where
  "db_unit op k = RNow (\<lambda>now. RDb (op now) (\<lambda>r. case r of RpUnit u \<Rightarrow> k u | _ \<Rightarrow> RStop))"

definition db_bool :: "(timestamp \<Rightarrow> DbOp) \<Rightarrow> (goerr + bool \<Rightarrow> rproc) \<Rightarrow> rproc" where
  "db_bool op k = RNow (\<lambda>now. RDb (op now) (\<lambda>r. case r of RpBool b \<Rightarrow> k b | _ \<Rightarrow> RStop))"

definition markJobSucceeded :: "RunManager \<Rightarrow> DecisionJob \<Rightarrow> string \<Rightarrow> (goerr + unit \<Rightarrow> rproc) \<Rightarrow> rproc" where
  "markJobSucceeded m job caseID = db_unit (OpMarkSucceeded (j_ID job) caseID (rm_workerID m) (j_ExecutionGeneration job))"

definition markJobFailed ::
  "RunManager \<Rightarrow> DecisionJob \<Rightarrow> string \<Rightarrow> string \<Rightarrow> timestamp option \<Rightarrow> (goerr + unit \<Rightarrow> rproc) \<Rightarrow> rproc" where
  "markJobFailed m job caseID reason retryAt =
     db_unit (OpMarkFailed (j_ID job) caseID (rm_workerID m) (j_ExecutionGeneration job) reason retryAt)"

definition cancelOwned :: "RunManager \<Rightarrow> DecisionJob \<Rightarrow> string \<Rightarrow> rproc" where
  "cancelOwned m job caseID =
     db_unit (OpCancelOwned (j_ID job) caseID (rm_workerID m) (j_ExecutionGeneration job)) (\<lambda>_. RStop)"

definition cancelWorkerJob :: "RunManager \<Rightarrow> string \<Rightarrow> DecisionJob \<Rightarrow> rproc" where
  "cancelWorkerJob m caseID job =
     RPaused caseID (\<lambda>wasPaused.
       if wasPaused
       then db_unit (OpMarkPausedOwned (j_ID job) caseID (rm_workerID m) (j_ExecutionGeneration job)) (\<lambda>_. RStop)
       else cancelOwned m job caseID)"

definition releaseRejectedRetryClaim :: "RunManager \<Rightarrow> DecisionJob \<Rightarrow> rproc" where
  "releaseRejectedRetryClaim m job = markJobFailed m job (j_CaseID job) ''retry reset fenced'' None (\<lambda>_. RStop)"

definition settleTerminalCaseJob :: "RunManager \<Rightarrow> DecisionJob \<Rightarrow> DecisionCase \<Rightarrow> string \<Rightarrow> rproc" where
  "settleTerminalCaseJob m job c lastError =
     (if c_Status c \<in> {CaseStatusFailed, CaseStatusCancelled, CaseStatusTimedOut}
        then markJobFailed m job (c_ID c) lastError None (\<lambda>_. RStop)
      else if c_Status c \<in> {CaseStatusResolved, CaseStatusMemoryIndexed, CaseStatusInsufficientEv, CaseStatusDeadlocked}
        then markJobSucceeded m job (c_ID c) (\<lambda>_. RStop)
      else RStop)"

text \<open>\<^term>\<open>None\<close>: the case is not terminal.\<close>

definition settleClaimedCaseIfTerminal :: "RunManager \<Rightarrow> DecisionCase \<Rightarrow> DecisionJob \<Rightarrow> rproc option" where
  "settleClaimedCaseIfTerminal m c claimed =
     (if c_Status c \<in> {CaseStatusResolved, CaseStatusMemoryIndexed, CaseStatusInsufficientEv, CaseStatusDeadlocked,
          CaseStatusFailed, CaseStatusTimedOut}
        then Some (settleTerminalCaseJob m claimed c ''terminal case settlement'')
      else if c_Status c = CaseStatusCancelled then Some (cancelOwned m claimed (c_ID c))
      else None)"

definition resetCaseForRetry ::
  "RunManager \<Rightarrow> DecisionCase \<Rightarrow> ExecutionContext \<Rightarrow> (goerr + DecisionCase option \<Rightarrow> rproc) \<Rightarrow> rproc" where
  "resetCaseForRetry m c owner k =
     (let draft = c\<lparr> c_Status := CaseStatusDraft \<rparr> in
      if (c_ExecutionGeneration c > 0 \<or> x_ExecutionGeneration owner > 0) \<and> (rm_ownedCases m \<or> \<not> rm_nonAtomic m) then
        (if \<not> rm_ownedCases m \<or> \<not> IsDurable (Some owner) \<or> x_CaseID owner \<noteq> c_ID c \<or>
            x_ExecutionGeneration owner \<noteq> c_ExecutionGeneration c then k (Inl ErrLeaseLost)
         else db_bool (OpResetCaseForRetryOwned (Some owner) retryableCaseStatuses) (\<lambda>r. case r of
             Inl e \<Rightarrow> k (Inl e)
           | Inr updated \<Rightarrow> k (Inr (if updated then Some draft else None))))
      else if \<not> rm_caseRepo m then k (Inr (Some draft))
      else RLegacyReset (c_ID c) (if rm_conditionalWriter m then retryableCaseStatuses else []) (\<lambda>r. case r of
          Inl e \<Rightarrow> k (Inl e)
        | Inr updated \<Rightarrow> k (Inr (if updated \<or> \<not> rm_conditionalWriter m then Some draft else None))))"

definition failure_event :: "string \<Rightarrow> string \<Rightarrow> IdEvent" where
  "failure_event caseID eid =
     \<lparr> me_CaseID = caseID, me_ExecutionGeneration = 0, me_Type = EventCaseFailed, me_Payload = PStatus CaseStatusFailed,
       me_ID = eid \<rparr>"

definition final_failure :: "RunManager \<Rightarrow> DecisionCase \<Rightarrow> DecisionJob \<Rightarrow> goerr \<Rightarrow> rproc" where
  "final_failure m c claimed runErr =
     REventID (\<lambda>eid.
       let event = failure_event (c_ID c) eid;
           statuses = c_Status c # (if c_Status c = CaseStatusDraft then [CaseStatusZero] else []) in
       if isTerminalCaseStatus (c_Status c) then settleTerminalCaseJob m claimed c (err_str runErr)
       else db_bool (OpCommitFinalFailure (j_ID claimed) (rm_workerID m) (j_ExecutionGeneration claimed) (c_ID c) statuses
                (err_str runErr) (Some event)) (\<lambda>r.
              if r = Inr True \<and> rm_liveEvents m then RPublish event RStop else RStop))"

definition run_failed :: "RunManager \<Rightarrow> DecisionCase \<Rightarrow> DecisionJob \<Rightarrow> goerr \<Rightarrow> rproc" where
  "run_failed m c claimed runErr =
     RLeaseLost (\<lambda>lost.
       if err_is runErr ErrCommitOutcomeUnknown \<or> err_is runErr ErrLeaseLost \<or> lost then RStop
       else RCancelled (\<lambda>cancelled.
         if cancelled then cancelWorkerJob m (c_ID c) claimed
         else if j_Attempt claimed < j_MaxAttempts claimed then
           RNow (\<lambda>now. let retryAt = now + retryDelay m (j_Attempt claimed) in
             markJobFailed m claimed (c_ID c) (err_str runErr) (Some retryAt) (\<lambda>r. case r of
               Inl _ \<Rightarrow> RStop
             | Inr _ \<Rightarrow> RSleep retryAt (\<lambda>stopped. if stopped then cancelWorkerJob m (c_ID c) claimed else RLoop c)))
         else final_failure m c claimed runErr))"

definition run_succeeded :: "RunManager \<Rightarrow> DecisionCase \<Rightarrow> DecisionJob \<Rightarrow> ExecutionContext \<Rightarrow> rproc" where
  "run_succeeded m c claimed owner =
     (if j_ExecutionGeneration claimed > 0 \<and> \<not> rm_nonAtomic m then
        (if rm_settlementReader m then RDb (OpExecutionSettled (Some owner)) (\<lambda>_. RStop) else RStop)
      else RLeaseLost (\<lambda>lost. if lost then RStop else markJobSucceeded m claimed (c_ID c) (\<lambda>_. RStop)))"

definition start_run :: "RunManager \<Rightarrow> DecisionJob \<Rightarrow> ExecutionContext \<Rightarrow> DecisionCase \<Rightarrow> rproc" where
  "start_run m claimed owner c =
     (if \<not> rm_ownerAware m
        then run_failed m c claimed (Errorf ''run manager: durable orchestration requires execution-owner capability'')
      else ROrchestrate owner c (\<lambda>r. case r of
          (None, c') \<Rightarrow> run_succeeded m c' claimed owner
        | (Some e, c') \<Rightarrow> run_failed m c' claimed e))"

definition owner_of_claim :: "RunManager \<Rightarrow> DecisionCase \<Rightarrow> DecisionJob \<Rightarrow> ExecutionContext" where
  "owner_of_claim m c claimed =
     \<lparr> x_CaseID = c_ID c, x_JobID = j_ID claimed, x_RunID = [], x_WorkerID = rm_workerID m,
       x_JobAttempt = j_Attempt claimed, x_ExecutionGeneration = j_ExecutionGeneration claimed \<rparr>"

definition run_claimed :: "RunManager \<Rightarrow> DecisionJob \<Rightarrow> DecisionCase \<Rightarrow> rproc" where
  "run_claimed m claimed c =
     (case settleClaimedCaseIfTerminal m c claimed of Some p \<Rightarrow> p | None \<Rightarrow>
      let owner = owner_of_claim m c claimed in
      if j_Attempt claimed > 1 \<and> c_Status c \<noteq> CaseStatusResolved then
        resetCaseForRetry m c owner (\<lambda>r. case r of
          Inr (Some c') \<Rightarrow> start_run m claimed owner c'
        | Inr None \<Rightarrow> releaseRejectedRetryClaim m claimed
        | Inl e \<Rightarrow> if err_is e ErrCommitOutcomeUnknown then RStop else releaseRejectedRetryClaim m claimed)
      else start_run m claimed owner c)"

definition run_owned :: "RunManager \<Rightarrow> DecisionCase \<Rightarrow> DecisionJob \<Rightarrow> rproc" where
  "run_owned m c claimed =
     RCancelled (\<lambda>cancelled.
       if cancelled then cancelWorkerJob m (c_ID c) claimed
       else if rm_caseRepo m then
         RDb (OpGetCase (c_ID c)) (\<lambda>r. case r of
           RpCase (Inr fresh) \<Rightarrow>
             if c_ExecutionGeneration fresh \<noteq> j_ExecutionGeneration claimed then releaseRejectedRetryClaim m claimed
             else run_claimed m claimed (fresh\<lparr> c_ExecutionAttempt := j_Attempt claimed \<rparr>)
         | _ \<Rightarrow> releaseRejectedRetryClaim m claimed)
       else run_claimed m claimed
              (c\<lparr> c_ExecutionAttempt := j_Attempt claimed, c_ExecutionGeneration := j_ExecutionGeneration claimed \<rparr>))"

definition verify_claim :: "RunManager \<Rightarrow> DecisionCase \<Rightarrow> string \<Rightarrow> DecisionJob \<Rightarrow> rproc" where
  "verify_claim m c claimToken claimed =
     RDb (OpGetByCase (j_CaseID claimed)) (\<lambda>r. case r of
       RpJob (Inr currentJob) \<Rightarrow> RNow (\<lambda>now.
         if activeClaimForWorker currentJob claimed (rm_workerID m) claimToken now then run_owned m c currentJob else RStop)
     | _ \<Rightarrow> RStop)"

text \<open>A claim without an answer is recovered by its token. One round of the loop claims the job under a new token.\<close>

definition recover_claim :: "RunManager \<Rightarrow> DecisionCase \<Rightarrow> string \<Rightarrow> rproc" where
  "recover_claim m c claimToken =
     RDb (OpGetByClaimToken claimToken) (\<lambda>r. case r of
       RpJob (Inr recovered) \<Rightarrow> verify_claim m c claimToken recovered | _ \<Rightarrow> RStop)"

definition claim_answered :: "RunManager \<Rightarrow> DecisionCase \<Rightarrow> string \<Rightarrow> DbReply \<Rightarrow> rproc" where
  "claim_answered m c claimToken r =
     (case r of
        RpJobOpt (Inr (Some claimed)) \<Rightarrow> verify_claim m c claimToken claimed
      | RpJobOpt (Inl err) \<Rightarrow>
          if err_is err errDecisionWriterBlocked \<or> err_is err errDecisionWriterVersion \<or> err_is err errDecisionWriterIdentity
            then RStop
          else recover_claim m c claimToken
      | _ \<Rightarrow> RStop)"

definition claim_call :: "RunManager \<Rightarrow> DecisionJob \<Rightarrow> DecisionCase \<Rightarrow> timestamp \<Rightarrow> string \<Rightarrow> rproc" where
  "claim_call m job c leaseUntil claimToken =
     RNow (\<lambda>now. RDb (OpClaim (j_ID job) (rm_workerID m) claimToken leaseUntil now) (claim_answered m c claimToken))"

definition execute_round :: "RunManager \<Rightarrow> DecisionJob \<Rightarrow> DecisionCase \<Rightarrow> rproc" where
  "execute_round m job c =
     RCancelled (\<lambda>cancelled. if cancelled then RStop else
       RNow (\<lambda>now. RToken (claim_call m job c (now + rm_lease m))))"

section \<open>The heartbeat\<close>

text \<open>
  \<^verbatim>\<open>startHeartbeat\<close>: a ticker submits renewals, one at a time, and a timer cancels the attempt when
  the lease it believes in ends. The state is that lease and whether a renewal is in flight; \<^term>\<open>None\<close>
  means that the attempt was cancelled because the lease was lost.
\<close>

datatype hb_event = LeaseTimer | Ticked bool | Renewed timestamp "goerr option" timestamp timestamp

record Heartbeat =
  hb_leaseUntil :: timestamp
  hb_inFlight :: bool

text \<open>\<open>Ticked ready\<close>: the ticker fires, and the renewal worker is ready to take a request or not.
  \<open>Renewed next err now1 now2\<close>: its answer arrives; the clock is read once or twice.\<close>

fun hb_step :: "RunManager \<Rightarrow> hb_event \<Rightarrow> Heartbeat \<Rightarrow> Heartbeat option" where
  "hb_step m LeaseTimer h = None"
| "hb_step m (Ticked ready) h = Some (if hb_inFlight h \<or> \<not> ready then h else h\<lparr> hb_inFlight := True \<rparr>)"
| "hb_step m (Renewed nxt err now1 now2) h =
     (let h' = h\<lparr> hb_inFlight := False \<rparr> in
      if err = None \<and> now1 < hb_leaseUntil h then Some (h'\<lparr> hb_leaseUntil := nxt \<rparr>)
      else if (case err of None \<Rightarrow> False | Some e \<Rightarrow> err_is e ErrLeaseLost) \<or> \<not> now2 < hb_leaseUntil h then None
      else Some h')"

end
