(* ===== verification/RunSystem.thy ===== *)
theory RunSystem
  imports JobProps RunManager
begin

text \<open>
  Any number of run managers on one job store. A goroutine of a manager is a \<open>rproc\<close>; the schedule
  says which goroutine makes its next call and what clock, contexts and orchestrator answer, when a
  goroutine is launched or its process crashes, and which other operations (admissions, controls,
  heartbeats, the writes of the orchestrators) reach the store in between.

  The contract \<open>claim_store\<close> is what the managers rely on in the store: a generation of a job is
  claimed at most once, and the job they read back names the claim that it runs under. From it alone
  follows that no generation of a job is orchestrated twice.
\<close>

section \<open>The system\<close>

text \<open>\<open>rs_token\<close> is the token of the round that a goroutine is in, until it orchestrates. The log has the
  goroutine, its token and the owner of every orchestration.\<close>

record 's RSys =
  rs_store :: 's
  rs_manager :: "nat \<Rightarrow> RunManager \<times> DecisionJob"
  rs_proc :: "nat \<Rightarrow> rproc"
  rs_token :: "nat \<Rightarrow> string option"
  rs_used :: "string list"
  rs_log :: "(nat \<times> string \<times> ExecutionContext) list"

datatype rs_answer =
    SaysBool bool | SaysTime timestamp | SaysText string | SaysReset "goerr + bool"
  | SaysOutcome "goerr option \<times> DecisionCase" | SaysNothing

datatype rs_event =
    Launch nat RunManager DecisionJob DecisionCase
  | Proceed nat rs_answer
  | Crash nat
  | Elsewhere DbOp

definition goes_on :: "nat \<Rightarrow> rproc \<Rightarrow> 's RSys \<Rightarrow> 's RSys" where
  "goes_on i p s = s\<lparr> rs_proc := (rs_proc s)(i := p) \<rparr>"

definition ends_round :: "nat \<Rightarrow> rproc \<Rightarrow> 's RSys \<Rightarrow> 's RSys" where
  "ends_round i p s = s\<lparr> rs_proc := (rs_proc s)(i := p), rs_token := (rs_token s)(i := None) \<rparr>"

definition takes_token :: "nat \<Rightarrow> string \<Rightarrow> rproc \<Rightarrow> 's RSys \<Rightarrow> 's RSys" where
  "takes_token i t p s = s\<lparr> rs_proc := (rs_proc s)(i := p), rs_token := (rs_token s)(i := Some t), rs_used := t # rs_used s \<rparr>"

text \<open>An answer of the wrong kind, a token that was given before: nothing happens.\<close>

fun proceed :: "(DbOp \<Rightarrow> 's \<Rightarrow> DbReply \<times> 's) \<Rightarrow> nat \<Rightarrow> rproc \<Rightarrow> rs_answer \<Rightarrow> 's RSys \<Rightarrow> 's RSys" where
  "proceed exec i (RLoop c) a s = (case rs_manager s i of (m, job) \<Rightarrow> ends_round i (execute_round m job c) s)"
| "proceed exec i (RCancelled k) (SaysBool b) s = goes_on i (k b) s"
| "proceed exec i (RLeaseLost k) (SaysBool b) s = goes_on i (k b) s"
| "proceed exec i (RPaused c k) (SaysBool b) s = goes_on i (k b) s"
| "proceed exec i (RSleep t k) (SaysBool b) s = goes_on i (k b) s"
| "proceed exec i (RNow k) (SaysTime t) s = goes_on i (k t) s"
| "proceed exec i (REventID k) (SaysText t) s = goes_on i (k t) s"
| "proceed exec i (RToken k) (SaysText t) s =
     (if t \<in> set (rs_used s) then s
      else takes_token i t (k t) s)"
| "proceed exec i (RDb op k) a s =
     (case exec op (rs_store s) of (r, st) \<Rightarrow> (goes_on i (k r) s)\<lparr> rs_store := st \<rparr>)"
| "proceed exec i (RLegacyReset c sts k) (SaysReset r) s = goes_on i (k r) s"
| "proceed exec i (ROrchestrate x c k) (SaysOutcome r) s =
     (ends_round i (k r) s)\<lparr> rs_log := rs_log s @ [(i, case rs_token s i of None \<Rightarrow> [] | Some t \<Rightarrow> t, x)] \<rparr>"
| "proceed exec i (RPublish e p) a s = goes_on i p s"
| "proceed exec i _ _ s = s"

text \<open>Claims are only made by goroutines.\<close>

fun rs_step :: "(DbOp \<Rightarrow> 's \<Rightarrow> DbReply \<times> 's) \<Rightarrow> rs_event \<Rightarrow> 's RSys \<Rightarrow> 's RSys" where
  "rs_step exec (Launch i m job c) s =
     (if (case rs_proc s i of RStop \<Rightarrow> True | _ \<Rightarrow> False)
      then (ends_round i (execute_round m job c) s)\<lparr> rs_manager := (rs_manager s)(i := (m, job)) \<rparr> else s)"
| "rs_step exec (Proceed i a) s = proceed exec i (rs_proc s i) a s"
| "rs_step exec (Crash i) s = ends_round i RStop s"
| "rs_step exec (Elsewhere op) s =
     (if claim_tokens op = {} then s\<lparr> rs_store := snd (exec op (rs_store s)) \<rparr> else s)"

fun rs_run :: "(DbOp \<Rightarrow> 's \<Rightarrow> DbReply \<times> 's) \<Rightarrow> rs_event list \<Rightarrow> 's RSys \<Rightarrow> 's RSys" where
  "rs_run exec [] s = s"
| "rs_run exec (e # es) s = rs_run exec es (rs_step exec e s)"

definition rs_init :: "'s \<Rightarrow> RunManager \<times> DecisionJob \<Rightarrow> 's RSys" where
  "rs_init st d = \<lparr> rs_store = st, rs_manager = (\<lambda>_. d), rs_proc = (\<lambda>_. RStop), rs_token = (\<lambda>_. None), rs_used = [], rs_log = [] \<rparr>"

lemma goes_on_sel [simp]:
  "rs_store (goes_on i p s) = rs_store s" "rs_proc (goes_on i p s) = (rs_proc s)(i := p)" "rs_token (goes_on i p s) = rs_token s"
  "rs_used (goes_on i p s) = rs_used s" "rs_log (goes_on i p s) = rs_log s"
  by (simp_all add: goes_on_def)

lemma ends_round_sel [simp]:
  "rs_store (ends_round i p s) = rs_store s" "rs_proc (ends_round i p s) = (rs_proc s)(i := p)"
  "rs_token (ends_round i p s) = (rs_token s)(i := None)" "rs_used (ends_round i p s) = rs_used s"
  "rs_log (ends_round i p s) = rs_log s"
  by (simp_all add: ends_round_def)

lemma takes_token_sel [simp]:
  "rs_store (takes_token i t p s) = rs_store s" "rs_proc (takes_token i t p s) = (rs_proc s)(i := p)"
  "rs_token (takes_token i t p s) = (rs_token s)(i := Some t)" "rs_used (takes_token i t p s) = t # rs_used s"
  "rs_log (takes_token i t p s) = rs_log s"
  by (simp_all add: takes_token_def)

lemma goes_on_store: "(goes_on i p s)\<lparr> rs_store := st \<rparr> = goes_on i p (s\<lparr> rs_store := st \<rparr>)"
  by (cases s) (simp add: goes_on_def)

section \<open>The discipline of a goroutine\<close>

text \<open>\<open>calm\<close>: until the next round the goroutine neither claims nor orchestrates. \<open>poised P\<close>: it
  orchestrates at most once, for an owner that satisfies \<open>P\<close>.\<close>

primrec calm_run :: "rproc \<Rightarrow> bool" where
  "calm_run RStop = True"
| "calm_run (RLoop c) = True"
| "calm_run (RCancelled k) = (\<forall>b. calm_run (k b))"
| "calm_run (RLeaseLost k) = (\<forall>b. calm_run (k b))"
| "calm_run (RPaused c k) = (\<forall>b. calm_run (k b))"
| "calm_run (RSleep t k) = (\<forall>b. calm_run (k b))"
| "calm_run (RNow k) = (\<forall>t. calm_run (k t))"
| "calm_run (RToken k) = False"
| "calm_run (REventID k) = (\<forall>t. calm_run (k t))"
| "calm_run (RDb op k) = (claim_tokens op = {} \<and> (\<forall>r. calm_run (k r)))"
| "calm_run (RLegacyReset c sts k) = (\<forall>r. calm_run (k r))"
| "calm_run (ROrchestrate x c k) = False"
| "calm_run (RPublish e p) = calm_run p"

primrec poised_run :: "(ExecutionContext \<Rightarrow> bool) \<Rightarrow> rproc \<Rightarrow> bool" where
  "poised_run P RStop = True"
| "poised_run P (RLoop c) = True"
| "poised_run P (RCancelled k) = (\<forall>b. poised_run P (k b))"
| "poised_run P (RLeaseLost k) = (\<forall>b. poised_run P (k b))"
| "poised_run P (RPaused c k) = (\<forall>b. poised_run P (k b))"
| "poised_run P (RSleep t k) = (\<forall>b. poised_run P (k b))"
| "poised_run P (RNow k) = (\<forall>t. poised_run P (k t))"
| "poised_run P (RToken k) = False"
| "poised_run P (REventID k) = (\<forall>t. poised_run P (k t))"
| "poised_run P (RDb op k) = (claim_tokens op = {} \<and> (\<forall>r. poised_run P (k r)))"
| "poised_run P (RLegacyReset c sts k) = (\<forall>r. poised_run P (k r))"
| "poised_run P (ROrchestrate x c k) = (P x \<and> (\<forall>r. calm_run (k r)))"
| "poised_run P (RPublish e p) = poised_run P p"

lemma calm_poised: "calm_run p \<Longrightarrow> poised_run P p"
  by (induction p) auto

lemma poised_False: "poised_run (\<lambda>x. False) p = calm_run p"
  by (induction p) auto

lemma poised_mono: "poised_run P p \<Longrightarrow> (\<And>x. P x \<Longrightarrow> Q x) \<Longrightarrow> poised_run Q p"
  by (induction p) auto

lemmas settle_parts = db_unit_def db_bool_def markJobSucceeded_def markJobFailed_def cancelOwned_def cancelWorkerJob_def
  releaseRejectedRetryClaim_def settleTerminalCaseJob_def

lemma calm_settle:
  "calm_run (cancelOwned m job c)" "calm_run (cancelWorkerJob m c job)" "calm_run (releaseRejectedRetryClaim m job)"
  "calm_run (settleTerminalCaseJob m job cs e)"
  by (auto simp: settle_parts split: DbReply.split sum.split)

lemma calm_marks:
  "(\<And>r. calm_run (k r)) \<Longrightarrow> calm_run (markJobFailed m job c e retry k)"
  "(\<And>r. calm_run (k r)) \<Longrightarrow> calm_run (markJobSucceeded m job c k)"
  by (auto simp: settle_parts split: DbReply.split sum.split)

lemma calm_final_failure: "calm_run (final_failure m c claimed e)"
  by (auto simp: final_failure_def db_bool_def calm_settle Let_def split: DbReply.split)

lemma calm_run_failed: "calm_run (run_failed m c claimed e)"
  by (auto simp: run_failed_def calm_settle calm_final_failure Let_def intro!: calm_marks split: sum.split)

lemma calm_run_succeeded: "calm_run (run_succeeded m c claimed x)"
  by (auto simp: run_succeeded_def intro!: calm_marks)

lemma poised_start_run: "P x \<Longrightarrow> poised_run P (start_run m claimed x c)"
  by (auto simp: start_run_def calm_run_failed calm_run_succeeded calm_poised split: option.split)

lemma poised_reset:
  assumes "\<And>r. poised_run P (k r)"
  shows "poised_run P (resetCaseForRetry m c x k)"
  using assms by (auto simp: resetCaseForRetry_def db_bool_def Let_def split: DbReply.split sum.split)

lemma poised_run_claimed:
  assumes "P (owner_of_claim m c claimed)"
  shows "poised_run P (run_claimed m claimed c)"
proof -
  have settled: "settleClaimedCaseIfTerminal m c claimed = Some p \<Longrightarrow> poised_run P p" for p
    by (auto simp: settleClaimedCaseIfTerminal_def calm_settle calm_poised split: if_splits)
  show ?thesis
    using settled poised_start_run [where P = P, OF assms] by (auto simp: run_claimed_def Let_def calm_settle calm_poised
        intro!: poised_reset split: option.split sum.split)
qed

lemma poised_run_owned:
  assumes "\<And>c. P (owner_of_claim m c claimed)"
  shows "poised_run P (run_owned m c claimed)"
  using assms by (auto simp: run_owned_def calm_settle calm_poised poised_run_claimed split: DbReply.split sum.split)

section \<open>The contract of the store\<close>

definition claimed_as :: "string \<Rightarrow> ExecutionContext \<Rightarrow> DecisionJobClaimModel \<Rightarrow> bool" where
  "claimed_as t x m \<longleftrightarrow> jc_ClaimToken m = t \<and> jc_JobID m = x_JobID x \<and>
     jc_ExecutionGeneration m = x_ExecutionGeneration x \<and> jc_WorkerID m = x_WorkerID x"

text \<open>Where a goroutine can be without and with a token.\<close>

inductive unclaimed :: "rproc \<Rightarrow> bool" where
  calm: "calm_run p \<Longrightarrow> unclaimed p"
| start: "unclaimed (execute_round m job c)"
| lease: "unclaimed (RNow (\<lambda>now. RToken (claim_call m job c (now + rm_lease m))))"
| token: "unclaimed (RToken (claim_call m job c l))"

inductive with_token :: "string \<Rightarrow> DecisionJobClaimModel set \<Rightarrow> rproc \<Rightarrow> bool" for t and S where
  call: "with_token t S (claim_call m job c l t)"
| claim: "with_token t S (RDb (OpClaim j w t l now) (claim_answered m c t))"
| recover: "with_token t S (recover_claim m c t)"
| verify: "with_token t S (verify_claim m c t job)"
| poised: "poised_run (\<lambda>x. \<exists>m \<in> S. claimed_as t x m) p \<Longrightarrow> with_token t S p"

lemma with_token_mono: "with_token t S p \<Longrightarrow> S \<subseteq> S' \<Longrightarrow> with_token t S' p"
proof (erule with_token.cases, goal_cases)
  case (5 p')
  then have "poised_run (\<lambda>x. \<exists>m \<in> S'. claimed_as t x m) p'" by (auto elim!: poised_mono)
  then show ?case using 5 by (simp add: with_token.poised)
qed (auto intro: with_token.intros)

lemma with_token_RStop: "with_token t S RStop" and unclaimed_RStop: "unclaimed RStop"
  by (simp_all add: with_token.poised unclaimed.calm)

locale claim_store =
  fixes exec :: "DbOp \<Rightarrow> 's \<Rightarrow> DbReply \<times> 's" and ok :: "'s \<Rightarrow> bool" and claims :: "'s \<Rightarrow> DecisionJobClaimModel set"
  assumes exec_ok: "ok s \<Longrightarrow> ok (snd (exec op s))"
    and claims_kept: "ok s \<Longrightarrow> claims s \<subseteq> claims (snd (exec op s))"
    and claims_new: "ok s \<Longrightarrow> m \<in> claims (snd (exec op s)) \<Longrightarrow> m \<in> claims s \<or> jc_ClaimToken m \<in> claim_tokens op"
    and claims_unique: "ok s \<Longrightarrow> m \<in> claims s \<Longrightarrow> m' \<in> claims s \<Longrightarrow>
      jc_JobID m = jc_JobID m' \<Longrightarrow> jc_ExecutionGeneration m = jc_ExecutionGeneration m' \<Longrightarrow> m = m'"
    and running_claimed: "ok s \<Longrightarrow> fst (exec (OpGetByCase k) s) = RpJob (Inr j) \<Longrightarrow> j_Status j = DecisionJobRunning \<Longrightarrow>
      0 < j_ExecutionGeneration j \<Longrightarrow> \<exists>m \<in> claims s. jc_ClaimToken m = j_ClaimToken j \<and> jc_JobID m = j_ID j \<and>
        jc_ExecutionGeneration m = j_ExecutionGeneration j \<and> jc_WorkerID m = j_WorkerID j"
begin

definition in_phase :: "'s RSys \<Rightarrow> nat \<Rightarrow> rproc \<Rightarrow> bool" where
  "in_phase s i p \<longleftrightarrow> (case rs_token s i of None \<Rightarrow> unclaimed p | Some t \<Rightarrow> with_token t (claims (rs_store s)) p)"

definition tokens_ok :: "'s RSys \<Rightarrow> bool" where
  "tokens_ok s \<longleftrightarrow> jc_ClaimToken ` claims (rs_store s) \<subseteq> set (rs_used s) \<and>
     (\<forall>i t. rs_token s i = Some t \<longrightarrow> t \<in> set (rs_used s) \<and> t \<notin> fst ` snd ` set (rs_log s)) \<and>
     (\<forall>i j t. rs_token s i = Some t \<longrightarrow> rs_token s j = Some t \<longrightarrow> i = j)"

definition log_ok :: "'s RSys \<Rightarrow> bool" where
  "log_ok s \<longleftrightarrow> distinct (map (\<lambda>e. fst (snd e)) (rs_log s)) \<and>
     (\<forall>(i, t, x) \<in> set (rs_log s). t \<in> set (rs_used s) \<and> (\<exists>m \<in> claims (rs_store s). claimed_as t x m))"

definition system_ok :: "'s RSys \<Rightarrow> bool" where
  "system_ok s \<longleftrightarrow> ok (rs_store s) \<and> tokens_ok s \<and> log_ok s \<and> (\<forall>i. in_phase s i (rs_proc s i))"

lemma in_phase_frame: "rs_token s' i = rs_token s i \<Longrightarrow> rs_store s' = rs_store s \<Longrightarrow> in_phase s' i p = in_phase s i p"
  by (simp add: in_phase_def split: option.split)

lemma ok_goes_on: "system_ok s \<Longrightarrow> in_phase s i p \<Longrightarrow> system_ok (goes_on i p s)"
  by (simp add: system_ok_def tokens_ok_def log_ok_def in_phase_frame [of "goes_on i p s" _ s])

lemma ok_ends_round:
  assumes "system_ok s" and "unclaimed p"
  shows "system_ok (ends_round i p s)"
proof -
  have "in_phase (ends_round i p s) j (rs_proc (ends_round i p s) j)" for j
    using assms in_phase_frame [of "ends_round i p s" j s] by (cases "j = i") (simp_all add: in_phase_def system_ok_def)
  then show ?thesis using assms(1) by (simp add: system_ok_def tokens_ok_def log_ok_def)
qed

lemma in_phase_store:
  assumes "ok (rs_store s)" and "in_phase s i p"
  shows "in_phase (s\<lparr> rs_store := snd (exec op (rs_store s)) \<rparr>) i p"
  using assms(2) claims_kept [OF assms(1), of op]
  by (auto simp: in_phase_def split: option.splits intro: with_token_mono)

lemma ok_store:
  assumes "system_ok s" and "claim_tokens op \<subseteq> set (rs_used s)"
  shows "system_ok (s\<lparr> rs_store := snd (exec op (rs_store s)) \<rparr>)"
proof -
  have ok: "ok (rs_store s)" using assms(1) by (simp add: system_ok_def)
  have "jc_ClaimToken ` claims (snd (exec op (rs_store s))) \<subseteq> set (rs_used s)"
    using claims_new [OF ok] assms unfolding system_ok_def tokens_ok_def by blast
  then show ?thesis
    using assms(1) claims_kept [OF ok, of op] exec_ok [OF ok] in_phase_store [OF ok]
    by (fastforce simp: system_ok_def tokens_ok_def log_ok_def)
qed

lemma ok_db:
  assumes "system_ok s" and "claim_tokens op \<subseteq> set (rs_used s)" and "exec op (rs_store s) = (r, st)"
    and "in_phase (s\<lparr> rs_store := st \<rparr>) i p"
  shows "system_ok ((goes_on i p s)\<lparr> rs_store := st \<rparr>)"
proof -
  have "system_ok (s\<lparr> rs_store := st \<rparr>)" using ok_store [OF assms(1,2)] assms(3) by simp
  from ok_goes_on [OF this assms(4)] show ?thesis by (simp add: goes_on_store)
qed

lemma ok_token:
  assumes "system_ok s" and "t \<notin> set (rs_used s)" and "with_token t (claims (rs_store s)) p"
  shows "system_ok (takes_token i t p s)"
proof -
  have "in_phase (takes_token i t p s) j (rs_proc (takes_token i t p s) j)" for j
    using assms in_phase_frame [of "takes_token i t p s" j s] by (cases "j = i") (simp_all add: in_phase_def system_ok_def)
  moreover have "tokens_ok (takes_token i t p s)"
    using assms(1,2) by (fastforce simp: system_ok_def tokens_ok_def log_ok_def)
  ultimately show ?thesis using assms(1) by (auto simp: system_ok_def log_ok_def)
qed

lemma ok_orchestrate:
  assumes "system_ok s" and "rs_token s i = Some t" and "m \<in> claims (rs_store s)" and "claimed_as t x m" and "calm_run p"
  shows "system_ok ((ends_round i p s)\<lparr> rs_log := rs_log s @ [(i, t, x)] \<rparr>)" (is "system_ok ?s")
proof -
  have t: "t \<in> set (rs_used s)" "t \<notin> fst ` snd ` set (rs_log s)" and j: "\<And>j. rs_token s j = Some t \<Longrightarrow> j = i"
    using assms(1,2) unfolding system_ok_def tokens_ok_def by blast+
  have e: "system_ok (ends_round i p s)" using ok_ends_round [OF assms(1)] assms(5) by (simp add: unclaimed.calm)
  have "in_phase ?s k (rs_proc ?s k)" for k
    using e in_phase_frame [of ?s k "ends_round i p s"] by (simp add: system_ok_def)
  moreover have "tokens_ok ?s"
  proof -
    have tk: "tokens_ok s" using assms(1) by (simp add: system_ok_def)
    have "u \<in> set (rs_used s) \<and> u \<notin> fst ` snd ` set (rs_log s)" if "rs_token s k = Some u" for k u
      using tk that by (simp add: tokens_ok_def)
    moreover have "k = k'" if "rs_token s k = Some u" "rs_token s k' = Some u" for k k' u
      using tk that unfolding tokens_ok_def by (elim conjE) metis
    moreover have "u \<noteq> t" if "k \<noteq> i" "rs_token s k = Some u" for k u using j that by metis
    moreover have "jc_ClaimToken ` claims (rs_store s) \<subseteq> set (rs_used s)" using tk by (simp add: tokens_ok_def)
    ultimately show ?thesis by (simp add: tokens_ok_def)
  qed
  moreover have "t \<notin> set (map (\<lambda>e. fst (snd e)) (rs_log s))" using t(2) by auto
  then have "log_ok ?s" using e t(1) assms(3,4) by (auto simp: system_ok_def log_ok_def)
  ultimately show ?thesis using e by (simp add: system_ok_def)
qed

text \<open>A goroutine that only settles, or orchestrates under a claim of its token.\<close>

definition resting :: "'s RSys \<Rightarrow> nat \<Rightarrow> rproc \<Rightarrow> bool" where
  "resting s i = poised_run (\<lambda>x. \<exists>t. rs_token s i = Some t \<and> (\<exists>m \<in> claims (rs_store s). claimed_as t x m))"

lemma resting_simps:
  "resting s i RStop" "resting s i (RCancelled k) = (\<forall>b. resting s i (k b))" "resting s i (RLeaseLost k) = (\<forall>b. resting s i (k b))"
  "resting s i (RPaused c k) = (\<forall>b. resting s i (k b))" "resting s i (RSleep t k) = (\<forall>b. resting s i (k b))"
  "resting s i (RNow l) = (\<forall>t. resting s i (l t))" "resting s i (REventID e) = (\<forall>t. resting s i (e t))"
  "resting s i (RDb op d) = (claim_tokens op = {} \<and> (\<forall>r. resting s i (d r)))"
  "resting s i (RLegacyReset c sts u) = (\<forall>r. resting s i (u r))" "resting s i (RPublish v p) = resting s i p"
  by (simp_all add: resting_def)

lemma resting_in_phase: "resting s i p \<Longrightarrow> in_phase s i p"
  by (auto simp: resting_def in_phase_def poised_False intro: unclaimed.calm with_token.poised split: option.split)

lemma resting_store:
  assumes "ok (rs_store s)" and "resting s i p" and "exec op (rs_store s) = (r, st)"
  shows "resting (s\<lparr> rs_store := st \<rparr>) i p"
  using assms(2) claims_kept [OF assms(1), of op] assms(3) unfolding resting_def by (auto elim!: poised_mono)

lemma ok_resting_db:
  assumes "system_ok s" and "claim_tokens op \<subseteq> set (rs_used s)" and "\<And>r. resting s i (k r)"
  shows "system_ok (proceed exec i (RDb op k) a s)"
proof -
  obtain r st where x: "exec op (rs_store s) = (r, st)" by fastforce
  have "resting (s\<lparr> rs_store := st \<rparr>) i (k r)" using resting_store assms(1,3) x unfolding system_ok_def by blast
  then show ?thesis using ok_db [OF assms(1,2) x resting_in_phase] x by simp
qed

lemma ok_resting:
  assumes "system_ok s" and "resting s i p"
  shows "system_ok (proceed exec i p a s)"
proof (cases p)
  case (RDb op k)
  then show ?thesis using ok_resting_db [OF assms(1)] assms(2) by (simp add: resting_simps)
next
  case (ROrchestrate x c k)
  then obtain t m where t: "rs_token s i = Some t" "m \<in> claims (rs_store s)" "claimed_as t x m" "\<And>r. calm_run (k r)"
    using assms(2) by (auto simp: resting_def)
  show ?thesis using ok_orchestrate [OF assms(1) t] assms(1) t(1) ROrchestrate by (cases a) simp_all
next
  case (RLoop c)
  then show ?thesis using ok_ends_round [OF assms(1) unclaimed.start] by (simp split: prod.split)
next
  case (RToken k)
  then show ?thesis using assms(2) by (simp add: resting_def)
qed (insert assms, (cases a; simp add: resting_simps ok_goes_on resting_in_phase)+)

lemma ok_verify:
  assumes "system_ok s" and "rs_token s i = Some t"
  shows "system_ok (proceed exec i (verify_claim m c t claimed) a s)"
proof -
  have ok: "ok (rs_store s)" using assms(1) by (simp add: system_ok_def)
  have "resting s i (run_owned m c j)"
    if job: "fst (exec (OpGetByCase (j_CaseID claimed)) (rs_store s)) = RpJob (Inr j)"
      and active: "activeClaimForWorker j claimed (rm_workerID m) t now" for j now
  proof -
    obtain x where "x \<in> claims (rs_store s)" "jc_ClaimToken x = t" "jc_JobID x = j_ID j"
        "jc_ExecutionGeneration x = j_ExecutionGeneration j" "jc_WorkerID x = rm_workerID m"
      using running_claimed [OF ok job] active by (auto simp: activeClaimForWorker_def)
    then show ?thesis
      unfolding resting_def by (intro poised_run_owned) (auto simp: assms(2) claimed_as_def owner_of_claim_def)
  qed
  moreover obtain r st where x: "exec (OpGetByCase (j_CaseID claimed)) (rs_store s) = (r, st)" by fastforce
  ultimately have "resting s i (case r of RpJob (Inr currentJob) \<Rightarrow> RNow (\<lambda>now.
      if activeClaimForWorker currentJob claimed (rm_workerID m) t now then run_owned m c currentJob else RStop) | _ \<Rightarrow> RStop)"
    by (auto simp: resting_simps split: DbReply.split sum.split)
  from resting_in_phase [OF resting_store [OF ok this x]] show ?thesis
    using ok_db [OF assms(1) _ x] x by (simp add: verify_claim_def)
qed

lemma with_token_answers:
  "with_token t S (claim_answered m c t r)"
  "with_token t S (case r of RpJob (Inr recovered) \<Rightarrow> verify_claim m c t recovered | _ \<Rightarrow> RStop)"
  by (auto simp: claim_answered_def with_token_RStop intro: with_token.intros split: DbReply.split sum.split option.split)

lemma ok_with_token:
  assumes "system_ok s" and t: "rs_token s i = Some t" and "with_token t (claims (rs_store s)) p"
  shows "system_ok (proceed exec i p a s)"
  using assms(3)
proof cases
  case (call m job c l)
  then show ?thesis
    using assms(1) by (cases a) (auto simp: claim_call_def in_phase_def t intro!: ok_goes_on with_token.claim)
next
  case (claim j w l now m c)
  have "t \<in> set (rs_used s)" using assms(1) t by (simp add: system_ok_def tokens_ok_def)
  then show ?thesis
    using claim assms(1) by (auto simp: in_phase_def t with_token_answers split: prod.split intro!: ok_db)
next
  case (recover m c)
  then show ?thesis
    using assms(1) by (auto simp: recover_claim_def in_phase_def t with_token_answers split: prod.split intro!: ok_db)
next
  case (verify m c job)
  then show ?thesis using ok_verify [OF assms(1) t] by simp
next
  case poised
  then show ?thesis using ok_resting [OF assms(1)] t by (simp add: resting_def)
qed

lemma ok_unclaimed:
  assumes "system_ok s" and t: "rs_token s i = None" and "unclaimed p"
  shows "system_ok (proceed exec i p a s)"
  using assms(3)
proof cases
  case calm
  then show ?thesis using ok_resting [OF assms(1)] t by (simp add: resting_def poised_False)
next
  case (start m job c)
  then show ?thesis
    using assms(1) by (cases a) (auto simp: execute_round_def in_phase_def t unclaimed_RStop intro!: ok_goes_on unclaimed.lease)
next
  case (lease m job c)
  then show ?thesis using assms(1) by (cases a) (auto simp: in_phase_def t intro!: ok_goes_on unclaimed.token)
next
  case (token m job c l)
  then show ?thesis using assms(1) by (cases a) (auto intro!: ok_token with_token.call)
qed

lemma ok_manager: "system_ok (s\<lparr> rs_manager := f \<rparr>) = system_ok s"
  by (simp add: system_ok_def tokens_ok_def log_ok_def in_phase_frame [of "s\<lparr> rs_manager := f \<rparr>" _ s])

lemma ok_step: "system_ok s \<Longrightarrow> system_ok (rs_step exec e s)"
proof (cases e)
  case (Launch i m job c)
  assume "system_ok s"
  then show ?thesis using ok_ends_round [OF _ unclaimed.start] Launch by (simp add: ok_manager)
next
  case (Proceed i a)
  assume s: "system_ok s"
  then have "in_phase s i (rs_proc s i)" by (simp add: system_ok_def)
  then show ?thesis
    using ok_with_token [OF s] ok_unclaimed [OF s] Proceed by (cases "rs_token s i") (simp_all add: in_phase_def)
next
  case (Crash i)
  assume "system_ok s"
  then show ?thesis using ok_ends_round unclaimed_RStop Crash by simp
next
  case (Elsewhere op)
  assume "system_ok s"
  then show ?thesis using ok_store Elsewhere by simp
qed

lemma ok_run: "system_ok s \<Longrightarrow> system_ok (rs_run exec es s)"
  by (induction es arbitrary: s) (simp_all add: ok_step)

lemma ok_init: "ok st \<Longrightarrow> claims st = {} \<Longrightarrow> system_ok (rs_init st d)"
  by (simp add: system_ok_def rs_init_def tokens_ok_def log_ok_def in_phase_def unclaimed_RStop)

theorem orchestrated_once:
  assumes "system_ok s"
  shows "distinct (map (\<lambda>(i, t, x). (x_JobID x, x_ExecutionGeneration x)) (rs_log s))"
    and "(i, t, x) \<in> set (rs_log s) \<Longrightarrow> \<exists>m \<in> claims (rs_store s). claimed_as t x m"
proof -
  have ok: "ok (rs_store s)" and log: "log_ok s" using assms by (simp_all add: system_ok_def)
  show "(i, t, x) \<in> set (rs_log s) \<Longrightarrow> \<exists>m \<in> claims (rs_store s). claimed_as t x m"
    using log by (fastforce simp: log_ok_def)
  have "inj_on (\<lambda>(i, t, x). (x_JobID x, x_ExecutionGeneration x)) (set (rs_log s))"
  proof (rule inj_onI)
    fix p q
    assume pq: "p \<in> set (rs_log s)" "q \<in> set (rs_log s)"
      "(\<lambda>(i, t, x). (x_JobID x, x_ExecutionGeneration x)) p = (\<lambda>(i, t, x). (x_JobID x, x_ExecutionGeneration x)) q"
    obtain i t x i' t' x' where e: "p = (i, t, x)" "q = (i', t', x')" by (cases p, cases q)
    have x: "x_JobID x = x_JobID x'" "x_ExecutionGeneration x = x_ExecutionGeneration x'" using pq(3) e by simp_all
    obtain m where m: "m \<in> claims (rs_store s)" "claimed_as t x m" using log pq(1) e(1) by (fastforce simp: log_ok_def)
    obtain m' where "m' \<in> claims (rs_store s)" "claimed_as t' x' m'" using log pq(2) e(2) by (fastforce simp: log_ok_def)
    with m have "t = t'" using claims_unique [OF ok, of m m'] x by (auto simp: claimed_as_def)
    then show "p = q"
      using inj_onD [of "\<lambda>e. fst (snd e)" "set (rs_log s)" p q] log pq(1,2) e by (simp add: log_ok_def distinct_map)
  qed
  moreover have "distinct (rs_log s)" using log by (simp add: log_ok_def distinct_map)
  ultimately show "distinct (map (\<lambda>(i, t, x). (x_JobID x, x_ExecutionGeneration x)) (rs_log s))"
    by (simp add: distinct_map)
qed

end

section \<open>The job store keeps the contract\<close>

lemma jobs_ok_claims_unique:
  assumes "jobs_ok s" and "m \<in> set (jd_claim s)" and "m' \<in> set (jd_claim s)" and "jc_JobID m = jc_JobID m'"
    and "jc_ExecutionGeneration m = jc_ExecutionGeneration m'"
  shows "m = m'"
proof -
  have "inj_on (\<lambda>m. (jc_JobID m, jc_ExecutionGeneration m)) (set (jd_claim s))"
    using assms(1) by (simp add: jobs_ok_def claims_ok_def distinct_map)
  from inj_onD [OF this _ assms(2,3)] show ?thesis using assms(4,5) by simp
qed

lemma jobs_ok_running:
  assumes "jobs_ok s" and "fst (jr_GetByCase k s) = Inr j" and "j_Status j = DecisionJobRunning"
  shows "\<exists>m \<in> set (jd_claim s). jc_ClaimToken m = j_ClaimToken j \<and> jc_JobID m = j_ID j \<and>
    jc_ExecutionGeneration m = j_ExecutionGeneration j \<and> jc_WorkerID m = j_WorkerID j"
proof -
  obtain f where f: "next_txfault s = (f, later s)" using next_txfault_later by blast
  obtain r where r: "r \<in> set (jd_job s)" "j = jobFromModel r"
    using assms(2) f
    by (auto simp: jr_GetByCase_def query_def stmt_def txn_def find_job_def find_Some_iff intro: nth_mem split: txfault.splits option.splits prod.splits if_splits)
  then obtain m where "m \<in> set (jd_claim s)" "latest_claim m r"
    using assms(1,3) by (auto simp: jobs_ok_def claims_ok_def jobFromModel_def)
  then show ?thesis using r assms(3) by (intro bexI [of _ m]) (auto simp: latest_claim_def claim_of_def jobFromModel_def)
qed

interpretation fleet: claim_store "db_exec env" jobs_ok "\<lambda>s. set (jd_claim s)" for env
proof
  show "jobs_ok s \<Longrightarrow> jobs_ok (snd (db_exec env op s))" for op s by (rule db_exec_ok)
  show "jobs_ok s \<Longrightarrow> set (jd_claim s) \<subseteq> set (jd_claim (snd (db_exec env op s)))" for op s
    using move_claims db_exec_move by blast
  show "jobs_ok s \<Longrightarrow> m \<in> set (jd_claim (snd (db_exec env op s))) \<Longrightarrow>
      m \<in> set (jd_claim s) \<or> jc_ClaimToken m \<in> claim_tokens op" for op s m
    using move_claim_tokens db_exec_move by blast
  show "jobs_ok s \<Longrightarrow> m \<in> set (jd_claim s) \<Longrightarrow> m' \<in> set (jd_claim s) \<Longrightarrow> jc_JobID m = jc_JobID m' \<Longrightarrow>
      jc_ExecutionGeneration m = jc_ExecutionGeneration m' \<Longrightarrow> m = m'" for s m m'
    by (rule jobs_ok_claims_unique)
qed (simp add: reply_def jobs_ok_running)

section \<open>No generation is orchestrated twice\<close>

definition sample_manager :: "string \<Rightarrow> RunManager" where
  "sample_manager w = NewRunManager ''u''
     \<lparr> rm_jobRepo = True, rm_ownedCases = True, rm_settlementReader = True, rm_caseRepo = True, rm_conditionalWriter = True,
       rm_caseControl = True, rm_resumeControl = True, rm_requiresOwner = True, rm_writerGuard = True, rm_ownerAware = True,
       rm_nonAtomic = False, rm_liveEvents = False, rm_workerID = w, rm_lease = 10, rm_maxAttempts = 0, rm_retryBase = 0,
       rm_maxConcurrentPerUser = 1 \<rparr>"

definition sample_run_job :: DecisionJob where
  "sample_run_job = jobFromModel (new_job ''j1'' ''c1'' 3 0)"

text \<open>Two managers run the same job. The second one finds it claimed; when the first has crashed during its
  orchestration and the lease is over, it takes over.\<close>

definition sample_schedule :: "rs_event list" where
  "sample_schedule =
     [Elsewhere (OpAdmit ''c1'' 3 1 0 ''j1''), Launch 0 (sample_manager ''w1'') sample_run_job (sample_case ''c1'' 7),
      Launch 1 (sample_manager ''w2'') sample_run_job (sample_case ''c1'' 7)] @
     map (Proceed 0) [SaysBool False, SaysTime 1, SaysText ''t1'', SaysTime 1, SaysNothing, SaysNothing, SaysTime 2,
       SaysBool False, SaysNothing, SaysOutcome (None, sample_case ''c1'' 7)] @
     map (Proceed 1) [SaysBool False, SaysTime 3, SaysText ''t2'', SaysTime 3, SaysNothing] @
     [Crash 0, Elsewhere (OpRequeueExpired 20),
      Launch 1 (sample_manager ''w2'') sample_run_job (sample_case ''c1'' 7)] @
     map (Proceed 1) [SaysBool False, SaysTime 21, SaysText ''t3'', SaysTime 21, SaysNothing, SaysNothing, SaysTime 22,
       SaysBool False, SaysNothing, SaysTime 23, SaysNothing, SaysOutcome (None, sample_case ''c1'' 7)]"

text \<open>C11. Any number of run managers work on one store, in any interleaving of their calls, with crashes, lost
  answers, cancellations and other operations in between: no generation of a job is ever orchestrated
  twice, and whoever orchestrates it is the worker that claimed it, by the token of that round.\<close>

theorem generation_orchestrated_once:
  assumes "fresh_store st" and "s = rs_run (db_exec env) es (rs_init st d)"
  shows "distinct (map (\<lambda>(i, t, x). (x_JobID x, x_ExecutionGeneration x)) (rs_log s)) \<and>
    (\<forall>(i, t, x) \<in> set (rs_log s). \<exists>m \<in> set (jd_claim (rs_store s)). jc_ClaimToken m = t \<and> jc_JobID m = x_JobID x \<and>
       jc_ExecutionGeneration m = x_ExecutionGeneration x \<and> jc_WorkerID m = x_WorkerID x)"
proof -
  have "jobs_ok st" "set (jd_claim st) = {}" using assms(1) fresh_jobs_ok by (simp_all add: fresh_store_def)
  then have "fleet.system_ok s" unfolding assms(2) by (intro fleet.ok_run fleet.ok_init)
  from fleet.orchestrated_once [OF this] show ?thesis by (fastforce simp: claimed_as_def)
qed

theorem generation_orchestrated_once_witness:
  "map (\<lambda>(i, t, x). (i, t, x_WorkerID x, x_ExecutionGeneration x))
     (rs_log (rs_run (db_exec sample_job_env) sample_schedule (rs_init sample_store (sample_manager [], sample_run_job)))) =
     [(0, ''t1'', ''w1'', 1), (1, ''t3'', ''w2'', 2)] \<and>
   distinct (map (\<lambda>(i, t, x). (x_JobID x, x_ExecutionGeneration x))
     (rs_log (rs_run (db_exec sample_job_env) sample_schedule (rs_init sample_store (sample_manager [], sample_run_job)))))"
proof
  show "distinct (map (\<lambda>(i, t, x). (x_JobID x, x_ExecutionGeneration x))
      (rs_log (rs_run (db_exec sample_job_env) sample_schedule (rs_init sample_store (sample_manager [], sample_run_job)))))"
    using generation_orchestrated_once [OF sample_fresh refl] by blast
qed code_simp

end
