(* ===== verification/RunControl.thy ===== *)
theory RunControl
  imports RunManager
begin

text \<open>
  The operations of \<^verbatim>\<open>RunManager\<close> around its goroutines (\<^verbatim>\<open>backend/application/decision/run_manager.go\<close>): start,
  recovery, cancel, pause, resume, shutdown. Their state is the table of local runs, which the mutex
  of the manager guards, and the job store. A call is one step; between two of them goroutines
  of the manager exit (\<open>run_exit\<close>, the deferred part of \<^verbatim>\<open>launch\<close> and \<^verbatim>\<open>execute\<close>) and others write to the store.

  Clock readings, the id of a new job, the verdict of the budget checker and whether a goroutine
  exits while a call waits for it are arguments.
\<close>

section \<open>Local runs\<close>

text \<open>A handle is the number of its launch. Its context is cancelled when it is in \<open>lo_cancelled\<close>.\<close>

record LocalRuns =
  lo_runs :: "(string, nat) gomap"
  lo_launched :: "(DecisionCase \<times> DecisionJob option) list"
  lo_cancelled :: "nat list"
  lo_paused :: "string \<Rightarrow> bool"
  lo_userRuns :: "int64 \<Rightarrow> int"

type_synonym ManagerState = "LocalRuns \<times> JobDb"

definition ErrAlreadyRunning :: goerr where "ErrAlreadyRunning = Errorf ''case already running''"
definition ErrAlreadyCompleted :: goerr where "ErrAlreadyCompleted = Errorf ''case already completed''"
definition ErrRateLimited :: goerr where "ErrRateLimited = Errorf ''rate limit exceeded''"
definition ErrBudgetExceeded :: goerr where "ErrBudgetExceeded = Errorf ''budget exceeded''"
definition ErrJobTerminated :: goerr where "ErrJobTerminated = Errorf ''case job is terminated''"

record BudgetExceededInfo =
  bi_TokensExceeded :: bool
  bi_CostExceeded :: bool

definition budgetDetail :: "BudgetExceededInfo option \<Rightarrow> string" where
  "budgetDetail info =
     (case info of
        None \<Rightarrow> ''unknown''
      | Some i \<Rightarrow>
          if bi_TokensExceeded i \<and> bi_CostExceeded i then ''token and cost limits''
          else if bi_TokensExceeded i then ''token limit'' else ''cost limit'')"

text \<open>The goroutine gets its own copy of the case; records are values here.\<close>

definition launch :: "RunManager \<Rightarrow> DecisionCase \<Rightarrow> DecisionJob option \<Rightarrow> LocalRuns \<Rightarrow> bool \<times> LocalRuns" where
  "launch m c job l =
     (if map_of (lo_runs l) (c_ID c) \<noteq> None then (False, l)
      else (True, l\<lparr> lo_runs := (c_ID c, length (lo_launched l)) # lo_runs l, lo_launched := lo_launched l @ [(c, job)],
             lo_userRuns := (if \<not> rm_jobRepo m \<and> c_UserID c \<noteq> 0
               then (lo_userRuns l)(c_UserID c := lo_userRuns l (c_UserID c) + 1) else lo_userRuns l) \<rparr>))"

definition run_exit :: "RunManager \<Rightarrow> nat \<Rightarrow> LocalRuns \<Rightarrow> LocalRuns" where
  "run_exit m h l =
     (case nth_opt (lo_launched l) h of
        None \<Rightarrow> l
      | Some (c, job) \<Rightarrow>
          if map_of (lo_runs l) (c_ID c) \<noteq> Some h then l
          else l\<lparr> lo_runs := filter (\<lambda>e. fst e \<noteq> c_ID c) (lo_runs l),
             lo_userRuns := (if \<not> rm_jobRepo m \<and> c_UserID c \<noteq> 0 \<and> lo_userRuns l (c_UserID c) > 0
               then (lo_userRuns l)(c_UserID c := lo_userRuns l (c_UserID c) - 1) else lo_userRuns l) \<rparr>)"

definition IsRunning :: "string \<Rightarrow> LocalRuns \<Rightarrow> bool" where
  "IsRunning caseID l \<longleftrightarrow> map_of (lo_runs l) caseID \<noteq> None"

definition cancel_handle :: "string \<Rightarrow> LocalRuns \<Rightarrow> LocalRuns" where
  "cancel_handle caseID l =
     (case map_of (lo_runs l) caseID of None \<Rightarrow> l | Some h \<Rightarrow> l\<lparr> lo_cancelled := h # lo_cancelled l \<rparr>)"

definition CancelLocal :: "string \<Rightarrow> LocalRuns \<Rightarrow> bool \<times> LocalRuns" where
  "CancelLocal caseID l = (IsRunning caseID l, cancel_handle caseID l)"

definition PauseLocal :: "string \<Rightarrow> LocalRuns \<Rightarrow> bool \<times> LocalRuns" where
  "PauseLocal caseID l =
     (IsRunning caseID l, cancel_handle caseID (l\<lparr> lo_paused := (lo_paused l)(caseID := True) \<rparr>))"

definition WaitStopped :: "string \<Rightarrow> bool \<Rightarrow> LocalRuns \<Rightarrow> bool" where
  "WaitStopped caseID exits l \<longleftrightarrow> \<not> IsRunning caseID l \<or> exits"

definition Shutdown :: "LocalRuns \<Rightarrow> LocalRuns" where
  "Shutdown l = l\<lparr> lo_cancelled := map snd (lo_runs l) @ lo_cancelled l \<rparr>"

section \<open>Starting\<close>

definition CheckDecisionWriter :: "RunManager \<Rightarrow> JobEnv \<Rightarrow> JobDb \<Rightarrow> (goerr + unit) \<times> JobDb" where
  "CheckDecisionWriter m env s =
     (if \<not> rm_jobRepo m \<and> rm_caseRepo m \<and> rm_requiresOwner m then (Inl ErrExecutionOwnerRequired, s)
      else if rm_jobRepo m \<and> rm_writerGuard m then jr_CheckDecisionWriter env s
      else (Inr (), s))"

definition launch_started :: "RunManager \<Rightarrow> DecisionCase \<Rightarrow> DecisionJob option \<Rightarrow> ManagerState \<Rightarrow> goerr option \<times> ManagerState" where
  "launch_started m c job st =
     (case launch m c job (fst st) of (launched, l) \<Rightarrow> (if launched then None else Some ErrAlreadyRunning, (l, snd st)))"

definition admit_and_launch ::
  "RunManager \<Rightarrow> JobEnv \<Rightarrow> timestamp \<Rightarrow> string \<Rightarrow> DecisionCase \<Rightarrow> ManagerState \<Rightarrow> goerr option \<times> ManagerState" where
  "admit_and_launch m env now jobID c st =
     (if rm_jobRepo m then
        (case jr_Admit env (c_ID c) (rm_maxAttempts m) (rm_maxConcurrentPerUser m) now jobID (snd st) of
           (Inl e, s) \<Rightarrow> (Some (Wrapf ''run manager: admit'' e), (fst st, s))
         | (Inr None, s) \<Rightarrow> (Some ErrRateLimited, (fst st, s))
         | (Inr (Some job), s) \<Rightarrow>
             if j_Status job = DecisionJobSucceeded then (Some ErrAlreadyCompleted, (fst st, s))
             else if j_Status job = DecisionJobRunning then (Some ErrAlreadyRunning, (fst st, s))
             else launch_started m c (Some job) (fst st, s))
      else if rm_maxConcurrentPerUser m > 0 \<and> c_UserID c \<noteq> 0 \<and>
          lo_userRuns (fst st) (c_UserID c) \<ge> rm_maxConcurrentPerUser m then (Some ErrRateLimited, st)
      else launch_started m c None st)"

text \<open>\<open>budget\<close>: there may be no checker.\<close>

definition Start ::
  "RunManager \<Rightarrow> JobEnv \<Rightarrow> (int64 \<Rightarrow> goerr + BudgetExceededInfo option) option \<Rightarrow> timestamp \<Rightarrow> string \<Rightarrow> DecisionCase \<Rightarrow>
    ManagerState \<Rightarrow> goerr option \<times> ManagerState" where
  "Start m env budget now jobID c st =
     (case CheckDecisionWriter m env (snd st) of
        (Inl e, s) \<Rightarrow> (Some e, (fst st, s))
      | (Inr _, s) \<Rightarrow>
          let st1 = (fst st, s) in
          if c_ID c = [] then (Some (Errorf ''run manager: case is required''), st1)
          else if IsRunning (c_ID c) (fst st) then (Some ErrAlreadyRunning, st1)
          else (case (if c_UserID c = 0 then None else budget) of
              None \<Rightarrow> admit_and_launch m env now jobID c st1
            | Some check \<Rightarrow>
                (case check (c_UserID c) of
                   Inl e \<Rightarrow> (Some (Wrapf ''run manager: budget check'' e), st1)
                 | Inr info \<Rightarrow>
                     if (case info of None \<Rightarrow> False | Some i \<Rightarrow> bi_TokensExceeded i \<or> bi_CostExceeded i)
                     then (Some (Wrapf (budgetDetail info) ErrBudgetExceeded), st1)
                     else admit_and_launch m env now jobID c st1)))"

definition EnsureStarted ::
  "RunManager \<Rightarrow> JobEnv \<Rightarrow> (int64 \<Rightarrow> goerr + BudgetExceededInfo option) option \<Rightarrow> timestamp \<Rightarrow> string \<Rightarrow> DecisionCase \<Rightarrow>
    ManagerState \<Rightarrow> goerr option \<times> ManagerState" where
  "EnsureStarted m env budget now jobID c st =
     (case CheckDecisionWriter m env (snd st) of
        (Inl e, s) \<Rightarrow> (Some e, (fst st, s))
      | (Inr _, s) \<Rightarrow>
          if c_ID c = [] then (Some (Errorf ''run manager: case is required''), (fst st, s))
          else if isTerminalCaseStatus (c_Status c) then (None, (fst st, s))
          else if \<not> rm_jobRepo m then Start m env budget now jobID c (fst st, s)
          else (case jr_RequeueExpired now s of
              (Inl e, s1) \<Rightarrow> (Some (Wrapf ''run manager: recover expired job'' e), (fst st, s1))
            | (Inr _, s1) \<Rightarrow>
                (case jr_GetByCase (c_ID c) s1 of
                   (Inr existing, s2) \<Rightarrow>
                     if j_Status existing \<in> {DecisionJobQueued, DecisionJobRunning, DecisionJobSucceeded} then (None, (fst st, s2))
                     else if j_Status existing \<in> {DecisionJobFailed, DecisionJobCancelled, DecisionJobPaused}
                       then (Some (Wrapf ''terminated'' ErrJobTerminated), (fst st, s2))
                     else Start m env budget now jobID c (fst st, s2)
                 | (Inl _, s2) \<Rightarrow> Start m env budget now jobID c (fst st, s2))))"

section \<open>Recovery\<close>

fun recover_jobs :: "RunManager \<Rightarrow> DecisionJob list \<Rightarrow> ManagerState \<Rightarrow> ManagerState" where
  "recover_jobs m [] st = st"
| "recover_jobs m (job # jobs) st =
     (case cr_Get (j_CaseID job) (snd st) of
        (Inl _, s) \<Rightarrow> recover_jobs m jobs (fst st, s)
      | (Inr c, s) \<Rightarrow> recover_jobs m jobs (snd (launch m c (Some job) (fst st)), s))"

definition RecoverOnce :: "RunManager \<Rightarrow> JobEnv \<Rightarrow> timestamp \<Rightarrow> timestamp \<Rightarrow> ManagerState \<Rightarrow> goerr option \<times> ManagerState" where
  "RecoverOnce m env now now' st =
     (case CheckDecisionWriter m env (snd st) of
        (Inl e, s) \<Rightarrow> (Some e, (fst st, s))
      | (Inr _, s) \<Rightarrow>
          if \<not> rm_jobRepo m then (None, (fst st, s))
          else (case jr_RequeueExpired now s of
              (Inl e, s1) \<Rightarrow> (Some (Wrapf ''run manager: requeue expired'' e), (fst st, s1))
            | (Inr _, s1) \<Rightarrow>
                (case jr_ListRunnable now' s1 of
                   (Inl e, s2) \<Rightarrow> (Some (Wrapf ''run manager: list runnable jobs'' e), (fst st, s2))
                 | (Inr jobs, s2) \<Rightarrow>
                     if \<not> rm_caseRepo m
                       then (Some (Errorf ''run manager: case repository is required for recovery''), (fst st, s2))
                     else (None, recover_jobs m jobs (fst st, s2)))))"

section \<open>Cancel, pause and resume\<close>

definition job_stoppable :: "DecisionJob \<Rightarrow> bool" where
  "job_stoppable job \<longleftrightarrow> j_Status job = DecisionJobQueued \<or> j_Status job = DecisionJobRunning"

text \<open>Without case control the job is stopped alone; the answer says whether one was.\<close>

definition stop_job :: "RunManager \<Rightarrow> (string \<Rightarrow> JobDb \<Rightarrow> (goerr + unit) \<times> JobDb) \<Rightarrow> string \<Rightarrow> JobDb \<Rightarrow> (goerr + bool) \<times> JobDb" where
  "stop_job m stop caseID s =
     (if \<not> rm_jobRepo m then (Inr False, s)
      else (case jr_GetByCase caseID s of
          (Inl e, s1) \<Rightarrow> (Inl e, s1)
        | (Inr job, s1) \<Rightarrow>
            if \<not> job_stoppable job then (Inr False, s1)
            else (case stop (j_ID job) s1 of (Inl e, s2) \<Rightarrow> (Inl e, s2) | (Inr _, s2) \<Rightarrow> (Inr True, s2))))"

definition CancelWithError :: "RunManager \<Rightarrow> string \<Rightarrow> timestamp \<Rightarrow> ManagerState \<Rightarrow> (goerr + bool) \<times> ManagerState" where
  "CancelWithError m caseID now st =
     (if rm_caseRepo m \<and> rm_caseControl m then
        (case commitCaseControl caseID CaseStatusCancelled False now (snd st) of
           (Inr True, s) \<Rightarrow> (Inr True, (snd (CancelLocal caseID (fst st)), s))
         | (r, s) \<Rightarrow> (r, (fst st, s)))
      else (case stop_job m jr_Cancel caseID (snd st) of
          (Inl e, s) \<Rightarrow> (Inl e, (fst st, s))
        | (Inr durable, s) \<Rightarrow> (case CancelLocal caseID (fst st) of (local, l) \<Rightarrow> (Inr (durable \<or> local), (l, s)))))"

definition Cancel :: "RunManager \<Rightarrow> string \<Rightarrow> timestamp \<Rightarrow> ManagerState \<Rightarrow> bool \<times> ManagerState" where
  "Cancel m caseID now st = (case CancelWithError m caseID now st of (r, st') \<Rightarrow> (r = Inr True, st'))"

definition PauseWithError :: "RunManager \<Rightarrow> string \<Rightarrow> timestamp \<Rightarrow> ManagerState \<Rightarrow> (goerr + bool) \<times> ManagerState" where
  "PauseWithError m caseID now st =
     (if rm_caseRepo m \<and> rm_caseControl m then
        (case commitCaseControl caseID CaseStatusPaused False now (snd st) of
           (Inr True, s) \<Rightarrow> (Inr True, (snd (PauseLocal caseID (fst st)), s))
         | (r, s) \<Rightarrow> (r, (fst st, s)))
      else (case stop_job m jr_MarkPaused caseID (snd st) of
          (Inl e, s) \<Rightarrow> (Inl e, (fst st, s))
        | (Inr parked, s) \<Rightarrow>
            if parked \<or> IsRunning caseID (fst st) then (Inr True, (snd (PauseLocal caseID (fst st)), s))
            else (Inr False, (fst st, s))))"

definition Pause :: "RunManager \<Rightarrow> string \<Rightarrow> timestamp \<Rightarrow> ManagerState \<Rightarrow> bool \<times> ManagerState" where
  "Pause m caseID now st = (case PauseWithError m caseID now st of (r, st') \<Rightarrow> (r = Inr True, st'))"

text \<open>\<open>exits\<close>: an active goroutine of the case exits within the second that the call waits. A manager whose
  cases can be resumed has a job repository.\<close>

definition ResumeLocal :: "RunManager \<Rightarrow> string \<Rightarrow> bool \<Rightarrow> ManagerState \<Rightarrow> bool \<times> ManagerState" where
  "ResumeLocal m caseID exits st =
     (case jr_GetByCase caseID (snd st) of
        (Inl _, s) \<Rightarrow> (False, (fst st, s))
      | (Inr job, s) \<Rightarrow>
          if j_Status job \<noteq> DecisionJobQueued then (False, (fst st, s))
          else
            let l = (fst st)\<lparr> lo_paused := (lo_paused (fst st))(caseID := False) \<rparr>;
                l' = (case map_of (lo_runs l) caseID of Some h \<Rightarrow> if exits then run_exit m h l else l | None \<Rightarrow> l) in
            if IsRunning caseID l' \<or> \<not> rm_caseRepo m then (True, (l', s))
            else (case cr_Get caseID s of
                (Inl _, s1) \<Rightarrow> (True, (l', s1))
              | (Inr c, s1) \<Rightarrow> (True, (snd (launch m c (Some job) l'), s1))))"

definition Resume :: "RunManager \<Rightarrow> string \<Rightarrow> bool \<Rightarrow> timestamp \<Rightarrow> ManagerState \<Rightarrow> bool \<times> ManagerState" where
  "Resume m caseID exits now st =
     (if rm_caseRepo m \<and> rm_resumeControl m then
        (case commitCaseControl caseID CaseStatusZero True now (snd st) of
           (Inr True, s) \<Rightarrow> ResumeLocal m caseID exits (fst st, s)
         | (_, s) \<Rightarrow> (False, (fst st, s)))
      else if \<not> rm_jobRepo m then (False, st)
      else (case jr_GetByCase caseID (snd st) of
          (Inl _, s) \<Rightarrow> (False, (fst st, s))
        | (Inr job, s) \<Rightarrow>
            if j_Status job \<noteq> DecisionJobPaused then (False, (fst st, s))
            else (case jr_ResumeQueued (j_ID job) now s of
                (Inl _, s1) \<Rightarrow> (False, (fst st, s1))
              | (Inr _, s1) \<Rightarrow> ResumeLocal m caseID exits (fst st, s1))))"

end
