(* ===== verification/RunProps.thy ===== *)
theory RunProps
  imports RunSystem RunControl
begin

text \<open>
  What the run manager guarantees beyond the claim of a generation: a case that was stopped stays
  silent, one goroutine per case and manager, the delays between attempts and the belief of the heartbeat.
\<close>

section \<open>Only open cases run\<close>

definition open_case :: "DecisionCase \<Rightarrow> bool" where
  "open_case c \<longleftrightarrow> \<not> isPublicTerminalCaseStatus (c_Status c) \<and> c_Status c \<noteq> CaseStatusPaused"

definition running_open :: "JobDb \<Rightarrow> bool" where
  "running_open s \<longleftrightarrow> (\<forall>j \<in> set (jd_job s). \<forall>c \<in> set (jd_case s).
     c_ID c = jm_CaseID j \<longrightarrow> jm_Status j = DecisionJobRunning \<longrightarrow> open_case c)"

lemma running_openD:
  "running_open s \<Longrightarrow> j \<in> set (jd_job s) \<Longrightarrow> c \<in> set (jd_case s) \<Longrightarrow> c_ID c = jm_CaseID j \<Longrightarrow>
    jm_Status j = DecisionJobRunning \<Longrightarrow> open_case c"
  by (simp add: running_open_def)

lemma open_frame:
  assumes "jd_job s' = map g (jd_job s)" and "jd_case s' = map h (jd_case s)"
    and "\<And>r c. r \<in> set (jd_job s) \<Longrightarrow> c \<in> set (jd_case s) \<Longrightarrow> c_ID (h c) = jm_CaseID (g r) \<Longrightarrow>
      jm_Status (g r) = DecisionJobRunning \<Longrightarrow> open_case (h c)"
  shows "running_open s'"
  using assms by (auto simp: running_open_def)

lemma open_case_generation [simp]: "open_case (c\<lparr> c_ExecutionGeneration := g, c_UpdatedAt := t \<rparr>) = open_case c"
  by (simp add: open_case_def)

lemma open_commit:
  assumes "jobs_ok s" and ro: "running_open s" and lk: "lockActiveExecution (Some x) now s = Inr (job, c)"
    and out: "outcome x target evs ress jst"
    and s': "jd_case s' = set_status (x_CaseID x) (x_ExecutionGeneration x) st target now (jd_case s)"
      "jd_job s' = settle_rows (jm_ID job) jst err (jd_job s)"
  shows "running_open s'"
proof -
  define g where "g r = (if jst \<noteq> None \<and> jm_ID r = jm_ID job then (release_job (the jst) r)\<lparr> jm_LastError := err \<rparr> else r)" for r :: DecisionJobModel
  define h where "h d = (if c_ID d = x_CaseID x \<and> c_ExecutionGeneration d = x_ExecutionGeneration x \<and> c_Status d = st
      then d\<lparr> c_Status := target, c_UpdatedAt := now \<rparr> else d)" for d :: DecisionCase
  note lock = lockActiveExecutionD [OF assms(1) lk]
  have settled: "jst \<noteq> None \<and> jst \<noteq> Some DecisionJobRunning" if "\<not> open_case (d\<lparr> c_Status := target, c_UpdatedAt := now \<rparr>)" for d
    using out that by (auto simp: outcome_def open_case_def split: if_splits)
  have "open_case (h d)"
    if r: "r \<in> set (jd_job s)" and d: "d \<in> set (jd_case s)" and eq: "c_ID (h d) = jm_CaseID (g r)"
      and run: "jm_Status (g r) = DecisionJobRunning" for r d
  proof -
    have rd: "c_ID d = jm_CaseID r" using eq by (simp add: g_def h_def release_job_def split: if_splits)
    show ?thesis
    proof (cases "c_ID d = x_CaseID x")
      case True
      then have "r = job" using job_unique(2) [OF assms(1) lock(1) r] lock(3) rd by simp
      then show ?thesis using run settled [of d] running_openD [OF ro r d rd] lock(4)
        by (auto simp: g_def h_def release_job_def split: if_splits)
    next
      case False
      then have "jm_Status r = DecisionJobRunning" "h d = d"
        using run rd lock(3) job_unique(1) [OF assms(1) lock(1) r] by (auto simp: g_def h_def split: if_splits)
      then show ?thesis using running_openD [OF ro r d rd] by simp
    qed
  qed
  moreover have "jd_job s' = map g (jd_job s)"
    by (cases jst) (simp_all add: s'(2) settle_rows_def update_rows_map g_def map_idI)
  moreover have "jd_case s' = map h (jd_case s)" by (simp add: s'(1) set_status_def update_rows_map h_def)
  ultimately show ?thesis using open_frame by blast
qed

lemma move_running_open:
  assumes "db_move act T s s'" and "jobs_ok s" and ro: "running_open s"
  shows "running_open s'"
  using assms(1)
proof cases
  case (admit c k j fs n now)
  then show ?thesis using ro by (auto simp: running_open_def new_job_def)
next
  case (jobs P f fs)
  then show ?thesis
    by (intro open_frame [where g = "\<lambda>r. if P r then f r else r" and h = id and s = s])
      (fastforce simp: update_rows_map touched_def intro: running_openD [OF ro] split: if_splits)+
next
  case (claim t j c fs now l w)
  then show ?thesis
    by (intro open_frame [where s = s and g = "\<lambda>r. if jm_ID r = jm_ID j then claim_job w t l r else r" and
          h = "\<lambda>x. if c_ID x = jm_CaseID j then x\<lparr> c_ExecutionGeneration := jm_ExecutionGeneration j + 1, c_UpdatedAt := now \<rparr> else x"])
      (auto simp: update_rows_map claim_job_def open_case_def job_unique(1) [OF assms(2) claim(3)]
        dest: case_unique(3) [OF assms(2) claim(5)] running_openD [OF ro] split: if_splits)
next
  case (commit x now job c target evs ress jst cur err fs)
  then show ?thesis using open_commit [OF assms(2) ro commit(2) commit(5)] by simp
next
  case (control k c resume target pausedFrom fs now)
  then show ?thesis
    by (intro open_frame [where s = s and g = "\<lambda>r. if jm_CaseID r = k then control_job target resume now r else r" and
          h = "\<lambda>x. if c_ID x = k then control_case target pausedFrom resume now x else x"])
      (auto simp: update_rows_map control_job_def control_case_def control_job_status_def release_job_def Let_def
        dest: running_openD [OF ro] split: if_splits)
qed (use ro in \<open>simp_all add: running_open_def\<close>)

lemma db_run_open: "jobs_ok s \<Longrightarrow> running_open s \<Longrightarrow> running_open (db_run env ops s)"
  by (induction env ops s rule: db_run.induct) (simp_all add: db_exec_ok move_running_open [OF db_exec_move])

lemma fresh_open: "fresh_store s \<Longrightarrow> running_open s"
  by (simp add: fresh_store_def running_open_def)

lemma stopped_silent:
  assumes "jobs_ok s" and "running_open s" and "c \<in> set (jd_case s)" and "\<not> open_case c"
    and "op_owner op = Some (j, c_ID c, w, g, now)"
  shows "tables (snd (db_exec env op s)) = tables s \<and> \<not> acknowledged (fst (db_exec env op s))"
proof (rule ccontr)
  assume "\<not> ?thesis"
  then obtain r where "leased s j (c_ID c) w g now r" using owned_op_leased [OF assms(1,5)] by blast
  then show False using running_openD [OF assms(2) _ assms(3)] assms(4) unfolding leased_def by metis
qed

section \<open>A cancelled case\<close>

lemma confirm_controlD:
  assumes "confirm_control k resume v s = (Inr True, s1)"
  shows "\<exists>c \<in> set (jd_case s1). c_ID c = k \<and> c_Status c = ct_target v"
proof -
  obtain f where f: "next_txfault s = (f, later s)" using next_txfault_later by blast
  obtain c where "List.find (\<lambda>c. c_ID c = k \<and> c_Status c = ct_target v \<and> c_ExecutionGeneration c = ct_generation v) (jd_case s) = Some c"
    using assms f by (auto simp: confirm_control_def query_def stmt_def txn_def split: txfault.splits option.splits prod.splits sum.splits if_splits)
  moreover have "s1 = later s" using assms unfolding confirm_control_def by (rule query_state)
  ultimately show ?thesis by (auto dest: find_SomeD)
qed

lemma control_True:
  assumes "commitCaseControl k target False now s = (Inr True, s1)"
  shows "\<exists>c \<in> set (jd_case s1). c_ID c = k \<and> c_Status c = target"
proof -
  have tx: "\<exists>c \<in> set (jd_case t'). c_ID c = k \<and> c_Status c = target \<and> ct_target r = target"
    if ctl: "control_tx k target False now t = (Inr r, t')" for t t' r
  proof -
    obtain c where c: "find_case k t = Some c" using ctl by (auto simp: control_tx_def Let_def split: option.splits)
    then have "c \<in> set (jd_case t)" "c_ID c = k" by (auto simp: find_case_def dest: find_SomeD)
    moreover obtain pf where "jd_case t' = update_rows (\<lambda>x. c_ID x = k) (control_case target pf False now) (jd_case t)" "ct_target r = target"
      using ctl c by (auto simp: control_tx_def Let_def split: option.splits if_splits)
    ultimately have "control_case target pf False now c \<in> set (jd_case t')" "ct_target r = target"
      by (auto simp: update_rows_map)
    then show ?thesis
      using \<open>c_ID c = k\<close> by (intro bexI [of _ "control_case target pf False now c"]) (simp_all add: control_case_def Let_def)
  qed
  show ?thesis
  proof (cases "txn (control_tx k target False now) s")
    case (fields r d s')
    show ?thesis
    proof (cases r)
      case (Inr v)
      then have "s1 = s'" using assms fields by (auto simp: commitCaseControl_def split: if_splits)
      moreover obtain t where "control_tx k target False now t = (Inr v, s')"
        using fields Inr by (auto simp: txn_def split: prod.splits txfault.splits sum.splits)
      ultimately show ?thesis using tx by blast
    next
      case (Inl e)
      then obtain v where v: "d = Some v" "confirm_control k False v s' = (Inr True, s1)"
        using assms fields by (auto simp: commitCaseControl_def split: if_splits option.splits prod.splits sum.splits bool.splits)
      obtain t t' where "control_tx k target False now t = (Inr v, t')"
        using fields Inl v(1) by (auto simp: txn_def split: prod.splits txfault.splits sum.splits)
      then have "ct_target v = target" using tx by blast
      then show ?thesis using confirm_controlD [OF v(2)] by simp
    qed
  qed
qed

lemma db_run_append: "db_run env (xs @ ys) s = db_run env ys (db_run env xs s)"
  by (induction env xs s rule: db_run.induct) simp_all

lemma CancelWithError_True:
  assumes "rm_caseRepo m" and "rm_caseControl m" and "CancelWithError m k now (l, s) = (Inr True, l1, s1)"
  shows "commitCaseControl k CaseStatusCancelled False now s = (Inr True, s1)" "l1 = cancel_handle k l"
  using assms by (auto simp: CancelWithError_def CancelLocal_def split: prod.splits sum.splits bool.splits)

text \<open>C12. When a cancellation has reported success, whatever happened before and happens afterwards: the
  context of a local goroutine of the case is cancelled, and no operation of any worker for an
  execution of the case changes a row or reports success any more.\<close>

theorem cancel_silences:
  assumes "fresh_store s0" and "s = db_run env ops s0" and "rm_caseRepo m" and "rm_caseControl m"
    and "CancelWithError m k now (l, s) = (Inr True, l1, s1)"
    and "s2 = db_run env ops' s1" and "op_owner op = Some (j, k, w, g, t)"
  shows "(\<forall>h. map_of (lo_runs l) k = Some h \<longrightarrow> h \<in> set (lo_cancelled l1)) \<and>
    tables (snd (db_exec env op s2)) = tables s2 \<and> \<not> acknowledged (fst (db_exec env op s2))"
proof -
  note c = CancelWithError_True [OF assms(3-5)]
  have s1: "s1 = snd (db_exec env (OpCaseControl k CaseStatusCancelled now) s)" using c(1) by (simp add: reply_def)
  then have s2: "s2 = db_run env (ops @ OpCaseControl k CaseStatusCancelled now # ops') s0"
    using assms(2,6) by (simp add: db_run_append)
  have ok: "jobs_ok s1" "jobs_ok s2" "running_open s2"
    using fresh_jobs_ok [OF assms(1)] fresh_open [OF assms(1)] db_run_ok db_exec_ok db_run_open
    unfolding s1 s2 assms(2) by blast+
  obtain x where x: "x \<in> set (jd_case s1)" "c_ID x = k" "c_Status x = CaseStatusCancelled" using control_True [OF c(1)] by blast
  then obtain y where "y \<in> set (jd_case s2)" "c_ID y = k" "c_Status y = CaseStatusCancelled"
    using db_run_terminal [OF ok(1) x(1), of env ops'] by (auto simp: assms(6) isPublicTerminalCaseStatus_def)
  then have "tables (snd (db_exec env op s2)) = tables s2 \<and> \<not> acknowledged (fst (db_exec env op s2))"
    using stopped_silent [OF ok(2,3)] assms(7) by (simp add: open_case_def isPublicTerminalCaseStatus_def)
  then show ?thesis by (auto simp: c(2) cancel_handle_def)
qed

definition sample_local :: LocalRuns where
  "sample_local = \<lparr> lo_runs = [(''c1'', 0)], lo_launched = [(sample_case ''c1'' 7, Some sample_run_job)], lo_cancelled = [],
     lo_paused = (\<lambda>_. False), lo_userRuns = (\<lambda>_. 0) \<rparr>"

definition sample_running :: JobDb where
  "sample_running = db_run sample_job_env sample_history sample_store"

text \<open>The running worker of the sample history tries to commit after the cancellation, and after a new start.\<close>

theorem cancel_silences_witness:
  "fst (CancelWithError (sample_manager ''w2'') ''c1'' 25 (sample_local, sample_running)) = Inr True \<and>
   0 \<in> set (lo_cancelled (fst (snd (CancelWithError (sample_manager ''w2'') ''c1'' 25 (sample_local, sample_running))))) \<and>
   \<not> acknowledged (fst (db_exec sample_job_env sample_decision (db_run sample_job_env [OpAdmit ''c1'' 3 1 26 ''j2'']
      (snd (snd (CancelWithError (sample_manager ''w2'') ''c1'' 25 (sample_local, sample_running)))))))"
proof -
  let ?r = "CancelWithError (sample_manager ''w2'') ''c1'' 25 (sample_local, sample_running)"
  have r: "fst ?r = Inr True" by code_simp
  have own: "op_owner sample_decision = Some (''j1'', ''c1'', ''w2'', 2, 30)"
    by (simp add: sample_decision_def owner_key_def sample_owner_def)
  have m: "rm_caseRepo (sample_manager ''w2'')" "rm_caseControl (sample_manager ''w2'')"
    by (simp_all add: sample_manager_def NewRunManager_def)
  have "?r = (Inr True, fst (snd ?r), snd (snd ?r))" using r by (metis prod.collapse)
  from cancel_silences [OF sample_fresh sample_running_def m this refl own, of "[OpAdmit ''c1'' 3 1 26 ''j2'']"]
  show ?thesis using r by (simp add: sample_local_def)
qed

section \<open>Retries\<close>

lemma double_delay_exact:
  "0 < d \<Longrightarrow> d \<le> time_Minute \<or> 0 < n \<Longrightarrow>
   (case double_delay n d of None \<Rightarrow> time_Minute | Some e \<Rightarrow> min e time_Minute) = min (d * 2 ^ n) time_Minute"
proof (induction n arbitrary: d)
  case (Suc n)
  show ?case
  proof (cases "d \<ge> time_Minute div 2")
    case True
    then have "time_Minute \<le> d * 2" by (simp add: time_Minute_def time_Second_def)
    also have "\<dots> \<le> d * 2 * 2 ^ n" using Suc(2) by simp
    finally show ?thesis using True by (simp add: mult.assoc)
  next
    case False
    then show ?thesis using Suc(1) [of "d * 2"] Suc(2) by (simp add: time_Minute_def time_Second_def mult.assoc)
  qed
qed simp

text \<open>The delay before the next attempt doubles from the base and is never more than a minute.\<close>

lemma retryDelay_exact:
  assumes "0 < rm_retryBase m" and "1 \<le> attempt"
  shows "retryDelay m attempt = min (rm_retryBase m * 2 ^ nat (attempt - 1)) time_Minute"
proof -
  have "retryDelay m attempt =
      (case double_delay (nat (attempt - 1)) (rm_retryBase m) of None \<Rightarrow> time_Minute | Some e \<Rightarrow> min e time_Minute)"
    by (simp add: retryDelay_def min_def split: option.split)
  also have "\<dots> = min (rm_retryBase m * 2 ^ nat (attempt - 1)) time_Minute"
    using double_delay_exact [OF assms(1), of "nat (attempt - 1)"] by (cases "nat (attempt - 1)") (simp_all add: min_def)
  finally show ?thesis .
qed

section \<open>One goroutine per case\<close>

text \<open>A run is in the table under the case it was launched for, at most one per case.\<close>

definition runs_ok :: "LocalRuns \<Rightarrow> bool" where
  "runs_ok l \<longleftrightarrow> distinct (map fst (lo_runs l)) \<and> distinct (map snd (lo_runs l)) \<and>
     list_all (\<lambda>(k, h). h < length (lo_launched l) \<and> c_ID (fst (lo_launched l ! h)) = k) (lo_runs l)"

lemma runs_ok_launch:
  assumes "runs_ok l"
  shows "runs_ok (snd (launch m c job l))"
proof -
  have "list_all (\<lambda>(k, h). h < length (lo_launched l @ [(c, job)]) \<and> c_ID (fst ((lo_launched l @ [(c, job)]) ! h)) = k) (lo_runs l)"
    using assms by (auto simp: runs_ok_def list_all_iff nth_append)
  moreover have "length (lo_launched l) \<notin> snd ` set (lo_runs l)" using assms by (auto simp: runs_ok_def list_all_iff)
  ultimately show ?thesis using assms by (auto simp: launch_def runs_ok_def map_of_eq_None_iff)
qed

lemma runs_ok_exit: "runs_ok l \<Longrightarrow> runs_ok (run_exit m h l)"
  by (auto simp: run_exit_def runs_ok_def list_all_iff distinct_map inj_on_def split: option.split)

lemma runs_ok_signals:
  "runs_ok (cancel_handle k l) = runs_ok l" "runs_ok (snd (CancelLocal k l)) = runs_ok l"
  "runs_ok (snd (PauseLocal k l)) = runs_ok l" "runs_ok (Shutdown l) = runs_ok l"
  "runs_ok (l\<lparr> lo_paused := p \<rparr>) = runs_ok l"
  by (simp_all add: cancel_handle_def CancelLocal_def PauseLocal_def Shutdown_def runs_ok_def split: option.split)

lemma runs_ok_launch_started: "runs_ok (fst st) \<Longrightarrow> runs_ok (fst (snd (launch_started m c job st)))"
  using runs_ok_launch [of "fst st" m c job] by (cases "launch m c job (fst st)") (simp add: launch_started_def)

lemma runs_ok_admit: "runs_ok (fst st) \<Longrightarrow> runs_ok (fst (snd (admit_and_launch m env now jobID c st)))"
  by (auto simp: admit_and_launch_def runs_ok_launch_started split: prod.split sum.split option.split)

lemma runs_ok_start: "runs_ok (fst st) \<Longrightarrow> runs_ok (fst (snd (Start m env budget now jobID c st)))"
  by (auto simp: Start_def runs_ok_admit Let_def split: prod.split sum.split option.split)

lemma runs_ok_ensure:
  assumes "runs_ok (fst st)"
  shows "runs_ok (fst (snd (EnsureStarted m env budget now jobID c st)))"
  using assms by (auto simp: EnsureStarted_def runs_ok_start split: prod.splits sum.splits)

lemma runs_ok_recover_jobs: "runs_ok (fst st) \<Longrightarrow> runs_ok (fst (recover_jobs m jobs st))"
  by (induction m jobs st rule: recover_jobs.induct) (auto simp: runs_ok_launch split: prod.splits sum.splits)

lemma runs_ok_recover:
  assumes "runs_ok (fst st)"
  shows "runs_ok (fst (snd (RecoverOnce m env now now' st)))"
  using assms by (auto simp: RecoverOnce_def runs_ok_recover_jobs split: prod.splits sum.splits)

lemma runs_ok_stop:
  assumes "runs_ok (fst st)"
  shows "runs_ok (fst (snd (CancelWithError m k now st)))" "runs_ok (fst (snd (PauseWithError m k now st)))"
  using assms runs_ok_signals(2,3) [of k "fst st"]
  by (auto simp: CancelWithError_def PauseWithError_def split: prod.splits sum.splits bool.splits)

lemma runs_ok_resume_local:
  assumes "runs_ok (fst st)"
  shows "runs_ok (fst (snd (ResumeLocal m k exits st)))"
  using assms by (auto simp: ResumeLocal_def Let_def runs_ok_signals runs_ok_exit runs_ok_launch split: prod.splits sum.splits option.splits)

lemma runs_ok_resume:
  assumes "runs_ok (fst st)"
  shows "runs_ok (fst (snd (Resume m k exits now st)))"
  using assms by (auto simp: Resume_def runs_ok_resume_local split: prod.splits sum.splits bool.splits)

section \<open>A sweep launches all runnable work\<close>

lemma stmt_calm: "jd_faults s = [] \<Longrightarrow> stmt body s = (case body s of (Inl e, _) \<Rightarrow> (Inl e, s) | (Inr v, s') \<Rightarrow> (Inr v, s'))"
  by (simp add: stmt_def txn_def next_txfault_def split: prod.split sum.split)

lemma query_calm: "jd_faults s = [] \<Longrightarrow> query q s = (q s, s)"
  by (simp add: query_def stmt_calm split: sum.split)

lemma set_insert_job: "set (insert_job j js) = insert j (set js)"
  by (induction j js rule: insert_job.induct) auto

lemma set_runnable: "set (foldr insert_job js []) = set js"
  by (induction js) (simp_all add: set_insert_job)

lemma launch_running: "IsRunning (c_ID c) (snd (launch m c job l))" "IsRunning k l \<Longrightarrow> IsRunning k (snd (launch m c job l))"
  by (auto simp: launch_def IsRunning_def)

lemma recover_keeps: "IsRunning k (fst st) \<Longrightarrow> IsRunning k (fst (recover_jobs m jobs st))"
  by (induction m jobs st rule: recover_jobs.induct) (auto simp: launch_running split: prod.splits sum.splits)

lemma recover_all:
  assumes "jd_faults s = []" and "job \<in> set jobs" and "find_case (j_CaseID job) s = Some c"
  shows "IsRunning (j_CaseID job) (fst (recover_jobs m jobs (l, s)))"
  using assms(2)
proof (induction jobs arbitrary: l)
  case (Cons b jobs)
  let ?c = "c\<lparr> c_ExecutionAttempt := 0 \<rparr>"
  have get: "cr_Get k s = (case find_case k s of None \<Rightarrow> Inl errRecordNotFound | Some d \<Rightarrow> Inr (d\<lparr> c_ExecutionAttempt := 0 \<rparr>), s)" for k
    using assms(1) by (simp add: cr_Get_def query_calm)
  have "c_ID ?c = j_CaseID job" using assms(3) by (auto simp: find_case_def dest: find_SomeD)
  then show ?case
    using Cons assms(3) recover_keeps [of "j_CaseID job" "(snd (launch m ?c (Some b) l), s)" m jobs] launch_running(1) [of ?c m "Some b" l]
    by (auto simp: get split: option.split)
qed simp

text \<open>C13. A sweep of the recovery on a store that works, by an admitted deployment, succeeds and leaves every
  case with runnable work, waiting or with an expired lease, with a goroutine of this manager.\<close>

theorem recovery_launches:
  assumes "jd_faults s = []" and "rm_jobRepo m" and "rm_caseRepo m" and "lockDecisionWriterGate env s = None"
    and "RecoverOnce m env now now' (l, s) = (r, l', s')" and "j \<in> set (jd_job s)" and "find_case (jm_CaseID j) s = Some c"
    and "jm_Status j = DecisionJobQueued \<and> jm_AvailableAt j \<le> now' \<or> expired now j \<and> now \<le> now'"
  shows "r = None \<and> IsRunning (jm_CaseID j) l'"
proof -
  define f where "f j = (if expired now j then (release_job DecisionJobQueued j)\<lparr> jm_AvailableAt := now \<rparr> else j)" for j
  define s1 where "s1 = s\<lparr> jd_job := map f (jd_job s) \<rparr>"
  define js where "js = filter (\<lambda>j. jm_Status j = DecisionJobQueued \<and> jm_AvailableAt j \<le> now') (jd_job s1)"
  define jobs where "jobs = map jobFromModel (foldr insert_job js [])"
  have s1: "jd_faults s1 = []" "find_case k s1 = find_case k s" for k by (simp_all add: s1_def assms(1) find_case_def)
  have check: "CheckDecisionWriter m env s = (Inr (), s)"
    using assms by (simp add: CheckDecisionWriter_def jr_CheckDecisionWriter_def query_calm)
  have sweep: "jr_RequeueExpired now s = (Inr (), s1)"
    using assms(1) by (simp add: jr_RequeueExpired_def stmt_calm s1_def update_rows_map f_def)
  have "jr_ListRunnable now' s1 = (Inr jobs, s1)" by (simp add: jr_ListRunnable_def query_calm s1(1) jobs_def js_def)
  then have rec: "RecoverOnce m env now now' (l, s) = (None, recover_jobs m jobs (l, s1))"
    using assms(2,3) by (simp add: RecoverOnce_def check sweep)
  have "f j \<in> set (jd_job s1)" using assms(6) by (simp add: s1_def)
  moreover have "jm_Status (f j) = DecisionJobQueued \<and> jm_AvailableAt (f j) \<le> now'" "jm_CaseID (f j) = jm_CaseID j"
    using assms(8) by (auto simp: f_def release_job_def expired_def)
  ultimately have "jobFromModel (f j) \<in> set jobs" and k: "jm_CaseID (f j) = jm_CaseID j"
    by (simp_all add: jobs_def js_def set_runnable)
  moreover have "j_CaseID (jobFromModel (f j)) = jm_CaseID j" using k by (simp add: jobFromModel_def)
  ultimately have "IsRunning (jm_CaseID j) (fst (recover_jobs m jobs (l, s1)))"
    using recover_all [OF s1(1), of "jobFromModel (f j)" jobs c m l] assms(7) s1(2) by simp
  then show ?thesis using rec assms(5) by (cases "recover_jobs m jobs (l, s1)") simp
qed

theorem recovery_launches_witness:
  "fst (RecoverOnce (sample_manager ''w3'') sample_job_env 50 51 (sample_local\<lparr> lo_runs := [] \<rparr>, sample_running)) = None \<and>
   IsRunning ''c1'' (fst (snd (RecoverOnce (sample_manager ''w3'') sample_job_env 50 51 (sample_local\<lparr> lo_runs := [] \<rparr>, sample_running))))"
proof -
  let ?r = "RecoverOnce (sample_manager ''w3'') sample_job_env 50 51 (sample_local\<lparr> lo_runs := [] \<rparr>, sample_running)"
  have m: "rm_jobRepo (sample_manager ''w3'')" "rm_caseRepo (sample_manager ''w3'')"
    by (simp_all add: sample_manager_def NewRunManager_def)
  have calm: "jd_faults sample_running = []" and gate: "lockDecisionWriterGate sample_job_env sample_running = None" by code_simp+
  have "\<exists>j \<in> set (jd_job sample_running). jm_CaseID j = ''c1'' \<and> expired 50 j" by code_simp
  then obtain j where j: "j \<in> set (jd_job sample_running)" "jm_CaseID j = ''c1''" "expired 50 j" by blast
  have "find_case ''c1'' sample_running \<noteq> None" by code_simp
  then obtain c where c: "find_case (jm_CaseID j) sample_running = Some c" using j(2) by auto
  have "?r = (fst ?r, fst (snd ?r), snd (snd ?r))" by simp
  from recovery_launches [OF calm m gate this j(1) c] show ?thesis using j(2,3) by simp
qed

section \<open>A start after an unreadable job\<close>

definition failed_for_good :: "DbOp list" where
  "failed_for_good = [OpAdmit ''c1'' 3 1 0 ''j1'', OpClaim ''j1'' ''w1'' ''t1'' 10 1,
     OpMarkFailed ''j1'' ''c1'' ''w1'' 1 ''retry reset fenced'' None 2]"

text \<open>\<^verbatim>\<open>EnsureStarted\<close> refuses a job that ended. If the read of the job fails for any other reason than that
  there is none, it starts the case all the same, and the admission puts the ended job back into the queue.\<close>

lemma ensure_restarts_ended_job:
  "(let s = db_run sample_job_env failed_for_good sample_store;
        l = sample_local\<lparr> lo_runs := [] \<rparr>;
        go = (\<lambda>s. EnsureStarted (sample_manager ''w1'') sample_job_env None 30 ''j2'' (sample_case ''c1'' 7) (l, s));
        unread = s\<lparr> jd_faults := [TxWorks, TxWorks, TxRefused (Errorf ''connection reset'')] \<rparr> in
    fst (go s) = Some (Wrapf ''terminated'' ErrJobTerminated) \<and> fst (go unread) = None \<and>
    map jm_Status (jd_job (snd (snd (go s)))) = [DecisionJobFailed] \<and>
    map jm_Status (jd_job (snd (snd (go unread)))) = [DecisionJobQueued])"
  by code_simp

end
